(* ===== verification/FL_Prelude.thy ===== *)
theory FL_Prelude
  imports Main "HOL-Library.Word"
begin

text \<open>
  Shared vocabulary of the development: the error-propagating composition that stands
  for JavaScript's \<^theory_text>\<open>throw\<close>, the array operations the sources use
  (\<open>find\<close>, \<open>findIndex\<close> followed by an indexed store, a \<open>for\<close> loop
  whose body may throw), strings as lists of UTF-16 code units, and untyped JavaScript
  values for the boundaries that take \<open>unknown\<close>.  The collections
  \<open>guard_defs\<close> (definitions of assertion functions) and \<open>enum_simps\<close>
  (tables of enumerated constants) are filled by the component theories.
\<close>

named_theorems guard_defs \<open>definitions of the assertion functions of the components\<close>
named_theorems enum_simps \<open>tables of enumerated constants and their names\<close>

section \<open>Results that may be errors\<close>

definition ebind :: "'e + 'a \<Rightarrow> ('a \<Rightarrow> 'e + 'b) \<Rightarrow> 'e + 'b" where
  "ebind m f = (case m of Inl e \<Rightarrow> Inl e | Inr x \<Rightarrow> f x)"

lemma ebind_simps [simp]:
  "ebind (Inl e) f = Inl e"
  "ebind (Inr x) f = f x"
  by (simp_all add: ebind_def)

lemma ebind_eq_Inr [simp]: "ebind m f = Inr y \<longleftrightarrow> (\<exists>x. m = Inr x \<and> f x = Inr y)"
  by (cases m) auto

lemma ebind_eq_Inl: "ebind m f = Inl e \<longleftrightarrow> m = Inl e \<or> (\<exists>x. m = Inr x \<and> f x = Inl e)"
  by (cases m) auto

lemma ebind_assoc: "ebind (ebind m f) g = ebind m (\<lambda>x. ebind (f x) g)"
  by (cases m) auto

lemma ebind_cong [fundef_cong]:
  "m = m' \<Longrightarrow> (\<And>x. m' = Inr x \<Longrightarrow> f x = f' x) \<Longrightarrow> ebind m f = ebind m' f'"
  by (cases m') auto

text \<open>A guard that throws when its condition holds: \<open>if (c) throw e;\<close>.\<close>

definition throw_if :: "bool \<Rightarrow> 'e \<Rightarrow> 'e + unit" where
  "throw_if c e = (if c then Inl e else Inr ())"

lemma throw_if_simps [simp]: "throw_if True e = Inl e" "throw_if False e = Inr ()"
  by (simp_all add: throw_if_def)

lemma throw_if_eq_Inr [simp]: "throw_if c e = Inr u \<longleftrightarrow> \<not> c"
  by (simp add: throw_if_def)

lemma throw_if_eq_Inl [simp]: "throw_if c e = Inl e' \<longleftrightarrow> c \<and> e' = e"
  by (auto simp: throw_if_def)

text \<open>A read that must give a value: \<open>if (x === undefined) throw e;\<close>.\<close>

definition need :: "'e \<Rightarrow> 'a option \<Rightarrow> 'e + 'a" where
  "need e m = (case m of None \<Rightarrow> Inl e | Some x \<Rightarrow> Inr x)"

lemma need_simps [simp]: "need e (Some x) = Inr x" "need e None = Inl e"
  by (simp_all add: need_def)

lemma need_eq_Inr [simp]: "need e m = Inr x \<longleftrightarrow> m = Some x"
  by (cases m) simp_all

lemma need_eq_Inl [simp]: "need e m = Inl e' \<longleftrightarrow> m = None \<and> e' = e"
  by (cases m) auto

text \<open>A result that is known not to be an error is a value, and conversely.\<close>

lemma not_Inl_iff: "(\<forall>e. m \<noteq> Inl e) \<longleftrightarrow> (\<exists>x. m = Inr x)"
  by (cases m) auto

lemma is_Inr_iff: "isl m \<longleftrightarrow> (\<exists>e. m = Inl e)"
  by (cases m) auto

section \<open>Loops whose body may throw\<close>

primrec efold :: "('s \<Rightarrow> 'x \<Rightarrow> 'e + 's) \<Rightarrow> 's \<Rightarrow> 'x list \<Rightarrow> 'e + 's" where
  "efold f s [] = Inr s"
| "efold f s (x # xs) = ebind (f s x) (\<lambda>s'. efold f s' xs)"

lemma efold_append: "efold f s (xs @ ys) = ebind (efold f s xs) (\<lambda>s'. efold f s' ys)"
  by (induction xs arbitrary: s) (auto simp: ebind_assoc)

lemma efold_invariant:
  assumes "efold f s xs = Inr s'" and "P s"
    and "\<And>s x s'. P s \<Longrightarrow> x \<in> set xs \<Longrightarrow> f s x = Inr s' \<Longrightarrow> P s'"
  shows "P s'"
  using assms
proof (induction xs arbitrary: s)
  case Nil
  then show ?case by simp
next
  case (Cons x xs)
  from Cons.prems(1) obtain t where t: "f s x = Inr t" and rest: "efold f t xs = Inr s'"
    by auto
  show ?case
    by (rule Cons.IH [OF rest]) (use Cons.prems t in auto)
qed

lemma efold_relates:
  assumes "efold f s xs = Inr s'" and "\<And>s. R s s"
    and "\<And>s t u. R s t \<Longrightarrow> R t u \<Longrightarrow> R s u"
    and "\<And>s x s'. f s x = Inr s' \<Longrightarrow> R s s'"
  shows "R s s'"
  using assms(1)
proof (induction xs arbitrary: s)
  case Nil
  then show ?case using assms(2) by simp
next
  case (Cons x xs)
  then show ?case using assms(3,4) by (auto, blast)
qed

section \<open>Array operations\<close>

text \<open>
  \<open>xs.find(p)\<close> is the library's \<^const>\<open>find\<close>.  \<open>upd_first\<close> is the
  pair \<open>const i = xs.findIndex(p); next = xs.slice(); next[i] = y\<close>.
\<close>

primrec upd_first :: "('a \<Rightarrow> bool) \<Rightarrow> 'a \<Rightarrow> 'a list \<Rightarrow> 'a list" where
  "upd_first p y [] = []"
| "upd_first p y (x # xs) = (if p x then y # xs else x # upd_first p y xs)"

lemma length_upd_first [simp]: "length (upd_first p y xs) = length xs"
  by (induction xs) auto

lemma set_upd_first_subset: "set (upd_first p y xs) \<subseteq> insert y (set xs)"
  by (induction xs) auto

lemma find_SomeD: "find p xs = Some x \<Longrightarrow> p x \<and> x \<in> set xs"
  by (induction xs) (auto split: if_splits)

lemma find_upd_first_same:
  "find p xs = Some x \<Longrightarrow> p y \<Longrightarrow> find p (upd_first p y xs) = Some y"
  by (induction xs) (auto split: if_splits)

lemma find_upd_first_other:
  assumes "\<And>x. p x \<Longrightarrow> \<not> q x" and "p y"
  shows "find q (upd_first p y xs) = find q xs"
  by (induction xs) (auto dest: assms(1) simp: assms)

lemma map_upd_first:
  assumes "find p xs = Some x" and "f y = f x"
  shows "map f (upd_first p y xs) = map f xs"
  using assms by (induction xs) (auto split: if_splits)

lemma find_append: "find p (xs @ ys) = (case find p xs of None \<Rightarrow> find p ys | Some x \<Rightarrow> Some x)"
  by (induction xs) auto

text \<open>Reading a record set by a key that is unique in it.\<close>

lemma find_key_unique:
  assumes "distinct (map k xs)" and "x \<in> set xs"
  shows "find (\<lambda>y. k y = k x) xs = Some x"
  using assms by (induction xs) (auto simp: image_iff)

lemma find_key_None: "find (\<lambda>y. k y = i) xs = None \<longleftrightarrow> i \<notin> k ` set xs"
  by (induction xs) auto

section \<open>Strings\<close>

text \<open>
  A JavaScript string that comes from a caller is a list of UTF-16 code units.  A string
  the sources only ever write as an ASCII literal (a reason code, a field name) is a HOL
  \<^typ>\<open>string\<close>; \<open>js\<close> injects literals into the code-unit strings.
\<close>

type_synonym jstr = "16 word list"

definition js :: "string \<Rightarrow> jstr" where
  "js s = map of_char s"

lemma of_char16_inj: "(of_char c :: 16 word) = of_char d \<longleftrightarrow> c = d"
proof -
  have *: "of_char c = (word_of_nat (of_char c :: nat) :: 16 word)" for c
    by (metis of_nat_of_char)
  have "(of_char c :: nat) < 2 ^ LENGTH(16)" for c
    by (rule less_trans [of _ 256]) (simp_all add: nat_of_char_less_256)
  then have "unat (of_char c :: 16 word) = of_char c" for c
    unfolding * by (simp add: unat_of_nat take_bit_nat_eq_self)
  then show ?thesis by (metis of_char_eq_iff)
qed

lemma js_eq_iff [simp]: "js s = js t \<longleftrightarrow> s = t"
  by (simp add: js_def inj_map_eq_map inj_def of_char16_inj)

lemma js_append: "js (s @ t) = js s @ js t"
  by (simp add: js_def)

lemma js_Nil [simp]: "js [] = []"
  by (simp add: js_def)

definition starts_with :: "jstr \<Rightarrow> jstr \<Rightarrow> bool" where
  "starts_with s p \<longleftrightarrow> take (length p) s = p"

lemma starts_with_append [simp]: "starts_with (p @ s) p"
  by (simp add: starts_with_def)

text \<open>The units \<open>trim\<close> removes: white space and line terminators.\<close>

definition JS_WHITE :: "16 word list" where
  "JS_WHITE = [0x09, 0x0a, 0x0b, 0x0c, 0x0d, 0x20, 0xa0, 0x1680, 0x2000, 0x2001, 0x2002, 0x2003,
     0x2004, 0x2005, 0x2006, 0x2007, 0x2008, 0x2009, 0x200a, 0x2028, 0x2029, 0x202f, 0x205f, 0x3000, 0xfeff]"

definition js_trim :: "jstr \<Rightarrow> jstr" where
  "js_trim s = (let w = (\<lambda>c. c \<in> set JS_WHITE) in rev (dropWhile w (rev (dropWhile w s))))"

text \<open>Lower case on the letters a case-insensitive pattern of the code names; the units above 127
  never match an ASCII letter.\<close>

definition ascii_lower :: "16 word \<Rightarrow> 16 word" where
  "ascii_lower c = (if 0x41 \<le> c \<and> c \<le> 0x5a then c + 0x20 else c)"

text \<open>\<open>xs.join(sep)\<close> on literal texts.\<close>

fun join_strings :: "string \<Rightarrow> string list \<Rightarrow> string" where
  "join_strings sep [] = []"
| "join_strings sep [x] = x"
| "join_strings sep (x # y # ys) = x @ sep @ join_strings sep (y # ys)"

text \<open>\<open>s.includes(p)\<close>: some suffix of \<open>s\<close> starts with \<open>p\<close>.\<close>

definition includes_js :: "jstr \<Rightarrow> jstr \<Rightarrow> bool" where
  "includes_js s p \<longleftrightarrow> list_ex (\<lambda>i. starts_with (drop i s) p) [0..<Suc (length s)]"

lemma includes_js_iff: "includes_js s p \<longleftrightarrow> (\<exists>a b. s = a @ p @ b)"
proof
  assume "includes_js s p"
  then obtain i where "take (length p) (drop i s) = p"
    by (auto simp: includes_js_def starts_with_def list_ex_iff)
  then have "s = take i s @ p @ drop (length p) (drop i s)"
    by (metis append_take_drop_id)
  then show "\<exists>a b. s = a @ p @ b" by blast
next
  assume "\<exists>a b. s = a @ p @ b"
  then obtain a b where s: "s = a @ p @ b" by blast
  have "starts_with (drop (length a) s) p" by (simp add: s starts_with_def)
  moreover have "length a \<in> set [0..<Suc (length s)]" by (simp add: s)
  ultimately show "includes_js s p" unfolding includes_js_def list_ex_iff by blast
qed

text \<open>
  The slug expressions of the sources.  \<open>id_re n\<close> is
  \<open>/^[a-z0-9][a-z0-9_-]{2,n}$/\<close>, \<open>slug_re n\<close> is
  \<open>/^[a-z0-9_.:-]{1,n}$/\<close>.
\<close>

definition is_lower_alnum :: "16 word \<Rightarrow> bool" where
  "is_lower_alnum c \<longleftrightarrow> (0x61 \<le> c \<and> c \<le> 0x7a) \<or> (0x30 \<le> c \<and> c \<le> 0x39)"

definition is_id_unit :: "16 word \<Rightarrow> bool" where
  "is_id_unit c \<longleftrightarrow> is_lower_alnum c \<or> c = 0x5f \<or> c = 0x2d"

definition is_slug_unit :: "16 word \<Rightarrow> bool" where
  "is_slug_unit c \<longleftrightarrow> is_lower_alnum c \<or> c = 0x5f \<or> c = 0x2e \<or> c = 0x3a \<or> c = 0x2d"

definition id_re :: "nat \<Rightarrow> jstr \<Rightarrow> bool" where
  "id_re n s = (case s of [] \<Rightarrow> False
     | c # cs \<Rightarrow> is_lower_alnum c \<and> 2 \<le> length cs \<and> length cs \<le> n \<and> list_all is_id_unit cs)"

definition slug_re :: "nat \<Rightarrow> jstr \<Rightarrow> bool" where
  "slug_re n s \<longleftrightarrow> 1 \<le> length s \<and> length s \<le> n \<and> list_all is_slug_unit s"

lemmas re_defs = id_re_def slug_re_def is_lower_alnum_def is_id_unit_def is_slug_unit_def

lemma id_re_length: "id_re n s \<Longrightarrow> 3 \<le> length s \<and> length s \<le> Suc n"
  by (cases s) (auto simp: id_re_def)

text \<open>A local identifier never contains an upper-case letter, a slash, a colon or a blank.\<close>

lemma id_re_units: "id_re n s \<Longrightarrow> c \<in> set s \<Longrightarrow> is_id_unit c"
  by (cases s) (auto simp: id_re_def list_all_iff is_id_unit_def)

section \<open>Untyped JavaScript values\<close>

text \<open>
  \<open>JNum (NInt i)\<close> is a double with the integral value \<open>i\<close>; the other
  numbers are told apart only as far as the sources do (a fraction, NaN, an infinity).
  \<open>JFun\<close> stands for the values \<open>structuredClone\<close> rejects (functions,
  symbols).  An object is its list of own properties.
\<close>

datatype jsnum = NInt int | NFrac | NNaN | NInf bool

datatype jsval =
    JUndef
  | JNull
  | JBool bool
  | JNum jsnum
  | JStr jstr
  | JArr "jsval list"
  | JObj "(jstr \<times> jsval) list"
  | JFun

definition MAX_SAFE_INTEGER :: int where
  "MAX_SAFE_INTEGER = 9007199254740991"

definition is_safe_int :: "int \<Rightarrow> bool" where
  "is_safe_int i \<longleftrightarrow> - MAX_SAFE_INTEGER \<le> i \<and> i \<le> MAX_SAFE_INTEGER"

fun safe_integer :: "jsval \<Rightarrow> int option" where
  "safe_integer (JNum (NInt i)) = (if is_safe_int i then Some i else None)"
| "safe_integer _ = None"

lemma safe_integer_SomeD: "safe_integer v = Some i \<Longrightarrow> v = JNum (NInt i) \<and> is_safe_int i"
  by (induction v rule: safe_integer.induct) (auto split: if_splits)

fun string_value :: "jsval \<Rightarrow> jstr option" where
  "string_value (JStr s) = Some s"
| "string_value _ = None"

lemma string_value_Some [simp]: "string_value v = Some s \<longleftrightarrow> v = JStr s"
  by (cases v) auto

fun own_fields :: "jsval \<Rightarrow> (jstr \<times> jsval) list option" where
  "own_fields (JObj fs) = Some fs"
| "own_fields _ = None"

lemma own_fields_Some [simp]: "own_fields v = Some fs \<longleftrightarrow> v = JObj fs"
  by (cases v) auto

lemma own_fields_None: "own_fields v = None \<longleftrightarrow> (\<forall>fs. v \<noteq> JObj fs)"
  by (cases v) auto

text \<open>Reading a property: an absent one is \<open>undefined\<close>.\<close>

definition jget :: "(jstr \<times> jsval) list \<Rightarrow> string \<Rightarrow> jsval" where
  "jget fs k = (case map_of fs (js k) of None \<Rightarrow> JUndef | Some v \<Rightarrow> v)"

lemma jget_Nil [simp]: "jget [] k = JUndef"
  by (simp add: jget_def)

lemma jget_Cons [simp]: "jget ((js k', v) # fs) k = (if k' = k then v else jget fs k)"
  by (simp add: jget_def)

lemma jget_append:
  "jget (fs @ gs) k = (case map_of fs (js k) of None \<Rightarrow> jget gs k | Some v \<Rightarrow> v)"
  by (simp add: jget_def map_add_def split: option.splits)

definition only_keys :: "string list \<Rightarrow> (jstr \<times> jsval) list \<Rightarrow> bool" where
  "only_keys ks fs \<longleftrightarrow> list_all (\<lambda>(k, v). k \<in> set (map js ks)) fs"

lemma only_keys_Nil [simp]: "only_keys ks []"
  by (simp add: only_keys_def)

lemma only_keys_append [simp]: "only_keys ks (fs @ gs) \<longleftrightarrow> only_keys ks fs \<and> only_keys ks gs"
  by (simp add: only_keys_def)

lemma only_keys_Cons [simp]:
  "only_keys ks ((js k, v) # fs) \<longleftrightarrow> k \<in> set ks \<and> only_keys ks fs"
  by (auto simp: only_keys_def)

lemma only_keysD: "only_keys ks fs \<Longrightarrow> k \<notin> js ` set ks \<Longrightarrow> map_of fs k = None"
  by (auto simp: only_keys_def list_all_iff map_of_eq_None_iff image_iff split: prod.splits)

text \<open>Values \<open>structuredClone\<close> accepts; on those the clone is the value itself.\<close>

fun cloneable :: "jsval \<Rightarrow> bool" where
  "cloneable (JArr vs) = list_all cloneable vs"
| "cloneable (JObj fs) = list_all (\<lambda>(k, v). cloneable v) fs"
| "cloneable JFun = False"
| "cloneable _ = True"

section \<open>Enumerated string constants\<close>

text \<open>
  \<open>XS.includes(s)\<close> followed by a cast: the member of the table whose name is the
  given string.
\<close>

definition enum_of :: "'a list \<Rightarrow> ('a \<Rightarrow> string) \<Rightarrow> jstr \<Rightarrow> 'a option" where
  "enum_of xs nm s = find (\<lambda>x. js (nm x) = s) xs"

lemma enum_of_SomeD: "enum_of xs nm s = Some x \<Longrightarrow> x \<in> set xs \<and> s = js (nm x)"
  unfolding enum_of_def by (drule find_SomeD) auto

lemma enum_of_js:
  assumes "inj_on nm (set xs)" and "x \<in> set xs"
  shows "enum_of xs nm (js (nm x)) = Some x"
  using assms unfolding enum_of_def by (induction xs) (auto simp: inj_on_def)

lemma enum_of_None: "enum_of xs nm s = None \<longleftrightarrow> s \<notin> (\<lambda>x. js (nm x)) ` set xs"
  unfolding enum_of_def by (auto simp: find_None_iff)

section \<open>Decimal printing of counters\<close>

fun decimal :: "nat \<Rightarrow> string" where
  "decimal n = (if n < 10 then [char_of (48 + n)] else decimal (n div 10) @ [char_of (48 + n mod 10)])"

declare decimal.simps [simp del]

lemma decimal_digit: "c \<in> set (decimal n) \<Longrightarrow> \<exists>d<10. c = char_of (48 + d :: nat)"
proof (induction n rule: decimal.induct)
  case (1 n)
  show ?case
  proof (cases "n < 10")
    case True
    then show ?thesis using "1.prems" by (subst (asm) decimal.simps) auto
  next
    case False
    then have "c \<in> set (decimal (n div 10)) \<or> c = char_of (48 + n mod 10)"
      using "1.prems" by (subst (asm) decimal.simps) auto
    then show ?thesis using "1.IH" [OF False] by (auto intro: exI [of _ "n mod 10"])
  qed
qed

lemma digit_char_inj: "d < 10 \<Longrightarrow> e < 10 \<Longrightarrow> char_of (48 + d :: nat) = char_of (48 + e) \<Longrightarrow> d = e"
  by (drule arg_cong [of _ _ "of_char :: char \<Rightarrow> nat"]) simp

lemma decimal_length_pos: "decimal n \<noteq> []"
  by (subst decimal.simps) simp

lemma decimal_inj: "decimal m = decimal n \<Longrightarrow> m = n"
proof (induction m arbitrary: n rule: decimal.induct)
  case (1 m)
  note unfold = decimal.simps [of m] decimal.simps [of n]
  show ?case
  proof (cases "m < 10"; cases "n < 10")
    assume "m < 10" "n < 10"
    then show ?thesis using "1.prems" unfold by (auto intro: digit_char_inj)
  next
    assume "m < 10" "\<not> n < 10"
    then have "decimal (n div 10) = []" using "1.prems" unfold by (metis append_eq_Cons_conv append_is_Nil_conv not_Cons_self2 decimal_length_pos)
    then show ?thesis by (simp add: decimal_length_pos)
  next
    assume "\<not> m < 10" "n < 10"
    then have "decimal (m div 10) = []" using "1.prems" unfold by (metis append_eq_Cons_conv append_is_Nil_conv not_Cons_self2 decimal_length_pos)
    then show ?thesis by (simp add: decimal_length_pos)
  next
    assume m: "\<not> m < 10" and n: "\<not> n < 10"
    then have "decimal (m div 10) = decimal (n div 10)" and
      "char_of (48 + m mod 10 :: nat) = (char_of (48 + n mod 10 :: nat) :: char)"
      using "1.prems" unfold by auto
    then have "m div 10 = n div 10" and "m mod 10 = n mod 10"
      using "1.IH" [OF m] digit_char_inj [of "m mod 10" "n mod 10"] by auto
    then show ?thesis by (metis div_mult_mod_eq)
  qed
qed

lemma decimal_length: "n < 10 ^ k \<Longrightarrow> 0 < k \<Longrightarrow> length (decimal n) \<le> k"
proof (induction n arbitrary: k rule: decimal.induct)
  case (1 n)
  show ?case
  proof (cases "n < 10")
    case True
    then show ?thesis using "1.prems" by (subst decimal.simps) simp
  next
    case False
    then obtain j where k: "k = Suc j" and j: "0 < j"
      using "1.prems" by (cases k; cases "k - 1") auto
    have "n div 10 < 10 ^ j" using "1.prems" k by (simp add: div_less_iff_less_mult)
    then have "length (decimal (n div 10)) \<le> j" using "1.IH" [OF False] j by simp
    then show ?thesis using False k by (subst decimal.simps) simp
  qed
qed

end
