(* ===== verification/FL_Errors.thy ===== *)
theory FL_Errors
  imports FL_Prelude
begin

text \<open>
  The exceptions of the program as values.  Every error code union of the sources is a
  datatype with the same members in the same order; \<open>exn\<close> is the type of
  everything an operation can throw.  An error carries its class and machine code and
  nothing of the request: the redaction rule of the error modules holds by construction.
  \<open>Error_Taxonomy\<close> has the objects they become, with names and messages; which static
  \<open>detail\<close> text a call passes is not modelled.
  Subclasses that fix a code (for example \<open>RoomDuplicateEventError\<close>) are the
  base constructor with that code.  \<open>JsTypeError\<close> is the engine's own error for
  a property read of \<open>undefined\<close>.
\<close>

datatype room_event_code =
    EC_unsupported_schema_version
  | EC_unsupported_projection_version
  | EC_invalid_event_id
  | EC_invalid_room_id
  | EC_invalid_local_sequence
  | EC_unknown_operation
  | EC_unknown_object_kind
  | EC_invalid_payload
  | EC_room_mismatch
  | EC_duplicate_event_id
  | EC_duplicate_local_sequence
  | EC_sequence_gap
  | EC_out_of_order
  | EC_invalid_lifecycle_transition

datatype membership_code =
    MC_unsupported_schema_version
  | MC_unknown_command
  | MC_unknown_role
  | MC_unknown_state
  | MC_unknown_capability
  | MC_invalid_field
  | MC_unexpected_field
  | MC_dangerous_key
  | MC_caller_authority_field
  | MC_invalid_membership_id
  | MC_invalid_member_ref
  | MC_invalid_revision
  | MC_room_mismatch
  | MC_membership_not_found
  | MC_duplicate_active_membership
  | MC_stale_revision
  | MC_future_revision
  | MC_missing_expected_revision
  | MC_revision_overflow
  | MC_invalid_lifecycle_transition
  | MC_membership_terminal
  | MC_last_owner_continuity
  | MC_decision_missing
  | MC_decision_mismatch
  | MC_policy_denied
  | MC_persistent_membership_forbidden
  | MC_forbidden_side_effect
  | MC_capability_denied
  | MC_capability_stale
  | MC_capability_widening
  | MC_capability_scope
  | MC_clone_failed

datatype authorization_code =
    AC_prepared_authorization_stale
  | AC_authorization_revision_mismatch
  | AC_authorization_operation_binding
  | AC_authorization_object_binding
  | AC_authorization_view_binding
  | AC_authorization_target_binding
  | AC_membership_revoked
  | AC_membership_suspended
  | AC_membership_removed
  | AC_role_capability_revoked
  | AC_room_policy_revision_mismatch
  | AC_privacy_mode_revision_mismatch
  | AC_authorization_cache_forbidden
  | AC_restrictive_operation_escalation
  | AC_decision_missing
  | AC_decision_mismatch
  | AC_last_owner_continuity
  | AC_invalid_field

datatype composition_code =
    CC_unknown_policy_layer
  | CC_unknown_effect
  | CC_unknown_policy_input
  | CC_invalid_field
  | CC_unexpected_field
  | CC_dangerous_key
  | CC_unsupported_schema_version
  | CC_unknown_command
  | CC_governance_loosen_attempt
  | CC_governance_not_stricter
  | CC_policy_incomparable
  | CC_governance_denied
  | CC_posture_requirement_unmet
  | CC_protected_presentation_unavailable
  | CC_policy_revision_mismatch
  | CC_decision_missing
  | CC_decision_mismatch
  | CC_room_mismatch
  | CC_last_owner_continuity
  | CC_clone_failed

datatype object_code =
    OC_unsupported_schema_version
  | OC_unsupported_projection_version
  | OC_unknown_object_kind
  | OC_unknown_command
  | OC_invalid_object_id
  | OC_invalid_object_revision
  | OC_invalid_room_id
  | OC_invalid_actor_ref
  | OC_invalid_field
  | OC_unexpected_field
  | OC_dangerous_key
  | OC_content_too_large
  | OC_invalid_plain_text
  | OC_too_many_options
  | OC_too_few_options
  | OC_duplicate_option_id
  | OC_too_many_tags
  | OC_tag_too_large
  | OC_forbidden_reference
  | OC_room_mismatch
  | OC_object_not_found
  | OC_cross_object_reference
  | OC_stale_revision
  | OC_future_revision
  | OC_missing_expected_revision
  | OC_revision_overflow
  | OC_invalid_lifecycle_transition
  | OC_invalid_status_transition
  | OC_object_is_terminal
  | OC_content_persistence_forbidden
  | OC_policy_denied
  | OC_decision_missing
  | OC_decision_mismatch
  | OC_forbidden_side_effect
  | OC_clone_failed

datatype query_code =
    QC_unsupported_schema_version
  | QC_unknown_query
  | QC_unknown_view
  | QC_unknown_filter
  | QC_unknown_sort
  | QC_invalid_field
  | QC_unexpected_field
  | QC_dangerous_key
  | QC_invalid_room_id
  | QC_invalid_object_id
  | QC_room_mismatch
  | QC_object_not_available
  | QC_decision_missing
  | QC_decision_mismatch
  | QC_policy_denied
  | QC_view_denied
  | QC_search_denied
  | QC_count_denied
  | QC_empty_term
  | QC_term_too_large
  | QC_limit_too_small
  | QC_limit_too_large
  | QC_cursor_room_mismatch
  | QC_cursor_sort_mismatch
  | QC_cursor_invalid
  | QC_forbidden_side_effect

datatype room_error =
    RoomPolicyDenied
  | RoomBypassAttempt
  | RoomDecisionMismatch
  | InvalidRoomOperation
  | InvalidRoomObjectKind
  | InvalidRoomId
  | InvalidRoomRef
  | ForbiddenRoomPersistence
  | ForbiddenRoomNetwork
  | ForbiddenRoomSideEffect

text \<open>The error classes of the storage, transport, metadata and notification layers.\<close>

datatype storage_error =
    StoragePolicyDenied
  | StorageBackendNotImplemented
  | StorageBypassAttempt
  | ForbiddenPersistentWrite
  | ForbiddenCacheWrite
  | ForbiddenDebugArtifact
  | InvalidStorageKey
  | StorageDecisionMismatch
  | UnsupportedStorageValue
  | StorageSensitiveValueLeak

datatype network_error =
    NetworkPolicyDenied
  | NetworkBypassAttempt
  | ForbiddenNetworkOperation
  | ForbiddenTelemetry
  | ForbiddenExternalAsset
  | ForbiddenLinkPreview
  | ForbiddenDirectPeerConnection
  | ForbiddenOfflineModeNetwork
  | InvalidNetworkEndpoint
  | NetworkDecisionMismatch

datatype metadata_error =
    MetadataPolicyDenied
  | MetadataBypassAttempt
  | ForbiddenReceipt
  | ForbiddenTypingIndicator
  | ForbiddenPresence
  | ForbiddenNotificationMetadata
  | ForbiddenLinkPreviewMetadata
  | ForbiddenExternalAssetMetadata
  | ForbiddenMetadataPersistence
  | ForbiddenMetadataNetworkExposure
  | InvalidMetadataEvent
  | InvalidMetadataSink
  | MetadataDecisionMismatch

datatype notification_error =
    NotificationPolicyDenied
  | NotificationBypassAttempt
  | ForbiddenNotificationPermissionRequest
  | ForbiddenNotificationContent
  | ForbiddenNotificationBadge
  | ForbiddenNotificationSound
  | ForbiddenNotificationVibration
  | ForbiddenPushNotification
  | ForbiddenServiceWorkerNotification
  | ForbiddenNotificationPersistence
  | ForbiddenNotificationNetwork
  | NotificationDecisionMismatch

datatype exn =
    RoomError room_error
  | RoomEventError room_event_code
  | RoomProjectionError
  | RoomReplayError room_event_code
  | RoomEventCloneError
  | MembershipError membership_code
  | AuthorizationError authorization_code
  | CompositionError composition_code
  | ObjectError object_code
  | QueryError query_code
  | StorageError storage_error
  | NetworkError network_error
  | MetadataError metadata_error
  | NotificationError notification_error
  | JsTypeError

type_synonym 'a res = "exn + 'a"

end
