(* ===== verification/Error_Taxonomy.thy ===== *)
theory Error_Taxonomy
  imports FL_Errors
begin

text \<open>
  The error objects of the program: for every class of the error modules its name, its machine
  code and its message, as functions of what its constructor is given.  \<open>FL_Errors\<close> has what
  the operations throw; here is what a caller that catches one reads.  The static \<open>detail\<close>
  text of a call is a parameter.
\<close>

section \<open>Machine codes\<close>

primrec room_event_code_name :: "room_event_code \<Rightarrow> string" where
  "room_event_code_name EC_unsupported_schema_version = ''unsupported_schema_version''"
| "room_event_code_name EC_unsupported_projection_version = ''unsupported_projection_version''"
| "room_event_code_name EC_invalid_event_id = ''invalid_event_id''"
| "room_event_code_name EC_invalid_room_id = ''invalid_room_id''"
| "room_event_code_name EC_invalid_local_sequence = ''invalid_local_sequence''"
| "room_event_code_name EC_unknown_operation = ''unknown_operation''"
| "room_event_code_name EC_unknown_object_kind = ''unknown_object_kind''"
| "room_event_code_name EC_invalid_payload = ''invalid_payload''"
| "room_event_code_name EC_room_mismatch = ''room_mismatch''"
| "room_event_code_name EC_duplicate_event_id = ''duplicate_event_id''"
| "room_event_code_name EC_duplicate_local_sequence = ''duplicate_local_sequence''"
| "room_event_code_name EC_sequence_gap = ''sequence_gap''"
| "room_event_code_name EC_out_of_order = ''out_of_order''"
| "room_event_code_name EC_invalid_lifecycle_transition = ''invalid_lifecycle_transition''"

primrec membership_code_name :: "membership_code \<Rightarrow> string" where
  "membership_code_name MC_unsupported_schema_version = ''unsupported_schema_version''"
| "membership_code_name MC_unknown_command = ''unknown_command''"
| "membership_code_name MC_unknown_role = ''unknown_role''"
| "membership_code_name MC_unknown_state = ''unknown_state''"
| "membership_code_name MC_unknown_capability = ''unknown_capability''"
| "membership_code_name MC_invalid_field = ''invalid_field''"
| "membership_code_name MC_unexpected_field = ''unexpected_field''"
| "membership_code_name MC_dangerous_key = ''dangerous_key''"
| "membership_code_name MC_caller_authority_field = ''caller_authority_field''"
| "membership_code_name MC_invalid_membership_id = ''invalid_membership_id''"
| "membership_code_name MC_invalid_member_ref = ''invalid_member_ref''"
| "membership_code_name MC_invalid_revision = ''invalid_revision''"
| "membership_code_name MC_room_mismatch = ''room_mismatch''"
| "membership_code_name MC_membership_not_found = ''membership_not_found''"
| "membership_code_name MC_duplicate_active_membership = ''duplicate_active_membership''"
| "membership_code_name MC_stale_revision = ''stale_revision''"
| "membership_code_name MC_future_revision = ''future_revision''"
| "membership_code_name MC_missing_expected_revision = ''missing_expected_revision''"
| "membership_code_name MC_revision_overflow = ''revision_overflow''"
| "membership_code_name MC_invalid_lifecycle_transition = ''invalid_lifecycle_transition''"
| "membership_code_name MC_membership_terminal = ''membership_terminal''"
| "membership_code_name MC_last_owner_continuity = ''last_owner_continuity''"
| "membership_code_name MC_decision_missing = ''decision_missing''"
| "membership_code_name MC_decision_mismatch = ''decision_mismatch''"
| "membership_code_name MC_policy_denied = ''policy_denied''"
| "membership_code_name MC_persistent_membership_forbidden = ''persistent_membership_forbidden''"
| "membership_code_name MC_forbidden_side_effect = ''forbidden_side_effect''"
| "membership_code_name MC_capability_denied = ''capability_denied''"
| "membership_code_name MC_capability_stale = ''capability_stale''"
| "membership_code_name MC_capability_widening = ''capability_widening''"
| "membership_code_name MC_capability_scope = ''capability_scope''"
| "membership_code_name MC_clone_failed = ''clone_failed''"

primrec authorization_code_name :: "authorization_code \<Rightarrow> string" where
  "authorization_code_name AC_prepared_authorization_stale = ''prepared_authorization_stale''"
| "authorization_code_name AC_authorization_revision_mismatch = ''authorization_revision_mismatch''"
| "authorization_code_name AC_authorization_operation_binding = ''authorization_operation_binding''"
| "authorization_code_name AC_authorization_object_binding = ''authorization_object_binding''"
| "authorization_code_name AC_authorization_view_binding = ''authorization_view_binding''"
| "authorization_code_name AC_authorization_target_binding = ''authorization_target_binding''"
| "authorization_code_name AC_membership_revoked = ''membership_revoked''"
| "authorization_code_name AC_membership_suspended = ''membership_suspended''"
| "authorization_code_name AC_membership_removed = ''membership_removed''"
| "authorization_code_name AC_role_capability_revoked = ''role_capability_revoked''"
| "authorization_code_name AC_room_policy_revision_mismatch = ''room_policy_revision_mismatch''"
| "authorization_code_name AC_privacy_mode_revision_mismatch = ''privacy_mode_revision_mismatch''"
| "authorization_code_name AC_authorization_cache_forbidden = ''authorization_cache_forbidden''"
| "authorization_code_name AC_restrictive_operation_escalation = ''restrictive_operation_escalation''"
| "authorization_code_name AC_decision_missing = ''decision_missing''"
| "authorization_code_name AC_decision_mismatch = ''decision_mismatch''"
| "authorization_code_name AC_last_owner_continuity = ''last_owner_continuity''"
| "authorization_code_name AC_invalid_field = ''invalid_field''"

primrec composition_code_name :: "composition_code \<Rightarrow> string" where
  "composition_code_name CC_unknown_policy_layer = ''unknown_policy_layer''"
| "composition_code_name CC_unknown_effect = ''unknown_effect''"
| "composition_code_name CC_unknown_policy_input = ''unknown_policy_input''"
| "composition_code_name CC_invalid_field = ''invalid_field''"
| "composition_code_name CC_unexpected_field = ''unexpected_field''"
| "composition_code_name CC_dangerous_key = ''dangerous_key''"
| "composition_code_name CC_unsupported_schema_version = ''unsupported_schema_version''"
| "composition_code_name CC_unknown_command = ''unknown_command''"
| "composition_code_name CC_governance_loosen_attempt = ''governance_loosen_attempt''"
| "composition_code_name CC_governance_not_stricter = ''governance_not_stricter''"
| "composition_code_name CC_policy_incomparable = ''policy_incomparable''"
| "composition_code_name CC_governance_denied = ''governance_denied''"
| "composition_code_name CC_posture_requirement_unmet = ''posture_requirement_unmet''"
| "composition_code_name CC_protected_presentation_unavailable = ''protected_presentation_unavailable''"
| "composition_code_name CC_policy_revision_mismatch = ''policy_revision_mismatch''"
| "composition_code_name CC_decision_missing = ''decision_missing''"
| "composition_code_name CC_decision_mismatch = ''decision_mismatch''"
| "composition_code_name CC_room_mismatch = ''room_mismatch''"
| "composition_code_name CC_last_owner_continuity = ''last_owner_continuity''"
| "composition_code_name CC_clone_failed = ''clone_failed''"

primrec object_code_name :: "object_code \<Rightarrow> string" where
  "object_code_name OC_unsupported_schema_version = ''unsupported_schema_version''"
| "object_code_name OC_unsupported_projection_version = ''unsupported_projection_version''"
| "object_code_name OC_unknown_object_kind = ''unknown_object_kind''"
| "object_code_name OC_unknown_command = ''unknown_command''"
| "object_code_name OC_invalid_object_id = ''invalid_object_id''"
| "object_code_name OC_invalid_object_revision = ''invalid_object_revision''"
| "object_code_name OC_invalid_room_id = ''invalid_room_id''"
| "object_code_name OC_invalid_actor_ref = ''invalid_actor_ref''"
| "object_code_name OC_invalid_field = ''invalid_field''"
| "object_code_name OC_unexpected_field = ''unexpected_field''"
| "object_code_name OC_dangerous_key = ''dangerous_key''"
| "object_code_name OC_content_too_large = ''content_too_large''"
| "object_code_name OC_invalid_plain_text = ''invalid_plain_text''"
| "object_code_name OC_too_many_options = ''too_many_options''"
| "object_code_name OC_too_few_options = ''too_few_options''"
| "object_code_name OC_duplicate_option_id = ''duplicate_option_id''"
| "object_code_name OC_too_many_tags = ''too_many_tags''"
| "object_code_name OC_tag_too_large = ''tag_too_large''"
| "object_code_name OC_forbidden_reference = ''forbidden_reference''"
| "object_code_name OC_room_mismatch = ''room_mismatch''"
| "object_code_name OC_object_not_found = ''object_not_found''"
| "object_code_name OC_cross_object_reference = ''cross_object_reference''"
| "object_code_name OC_stale_revision = ''stale_revision''"
| "object_code_name OC_future_revision = ''future_revision''"
| "object_code_name OC_missing_expected_revision = ''missing_expected_revision''"
| "object_code_name OC_revision_overflow = ''revision_overflow''"
| "object_code_name OC_invalid_lifecycle_transition = ''invalid_lifecycle_transition''"
| "object_code_name OC_invalid_status_transition = ''invalid_status_transition''"
| "object_code_name OC_object_is_terminal = ''object_is_terminal''"
| "object_code_name OC_content_persistence_forbidden = ''content_persistence_forbidden''"
| "object_code_name OC_policy_denied = ''policy_denied''"
| "object_code_name OC_decision_missing = ''decision_missing''"
| "object_code_name OC_decision_mismatch = ''decision_mismatch''"
| "object_code_name OC_forbidden_side_effect = ''forbidden_side_effect''"
| "object_code_name OC_clone_failed = ''clone_failed''"

primrec query_code_name :: "query_code \<Rightarrow> string" where
  "query_code_name QC_unsupported_schema_version = ''unsupported_schema_version''"
| "query_code_name QC_unknown_query = ''unknown_query''"
| "query_code_name QC_unknown_view = ''unknown_view''"
| "query_code_name QC_unknown_filter = ''unknown_filter''"
| "query_code_name QC_unknown_sort = ''unknown_sort''"
| "query_code_name QC_invalid_field = ''invalid_field''"
| "query_code_name QC_unexpected_field = ''unexpected_field''"
| "query_code_name QC_dangerous_key = ''dangerous_key''"
| "query_code_name QC_invalid_room_id = ''invalid_room_id''"
| "query_code_name QC_invalid_object_id = ''invalid_object_id''"
| "query_code_name QC_room_mismatch = ''room_mismatch''"
| "query_code_name QC_object_not_available = ''object_not_available''"
| "query_code_name QC_decision_missing = ''decision_missing''"
| "query_code_name QC_decision_mismatch = ''decision_mismatch''"
| "query_code_name QC_policy_denied = ''policy_denied''"
| "query_code_name QC_view_denied = ''view_denied''"
| "query_code_name QC_search_denied = ''search_denied''"
| "query_code_name QC_count_denied = ''count_denied''"
| "query_code_name QC_empty_term = ''empty_term''"
| "query_code_name QC_term_too_large = ''term_too_large''"
| "query_code_name QC_limit_too_small = ''limit_too_small''"
| "query_code_name QC_limit_too_large = ''limit_too_large''"
| "query_code_name QC_cursor_room_mismatch = ''cursor_room_mismatch''"
| "query_code_name QC_cursor_sort_mismatch = ''cursor_sort_mismatch''"
| "query_code_name QC_cursor_invalid = ''cursor_invalid''"
| "query_code_name QC_forbidden_side_effect = ''forbidden_side_effect''"

text \<open>Injectivity from a complete list of distinct names.\<close>

lemma names_inj: "distinct (map f xs) \<Longrightarrow> (\<And>x. x \<in> set xs) \<Longrightarrow> inj f"
  by (auto simp: inj_on_def distinct_map)

definition ROOM_EVENT_CODES :: "room_event_code list" where
  "ROOM_EVENT_CODES = [EC_unsupported_schema_version, EC_unsupported_projection_version, EC_invalid_event_id, EC_invalid_room_id, EC_invalid_local_sequence, EC_unknown_operation, EC_unknown_object_kind, EC_invalid_payload, EC_room_mismatch, EC_duplicate_event_id, EC_duplicate_local_sequence, EC_sequence_gap, EC_out_of_order, EC_invalid_lifecycle_transition]"

lemma room_event_code_complete: "c \<in> set ROOM_EVENT_CODES"
  by (cases c) (simp_all add: ROOM_EVENT_CODES_def)

lemma room_event_code_inj: "inj room_event_code_name"
  by (rule names_inj [OF _ room_event_code_complete]) code_simp

definition MEMBERSHIP_CODES :: "membership_code list" where
  "MEMBERSHIP_CODES = [MC_unsupported_schema_version, MC_unknown_command, MC_unknown_role, MC_unknown_state, MC_unknown_capability, MC_invalid_field, MC_unexpected_field, MC_dangerous_key, MC_caller_authority_field, MC_invalid_membership_id, MC_invalid_member_ref, MC_invalid_revision, MC_room_mismatch, MC_membership_not_found, MC_duplicate_active_membership, MC_stale_revision, MC_future_revision, MC_missing_expected_revision, MC_revision_overflow, MC_invalid_lifecycle_transition, MC_membership_terminal, MC_last_owner_continuity, MC_decision_missing, MC_decision_mismatch, MC_policy_denied, MC_persistent_membership_forbidden, MC_forbidden_side_effect, MC_capability_denied, MC_capability_stale, MC_capability_widening, MC_capability_scope, MC_clone_failed]"

lemma membership_code_complete: "c \<in> set MEMBERSHIP_CODES"
  by (cases c) (simp_all add: MEMBERSHIP_CODES_def)

lemma membership_code_inj: "inj membership_code_name"
  by (rule names_inj [OF _ membership_code_complete]) code_simp

definition AUTHORIZATION_CODES :: "authorization_code list" where
  "AUTHORIZATION_CODES = [AC_prepared_authorization_stale, AC_authorization_revision_mismatch, AC_authorization_operation_binding, AC_authorization_object_binding, AC_authorization_view_binding, AC_authorization_target_binding, AC_membership_revoked, AC_membership_suspended, AC_membership_removed, AC_role_capability_revoked, AC_room_policy_revision_mismatch, AC_privacy_mode_revision_mismatch, AC_authorization_cache_forbidden, AC_restrictive_operation_escalation, AC_decision_missing, AC_decision_mismatch, AC_last_owner_continuity, AC_invalid_field]"

lemma authorization_code_complete: "c \<in> set AUTHORIZATION_CODES"
  by (cases c) (simp_all add: AUTHORIZATION_CODES_def)

lemma authorization_code_inj: "inj authorization_code_name"
  by (rule names_inj [OF _ authorization_code_complete]) code_simp

definition COMPOSITION_CODES :: "composition_code list" where
  "COMPOSITION_CODES = [CC_unknown_policy_layer, CC_unknown_effect, CC_unknown_policy_input, CC_invalid_field, CC_unexpected_field, CC_dangerous_key, CC_unsupported_schema_version, CC_unknown_command, CC_governance_loosen_attempt, CC_governance_not_stricter, CC_policy_incomparable, CC_governance_denied, CC_posture_requirement_unmet, CC_protected_presentation_unavailable, CC_policy_revision_mismatch, CC_decision_missing, CC_decision_mismatch, CC_room_mismatch, CC_last_owner_continuity, CC_clone_failed]"

lemma composition_code_complete: "c \<in> set COMPOSITION_CODES"
  by (cases c) (simp_all add: COMPOSITION_CODES_def)

lemma composition_code_inj: "inj composition_code_name"
  by (rule names_inj [OF _ composition_code_complete]) code_simp

definition OBJECT_CODES :: "object_code list" where
  "OBJECT_CODES = [OC_unsupported_schema_version, OC_unsupported_projection_version, OC_unknown_object_kind, OC_unknown_command, OC_invalid_object_id, OC_invalid_object_revision, OC_invalid_room_id, OC_invalid_actor_ref, OC_invalid_field, OC_unexpected_field, OC_dangerous_key, OC_content_too_large, OC_invalid_plain_text, OC_too_many_options, OC_too_few_options, OC_duplicate_option_id, OC_too_many_tags, OC_tag_too_large, OC_forbidden_reference, OC_room_mismatch, OC_object_not_found, OC_cross_object_reference, OC_stale_revision, OC_future_revision, OC_missing_expected_revision, OC_revision_overflow, OC_invalid_lifecycle_transition, OC_invalid_status_transition, OC_object_is_terminal, OC_content_persistence_forbidden, OC_policy_denied, OC_decision_missing, OC_decision_mismatch, OC_forbidden_side_effect, OC_clone_failed]"

lemma object_code_complete: "c \<in> set OBJECT_CODES"
  by (cases c) (simp_all add: OBJECT_CODES_def)

lemma object_code_inj: "inj object_code_name"
  by (rule names_inj [OF _ object_code_complete]) code_simp

definition QUERY_CODES :: "query_code list" where
  "QUERY_CODES = [QC_unsupported_schema_version, QC_unknown_query, QC_unknown_view, QC_unknown_filter, QC_unknown_sort, QC_invalid_field, QC_unexpected_field, QC_dangerous_key, QC_invalid_room_id, QC_invalid_object_id, QC_room_mismatch, QC_object_not_available, QC_decision_missing, QC_decision_mismatch, QC_policy_denied, QC_view_denied, QC_search_denied, QC_count_denied, QC_empty_term, QC_term_too_large, QC_limit_too_small, QC_limit_too_large, QC_cursor_room_mismatch, QC_cursor_sort_mismatch, QC_cursor_invalid, QC_forbidden_side_effect]"

lemma query_code_complete: "c \<in> set QUERY_CODES"
  by (cases c) (simp_all add: QUERY_CODES_def)

lemma query_code_inj: "inj query_code_name"
  by (rule names_inj [OF _ query_code_complete]) code_simp

section \<open>Error objects\<close>

record error_object =
  eo_name :: string
  eo_code :: "string option"
  eo_message :: jstr

text \<open>\<open>detail ? `${code}: ${detail}` : code\<close>; an empty detail counts as none.\<close>

definition coded_message :: "string \<Rightarrow> jstr option \<Rightarrow> jstr" where
  "coded_message code detail = (case detail of
       Some d \<Rightarrow> if d = [] then js code else js code @ js '': '' @ d
     | None \<Rightarrow> js code)"

definition coded_error :: "string \<Rightarrow> string \<Rightarrow> jstr option \<Rightarrow> error_object" where
  "coded_error nm code detail = \<lparr>eo_name = nm, eo_code = Some code, eo_message = coded_message code detail\<rparr>"

definition plain_error :: "string \<Rightarrow> jstr \<Rightarrow> error_object" where
  "plain_error nm msg = \<lparr>eo_name = nm, eo_code = None, eo_message = msg\<rparr>"

datatype membership_error_class =
    Class_RoomMembershipError
  | Class_RoomMembershipValidationError
  | Class_RoomMembershipPolicyDeniedError
  | Class_RoomMembershipDecisionMismatchError
  | Class_RoomMembershipNotFoundError
  | Class_RoomMembershipRevisionError
  | Class_RoomMembershipLifecycleError
  | Class_RoomMembershipDuplicateError
  | Class_RoomLastOwnerContinuityError
  | Class_RoomCapabilityDeniedError
  | Class_RoomCapabilityStaleError
  | Class_RoomCapabilityWideningError
  | Class_RoomCapabilityScopeError

text \<open>The code a class fixes, or the one its constructor is given.\<close>

definition membership_class_code :: "membership_error_class \<Rightarrow> membership_code \<Rightarrow> membership_code" where
  "membership_class_code k c = (case k of
       Class_RoomMembershipPolicyDeniedError \<Rightarrow> MC_policy_denied
     | Class_RoomMembershipDecisionMismatchError \<Rightarrow> MC_decision_mismatch
     | Class_RoomMembershipNotFoundError \<Rightarrow> MC_membership_not_found
     | Class_RoomMembershipDuplicateError \<Rightarrow> MC_duplicate_active_membership
     | Class_RoomLastOwnerContinuityError \<Rightarrow> MC_last_owner_continuity
     | Class_RoomCapabilityDeniedError \<Rightarrow> MC_capability_denied
     | Class_RoomCapabilityStaleError \<Rightarrow> MC_capability_stale
     | Class_RoomCapabilityWideningError \<Rightarrow> MC_capability_widening
     | Class_RoomCapabilityScopeError \<Rightarrow> MC_capability_scope
     | _ \<Rightarrow> c)"

primrec membership_class_name :: "membership_error_class \<Rightarrow> string" where
  "membership_class_name Class_RoomMembershipError = ''RoomMembershipError''"
| "membership_class_name Class_RoomMembershipValidationError = ''RoomMembershipValidationError''"
| "membership_class_name Class_RoomMembershipPolicyDeniedError = ''RoomMembershipPolicyDeniedError''"
| "membership_class_name Class_RoomMembershipDecisionMismatchError = ''RoomMembershipDecisionMismatchError''"
| "membership_class_name Class_RoomMembershipNotFoundError = ''RoomMembershipNotFoundError''"
| "membership_class_name Class_RoomMembershipRevisionError = ''RoomMembershipRevisionError''"
| "membership_class_name Class_RoomMembershipLifecycleError = ''RoomMembershipLifecycleError''"
| "membership_class_name Class_RoomMembershipDuplicateError = ''RoomMembershipDuplicateError''"
| "membership_class_name Class_RoomLastOwnerContinuityError = ''RoomLastOwnerContinuityError''"
| "membership_class_name Class_RoomCapabilityDeniedError = ''RoomCapabilityDeniedError''"
| "membership_class_name Class_RoomCapabilityStaleError = ''RoomCapabilityStaleError''"
| "membership_class_name Class_RoomCapabilityWideningError = ''RoomCapabilityWideningError''"
| "membership_class_name Class_RoomCapabilityScopeError = ''RoomCapabilityScopeError''"

definition membership_error_object :: "membership_error_class \<Rightarrow> membership_code \<Rightarrow> jstr option \<Rightarrow> error_object" where
  "membership_error_object k c d = coded_error (membership_class_name k) (membership_code_name (membership_class_code k c))
     (if k \<in> {Class_RoomMembershipNotFoundError, Class_RoomMembershipRevisionError, Class_RoomMembershipLifecycleError, Class_RoomMembershipDuplicateError, Class_RoomLastOwnerContinuityError, Class_RoomCapabilityStaleError, Class_RoomCapabilityWideningError, Class_RoomCapabilityScopeError} then None else d)"

datatype authorization_error_class =
    Class_RoomAuthorizationError
  | Class_PreparedAuthorizationStaleError
  | Class_AuthorizationRevisionMismatchError
  | Class_AuthorizationOperationBindingError
  | Class_AuthorizationObjectBindingError
  | Class_AuthorizationViewBindingError
  | Class_AuthorizationTargetBindingError
  | Class_MembershipRevokedError
  | Class_MembershipSuspendedError
  | Class_MembershipRemovedError
  | Class_RoleCapabilityRevokedError
  | Class_RoomPolicyRevisionMismatchError
  | Class_PrivacyModeRevisionMismatchError
  | Class_AuthorizationCacheForbiddenError
  | Class_RestrictiveOperationEscalationError

text \<open>The code a class fixes, or the one its constructor is given.\<close>

definition authorization_class_code :: "authorization_error_class \<Rightarrow> authorization_code \<Rightarrow> authorization_code" where
  "authorization_class_code k c = (case k of
       Class_PreparedAuthorizationStaleError \<Rightarrow> AC_prepared_authorization_stale
     | Class_AuthorizationRevisionMismatchError \<Rightarrow> AC_authorization_revision_mismatch
     | Class_AuthorizationOperationBindingError \<Rightarrow> AC_authorization_operation_binding
     | Class_AuthorizationObjectBindingError \<Rightarrow> AC_authorization_object_binding
     | Class_AuthorizationViewBindingError \<Rightarrow> AC_authorization_view_binding
     | Class_AuthorizationTargetBindingError \<Rightarrow> AC_authorization_target_binding
     | Class_MembershipRevokedError \<Rightarrow> AC_membership_revoked
     | Class_MembershipSuspendedError \<Rightarrow> AC_membership_suspended
     | Class_MembershipRemovedError \<Rightarrow> AC_membership_removed
     | Class_RoleCapabilityRevokedError \<Rightarrow> AC_role_capability_revoked
     | Class_RoomPolicyRevisionMismatchError \<Rightarrow> AC_room_policy_revision_mismatch
     | Class_PrivacyModeRevisionMismatchError \<Rightarrow> AC_privacy_mode_revision_mismatch
     | Class_AuthorizationCacheForbiddenError \<Rightarrow> AC_authorization_cache_forbidden
     | Class_RestrictiveOperationEscalationError \<Rightarrow> AC_restrictive_operation_escalation
     | _ \<Rightarrow> c)"

primrec authorization_class_name :: "authorization_error_class \<Rightarrow> string" where
  "authorization_class_name Class_RoomAuthorizationError = ''RoomAuthorizationError''"
| "authorization_class_name Class_PreparedAuthorizationStaleError = ''PreparedAuthorizationStaleError''"
| "authorization_class_name Class_AuthorizationRevisionMismatchError = ''AuthorizationRevisionMismatchError''"
| "authorization_class_name Class_AuthorizationOperationBindingError = ''AuthorizationOperationBindingError''"
| "authorization_class_name Class_AuthorizationObjectBindingError = ''AuthorizationObjectBindingError''"
| "authorization_class_name Class_AuthorizationViewBindingError = ''AuthorizationViewBindingError''"
| "authorization_class_name Class_AuthorizationTargetBindingError = ''AuthorizationTargetBindingError''"
| "authorization_class_name Class_MembershipRevokedError = ''MembershipRevokedError''"
| "authorization_class_name Class_MembershipSuspendedError = ''MembershipSuspendedError''"
| "authorization_class_name Class_MembershipRemovedError = ''MembershipRemovedError''"
| "authorization_class_name Class_RoleCapabilityRevokedError = ''RoleCapabilityRevokedError''"
| "authorization_class_name Class_RoomPolicyRevisionMismatchError = ''RoomPolicyRevisionMismatchError''"
| "authorization_class_name Class_PrivacyModeRevisionMismatchError = ''PrivacyModeRevisionMismatchError''"
| "authorization_class_name Class_AuthorizationCacheForbiddenError = ''AuthorizationCacheForbiddenError''"
| "authorization_class_name Class_RestrictiveOperationEscalationError = ''RestrictiveOperationEscalationError''"

definition authorization_error_object :: "authorization_error_class \<Rightarrow> authorization_code \<Rightarrow> jstr option \<Rightarrow> error_object" where
  "authorization_error_object k c d = coded_error (authorization_class_name k) (authorization_code_name (authorization_class_code k c))
     d"

datatype composition_error_class =
    Class_RoomPolicyCompositionError
  | Class_RoomGovernanceDeniedError
  | Class_RoomGovernanceLoosenError
  | Class_RoomGovernancePolicyRevisionMismatchError

text \<open>The code a class fixes, or the one its constructor is given.\<close>

definition composition_class_code :: "composition_error_class \<Rightarrow> composition_code \<Rightarrow> composition_code" where
  "composition_class_code k c = (case k of
       Class_RoomGovernanceDeniedError \<Rightarrow> CC_governance_denied
     | Class_RoomGovernanceLoosenError \<Rightarrow> CC_governance_loosen_attempt
     | Class_RoomGovernancePolicyRevisionMismatchError \<Rightarrow> CC_policy_revision_mismatch
     | _ \<Rightarrow> c)"

primrec composition_class_name :: "composition_error_class \<Rightarrow> string" where
  "composition_class_name Class_RoomPolicyCompositionError = ''RoomPolicyCompositionError''"
| "composition_class_name Class_RoomGovernanceDeniedError = ''RoomGovernanceDeniedError''"
| "composition_class_name Class_RoomGovernanceLoosenError = ''RoomGovernanceLoosenError''"
| "composition_class_name Class_RoomGovernancePolicyRevisionMismatchError = ''RoomGovernancePolicyRevisionMismatchError''"

definition composition_error_object :: "composition_error_class \<Rightarrow> composition_code \<Rightarrow> jstr option \<Rightarrow> error_object" where
  "composition_error_object k c d = coded_error (composition_class_name k) (composition_code_name (composition_class_code k c))
     d"

datatype object_error_class =
    Class_RoomObjectError
  | Class_RoomObjectValidationError
  | Class_RoomObjectAuthorizationError
  | Class_RoomObjectConcurrencyError

text \<open>The code a class fixes, or the one its constructor is given.\<close>

definition object_class_code :: "object_error_class \<Rightarrow> object_code \<Rightarrow> object_code" where
  "object_class_code k c = c"

primrec object_class_name :: "object_error_class \<Rightarrow> string" where
  "object_class_name Class_RoomObjectError = ''RoomObjectError''"
| "object_class_name Class_RoomObjectValidationError = ''RoomObjectValidationError''"
| "object_class_name Class_RoomObjectAuthorizationError = ''RoomObjectAuthorizationError''"
| "object_class_name Class_RoomObjectConcurrencyError = ''RoomObjectConcurrencyError''"

definition object_error_object :: "object_error_class \<Rightarrow> object_code \<Rightarrow> jstr option \<Rightarrow> error_object" where
  "object_error_object k c d = coded_error (object_class_name k) (object_code_name (object_class_code k c))
     d"

datatype query_error_class =
    Class_RoomQueryError
  | Class_RoomQueryValidationError
  | Class_RoomQueryPolicyDeniedError
  | Class_RoomQueryDecisionMismatchError
  | Class_RoomQueryRoomMismatchError
  | Class_RoomQueryObjectNotAvailableError
  | Class_RoomQueryCursorError
  | Class_RoomQueryLimitError
  | Class_RoomSearchDeniedError
  | Class_RoomQueryViewDeniedError

text \<open>The code a class fixes, or the one its constructor is given.\<close>

definition query_class_code :: "query_error_class \<Rightarrow> query_code \<Rightarrow> query_code" where
  "query_class_code k c = (case k of
       Class_RoomQueryPolicyDeniedError \<Rightarrow> QC_policy_denied
     | Class_RoomQueryDecisionMismatchError \<Rightarrow> QC_decision_mismatch
     | Class_RoomQueryRoomMismatchError \<Rightarrow> QC_room_mismatch
     | Class_RoomQueryObjectNotAvailableError \<Rightarrow> QC_object_not_available
     | Class_RoomSearchDeniedError \<Rightarrow> QC_search_denied
     | Class_RoomQueryViewDeniedError \<Rightarrow> QC_view_denied
     | _ \<Rightarrow> c)"

primrec query_class_name :: "query_error_class \<Rightarrow> string" where
  "query_class_name Class_RoomQueryError = ''RoomQueryError''"
| "query_class_name Class_RoomQueryValidationError = ''RoomQueryValidationError''"
| "query_class_name Class_RoomQueryPolicyDeniedError = ''RoomQueryPolicyDeniedError''"
| "query_class_name Class_RoomQueryDecisionMismatchError = ''RoomQueryDecisionMismatchError''"
| "query_class_name Class_RoomQueryRoomMismatchError = ''RoomQueryRoomMismatchError''"
| "query_class_name Class_RoomQueryObjectNotAvailableError = ''RoomQueryObjectNotAvailableError''"
| "query_class_name Class_RoomQueryCursorError = ''RoomQueryCursorError''"
| "query_class_name Class_RoomQueryLimitError = ''RoomQueryLimitError''"
| "query_class_name Class_RoomSearchDeniedError = ''RoomSearchDeniedError''"
| "query_class_name Class_RoomQueryViewDeniedError = ''RoomQueryViewDeniedError''"

definition query_error_object :: "query_error_class \<Rightarrow> query_code \<Rightarrow> jstr option \<Rightarrow> error_object" where
  "query_error_object k c d = coded_error (query_class_name k) (query_code_name (query_class_code k c))
     (if k \<in> {Class_RoomQueryRoomMismatchError, Class_RoomQueryObjectNotAvailableError, Class_RoomQueryCursorError, Class_RoomQueryLimitError, Class_RoomSearchDeniedError, Class_RoomQueryViewDeniedError} then None else d)"

datatype room_event_error_class =
    Class_RoomEventValidationError
  | Class_RoomEventVersionUnsupportedError
  | Class_RoomDuplicateEventError
  | Class_RoomSequenceConflictError
  | Class_RoomSequenceGapError
  | Class_RoomEventOrderError
  | Class_RoomEventRoomMismatchError
  | Class_RoomLifecycleTransitionError

definition room_event_class_code :: "room_event_error_class \<Rightarrow> room_event_code \<Rightarrow> room_event_code" where
  "room_event_class_code k c = (case k of
       Class_RoomDuplicateEventError \<Rightarrow> EC_duplicate_event_id
     | Class_RoomSequenceConflictError \<Rightarrow> EC_duplicate_local_sequence
     | Class_RoomSequenceGapError \<Rightarrow> EC_sequence_gap
     | Class_RoomEventOrderError \<Rightarrow> EC_out_of_order
     | Class_RoomEventRoomMismatchError \<Rightarrow> EC_room_mismatch
     | Class_RoomLifecycleTransitionError \<Rightarrow> EC_invalid_lifecycle_transition
     | _ \<Rightarrow> c)"

definition code_message :: "string \<Rightarrow> string \<Rightarrow> jstr" where
  "code_message prefix code = js prefix @ js '' rejected: '' @ js code @ js ''.''"

primrec room_event_class_name :: "room_event_error_class \<Rightarrow> string" where
  "room_event_class_name Class_RoomEventValidationError = ''RoomEventValidationError''"
| "room_event_class_name Class_RoomEventVersionUnsupportedError = ''RoomEventVersionUnsupportedError''"
| "room_event_class_name Class_RoomDuplicateEventError = ''RoomDuplicateEventError''"
| "room_event_class_name Class_RoomSequenceConflictError = ''RoomSequenceConflictError''"
| "room_event_class_name Class_RoomSequenceGapError = ''RoomSequenceGapError''"
| "room_event_class_name Class_RoomEventOrderError = ''RoomEventOrderError''"
| "room_event_class_name Class_RoomEventRoomMismatchError = ''RoomEventRoomMismatchError''"
| "room_event_class_name Class_RoomLifecycleTransitionError = ''RoomLifecycleTransitionError''"

definition room_event_error_object :: "room_event_error_class \<Rightarrow> room_event_code \<Rightarrow> error_object" where
  "room_event_error_object k c =
     (let code = room_event_code_name (room_event_class_code k c)
      in \<lparr>eo_name = room_event_class_name k, eo_code = Some code, eo_message = code_message ''Room event'' code\<rparr>)"

text \<open>A replay error carries an event code or \<open>replay_invalid_input\<close> (\<open>None\<close>).\<close>

definition RoomReplayError_object :: "room_event_code option \<Rightarrow> error_object" where
  "RoomReplayError_object c =
     (let code = (case c of None \<Rightarrow> ''replay_invalid_input'' | Some x \<Rightarrow> room_event_code_name x)
      in \<lparr>eo_name = ''RoomReplayError'', eo_code = Some code, eo_message = code_message ''Room replay'' code\<rparr>)"

definition RoomProjectionError_object :: "jstr \<Rightarrow> error_object" where
  "RoomProjectionError_object detail = plain_error ''RoomProjectionError'' (js ''Room projection rejected: '' @ detail)"

definition RoomEventCloneError_object :: error_object where
  "RoomEventCloneError_object = plain_error ''RoomEventCloneError'' (js ''Room event payload is not safely cloneable.'')"

section \<open>Errors of the policy layers\<close>

text \<open>What a rejected operation may say of itself: the operation or event, the data class, sink or
  surface, the content class, and a policy reason.\<close>

record error_context =
  ec_operation :: jstr
  ec_target :: jstr
  ec_contentClass :: jstr
  ec_detail :: jstr

definition ARROW :: jstr where "ARROW = [0x20, 0x2192, 0x20]"

definition QUOTE :: jstr where "QUOTE = js [CHR 0x22]"

definition describe_room :: "error_context \<Rightarrow> jstr" where
  "describe_room ctx = js ''room operation '' @ QUOTE @ ec_operation ctx @ QUOTE @ js '' rejected: '' @ ec_detail ctx"

primrec room_error_name :: "room_error \<Rightarrow> string" where
  "room_error_name RoomPolicyDenied = ''RoomPolicyDeniedError''"
| "room_error_name RoomBypassAttempt = ''RoomBypassAttemptError''"
| "room_error_name RoomDecisionMismatch = ''RoomDecisionMismatchError''"
| "room_error_name InvalidRoomOperation = ''InvalidRoomOperationError''"
| "room_error_name InvalidRoomObjectKind = ''InvalidRoomObjectKindError''"
| "room_error_name InvalidRoomId = ''InvalidRoomIdError''"
| "room_error_name InvalidRoomRef = ''InvalidRoomRefError''"
| "room_error_name ForbiddenRoomPersistence = ''ForbiddenRoomPersistenceError''"
| "room_error_name ForbiddenRoomNetwork = ''ForbiddenRoomNetworkError''"
| "room_error_name ForbiddenRoomSideEffect = ''ForbiddenRoomSideEffectError''"

primrec room_error_message :: "room_error \<Rightarrow> error_context \<Rightarrow> jstr" where
  "room_error_message RoomPolicyDenied ctx = describe_room ctx"
| "room_error_message RoomBypassAttempt ctx = js ''Room bypass attempt rejected: '' @ ec_detail ctx"
| "room_error_message RoomDecisionMismatch ctx = js ''Room decision mismatch: '' @ ec_detail ctx"
| "room_error_message InvalidRoomOperation ctx = js ''Invalid or unsupported room operation.''"
| "room_error_message InvalidRoomObjectKind ctx = js ''Invalid or unsupported room object kind.''"
| "room_error_message InvalidRoomId ctx = js ''Invalid room identifier.''"
| "room_error_message InvalidRoomRef ctx = js ''Invalid room member/device reference.''"
| "room_error_message ForbiddenRoomPersistence ctx = describe_room ctx"
| "room_error_message ForbiddenRoomNetwork ctx = describe_room ctx"
| "room_error_message ForbiddenRoomSideEffect ctx = describe_room ctx"

definition room_error_object :: "room_error \<Rightarrow> error_context \<Rightarrow> error_object" where
  "room_error_object e ctx = plain_error (room_error_name e) (room_error_message e ctx)"

definition describe_storage :: "error_context \<Rightarrow> jstr" where
  "describe_storage ctx = ec_operation ctx @ js '' on '' @ QUOTE @ ec_target ctx @ QUOTE @ js '' rejected: '' @ ec_detail ctx"

primrec storage_error_name :: "storage_error \<Rightarrow> string" where
  "storage_error_name StoragePolicyDenied = ''StoragePolicyDeniedError''"
| "storage_error_name StorageBackendNotImplemented = ''StorageBackendNotImplementedError''"
| "storage_error_name StorageBypassAttempt = ''StorageBypassAttemptError''"
| "storage_error_name ForbiddenPersistentWrite = ''ForbiddenPersistentWriteError''"
| "storage_error_name ForbiddenCacheWrite = ''ForbiddenCacheWriteError''"
| "storage_error_name ForbiddenDebugArtifact = ''ForbiddenDebugArtifactError''"
| "storage_error_name InvalidStorageKey = ''InvalidStorageKeyError''"
| "storage_error_name StorageDecisionMismatch = ''StorageDecisionMismatchError''"
| "storage_error_name UnsupportedStorageValue = ''UnsupportedStorageValueError''"
| "storage_error_name StorageSensitiveValueLeak = ''StorageSensitiveValueLeakError''"

primrec storage_error_message :: "storage_error \<Rightarrow> error_context \<Rightarrow> jstr" where
  "storage_error_message StoragePolicyDenied ctx = describe_storage ctx"
| "storage_error_message StorageBackendNotImplemented ctx = js ''Encrypted persistent storage is not implemented yet. See docs/STORAGE_MODEL.md and docs/CRYPTO_DESIGN.md.''"
| "storage_error_message StorageBypassAttempt ctx = js ''Storage bypass attempt rejected: '' @ ec_detail ctx"
| "storage_error_message ForbiddenPersistentWrite ctx = describe_storage ctx"
| "storage_error_message ForbiddenCacheWrite ctx = describe_storage ctx"
| "storage_error_message ForbiddenDebugArtifact ctx = describe_storage ctx"
| "storage_error_message InvalidStorageKey ctx = js ''Invalid storage key.''"
| "storage_error_message StorageDecisionMismatch ctx = js ''Storage decision mismatch: '' @ ec_detail ctx"
| "storage_error_message UnsupportedStorageValue ctx = js ''Unsupported storage value type.''"
| "storage_error_message StorageSensitiveValueLeak ctx = js ''Sensitive value detected in '' @ ec_detail ctx @ js ''. This is a privacy bug.''"

definition storage_error_object :: "storage_error \<Rightarrow> error_context \<Rightarrow> error_object" where
  "storage_error_object e ctx = plain_error (storage_error_name e) (storage_error_message e ctx)"

definition describe_network :: "error_context \<Rightarrow> jstr" where
  "describe_network ctx = js ''network operation '' @ QUOTE @ ec_operation ctx @ QUOTE @ js '' rejected: '' @ ec_detail ctx"

primrec network_error_name :: "network_error \<Rightarrow> string" where
  "network_error_name NetworkPolicyDenied = ''NetworkPolicyDeniedError''"
| "network_error_name NetworkBypassAttempt = ''NetworkBypassAttemptError''"
| "network_error_name ForbiddenNetworkOperation = ''ForbiddenNetworkOperationError''"
| "network_error_name ForbiddenTelemetry = ''ForbiddenTelemetryError''"
| "network_error_name ForbiddenExternalAsset = ''ForbiddenExternalAssetError''"
| "network_error_name ForbiddenLinkPreview = ''ForbiddenLinkPreviewError''"
| "network_error_name ForbiddenDirectPeerConnection = ''ForbiddenDirectPeerConnectionError''"
| "network_error_name ForbiddenOfflineModeNetwork = ''ForbiddenOfflineModeNetworkError''"
| "network_error_name InvalidNetworkEndpoint = ''InvalidNetworkEndpointError''"
| "network_error_name NetworkDecisionMismatch = ''NetworkDecisionMismatchError''"

primrec network_error_message :: "network_error \<Rightarrow> error_context \<Rightarrow> jstr" where
  "network_error_message NetworkPolicyDenied ctx = describe_network ctx"
| "network_error_message NetworkBypassAttempt ctx = js ''Network bypass attempt rejected: '' @ ec_detail ctx"
| "network_error_message ForbiddenNetworkOperation ctx = describe_network ctx"
| "network_error_message ForbiddenTelemetry ctx = js ''Telemetry network operations are forbidden.''"
| "network_error_message ForbiddenExternalAsset ctx = js ''External asset fetches are forbidden.''"
| "network_error_message ForbiddenLinkPreview ctx = js ''Automatic link previews are forbidden.''"
| "network_error_message ForbiddenDirectPeerConnection ctx = js ''Direct peer connections are forbidden by the active policy.''"
| "network_error_message ForbiddenOfflineModeNetwork ctx = js ''Network operation forbidden in this mode: '' @ ec_detail ctx"
| "network_error_message InvalidNetworkEndpoint ctx = js ''Invalid network endpoint.''"
| "network_error_message NetworkDecisionMismatch ctx = js ''Network decision mismatch: '' @ ec_detail ctx"

definition network_error_object :: "network_error \<Rightarrow> error_context \<Rightarrow> error_object" where
  "network_error_object e ctx = plain_error (network_error_name e) (network_error_message e ctx)"

definition describe_metadata :: "error_context \<Rightarrow> jstr" where
  "describe_metadata ctx = js ''metadata '' @ QUOTE @ ec_operation ctx @ QUOTE @ ARROW @ QUOTE @ ec_target ctx @ QUOTE @ js '' rejected: '' @ ec_detail ctx"

primrec metadata_error_name :: "metadata_error \<Rightarrow> string" where
  "metadata_error_name MetadataPolicyDenied = ''MetadataPolicyDeniedError''"
| "metadata_error_name MetadataBypassAttempt = ''MetadataBypassAttemptError''"
| "metadata_error_name ForbiddenReceipt = ''ForbiddenReceiptError''"
| "metadata_error_name ForbiddenTypingIndicator = ''ForbiddenTypingIndicatorError''"
| "metadata_error_name ForbiddenPresence = ''ForbiddenPresenceError''"
| "metadata_error_name ForbiddenNotificationMetadata = ''ForbiddenNotificationMetadataError''"
| "metadata_error_name ForbiddenLinkPreviewMetadata = ''ForbiddenLinkPreviewMetadataError''"
| "metadata_error_name ForbiddenExternalAssetMetadata = ''ForbiddenExternalAssetMetadataError''"
| "metadata_error_name ForbiddenMetadataPersistence = ''ForbiddenMetadataPersistenceError''"
| "metadata_error_name ForbiddenMetadataNetworkExposure = ''ForbiddenMetadataNetworkExposureError''"
| "metadata_error_name InvalidMetadataEvent = ''InvalidMetadataEventError''"
| "metadata_error_name InvalidMetadataSink = ''InvalidMetadataSinkError''"
| "metadata_error_name MetadataDecisionMismatch = ''MetadataDecisionMismatchError''"

primrec metadata_error_message :: "metadata_error \<Rightarrow> error_context \<Rightarrow> jstr" where
  "metadata_error_message MetadataPolicyDenied ctx = describe_metadata ctx"
| "metadata_error_message MetadataBypassAttempt ctx = js ''Metadata bypass attempt rejected: '' @ ec_detail ctx"
| "metadata_error_message ForbiddenReceipt ctx = describe_metadata ctx"
| "metadata_error_message ForbiddenTypingIndicator ctx = describe_metadata ctx"
| "metadata_error_message ForbiddenPresence ctx = describe_metadata ctx"
| "metadata_error_message ForbiddenNotificationMetadata ctx = describe_metadata ctx"
| "metadata_error_message ForbiddenLinkPreviewMetadata ctx = describe_metadata ctx"
| "metadata_error_message ForbiddenExternalAssetMetadata ctx = describe_metadata ctx"
| "metadata_error_message ForbiddenMetadataPersistence ctx = describe_metadata ctx"
| "metadata_error_message ForbiddenMetadataNetworkExposure ctx = describe_metadata ctx"
| "metadata_error_message InvalidMetadataEvent ctx = js ''Invalid or unsupported metadata event.''"
| "metadata_error_message InvalidMetadataSink ctx = js ''Invalid or unsupported metadata sink.''"
| "metadata_error_message MetadataDecisionMismatch ctx = js ''Metadata decision mismatch: '' @ ec_detail ctx"

definition metadata_error_object :: "metadata_error \<Rightarrow> error_context \<Rightarrow> error_object" where
  "metadata_error_object e ctx = plain_error (metadata_error_name e) (metadata_error_message e ctx)"

definition describe_notification :: "error_context \<Rightarrow> jstr" where
  "describe_notification ctx = js ''notification '' @ QUOTE @ ec_operation ctx @ QUOTE @ ARROW @ QUOTE @ ec_target ctx @ QUOTE @ js '' rejected: '' @ ec_detail ctx"

primrec notification_error_name :: "notification_error \<Rightarrow> string" where
  "notification_error_name NotificationPolicyDenied = ''NotificationPolicyDeniedError''"
| "notification_error_name NotificationBypassAttempt = ''NotificationBypassAttemptError''"
| "notification_error_name ForbiddenNotificationPermissionRequest = ''ForbiddenNotificationPermissionRequestError''"
| "notification_error_name ForbiddenNotificationContent = ''ForbiddenNotificationContentError''"
| "notification_error_name ForbiddenNotificationBadge = ''ForbiddenNotificationBadgeError''"
| "notification_error_name ForbiddenNotificationSound = ''ForbiddenNotificationSoundError''"
| "notification_error_name ForbiddenNotificationVibration = ''ForbiddenNotificationVibrationError''"
| "notification_error_name ForbiddenPushNotification = ''ForbiddenPushNotificationError''"
| "notification_error_name ForbiddenServiceWorkerNotification = ''ForbiddenServiceWorkerNotificationError''"
| "notification_error_name ForbiddenNotificationPersistence = ''ForbiddenNotificationPersistenceError''"
| "notification_error_name ForbiddenNotificationNetwork = ''ForbiddenNotificationNetworkError''"
| "notification_error_name NotificationDecisionMismatch = ''NotificationDecisionMismatchError''"

primrec notification_error_message :: "notification_error \<Rightarrow> error_context \<Rightarrow> jstr" where
  "notification_error_message NotificationPolicyDenied ctx = describe_notification ctx"
| "notification_error_message NotificationBypassAttempt ctx = js ''Notification bypass attempt rejected: '' @ ec_detail ctx"
| "notification_error_message ForbiddenNotificationPermissionRequest ctx = describe_notification ctx"
| "notification_error_message ForbiddenNotificationContent ctx = describe_notification ctx @ js '' (content class '' @ QUOTE @ ec_contentClass ctx @ QUOTE @ js '')''"
| "notification_error_message ForbiddenNotificationBadge ctx = describe_notification ctx"
| "notification_error_message ForbiddenNotificationSound ctx = describe_notification ctx"
| "notification_error_message ForbiddenNotificationVibration ctx = describe_notification ctx"
| "notification_error_message ForbiddenPushNotification ctx = describe_notification ctx"
| "notification_error_message ForbiddenServiceWorkerNotification ctx = describe_notification ctx"
| "notification_error_message ForbiddenNotificationPersistence ctx = describe_notification ctx"
| "notification_error_message ForbiddenNotificationNetwork ctx = describe_notification ctx"
| "notification_error_message NotificationDecisionMismatch ctx = js ''Notification decision mismatch: '' @ ec_detail ctx"

definition notification_error_object :: "notification_error \<Rightarrow> error_context \<Rightarrow> error_object" where
  "notification_error_object e ctx = plain_error (notification_error_name e) (notification_error_message e ctx)"

section \<open>What an error says\<close>

text \<open>The machine code can be read back from the message of a coded error, whatever the detail.\<close>

definition code_of_message :: "jstr \<Rightarrow> jstr" where
  "code_of_message msg = takeWhile (\<lambda>u. u \<noteq> 0x3A) msg"

lemma code_of_coded_message:
  assumes "CHR '':'' \<notin> set code"
  shows "code_of_message (coded_message code d) = js code"
proof -
  have colon: "(of_char CHR '':'' :: 16 word) = 0x3A" by code_simp
  have "of_char c \<noteq> (0x3A :: 16 word)" if "c \<in> set code" for c
    using of_char16_inj [of c "CHR '':''"] that assms by (auto simp: colon)
  then have units: "u \<noteq> 0x3A" if "u \<in> set (js code)" for u
    using that by (auto simp: js_def)
  have "js '': '' = [0x3A, 0x20]" by code_simp
  then show ?thesis
    using units by (auto simp: coded_message_def code_of_message_def takeWhile_append2 takeWhile_eq_all_conv
        split: option.splits)
qed

lemma no_colons:
  "list_all (\<lambda>s. CHR '':'' \<notin> set s) (map membership_code_name MEMBERSHIP_CODES)"
  "list_all (\<lambda>s. CHR '':'' \<notin> set s) (map authorization_code_name AUTHORIZATION_CODES)"
  "list_all (\<lambda>s. CHR '':'' \<notin> set s) (map composition_code_name COMPOSITION_CODES)"
  "list_all (\<lambda>s. CHR '':'' \<notin> set s) (map object_code_name OBJECT_CODES)"
  "list_all (\<lambda>s. CHR '':'' \<notin> set s) (map query_code_name QUERY_CODES)"
  by code_simp+

lemma no_colon:
  "CHR '':'' \<notin> set (membership_code_name a)" "CHR '':'' \<notin> set (authorization_code_name b)"
  "CHR '':'' \<notin> set (composition_code_name c)" "CHR '':'' \<notin> set (object_code_name d)"
  "CHR '':'' \<notin> set (query_code_name e)"
  using no_colons membership_code_complete authorization_code_complete composition_code_complete
    object_code_complete query_code_complete
  by (auto simp: list_all_iff)

lemmas coded_objects = coded_error_def membership_error_object_def authorization_error_object_def
  composition_error_object_def object_error_object_def query_error_object_def

theorem error_code_readable:
  "code_of_message (eo_message (membership_error_object k1 a d)) = js (membership_code_name (membership_class_code k1 a))"
  "code_of_message (eo_message (authorization_error_object k2 b d)) = js (authorization_code_name (authorization_class_code k2 b))"
  "code_of_message (eo_message (composition_error_object k3 c d)) = js (composition_code_name (composition_class_code k3 c))"
  "code_of_message (eo_message (object_error_object k4 o1 d)) = js (object_code_name (object_class_code k4 o1))"
  "code_of_message (eo_message (query_error_object k5 q d)) = js (query_code_name (query_class_code k5 q))"
  by (simp_all add: coded_objects code_of_coded_message no_colon)

text \<open>The errors that echo nothing of the call: these, and no others, have one fixed object.\<close>

definition blank_context :: error_context where
  "blank_context = \<lparr>ec_operation = [], ec_target = [], ec_contentClass = [], ec_detail = []\<rparr>"

definition fixed_object :: "(error_context \<Rightarrow> error_object) \<Rightarrow> bool" where
  "fixed_object f \<longleftrightarrow> (\<forall>ctx ctx'. f ctx = f ctx')"

lemma not_fixed:
  "f blank_context \<noteq> f (blank_context\<lparr>ec_detail := [0]\<rparr>) \<Longrightarrow> \<not> fixed_object f"
  unfolding fixed_object_def by blast

lemmas error_objects = plain_error_def room_error_object_def storage_error_object_def
  network_error_object_def metadata_error_object_def notification_error_object_def

lemmas context_defs = error_objects blank_context_def describe_room_def describe_storage_def
  describe_network_def describe_metadata_def describe_notification_def

lemma room_error_fixed:
  "fixed_object (room_error_object e) \<longleftrightarrow>
     e \<in> {InvalidRoomOperation, InvalidRoomObjectKind, InvalidRoomId, InvalidRoomRef}"
proof (cases "e \<in> {InvalidRoomOperation, InvalidRoomObjectKind, InvalidRoomId, InvalidRoomRef}")
  case False
  then have "room_error_object e blank_context \<noteq> room_error_object e (blank_context\<lparr>ec_detail := [0]\<rparr>)"
    by (cases e) (simp_all add: context_defs)
  with False show ?thesis using not_fixed by blast
qed (auto simp: fixed_object_def error_objects)

lemma storage_error_fixed:
  "fixed_object (storage_error_object e) \<longleftrightarrow>
     e \<in> {StorageBackendNotImplemented, InvalidStorageKey, UnsupportedStorageValue}"
proof (cases "e \<in> {StorageBackendNotImplemented, InvalidStorageKey, UnsupportedStorageValue}")
  case False
  then have "storage_error_object e blank_context \<noteq> storage_error_object e (blank_context\<lparr>ec_detail := [0]\<rparr>)"
    by (cases e) (simp_all add: context_defs)
  with False show ?thesis using not_fixed by blast
qed (auto simp: fixed_object_def error_objects)

lemma network_error_fixed:
  "fixed_object (network_error_object e) \<longleftrightarrow> e \<in> {ForbiddenTelemetry, ForbiddenExternalAsset,
     ForbiddenLinkPreview, ForbiddenDirectPeerConnection, InvalidNetworkEndpoint}"
proof (cases "e \<in> {ForbiddenTelemetry, ForbiddenExternalAsset,
     ForbiddenLinkPreview, ForbiddenDirectPeerConnection, InvalidNetworkEndpoint}")
  case False
  then have "network_error_object e blank_context \<noteq> network_error_object e (blank_context\<lparr>ec_detail := [0]\<rparr>)"
    by (cases e) (simp_all add: context_defs)
  with False show ?thesis using not_fixed by blast
qed (auto simp: fixed_object_def error_objects)

lemma metadata_error_fixed:
  "fixed_object (metadata_error_object e) \<longleftrightarrow> e \<in> {InvalidMetadataEvent, InvalidMetadataSink}"
proof (cases "e \<in> {InvalidMetadataEvent, InvalidMetadataSink}")
  case False
  then have "metadata_error_object e blank_context \<noteq> metadata_error_object e (blank_context\<lparr>ec_detail := [0]\<rparr>)"
    by (cases e) (simp_all add: context_defs)
  with False show ?thesis using not_fixed by blast
qed (auto simp: fixed_object_def error_objects)

text \<open>Within a module the class can be told from the name, whatever the constructor was given.\<close>

lemma room_error_names: "inj room_error_name"
  by (rule names_inj [of _ "[RoomPolicyDenied, RoomBypassAttempt, RoomDecisionMismatch, InvalidRoomOperation,
      InvalidRoomObjectKind, InvalidRoomId, InvalidRoomRef, ForbiddenRoomPersistence,
      ForbiddenRoomNetwork, ForbiddenRoomSideEffect]"], code_simp, case_tac x)
    simp_all

lemma storage_error_names: "inj storage_error_name"
  by (rule names_inj [of _ "[StoragePolicyDenied, StorageBackendNotImplemented, StorageBypassAttempt,
      ForbiddenPersistentWrite, ForbiddenCacheWrite, ForbiddenDebugArtifact,
      InvalidStorageKey, StorageDecisionMismatch, UnsupportedStorageValue,
      StorageSensitiveValueLeak]"], code_simp, case_tac x)
    simp_all

lemma network_error_names: "inj network_error_name"
  by (rule names_inj [of _ "[NetworkPolicyDenied, NetworkBypassAttempt, ForbiddenNetworkOperation,
      ForbiddenTelemetry, ForbiddenExternalAsset, ForbiddenLinkPreview,
      ForbiddenDirectPeerConnection, ForbiddenOfflineModeNetwork, InvalidNetworkEndpoint,
      NetworkDecisionMismatch]"], code_simp, case_tac x)
    simp_all

lemma metadata_error_names: "inj metadata_error_name"
  by (rule names_inj [of _ "[MetadataPolicyDenied, MetadataBypassAttempt, ForbiddenReceipt,
      ForbiddenTypingIndicator, ForbiddenPresence, ForbiddenNotificationMetadata,
      ForbiddenLinkPreviewMetadata, ForbiddenExternalAssetMetadata,
      ForbiddenMetadataPersistence, ForbiddenMetadataNetworkExposure,
      InvalidMetadataEvent, InvalidMetadataSink, MetadataDecisionMismatch]"], code_simp, case_tac x)
    simp_all

lemma notification_error_names: "inj notification_error_name"
  by (rule names_inj [of _ "[NotificationPolicyDenied, NotificationBypassAttempt,
      ForbiddenNotificationPermissionRequest, ForbiddenNotificationContent,
      ForbiddenNotificationBadge, ForbiddenNotificationSound,
      ForbiddenNotificationVibration, ForbiddenPushNotification,
      ForbiddenServiceWorkerNotification, ForbiddenNotificationPersistence,
      ForbiddenNotificationNetwork, NotificationDecisionMismatch]"], code_simp, case_tac x)
    simp_all

lemma membership_class_names: "inj membership_class_name"
  by (rule names_inj [of _ "[Class_RoomMembershipError, Class_RoomMembershipValidationError,
      Class_RoomMembershipPolicyDeniedError, Class_RoomMembershipDecisionMismatchError,
      Class_RoomMembershipNotFoundError, Class_RoomMembershipRevisionError,
      Class_RoomMembershipLifecycleError, Class_RoomMembershipDuplicateError,
      Class_RoomLastOwnerContinuityError, Class_RoomCapabilityDeniedError,
      Class_RoomCapabilityStaleError, Class_RoomCapabilityWideningError,
      Class_RoomCapabilityScopeError]"], code_simp, case_tac x)
    simp_all

lemma authorization_class_names: "inj authorization_class_name"
  by (rule names_inj [of _ "[Class_RoomAuthorizationError, Class_PreparedAuthorizationStaleError,
      Class_AuthorizationRevisionMismatchError, Class_AuthorizationOperationBindingError,
      Class_AuthorizationObjectBindingError, Class_AuthorizationViewBindingError,
      Class_AuthorizationTargetBindingError, Class_MembershipRevokedError,
      Class_MembershipSuspendedError, Class_MembershipRemovedError,
      Class_RoleCapabilityRevokedError, Class_RoomPolicyRevisionMismatchError,
      Class_PrivacyModeRevisionMismatchError, Class_AuthorizationCacheForbiddenError,
      Class_RestrictiveOperationEscalationError]"], code_simp, case_tac x)
    simp_all

lemma composition_class_names: "inj composition_class_name"
  by (rule names_inj [of _ "[Class_RoomPolicyCompositionError, Class_RoomGovernanceDeniedError,
      Class_RoomGovernanceLoosenError, Class_RoomGovernancePolicyRevisionMismatchError]"], code_simp, case_tac x)
    simp_all

lemma object_class_names: "inj object_class_name"
  by (rule names_inj [of _ "[Class_RoomObjectError, Class_RoomObjectValidationError,
      Class_RoomObjectAuthorizationError, Class_RoomObjectConcurrencyError]"], code_simp, case_tac x)
    simp_all

lemma query_class_names: "inj query_class_name"
  by (rule names_inj [of _ "[Class_RoomQueryError, Class_RoomQueryValidationError,
      Class_RoomQueryPolicyDeniedError, Class_RoomQueryDecisionMismatchError,
      Class_RoomQueryRoomMismatchError, Class_RoomQueryObjectNotAvailableError,
      Class_RoomQueryCursorError, Class_RoomQueryLimitError, Class_RoomSearchDeniedError,
      Class_RoomQueryViewDeniedError]"], code_simp, case_tac x)
    simp_all

lemma room_event_class_names: "inj room_event_class_name"
  by (rule names_inj [of _ "[Class_RoomEventValidationError, Class_RoomEventVersionUnsupportedError,
      Class_RoomDuplicateEventError, Class_RoomSequenceConflictError,
      Class_RoomSequenceGapError, Class_RoomEventOrderError,
      Class_RoomEventRoomMismatchError, Class_RoomLifecycleTransitionError]"], code_simp, case_tac x)
    simp_all

theorem error_class_readable:
  "eo_name (room_error_object a ctx) = eo_name (room_error_object a' ctx') \<longleftrightarrow> a = a'"
  "eo_name (storage_error_object b ctx) = eo_name (storage_error_object b' ctx') \<longleftrightarrow> b = b'"
  "eo_name (network_error_object c ctx) = eo_name (network_error_object c' ctx') \<longleftrightarrow> c = c'"
  "eo_name (metadata_error_object d ctx) = eo_name (metadata_error_object d' ctx') \<longleftrightarrow> d = d'"
  "eo_name (notification_error_object e ctx) = eo_name (notification_error_object e' ctx') \<longleftrightarrow> e = e'"
  using room_error_names storage_error_names network_error_names metadata_error_names notification_error_names
  by (simp_all add: error_objects inj_eq)

end
