(* ===== verification/FL_Sorting.thy ===== *)
theory FL_Sorting
  imports FL_Prelude "HOL-Library.Multiset"
begin

text \<open>
  The order of JavaScript strings and a stable sort by a comparator, for the queries that
  order what they return.  \<open>strict_weak\<close> is what a comparator must satisfy for
  \<open>Array.prototype.sort\<close> to mean anything; it is interpreted for the string order and,
  by the query theories, for their own comparators.
\<close>

text \<open>UTF-16 code unit order, the order \<open><\<close> has on JavaScript strings.\<close>

fun jstr_less :: "jstr \<Rightarrow> jstr \<Rightarrow> bool" where
  "jstr_less [] [] = False"
| "jstr_less [] (y # ys) = True"
| "jstr_less (x # xs) [] = False"
| "jstr_less (x # xs) (y # ys) = (x < y \<or> x = y \<and> jstr_less xs ys)"

fun insert_by :: "('a \<Rightarrow> 'a \<Rightarrow> bool) \<Rightarrow> 'a \<Rightarrow> 'a list \<Rightarrow> 'a list" where
  "insert_by lt x [] = [x]"
| "insert_by lt x (y # ys) = (if lt y x then y # insert_by lt x ys else x # y # ys)"

definition sort_by :: "('a \<Rightarrow> 'a \<Rightarrow> bool) \<Rightarrow> 'a list \<Rightarrow> 'a list" where
  "sort_by lt xs = foldr (insert_by lt) xs []"

lemma sort_by_Nil [simp]: "sort_by lt [] = []"
  by (simp add: sort_by_def)

lemma sort_by_Cons: "sort_by lt (x # xs) = insert_by lt x (sort_by lt xs)"
  by (simp add: sort_by_def)

lemma mset_insert_by [simp]: "mset (insert_by lt x xs) = add_mset x (mset xs)"
  by (induction xs) auto

lemma mset_sort_by [simp]: "mset (sort_by lt xs) = mset xs"
  by (induction xs) (simp_all add: sort_by_Cons)

lemma set_insert_by [simp]: "set (insert_by lt x xs) = insert x (set xs)"
  by (metis mset_insert_by set_mset_add_mset_insert set_mset_mset)

lemma set_sort_by [simp]: "set (sort_by lt xs) = set xs"
  by (metis mset_sort_by set_mset_mset)

lemma length_sort_by [simp]: "length (sort_by lt xs) = length xs"
  by (metis mset_sort_by size_mset)

locale strict_weak =
  fixes lt :: "'a \<Rightarrow> 'a \<Rightarrow> bool"
  assumes asym: "lt a b \<Longrightarrow> \<not> lt b a"
    and between: "lt a c \<Longrightarrow> lt a b \<or> lt b c"
begin

definition tie :: "'a \<Rightarrow> 'a \<Rightarrow> bool" where
  "tie a b \<longleftrightarrow> \<not> lt a b \<and> \<not> lt b a"

lemma insert_by_sorted:
  "sorted_wrt (\<lambda>a b. \<not> lt b a) xs \<Longrightarrow> sorted_wrt (\<lambda>a b. \<not> lt b a) (insert_by lt x xs)"
  by (induction xs) (auto dest: asym between)

lemma sort_by_sorted: "sorted_wrt (\<lambda>a b. \<not> lt b a) (sort_by lt xs)"
  by (induction xs) (simp_all add: sort_by_Cons insert_by_sorted)

lemma insert_by_tie: "filter (tie k) (insert_by lt x xs) = filter (tie k) (x # xs)"
  by (induction xs) (auto simp: tie_def dest: between asym)

text \<open>Stability: elements the comparator does not tell apart keep their order.\<close>

lemma sort_by_stable: "filter (tie k) (sort_by lt xs) = filter (tie k) xs"
  by (induction xs) (simp_all add: sort_by_Cons insert_by_tie)

end

lemma jstr_less_asym: "jstr_less a b \<Longrightarrow> \<not> jstr_less b a"
  by (induction a b rule: jstr_less.induct) auto

lemma jstr_less_between: "jstr_less a c \<Longrightarrow> jstr_less a b \<or> jstr_less b c"
proof (induction a c arbitrary: b rule: jstr_less.induct)
  case (2 y ys)
  then show ?case by (cases b) auto
next
  case (4 x xs y ys)
  then show ?case by (cases b) force+
qed simp_all

lemma jstr_less_total: "a \<noteq> b \<Longrightarrow> jstr_less a b \<or> jstr_less b a"
  by (induction a b rule: jstr_less.induct) auto

interpretation jstr_key: strict_weak "\<lambda>a b. jstr_less (k a) (k b)" for k :: "'a \<Rightarrow> jstr"
  by unfold_locales (auto dest: jstr_less_asym jstr_less_between)

end
