(* ===== verification/Policy_Decision.thy ===== *)
theory Policy_Decision
  imports FL_Errors
begin

text \<open>
  The \<open>PolicyDecision\<close> contract of \<open>packages/privacy/src/index.ts\<close>:
  modes, capabilities, side-effect scopes, strictest-policy composition of profiles and
  the provenance registry behind \<open>isPolicyDecision\<close>.  Decision objects have
  identity in JavaScript (the registry is a \<open>WeakSet\<close>), so the model has a heap of
  decision objects; a barrier receives a reference and reads the object's fields when it
  runs.  The locale \<open>decision_gate\<close> is the contract every barrier of the rooms
  package keeps; its lemmas are proved once here.
\<close>

section \<open>Modes, capabilities, scopes\<close>

text \<open>
  \<open>Mode_other\<close> is a string outside the union that reaches the code through a cast
  (the command validators accept any string as \<open>mode\<close>).
\<close>

datatype privacy_mode =
    Mode_standard
  | Mode_private
  | Mode_ghost
  | Mode_bunker
  | Mode_offline_capsule
  | Mode_emergency
  | Mode_sovereign_room
  | Mode_other jstr

definition KNOWN_MODES :: "privacy_mode list" where
  "KNOWN_MODES = [Mode_standard, Mode_private, Mode_ghost, Mode_bunker,
     Mode_offline_capsule, Mode_emergency, Mode_sovereign_room]"

fun mode_name :: "privacy_mode \<Rightarrow> string" where
  "mode_name Mode_standard = ''standard''"
| "mode_name Mode_private = ''private''"
| "mode_name Mode_ghost = ''ghost''"
| "mode_name Mode_bunker = ''bunker''"
| "mode_name Mode_offline_capsule = ''offline_capsule''"
| "mode_name Mode_emergency = ''emergency''"
| "mode_name Mode_sovereign_room = ''sovereign_room''"
| "mode_name (Mode_other s) = []"

definition mode_of_js :: "jstr \<Rightarrow> privacy_mode" where
  "mode_of_js s = (case enum_of KNOWN_MODES mode_name s of Some m \<Rightarrow> m | None \<Rightarrow> Mode_other s)"

lemma KNOWN_MODES_iff: "m \<in> set KNOWN_MODES \<longleftrightarrow> (\<forall>s. m \<noteq> Mode_other s)"
  by (cases m) (auto simp: KNOWN_MODES_def)

datatype policy_capability =
    Cap_persistence
  | Cap_network
  | Cap_directTransport
  | Cap_externalAssets
  | Cap_linkPreviews
  | Cap_readReceipts
  | Cap_typingIndicators
  | Cap_presence
  | Cap_notifications
  | Cap_localAI
  | Cap_mediaCache
  | Cap_roomSync
  | Cap_capsuleSpool

definition POLICY_CAPABILITIES :: "policy_capability list" where
  "POLICY_CAPABILITIES = [Cap_persistence, Cap_network, Cap_directTransport, Cap_externalAssets, Cap_linkPreviews, Cap_readReceipts, Cap_typingIndicators, Cap_presence, Cap_notifications, Cap_localAI, Cap_mediaCache, Cap_roomSync, Cap_capsuleSpool]"

lemma POLICY_CAPABILITIES_complete: "c \<in> set POLICY_CAPABILITIES"
  by (cases c) (auto simp: POLICY_CAPABILITIES_def)

datatype policy_verdict = Allowed | Denied

text \<open>
  A scope is one of these string constants; barriers compare scopes for equality.
\<close>

type_synonym side_effect_scope = string

definition POLICY_SIDE_EFFECT_SCOPES :: "side_effect_scope list" where
  "POLICY_SIDE_EFFECT_SCOPES = [
     ''storage.write'',
     ''storage.read'',
     ''storage.delete'',
     ''storage.list'',
     ''storage.clear'',
     ''storage.export'',
     ''storage.import'',
     ''storage.cache.write'',
     ''storage.cache.read'',
     ''storage.audit.write'',
     ''network.send'',
     ''network.receive'',
     ''network.connect'',
     ''network.request'',
     ''network.listen'',
     ''transport.send'',
     ''transport.receive'',
     ''transport.poll'',
     ''transport.sync'',
     ''transport.discovery'',
     ''link.preview'',
     ''asset.fetch'',
     ''telemetry.send'',
     ''update.check'',
     ''ai.remote_request'',
     ''ai.infer'',
     ''metadata.emit'',
     ''metadata.store'',
     ''metadata.notify'',
     ''metadata.log'',
     ''metadata.audit'',
     ''metadata.network_expose'',
     ''receipt.emit'',
     ''typing.emit'',
     ''presence.emit'',
     ''notification.show'',
     ''notification.permission_request'',
     ''notification.badge'',
     ''notification.sound'',
     ''notification.vibration'',
     ''notification.push_subscribe'',
     ''notification.push_receive'',
     ''notification.service_worker_show'',
     ''notification.audit'',
     ''room.create'',
     ''room.mutate'',
     ''room.project'',
     ''room.operation_log.append'',
     ''room.operation_log.read'',
     ''room.operation_log.clear'',
     ''room.replay'',
     ''room.audit'',
     ''room.policy_update'',
     ''room.lifecycle_update'',
     ''room.object.create'',
     ''room.object.update'',
     ''room.object.redact'',
     ''room.object.archive'',
     ''room.object.tombstone'',
     ''room.object_log.append'',
     ''room.object_log.read'',
     ''room.object_log.clear'',
     ''room.query.summary'',
     ''room.query.list'',
     ''room.query.detail'',
     ''room.query.search'',
     ''room.query.count'',
     ''room.membership.bootstrap'',
     ''room.membership.add'',
     ''room.membership.change_role'',
     ''room.membership.suspend'',
     ''room.membership.reactivate'',
     ''room.membership.remove'',
     ''room.membership_log.append'',
     ''room.membership_log.read'',
     ''room.membership.query.list'',
     ''room.membership.query.detail'',
     ''room.membership.query.count'',
     ''room.governance.update'',
     ''room.governance_log.append'',
     ''generic'']"

section \<open>Strictest policy wins\<close>

text \<open>
  A profile gives one verdict per capability.  The result record has an entry for every
  member of \<open>POLICY_CAPABILITIES\<close>, which is every capability.
\<close>

type_synonym policy_profile = "policy_capability \<Rightarrow> policy_verdict"

definition resolveStrictestPolicy :: "policy_profile list \<Rightarrow> policy_profile" where
  "resolveStrictestPolicy profiles = (\<lambda>capability.
     if 0 < length profiles \<and> list_all (\<lambda>p. p capability = Allowed) profiles
     then Allowed else Denied)"

lemma resolveStrictestPolicy_Allowed:
  "resolveStrictestPolicy ps c = Allowed \<longleftrightarrow> ps \<noteq> [] \<and> (\<forall>p \<in> set ps. p c = Allowed)"
  by (auto simp: resolveStrictestPolicy_def list_all_iff)

text \<open>Strictest policy wins: composing more profiles can only deny more, the result
  depends on the set of contributing profiles alone (no precedence by position), and with no
  profile every capability is denied.\<close>

theorem resolveStrictestPolicy_strictest:
  "(resolveStrictestPolicy (ps @ qs) c = Allowed \<and> ps \<noteq> []
      \<longrightarrow> resolveStrictestPolicy ps c = Allowed)
   \<and> (set ps = set qs \<longrightarrow> resolveStrictestPolicy ps = resolveStrictestPolicy qs)
   \<and> resolveStrictestPolicy [] c = Denied"
proof -
  have "resolveStrictestPolicy ps = resolveStrictestPolicy qs" if "set ps = set qs"
  proof
    fix x
    have "resolveStrictestPolicy ps x = Allowed \<longleftrightarrow> resolveStrictestPolicy qs x = Allowed"
      using that by (auto simp: resolveStrictestPolicy_Allowed)
    then show "resolveStrictestPolicy ps x = resolveStrictestPolicy qs x"
      by (metis policy_verdict.exhaust)
  qed
  moreover have "resolveStrictestPolicy [] c = Denied"
    by (simp add: resolveStrictestPolicy_def)
  ultimately show ?thesis by (auto simp: resolveStrictestPolicy_Allowed)
qed

theorem resolveStrictestPolicy_strictest_witness:
  "resolveStrictestPolicy [\<lambda>_. Allowed] Cap_network = Allowed"
proof -
  let ?p = "\<lambda>_ :: policy_capability. Allowed"
  have "resolveStrictestPolicy ([?p] @ [?p]) Cap_network = Allowed"
    by (simp add: resolveStrictestPolicy_def)
  then show ?thesis
    using resolveStrictestPolicy_strictest [of "[?p]" "[?p]" Cap_network] by simp
qed

section \<open>Decisions and their provenance\<close>

text \<open>
  \<open>pd_seq\<close> is the number in \<open>id = "pd-N"\<close>.  A reference is an object
  identity; \<open>issued\<close> is the module-private \<open>WeakSet\<close>.
\<close>

record policy_decision =
  pd_seq :: nat
  pd_capability :: policy_capability
  pd_sideEffect :: side_effect_scope
  pd_verdict :: policy_verdict
  pd_mode :: privacy_mode
  pd_issuedAtLogical :: nat

type_synonym dref = nat

record privacy_state =
  dec_heap :: "dref \<rightharpoonup> policy_decision"
  dec_next :: dref
  issued :: "dref list"
  decisionSeq :: nat

definition privacy_init :: privacy_state where
  "privacy_init = \<lparr>dec_heap = Map.empty, dec_next = 0, issued = [], decisionSeq = 0\<rparr>"

definition issuePolicyDecision ::
  "policy_capability \<Rightarrow> policy_verdict \<Rightarrow> privacy_mode \<Rightarrow> side_effect_scope \<Rightarrow> privacy_state
     \<Rightarrow> dref \<times> privacy_state" where
  "issuePolicyDecision capability verdict mode sideEffect s =
     (let n = Suc (decisionSeq s);
          d = \<lparr>pd_seq = n, pd_capability = capability, pd_sideEffect = sideEffect,
               pd_verdict = verdict, pd_mode = mode, pd_issuedAtLogical = n\<rparr>;
          r = dec_next s
      in (r, s\<lparr>dec_heap := (dec_heap s)(r \<mapsto> d), dec_next := Suc r,
               issued := r # issued s, decisionSeq := n\<rparr>))"

definition isPolicyDecision :: "privacy_state \<Rightarrow> dref \<Rightarrow> bool" where
  "isPolicyDecision s r \<longleftrightarrow> dec_heap s r \<noteq> None \<and> r \<in> set (issued s)"

text \<open>The object a barrier reads after \<open>isPolicyDecision\<close> answered true.\<close>

definition authentic :: "privacy_state \<Rightarrow> dref \<Rightarrow> policy_decision option" where
  "authentic s r = (if isPolicyDecision s r then dec_heap s r else None)"

lemma authentic_None_iff: "authentic s r = None \<longleftrightarrow> \<not> isPolicyDecision s r"
  by (auto simp: authentic_def isPolicyDecision_def)

lemma authentic_SomeD: "authentic s r = Some d \<Longrightarrow> isPolicyDecision s r \<and> dec_heap s r = Some d"
  by (auto simp: authentic_def split: if_splits)

text \<open>
  What other code of the same realm can do: \<open>craft\<close> builds an object with any
  fields; \<open>tamper\<close> assigns to the fields of an object it holds (issued objects are
  not frozen).
\<close>

inductive decision_step :: "bool \<Rightarrow> privacy_state \<Rightarrow> privacy_state \<Rightarrow> bool" where
  issue: "issuePolicyDecision c v m e s = (r, s') \<Longrightarrow> decision_step mutate s s'"
| craft: "decision_step mutate s
     (s\<lparr>dec_heap := (dec_heap s)(dec_next s \<mapsto> d), dec_next := Suc (dec_next s)\<rparr>)"
| tamper: "mutate \<Longrightarrow> dec_heap s r \<noteq> None \<Longrightarrow>
     decision_step mutate s (s\<lparr>dec_heap := (dec_heap s)(r \<mapsto> d)\<rparr>)"

inductive_cases honest_stepE [consumes 1]: "decision_step False s s'"

text \<open>
  References in use are allocated, the registry holds allocated references only, and the
  issued objects of a run without mutation carry pairwise different sequence numbers.
\<close>

definition privacy_inv :: "privacy_state \<Rightarrow> bool" where
  "privacy_inv s \<longleftrightarrow>
     (\<forall>r. dec_heap s r \<noteq> None \<longleftrightarrow> r < dec_next s)
   \<and> (\<forall>r \<in> set (issued s). r < dec_next s)
   \<and> (\<forall>r \<in> set (issued s). \<forall>d. dec_heap s r = Some d \<longrightarrow> 1 \<le> pd_seq d \<and> pd_seq d \<le> decisionSeq s)
   \<and> (\<forall>r \<in> set (issued s). \<forall>r' \<in> set (issued s). \<forall>d d'. dec_heap s r = Some d \<longrightarrow>
        dec_heap s r' = Some d' \<longrightarrow> pd_seq d = pd_seq d' \<longrightarrow> r = r')"

lemma privacy_inv_init: "privacy_inv privacy_init"
  by (simp add: privacy_inv_def privacy_init_def)

lemma privacy_inv_issue:
  assumes "privacy_inv s" and "issuePolicyDecision c v m e s = (r, s')"
  shows "privacy_inv s'"
proof -
  have r: "r = dec_next s" and s': "dec_next s' = Suc r" "issued s' = r # issued s"
    "decisionSeq s' = Suc (decisionSeq s)"
    "dec_heap s' = (dec_heap s)(r \<mapsto> \<lparr>pd_seq = Suc (decisionSeq s), pd_capability = c,
       pd_sideEffect = e, pd_verdict = v, pd_mode = m, pd_issuedAtLogical = Suc (decisionSeq s)\<rparr>)"
    using assms(2) by (auto simp: issuePolicyDecision_def Let_def)
  have fresh: "x \<in> set (issued s) \<Longrightarrow> x \<noteq> r" for x
    using assms(1) r by (auto simp: privacy_inv_def)
  have low: "x \<in> set (issued s) \<Longrightarrow> dec_heap s x = Some d \<Longrightarrow> pd_seq d \<noteq> Suc (decisionSeq s)" for x d
    using assms(1) unfolding privacy_inv_def by (metis Suc_n_not_le_n)
  have low': "x \<in> set (issued s) \<Longrightarrow> dec_heap s x = Some d \<Longrightarrow> pd_seq d \<le> Suc (decisionSeq s)" for x d
    using assms(1) unfolding privacy_inv_def by (metis le_SucI)
  show ?thesis
    using assms(1) r fresh low low' unfolding privacy_inv_def s'
    by (auto simp: less_Suc_eq dest: low)
qed

lemma privacy_inv_honest_step: "decision_step False s s' \<Longrightarrow> privacy_inv s \<Longrightarrow> privacy_inv s'"
proof (erule honest_stepE)
  fix c v m e r assume "privacy_inv s" and "issuePolicyDecision c v m e s = (r, s')"
  then show "privacy_inv s'" by (rule privacy_inv_issue)
next
  fix d
  assume inv: "privacy_inv s"
    and s': "s' = s\<lparr>dec_heap := (dec_heap s)(dec_next s \<mapsto> d), dec_next := Suc (dec_next s)\<rparr>"
  have "x \<in> set (issued s) \<Longrightarrow> x \<noteq> dec_next s" for x
    using inv by (auto simp: privacy_inv_def)
  then show "privacy_inv s'"
    using inv unfolding privacy_inv_def s' by (auto simp: less_Suc_eq)
qed

text \<open>A run without mutation keeps every authentic decision exactly as it was issued.\<close>

lemma honest_step_keeps:
  assumes "decision_step False s s'" and "privacy_inv s" and "authentic s r = Some d"
  shows "authentic s' r = Some d"
proof -
  have "r < dec_next s" using assms(2,3) by (auto simp: privacy_inv_def dest: authentic_SomeD)
  with assms show ?thesis
    by (auto simp: authentic_def isPolicyDecision_def issuePolicyDecision_def Let_def
        elim!: honest_stepE split: if_splits)
qed

lemma honest_run:
  assumes "(decision_step False)\<^sup>*\<^sup>* s s'" and "privacy_inv s"
  shows "privacy_inv s' \<and> (\<forall>r d. authentic s r = Some d \<longrightarrow> authentic s' r = Some d)"
  using assms(1)
proof (induction rule: rtranclp_induct)
  case base
  then show ?case using assms(2) by simp
next
  case (step t u)
  then show ?case by (metis honest_step_keeps privacy_inv_honest_step)
qed

text \<open>C9.  Provenance: after \<open>issuePolicyDecision\<close> in any state a run of issuing and
  crafting can reach, and after any further such run, the returned reference is authentic
  with exactly the issued capability, verdict, mode and scope; a reference that was never
  returned by the factory is never authentic.\<close>

theorem issued_decision_provenance:
  assumes "(decision_step False)\<^sup>*\<^sup>* privacy_init s"
    and "issuePolicyDecision c v m e s = (r, s\<^sub>1)"
    and "(decision_step False)\<^sup>*\<^sup>* s\<^sub>1 s\<^sub>2"
  shows "authentic s\<^sub>2 r = Some \<lparr>pd_seq = Suc (decisionSeq s), pd_capability = c,
           pd_sideEffect = e, pd_verdict = v, pd_mode = m,
           pd_issuedAtLogical = Suc (decisionSeq s)\<rparr>
       \<and> (\<forall>q. q \<notin> set (issued s\<^sub>2) \<longrightarrow> \<not> isPolicyDecision s\<^sub>2 q)"
proof -
  have "privacy_inv s" using honest_run [OF assms(1) privacy_inv_init] by simp
  then have "privacy_inv s\<^sub>1" using assms(2) by (rule privacy_inv_issue)
  moreover have "authentic s\<^sub>1 r = Some \<lparr>pd_seq = Suc (decisionSeq s), pd_capability = c,
           pd_sideEffect = e, pd_verdict = v, pd_mode = m,
           pd_issuedAtLogical = Suc (decisionSeq s)\<rparr>"
    using assms(2) by (auto simp: issuePolicyDecision_def Let_def authentic_def isPolicyDecision_def)
  ultimately show ?thesis
    using honest_run [OF assms(3)] by (auto simp: isPolicyDecision_def)
qed

theorem issued_decision_provenance_witness:
  "authentic (snd (issuePolicyDecision Cap_persistence Denied Mode_ghost ''room.mutate'' privacy_init)) 0
     = Some \<lparr>pd_seq = 1, pd_capability = Cap_persistence, pd_sideEffect = ''room.mutate'',
         pd_verdict = Denied, pd_mode = Mode_ghost, pd_issuedAtLogical = 1\<rparr>"
proof -
  let ?p = "issuePolicyDecision Cap_persistence Denied Mode_ghost ''room.mutate'' privacy_init"
  have "?p = (0, snd ?p)" by (simp add: issuePolicyDecision_def Let_def privacy_init_def)
  from issued_decision_provenance [OF rtranclp.rtrancl_refl this rtranclp.rtrancl_refl]
  show ?thesis by (simp add: privacy_init_def)
qed

text \<open>The registry protects the identity of a decision and not its fields: the issued
  object is not frozen, so code holding a denied decision can turn it into an allowed one of
  any scope that still passes \<open>isPolicyDecision\<close>.\<close>

theorem issued_decision_mutable:
  "\<exists>s s'. issuePolicyDecision Cap_persistence Denied Mode_ghost ''room.mutate'' privacy_init = (0, s)
     \<and> decision_step True s s' \<and> isPolicyDecision s' 0
     \<and> map_option pd_verdict (authentic s' 0) = Some Allowed
     \<and> map_option pd_sideEffect (authentic s' 0) = Some ''room.object.tombstone''"
proof -
  let ?s = "snd (issuePolicyDecision Cap_persistence Denied Mode_ghost ''room.mutate'' privacy_init)"
  let ?d = "\<lparr>pd_seq = 1, pd_capability = Cap_persistence, pd_sideEffect = ''room.object.tombstone'',
         pd_verdict = Allowed, pd_mode = Mode_ghost, pd_issuedAtLogical = 1\<rparr>"
  have "decision_step True ?s (?s\<lparr>dec_heap := (dec_heap ?s)(0 \<mapsto> ?d)\<rparr>)"
    by (rule decision_step.tamper)
      (simp_all add: issuePolicyDecision_def Let_def privacy_init_def)
  then show ?thesis
    by (intro exI [of _ ?s] exI [of _ "?s\<lparr>dec_heap := (dec_heap ?s)(0 \<mapsto> ?d)\<rparr>"])
      (simp add: issuePolicyDecision_def Let_def privacy_init_def authentic_def isPolicyDecision_def)
qed

section \<open>The contract of a barrier\<close>

text \<open>
  A barrier takes the registry state, a reference and a request and either throws or
  returns.  Its law: it returns only for an authentic, allowed decision of a capability the
  request may use, whose scope is exactly the one the request needs.
\<close>

locale capability_gate =
  fixes check :: "privacy_state \<Rightarrow> dref \<Rightarrow> 'q \<Rightarrow> exn + 'a"
    and scope :: "'q \<Rightarrow> side_effect_scope"
    and capabilities :: "'q \<Rightarrow> policy_capability set"
  assumes accepts_of: "check s r q = Inr u \<Longrightarrow> \<exists>d. authentic s r = Some d
      \<and> pd_verdict d = Allowed \<and> pd_capability d \<in> capabilities q \<and> pd_sideEffect d = scope q"
begin

lemma forged_rejected: "\<not> isPolicyDecision s r \<Longrightarrow> \<exists>x. check s r q = Inl x"
  by (metis accepts_of authentic_None_iff old.sum.exhaust option.simps(3))

lemma denied_rejected:
  "authentic s r = Some d \<Longrightarrow> pd_verdict d = Denied \<Longrightarrow> \<exists>x. check s r q = Inl x"
  by (metis accepts_of old.sum.exhaust option.inject policy_verdict.distinct(1))

lemma one_scope: "check s r q = Inr u \<Longrightarrow> check s r q' = Inr u' \<Longrightarrow> scope q = scope q'"
  by (metis accepts_of option.inject)

lemma scope_mismatch_rejected:
  "authentic s r = Some d \<Longrightarrow> pd_sideEffect d \<noteq> scope q \<Longrightarrow> \<exists>x. check s r q = Inl x"
  by (metis accepts_of old.sum.exhaust option.inject)

lemma capability_mismatch_rejected:
  "authentic s r = Some d \<Longrightarrow> pd_capability d \<notin> capabilities q \<Longrightarrow> \<exists>x. check s r q = Inl x"
  by (metis accepts_of old.sum.exhaust option.inject)

end

text \<open>The barriers of the rooms package take decisions of the one capability
  \<open>ROOM_CAPABILITY\<close>.\<close>

locale decision_gate =
  fixes check :: "privacy_state \<Rightarrow> dref \<Rightarrow> 'q \<Rightarrow> exn + 'a"
    and scope :: "'q \<Rightarrow> side_effect_scope"
  assumes accepts: "check s r q = Inr u \<Longrightarrow> \<exists>d. authentic s r = Some d
      \<and> pd_verdict d = Allowed \<and> pd_capability d = Cap_persistence \<and> pd_sideEffect d = scope q"

sublocale decision_gate \<subseteq> capability_gate check scope "\<lambda>_. {Cap_persistence}"
  by unfold_locales (use accepts in blast)

end
