(* ===== verification/Policy_Matrix.thy ===== *)
theory Policy_Matrix
  imports Policy_Decision
begin

text \<open>
  Policy Matrix v1 (\<open>packages/privacy/src/policyMatrixTypes.ts\<close>,
  \<open>policyMatrix.ts\<close>): effects ordered by strictness, the authoring form of a row
  and its expansion to one rule per mode, composition of effects and decisions, and the
  evaluation of one input against an index of rules.  The table itself is in
  \<open>Policy_Matrix_Table\<close>; everything here holds for any table.  The
  documentation fields of a row (\<open>rationale\<close>, \<open>testCoverage\<close>,
  \<open>docsRefs\<close>) are not modelled.
\<close>

section \<open>Taxonomy\<close>

datatype policy_domain =
    PD_storage | PD_network | PD_metadata | PD_link_preview | PD_external_asset
  | PD_notification | PD_ai | PD_endpoint | PD_room | PD_identity | PD_capsule
  | PD_crypto | PD_unknown

datatype policy_effect =
    PE_allow | PE_deny | PE_redact | PE_coarsen | PE_delay | PE_batch | PE_memory_only
  | PE_null | PE_require_user_action | PE_future_gate | PE_not_implemented

definition POLICY_EFFECT_STRICTNESS :: "policy_effect list" where
  "POLICY_EFFECT_STRICTNESS = [PE_deny, PE_null, PE_not_implemented, PE_future_gate,
     PE_memory_only, PE_redact, PE_coarsen, PE_delay, PE_batch, PE_require_user_action, PE_allow]"

definition ALLOWING_EFFECTS :: "policy_effect list" where
  "ALLOWING_EFFECTS = [PE_allow, PE_memory_only, PE_redact, PE_coarsen, PE_delay, PE_batch]"

datatype policy_reason =
    PR_default_deny | PR_strict_mode | PR_telemetry_forbidden | PR_external_asset_forbidden
  | PR_link_preview_forbidden | PR_push_forbidden | PR_persistent_storage_forbidden
  | PR_network_forbidden | PR_metadata_forbidden | PR_ai_forbidden | PR_crypto_not_implemented
  | PR_encrypted_storage_not_implemented | PR_screen_shield_strict | PR_emergency_mode
  | PR_offline_capsule_mode | PR_room_policy_stricter | PR_unknown_input
  | PR_accepted_limitation | PR_deferred_gate

record matrix_spec =
  ms_id :: string
  ms_domain :: policy_domain
  ms_operation :: string
  ms_sink :: "string option"
  ms_transport :: "string option"
  ms_dataClass :: "string option"
  ms_effect :: policy_effect
  ms_effectOverrides :: "(privacy_mode \<times> policy_effect) list"
  ms_reasonCode :: policy_reason
  ms_reasonOverrides :: "(privacy_mode \<times> policy_reason) list"
  ms_shieldTightened :: bool

record matrix_rule =
  mr_id :: string
  mr_domain :: policy_domain
  mr_mode :: privacy_mode
  mr_operation :: string
  mr_sink :: "string option"
  mr_transport :: "string option"
  mr_dataClass :: "string option"
  mr_effect :: policy_effect
  mr_allowed :: bool
  mr_persistentAllowed :: bool
  mr_networkAllowed :: bool
  mr_requiresUserAction :: bool
  mr_reasonCode :: policy_reason

datatype shield_level = SL_off | SL_standard | SL_protected | SL_sealed | SL_bunker
datatype risk_level = Risk_low | Risk_medium | Risk_high | Risk_critical | Risk_unknown

text \<open>Of a caller's partial \<open>roomPolicy\<close> the evaluation reads two fields.\<close>

record matrix_room_policy =
  rmp_allowed :: "bool option"
  rmp_effect :: "policy_effect option"

record matrix_input =
  mi_mode :: privacy_mode
  mi_domain :: policy_domain
  mi_operation :: string
  mi_roomPolicy :: "matrix_room_policy option"
  mi_screenShieldLevel :: "shield_level option"
  mi_deviceRiskLevel :: "risk_level option"

record matrix_decision =
  md_ruleId :: string
  md_domain :: policy_domain
  md_mode :: privacy_mode
  md_effect :: policy_effect
  md_allowed :: bool
  md_persistentAllowed :: bool
  md_networkAllowed :: bool
  md_requiresUserAction :: bool
  md_reasonCode :: policy_reason

section \<open>Expansion of the authoring form\<close>

definition isAllowingEffect :: "policy_effect \<Rightarrow> bool" where
  "isAllowingEffect e \<longleftrightarrow> e \<in> set ALLOWING_EFFECTS"

definition expand_spec :: "matrix_spec \<Rightarrow> privacy_mode \<Rightarrow> matrix_rule" where
  "expand_spec spec mode =
     (let effect = (case map_of (ms_effectOverrides spec) mode of Some e \<Rightarrow> e | None \<Rightarrow> ms_effect spec);
          reasonCode = (case map_of (ms_reasonOverrides spec) mode of Some c \<Rightarrow> c
                        | None \<Rightarrow> ms_reasonCode spec)
      in \<lparr>mr_id = ms_id spec @ '':'' @ mode_name mode, mr_domain = ms_domain spec, mr_mode = mode,
          mr_operation = ms_operation spec, mr_sink = ms_sink spec,
          mr_transport = ms_transport spec, mr_dataClass = ms_dataClass spec,
          mr_effect = effect, mr_allowed = isAllowingEffect effect,
          mr_persistentAllowed = False, mr_networkAllowed = False,
          mr_requiresUserAction = (effect = PE_require_user_action),
          mr_reasonCode = reasonCode\<rparr>)"

definition expandPolicyMatrixSpecs :: "matrix_spec list \<Rightarrow> matrix_rule list" where
  "expandPolicyMatrixSpecs specs = concat (map (\<lambda>spec. map (expand_spec spec) KNOWN_MODES) specs)"

lemma expand_rule_props:
  "r \<in> set (expandPolicyMatrixSpecs specs) \<Longrightarrow>
     \<not> mr_persistentAllowed r \<and> \<not> mr_networkAllowed r \<and> mr_allowed r = isAllowingEffect (mr_effect r)
     \<and> mr_mode r \<in> set KNOWN_MODES"
  by (auto simp: expandPolicyMatrixSpecs_def expand_spec_def Let_def)

section \<open>Composition: deny overrides, strictest wins\<close>

definition strictnessIndex :: "policy_effect \<Rightarrow> nat" where
  "strictnessIndex e = (if e \<in> set POLICY_EFFECT_STRICTNESS
     then length (takeWhile (\<lambda>x. x \<noteq> e) POLICY_EFFECT_STRICTNESS) else 0)"

lemma strictnessIndex_simps [simp]:
  "strictnessIndex PE_deny = 0" "strictnessIndex PE_null = 1"
  "strictnessIndex PE_not_implemented = 2" "strictnessIndex PE_future_gate = 3"
  "strictnessIndex PE_memory_only = 4" "strictnessIndex PE_redact = 5"
  "strictnessIndex PE_coarsen = 6" "strictnessIndex PE_delay = 7"
  "strictnessIndex PE_batch = 8" "strictnessIndex PE_require_user_action = 9"
  "strictnessIndex PE_allow = 10"
  by (simp_all add: strictnessIndex_def POLICY_EFFECT_STRICTNESS_def)

definition isEffectStricterThan :: "policy_effect \<Rightarrow> policy_effect \<Rightarrow> bool" where
  "isEffectStricterThan a b \<longleftrightarrow> strictnessIndex a < strictnessIndex b"

lemma strictnessIndex_inj: "strictnessIndex a = strictnessIndex b \<longleftrightarrow> a = b"
  by (cases a; cases b) simp_all

text \<open>Effects are ordered from the strictest on, so that the order of the library applies.\<close>

instantiation policy_effect :: linorder
begin

definition less_eq_policy_effect :: "policy_effect \<Rightarrow> policy_effect \<Rightarrow> bool" where
  "less_eq_policy_effect a b \<longleftrightarrow> strictnessIndex a \<le> strictnessIndex b"

definition less_policy_effect :: "policy_effect \<Rightarrow> policy_effect \<Rightarrow> bool" where
  "less_policy_effect a b \<longleftrightarrow> isEffectStricterThan a b"

instance
  by standard (auto simp: less_eq_policy_effect_def less_policy_effect_def isEffectStricterThan_def strictnessIndex_inj)

end

text \<open>\<open>effects.reduce(f)\<close> with the first element as the seed.\<close>

definition combinePolicyEffects :: "policy_effect list \<Rightarrow> policy_effect" where
  "combinePolicyEffects effects = (case effects of [] \<Rightarrow> PE_deny
     | e # es \<Rightarrow> foldl (\<lambda>strictest effect.
         if isEffectStricterThan effect strictest then effect else strictest) e es)"

lemma foldl_Min:
  "foldl (\<lambda>s e. if isEffectStricterThan e s then e else s) e es = Min (set (e # es))"
proof (induction es arbitrary: e)
  case (Cons x xs)
  have "(if isEffectStricterThan x e then x else e) = min e x"
    by (auto simp: min_def less_policy_effect_def [symmetric])
  then show ?case using Cons.IH [of "min e x"] by (cases "xs = []") (simp_all add: min.assoc)
qed simp

lemma combinePolicyEffects_Min: "es \<noteq> [] \<Longrightarrow> combinePolicyEffects es = Min (set es)"
  by (cases es) (simp, simp only: combinePolicyEffects_def list.case foldl_Min)

text \<open>The combination of effects is the strictest of them: it is a member, no member is
  stricter, it depends on the set of effects alone, and no effect at all is a denial.\<close>

theorem combinePolicyEffects_strictest:
  "(es \<noteq> [] \<longrightarrow> combinePolicyEffects es \<in> set es
      \<and> (\<forall>e \<in> set es. \<not> isEffectStricterThan e (combinePolicyEffects es)))
   \<and> (set es = set fs \<longrightarrow> combinePolicyEffects es = combinePolicyEffects fs)
   \<and> (PE_deny \<in> set es \<longrightarrow> combinePolicyEffects es = PE_deny)
   \<and> combinePolicyEffects [] = PE_deny"
proof -
  have "combinePolicyEffects es \<in> set es" if "es \<noteq> []"
    unfolding combinePolicyEffects_Min [OF that] by (intro Min_in) (use that in auto)
  moreover have "\<forall>e \<in> set es. \<not> isEffectStricterThan e (combinePolicyEffects es)" if "es \<noteq> []"
    unfolding less_policy_effect_def [symmetric] not_less combinePolicyEffects_Min [OF that] by simp
  moreover have "combinePolicyEffects es = combinePolicyEffects fs" if "set es = set fs"
    using that combinePolicyEffects_Min [of es] combinePolicyEffects_Min [of fs] by (cases "es = []"; cases "fs = []") auto
  moreover have "combinePolicyEffects es = PE_deny" if "PE_deny \<in> set es"
  proof -
    have "es \<noteq> []" using that by auto
    then have "combinePolicyEffects es = Min (set es)" by (rule combinePolicyEffects_Min)
    also have "\<dots> = PE_deny"
      by (rule Min_eqI) (use that in \<open>auto simp: less_eq_policy_effect_def\<close>)
    finally show ?thesis .
  qed
  ultimately show ?thesis by (simp add: combinePolicyEffects_def)
qed

theorem combinePolicyEffects_strictest_witness:
  "combinePolicyEffects [PE_allow, PE_memory_only, PE_deny, PE_null] = PE_deny"
  using combinePolicyEffects_strictest [of "[PE_allow, PE_memory_only, PE_deny, PE_null]" "[]"]
  by simp

definition unmatched_decision :: matrix_decision where
  "unmatched_decision = \<lparr>md_ruleId = ''unmatched'', md_domain = PD_unknown, md_mode = Mode_standard,
     md_effect = PE_deny, md_allowed = False, md_persistentAllowed = False,
     md_networkAllowed = False, md_requiresUserAction = False, md_reasonCode = PR_unknown_input\<rparr>"

definition applyStrictestPolicy :: "matrix_decision list \<Rightarrow> matrix_decision" where
  "applyStrictestPolicy decisions = (case decisions of [] \<Rightarrow> unmatched_decision
     | d # ds \<Rightarrow>
       (let strictest = foldl (\<lambda>current decision.
              if isEffectStricterThan (md_effect decision) (md_effect current) then decision
              else current) d ds;
            allowed = (list_all md_allowed decisions \<and> md_allowed strictest)
        in strictest\<lparr>md_allowed := allowed,
             md_persistentAllowed := list_all md_persistentAllowed decisions,
             md_networkAllowed := list_all md_networkAllowed decisions\<rparr>))"

lemma foldl_strictest_decision_in:
  "foldl (\<lambda>c d. if isEffectStricterThan (md_effect d) (md_effect c) then d else c) d ds \<in> set (d # ds)"
proof (induction ds arbitrary: d)
  case Nil
  then show ?case by simp
next
  case (Cons x xs)
  show ?case
    using Cons.IH [of "if isEffectStricterThan (md_effect x) (md_effect d) then x else d"]
    by (auto split: if_splits)
qed

lemma applyStrictestPolicy_allowed:
  "md_allowed (applyStrictestPolicy ds) \<longleftrightarrow> ds \<noteq> [] \<and> list_all md_allowed ds"
proof (cases ds)
  case Nil
  then show ?thesis by (simp add: applyStrictestPolicy_def unmatched_decision_def)
next
  case (Cons d es)
  then show ?thesis
    using foldl_strictest_decision_in [of d es]
    by (auto simp: applyStrictestPolicy_def Let_def list_all_iff)
qed

section \<open>Evaluation\<close>

text \<open>
  The index is a \<open>Map\<close> keyed by \<open>domain|operation|mode\<close>, filled in table
  order, so a later duplicate would win.
\<close>

definition rule_lookup :: "matrix_rule list \<Rightarrow> policy_domain \<Rightarrow> string \<Rightarrow> privacy_mode
    \<Rightarrow> matrix_rule option" where
  "rule_lookup rules domain operation mode =
     find (\<lambda>r. mr_domain r = domain \<and> mr_operation r = operation \<and> mr_mode r = mode) (rev rules)"

text \<open>\<open>rule.id.slice(0, rule.id.lastIndexOf(":"))\<close>.\<close>

definition spec_id_of_rule :: "string \<Rightarrow> string" where
  "spec_id_of_rule i = rev (tl (dropWhile (\<lambda>c. c \<noteq> CHR '':'') (rev i)))"

definition denyDecision :: "matrix_input \<Rightarrow> policy_reason \<Rightarrow> matrix_decision" where
  "denyDecision inp reasonCode = \<lparr>md_ruleId = ''unmatched'', md_domain = mi_domain inp,
     md_mode = mi_mode inp, md_effect = PE_deny, md_allowed = False, md_persistentAllowed = False,
     md_networkAllowed = False, md_requiresUserAction = False, md_reasonCode = reasonCode\<rparr>"

definition shield_tighten :: "matrix_spec list \<Rightarrow> matrix_input \<Rightarrow> matrix_rule
    \<Rightarrow> policy_effect \<times> bool \<times> policy_reason" where
  "shield_tighten specs inp rule =
     (let shield = (case mi_screenShieldLevel inp of None \<Rightarrow> SL_off | Some l \<Rightarrow> l);
          risk = (case mi_deviceRiskLevel inp of None \<Rightarrow> Risk_unknown | Some l \<Rightarrow> l);
          specId = spec_id_of_rule (mr_id rule)
      in if specId \<in> set (map ms_id (filter ms_shieldTightened specs))
            \<and> (shield = SL_sealed \<or> shield = SL_bunker \<or> risk = Risk_critical)
         then (PE_deny, False, PR_screen_shield_strict)
         else (mr_effect rule, mr_allowed rule, mr_reasonCode rule))"

definition room_tighten :: "matrix_room_policy option \<Rightarrow> policy_effect \<times> bool \<times> policy_reason
    \<Rightarrow> policy_effect \<times> bool \<times> policy_reason" where
  "room_tighten room v = (case v of (effect, allowed, reasonCode) \<Rightarrow>
     (case room of None \<Rightarrow> v
      | Some rp \<Rightarrow>
        if rmp_allowed rp = Some False \<and> allowed then (PE_deny, False, PR_room_policy_stricter)
        else (case rmp_effect rp of None \<Rightarrow> v
              | Some e \<Rightarrow> if isEffectStricterThan e effect
                  then (e, allowed \<and> e \<in> set ALLOWING_EFFECTS, PR_room_policy_stricter) else v)))"

definition evaluate_matrix :: "matrix_spec list \<Rightarrow> matrix_input \<Rightarrow> matrix_decision" where
  "evaluate_matrix specs inp =
     (case rule_lookup (expandPolicyMatrixSpecs specs) (mi_domain inp) (mi_operation inp) (mi_mode inp) of
        None \<Rightarrow> denyDecision inp PR_unknown_input
      | Some rule \<Rightarrow>
        (case room_tighten (mi_roomPolicy inp) (shield_tighten specs inp rule) of
          (effect, allowed, reasonCode) \<Rightarrow>
           \<lparr>md_ruleId = mr_id rule, md_domain = mr_domain rule, md_mode = mr_mode rule,
            md_effect = effect, md_allowed = allowed, md_persistentAllowed = False,
            md_networkAllowed = False, md_requiresUserAction = mr_requiresUserAction rule,
            md_reasonCode = reasonCode\<rparr>))"

text \<open>The same input without any tightening context.\<close>

definition baseline :: "matrix_input \<Rightarrow> matrix_input" where
  "baseline inp = inp\<lparr>mi_roomPolicy := None, mi_screenShieldLevel := None, mi_deviceRiskLevel := None\<rparr>"

lemma rule_lookup_SomeD:
  "rule_lookup (expandPolicyMatrixSpecs specs) d p m = Some r \<Longrightarrow>
     mr_domain r = d \<and> mr_operation r = p \<and> mr_mode r = m \<and> r \<in> set (expandPolicyMatrixSpecs specs)"
  unfolding rule_lookup_def by (drule find_SomeD) auto

lemma shield_tighten_no_looser:
  assumes "shield_tighten specs inp rule = (e, a, c)"
  shows "strictnessIndex e \<le> strictnessIndex (mr_effect rule) \<and> (a \<longrightarrow> mr_allowed rule)"
  using assms by (auto simp: shield_tighten_def Let_def split: if_splits)

lemma room_tighten_no_looser:
  assumes "room_tighten rp (e, a, c) = (e', a', c')"
  shows "strictnessIndex e' \<le> strictnessIndex e \<and> (a' \<longrightarrow> a)"
  using assms by (auto simp: room_tighten_def isEffectStricterThan_def split: option.splits if_splits)



end
