(* ===== verification/Policy_Matrix_Table.thy ===== *)
theory Policy_Matrix_Table
  imports Policy_Matrix
begin

text \<open>
  The rows of \<open>POLICY_MATRIX_SPECS\<close> (\<open>packages/privacy/src/policyMatrix.ts\<close>)
  in source order, one definition per block of the table, and the evaluation function the
  program uses, \<open>evaluatePolicyMatrix\<close>, which is \<open>evaluate_matrix\<close> on this
  table.  The arguments of \<open>matrix_spec.make\<close> are id, domain, operation, sink,
  transport, data class, effect, effect overrides, reason code, reason overrides and the
  shield flag.
\<close>

definition specs_storage_1 :: "matrix_spec list" where
  "specs_storage_1 = [
     matrix_spec.make ''storage.content_persistent_write'' PD_storage ''storage.write.persistent'' (Some ''local_persistent_storage'') None (Some ''message_content'') PE_deny
       [(Mode_standard, PE_future_gate)] PR_persistent_storage_forbidden [(Mode_standard, PR_encrypted_storage_not_implemented)] False,
     matrix_spec.make ''storage.content_memory_write'' PD_storage ''storage.write.memory'' (Some ''local_memory'') None (Some ''message_content'') PE_memory_only
       [(Mode_standard, PE_future_gate), (Mode_emergency, PE_deny)] PR_strict_mode [(Mode_standard, PR_encrypted_storage_not_implemented), (Mode_emergency, PR_emergency_mode)] False,
     matrix_spec.make ''storage.key_material_write'' PD_storage ''storage.write.key_material'' None None (Some ''identity_key_material'') PE_future_gate
       [] PR_crypto_not_implemented [] False,
     matrix_spec.make ''storage.capsule_spool_memory'' PD_storage ''storage.write.capsule_spool'' (Some ''local_memory'') None (Some ''capsule_spool'') PE_memory_only
       [(Mode_emergency, PE_deny)] PR_default_deny [(Mode_emergency, PR_emergency_mode)] False,
     matrix_spec.make ''storage.preview_cache_write'' PD_storage ''storage.write.preview_cache'' (Some ''cache'') None (Some ''preview_cache'') PE_deny
       [(Mode_standard, PE_memory_only)] PR_metadata_forbidden [(Mode_standard, PR_default_deny)] True,
     matrix_spec.make ''storage.thumbnail_cache_write'' PD_storage ''storage.write.thumbnail_cache'' (Some ''cache'') None (Some ''thumbnail_cache'') PE_deny
       [(Mode_standard, PE_memory_only)] PR_metadata_forbidden [(Mode_standard, PR_default_deny)] True,
     matrix_spec.make ''storage.ai_cache_write'' PD_storage ''storage.write.ai_cache'' (Some ''ai'') None (Some ''ai_output_cache'') PE_deny
       [] PR_ai_forbidden [] False,
     matrix_spec.make ''storage.audit_event_write'' PD_storage ''storage.write.audit_event'' (Some ''audit'') None None PE_redact
       [] PR_default_deny [] False,
     matrix_spec.make ''storage.debug_artifact_write'' PD_storage ''storage.write.debug_artifact'' None None (Some ''debug_artifact'') PE_deny
       [] PR_default_deny [] False,
     matrix_spec.make ''storage.protected_reveal_persistence'' PD_storage ''storage.write.protected_reveal_state'' (Some ''local_persistent_storage'') None (Some ''protected_content_reveal_state'') PE_deny
       [] PR_persistent_storage_forbidden [] True,
     matrix_spec.make ''storage.notification_content_storage'' PD_storage ''storage.write.notification_content'' None None None PE_deny
       [] PR_persistent_storage_forbidden [] False]"

definition specs_storage_2 :: "matrix_spec list" where
  "specs_storage_2 = [
     matrix_spec.make ''storage.encrypted_persistent_backend'' PD_storage ''storage.backend.encrypted_persistent'' None None None PE_future_gate
       [] PR_encrypted_storage_not_implemented [] False]"

definition specs_network_1 :: "matrix_spec list" where
  "specs_network_1 = [
     matrix_spec.make ''network.arbitrary_request'' PD_network ''network.request'' None (Some ''http'') None PE_deny
       [] PR_network_forbidden [] False,
     matrix_spec.make ''network.relay_transport_send'' PD_network ''transport.send'' None (Some ''relay'') None PE_require_user_action
       [(Mode_ghost, PE_deny), (Mode_bunker, PE_deny), (Mode_offline_capsule, PE_deny), (Mode_emergency, PE_deny)] PR_deferred_gate [(Mode_ghost, PR_strict_mode), (Mode_bunker, PR_strict_mode), (Mode_offline_capsule, PR_offline_capsule_mode), (Mode_emergency, PR_emergency_mode)] False,
     matrix_spec.make ''network.websocket_connect'' PD_network ''network.connect.websocket'' None (Some ''websocket'') None PE_deny
       [] PR_network_forbidden [] False,
     matrix_spec.make ''network.webrtc_connect'' PD_network ''network.connect.webrtc'' None (Some ''webrtc'') None PE_deny
       [] PR_network_forbidden [] False,
     matrix_spec.make ''network.lan_discovery'' PD_network ''transport.discovery'' None (Some ''lan'') None PE_deny
       [] PR_metadata_forbidden [] False,
     matrix_spec.make ''network.external_asset_fetch'' PD_network ''asset.fetch'' None None None PE_deny
       [] PR_external_asset_forbidden [] False,
     matrix_spec.make ''network.link_preview_fetch'' PD_network ''link.preview'' None None None PE_deny
       [] PR_link_preview_forbidden [] False,
     matrix_spec.make ''network.telemetry_send'' PD_network ''telemetry.send'' None None None PE_deny
       [] PR_telemetry_forbidden [] False,
     matrix_spec.make ''network.remote_ai_request'' PD_network ''ai.remote_request'' None None None PE_deny
       [] PR_ai_forbidden [] False,
     matrix_spec.make ''network.update_check'' PD_network ''update.check'' None None None PE_deny
       [] PR_network_forbidden [] False,
     matrix_spec.make ''network.push_subscribe'' PD_network ''notification.push_subscribe'' None None None PE_deny
       [] PR_push_forbidden [] False,
     matrix_spec.make ''network.service_worker_network'' PD_network ''service_worker.network'' None None None PE_deny
       [] PR_network_forbidden [] False]"

definition specs_metadata_1 :: "matrix_spec list" where
  "specs_metadata_1 = [
     matrix_spec.make ''metadata.read_receipt'' PD_metadata ''receipt.read'' None None None PE_deny
       [] PR_metadata_forbidden [] False,
     matrix_spec.make ''metadata.delivery_receipt'' PD_metadata ''receipt.delivery'' None None None PE_deny
       [] PR_metadata_forbidden [] False,
     matrix_spec.make ''metadata.typing_indicator'' PD_metadata ''typing.start'' None None None PE_deny
       [] PR_metadata_forbidden [] False,
     matrix_spec.make ''metadata.presence'' PD_metadata ''presence.online'' None None None PE_deny
       [] PR_metadata_forbidden [] False,
     matrix_spec.make ''metadata.last_seen'' PD_metadata ''presence.last_seen'' None None None PE_deny
       [] PR_metadata_forbidden [] False,
     matrix_spec.make ''metadata.room_activity'' PD_metadata ''room.activity'' None None None PE_deny
       [] PR_metadata_forbidden [] False,
     matrix_spec.make ''metadata.transport_timing'' PD_metadata ''transport.send_timing'' None None None PE_deny
       [] PR_metadata_forbidden [] False,
     matrix_spec.make ''metadata.transport_size'' PD_metadata ''transport.size'' None None None PE_deny
       [] PR_metadata_forbidden [] False,
     matrix_spec.make ''metadata.relay_choice'' PD_metadata ''relay.choice'' None None None PE_deny
       [] PR_metadata_forbidden [] False,
     matrix_spec.make ''metadata.link_preview_metadata'' PD_metadata ''link.preview'' None None None PE_deny
       [] PR_link_preview_forbidden [] False,
     matrix_spec.make ''metadata.external_asset_metadata'' PD_metadata ''asset.remote_fetch'' None None None PE_deny
       [] PR_external_asset_forbidden [] False,
     matrix_spec.make ''metadata.audit_event'' PD_metadata ''audit_event.write'' (Some ''audit'') None None PE_redact
       [] PR_default_deny [] False,
     matrix_spec.make ''metadata.log_write'' PD_metadata ''log.write'' (Some ''logs'') None None PE_redact
       [(Mode_emergency, PE_deny)] PR_default_deny [(Mode_emergency, PR_emergency_mode)] False,
     matrix_spec.make ''metadata.ai_metadata'' PD_metadata ''ai.prompt_exists'' None None None PE_deny
       [] PR_ai_forbidden [] False]"

definition specs_metadata_2 :: "matrix_spec list" where
  "specs_metadata_2 = [
     matrix_spec.make ''metadata.screen_capture_event'' PD_metadata ''screen.capture_detected'' None None None PE_redact
       [(Mode_emergency, PE_deny)] PR_default_deny [(Mode_emergency, PR_emergency_mode)] False,
     matrix_spec.make ''metadata.protected_reveal'' PD_metadata ''protected_content.revealed'' None None None PE_memory_only
       [(Mode_ghost, PE_deny), (Mode_bunker, PE_deny), (Mode_emergency, PE_deny)] PR_default_deny [(Mode_ghost, PR_strict_mode), (Mode_bunker, PR_strict_mode), (Mode_emergency, PR_emergency_mode)] True,
     matrix_spec.make ''metadata.notification_metadata'' PD_metadata ''notification.preview'' (Some ''notification_system'') None None PE_deny
       [] PR_metadata_forbidden [] False]"

definition specs_link_preview_1 :: "matrix_spec list" where
  "specs_link_preview_1 = [
     matrix_spec.make ''link_preview.automatic_preview'' PD_link_preview ''preview.automatic'' None None None PE_deny
       [] PR_link_preview_forbidden [] False,
     matrix_spec.make ''link_preview.opengraph_fetch'' PD_link_preview ''preview.opengraph_fetch'' None None None PE_deny
       [] PR_link_preview_forbidden [] False,
     matrix_spec.make ''link_preview.favicon_fetch'' PD_link_preview ''preview.favicon_fetch'' None None None PE_deny
       [] PR_link_preview_forbidden [] False,
     matrix_spec.make ''link_preview.preview_cache'' PD_link_preview ''preview.cache_write'' (Some ''cache'') None None PE_deny
       [] PR_link_preview_forbidden [] True,
     matrix_spec.make ''link_preview.plain_text_url_display'' PD_link_preview ''preview.plain_text_display'' None None None PE_redact
       [] PR_default_deny [] False,
     matrix_spec.make ''link_preview.user_initiated_preview'' PD_link_preview ''preview.user_initiated'' None None None PE_future_gate
       [] PR_deferred_gate [] False]"

definition specs_external_asset :: "matrix_spec list" where
  "specs_external_asset = map (\<lambda>kind.
     matrix_spec.make (''external_asset.'' @ kind) PD_external_asset (''asset.'' @ kind) None None None
       PE_deny [] PR_external_asset_forbidden [] False)
     [''remote_image'', ''remote_avatar'', ''remote_font'', ''remote_script'', ''remote_stylesheet'',
      ''remote_css_url'', ''tracking_pixel'', ''iframe'', ''preconnect'', ''dns_prefetch'',
      ''preload'', ''prefetch'']"

definition specs_notification_1 :: "matrix_spec list" where
  "specs_notification_1 = [
     matrix_spec.make ''notification.permission_request'' PD_notification ''notification.permission_request'' None None None PE_require_user_action
       [] PR_default_deny [] False,
     matrix_spec.make ''notification.generic_in_app'' PD_notification ''notification.show.in_app_generic'' (Some ''in_app'') None None PE_memory_only
       [(Mode_ghost, PE_deny), (Mode_bunker, PE_deny), (Mode_offline_capsule, PE_deny), (Mode_emergency, PE_deny)] PR_default_deny [(Mode_ghost, PR_strict_mode), (Mode_bunker, PR_strict_mode), (Mode_offline_capsule, PR_offline_capsule_mode), (Mode_emergency, PR_emergency_mode)] False,
     matrix_spec.make ''notification.message_preview'' PD_notification ''notification.show.message_preview'' None None None PE_deny
       [] PR_metadata_forbidden [] False,
     matrix_spec.make ''notification.room_name'' PD_notification ''notification.show.room_name'' None None None PE_deny
       [] PR_metadata_forbidden [] False,
     matrix_spec.make ''notification.sender_alias'' PD_notification ''notification.show.sender_alias'' None None None PE_deny
       [] PR_metadata_forbidden [] False,
     matrix_spec.make ''notification.badge_count'' PD_notification ''notification.badge.count'' (Some ''app_badge'') None None PE_not_implemented
       [] PR_metadata_forbidden [] False,
     matrix_spec.make ''notification.badge_dot'' PD_notification ''notification.badge.dot'' (Some ''app_badge'') None None PE_not_implemented
       [] PR_metadata_forbidden [] False,
     matrix_spec.make ''notification.sound'' PD_notification ''notification.sound'' (Some ''sound'') None None PE_not_implemented
       [] PR_metadata_forbidden [] False,
     matrix_spec.make ''notification.vibration'' PD_notification ''notification.vibration'' (Some ''vibration'') None None PE_not_implemented
       [] PR_metadata_forbidden [] False,
     matrix_spec.make ''notification.push_subscribe'' PD_notification ''notification.push_subscribe'' (Some ''push_service'') None None PE_future_gate
       [] PR_push_forbidden [] False,
     matrix_spec.make ''notification.push_receive'' PD_notification ''notification.push_receive'' (Some ''push_service'') None None PE_future_gate
       [] PR_push_forbidden [] False,
     matrix_spec.make ''notification.service_worker_show'' PD_notification ''notification.service_worker_show'' (Some ''service_worker'') None None PE_future_gate
       [] PR_push_forbidden [] False]"

definition specs_notification_2 :: "matrix_spec list" where
  "specs_notification_2 = [
     matrix_spec.make ''notification.audit_event'' PD_notification ''notification.audit'' (Some ''audit'') None None PE_redact
       [] PR_default_deny [] False]"

definition specs_ai_1 :: "matrix_spec list" where
  "specs_ai_1 = [
     matrix_spec.make ''ai.local_request'' PD_ai ''ai.local_request'' None None None PE_future_gate
       [(Mode_ghost, PE_deny), (Mode_bunker, PE_deny), (Mode_emergency, PE_deny)] PR_deferred_gate [(Mode_ghost, PR_ai_forbidden), (Mode_bunker, PR_ai_forbidden), (Mode_emergency, PR_emergency_mode)] False,
     matrix_spec.make ''ai.remote_request'' PD_ai ''ai.remote_request'' None None None PE_deny
       [] PR_ai_forbidden [] False,
     matrix_spec.make ''ai.prompt_cache'' PD_ai ''ai.prompt_cache_write'' None None (Some ''ai_prompt_cache'') PE_deny
       [] PR_ai_forbidden [] False,
     matrix_spec.make ''ai.embedding_index'' PD_ai ''ai.embedding_index_write'' None None (Some ''ai_embedding_index'') PE_deny
       [] PR_ai_forbidden [] False,
     matrix_spec.make ''ai.output_cache'' PD_ai ''ai.output_cache_write'' None None (Some ''ai_output_cache'') PE_deny
       [] PR_ai_forbidden [] False,
     matrix_spec.make ''ai.summary_notification'' PD_ai ''ai.summary_notification'' None None None PE_deny
       [] PR_ai_forbidden [] False,
     matrix_spec.make ''ai.audit_event'' PD_ai ''ai.audit'' (Some ''audit'') None None PE_redact
       [] PR_default_deny [] False]"

definition specs_endpoint_1 :: "matrix_spec list" where
  "specs_endpoint_1 = [
     matrix_spec.make ''endpoint.protected_reveal'' PD_endpoint ''protected_content.reveal'' None None None PE_memory_only
       [(Mode_ghost, PE_deny), (Mode_bunker, PE_deny), (Mode_emergency, PE_deny)] PR_default_deny [(Mode_ghost, PR_strict_mode), (Mode_bunker, PR_strict_mode), (Mode_emergency, PR_emergency_mode)] True,
     matrix_spec.make ''endpoint.reveal_persistence'' PD_endpoint ''protected_content.reveal_persist'' (Some ''local_persistent_storage'') None None PE_deny
       [] PR_persistent_storage_forbidden [] True,
     matrix_spec.make ''endpoint.screen_capture_audit'' PD_endpoint ''screen.capture_audit'' (Some ''audit'') None None PE_redact
       [(Mode_emergency, PE_deny)] PR_default_deny [(Mode_emergency, PR_emergency_mode)] False,
     matrix_spec.make ''endpoint.watermark_canary_state'' PD_endpoint ''watermark.state_write'' None None (Some ''watermark_canary_state'') PE_redact
       [(Mode_emergency, PE_deny)] PR_default_deny [(Mode_emergency, PR_emergency_mode)] False,
     matrix_spec.make ''endpoint.clipboard_copy'' PD_endpoint ''clipboard.copy_protected'' None None None PE_future_gate
       [] PR_deferred_gate [] False,
     matrix_spec.make ''endpoint.secure_input'' PD_endpoint ''input.secure_field'' None None None PE_future_gate
       [] PR_deferred_gate [] False,
     matrix_spec.make ''endpoint.task_switcher_preview'' PD_endpoint ''display.task_switcher_preview'' None None None PE_future_gate
       [] PR_deferred_gate [] False,
     matrix_spec.make ''endpoint.screenshot_blocking'' PD_endpoint ''display.screenshot_blocking'' None None None PE_future_gate
       [] PR_deferred_gate [] False]"

definition specs_deferred_1 :: "matrix_spec list" where
  "specs_deferred_1 = [
     matrix_spec.make ''crypto.operation'' PD_crypto ''crypto.any'' None None None PE_future_gate
       [] PR_crypto_not_implemented [] False,
     matrix_spec.make ''capsule.wire_format'' PD_capsule ''capsule.wire_format'' None None None PE_future_gate
       [] PR_deferred_gate [] False,
     matrix_spec.make ''capsule.transport'' PD_capsule ''capsule.transport_send'' None None None PE_future_gate
       [] PR_deferred_gate [] False]"

definition specs_room_1 :: "matrix_spec list" where
  "specs_room_1 = [
     matrix_spec.make ''room.sync'' PD_room ''room.sync'' None None None PE_future_gate
       [] PR_deferred_gate [] False,
     matrix_spec.make ''room.create_local'' PD_room ''room.create'' (Some ''local_memory'') None None PE_memory_only
       [(Mode_emergency, PE_deny)] PR_default_deny [(Mode_emergency, PR_emergency_mode)] False,
     matrix_spec.make ''room.mutate_local'' PD_room ''room.mutate'' (Some ''local_memory'') None None PE_memory_only
       [(Mode_emergency, PE_deny)] PR_default_deny [(Mode_emergency, PR_emergency_mode)] False,
     matrix_spec.make ''room.lifecycle_update'' PD_room ''room.lifecycle_update'' (Some ''local_memory'') None None PE_memory_only
       [] PR_default_deny [] False,
     matrix_spec.make ''room.policy_update_local'' PD_room ''room.policy_update'' (Some ''local_memory'') None None PE_memory_only
       [(Mode_emergency, PE_deny)] PR_default_deny [(Mode_emergency, PR_emergency_mode)] False,
     matrix_spec.make ''room.operation_log_append'' PD_room ''room.operation_log.append'' (Some ''local_memory'') None None PE_memory_only
       [(Mode_emergency, PE_deny)] PR_default_deny [(Mode_emergency, PR_emergency_mode)] False,
     matrix_spec.make ''room.operation_log_persist'' PD_room ''room.operation_log.persist'' (Some ''local_persistent_storage'') None (Some ''room_operation_log'') PE_deny
       [] PR_persistent_storage_forbidden [] False,
     matrix_spec.make ''room.projection_local'' PD_room ''room.project'' (Some ''local_memory'') None None PE_memory_only
       [(Mode_emergency, PE_deny)] PR_default_deny [(Mode_emergency, PR_emergency_mode)] False,
     matrix_spec.make ''room.projection_persist'' PD_room ''room.project.persist'' (Some ''local_persistent_storage'') None (Some ''materialized_room_state'') PE_deny
       [] PR_persistent_storage_forbidden [] False,
     matrix_spec.make ''room.audit_append'' PD_room ''room.audit'' (Some ''audit'') None None PE_redact
       [] PR_default_deny [] False,
     matrix_spec.make ''room.operation_log_read'' PD_room ''room.operation_log.read'' (Some ''local_memory'') None None PE_memory_only
       [(Mode_emergency, PE_deny)] PR_default_deny [(Mode_emergency, PR_emergency_mode)] False]"

definition specs_room_2 :: "matrix_spec list" where
  "specs_room_2 = [
     matrix_spec.make ''room.operation_log_clear'' PD_room ''room.operation_log.clear'' (Some ''local_memory'') None None PE_memory_only
       [] PR_default_deny [] False,
     matrix_spec.make ''room.replay_local'' PD_room ''room.replay'' (Some ''local_memory'') None None PE_memory_only
       [(Mode_emergency, PE_deny)] PR_default_deny [(Mode_emergency, PR_emergency_mode)] False,
     matrix_spec.make ''room.snapshot_future'' PD_room ''room.project.snapshot'' None None None PE_future_gate
       [] PR_deferred_gate [] False,
     matrix_spec.make ''room.object_create'' PD_room ''room.object.create'' (Some ''local_memory'') None None PE_memory_only
       [(Mode_emergency, PE_deny)] PR_default_deny [(Mode_emergency, PR_emergency_mode)] False,
     matrix_spec.make ''room.object_update'' PD_room ''room.object.update'' (Some ''local_memory'') None None PE_memory_only
       [(Mode_emergency, PE_deny)] PR_default_deny [(Mode_emergency, PR_emergency_mode)] False,
     matrix_spec.make ''room.object_redact'' PD_room ''room.object.redact'' (Some ''local_memory'') None None PE_memory_only
       [] PR_default_deny [] False,
     matrix_spec.make ''room.object_archive'' PD_room ''room.object.archive'' (Some ''local_memory'') None None PE_memory_only
       [(Mode_emergency, PE_deny)] PR_default_deny [(Mode_emergency, PR_emergency_mode)] False,
     matrix_spec.make ''room.object_tombstone'' PD_room ''room.object.tombstone'' (Some ''local_memory'') None None PE_memory_only
       [] PR_default_deny [] False,
     matrix_spec.make ''room.object_persist'' PD_room ''room.object.persist'' (Some ''local_persistent_storage'') None (Some ''message_content'') PE_deny
       [] PR_persistent_storage_forbidden [] False,
     matrix_spec.make ''room.object_log_append'' PD_room ''room.object_log.append'' (Some ''local_memory'') None None PE_memory_only
       [(Mode_emergency, PE_deny)] PR_default_deny [(Mode_emergency, PR_emergency_mode)] False,
     matrix_spec.make ''room.object_poll_vote'' PD_room ''room.object.poll_vote'' None None None PE_future_gate
       [] PR_deferred_gate [] False]"

definition specs_room_3 :: "matrix_spec list" where
  "specs_room_3 = [
     matrix_spec.make ''room.object_file_resolve'' PD_room ''room.object.file_resolve'' None None None PE_future_gate
       [] PR_deferred_gate [] False,
     matrix_spec.make ''room.object_file_preview'' PD_room ''room.object.file_preview'' None None None PE_deny
       [] PR_link_preview_forbidden [] False,
     matrix_spec.make ''room.object_file_remote'' PD_room ''room.object.file_remote'' None None None PE_deny
       [] PR_network_forbidden [] False,
     matrix_spec.make ''room.object_ai_memory'' PD_room ''room.object.ai_memory'' None None None PE_future_gate
       [] PR_deferred_gate [] False,
     matrix_spec.make ''room.object_endpoint_hook'' PD_room ''room.object.endpoint_hook'' None None None PE_future_gate
       [] PR_deferred_gate [] False,
     matrix_spec.make ''room.query_summary'' PD_room ''room.query.summary'' (Some ''local_memory'') None None PE_memory_only
       [] PR_default_deny [] False,
     matrix_spec.make ''room.query_list'' PD_room ''room.query.list'' (Some ''local_memory'') None None PE_memory_only
       [(Mode_emergency, PE_deny)] PR_default_deny [(Mode_emergency, PR_emergency_mode)] False,
     matrix_spec.make ''room.query_detail'' PD_room ''room.query.detail'' (Some ''local_memory'') None None PE_memory_only
       [(Mode_emergency, PE_deny)] PR_default_deny [(Mode_emergency, PR_emergency_mode)] False,
     matrix_spec.make ''room.query_search'' PD_room ''room.query.search'' (Some ''local_memory'') None None PE_memory_only
       [(Mode_offline_capsule, PE_deny), (Mode_emergency, PE_deny)] PR_default_deny [(Mode_offline_capsule, PR_offline_capsule_mode), (Mode_emergency, PR_emergency_mode)] False,
     matrix_spec.make ''room.query_count'' PD_room ''room.query.count'' (Some ''local_memory'') None None PE_memory_only
       [(Mode_emergency, PE_deny)] PR_default_deny [(Mode_emergency, PR_emergency_mode)] False,
     matrix_spec.make ''room.query_history'' PD_room ''room.query.history'' (Some ''local_persistent_storage'') None (Some ''materialized_room_state'') PE_deny
       [] PR_persistent_storage_forbidden [] False]"

definition specs_room_4 :: "matrix_spec list" where
  "specs_room_4 = [
     matrix_spec.make ''room.query_result_cache'' PD_room ''room.query.result_cache'' (Some ''local_persistent_storage'') None (Some ''materialized_room_state'') PE_deny
       [] PR_persistent_storage_forbidden [] False,
     matrix_spec.make ''room.query_search_index'' PD_room ''room.query.search_index'' (Some ''local_persistent_storage'') None (Some ''materialized_room_state'') PE_deny
       [] PR_persistent_storage_forbidden [] False,
     matrix_spec.make ''room.query_semantic_future'' PD_room ''room.query.semantic'' None None None PE_future_gate
       [] PR_deferred_gate [] False,
     matrix_spec.make ''room.query_remote_future'' PD_room ''room.query.remote'' None None None PE_future_gate
       [] PR_deferred_gate [] False,
     matrix_spec.make ''room.query_bunker_content_future'' PD_room ''room.query.bunker_content_view'' None None None PE_future_gate
       [] PR_deferred_gate [] False,
     matrix_spec.make ''room.membership_bootstrap'' PD_room ''room.membership.bootstrap'' (Some ''local_memory'') None None PE_memory_only
       [(Mode_emergency, PE_deny)] PR_default_deny [(Mode_emergency, PR_emergency_mode)] False,
     matrix_spec.make ''room.membership_add'' PD_room ''room.membership.add'' (Some ''local_memory'') None None PE_memory_only
       [(Mode_bunker, PE_deny), (Mode_emergency, PE_deny)] PR_default_deny [(Mode_bunker, PR_strict_mode), (Mode_emergency, PR_emergency_mode)] False,
     matrix_spec.make ''room.membership_change_role'' PD_room ''room.membership.change_role'' (Some ''local_memory'') None None PE_memory_only
       [(Mode_bunker, PE_deny), (Mode_emergency, PE_deny)] PR_default_deny [(Mode_bunker, PR_strict_mode), (Mode_emergency, PR_emergency_mode)] False,
     matrix_spec.make ''room.membership_suspend'' PD_room ''room.membership.suspend'' (Some ''local_memory'') None None PE_memory_only
       [] PR_default_deny [] False,
     matrix_spec.make ''room.membership_reactivate'' PD_room ''room.membership.reactivate'' (Some ''local_memory'') None None PE_memory_only
       [(Mode_bunker, PE_deny), (Mode_emergency, PE_deny)] PR_default_deny [(Mode_bunker, PR_strict_mode), (Mode_emergency, PR_emergency_mode)] False,
     matrix_spec.make ''room.membership_remove'' PD_room ''room.membership.remove'' (Some ''local_memory'') None None PE_memory_only
       [] PR_default_deny [] False]"

definition specs_room_5 :: "matrix_spec list" where
  "specs_room_5 = [
     matrix_spec.make ''room.membership_log_append'' PD_room ''room.membership_log.append'' (Some ''local_memory'') None None PE_memory_only
       [(Mode_emergency, PE_deny)] PR_default_deny [(Mode_emergency, PR_emergency_mode)] False,
     matrix_spec.make ''room.membership_list_redacted'' PD_room ''room.membership.query.list'' (Some ''local_memory'') None None PE_memory_only
       [(Mode_bunker, PE_deny), (Mode_emergency, PE_deny)] PR_default_deny [(Mode_bunker, PR_strict_mode), (Mode_emergency, PR_emergency_mode)] False,
     matrix_spec.make ''room.membership_detail_redacted'' PD_room ''room.membership.query.detail'' (Some ''local_memory'') None None PE_memory_only
       [(Mode_bunker, PE_deny), (Mode_emergency, PE_deny)] PR_default_deny [(Mode_bunker, PR_strict_mode), (Mode_emergency, PR_emergency_mode)] False,
     matrix_spec.make ''room.membership_count'' PD_room ''room.membership.query.count'' (Some ''local_memory'') None None PE_memory_only
       [(Mode_private, PE_deny), (Mode_ghost, PE_deny), (Mode_bunker, PE_deny), (Mode_emergency, PE_deny)] PR_default_deny [(Mode_private, PR_metadata_forbidden), (Mode_ghost, PR_strict_mode), (Mode_bunker, PR_strict_mode), (Mode_emergency, PR_emergency_mode)] False,
     matrix_spec.make ''room.capability_resolve'' PD_room ''room.capability.resolve'' (Some ''local_memory'') None None PE_memory_only
       [] PR_default_deny [] False,
     matrix_spec.make ''room.capability_persist'' PD_room ''room.capability.persist'' (Some ''local_persistent_storage'') None (Some ''materialized_room_state'') PE_deny
       [] PR_persistent_storage_forbidden [] False,
     matrix_spec.make ''room.capability_serialize'' PD_room ''room.capability.serialize'' None None None PE_deny
       [] PR_default_deny [] False,
     matrix_spec.make ''room.capability_delegate_future'' PD_room ''room.capability.delegate'' None None None PE_not_implemented
       [] PR_deferred_gate [] False,
     matrix_spec.make ''room.membership_invite_future'' PD_room ''room.membership.invite'' None None None PE_future_gate
       [] PR_deferred_gate [] False,
     matrix_spec.make ''room.membership_verify_future'' PD_room ''room.membership.identity_verify'' None None None PE_future_gate
       [] PR_deferred_gate [] False,
     matrix_spec.make ''room.membership_distributed_revocation_future'' PD_room ''room.membership.distributed_revocation'' None None None PE_future_gate
       [] PR_deferred_gate [] False,
     matrix_spec.make ''room.membership_endpoint_risk'' PD_room ''room.membership.endpoint_risk_integration'' None None None PE_future_gate
       [] PR_deferred_gate [] False]"

definition specs_room_6 :: "matrix_spec list" where
  "specs_room_6 = [
     matrix_spec.make ''room.authorization_prepare'' PD_room ''room.authorization.prepare'' (Some ''local_memory'') None None PE_memory_only
       [] PR_default_deny [] False,
     matrix_spec.make ''room.authorization_revalidate'' PD_room ''room.authorization.revalidate'' (Some ''local_memory'') None None PE_memory_only
       [] PR_default_deny [] False,
     matrix_spec.make ''room.authorization_cache'' PD_room ''room.authorization.cache'' (Some ''local_persistent_storage'') None (Some ''materialized_room_state'') PE_deny
       [] PR_persistent_storage_forbidden [] False,
     matrix_spec.make ''room.authorization_context_persist'' PD_room ''room.authorization.context_persist'' (Some ''local_persistent_storage'') None (Some ''materialized_room_state'') PE_deny
       [] PR_persistent_storage_forbidden [] False,
     matrix_spec.make ''room.authorization_context_serialize'' PD_room ''room.authorization.context_serialize'' None None None PE_deny
       [] PR_default_deny [] False,
     matrix_spec.make ''room.authorization_distributed_revocation_future'' PD_room ''room.authorization.distributed_revocation'' None None None PE_future_gate
       [] PR_deferred_gate [] False,
     matrix_spec.make ''room.authorization_signed_revocation_future'' PD_room ''room.authorization.signed_revocation'' None None None PE_future_gate
       [] PR_deferred_gate [] False,
     matrix_spec.make ''room.authorization_endpoint_assurance'' PD_room ''room.authorization.endpoint_assurance'' None None None PE_deny
       [] PR_default_deny [] False,
     matrix_spec.make ''room.policy_compose'' PD_room ''room.policy.compose'' (Some ''local_memory'') None None PE_memory_only
       [] PR_default_deny [] False,
     matrix_spec.make ''room.policy_loosen'' PD_room ''room.policy.loosen'' None None None PE_deny
       [] PR_default_deny [] False,
     matrix_spec.make ''room.governance_update'' PD_room ''room.governance.update'' (Some ''local_memory'') None None PE_memory_only
       [] PR_default_deny [] False,
     matrix_spec.make ''room.governance_log_append'' PD_room ''room.governance_log.append'' (Some ''local_memory'') None None PE_memory_only
       [(Mode_emergency, PE_deny)] PR_default_deny [(Mode_emergency, PR_emergency_mode)] False]"

definition specs_room_7 :: "matrix_spec list" where
  "specs_room_7 = [
     matrix_spec.make ''room.device_posture_resolve'' PD_room ''room.device_posture.resolve'' (Some ''local_memory'') None None PE_memory_only
       [] PR_default_deny [] False,
     matrix_spec.make ''room.device_posture_elevate'' PD_room ''room.device_posture.elevate'' None None None PE_deny
       [] PR_default_deny [] False,
     matrix_spec.make ''room.device_posture_persist'' PD_room ''room.device_posture.persist'' (Some ''local_persistent_storage'') None (Some ''device_risk_state'') PE_deny
       [] PR_persistent_storage_forbidden [] False,
     matrix_spec.make ''room.device_posture_verify_future'' PD_room ''room.device_posture.verify'' None None None PE_future_gate
       [] PR_deferred_gate [] False,
     matrix_spec.make ''room.protected_content_require_future'' PD_room ''room.protected_content.require'' None None None PE_future_gate
       [] PR_deferred_gate [] False,
     matrix_spec.make ''room.protected_content_claim_active'' PD_room ''room.protected_content.claim_active'' None None None PE_deny
       [] PR_screen_shield_strict [] False,
     matrix_spec.make ''room.sensitive_admission_resolve'' PD_room ''room.sensitive_admission.resolve'' (Some ''local_memory'') None None PE_memory_only
       [] PR_default_deny [] False,
     matrix_spec.make ''room.secure_device_integration_future'' PD_room ''room.secure_device.integration'' None None None PE_future_gate
       [] PR_deferred_gate [] False,
     matrix_spec.make ''room.governance_distributed_consensus_future'' PD_room ''room.governance.distributed_consensus'' None None None PE_future_gate
       [] PR_deferred_gate [] False,
     matrix_spec.make ''room.governance_signed_policy_future'' PD_room ''room.governance.signed_policy'' None None None PE_future_gate
       [] PR_deferred_gate [] False]"

definition specs_deferred_2 :: "matrix_spec list" where
  "specs_deferred_2 = [
     matrix_spec.make ''identity.invite'' PD_identity ''identity.invite'' None None None PE_future_gate
       [] PR_deferred_gate [] False,
     matrix_spec.make ''identity.verification'' PD_identity ''identity.verification'' None None None PE_future_gate
       [] PR_deferred_gate [] False]"

definition specs_endpoint_2 :: "matrix_spec list" where
  "specs_endpoint_2 = [
     matrix_spec.make ''endpoint.tauri_desktop_permissions'' PD_endpoint ''desktop.tauri_permissions'' None None None PE_future_gate
       [] PR_deferred_gate [] False]"

definition POLICY_MATRIX_SPECS :: "matrix_spec list" where
  "POLICY_MATRIX_SPECS = specs_storage_1 @
     specs_storage_2 @
     specs_network_1 @
     specs_metadata_1 @
     specs_metadata_2 @
     specs_link_preview_1 @
     specs_external_asset @
     specs_notification_1 @
     specs_notification_2 @
     specs_ai_1 @
     specs_endpoint_1 @
     specs_deferred_1 @
     specs_room_1 @
     specs_room_2 @
     specs_room_3 @
     specs_room_4 @
     specs_room_5 @
     specs_room_6 @
     specs_room_7 @
     specs_deferred_2 @
     specs_endpoint_2"

definition evaluatePolicyMatrix :: "matrix_input \<Rightarrow> matrix_decision" where
  "evaluatePolicyMatrix = evaluate_matrix POLICY_MATRIX_SPECS"

lemmas matrix_table_defs = POLICY_MATRIX_SPECS_def specs_storage_1_def specs_storage_2_def specs_network_1_def specs_metadata_1_def specs_metadata_2_def specs_link_preview_1_def specs_external_asset_def specs_notification_1_def specs_notification_2_def specs_ai_1_def specs_endpoint_1_def specs_deferred_1_def specs_room_1_def specs_room_2_def specs_room_3_def specs_room_4_def specs_room_5_def specs_room_6_def specs_room_7_def specs_deferred_2_def specs_endpoint_2_def

end
