(* ===== verification/Matrix_Rows.thy ===== *)
theory Matrix_Rows
  imports Policy_Matrix_Table
begin

text \<open>
  What the table says: reading a row by domain and operation, the rows the room pipelines
  consult, and facts about all rows.
\<close>

section \<open>Reading the table through its authoring form\<close>

definition spec_lookup :: "matrix_spec list \<Rightarrow> policy_domain \<Rightarrow> string \<Rightarrow> matrix_spec option" where
  "spec_lookup specs d p = find (\<lambda>s. ms_domain s = d \<and> ms_operation s = p) (rev specs)"

lemma expand_spec_sel [simp]:
  "mr_domain (expand_spec s m) = ms_domain s" "mr_operation (expand_spec s m) = ms_operation s"
  "mr_mode (expand_spec s m) = m" "mr_id (expand_spec s m) = ms_id s @ '':'' @ mode_name m"
  by (simp_all add: expand_spec_def Let_def)

lemma find_map_modes:
  assumes "distinct ms"
  shows "find (\<lambda>r. mr_domain r = d \<and> mr_operation r = p \<and> mr_mode r = m) (map (expand_spec s) ms)
     = (if m \<in> set ms \<and> ms_domain s = d \<and> ms_operation s = p then Some (expand_spec s m) else None)"
  using assms by (induction ms) auto

lemma rule_lookup_spec:
  "rule_lookup (expandPolicyMatrixSpecs specs) d p m =
     (if m \<in> set KNOWN_MODES then map_option (\<lambda>s. expand_spec s m) (spec_lookup specs d p) else None)"
proof -
  have dist: "distinct (rev KNOWN_MODES)" by (simp add: KNOWN_MODES_def)
  have "rev (expandPolicyMatrixSpecs specs)
      = concat (map (\<lambda>s. map (expand_spec s) (rev KNOWN_MODES)) (rev specs))"
    by (simp add: expandPolicyMatrixSpecs_def rev_concat rev_map o_def)
  moreover have "find (\<lambda>r. mr_domain r = d \<and> mr_operation r = p \<and> mr_mode r = m)
      (concat (map (\<lambda>s. map (expand_spec s) (rev KNOWN_MODES)) ss))
      = (if m \<in> set KNOWN_MODES
         then map_option (\<lambda>s. expand_spec s m) (find (\<lambda>s. ms_domain s = d \<and> ms_operation s = p) ss)
         else None)" for ss
    by (induction ss) (auto simp: find_append find_map_modes [OF dist])
  ultimately show ?thesis by (simp add: rule_lookup_def spec_lookup_def)
qed

section \<open>The rows of the room pipelines\<close>

text \<open>The input \<open>{mode, domain: "room", operation}\<close> of the room pipelines.\<close>

definition room_matrix_input :: "privacy_mode \<Rightarrow> string \<Rightarrow> matrix_input" where
  "room_matrix_input mode operation = \<lparr>mi_mode = mode, mi_domain = PD_room,
     mi_operation = operation, mi_roomPolicy = None, mi_screenShieldLevel = None,
     mi_deviceRiskLevel = None\<rparr>"

lemma room_matrix_effect:
  "md_effect (evaluatePolicyMatrix (room_matrix_input m p)) =
     (case spec_lookup POLICY_MATRIX_SPECS PD_room p of None \<Rightarrow> PE_deny
      | Some s \<Rightarrow> if m \<in> set KNOWN_MODES
          then (case map_of (ms_effectOverrides s) m of Some e \<Rightarrow> e | None \<Rightarrow> ms_effect s)
          else PE_deny)"
  by (auto simp: evaluatePolicyMatrix_def evaluate_matrix_def room_matrix_input_def
      rule_lookup_spec denyDecision_def shield_tighten_def room_tighten_def expand_spec_def Let_def
      split: option.splits)

definition effect_row :: "string \<Rightarrow> (policy_effect \<times> (privacy_mode \<times> policy_effect) list) option" where
  "effect_row p = map_option (\<lambda>s. (ms_effect s, ms_effectOverrides s))
     (spec_lookup POLICY_MATRIX_SPECS PD_room p)"

text \<open>The table is searched section by section, the last one first.\<close>

lemma spec_lookup_append:
  "spec_lookup (a @ b) d p = (case spec_lookup b d p of Some s \<Rightarrow> Some s | None \<Rightarrow> spec_lookup a d p)"
  by (auto simp: spec_lookup_def find_append split: option.splits)

lemmas effect_row_sections = effect_row_def [unfolded POLICY_MATRIX_SPECS_def spec_lookup_append]

lemma effect_row_object:
  "effect_row ''room.object.create'' = Some (PE_memory_only, [(Mode_emergency, PE_deny)])"
  "effect_row ''room.object.update'' = Some (PE_memory_only, [(Mode_emergency, PE_deny)])"
  "effect_row ''room.object.archive'' = Some (PE_memory_only, [(Mode_emergency, PE_deny)])"
  "effect_row ''room.object.redact'' = Some (PE_memory_only, [])"
  "effect_row ''room.object.tombstone'' = Some (PE_memory_only, [])"
  unfolding effect_row_sections by code_simp+

lemma effect_row_membership:
  "effect_row ''room.membership.bootstrap'' = Some (PE_memory_only, [(Mode_emergency, PE_deny)])"
  "effect_row ''room.membership.add'' = Some (PE_memory_only, [(Mode_bunker, PE_deny), (Mode_emergency, PE_deny)])"
  "effect_row ''room.membership.change_role'' = Some (PE_memory_only, [(Mode_bunker, PE_deny), (Mode_emergency, PE_deny)])"
  "effect_row ''room.membership.suspend'' = Some (PE_memory_only, [])"
  "effect_row ''room.membership.reactivate'' = Some (PE_memory_only, [(Mode_bunker, PE_deny), (Mode_emergency, PE_deny)])"
  "effect_row ''room.membership.remove'' = Some (PE_memory_only, [])"
  unfolding effect_row_sections by code_simp+

lemma effect_row_query:
  "effect_row ''room.query.summary'' = Some (PE_memory_only, [])"
  "effect_row ''room.query.list'' = Some (PE_memory_only, [(Mode_emergency, PE_deny)])"
  "effect_row ''room.query.detail'' = Some (PE_memory_only, [(Mode_emergency, PE_deny)])"
  "effect_row ''room.query.count'' = Some (PE_memory_only, [(Mode_emergency, PE_deny)])"
  "effect_row ''room.query.search'' = Some (PE_memory_only, [(Mode_offline_capsule, PE_deny), (Mode_emergency, PE_deny)])"
  "effect_row ''room.governance.update'' = Some (PE_memory_only, [])"
  unfolding effect_row_sections by code_simp+

lemma room_matrix_effect_row:
  "effect_row p = Some (e, ovs) \<Longrightarrow>
     md_effect (evaluatePolicyMatrix (room_matrix_input m p)) =
       (if m \<in> set KNOWN_MODES then (case map_of ovs m of Some x \<Rightarrow> x | None \<Rightarrow> e) else PE_deny)"
  unfolding effect_row_def room_matrix_effect by (auto split: option.splits)

lemmas room_row_effects =
  room_matrix_effect_row [OF effect_row_object(1)] room_matrix_effect_row [OF effect_row_object(2)]
  room_matrix_effect_row [OF effect_row_object(3)] room_matrix_effect_row [OF effect_row_object(4)]
  room_matrix_effect_row [OF effect_row_object(5)]
  room_matrix_effect_row [OF effect_row_membership(1)] room_matrix_effect_row [OF effect_row_membership(2)]
  room_matrix_effect_row [OF effect_row_membership(3)] room_matrix_effect_row [OF effect_row_membership(4)]
  room_matrix_effect_row [OF effect_row_membership(5)] room_matrix_effect_row [OF effect_row_membership(6)]
  room_matrix_effect_row [OF effect_row_query(1)] room_matrix_effect_row [OF effect_row_query(2)]
  room_matrix_effect_row [OF effect_row_query(3)] room_matrix_effect_row [OF effect_row_query(4)]
  room_matrix_effect_row [OF effect_row_query(5)] room_matrix_effect_row [OF effect_row_query(6)]

section \<open>Facts about every row\<close>

definition row_effect :: "matrix_spec \<Rightarrow> privacy_mode \<Rightarrow> policy_effect" where
  "row_effect s m = mr_effect (expand_spec s m)"

lemma row_effect_code [code]:
  "row_effect s m = (case map_of (ms_effectOverrides s) m of Some e \<Rightarrow> e | None \<Rightarrow> ms_effect s)"
  by (simp add: row_effect_def expand_spec_def Let_def)

definition ladder_ok :: "matrix_spec \<Rightarrow> bool" where
  "ladder_ok s \<longleftrightarrow>
     strictnessIndex (row_effect s Mode_emergency) \<le> strictnessIndex (row_effect s Mode_bunker)
   \<and> strictnessIndex (row_effect s Mode_bunker) \<le> strictnessIndex (row_effect s Mode_ghost)
   \<and> strictnessIndex (row_effect s Mode_ghost) \<le> strictnessIndex (row_effect s Mode_private)"

definition no_allow :: "matrix_spec \<Rightarrow> bool" where
  "no_allow s \<longleftrightarrow> list_all (\<lambda>m. row_effect s m \<noteq> PE_allow) KNOWN_MODES"

definition emergency_ok :: "matrix_spec \<Rightarrow> bool" where
  "emergency_ok s \<longleftrightarrow> (isAllowingEffect (row_effect s Mode_emergency)
     \<longrightarrow> row_effect s Mode_emergency = PE_memory_only \<or> row_effect s Mode_emergency = PE_redact)"

lemma table_rows: "list_all (\<lambda>s. ladder_ok s \<and> no_allow s \<and> emergency_ok s) POLICY_MATRIX_SPECS"
  unfolding POLICY_MATRIX_SPECS_def list_all_append by (intro conjI; code_simp)

lemma table_ladder: "list_all ladder_ok POLICY_MATRIX_SPECS"
  and table_no_allow: "list_all no_allow POLICY_MATRIX_SPECS"
  and table_emergency: "list_all emergency_ok POLICY_MATRIX_SPECS"
  using table_rows by (simp_all add: list_all_iff)

lemma spec_lookup_all: "list_all P specs \<Longrightarrow> spec_lookup specs d p = Some s \<Longrightarrow> P s"
  unfolding spec_lookup_def by (drule find_SomeD) (auto simp: list_all_iff)

definition plain_input :: "policy_domain \<Rightarrow> string \<Rightarrow> privacy_mode \<Rightarrow> matrix_input" where
  "plain_input d p m = \<lparr>mi_mode = m, mi_domain = d, mi_operation = p, mi_roomPolicy = None,
     mi_screenShieldLevel = None, mi_deviceRiskLevel = None\<rparr>"

lemma plain_effect:
  "md_effect (evaluatePolicyMatrix (plain_input d p m)) =
     (case spec_lookup POLICY_MATRIX_SPECS d p of None \<Rightarrow> PE_deny
      | Some s \<Rightarrow> if m \<in> set KNOWN_MODES then row_effect s m else PE_deny)"
  "md_allowed (evaluatePolicyMatrix (plain_input d p m)) =
     (case spec_lookup POLICY_MATRIX_SPECS d p of None \<Rightarrow> False
      | Some s \<Rightarrow> m \<in> set KNOWN_MODES \<and> isAllowingEffect (row_effect s m))"
  by (auto simp: evaluatePolicyMatrix_def evaluate_matrix_def plain_input_def row_effect_def
      rule_lookup_spec denyDecision_def shield_tighten_def room_tighten_def expand_spec_def Let_def
      split: option.splits)


end
