(* ===== verification/Room_Types.thy ===== *)
theory Room_Types
  imports Policy_Matrix_Table
begin

text \<open>
  \<open>packages/rooms/src/room-types.ts\<close>: local identifiers and their two module-level
  counters, lifecycle states, room kinds, object kinds with their metadata and the room
  operations.  Each enumeration comes with its table and its source names; a value read
  from an untyped record is decoded by \<^const>\<open>enum_of\<close>.  The branded string
  types are \<^typ>\<open>jstr\<close>.
\<close>

section \<open>Identifiers\<close>

text \<open>\<open>localIdSeq\<close> (\<open>room-types.ts\<close>) and \<open>eventSeq\<close>
  (\<open>room-events.ts\<close>), the counters the room modules keep.\<close>

record room_counters =
  localIdSeq :: nat
  eventSeq :: nat

definition createRoomLocalId :: "jstr option \<Rightarrow> room_counters \<Rightarrow> jstr res \<times> room_counters" where
  "createRoomLocalId input st = (case input of
       Some s \<Rightarrow> (if \<not> id_re 63 s then Inl (RoomError InvalidRoomId) else Inr s, st)
     | None \<Rightarrow> (let n = Suc (localIdSeq st)
               in (Inr (js (''room-local-'' @ decimal n)), st\<lparr>localIdSeq := n\<rparr>)))"

definition validateRoomId :: "jstr \<Rightarrow> jstr res" where
  "validateRoomId input = (if \<not> id_re 63 input then Inl (RoomError InvalidRoomId) else Inr input)"

definition validateRoomMemberRef :: "jstr \<Rightarrow> jstr res" where
  "validateRoomMemberRef input = (if \<not> id_re 63 input then Inl (RoomError InvalidRoomRef) else Inr input)"

definition validateRoomDeviceRef :: "jstr \<Rightarrow> jstr res" where
  "validateRoomDeviceRef input = (if \<not> id_re 63 input then Inl (RoomError InvalidRoomRef) else Inr input)"

lemma digit_alnum: "d < 10 \<Longrightarrow> is_lower_alnum (of_char (char_of (48 + d :: nat) :: char))"
proof -
  have "list_all (\<lambda>d. is_lower_alnum (of_char (char_of (48 + d :: nat) :: char))) [0..<10]"
    by code_simp
  then show "d < 10 \<Longrightarrow> is_lower_alnum (of_char (char_of (48 + d :: nat) :: char))"
    by (simp only: list_all_iff) simp
qed

lemma decimal_units: "list_all is_lower_alnum (js (decimal n))"
  by (auto simp: list_all_iff js_def dest!: decimal_digit intro: digit_alnum)

text \<open>A generated room id always passes the validator, as long as the counter has fewer
  than fifty digits (a JavaScript number stops being exact long before).\<close>

lemma generated_room_id:
  assumes "n < 10 ^ 50"
  shows "id_re 63 (js (''room-local-'' @ decimal n))"
proof -
  have "list_all is_id_unit (js (decimal n))"
    using decimal_units [of n] by (auto simp: list_all_iff is_id_unit_def)
  moreover have "length (js (decimal n)) \<le> 50"
    using decimal_length [OF assms] by (simp add: js_def)
  moreover have "js ''room-local-'' = [0x72, 0x6f, 0x6f, 0x6d, 0x2d, 0x6c, 0x6f, 0x63, 0x61, 0x6c, 0x2d]"
    by code_simp
  ultimately show ?thesis
    unfolding js_append by (simp add: id_re_def is_id_unit_def is_lower_alnum_def)
qed

section \<open>Lifecycle, kinds, roles\<close>

datatype room_lifecycle =
    LC_draft | LC_active_local | LC_sealed_local | LC_archived_local | LC_emergency_locked
  | LC_deleted_tombstone | LC_unknown

definition ROOM_LIFECYCLE_STATES :: "room_lifecycle list" where
  "ROOM_LIFECYCLE_STATES = [LC_draft, LC_active_local, LC_sealed_local, LC_archived_local,
     LC_emergency_locked, LC_deleted_tombstone, LC_unknown]"

fun lifecycle_name :: "room_lifecycle \<Rightarrow> string" where
  "lifecycle_name LC_draft = ''draft''"
| "lifecycle_name LC_active_local = ''active_local''"
| "lifecycle_name LC_sealed_local = ''sealed_local''"
| "lifecycle_name LC_archived_local = ''archived_local''"
| "lifecycle_name LC_emergency_locked = ''emergency_locked''"
| "lifecycle_name LC_deleted_tombstone = ''deleted_tombstone''"
| "lifecycle_name LC_unknown = ''unknown''"

datatype room_kind =
    RK_conversation | RK_workspace | RK_capsule_room | RK_decision_room | RK_project_room
  | RK_unknown

definition ROOM_KINDS :: "room_kind list" where
  "ROOM_KINDS = [RK_conversation, RK_workspace, RK_capsule_room, RK_decision_room,
     RK_project_room, RK_unknown]"

fun room_kind_name :: "room_kind \<Rightarrow> string" where
  "room_kind_name RK_conversation = ''conversation''"
| "room_kind_name RK_workspace = ''workspace''"
| "room_kind_name RK_capsule_room = ''capsule_room''"
| "room_kind_name RK_decision_room = ''decision_room''"
| "room_kind_name RK_project_room = ''project_room''"
| "room_kind_name RK_unknown = ''unknown''"

section \<open>Object taxonomy\<close>

datatype object_kind =
    OK_message | OK_note | OK_task | OK_decision | OK_poll | OK_file_ref | OK_room_setting
  | OK_member_ref | OK_audit_event | OK_ai_memory_ref | OK_endpoint_hook_ref | OK_unknown

definition ROOM_OBJECT_KINDS :: "object_kind list" where
  "ROOM_OBJECT_KINDS = [OK_message, OK_note, OK_task, OK_decision, OK_poll, OK_file_ref,
     OK_room_setting, OK_member_ref, OK_audit_event, OK_ai_memory_ref, OK_endpoint_hook_ref,
     OK_unknown]"

fun object_kind_name :: "object_kind \<Rightarrow> string" where
  "object_kind_name OK_message = ''message''"
| "object_kind_name OK_note = ''note''"
| "object_kind_name OK_task = ''task''"
| "object_kind_name OK_decision = ''decision''"
| "object_kind_name OK_poll = ''poll''"
| "object_kind_name OK_file_ref = ''file_ref''"
| "object_kind_name OK_room_setting = ''room_setting''"
| "object_kind_name OK_member_ref = ''member_ref''"
| "object_kind_name OK_audit_event = ''audit_event''"
| "object_kind_name OK_ai_memory_ref = ''ai_memory_ref''"
| "object_kind_name OK_endpoint_hook_ref = ''endpoint_hook_ref''"
| "object_kind_name OK_unknown = ''unknown''"

datatype kind_gate = KG_none | KG_gate_g_identity | KG_gate_i_ai | KG_gate_r_endpoint

record object_kind_meta =
  okm_dataClass :: string
  okm_sensitivity :: string
  okm_contentBearing :: bool
  okm_futureGate :: kind_gate

fun ROOM_OBJECT_KIND_META :: "object_kind \<Rightarrow> object_kind_meta" where
  "ROOM_OBJECT_KIND_META OK_message = object_kind_meta.make ''message_content'' ''content'' True KG_none"
| "ROOM_OBJECT_KIND_META OK_note = object_kind_meta.make ''message_content'' ''content'' True KG_none"
| "ROOM_OBJECT_KIND_META OK_task = object_kind_meta.make ''materialized_room_state'' ''content'' True KG_none"
| "ROOM_OBJECT_KIND_META OK_decision = object_kind_meta.make ''room_operation_log'' ''content'' True KG_none"
| "ROOM_OBJECT_KIND_META OK_poll = object_kind_meta.make ''room_operation_log'' ''content'' True KG_none"
| "ROOM_OBJECT_KIND_META OK_file_ref = object_kind_meta.make ''materialized_room_state'' ''content_adjacent'' False KG_none"
| "ROOM_OBJECT_KIND_META OK_room_setting = object_kind_meta.make ''settings'' ''low'' False KG_none"
| "ROOM_OBJECT_KIND_META OK_member_ref = object_kind_meta.make ''contact_aliases'' ''relationship'' False KG_gate_g_identity"
| "ROOM_OBJECT_KIND_META OK_audit_event = object_kind_meta.make ''logs'' ''sensitive'' False KG_none"
| "ROOM_OBJECT_KIND_META OK_ai_memory_ref = object_kind_meta.make ''ai_output_cache'' ''content_adjacent'' False KG_gate_i_ai"
| "ROOM_OBJECT_KIND_META OK_endpoint_hook_ref = object_kind_meta.make ''endpoint_redaction_state'' ''sensitive'' False KG_gate_r_endpoint"
| "ROOM_OBJECT_KIND_META OK_unknown = object_kind_meta.make ''debug_artifact'' ''sensitive'' False KG_none"

section \<open>Operation taxonomy\<close>

datatype room_operation =
    Op_room_create | Op_room_rename | Op_room_archive | Op_room_lock | Op_room_delete_tombstone
  | Op_room_policy_update | Op_member_add | Op_member_remove | Op_message_create
  | Op_note_create | Op_task_create | Op_decision_record | Op_poll_create | Op_file_attach_ref
  | Op_audit_append_redacted | Op_ai_memory_ref | Op_endpoint_hook_ref | Op_unknown

definition ROOM_OPERATION_KINDS :: "room_operation list" where
  "ROOM_OPERATION_KINDS = [Op_room_create, Op_room_rename, Op_room_archive, Op_room_lock,
     Op_room_delete_tombstone, Op_room_policy_update, Op_member_add, Op_member_remove,
     Op_message_create, Op_note_create, Op_task_create, Op_decision_record, Op_poll_create,
     Op_file_attach_ref, Op_audit_append_redacted, Op_ai_memory_ref, Op_endpoint_hook_ref,
     Op_unknown]"

fun operation_name :: "room_operation \<Rightarrow> string" where
  "operation_name Op_room_create = ''room.create''"
| "operation_name Op_room_rename = ''room.rename''"
| "operation_name Op_room_archive = ''room.archive''"
| "operation_name Op_room_lock = ''room.lock''"
| "operation_name Op_room_delete_tombstone = ''room.delete_tombstone''"
| "operation_name Op_room_policy_update = ''room.policy_update''"
| "operation_name Op_member_add = ''member.add_placeholder''"
| "operation_name Op_member_remove = ''member.remove_placeholder''"
| "operation_name Op_message_create = ''message.create_placeholder''"
| "operation_name Op_note_create = ''note.create_placeholder''"
| "operation_name Op_task_create = ''task.create_placeholder''"
| "operation_name Op_decision_record = ''decision.record_placeholder''"
| "operation_name Op_poll_create = ''poll.create_placeholder''"
| "operation_name Op_file_attach_ref = ''file.attach_ref_placeholder''"
| "operation_name Op_audit_append_redacted = ''audit.append_redacted''"
| "operation_name Op_ai_memory_ref = ''ai.memory_ref_placeholder''"
| "operation_name Op_endpoint_hook_ref = ''endpoint.hook_ref_placeholder''"
| "operation_name Op_unknown = ''unknown''"

definition CONTENT_BEARING_OPERATIONS :: "room_operation list" where
  "CONTENT_BEARING_OPERATIONS = [Op_message_create, Op_note_create, Op_task_create,
     Op_decision_record, Op_poll_create]"

section \<open>The tables are complete and the names are distinct\<close>

lemma lifecycle_complete: "l \<in> set ROOM_LIFECYCLE_STATES"
  by (cases l) (simp_all add: ROOM_LIFECYCLE_STATES_def)

lemma room_kind_complete: "k \<in> set ROOM_KINDS"
  by (cases k) (simp_all add: ROOM_KINDS_def)

lemma object_kind_complete: "k \<in> set ROOM_OBJECT_KINDS"
  by (cases k) (simp_all add: ROOM_OBJECT_KINDS_def)

lemma operation_complete: "p \<in> set ROOM_OPERATION_KINDS"
  by (cases p) (simp_all add: ROOM_OPERATION_KINDS_def)

lemmas enum_complete [enum_simps] =
  lifecycle_complete room_kind_complete object_kind_complete operation_complete

lemma lifecycle_name_inj: "inj_on lifecycle_name (set ROOM_LIFECYCLE_STATES)"
  by (simp add: inj_on_def ROOM_LIFECYCLE_STATES_def)

lemma room_kind_name_inj: "inj_on room_kind_name (set ROOM_KINDS)"
  by (simp add: inj_on_def ROOM_KINDS_def)

lemma object_kind_name_inj: "inj_on object_kind_name (set ROOM_OBJECT_KINDS)"
  by (simp add: inj_on_def ROOM_OBJECT_KINDS_def)

lemma operation_name_inj: "inj_on operation_name (set ROOM_OPERATION_KINDS)"
  by (simp add: inj_on_def ROOM_OPERATION_KINDS_def)

text \<open>Decoding the name of a member of a complete table gives the member back.\<close>

lemmas enum_decode [simp] =
  enum_of_js [OF lifecycle_name_inj enum_complete(1)]
  enum_of_js [OF room_kind_name_inj enum_complete(2)]
  enum_of_js [OF object_kind_name_inj enum_complete(3)]
  enum_of_js [OF operation_name_inj enum_complete(4)]

end
