(* ===== verification/Room_Policy.thy ===== *)
theory Room_Policy
  imports Room_Types
begin

text \<open>
  \<open>packages/rooms/src/room-policy.ts\<close>: the policy of a room as resolved from mode,
  kind, lifecycle, device risk and a tighten-only room part, the scope each operation needs,
  and the room operation barrier \<open>assertRoomOperationAllowed\<close>, which interprets
  \<^emph>\<open>decision_gate\<close>.  The \<open>reason\<close>, \<open>payload\<close> and
  \<open>roomPolicy\<close> members of a request are carried and never read by the barrier.
\<close>

section \<open>RoomPolicy\<close>

text \<open>\<open>ED_active\<close> is outside the union; the barrier tests for it after a cast.\<close>

datatype endpoint_integration =
    ED_externalized | ED_hook_only | ED_future_gate | ED_not_available | ED_active

record room_policy =
  rp_mode :: privacy_mode
  rp_roomKind :: room_kind
  rp_lifecycle :: room_lifecycle
  rp_allowLocalContentMutation :: bool
  rp_allowPersistentProjection :: bool
  rp_allowOperationLogPersistence :: bool
  rp_allowNetworkSync :: bool
  rp_allowMetadataSignals :: bool
  rp_allowNotifications :: bool
  rp_allowLocalAI :: bool
  rp_endpointDefenseIntegration :: endpoint_integration
  rp_redactTitles :: bool
  rp_reason :: string

text \<open>Of a caller's \<open>Partial<RoomPolicy>\<close> the resolution reads two members.\<close>

record partial_room_policy =
  prp_allowLocalContentMutation :: "bool option"
  prp_redactTitles :: "bool option"

record room_policy_input =
  rpi_mode :: privacy_mode
  rpi_roomKind :: room_kind
  rpi_lifecycle :: "room_lifecycle option"
  rpi_roomPolicy :: "partial_room_policy option"
  rpi_deviceRiskLevel :: "risk_level option"

definition deny_room_policy ::
  "privacy_mode \<Rightarrow> room_kind \<Rightarrow> room_lifecycle \<Rightarrow> string \<Rightarrow> room_policy" where
  "deny_room_policy mode roomKind lifecycle reason = \<lparr>
     rp_mode = mode, rp_roomKind = roomKind, rp_lifecycle = lifecycle,
     rp_allowLocalContentMutation = False, rp_allowPersistentProjection = False,
     rp_allowOperationLogPersistence = False, rp_allowNetworkSync = False,
     rp_allowMetadataSignals = False, rp_allowNotifications = False, rp_allowLocalAI = False,
     rp_endpointDefenseIntegration = ED_externalized, rp_redactTitles = True,
     rp_reason = reason\<rparr>"

definition resolveRoomPolicy :: "room_policy_input \<Rightarrow> room_policy" where
  "resolveRoomPolicy inp =
     (let mode = rpi_mode inp; roomKind = rpi_roomKind inp;
          lifecycle = (case rpi_lifecycle inp of None \<Rightarrow> LC_active_local | Some l \<Rightarrow> l);
          deny = deny_room_policy mode roomKind lifecycle
      in if mode \<notin> set KNOWN_MODES \<or> roomKind \<notin> set ROOM_KINDS \<or> roomKind = RK_unknown
            \<or> lifecycle = LC_unknown
         then deny ''unknown mode/room kind/lifecycle: fail closed''
         else if mode = Mode_emergency then deny ''emergency: normal room mutations denied''
         else if lifecycle = LC_emergency_locked \<or> lifecycle = LC_deleted_tombstone
         then deny (''lifecycle \"'' @ lifecycle_name lifecycle @ ''\": room is locked'')
         else
           let strict = (mode = Mode_ghost \<or> mode = Mode_bunker);
               risk = (case rpi_deviceRiskLevel inp of None \<Rightarrow> Risk_unknown | Some r \<Rightarrow> r);
               policy = \<lparr>
                 rp_mode = mode, rp_roomKind = roomKind, rp_lifecycle = lifecycle,
                 rp_allowLocalContentMutation = True, rp_allowPersistentProjection = False,
                 rp_allowOperationLogPersistence = False, rp_allowNetworkSync = False,
                 rp_allowMetadataSignals = False, rp_allowNotifications = False,
                 rp_allowLocalAI = False, rp_endpointDefenseIntegration = ED_externalized,
                 rp_redactTitles = (mode = Mode_bunker \<or> risk = Risk_critical),
                 rp_reason = mode_name mode @
                   (if strict then '': memory/null-only local room state; nothing persists''
                    else '': local memory-only room foundation; persistence/sync future-gated'')\<rparr>
           in case rpi_roomPolicy inp of
                None \<Rightarrow> policy
              | Some room \<Rightarrow> policy\<lparr>
                  rp_allowLocalContentMutation := rp_allowLocalContentMutation policy
                    \<and> (case prp_allowLocalContentMutation room of None \<Rightarrow> True | Some b \<Rightarrow> b),
                  rp_redactTitles := rp_redactTitles policy
                    \<or> (case prp_redactTitles room of None \<Rightarrow> False | Some b \<Rightarrow> b),
                  rp_reason := rp_reason policy @ ''; room policy composed (tighten-only)''\<rparr>)"

text \<open>The v1 ceiling: what no room policy of this program ever allows.\<close>

definition v1_ceiling :: "room_policy \<Rightarrow> bool" where
  "v1_ceiling p \<longleftrightarrow> \<not> rp_allowPersistentProjection p \<and> \<not> rp_allowOperationLogPersistence p
     \<and> \<not> rp_allowNetworkSync p \<and> \<not> rp_allowMetadataSignals p \<and> \<not> rp_allowNotifications p
     \<and> \<not> rp_allowLocalAI p \<and> rp_endpointDefenseIntegration p = ED_externalized"

lemma resolveRoomPolicy_ceiling: "v1_ceiling (resolveRoomPolicy inp)"
  by (auto simp: v1_ceiling_def resolveRoomPolicy_def deny_room_policy_def Let_def split: option.splits)

lemma resolveRoomPolicy_mode [simp]: "rp_mode (resolveRoomPolicy inp) = rpi_mode inp"
  by (auto simp: resolveRoomPolicy_def deny_room_policy_def Let_def split: option.splits)

lemma resolveRoomPolicy_mutation:
  "rp_allowLocalContentMutation (resolveRoomPolicy inp) \<longleftrightarrow>
     rpi_mode inp \<in> set KNOWN_MODES \<and> rpi_mode inp \<noteq> Mode_emergency \<and> rpi_roomKind inp \<noteq> RK_unknown
   \<and> rpi_lifecycle inp \<notin> {Some LC_unknown, Some LC_emergency_locked, Some LC_deleted_tombstone}
   \<and> (\<forall>room. rpi_roomPolicy inp = Some room \<longrightarrow> prp_allowLocalContentMutation room \<noteq> Some False)"
  by (auto simp: resolveRoomPolicy_def deny_room_policy_def Let_def room_kind_complete
      split: option.splits)

lemma resolveRoomPolicy_redact:
  "rp_redactTitles (resolveRoomPolicy inp) \<longleftrightarrow>
     \<not> rp_allowLocalContentMutation (resolveRoomPolicy (inp\<lparr>rpi_roomPolicy := None\<rparr>))
   \<or> rpi_mode inp = Mode_bunker \<or> rpi_deviceRiskLevel inp = Some Risk_critical
   \<or> (\<exists>room. rpi_roomPolicy inp = Some room \<and> prp_redactTitles room = Some True)"
  by (auto simp: resolveRoomPolicy_def deny_room_policy_def Let_def room_kind_complete
      split: option.splits)

text \<open>Resolving a room policy stays under the v1 ceiling for every input, fails closed on
  an unknown mode, kind or lifecycle and in emergency or locked rooms, and the caller's room
  part and the device risk only tighten: dropping them never removes a permission or adds a
  redaction.\<close>

theorem resolveRoomPolicy_tighten_only:
  "v1_ceiling (resolveRoomPolicy inp)
   \<and> (rp_allowLocalContentMutation (resolveRoomPolicy inp)
        \<longrightarrow> rp_allowLocalContentMutation
              (resolveRoomPolicy (inp\<lparr>rpi_roomPolicy := None, rpi_deviceRiskLevel := None\<rparr>))
          \<and> rpi_mode inp \<in> set KNOWN_MODES - {Mode_emergency} \<and> rpi_roomKind inp \<noteq> RK_unknown
          \<and> rpi_lifecycle inp \<notin> {Some LC_unknown, Some LC_emergency_locked, Some LC_deleted_tombstone})
   \<and> (rp_redactTitles (resolveRoomPolicy (inp\<lparr>rpi_roomPolicy := None, rpi_deviceRiskLevel := None\<rparr>))
        \<longrightarrow> rp_redactTitles (resolveRoomPolicy inp))"
  by (auto simp: resolveRoomPolicy_ceiling resolveRoomPolicy_mutation resolveRoomPolicy_redact)

theorem resolveRoomPolicy_tighten_only_witness:
  "rp_redactTitles (resolveRoomPolicy (room_policy_input.make Mode_bunker RK_workspace None
     (Some (partial_room_policy.make None (Some False))) (Some Risk_low)))"
proof -
  let ?i = "room_policy_input.make Mode_bunker RK_workspace None
     (Some (partial_room_policy.make None (Some False))) (Some Risk_low)"
  have "rp_redactTitles (resolveRoomPolicy (?i\<lparr>rpi_roomPolicy := None, rpi_deviceRiskLevel := None\<rparr>))"
    by (simp add: resolveRoomPolicy_redact room_policy_input.defs)
  then show ?thesis using resolveRoomPolicy_tighten_only [of ?i] by blast
qed

section \<open>The room operation barrier\<close>

definition ROOM_CAPABILITY :: policy_capability where
  "ROOM_CAPABILITY = Cap_persistence"

definition LIFECYCLE_OPERATIONS :: "room_operation list" where
  "LIFECYCLE_OPERATIONS = [Op_room_rename, Op_room_archive, Op_room_lock, Op_room_delete_tombstone]"

definition expectedRoomScope :: "room_operation \<Rightarrow> side_effect_scope" where
  "expectedRoomScope operation =
     (if operation = Op_room_create then ''room.create''
      else if operation = Op_room_policy_update then ''room.policy_update''
      else if operation = Op_audit_append_redacted then ''room.audit''
      else if operation \<in> set LIFECYCLE_OPERATIONS then ''room.lifecycle_update''
      else ''room.mutate'')"

text \<open>An operation or object kind outside its union is represented by the member
  \<open>unknown\<close>, which the barrier treats the same way.\<close>

record room_operation_request =
  rq_operation :: room_operation
  rq_roomId :: "jstr option"
  rq_objectKind :: "object_kind option"
  rq_mode :: privacy_mode

definition assertRoomOperationAllowed ::
  "privacy_state \<Rightarrow> room_operation_request \<Rightarrow> dref \<Rightarrow> room_policy \<Rightarrow> unit res" where
  "assertRoomOperationAllowed s request decision roomPolicy =
     (if rq_operation request = Op_unknown \<or> rq_operation request \<notin> set ROOM_OPERATION_KINDS
      then Inl (RoomError InvalidRoomOperation)
      else if rq_objectKind request \<noteq> None \<and> (rq_objectKind request = Some OK_unknown
           \<or> the (rq_objectKind request) \<notin> set ROOM_OBJECT_KINDS)
      then Inl (RoomError InvalidRoomObjectKind)
      else if rp_mode roomPolicy \<noteq> rq_mode request then Inl (RoomError RoomBypassAttempt)
      else (case authentic s decision of
          None \<Rightarrow> Inl (RoomError RoomBypassAttempt)
        | Some d \<Rightarrow>
          if pd_verdict d \<noteq> Allowed then Inl (RoomError RoomPolicyDenied)
          else if pd_capability d \<noteq> ROOM_CAPABILITY then Inl (RoomError RoomDecisionMismatch)
          else if pd_sideEffect d \<noteq> expectedRoomScope (rq_operation request)
          then Inl (RoomError RoomDecisionMismatch)
          else if \<not> rp_allowLocalContentMutation roomPolicy
                \<and> rq_operation request \<noteq> Op_audit_append_redacted
          then Inl (RoomError RoomPolicyDenied)
          else if rq_operation request \<in> set CONTENT_BEARING_OPERATIONS
                \<and> rp_mode roomPolicy = Mode_emergency
          then Inl (RoomError RoomPolicyDenied)
          else if rp_allowNetworkSync roomPolicy then Inl (RoomError ForbiddenRoomSideEffect)
          else if rp_allowPersistentProjection roomPolicy \<or> rp_allowOperationLogPersistence roomPolicy
          then Inl (RoomError ForbiddenRoomPersistence)
          else if rp_allowNotifications roomPolicy \<or> rp_allowLocalAI roomPolicy
          then Inl (RoomError ForbiddenRoomSideEffect)
          else if rp_endpointDefenseIntegration roomPolicy = ED_active
          then Inl (RoomError ForbiddenRoomSideEffect)
          else Inr ()))"

lemmas [guard_defs] = assertRoomOperationAllowed_def

lemma assertRoomOperationAllowed_D:
  "assertRoomOperationAllowed s request r p = Inr u \<Longrightarrow>
     rq_operation request \<noteq> Op_unknown \<and> rq_objectKind request \<noteq> Some OK_unknown
   \<and> rp_mode p = rq_mode request
   \<and> (rp_allowLocalContentMutation p \<or> rq_operation request = Op_audit_append_redacted)
   \<and> \<not> rp_allowNetworkSync p \<and> \<not> rp_allowPersistentProjection p
   \<and> \<not> rp_allowOperationLogPersistence p \<and> \<not> rp_allowNotifications p \<and> \<not> rp_allowLocalAI p
   \<and> rp_endpointDefenseIntegration p \<noteq> ED_active
   \<and> (\<exists>d. authentic s r = Some d \<and> pd_verdict d = Allowed \<and> pd_capability d = Cap_persistence
        \<and> pd_sideEffect d = expectedRoomScope (rq_operation request))"
  by (auto simp: assertRoomOperationAllowed_def ROOM_CAPABILITY_def split: if_splits option.splits)

interpretation room_gate: decision_gate
  "\<lambda>s r q. assertRoomOperationAllowed s (fst q) r (snd q)" "\<lambda>q. expectedRoomScope (rq_operation (fst q))"
  by unfold_locales (auto dest: assertRoomOperationAllowed_D)

text \<open>C8.  The room barrier is exact: with a policy resolved by \<open>resolveRoomPolicy\<close> for
  the request's mode, an operation passes if and only if it is a known one on a known kind, its
  decision is an issued, allowed one of the persistence capability for exactly the operation's
  scope, and the policy allows local mutation (or the operation is the redacted audit
  entry).\<close>

theorem room_barrier_exact:
  assumes "p = resolveRoomPolicy inp"
  shows "assertRoomOperationAllowed s request r p = Inr () \<longleftrightarrow>
     rq_operation request \<noteq> Op_unknown \<and> rq_objectKind request \<noteq> Some OK_unknown
   \<and> rq_mode request = rpi_mode inp
   \<and> (\<exists>d. authentic s r = Some d \<and> pd_verdict d = Allowed \<and> pd_capability d = Cap_persistence
        \<and> pd_sideEffect d = expectedRoomScope (rq_operation request))
   \<and> (rp_allowLocalContentMutation p \<or> rq_operation request = Op_audit_append_redacted)"
  (is "?l \<longleftrightarrow> ?r")
proof
  show "?l \<Longrightarrow> ?r" using assms by (auto dest: assertRoomOperationAllowed_D)
next
  have em: "rp_allowLocalContentMutation p \<Longrightarrow> rp_mode p \<noteq> Mode_emergency"
    using assms by (auto simp: resolveRoomPolicy_mutation)
  have au: "Op_audit_append_redacted \<notin> set CONTENT_BEARING_OPERATIONS"
    by (simp add: CONTENT_BEARING_OPERATIONS_def)
  show "?r \<Longrightarrow> ?l"
    using resolveRoomPolicy_ceiling [of inp] em au unfolding assms
    by (auto simp: assertRoomOperationAllowed_def ROOM_CAPABILITY_def enum_complete v1_ceiling_def)
qed

theorem room_barrier_exact_witness:
  "assertRoomOperationAllowed
      (snd (issuePolicyDecision Cap_persistence Allowed Mode_private ''room.mutate'' privacy_init))
      (room_operation_request.make Op_note_create None (Some OK_note) Mode_private) 0
      (resolveRoomPolicy (room_policy_input.make Mode_private RK_workspace None None None)) = Inr ()"
  by (subst room_barrier_exact [OF refl])
    (simp add: room_operation_request.defs room_policy_input.defs resolveRoomPolicy_mutation
      KNOWN_MODES_def issuePolicyDecision_def Let_def privacy_init_def authentic_def
      isPolicyDecision_def expectedRoomScope_def LIFECYCLE_OPERATIONS_def)

text \<open>One decision, one side-effect class: a reference the registry never issued is
  rejected whatever the request, a denied decision is rejected, and two operations that pass
  with the same decision need the same scope.\<close>

theorem room_barrier_decision_binding:
  "(\<not> isPolicyDecision s r \<longrightarrow> (\<exists>x. assertRoomOperationAllowed s request r p = Inl x))
   \<and> (authentic s r = Some d \<and> pd_verdict d = Denied
        \<longrightarrow> (\<exists>x. assertRoomOperationAllowed s request r p = Inl x))
   \<and> (assertRoomOperationAllowed s request r p = Inr () \<and> assertRoomOperationAllowed s request' r p' = Inr ()
        \<longrightarrow> expectedRoomScope (rq_operation request) = expectedRoomScope (rq_operation request'))"
  using room_gate.forged_rejected [where q = "(request, p)"] room_gate.denied_rejected [where q = "(request, p)"]
    room_gate.one_scope [where q = "(request, p)" and q' = "(request', p')"] by auto

theorem room_barrier_decision_binding_witness:
  "\<exists>x. assertRoomOperationAllowed privacy_init
      (room_operation_request.make Op_note_create None None Mode_private) 0
      (resolveRoomPolicy (room_policy_input.make Mode_private RK_workspace None None None)) = Inl x"
  using room_barrier_decision_binding [of privacy_init 0]
  by (simp add: privacy_init_def isPolicyDecision_def)

end
