(* ===== verification/Object_Types.thy ===== *)
theory Object_Types
  imports Room_Types
begin

text \<open>
  The object model of \<open>packages/rooms/src/objects/\<close>: identifiers and revisions
  (\<open>object-ids.ts\<close>), objects with their content (\<open>object-types.ts\<close>),
  lifecycle and status machines (\<open>object-lifecycle.ts\<close>), plain-text validation
  with the UTF-8 byte count (\<open>object-validation.ts\<close>) and the limits
  (\<open>object-limits.ts\<close>).

  The content of an object is one record whose fields are all optional: the sources cast
  an object to the type its command expects without a run-time check, so any content can
  meet any update.  A plain-text value is its string (\<open>format\<close> is constant).
\<close>

section \<open>Identifiers and revisions\<close>

definition MAX_OBJECT_REVISION :: int where
  "MAX_OBJECT_REVISION = MAX_SAFE_INTEGER - 1"

definition FIRST_OBJECT_REVISION :: int where
  "FIRST_OBJECT_REVISION = 1"

definition validateRoomObjectId :: "jsval \<Rightarrow> jstr res" where
  "validateRoomObjectId input = (case string_value input of
     Some s \<Rightarrow> if id_re 127 s then Inr s else Inl (ObjectError OC_invalid_object_id)
   | None \<Rightarrow> Inl (ObjectError OC_invalid_object_id))"

definition isRoomObjectId :: "jsval \<Rightarrow> bool" where
  "isRoomObjectId input = (case string_value input of Some s \<Rightarrow> id_re 127 s | None \<Rightarrow> False)"

definition validateRoomObjectRevision :: "jsval \<Rightarrow> int res" where
  "validateRoomObjectRevision input = (case safe_integer input of
     Some i \<Rightarrow> if i < 1 \<or> i > MAX_OBJECT_REVISION then Inl (ObjectError OC_invalid_object_revision)
       else Inr i
   | None \<Rightarrow> Inl (ObjectError OC_invalid_object_revision))"

definition nextRoomObjectRevision :: "int \<Rightarrow> int res" where
  "nextRoomObjectRevision current =
     (let next = current + 1
      in if next > MAX_OBJECT_REVISION then Inl (ObjectError OC_revision_overflow) else Inr next)"

lemma validateRoomObjectId_Inr [simp]:
  "validateRoomObjectId v = Inr s \<longleftrightarrow> v = JStr s \<and> id_re 127 s"
  by (cases v) (auto simp: validateRoomObjectId_def)

lemma nextRoomObjectRevision_Inr [simp]:
  "nextRoomObjectRevision r = Inr r' \<longleftrightarrow> r' = r + 1 \<and> r' \<le> MAX_OBJECT_REVISION"
  by (auto simp: nextRoomObjectRevision_def Let_def)

section \<open>Objects\<close>

datatype object_kind_v1 = OV_message | OV_note | OV_task | OV_decision | OV_poll | OV_file_ref

definition ROOM_OBJECT_KINDS_V1 :: "object_kind_v1 list" where
  "ROOM_OBJECT_KINDS_V1 = [OV_message, OV_note, OV_task, OV_decision, OV_poll, OV_file_ref]"

fun object_kind_v1_name :: "object_kind_v1 \<Rightarrow> string" where
  "object_kind_v1_name OV_message = ''message''"
| "object_kind_v1_name OV_note = ''note''"
| "object_kind_v1_name OV_task = ''task''"
| "object_kind_v1_name OV_decision = ''decision''"
| "object_kind_v1_name OV_poll = ''poll''"
| "object_kind_v1_name OV_file_ref = ''file_ref''"

datatype object_lifecycle = OL_active | OL_archived | OL_redacted | OL_deleted_tombstone
datatype object_sensitivity = OS_low | OS_sensitive | OS_relationship | OS_content | OS_critical

datatype task_status = TS_todo | TS_in_progress | TS_done | TS_cancelled
datatype decision_status = DS_proposed | DS_accepted | DS_rejected | DS_superseded
datatype poll_status = PS_draft | PS_open_local_placeholder | PS_closed_local_placeholder

datatype object_status = ST_task task_status | ST_decision decision_status | ST_poll poll_status

definition ROOM_TASK_STATUSES :: "task_status list" where
  "ROOM_TASK_STATUSES = [TS_todo, TS_in_progress, TS_done, TS_cancelled]"

definition ROOM_DECISION_STATUSES :: "decision_status list" where
  "ROOM_DECISION_STATUSES = [DS_proposed, DS_accepted, DS_rejected, DS_superseded]"

definition ROOM_POLL_STATUSES :: "poll_status list" where
  "ROOM_POLL_STATUSES = [PS_draft, PS_open_local_placeholder, PS_closed_local_placeholder]"

fun task_status_name :: "task_status \<Rightarrow> string" where
  "task_status_name TS_todo = ''todo''"
| "task_status_name TS_in_progress = ''in_progress''"
| "task_status_name TS_done = ''done''"
| "task_status_name TS_cancelled = ''cancelled''"

fun decision_status_name :: "decision_status \<Rightarrow> string" where
  "decision_status_name DS_proposed = ''proposed''"
| "decision_status_name DS_accepted = ''accepted''"
| "decision_status_name DS_rejected = ''rejected''"
| "decision_status_name DS_superseded = ''superseded''"

fun poll_status_name :: "poll_status \<Rightarrow> string" where
  "poll_status_name PS_draft = ''draft''"
| "poll_status_name PS_open_local_placeholder = ''open_local_placeholder''"
| "poll_status_name PS_closed_local_placeholder = ''closed_local_placeholder''"

record object_content =
  oc_body :: "jstr option"
  oc_replyToObjectId :: "jstr option"
  oc_edited :: "bool option"
  oc_title :: "jstr option"
  oc_tags :: "jstr list option"
  oc_description :: "jstr option"
  oc_status :: "object_status option"
  oc_assigneeRefs :: "jstr list option"
  oc_dueAtLocal :: "jstr option"
  oc_statement :: "jstr option"
  oc_rationale :: "jstr option"
  oc_supersedesObjectId :: "jstr option"
  oc_question :: "jstr option"
  oc_options :: "(jstr \<times> jstr) list option"
  oc_localRefId :: "jstr option"
  oc_displayName :: "jstr option"
  oc_mediaType :: "jstr option"
  oc_sizeBytes :: "int option"

definition empty_content :: object_content where
  "empty_content = \<lparr>oc_body = None, oc_replyToObjectId = None, oc_edited = None, oc_title = None,
     oc_tags = None, oc_description = None, oc_status = None, oc_assigneeRefs = None,
     oc_dueAtLocal = None, oc_statement = None, oc_rationale = None,
     oc_supersedesObjectId = None, oc_question = None, oc_options = None, oc_localRefId = None,
     oc_displayName = None, oc_mediaType = None, oc_sizeBytes = None\<rparr>"

record room_object =
  ro_objectId :: jstr
  ro_roomId :: jstr
  ro_kind :: object_kind_v1
  ro_revision :: int
  ro_lifecycle :: object_lifecycle
  ro_sensitivity :: object_sensitivity
  ro_createdAtLocal :: jstr
  ro_updatedAtLocal :: jstr
  ro_createdBy :: jstr
  ro_updatedBy :: jstr
  ro_redacted :: bool
  ro_content :: "object_content option"

record object_summary =
  os_objectId :: jstr
  os_roomId :: jstr
  os_kind :: object_kind_v1
  os_lifecycle :: object_lifecycle
  os_sensitivity :: object_sensitivity
  os_redacted :: bool
  os_revision :: "int option"
  os_contentPresent :: "bool option"

section \<open>Lifecycle and status machines\<close>

datatype object_mutation_class = OM_create | OM_content_update | OM_redact | OM_archive | OM_tombstone

fun LIFECYCLE_ALLOWS :: "object_lifecycle \<Rightarrow> object_mutation_class list" where
  "LIFECYCLE_ALLOWS OL_active = [OM_content_update, OM_redact, OM_archive, OM_tombstone]"
| "LIFECYCLE_ALLOWS OL_archived = [OM_redact, OM_tombstone]"
| "LIFECYCLE_ALLOWS OL_redacted = [OM_archive, OM_tombstone]"
| "LIFECYCLE_ALLOWS OL_deleted_tombstone = []"

definition assertObjectLifecycleAllows ::
  "object_lifecycle \<Rightarrow> object_mutation_class \<Rightarrow> unit res" where
  "assertObjectLifecycleAllows current mutation =
     (if current = OL_deleted_tombstone then Inl (ObjectError OC_object_is_terminal)
      else if mutation \<notin> set (LIFECYCLE_ALLOWS current)
      then Inl (ObjectError OC_invalid_lifecycle_transition)
      else Inr ())"

text \<open>
  A status machine is a table indexed by the current status.  The current status is read
  from the content as it is: where it is missing or belongs to another kind, the table read
  gives \<open>undefined\<close> and the \<open>.includes\<close> on it throws.
\<close>

fun TASK_TRANSITIONS :: "object_status option \<Rightarrow> object_status list option" where
  "TASK_TRANSITIONS (Some (ST_task TS_todo)) =
     Some [ST_task TS_in_progress, ST_task TS_done, ST_task TS_cancelled]"
| "TASK_TRANSITIONS (Some (ST_task TS_in_progress)) =
     Some [ST_task TS_todo, ST_task TS_done, ST_task TS_cancelled]"
| "TASK_TRANSITIONS (Some (ST_task TS_done)) = Some []"
| "TASK_TRANSITIONS (Some (ST_task TS_cancelled)) = Some []"
| "TASK_TRANSITIONS _ = None"

fun DECISION_TRANSITIONS :: "object_status option \<Rightarrow> object_status list option" where
  "DECISION_TRANSITIONS (Some (ST_decision DS_proposed)) =
     Some [ST_decision DS_accepted, ST_decision DS_rejected, ST_decision DS_superseded]"
| "DECISION_TRANSITIONS (Some (ST_decision DS_accepted)) = Some [ST_decision DS_superseded]"
| "DECISION_TRANSITIONS (Some (ST_decision DS_rejected)) = Some [ST_decision DS_superseded]"
| "DECISION_TRANSITIONS (Some (ST_decision DS_superseded)) = Some []"
| "DECISION_TRANSITIONS _ = None"

fun POLL_TRANSITIONS :: "object_status option \<Rightarrow> object_status list option" where
  "POLL_TRANSITIONS (Some (ST_poll PS_draft)) = Some [ST_poll PS_open_local_placeholder]"
| "POLL_TRANSITIONS (Some (ST_poll PS_open_local_placeholder)) =
     Some [ST_poll PS_closed_local_placeholder]"
| "POLL_TRANSITIONS (Some (ST_poll PS_closed_local_placeholder)) = Some []"
| "POLL_TRANSITIONS _ = None"

definition assertStatusTransition ::
  "(object_status option \<Rightarrow> object_status list option) \<Rightarrow> object_status option \<Rightarrow> object_status
     \<Rightarrow> unit res" where
  "assertStatusTransition table current target =
     (if current = Some target then Inl (ObjectError OC_invalid_status_transition)
      else case table current of
          None \<Rightarrow> Inl JsTypeError
        | Some ts \<Rightarrow> if target \<notin> set ts then Inl (ObjectError OC_invalid_status_transition) else Inr ())"

definition assertTaskStatusTransition :: "object_status option \<Rightarrow> object_status \<Rightarrow> unit res" where
  "assertTaskStatusTransition = assertStatusTransition TASK_TRANSITIONS"

definition assertDecisionStatusTransition :: "object_status option \<Rightarrow> object_status \<Rightarrow> unit res" where
  "assertDecisionStatusTransition = assertStatusTransition DECISION_TRANSITIONS"

definition assertPollStatusTransition :: "object_status option \<Rightarrow> object_status \<Rightarrow> unit res" where
  "assertPollStatusTransition = assertStatusTransition POLL_TRANSITIONS"

definition assertPollDraftEditable :: "object_status option \<Rightarrow> unit res" where
  "assertPollDraftEditable status = (if status \<noteq> Some (ST_poll PS_draft)
     then Inl (ObjectError OC_invalid_status_transition) else Inr ())"

lemma assertStatusTransition_Inr [simp]:
  "assertStatusTransition t c x = Inr u \<longleftrightarrow> c \<noteq> Some x \<and> (\<exists>ts. t c = Some ts \<and> x \<in> set ts)"
  by (auto simp: assertStatusTransition_def split: option.splits)

lemmas status_machine_defs = assertTaskStatusTransition_def assertDecisionStatusTransition_def
  assertPollStatusTransition_def assertPollDraftEditable_def

text \<open>Resolved statuses are final: no machine leaves a resolved status except a decision
  that is superseded, and nothing returns to the initial status of a decision or poll.\<close>

lemma status_machine_final:
  "assertTaskStatusTransition (Some (ST_task TS_done)) x \<noteq> Inr ()"
  "assertTaskStatusTransition (Some (ST_task TS_cancelled)) x \<noteq> Inr ()"
  "assertDecisionStatusTransition c (ST_decision DS_proposed) \<noteq> Inr ()"
  "assertPollStatusTransition c (ST_poll PS_draft) \<noteq> Inr ()"
  by (auto simp: status_machine_defs elim: DECISION_TRANSITIONS.elims POLL_TRANSITIONS.elims)

lemma assertObjectLifecycleAllows_Inr [simp]:
  "assertObjectLifecycleAllows l m = Inr u \<longleftrightarrow> m \<in> set (LIFECYCLE_ALLOWS l)"
  by (cases l) (auto simp: assertObjectLifecycleAllows_def)

section \<open>Plain text\<close>

definition is_high_surrogate :: "16 word \<Rightarrow> bool" where
  "is_high_surrogate c \<longleftrightarrow> 0xd800 \<le> c \<and> c \<le> 0xdbff"

definition is_low_surrogate :: "16 word \<Rightarrow> bool" where
  "is_low_surrogate c \<longleftrightarrow> 0xdc00 \<le> c \<and> c \<le> 0xdfff"

text \<open>\<open>LONE_SURROGATE.test(s)\<close>: some unit is a high surrogate not followed by a low
  one, or a low surrogate not preceded by a high one.  The first argument says whether the
  unit before was a high surrogate.\<close>

fun lone_surrogate_after :: "bool \<Rightarrow> jstr \<Rightarrow> bool" where
  "lone_surrogate_after p [] = False"
| "lone_surrogate_after p (c # cs) =
     (is_high_surrogate c \<and> (cs = [] \<or> \<not> is_low_surrogate (hd cs))
      \<or> is_low_surrogate c \<and> \<not> p
      \<or> lone_surrogate_after (is_high_surrogate c) cs)"

definition LONE_SURROGATE :: "jstr \<Rightarrow> bool" where
  "LONE_SURROGATE s = lone_surrogate_after False s"

definition hasNul :: "jstr \<Rightarrow> bool" where
  "hasNul s \<longleftrightarrow> 0 \<in> set s"

text \<open>The loop adds four bytes for a high surrogate and skips the next unit.\<close>

fun utf8ByteLength :: "jstr \<Rightarrow> nat" where
  "utf8ByteLength [] = 0"
| "utf8ByteLength (c # cs) =
     (if c < 0x80 then 1 + utf8ByteLength cs
      else if c < 0x800 then 2 + utf8ByteLength cs
      else if 0xd800 \<le> c \<and> c \<le> 0xdbff then 4 + utf8ByteLength (tl cs)
      else 3 + utf8ByteLength cs)"

definition plain_text_value :: "jsval \<Rightarrow> jstr res" where
  "plain_text_value input = (case input of
       JStr s \<Rightarrow> Inr s
     | JObj fs \<Rightarrow> if only_keys [''format'', ''value''] fs
           \<and> jget fs ''format'' = JStr (js ''plain_text'')
         then (case string_value (jget fs ''value'') of Some s \<Rightarrow> Inr s
               | None \<Rightarrow> Inl (ObjectError OC_invalid_plain_text))
         else Inl (ObjectError OC_invalid_plain_text)
     | _ \<Rightarrow> Inl (ObjectError OC_invalid_plain_text))"

definition validateRoomPlainText :: "jsval \<Rightarrow> nat \<Rightarrow> jstr res" where
  "validateRoomPlainText input limitBytes = ebind (plain_text_value input) (\<lambda>str.
     if hasNul str \<or> LONE_SURROGATE str then Inl (ObjectError OC_invalid_plain_text)
     else if utf8ByteLength str > limitBytes then Inl (ObjectError OC_content_too_large)
     else Inr str)"

definition DANGEROUS_KEYS :: "string list" where
  "DANGEROUS_KEYS = [''__proto__'', ''prototype'', ''constructor'']"

definition assertNoDangerousKeys :: "(jstr \<times> jsval) list \<Rightarrow> unit res" where
  "assertNoDangerousKeys record =
     (if list_ex (\<lambda>(k, v). k \<in> set (map js DANGEROUS_KEYS)) record
      then Inl (ObjectError OC_dangerous_key) else Inr ())"

definition assertOnlyKeys :: "(jstr \<times> jsval) list \<Rightarrow> string list \<Rightarrow> unit res" where
  "assertOnlyKeys record allowed =
     (if only_keys allowed record then Inr () else Inl (ObjectError OC_unexpected_field))"

lemma assertOnlyKeys_Inr [simp]: "assertOnlyKeys fs ks = Inr u \<longleftrightarrow> only_keys ks fs"
  by (simp add: assertOnlyKeys_def)

lemma assertNoDangerousKeys_Inr [simp]:
  "assertNoDangerousKeys fs = Inr u \<longleftrightarrow> (\<forall>(k, v) \<in> set fs. k \<notin> set (map js DANGEROUS_KEYS))"
  by (auto simp: assertNoDangerousKeys_def list_ex_iff)

text \<open>The limits of \<open>ROOM_OBJECT_LIMITS_V1\<close> with the two constants beside it.\<close>

record object_limits =
  messageBodyBytes :: nat
  noteTitleBytes :: nat
  noteBodyBytes :: nat
  taskTitleBytes :: nat
  taskDescriptionBytes :: nat
  decisionStatementBytes :: nat
  decisionRationaleBytes :: nat
  pollQuestionBytes :: nat
  pollOptionLabelBytes :: nat
  pollOptionCount :: nat
  fileDisplayNameBytes :: nat
  mediaTypeBytes :: nat
  tagBytes :: nat
  tagCount :: nat

definition ROOM_OBJECT_LIMITS_V1 :: object_limits where
  "ROOM_OBJECT_LIMITS_V1 = \<lparr>messageBodyBytes = 32768, noteTitleBytes = 512,
     noteBodyBytes = 131072, taskTitleBytes = 1024, taskDescriptionBytes = 16384,
     decisionStatementBytes = 16384, decisionRationaleBytes = 65536, pollQuestionBytes = 4096,
     pollOptionLabelBytes = 1024, pollOptionCount = 32, fileDisplayNameBytes = 1024,
     mediaTypeBytes = 255, tagBytes = 128, tagCount = 32\<rparr>"

definition POLL_MIN_OPTIONS :: nat where "POLL_MIN_OPTIONS = 2"
definition TASK_MAX_ASSIGNEES :: nat where "TASK_MAX_ASSIGNEES = 64"

section \<open>The byte count against a reference encoder\<close>

text \<open>Code points of a UTF-16 string and the UTF-8 bytes of a code point.\<close>

fun code_points :: "jstr \<Rightarrow> nat list" where
  "code_points [] = []"
| "code_points [c] = [unat c]"
| "code_points (c # d # cs) =
     (if is_high_surrogate c \<and> is_low_surrogate d
      then (0x10000 + (unat c - 0xd800) * 0x400 + (unat d - 0xdc00)) # code_points cs
      else unat c # code_points (d # cs))"

definition utf8_bytes :: "nat \<Rightarrow> 8 word list" where
  "utf8_bytes n =
     (if n < 0x80 then [word_of_nat n]
      else if n < 0x800 then [word_of_nat (0xc0 + n div 64), word_of_nat (0x80 + n mod 64)]
      else if n < 0x10000 then [word_of_nat (0xe0 + n div 4096),
        word_of_nat (0x80 + n div 64 mod 64), word_of_nat (0x80 + n mod 64)]
      else [word_of_nat (0xf0 + n div 262144), word_of_nat (0x80 + n div 4096 mod 64),
        word_of_nat (0x80 + n div 64 mod 64), word_of_nat (0x80 + n mod 64)])"

definition utf8_encode :: "jstr \<Rightarrow> 8 word list" where
  "utf8_encode s = concat (map utf8_bytes (code_points s))"

lemma length_utf8_bytes:
  "length (utf8_bytes n) = (if n < 0x80 then 1 else if n < 0x800 then 2 else if n < 0x10000 then 3 else 4)"
  by (simp add: utf8_bytes_def)

lemma surrogate_unat:
  "is_high_surrogate c \<longleftrightarrow> 0xd800 \<le> unat c \<and> unat c \<le> 0xdbff"
  "is_low_surrogate c \<longleftrightarrow> 0xdc00 \<le> unat c \<and> unat c \<le> 0xdfff"
  by (simp_all add: is_high_surrogate_def is_low_surrogate_def word_le_nat_alt)

lemma high_not_low: "is_high_surrogate c \<Longrightarrow> \<not> is_low_surrogate c"
  by (simp add: surrogate_unat)

text \<open>The branches of the loop, read as conditions on the code unit's number.\<close>

lemma utf8ByteLength_Cons:
  "utf8ByteLength (c # cs) =
     (if unat c < 0x80 then 1 + utf8ByteLength cs
      else if unat c < 0x800 then 2 + utf8ByteLength cs
      else if is_high_surrogate c then 4 + utf8ByteLength (tl cs)
      else 3 + utf8ByteLength cs)"
  by (simp add: is_high_surrogate_def word_less_nat_alt)

lemma unit_bounds: "unat (c :: 16 word) < 0x10000"
  using unsigned_less [of c] by simp

lemma utf8ByteLength_code_points:
  "\<not> lone_surrogate_after False s \<Longrightarrow>
     utf8ByteLength s = (\<Sum>n\<leftarrow>code_points s. length (utf8_bytes n))"
proof (induction s rule: code_points.induct)
  case 1
  then show ?case by simp
next
  case (2 c)
  then have "\<not> is_high_surrogate c" by simp
  then show ?case
    using unit_bounds [of c] unfolding utf8ByteLength_Cons by (simp add: length_utf8_bytes)
next
  case (3 c d cs)
  show ?case
  proof (cases "is_high_surrogate c")
    case True
    then have d: "is_low_surrogate d" using "3.prems" by auto
    then have "\<not> is_high_surrogate d" using high_not_low by blast
    then have "\<not> lone_surrogate_after False cs" using "3.prems" by auto
    then have "utf8ByteLength cs = (\<Sum>n\<leftarrow>code_points cs. length (utf8_bytes n))"
      using "3.IH"(1) True d by blast
    moreover have "\<not> unat c < 0x800" using True by (simp add: surrogate_unat)
    ultimately show ?thesis
      using True d unfolding utf8ByteLength_Cons [of c] by (simp add: length_utf8_bytes)
  next
    case False
    then have "\<not> lone_surrogate_after False (d # cs)" using "3.prems" by simp
    then have "utf8ByteLength (d # cs) = (\<Sum>n\<leftarrow>code_points (d # cs). length (utf8_bytes n))"
      using "3.IH"(2) False by blast
    then show ?thesis
      using False unit_bounds [of c] unfolding utf8ByteLength_Cons [of c]
      by (simp add: length_utf8_bytes)
  qed
qed

text \<open>The byte count is the length of the UTF-8 encoding: on every string the plain-text
  validator accepts (no unpaired surrogate), \<open>utf8ByteLength\<close> equals the number of
  bytes a reference encoder emits, and the validated value never exceeds the limit.\<close>

theorem plain_text_utf8_length:
  assumes "validateRoomPlainText v n = Inr s"
  shows "utf8ByteLength s = length (utf8_encode s) \<and> length (utf8_encode s) \<le> n
     \<and> 0 \<notin> set s \<and> plain_text_value v = Inr s"
proof -
  have "\<not> LONE_SURROGATE s" and rest: "utf8ByteLength s \<le> n" "\<not> hasNul s" "plain_text_value v = Inr s"
    using assms by (auto simp: validateRoomPlainText_def split: if_splits)
  then have "utf8ByteLength s = length (utf8_encode s)"
    by (simp add: LONE_SURROGATE_def utf8ByteLength_code_points utf8_encode_def length_concat o_def)
  with rest show ?thesis by (simp add: hasNul_def)
qed

text \<open>The pair D83D DE00 is one code point of four bytes.\<close>

theorem plain_text_utf8_length_witness:
  "length (utf8_encode [0x41, 0xd83d, 0xde00]) \<le> 5"
proof -
  have "validateRoomPlainText (JStr [0x41, 0xd83d, 0xde00]) 5 = Inr [0x41, 0xd83d, 0xde00]"
    by code_simp
  from plain_text_utf8_length [OF this] show ?thesis by blast
qed

end
