(* ===== verification/Membership_Types.thy ===== *)
theory Membership_Types
  imports Object_Types Room_Policy
begin

text \<open>
  Membership data of \<open>packages/rooms/src/membership/\<close>: identifiers and revisions
  (\<open>membership-ids.ts\<close>), roles and the capabilities each is eligible for
  (\<open>membership-roles.ts\<close>, \<open>capability-types.ts\<close>), records and their
  lifecycle (\<open>membership-types.ts\<close>), and the view classes of
  \<open>query/query-types.ts\<close> a capability descriptor is limited to.  The constant
  fields of a record (schema version, \<open>verification\<close>) and of a descriptor
  (\<open>serialization\<close>, \<open>delegation\<close>, \<open>persistence\<close>) carry no
  information and are omitted.
\<close>

section \<open>Identifiers and revisions\<close>

definition FIRST_MEMBERSHIP_REVISION :: int where
  "FIRST_MEMBERSHIP_REVISION = 1"

definition MAX_MEMBERSHIP_REVISION :: int where
  "MAX_MEMBERSHIP_REVISION = MAX_SAFE_INTEGER - 1"

definition validateRoomMembershipId :: "jsval \<Rightarrow> jstr res" where
  "validateRoomMembershipId input = (case string_value input of
     Some s \<Rightarrow> if id_re 127 s then Inr s else Inl (MembershipError MC_invalid_membership_id)
   | None \<Rightarrow> Inl (MembershipError MC_invalid_membership_id))"

definition isRoomMembershipId :: "jsval \<Rightarrow> bool" where
  "isRoomMembershipId input = (case string_value input of Some s \<Rightarrow> id_re 127 s | None \<Rightarrow> False)"

definition validateRoomMembershipRevision :: "jsval \<Rightarrow> int res" where
  "validateRoomMembershipRevision input = (case safe_integer input of
     Some i \<Rightarrow> if i < 1 \<or> i > MAX_MEMBERSHIP_REVISION then Inl (MembershipError MC_invalid_revision)
       else Inr i
   | None \<Rightarrow> Inl (MembershipError MC_invalid_revision))"

definition nextRoomMembershipRevision :: "int \<Rightarrow> int res" where
  "nextRoomMembershipRevision current =
     (let next = current + 1
      in if next > MAX_MEMBERSHIP_REVISION then Inl (MembershipError MC_revision_overflow) else Inr next)"

lemma nextRoomMembershipRevision_Inr [simp]:
  "nextRoomMembershipRevision r = Inr r' \<longleftrightarrow> r' = r + 1 \<and> r' \<le> MAX_MEMBERSHIP_REVISION"
  by (auto simp: nextRoomMembershipRevision_def Let_def)

lemma validateRoomMembershipId_Inr [simp]:
  "validateRoomMembershipId v = Inr s \<longleftrightarrow> v = JStr s \<and> id_re 127 s"
  by (cases v) (auto simp: validateRoomMembershipId_def)

section \<open>Capabilities and roles\<close>

datatype capability_name =
    CN_summary_read | CN_object_list | CN_object_detail_read | CN_object_search_local
  | CN_object_create | CN_object_update | CN_object_redact | CN_object_archive
  | CN_object_tombstone | CN_membership_list_redacted | CN_membership_detail_redacted
  | CN_membership_add | CN_membership_change_role | CN_membership_suspend
  | CN_membership_reactivate | CN_membership_remove | CN_policy_tighten
  | CN_lifecycle_update | CN_audit_read_redacted

definition ROOM_CAPABILITY_NAMES :: "capability_name list" where
  "ROOM_CAPABILITY_NAMES = [CN_summary_read, CN_object_list, CN_object_detail_read,
     CN_object_search_local, CN_object_create, CN_object_update, CN_object_redact,
     CN_object_archive, CN_object_tombstone, CN_membership_list_redacted,
     CN_membership_detail_redacted, CN_membership_add, CN_membership_change_role,
     CN_membership_suspend, CN_membership_reactivate, CN_membership_remove, CN_policy_tighten,
     CN_lifecycle_update, CN_audit_read_redacted]"

lemma ROOM_CAPABILITY_NAMES_complete: "c \<in> set ROOM_CAPABILITY_NAMES"
  by (cases c) (simp_all add: ROOM_CAPABILITY_NAMES_def)

datatype membership_role = MR_owner | MR_editor | MR_viewer | MR_auditor

definition ROOM_MEMBERSHIP_ROLES :: "membership_role list" where
  "ROOM_MEMBERSHIP_ROLES = [MR_owner, MR_editor, MR_viewer, MR_auditor]"

fun membership_role_name :: "membership_role \<Rightarrow> string" where
  "membership_role_name MR_owner = ''owner_placeholder''"
| "membership_role_name MR_editor = ''editor_placeholder''"
| "membership_role_name MR_viewer = ''viewer_placeholder''"
| "membership_role_name MR_auditor = ''auditor_placeholder''"

fun ROLE_CAPABILITY_ELIGIBILITY :: "membership_role \<Rightarrow> capability_name list" where
  "ROLE_CAPABILITY_ELIGIBILITY MR_owner = ROOM_CAPABILITY_NAMES"
| "ROLE_CAPABILITY_ELIGIBILITY MR_editor = [CN_summary_read, CN_object_list,
     CN_object_detail_read, CN_object_search_local, CN_object_create, CN_object_update,
     CN_object_redact, CN_object_archive, CN_object_tombstone]"
| "ROLE_CAPABILITY_ELIGIBILITY MR_viewer = [CN_summary_read, CN_object_list,
     CN_object_detail_read]"
| "ROLE_CAPABILITY_ELIGIBILITY MR_auditor = [CN_summary_read, CN_object_list,
     CN_membership_list_redacted, CN_membership_detail_redacted, CN_audit_read_redacted]"

definition roleIsEligibleFor :: "membership_role \<Rightarrow> capability_name \<Rightarrow> bool" where
  "roleIsEligibleFor role capability \<longleftrightarrow> capability \<in> set (ROLE_CAPABILITY_ELIGIBILITY role)"

lemma owner_eligible [simp]: "roleIsEligibleFor MR_owner c"
  by (simp add: roleIsEligibleFor_def ROOM_CAPABILITY_NAMES_complete)

lemma membership_management_owner_only:
  assumes "roleIsEligibleFor role c"
    and "c \<in> {CN_membership_add, CN_membership_change_role, CN_membership_suspend,
           CN_membership_reactivate, CN_membership_remove, CN_policy_tighten, CN_lifecycle_update}"
  shows "role = MR_owner"
  using assms by (cases role) (auto simp: roleIsEligibleFor_def)

lemma membership_role_complete: "r \<in> set ROOM_MEMBERSHIP_ROLES"
  by (cases r) (simp_all add: ROOM_MEMBERSHIP_ROLES_def)

lemma membership_role_name_inj: "inj_on membership_role_name (set ROOM_MEMBERSHIP_ROLES)"
  by (simp add: inj_on_def ROOM_MEMBERSHIP_ROLES_def)

lemmas membership_role_decode [simp] =
  enum_of_js [OF membership_role_name_inj membership_role_complete]

section \<open>Records and their lifecycle\<close>

datatype membership_state = MS_active | MS_suspended | MS_removed_tombstone

definition ROOM_MEMBERSHIP_STATES :: "membership_state list" where
  "ROOM_MEMBERSHIP_STATES = [MS_active, MS_suspended, MS_removed_tombstone]"

datatype membership_origin = MO_local_room_bootstrap | MO_local_added_placeholder

record membership_record =
  mb_membershipId :: jstr
  mb_roomId :: jstr
  mb_memberRef :: jstr
  mb_role :: membership_role
  mb_state :: membership_state
  mb_revision :: int
  mb_origin :: membership_origin
  mb_createdAtLocal :: jstr
  mb_updatedAtLocal :: jstr

fun MEMBERSHIP_TRANSITIONS :: "membership_state \<Rightarrow> membership_state list" where
  "MEMBERSHIP_TRANSITIONS MS_active = [MS_suspended, MS_removed_tombstone]"
| "MEMBERSHIP_TRANSITIONS MS_suspended = [MS_active, MS_removed_tombstone]"
| "MEMBERSHIP_TRANSITIONS MS_removed_tombstone = []"

definition assertMembershipTransition :: "membership_state \<Rightarrow> membership_state \<Rightarrow> unit res" where
  "assertMembershipTransition source target =
     (if source = MS_removed_tombstone then Inl (MembershipError MC_membership_terminal)
      else if source = target \<or> target \<notin> set (MEMBERSHIP_TRANSITIONS source)
      then Inl (MembershipError MC_invalid_lifecycle_transition)
      else Inr ())"

lemma assertMembershipTransition_Inr [simp]:
  "assertMembershipTransition a b = Inr u \<longleftrightarrow> b \<in> set (MEMBERSHIP_TRANSITIONS a)"
  by (cases a) (auto simp: assertMembershipTransition_def)

definition isActiveOwner :: "membership_record \<Rightarrow> bool" where
  "isActiveOwner record \<longleftrightarrow> mb_state record = MS_active \<and> mb_role record = MR_owner"

section \<open>View classes and capability descriptors\<close>

datatype view_class =
    VC_room_summary_redacted | VC_room_summary | VC_object_summary_redacted
  | VC_object_summary | VC_object_detail_redacted | VC_object_detail_content

text \<open>\<open>cd_authoritative\<close> is always \<open>false\<close> by type; the guards still test it.\<close>

record capability_descriptor =
  cd_roomId :: jstr
  cd_memberRef :: jstr
  cd_membershipId :: jstr
  cd_membershipRevision :: int
  cd_capability :: capability_name
  cd_objectKinds :: "object_kind_v1 list option"
  cd_exactObjectId :: "jstr option"
  cd_maximumView :: "view_class option"
  cd_sourceRole :: membership_role
  cd_authoritative :: bool

end
