(* ===== verification/Policy_Document.thy ===== *)
theory Policy_Document
  imports Room_Policy
begin

text \<open>
  The inputs of policy composition in \<open>packages/rooms/src/policy-composition/\<close>:
  device posture (\<open>device-posture.ts\<close>), protected content
  (\<open>protected-content.ts\<close>), effect layers (\<open>policy-layers.ts\<close>), the
  room policy document and its mode defaults (\<open>room-policy-document.ts\<close>) and the
  monotonic comparison of two documents (\<open>policy-comparison.ts\<close>).  Fields whose
  type is the literal \<open>false\<close> are not modelled.
\<close>

section \<open>Device posture\<close>

text \<open>\<open>DP_other\<close> is a reported string outside the union.\<close>

datatype device_posture =
    DP_unverified | DP_basic | DP_hardened | DP_high_assurance | DP_managed_bunker | DP_at_risk
  | DP_other jstr

definition DEVICE_POSTURES :: "device_posture list" where
  "DEVICE_POSTURES = [DP_unverified, DP_basic, DP_hardened, DP_high_assurance,
     DP_managed_bunker, DP_at_risk]"

datatype signal_source = SS_none | SS_untrusted_local | SS_secure_device_future_provider
datatype provider_integration = PI_not_integrated | PI_future_gate | PI_integrated_future

record posture_signal =
  sg_schemaVersion :: jsval
  sg_reportedPosture :: device_posture
  sg_source :: signal_source
  sg_providerIntegration :: provider_integration
  sg_signalRevision :: jsval

record effective_posture =
  ep_reportedPosture :: device_posture
  ep_effectivePosture :: device_posture
  ep_signalRevision :: int
  ep_reasonCode :: string

definition unverifiedResult :: "posture_signal option \<Rightarrow> string \<Rightarrow> effective_posture" where
  "unverifiedResult signal reasonCode = \<lparr>
     ep_reportedPosture = (case signal of None \<Rightarrow> DP_unverified | Some g \<Rightarrow> sg_reportedPosture g),
     ep_effectivePosture = DP_unverified,
     ep_signalRevision = (case signal of None \<Rightarrow> 0
        | Some g \<Rightarrow> (case safe_integer (sg_signalRevision g) of Some i \<Rightarrow> i | None \<Rightarrow> 0)),
     ep_reasonCode = reasonCode\<rparr>"

definition resolveEffectiveDevicePostureV1 :: "posture_signal option \<Rightarrow> effective_posture" where
  "resolveEffectiveDevicePostureV1 signal = (case signal of
     None \<Rightarrow> unverifiedResult None ''no_signal''
   | Some g \<Rightarrow>
     (case (if sg_schemaVersion g \<noteq> JNum (NInt 1) \<or> sg_reportedPosture g \<notin> set DEVICE_POSTURES
            then None else safe_integer (sg_signalRevision g)) of
        None \<Rightarrow> unverifiedResult signal ''malformed_signal''
      | Some n \<Rightarrow>
        if n < 0 then unverifiedResult signal ''malformed_signal''
        else if sg_reportedPosture g = DP_at_risk then
          \<lparr>ep_reportedPosture = DP_at_risk, ep_effectivePosture = DP_at_risk,
           ep_signalRevision = n, ep_reasonCode = ''at_risk_tighten''\<rparr>
        else if sg_reportedPosture g \<noteq> DP_unverified
        then unverifiedResult signal ''elevation_ignored_no_provider''
        else unverifiedResult signal ''unverified''))"

datatype min_posture = MP_unverified | MP_basic | MP_hardened | MP_high_assurance | MP_managed_bunker

definition MINIMUM_DEVICE_POSTURES :: "min_posture list" where
  "MINIMUM_DEVICE_POSTURES = [MP_unverified, MP_basic, MP_hardened, MP_high_assurance,
     MP_managed_bunker]"

fun min_posture_name :: "min_posture \<Rightarrow> string" where
  "min_posture_name MP_unverified = ''unverified''"
| "min_posture_name MP_basic = ''basic''"
| "min_posture_name MP_hardened = ''hardened''"
| "min_posture_name MP_high_assurance = ''high_assurance''"
| "min_posture_name MP_managed_bunker = ''managed_bunker''"

fun EFFECTIVE_RANK :: "device_posture \<Rightarrow> int option" where
  "EFFECTIVE_RANK DP_at_risk = Some (-1)"
| "EFFECTIVE_RANK DP_unverified = Some 0"
| "EFFECTIVE_RANK DP_basic = Some 1"
| "EFFECTIVE_RANK DP_hardened = Some 2"
| "EFFECTIVE_RANK DP_high_assurance = Some 3"
| "EFFECTIVE_RANK DP_managed_bunker = Some 4"
| "EFFECTIVE_RANK (DP_other s) = None"

fun REQUIRED_RANK :: "min_posture \<Rightarrow> int" where
  "REQUIRED_RANK MP_unverified = 0"
| "REQUIRED_RANK MP_basic = 1"
| "REQUIRED_RANK MP_hardened = 2"
| "REQUIRED_RANK MP_high_assurance = 3"
| "REQUIRED_RANK MP_managed_bunker = 4"

definition devicePostureSatisfiesMinimumV1 :: "device_posture \<Rightarrow> min_posture \<Rightarrow> bool" where
  "devicePostureSatisfiesMinimumV1 effective required = (case EFFECTIVE_RANK effective of
     None \<Rightarrow> False
   | Some e \<Rightarrow> if effective = DP_at_risk then False else REQUIRED_RANK required \<le> e)"

text \<open>No signal ever raises the posture, whatever its source claims.\<close>

lemma effective_posture_range:
  "ep_effectivePosture (resolveEffectiveDevicePostureV1 g) \<in> {DP_unverified, DP_at_risk}"
  by (auto simp: resolveEffectiveDevicePostureV1_def unverifiedResult_def split: option.splits)

lemma posture_minimum_unmet:
  "devicePostureSatisfiesMinimumV1 (ep_effectivePosture (resolveEffectiveDevicePostureV1 g)) m
     \<longleftrightarrow> ep_effectivePosture (resolveEffectiveDevicePostureV1 g) = DP_unverified \<and> m = MP_unverified"
  using effective_posture_range [of g]
  by (cases m) (auto simp: devicePostureSatisfiesMinimumV1_def)

section \<open>Protected content\<close>

datatype protected_requirement =
    PRq_none | PRq_policy_redaction_only | PRq_secure_device_future_required
  | PRq_screen_shield_future_required | PRq_managed_bunker_future_required

definition PROTECTED_CONTENT_REQUIREMENTS :: "protected_requirement list" where
  "PROTECTED_CONTENT_REQUIREMENTS = [PRq_none, PRq_policy_redaction_only,
     PRq_secure_device_future_required, PRq_screen_shield_future_required,
     PRq_managed_bunker_future_required]"

fun protected_name :: "protected_requirement \<Rightarrow> string" where
  "protected_name PRq_none = ''none''"
| "protected_name PRq_policy_redaction_only = ''policy_redaction_only''"
| "protected_name PRq_secure_device_future_required = ''secure_device_future_required''"
| "protected_name PRq_screen_shield_future_required = ''screen_shield_future_required''"
| "protected_name PRq_managed_bunker_future_required = ''managed_bunker_future_required''"

record protected_status =
  ps_future_gate :: bool
  ps_requirementSatisfied :: bool
  ps_reasonCode :: string

definition resolveProtectedPresentationStatusV1 :: "protected_requirement \<Rightarrow> protected_status" where
  "resolveProtectedPresentationStatusV1 requirement =
     (if requirement \<notin> set PROTECTED_CONTENT_REQUIREMENTS
      then \<lparr>ps_future_gate = False, ps_requirementSatisfied = False, ps_reasonCode = ''unknown_requirement''\<rparr>
      else if requirement = PRq_none
      then \<lparr>ps_future_gate = False, ps_requirementSatisfied = True,
            ps_reasonCode = ''no_protected_content_requirement''\<rparr>
      else if requirement = PRq_policy_redaction_only
      then \<lparr>ps_future_gate = False, ps_requirementSatisfied = True,
            ps_reasonCode = ''policy_redaction_only''\<rparr>
      else \<lparr>ps_future_gate = True, ps_requirementSatisfied = False,
            ps_reasonCode = ''protected_presentation_not_integrated''\<rparr>)"

lemma protected_satisfied_iff:
  "ps_requirementSatisfied (resolveProtectedPresentationStatusV1 r)
     \<longleftrightarrow> r = PRq_none \<or> r = PRq_policy_redaction_only"
  by (cases r) (simp_all add: resolveProtectedPresentationStatusV1_def PROTECTED_CONTENT_REQUIREMENTS_def)

section \<open>Composed effects\<close>

datatype policy_layer =
    PL_global_constitution | PL_policy_matrix | PL_privacy_mode | PL_device_posture
  | PL_room_policy | PL_membership_policy | PL_object_policy | PL_operation_policy
  | PL_storage_policy | PL_network_policy | PL_metadata_policy | PL_notification_policy
  | PL_emergency_override

definition ROOM_POLICY_LAYERS :: "policy_layer list" where
  "ROOM_POLICY_LAYERS = [PL_global_constitution, PL_policy_matrix, PL_privacy_mode,
     PL_device_posture, PL_room_policy, PL_membership_policy, PL_object_policy,
     PL_operation_policy, PL_storage_policy, PL_network_policy, PL_metadata_policy,
     PL_notification_policy, PL_emergency_override]"

text \<open>\<open>CE_unknown\<close> is a string outside the union.\<close>

datatype composed_effect =
    CE_deny | CE_null | CE_not_implemented | CE_future_gate | CE_memory_only | CE_redact
  | CE_coarsen | CE_require_user_action | CE_allow | CE_unknown jstr

fun STRICTNESS :: "composed_effect \<Rightarrow> nat option" where
  "STRICTNESS CE_deny = Some 100"
| "STRICTNESS CE_not_implemented = Some 95"
| "STRICTNESS CE_future_gate = Some 90"
| "STRICTNESS CE_null = Some 80"
| "STRICTNESS CE_require_user_action = Some 70"
| "STRICTNESS CE_redact = Some 60"
| "STRICTNESS CE_coarsen = Some 50"
| "STRICTNESS CE_memory_only = Some 40"
| "STRICTNESS CE_allow = Some 0"
| "STRICTNESS (CE_unknown s) = None"

definition NON_PERMITTING :: "composed_effect list" where
  "NON_PERMITTING = [CE_deny, CE_not_implemented, CE_future_gate]"

definition effectStrictnessV1 :: "composed_effect \<Rightarrow> nat" where
  "effectStrictnessV1 effect = (case STRICTNESS effect of Some n \<Rightarrow> n | None \<Rightarrow> 100)"

definition effectPermitsExecutionV1 :: "composed_effect \<Rightarrow> bool" where
  "effectPermitsExecutionV1 effect \<longleftrightarrow> STRICTNESS effect \<noteq> None \<and> effect \<notin> set NON_PERMITTING"

definition known_or_deny :: "composed_effect \<Rightarrow> composed_effect" where
  "known_or_deny e = (if STRICTNESS e \<noteq> None then e else CE_deny)"

definition strictestEffectV1 :: "composed_effect \<Rightarrow> composed_effect \<Rightarrow> composed_effect" where
  "strictestEffectV1 a b =
     (let ra = (if STRICTNESS a \<noteq> None then effectStrictnessV1 a else 100);
          rb = (if STRICTNESS b \<noteq> None then effectStrictnessV1 b else 100)
      in if ra \<ge> rb then known_or_deny a else known_or_deny b)"

definition foldStrictestEffectV1 :: "composed_effect list \<Rightarrow> composed_effect" where
  "foldStrictestEffectV1 effects = foldl strictestEffectV1 CE_allow effects"

lemma effectStrictness_simps [simp]:
  "effectStrictnessV1 CE_deny = 100" "effectStrictnessV1 CE_not_implemented = 95"
  "effectStrictnessV1 CE_future_gate = 90" "effectStrictnessV1 CE_null = 80"
  "effectStrictnessV1 CE_require_user_action = 70" "effectStrictnessV1 CE_redact = 60"
  "effectStrictnessV1 CE_coarsen = 50" "effectStrictnessV1 CE_memory_only = 40"
  "effectStrictnessV1 CE_allow = 0" "effectStrictnessV1 (CE_unknown s) = 100"
  by (simp_all add: effectStrictnessV1_def)

lemma effect_permits_strictness:
  "effectPermitsExecutionV1 e \<longleftrightarrow> effectStrictnessV1 e < 90"
  by (cases e) (simp_all add: effectPermitsExecutionV1_def NON_PERMITTING_def)

lemma strictestEffect_strictness [simp]:
  "effectStrictnessV1 (strictestEffectV1 a b) = max (effectStrictnessV1 a) (effectStrictnessV1 b)"
  by (cases a; cases b) (simp_all add: strictestEffectV1_def known_or_deny_def)

lemma foldl_strictest_strictness:
  "effectStrictnessV1 (foldl strictestEffectV1 e es)
     = Max (insert (effectStrictnessV1 e) (effectStrictnessV1 ` set es))"
proof (induction es arbitrary: e)
  case Nil
  then show ?case by simp
next
  case (Cons x xs)
  then show ?case by (cases "xs = []") (simp_all add: ac_simps)
qed

lemma fold_strictest_strictness:
  "effectStrictnessV1 (foldStrictestEffectV1 es) = Max (insert 0 (effectStrictnessV1 ` set es))"
  by (simp add: foldStrictestEffectV1_def foldl_strictest_strictness)

lemma fold_strictest_permits:
  "effectPermitsExecutionV1 (foldStrictestEffectV1 es) \<longleftrightarrow> (\<forall>e \<in> set es. effectPermitsExecutionV1 e)"
  by (auto simp: effect_permits_strictness fold_strictest_strictness)

section \<open>The room policy document\<close>

datatype sensitivity = SN_normal | SN_sensitive | SN_high_sensitivity | SN_critical

definition ROOM_SENSITIVITIES :: "sensitivity list" where
  "ROOM_SENSITIVITIES = [SN_normal, SN_sensitive, SN_high_sensitivity, SN_critical]"

fun sensitivity_name :: "sensitivity \<Rightarrow> string" where
  "sensitivity_name SN_normal = ''normal''"
| "sensitivity_name SN_sensitive = ''sensitive''"
| "sensitivity_name SN_high_sensitivity = ''high_sensitivity''"
| "sensitivity_name SN_critical = ''critical''"

datatype retention = RT_null | RT_memory_only | RT_encrypted_future

record policy_document =
  doc_roomId :: jstr
  doc_revision :: int
  doc_sensitivity :: sensitivity
  doc_minimumDevicePosture :: min_posture
  doc_protectedContentRequirement :: protected_requirement
  doc_maximumRetention :: retention
  doc_networkAllowed :: bool
  doc_directPeerAllowed :: bool
  doc_receiptsAllowed :: bool
  doc_typingAllowed :: bool
  doc_presenceAllowed :: bool
  doc_exactCountsAllowed :: bool
  doc_exactTimestampsAllowed :: bool
  doc_actorRefsAllowed :: bool
  doc_notificationAllowed :: bool
  doc_localAiAllowed :: bool

definition FIRST_ROOM_POLICY_REVISION :: int where
  "FIRST_ROOM_POLICY_REVISION = 1"

definition resolveRoomPolicyDocumentDefaultsV1 ::
  "jstr \<Rightarrow> privacy_mode \<Rightarrow> int option \<Rightarrow> policy_document" where
  "resolveRoomPolicyDocumentDefaultsV1 roomId mode given =
     (let revision = (case given of None \<Rightarrow> FIRST_ROOM_POLICY_REVISION | Some r \<Rightarrow> r);
          strict = (mode = Mode_ghost \<or> mode = Mode_bunker);
          offline = (mode = Mode_offline_capsule);
          maximumRetention = (if strict then RT_null else RT_memory_only);
          protectedContentRequirement = (if mode = Mode_bunker then PRq_screen_shield_future_required
            else PRq_policy_redaction_only)
      in \<lparr>doc_roomId = roomId, doc_revision = revision,
          doc_sensitivity = (if mode = Mode_bunker then SN_high_sensitivity
            else if mode = Mode_ghost then SN_sensitive else SN_normal),
          doc_minimumDevicePosture = MP_unverified,
          doc_protectedContentRequirement = (if mode = Mode_standard then PRq_none
            else protectedContentRequirement),
          doc_maximumRetention = maximumRetention,
          doc_networkAllowed = False, doc_directPeerAllowed = False,
          doc_receiptsAllowed = False, doc_typingAllowed = False, doc_presenceAllowed = False,
          doc_exactCountsAllowed = (mode = Mode_standard),
          doc_exactTimestampsAllowed = (mode = Mode_standard),
          doc_actorRefsAllowed = (mode = Mode_standard \<or> offline),
          doc_notificationAllowed = False, doc_localAiAllowed = False\<rparr>)"

section \<open>Monotonic comparison\<close>

datatype change_direction = CD_stricter | CD_equal | CD_looser | CD_incomparable | CD_unknown

fun SENSITIVITY_RANK :: "sensitivity \<Rightarrow> int" where
  "SENSITIVITY_RANK SN_normal = 0"
| "SENSITIVITY_RANK SN_sensitive = 1"
| "SENSITIVITY_RANK SN_high_sensitivity = 2"
| "SENSITIVITY_RANK SN_critical = 3"

fun MIN_POSTURE_RANK :: "min_posture \<Rightarrow> int" where
  "MIN_POSTURE_RANK MP_unverified = 0"
| "MIN_POSTURE_RANK MP_basic = 1"
| "MIN_POSTURE_RANK MP_hardened = 2"
| "MIN_POSTURE_RANK MP_high_assurance = 3"
| "MIN_POSTURE_RANK MP_managed_bunker = 4"

fun PROTECTED_RANK :: "protected_requirement \<Rightarrow> int" where
  "PROTECTED_RANK PRq_none = 0"
| "PROTECTED_RANK PRq_policy_redaction_only = 1"
| "PROTECTED_RANK PRq_secure_device_future_required = 2"
| "PROTECTED_RANK PRq_screen_shield_future_required = 3"
| "PROTECTED_RANK PRq_managed_bunker_future_required = 4"

fun RETENTION_RANK :: "retention \<Rightarrow> int" where
  "RETENTION_RANK RT_encrypted_future = 0"
| "RETENTION_RANK RT_memory_only = 1"
| "RETENTION_RANK RT_null = 2"

definition rankDelta :: "('a \<Rightarrow> int) \<Rightarrow> 'a \<Rightarrow> 'a \<Rightarrow> int" where
  "rankDelta rank current candidate = sgn (rank candidate - rank current)"

definition boolDelta :: "bool \<Rightarrow> bool \<Rightarrow> int" where
  "boolDelta currentAllowed candidateAllowed =
     (if currentAllowed = candidateAllowed then 0 else if candidateAllowed then -1 else 1)"

definition policy_deltas :: "policy_document \<Rightarrow> policy_document \<Rightarrow> int list" where
  "policy_deltas a b = [
     rankDelta SENSITIVITY_RANK (doc_sensitivity a) (doc_sensitivity b),
     rankDelta MIN_POSTURE_RANK (doc_minimumDevicePosture a) (doc_minimumDevicePosture b),
     rankDelta PROTECTED_RANK (doc_protectedContentRequirement a) (doc_protectedContentRequirement b),
     rankDelta RETENTION_RANK (doc_maximumRetention a) (doc_maximumRetention b),
     boolDelta (doc_networkAllowed a) (doc_networkAllowed b),
     boolDelta (doc_directPeerAllowed a) (doc_directPeerAllowed b),
     boolDelta (doc_receiptsAllowed a) (doc_receiptsAllowed b),
     boolDelta (doc_typingAllowed a) (doc_typingAllowed b),
     boolDelta (doc_presenceAllowed a) (doc_presenceAllowed b),
     boolDelta (doc_exactCountsAllowed a) (doc_exactCountsAllowed b),
     boolDelta (doc_exactTimestampsAllowed a) (doc_exactTimestampsAllowed b),
     boolDelta (doc_actorRefsAllowed a) (doc_actorRefsAllowed b),
     boolDelta (doc_notificationAllowed a) (doc_notificationAllowed b),
     boolDelta (doc_localAiAllowed a) (doc_localAiAllowed b)]"

definition compareRoomPoliciesV1 :: "policy_document \<Rightarrow> policy_document \<Rightarrow> change_direction" where
  "compareRoomPoliciesV1 a b =
     (if doc_roomId a \<noteq> doc_roomId b then CD_unknown
      else let deltas = policy_deltas a b;
               anyStricter = list_ex (\<lambda>d. d > 0) deltas;
               anyLooser = list_ex (\<lambda>d. d < 0) deltas
           in if anyStricter \<and> anyLooser then CD_incomparable
              else if anyLooser then CD_looser
              else if anyStricter then CD_stricter
              else CD_equal)"

text \<open>The restrictiveness of a document, one number per compared field.\<close>

definition restrictiveness :: "policy_document \<Rightarrow> int list" where
  "restrictiveness d =
     [SENSITIVITY_RANK (doc_sensitivity d), MIN_POSTURE_RANK (doc_minimumDevicePosture d),
      PROTECTED_RANK (doc_protectedContentRequirement d), RETENTION_RANK (doc_maximumRetention d)]
     @ map (\<lambda>allowed. if allowed then 0 else 1)
       [doc_networkAllowed d, doc_directPeerAllowed d, doc_receiptsAllowed d, doc_typingAllowed d,
        doc_presenceAllowed d, doc_exactCountsAllowed d, doc_exactTimestampsAllowed d,
        doc_actorRefsAllowed d, doc_notificationAllowed d, doc_localAiAllowed d]"

definition no_looser :: "policy_document \<Rightarrow> policy_document \<Rightarrow> bool" where
  "no_looser a b \<longleftrightarrow> list_all2 (\<le>) (restrictiveness a) (restrictiveness b)"

lemma boolDelta_alt: "boolDelta x y = sgn ((if y then 0 else 1) - (if x then 0 else 1))"
  by (simp add: boolDelta_def)

lemma policy_deltas_alt:
  "policy_deltas a b = map2 (\<lambda>x y. sgn (y - x)) (restrictiveness a) (restrictiveness b)"
  by (simp add: policy_deltas_def restrictiveness_def rankDelta_def boolDelta_alt)

lemma deltas_no_looser: "list_ex (\<lambda>d. d < 0) (policy_deltas a b) \<longleftrightarrow> \<not> no_looser a b"
  unfolding policy_deltas_alt no_looser_def restrictiveness_def by (simp add: not_le)

lemma deltas_stricter: "list_ex (\<lambda>d. 0 < d) (policy_deltas a b) \<longleftrightarrow> \<not> no_looser b a"
  unfolding policy_deltas_alt no_looser_def restrictiveness_def by (simp add: not_le)

lemma no_looser_refl: "no_looser a a"
  by (simp add: no_looser_def list_all2_refl)

lemma no_looser_trans: "no_looser a b \<Longrightarrow> no_looser b c \<Longrightarrow> no_looser a c"
  unfolding no_looser_def by (rule list_all2_trans [of "(\<le>)" "(\<le>)"]) auto

lemma no_looser_antisym: "no_looser a b \<Longrightarrow> no_looser b a \<Longrightarrow> restrictiveness a = restrictiveness b"
  unfolding no_looser_def by (rule list_all2_antisym [of "(\<le>)" "(\<le>)"]) auto

lemma compare_stricter_iff:
  "compareRoomPoliciesV1 a b = CD_stricter \<longleftrightarrow>
     doc_roomId a = doc_roomId b \<and> no_looser a b \<and> \<not> no_looser b a"
  by (simp add: compareRoomPoliciesV1_def Let_def deltas_no_looser deltas_stricter)



text \<open>Posture signals are tighten-only: whatever a signal reports, the effective posture is
  \<open>unverified\<close> or \<open>at_risk\<close>, it is \<open>at_risk\<close> only when the signal says so, and
  it meets a minimum only where the minimum is \<open>unverified\<close> and the device is not at risk.\<close>

theorem posture_never_elevated:
  "ep_effectivePosture (resolveEffectiveDevicePostureV1 g) \<in> {DP_unverified, DP_at_risk}
   \<and> (ep_effectivePosture (resolveEffectiveDevicePostureV1 g) = DP_at_risk \<longleftrightarrow>
        (\<exists>s n. g = Some s \<and> sg_reportedPosture s = DP_at_risk \<and> sg_schemaVersion s = JNum (NInt 1)
           \<and> safe_integer (sg_signalRevision s) = Some n \<and> 0 \<le> n))
   \<and> (devicePostureSatisfiesMinimumV1 (ep_effectivePosture (resolveEffectiveDevicePostureV1 g)) m
        \<longleftrightarrow> m = MP_unverified
            \<and> ep_effectivePosture (resolveEffectiveDevicePostureV1 g) \<noteq> DP_at_risk)"
proof -
  have "ep_effectivePosture (resolveEffectiveDevicePostureV1 g) = DP_at_risk \<longleftrightarrow>
        (\<exists>s n. g = Some s \<and> sg_reportedPosture s = DP_at_risk \<and> sg_schemaVersion s = JNum (NInt 1)
           \<and> safe_integer (sg_signalRevision s) = Some n \<and> 0 \<le> n)"
    by (auto simp: resolveEffectiveDevicePostureV1_def unverifiedResult_def DEVICE_POSTURES_def
        split: option.splits)
  then show ?thesis
    using effective_posture_range [of g] posture_minimum_unmet [of g m] by auto
qed

end
