(* ===== verification/Room_State.thy ===== *)
theory Room_State
  imports Membership_Types Policy_Document
begin

text \<open>
  \<open>packages/rooms/src/room-state.ts\<close>: the derived state of a room, and the local
  clock the event modules share.  A state is immutable in the sources (every change is an
  object spread); here it is a record updated functionally.
\<close>

datatype member_role = Role_owner | Role_member | Role_viewer

fun member_role_name :: "member_role \<Rightarrow> string" where
  "member_role_name Role_owner = ''owner_placeholder''"
| "member_role_name Role_member = ''member_placeholder''"
| "member_role_name Role_viewer = ''viewer_placeholder''"

definition MEMBER_ROLES :: "member_role list" where
  "MEMBER_ROLES = [Role_owner, Role_member, Role_viewer]"

lemma member_role_complete: "r \<in> set MEMBER_ROLES"
  by (cases r) (simp_all add: MEMBER_ROLES_def)

lemma member_role_name_inj: "inj_on member_role_name (set MEMBER_ROLES)"
  by (simp add: inj_on_def MEMBER_ROLES_def)

lemmas member_role_decode [simp] = enum_of_js [OF member_role_name_inj member_role_complete]

record member_summary =
  mem_ref :: jstr
  mem_displayNameRedacted :: bool
  mem_role :: member_role

record room_object_summary =
  sum_id :: jstr
  sum_kind :: object_kind
  sum_redacted :: bool
  sum_sensitivity :: string
  sum_storageClass :: string

record room_state =
  rs_roomId :: jstr
  rs_kind :: room_kind
  rs_lifecycle :: room_lifecycle
  rs_mode :: privacy_mode
  rs_titleRedacted :: bool
  rs_title :: "jstr option"
  rs_members :: "member_summary list"
  rs_objects :: "room_object_summary list"
  rs_membershipRecords :: "membership_record list option"
  rs_policyRevision :: "int option"
  rs_policyDocument :: "policy_document option"
  rs_lastLocalUpdateAt :: "jstr option"
  rs_policy :: room_policy

text \<open>\<open>now.startsWith("local:") ? now : `local:${now}`\<close>, the label every event
  creation gives the injected clock's reading.\<close>

definition local_label :: "jstr \<Rightarrow> jstr" where
  "local_label now = (if starts_with now (js ''local:'') then now else js ''local:'' @ now)"

lemma local_label_prefix [simp]: "starts_with (local_label n) (js ''local:'')"
  by (simp add: local_label_def)

lemma local_label_idem [simp]: "local_label (local_label n) = local_label n"
  by (simp add: local_label_def)

end
