(* ===== verification/Room_Events.thy ===== *)
theory Room_Events
  imports Room_State
begin

text \<open>
  Event records of \<open>packages/rooms/src/room-event-v1.ts\<close>: the typed event and its
  payload schemas, the validator that decodes an untyped value, the defensive clone, and
  the creation boundary.  \<open>room_event_to_js\<close> is the object an event is in memory.
  The clone of an accepted event keeps top-level properties the validator does not know
  (\<open>re_extra\<close>).
\<close>

section \<open>Events\<close>

datatype room_payload =
    Pay_created room_kind "jstr option"
  | Pay_renamed jstr
  | Pay_lifecycle room_lifecycle
  | Pay_policy_revision int jsval
  | Pay_member_added jstr member_role
  | Pay_member_removed jstr
  | Pay_audit jstr
  | Pay_object jstr object_kind jstr

datatype payload_class = PC_none | PC_redacted | PC_placeholder | PC_content

fun payload_class_name :: "payload_class \<Rightarrow> string" where
  "payload_class_name PC_none = ''none''"
| "payload_class_name PC_redacted = ''redacted''"
| "payload_class_name PC_placeholder = ''placeholder''"
| "payload_class_name PC_content = ''content''"

definition PAYLOAD_CLASSES :: "payload_class list" where
  "PAYLOAD_CLASSES = [PC_none, PC_redacted, PC_placeholder, PC_content]"

lemma payload_class_complete: "c \<in> set PAYLOAD_CLASSES"
  by (cases c) (simp_all add: PAYLOAD_CLASSES_def)

lemma payload_class_name_inj: "inj_on payload_class_name (set PAYLOAD_CLASSES)"
  by (simp add: inj_on_def PAYLOAD_CLASSES_def)

lemmas payload_class_decode [simp] = enum_of_js [OF payload_class_name_inj payload_class_complete]

record room_event =
  re_eventId :: jstr
  re_roomId :: jstr
  re_localSequence :: int
  re_operation :: room_operation
  re_objectKind :: "object_kind option"
  re_actor :: jstr
  re_createdAtLocal :: jstr
  re_payloadClass :: payload_class
  re_payload :: room_payload
  re_extra :: "(jstr \<times> jsval) list"

section \<open>Payload validation\<close>

definition string_matching :: "(jstr \<Rightarrow> bool) \<Rightarrow> jsval \<Rightarrow> jstr option" where
  "string_matching re v = (case string_value v of Some s \<Rightarrow> if re s then Some s else None | None \<Rightarrow> None)"

lemma string_matching_Some [simp]: "string_matching re v = Some s \<longleftrightarrow> v = JStr s \<and> re s"
  by (cases v) (auto simp: string_matching_def)

definition enum_value :: "'a list \<Rightarrow> ('a \<Rightarrow> string) \<Rightarrow> jsval \<Rightarrow> 'a option" where
  "enum_value xs nm v = (case string_value v of Some s \<Rightarrow> enum_of xs nm s | None \<Rightarrow> None)"

lemma enum_value_JStr [simp]: "enum_value xs nm (JStr s) = enum_of xs nm s"
  by (simp add: enum_value_def)

lemma enum_value_SomeD: "enum_value xs nm v = Some x \<Longrightarrow> x \<in> set xs \<and> v = JStr (js (nm x))"
  by (cases v) (auto simp: enum_value_def dest: enum_of_SomeD)

text \<open>A title is absent or \<open>undefined\<close>, or a string.\<close>

definition optional_string :: "jsval \<Rightarrow> jstr option option" where
  "optional_string v = (if v = JUndef then Some None else map_option Some (string_value v))"

definition validate_created :: "(jstr \<times> jsval) list \<Rightarrow> room_payload res" where
  "validate_created p =
     ebind (throw_if (\<not> only_keys [''kind'', ''title''] p) (RoomEventError EC_invalid_payload)) (\<lambda>_.
     ebind (need (RoomEventError EC_invalid_payload)
       (enum_value ROOM_KINDS room_kind_name (jget p ''kind''))) (\<lambda>k.
     ebind (throw_if (k = RK_unknown) (RoomEventError EC_invalid_payload)) (\<lambda>_.
     ebind (need (RoomEventError EC_invalid_payload) (optional_string (jget p ''title''))) (\<lambda>t.
     Inr (Pay_created k t)))))"

definition validate_renamed :: "(jstr \<times> jsval) list \<Rightarrow> room_payload res" where
  "validate_renamed p =
     ebind (throw_if (\<not> only_keys [''title''] p) (RoomEventError EC_invalid_payload)) (\<lambda>_.
     ebind (need (RoomEventError EC_invalid_payload) (string_value (jget p ''title''))) (\<lambda>t.
     Inr (Pay_renamed t)))"

definition validate_lifecycle :: "(jstr \<times> jsval) list \<Rightarrow> room_payload res" where
  "validate_lifecycle p =
     ebind (throw_if (\<not> only_keys [''target''] p) (RoomEventError EC_invalid_payload)) (\<lambda>_.
     ebind (need (RoomEventError EC_invalid_payload)
       (enum_value ROOM_LIFECYCLE_STATES lifecycle_name (jget p ''target''))) (\<lambda>l.
     ebind (throw_if (l = LC_unknown) (RoomEventError EC_invalid_payload)) (\<lambda>_.
     Inr (Pay_lifecycle l))))"

definition validate_policy_revision :: "(jstr \<times> jsval) list \<Rightarrow> room_payload res" where
  "validate_policy_revision p =
     ebind (throw_if (\<not> only_keys [''policyRevision'', ''requestedMode''] p)
       (RoomEventError EC_invalid_payload)) (\<lambda>_.
     ebind (need (RoomEventError EC_invalid_payload) (safe_integer (jget p ''policyRevision''))) (\<lambda>n.
     ebind (throw_if (n < 1) (RoomEventError EC_invalid_payload)) (\<lambda>_.
     Inr (Pay_policy_revision n (jget p ''requestedMode'')))))"

definition validate_member_added :: "(jstr \<times> jsval) list \<Rightarrow> room_payload res" where
  "validate_member_added p =
     ebind (throw_if (\<not> only_keys [''memberRef'', ''role''] p) (RoomEventError EC_invalid_payload)) (\<lambda>_.
     ebind (need (RoomEventError EC_invalid_payload)
       (string_matching (id_re 63) (jget p ''memberRef''))) (\<lambda>r.
     ebind (need (RoomEventError EC_invalid_payload)
       (enum_value MEMBER_ROLES member_role_name (jget p ''role''))) (\<lambda>role.
     Inr (Pay_member_added r role))))"

definition validate_member_removed :: "(jstr \<times> jsval) list \<Rightarrow> room_payload res" where
  "validate_member_removed p =
     ebind (throw_if (\<not> only_keys [''memberRef''] p) (RoomEventError EC_invalid_payload)) (\<lambda>_.
     ebind (need (RoomEventError EC_invalid_payload)
       (string_matching (id_re 63) (jget p ''memberRef''))) (\<lambda>r.
     Inr (Pay_member_removed r)))"

definition validate_audit :: "(jstr \<times> jsval) list \<Rightarrow> room_payload res" where
  "validate_audit p =
     ebind (throw_if (\<not> only_keys [''reasonCode''] p) (RoomEventError EC_invalid_payload)) (\<lambda>_.
     ebind (need (RoomEventError EC_invalid_payload)
       (string_matching (slug_re 64) (jget p ''reasonCode''))) (\<lambda>r.
     Inr (Pay_audit r)))"

definition validate_object_placeholder :: "(jstr \<times> jsval) list \<Rightarrow> room_payload res" where
  "validate_object_placeholder p =
     ebind (throw_if (\<not> only_keys [''objectId'', ''kind'', ''redacted'', ''sensitivity''] p)
       (RoomEventError EC_invalid_payload)) (\<lambda>_.
     ebind (need (RoomEventError EC_invalid_payload)
       (string_matching (id_re 63) (jget p ''objectId''))) (\<lambda>i.
     ebind (need (RoomEventError EC_unknown_object_kind)
       (enum_value ROOM_OBJECT_KINDS object_kind_name (jget p ''kind''))) (\<lambda>k.
     ebind (throw_if (k = OK_unknown) (RoomEventError EC_unknown_object_kind)) (\<lambda>_.
     ebind (throw_if (jget p ''redacted'' \<noteq> JBool True) (RoomEventError EC_invalid_payload)) (\<lambda>_.
     ebind (need (RoomEventError EC_invalid_payload)
       (string_matching (slug_re 64) (jget p ''sensitivity''))) (\<lambda>s.
     Inr (Pay_object i k s)))))))"

definition validatePayloadFor :: "room_operation \<Rightarrow> jsval \<Rightarrow> room_payload res" where
  "validatePayloadFor operation payload =
     ebind (need (RoomEventError EC_invalid_payload) (own_fields payload)) (\<lambda>p.
     case operation of
       Op_room_create \<Rightarrow> validate_created p
     | Op_room_rename \<Rightarrow> validate_renamed p
     | Op_room_archive \<Rightarrow> validate_lifecycle p
     | Op_room_lock \<Rightarrow> validate_lifecycle p
     | Op_room_delete_tombstone \<Rightarrow> validate_lifecycle p
     | Op_room_policy_update \<Rightarrow> validate_policy_revision p
     | Op_member_add \<Rightarrow> validate_member_added p
     | Op_member_remove \<Rightarrow> validate_member_removed p
     | Op_audit_append_redacted \<Rightarrow> validate_audit p
     | _ \<Rightarrow> validate_object_placeholder p)"

lemmas payload_validators = validate_created_def validate_renamed_def validate_lifecycle_def
  validate_policy_revision_def validate_member_added_def validate_member_removed_def
  validate_audit_def validate_object_placeholder_def optional_string_def

section \<open>Event validation\<close>

definition EVENT_KEYS :: "string list" where
  "EVENT_KEYS = [''schemaVersion'', ''projectionVersion'', ''eventId'', ''roomId'',
     ''localSequence'', ''operation'', ''objectKind'', ''actor'', ''createdAtLocal'',
     ''payloadClass'', ''payload'']"

definition extra_fields :: "(jstr \<times> jsval) list \<Rightarrow> (jstr \<times> jsval) list" where
  "extra_fields fs = filter (\<lambda>(k, v). k \<notin> set (map js EVENT_KEYS)) fs"

definition optional_object_kind :: "jsval \<Rightarrow> object_kind option res" where
  "optional_object_kind v =
     (if v = JUndef then Inr None
      else ebind (need (RoomEventError EC_unknown_object_kind)
        (enum_value ROOM_OBJECT_KINDS object_kind_name v)) (\<lambda>k.
      ebind (throw_if (k = OK_unknown) (RoomEventError EC_unknown_object_kind)) (\<lambda>_.
      Inr (Some k))))"

definition cloneRoomEvent :: "jsval \<Rightarrow> 'a \<Rightarrow> 'a res" where
  "cloneRoomEvent raw x = (if cloneable raw then Inr x else Inl RoomEventCloneError)"

definition validateRoomOperationEventV1 :: "jsval \<Rightarrow> room_event res" where
  "validateRoomOperationEventV1 event =
     ebind (need (RoomEventError EC_invalid_payload) (own_fields event)) (\<lambda>fs.
     ebind (throw_if (jget fs ''schemaVersion'' \<noteq> JNum (NInt 1))
       (RoomEventError EC_unsupported_schema_version)) (\<lambda>_.
     ebind (throw_if (jget fs ''projectionVersion'' \<noteq> JNum (NInt 1))
       (RoomEventError EC_unsupported_projection_version)) (\<lambda>_.
     ebind (need (RoomEventError EC_invalid_event_id)
       (string_matching (id_re 63) (jget fs ''eventId''))) (\<lambda>eventId.
     ebind (need (RoomEventError EC_invalid_room_id)
       (string_matching (id_re 63) (jget fs ''roomId''))) (\<lambda>roomId.
     ebind (need (RoomEventError EC_invalid_local_sequence)
       (safe_integer (jget fs ''localSequence''))) (\<lambda>sequence.
     ebind (throw_if (sequence < 1) (RoomEventError EC_invalid_local_sequence)) (\<lambda>_.
     ebind (need (RoomEventError EC_unknown_operation)
       (enum_value ROOM_OPERATION_KINDS operation_name (jget fs ''operation''))) (\<lambda>operation.
     ebind (throw_if (operation = Op_unknown) (RoomEventError EC_unknown_operation)) (\<lambda>_.
     ebind (optional_object_kind (jget fs ''objectKind'')) (\<lambda>objectKind.
     ebind (need (RoomEventError EC_invalid_payload)
       (string_matching (\<lambda>s. s = js ''local_unknown'' \<or> id_re 63 s) (jget fs ''actor''))) (\<lambda>actor.
     ebind (need (RoomEventError EC_invalid_payload)
       (string_matching (\<lambda>s. starts_with s (js ''local:'')) (jget fs ''createdAtLocal''))) (\<lambda>createdAtLocal.
     ebind (need (RoomEventError EC_invalid_payload)
       (enum_value PAYLOAD_CLASSES payload_class_name (jget fs ''payloadClass''))) (\<lambda>payloadClass.
     ebind (validatePayloadFor operation (jget fs ''payload'')) (\<lambda>payload.
     cloneRoomEvent event \<lparr>re_eventId = eventId, re_roomId = roomId,
       re_localSequence = sequence, re_operation = operation, re_objectKind = objectKind,
       re_actor = actor, re_createdAtLocal = createdAtLocal, re_payloadClass = payloadClass,
       re_payload = payload, re_extra = extra_fields fs\<rparr>))))))))))))))"

lemma cloneRoomEvent_Inr [simp]: "cloneRoomEvent raw x = Inr y \<longleftrightarrow> cloneable raw \<and> y = x"
  by (auto simp: cloneRoomEvent_def)

section \<open>The object of an event, and the round trip\<close>

fun payload_to_js :: "room_payload \<Rightarrow> jsval" where
  "payload_to_js (Pay_created k t) = JObj ((js ''kind'', JStr (js (room_kind_name k)))
     # (case t of None \<Rightarrow> [] | Some x \<Rightarrow> [(js ''title'', JStr x)]))"
| "payload_to_js (Pay_renamed t) = JObj [(js ''title'', JStr t)]"
| "payload_to_js (Pay_lifecycle l) = JObj [(js ''target'', JStr (js (lifecycle_name l)))]"
| "payload_to_js (Pay_policy_revision n m) =
     JObj [(js ''policyRevision'', JNum (NInt n)), (js ''requestedMode'', m)]"
| "payload_to_js (Pay_member_added r role) =
     JObj [(js ''memberRef'', JStr r), (js ''role'', JStr (js (member_role_name role)))]"
| "payload_to_js (Pay_member_removed r) = JObj [(js ''memberRef'', JStr r)]"
| "payload_to_js (Pay_audit r) = JObj [(js ''reasonCode'', JStr r)]"
| "payload_to_js (Pay_object i k s) = JObj [(js ''objectId'', JStr i),
     (js ''kind'', JStr (js (object_kind_name k))), (js ''redacted'', JBool True),
     (js ''sensitivity'', JStr s)]"

definition event_fields :: "room_event \<Rightarrow> (jstr \<times> jsval) list" where
  "event_fields e = [(js ''schemaVersion'', JNum (NInt 1)), (js ''projectionVersion'', JNum (NInt 1)),
     (js ''eventId'', JStr (re_eventId e)), (js ''roomId'', JStr (re_roomId e)),
     (js ''localSequence'', JNum (NInt (re_localSequence e))),
     (js ''operation'', JStr (js (operation_name (re_operation e)))),
     (js ''objectKind'', case re_objectKind e of None \<Rightarrow> JUndef
        | Some k \<Rightarrow> JStr (js (object_kind_name k))),
     (js ''actor'', JStr (re_actor e)), (js ''createdAtLocal'', JStr (re_createdAtLocal e)),
     (js ''payloadClass'', JStr (js (payload_class_name (re_payloadClass e)))),
     (js ''payload'', payload_to_js (re_payload e))]"

definition room_event_to_js :: "room_event \<Rightarrow> jsval" where
  "room_event_to_js e = JObj (event_fields e @ re_extra e)"

text \<open>Well-formed events: every field within its schema and the payload of the shape its
  operation needs.\<close>

fun wf_payload :: "room_payload \<Rightarrow> bool" where
  "wf_payload (Pay_created k t) \<longleftrightarrow> k \<noteq> RK_unknown"
| "wf_payload (Pay_renamed t) \<longleftrightarrow> True"
| "wf_payload (Pay_lifecycle l) \<longleftrightarrow> l \<noteq> LC_unknown"
| "wf_payload (Pay_policy_revision n m) \<longleftrightarrow> is_safe_int n \<and> 1 \<le> n \<and> cloneable m"
| "wf_payload (Pay_member_added r role) \<longleftrightarrow> id_re 63 r"
| "wf_payload (Pay_member_removed r) \<longleftrightarrow> id_re 63 r"
| "wf_payload (Pay_audit r) \<longleftrightarrow> slug_re 64 r"
| "wf_payload (Pay_object i k s) \<longleftrightarrow> id_re 63 i \<and> k \<noteq> OK_unknown \<and> slug_re 64 s"

fun payload_operations :: "room_payload \<Rightarrow> room_operation list" where
  "payload_operations (Pay_created k t) = [Op_room_create]"
| "payload_operations (Pay_renamed t) = [Op_room_rename]"
| "payload_operations (Pay_lifecycle l) = [Op_room_archive, Op_room_lock, Op_room_delete_tombstone]"
| "payload_operations (Pay_policy_revision n m) = [Op_room_policy_update]"
| "payload_operations (Pay_member_added r role) = [Op_member_add]"
| "payload_operations (Pay_member_removed r) = [Op_member_remove]"
| "payload_operations (Pay_audit r) = [Op_audit_append_redacted]"
| "payload_operations (Pay_object i k s) = [Op_message_create, Op_note_create, Op_task_create,
     Op_decision_record, Op_poll_create, Op_file_attach_ref, Op_ai_memory_ref,
     Op_endpoint_hook_ref]"

definition payload_fits :: "room_operation \<Rightarrow> room_payload \<Rightarrow> bool" where
  "payload_fits op p \<longleftrightarrow> op \<in> set (payload_operations p)"

definition wf_event :: "room_event \<Rightarrow> bool" where
  "wf_event e \<longleftrightarrow> id_re 63 (re_eventId e) \<and> id_re 63 (re_roomId e)
     \<and> is_safe_int (re_localSequence e) \<and> 1 \<le> re_localSequence e
     \<and> re_operation e \<noteq> Op_unknown \<and> re_objectKind e \<noteq> Some OK_unknown
     \<and> (re_actor e = js ''local_unknown'' \<or> id_re 63 (re_actor e))
     \<and> starts_with (re_createdAtLocal e) (js ''local:'')
     \<and> payload_fits (re_operation e) (re_payload e) \<and> wf_payload (re_payload e)
     \<and> list_all (\<lambda>(k, v). k \<notin> set (map js EVENT_KEYS) \<and> cloneable v) (re_extra e)"

lemma cloneable_jget: "list_all (\<lambda>(k, v). cloneable v) fs \<Longrightarrow> cloneable (jget fs k)"
  by (auto simp: jget_def list_all_iff split: option.splits dest!: map_of_SomeD)

lemma cloneable_payload [simp]: "wf_payload p \<Longrightarrow> cloneable (payload_to_js p)"
  by (cases p) (auto split: option.splits)

lemma validatePayload_encoded:
  "payload_fits op p \<Longrightarrow> wf_payload p \<Longrightarrow> validatePayloadFor op (payload_to_js p) = Inr p"
  by (cases p)
    (auto simp: payload_fits_def validatePayloadFor_def payload_validators string_matching_def
      split: option.splits)

lemma validatePayload_wf:
  assumes "validatePayloadFor op v = Inr p" and "cloneable v" and "op \<noteq> Op_unknown"
  shows "payload_fits op p \<and> wf_payload p"
proof -
  obtain fs where v: "v = JObj fs" using assms(1) by (auto simp: validatePayloadFor_def)
  show ?thesis
    using assms cloneable_jget [of fs "''requestedMode''"] unfolding v
    by (cases op)
      (auto simp: validatePayloadFor_def payload_validators payload_fits_def
        split: if_splits option.splits dest: safe_integer_SomeD)
qed

lemma jget_event_fields:
  "jget (event_fields e @ x) k = (if k \<in> set EVENT_KEYS then jget (event_fields e) k else jget x k)"
  by (simp add: event_fields_def EVENT_KEYS_def)

lemma extra_fields_encoded:
  "list_all (\<lambda>(k, v). k \<notin> set (map js EVENT_KEYS) \<and> cloneable v) x \<Longrightarrow>
     extra_fields (event_fields e @ x) = x"
  by (auto simp: extra_fields_def event_fields_def EVENT_KEYS_def list_all_iff intro!: filter_True)

lemma jget_event [simp]:
  "jget (event_fields e @ x) ''schemaVersion'' = JNum (NInt 1)"
  "jget (event_fields e @ x) ''projectionVersion'' = JNum (NInt 1)"
  "jget (event_fields e @ x) ''eventId'' = JStr (re_eventId e)"
  "jget (event_fields e @ x) ''roomId'' = JStr (re_roomId e)"
  "jget (event_fields e @ x) ''localSequence'' = JNum (NInt (re_localSequence e))"
  "jget (event_fields e @ x) ''operation'' = JStr (js (operation_name (re_operation e)))"
  "jget (event_fields e @ x) ''objectKind'' =
     (case re_objectKind e of None \<Rightarrow> JUndef | Some k \<Rightarrow> JStr (js (object_kind_name k)))"
  "jget (event_fields e @ x) ''actor'' = JStr (re_actor e)"
  "jget (event_fields e @ x) ''createdAtLocal'' = JStr (re_createdAtLocal e)"
  "jget (event_fields e @ x) ''payloadClass'' = JStr (js (payload_class_name (re_payloadClass e)))"
  "jget (event_fields e @ x) ''payload'' = payload_to_js (re_payload e)"
  by (simp_all add: event_fields_def)

lemma validate_encoded:
  assumes "wf_event e"
  shows "validateRoomOperationEventV1 (room_event_to_js e) = Inr e"
proof -
  have x: "extra_fields (event_fields e @ re_extra e) = re_extra e"
    using assms by (intro extra_fields_encoded) (simp add: wf_event_def)
  have k: "optional_object_kind (case re_objectKind e of None \<Rightarrow> JUndef
      | Some k \<Rightarrow> JStr (js (object_kind_name k))) = Inr (re_objectKind e)"
    using assms by (auto simp: optional_object_kind_def wf_event_def split: option.splits)
  have c: "cloneable (JObj (event_fields e @ re_extra e))"
    using assms by (auto simp: event_fields_def wf_event_def list_all_iff split: option.splits)
  have p: "validatePayloadFor (re_operation e) (payload_to_js (re_payload e)) = Inr (re_payload e)"
    using assms by (intro validatePayload_encoded) (auto simp: wf_event_def)
  have w: "id_re 63 (re_eventId e)" "id_re 63 (re_roomId e)" "is_safe_int (re_localSequence e)"
    "\<not> re_localSequence e < 1" "re_operation e \<noteq> Op_unknown"
    "re_actor e = js ''local_unknown'' \<or> id_re 63 (re_actor e)"
    "starts_with (re_createdAtLocal e) (js ''local:'')"
    using assms by (auto simp: wf_event_def)
  show ?thesis
    using w c by (simp add: validateRoomOperationEventV1_def room_event_to_js_def x k p
        cloneRoomEvent_def string_matching_def)
qed

lemma validate_wf:
  assumes "validateRoomOperationEventV1 v = Inr e"
  shows "wf_event e"
proof -
  obtain fs where v: "v = JObj fs"
    using assms by (auto simp: validateRoomOperationEventV1_def)
  have c: "list_all (\<lambda>(k, v). cloneable v) fs"
    using assms unfolding v by (auto simp: validateRoomOperationEventV1_def)
  have p: "validatePayloadFor (re_operation e) (jget fs ''payload'') = Inr (re_payload e)
      \<and> re_operation e \<noteq> Op_unknown"
    using assms unfolding v by (auto simp: validateRoomOperationEventV1_def)
  have x: "list_all (\<lambda>(k, v). k \<notin> set (map js EVENT_KEYS) \<and> cloneable v) (extra_fields fs)"
    using c by (auto simp: extra_fields_def list_all_iff)
  have "id_re 63 (re_eventId e) \<and> id_re 63 (re_roomId e) \<and> is_safe_int (re_localSequence e)
     \<and> 1 \<le> re_localSequence e \<and> re_objectKind e \<noteq> Some OK_unknown
     \<and> (re_actor e = js ''local_unknown'' \<or> id_re 63 (re_actor e))
     \<and> starts_with (re_createdAtLocal e) (js ''local:'') \<and> re_extra e = extra_fields fs"
    using assms unfolding v
    by (auto simp: validateRoomOperationEventV1_def optional_object_kind_def
        split: if_splits dest!: safe_integer_SomeD)
  then show ?thesis
    using p x validatePayload_wf [OF conjunct1 [OF p] cloneable_jget [OF c]]
    by (simp add: wf_event_def)
qed


definition sample_event :: room_event where
  "sample_event = \<lparr>re_eventId = js ''evt-1'', re_roomId = js ''room-local-1'',
     re_localSequence = 1, re_operation = Op_note_create, re_objectKind = Some OK_note,
     re_actor = js ''local_unknown'', re_createdAtLocal = js ''local:2026'',
     re_payloadClass = PC_placeholder, re_payload = Pay_object (js ''obj-1'') OK_note (js ''content''),
     re_extra = []\<rparr>"

lemma wf_sample_event: "wf_event sample_event"
  by code_simp


text \<open>The validator checks the payload against the operation's schema and not against the
  rest of the event: unknown top-level properties of any cloneable value survive validation
  and stay with the event, and the object kind of a placeholder payload is independent of the
  operation (a \<open>message.create_placeholder\<close> may carry a \<open>file_ref\<close>).\<close>

theorem room_event_lax_fields:
  "\<exists>v e. validateRoomOperationEventV1 v = Inr e
     \<and> re_extra e = [(js ''body'', JStr (js ''secret text''))]
     \<and> re_operation e = Op_message_create \<and> re_objectKind e = Some OK_note
     \<and> re_payload e = Pay_object (js ''obj-1'') OK_file_ref (js ''content'')"
proof -
  let ?e = "sample_event\<lparr>re_extra := [(js ''body'', JStr (js ''secret text''))],
     re_operation := Op_message_create,
     re_payload := Pay_object (js ''obj-1'') OK_file_ref (js ''content'')\<rparr>"
  have "wf_event ?e" by code_simp
  then have "validateRoomOperationEventV1 (room_event_to_js ?e) = Inr ?e" by (rule validate_encoded)
  moreover have "re_objectKind ?e = Some OK_note" by (simp add: sample_event_def)
  ultimately show ?thesis by (intro exI [of _ "room_event_to_js ?e"] exI [of _ ?e]) simp
qed

section \<open>The creation boundary\<close>

text \<open>The \<open>typedPayload\<close> is the caller's object.\<close>

record accept_input =
  ai_request :: room_operation_request
  ai_roomPolicy :: room_policy
  ai_roomDecision :: dref
  ai_eventId :: jstr
  ai_localSequence :: int
  ai_now :: jstr
  ai_typedPayload :: jsval
  ai_actor :: "jstr option"
  ai_payloadClass :: "payload_class option"

definition event_draft :: "accept_input \<Rightarrow> jsval" where
  "event_draft inp = JObj [(js ''schemaVersion'', JNum (NInt 1)), (js ''projectionVersion'', JNum (NInt 1)),
     (js ''eventId'', JStr (ai_eventId inp)),
     (js ''roomId'', case rq_roomId (ai_request inp) of None \<Rightarrow> JUndef | Some r \<Rightarrow> JStr r),
     (js ''localSequence'', JNum (NInt (ai_localSequence inp))),
     (js ''operation'', JStr (js (operation_name (rq_operation (ai_request inp))))),
     (js ''objectKind'', case rq_objectKind (ai_request inp) of None \<Rightarrow> JUndef
        | Some k \<Rightarrow> JStr (js (object_kind_name k))),
     (js ''actor'', JStr (case ai_actor inp of None \<Rightarrow> js ''local_unknown'' | Some a \<Rightarrow> a)),
     (js ''createdAtLocal'', JStr (local_label (ai_now inp))),
     (js ''payloadClass'', JStr (js (payload_class_name
        (case ai_payloadClass inp of None \<Rightarrow> PC_placeholder | Some c \<Rightarrow> c)))),
     (js ''payload'', ai_typedPayload inp)]"

definition createAcceptedRoomOperationEventV1 :: "privacy_state \<Rightarrow> accept_input \<Rightarrow> room_event res" where
  "createAcceptedRoomOperationEventV1 s inp =
     ebind (assertRoomOperationAllowed s (ai_request inp) (ai_roomDecision inp) (ai_roomPolicy inp))
       (\<lambda>_. validateRoomOperationEventV1 (event_draft inp))"

interpretation event_creation_gate: decision_gate
  "\<lambda>s r inp. createAcceptedRoomOperationEventV1 s (inp\<lparr>ai_roomDecision := r\<rparr>)"
  "\<lambda>inp. expectedRoomScope (rq_operation (ai_request inp))"
  by unfold_locales (auto simp: createAcceptedRoomOperationEventV1_def dest: assertRoomOperationAllowed_D)

end
