(* ===== verification/Room_Reducer.thy ===== *)
theory Room_Reducer
  imports Room_Events
begin

text \<open>
  The lifecycle machine (\<open>room-lifecycle.ts\<close>) and the pure projection with its
  replay (\<open>room-reducer.ts\<close>).  \<open>lifecycle_step\<close> is the abstract machine;
  the reducer implements it, and replay is the fold of the reducer over a validated log.
\<close>

section \<open>Lifecycle transitions\<close>

definition MUTATION_OPERATIONS :: "room_operation list" where
  "MUTATION_OPERATIONS = [Op_room_rename, Op_member_add, Op_member_remove, Op_message_create,
     Op_note_create, Op_task_create, Op_decision_record, Op_poll_create, Op_file_attach_ref,
     Op_ai_memory_ref, Op_endpoint_hook_ref]"

definition LOCK_TARGETS :: "room_lifecycle list" where
  "LOCK_TARGETS = [LC_sealed_local, LC_emergency_locked]"

definition transition_allowed :: "room_lifecycle \<Rightarrow> room_operation \<Rightarrow> room_lifecycle option \<Rightarrow> bool" where
  "transition_allowed current operation target = (case current of
      LC_draft \<Rightarrow> operation \<in> {Op_room_create, Op_room_policy_update, Op_room_delete_tombstone}
    | LC_active_local \<Rightarrow>
        if operation \<in> set MUTATION_OPERATIONS then True
        else if operation = Op_room_policy_update then True
        else if operation = Op_audit_append_redacted then True
        else if operation = Op_room_archive then target = None \<or> target = Some LC_archived_local
        else if operation = Op_room_lock then target \<noteq> None \<and> the target \<in> set LOCK_TARGETS
        else operation = Op_room_delete_tombstone
    | LC_sealed_local \<Rightarrow>
        if operation = Op_audit_append_redacted then True
        else if operation = Op_room_policy_update then True
        else if operation = Op_room_lock then target = Some LC_emergency_locked
        else if operation = Op_room_archive then target = None \<or> target = Some LC_archived_local
        else operation = Op_room_delete_tombstone
    | LC_archived_local \<Rightarrow> operation \<in> {Op_audit_append_redacted, Op_room_policy_update,
        Op_room_delete_tombstone}
    | LC_emergency_locked \<Rightarrow> operation \<in> {Op_audit_append_redacted, Op_room_delete_tombstone}
    | LC_deleted_tombstone \<Rightarrow> False
    | LC_unknown \<Rightarrow> False)"

definition assertValidRoomLifecycleTransition ::
  "room_lifecycle \<Rightarrow> room_operation \<Rightarrow> room_lifecycle option \<Rightarrow> unit res" where
  "assertValidRoomLifecycleTransition current operation target =
     throw_if (current = LC_unknown \<or> target = Some LC_unknown
         \<or> \<not> transition_allowed current operation target)
       (RoomEventError EC_invalid_lifecycle_transition)"

section \<open>The reducer\<close>

fun payload_target :: "room_payload \<Rightarrow> room_lifecycle option" where
  "payload_target (Pay_lifecycle l) = Some l"
| "payload_target _ = None"

definition transition_target :: "room_event \<Rightarrow> room_lifecycle option" where
  "transition_target event =
     (if re_operation event \<in> {Op_room_archive, Op_room_lock, Op_room_delete_tombstone}
      then payload_target (re_payload event) else None)"

definition objectSummaryFromPayload :: "jstr \<Rightarrow> object_kind \<Rightarrow> room_object_summary" where
  "objectSummaryFromPayload objectId kind = \<lparr>sum_id = objectId, sum_kind = kind, sum_redacted = True,
     sum_sensitivity = okm_sensitivity (ROOM_OBJECT_KIND_META kind),
     sum_storageClass = okm_dataClass (ROOM_OBJECT_KIND_META kind)\<rparr>"

text \<open>
  The reducer is typed on the union of operation and payload.  A pair outside the union is
  not an event of the program; it ends in the default branch's error.
\<close>

definition project_event :: "room_state \<Rightarrow> room_event \<Rightarrow> room_state res" where
  "project_event current event =
     (let next = current\<lparr>rs_lastLocalUpdateAt := Some (re_createdAtLocal event)\<rparr>;
          redact = rp_redactTitles (rs_policy current)
      in case (re_operation event, re_payload event) of
        (Op_room_create, Pay_created kind title) \<Rightarrow>
          Inr (next\<lparr>rs_lifecycle := LC_active_local, rs_kind := kind,
            rs_titleRedacted := redact \<and> title \<noteq> None,
            rs_title := (if title \<noteq> None \<and> \<not> redact then title else rs_title current)\<rparr>)
      | (Op_room_rename, Pay_renamed title) \<Rightarrow>
          if redact then Inr (next\<lparr>rs_titleRedacted := True\<rparr>)
          else Inr (next\<lparr>rs_titleRedacted := False, rs_title := Some title\<rparr>)
      | (Op_room_archive, Pay_lifecycle _) \<Rightarrow> Inr (next\<lparr>rs_lifecycle := LC_archived_local\<rparr>)
      | (Op_room_lock, Pay_lifecycle target) \<Rightarrow> Inr (next\<lparr>rs_lifecycle := target\<rparr>)
      | (Op_room_delete_tombstone, Pay_lifecycle _) \<Rightarrow>
          Inr (next\<lparr>rs_lifecycle := LC_deleted_tombstone, rs_titleRedacted := True,
            rs_members := [], rs_objects := []\<rparr>)
      | (Op_room_policy_update, Pay_policy_revision _ _) \<Rightarrow> Inr next
      | (Op_member_add, Pay_member_added memberRef role) \<Rightarrow>
          if list_ex (\<lambda>m. mem_ref m = memberRef) (rs_members current) then Inr next
          else Inr (next\<lparr>rs_members := rs_members current @
            [\<lparr>mem_ref = memberRef, mem_displayNameRedacted = True, mem_role = role\<rparr>]\<rparr>)
      | (Op_member_remove, Pay_member_removed memberRef) \<Rightarrow>
          Inr (next\<lparr>rs_members := filter (\<lambda>m. mem_ref m \<noteq> memberRef) (rs_members current)\<rparr>)
      | (Op_audit_append_redacted, Pay_audit _) \<Rightarrow> Inr next
      | (_, Pay_object objectId kind _) \<Rightarrow>
          if re_operation event \<in> set (payload_operations (re_payload event))
          then Inr (next\<lparr>rs_objects := rs_objects current @ [objectSummaryFromPayload objectId kind]\<rparr>)
          else Inl RoomProjectionError
      | _ \<Rightarrow> Inl RoomProjectionError)"

definition reduceRoomOperationEventV1 :: "room_state \<Rightarrow> room_event \<Rightarrow> room_state res" where
  "reduceRoomOperationEventV1 current event =
     ebind (throw_if (re_roomId event \<noteq> rs_roomId current) (RoomEventError EC_room_mismatch)) (\<lambda>_.
     ebind (assertValidRoomLifecycleTransition (rs_lifecycle current) (re_operation event)
       (transition_target event)) (\<lambda>_.
     project_event current event))"

section \<open>Replay\<close>

record replay_result =
  rr_state :: room_state
  rr_appliedEventCount :: nat
  rr_firstLocalSequence :: "int option"
  rr_lastLocalSequence :: "int option"

text \<open>\<open>events[0].localSequence\<close> on the raw value.\<close>

definition raw_sequence :: "jsval \<Rightarrow> jsval res" where
  "raw_sequence v = (case v of JObj fs \<Rightarrow> Inr (jget fs ''localSequence'')
     | JUndef \<Rightarrow> Inl JsTypeError | JNull \<Rightarrow> Inl JsTypeError | _ \<Rightarrow> Inr JUndef)"

definition assert_starts_at_one :: "jsval list \<Rightarrow> unit res" where
  "assert_starts_at_one events = (case events of [] \<Rightarrow> Inr ()
     | e # _ \<Rightarrow> ebind (raw_sequence e) (\<lambda>s.
         throw_if (s \<noteq> JNum (NInt 1)) (RoomEventError EC_sequence_gap)))"

definition assert_follows :: "int option \<Rightarrow> int \<Rightarrow> unit res" where
  "assert_follows previous sequence = (case previous of None \<Rightarrow> Inr ()
     | Some p \<Rightarrow> if sequence = p then Inl (RoomEventError EC_duplicate_local_sequence)
         else if sequence < p then Inl (RoomEventError EC_out_of_order)
         else throw_if (sequence \<noteq> p + 1) (RoomEventError EC_sequence_gap))"

record replay_scan =
  scan_seenIds :: "jstr list"
  scan_previous :: "int option"
  scan_validated :: "room_event list"

definition replay_scan_step :: "jstr \<Rightarrow> replay_scan \<Rightarrow> jsval \<Rightarrow> replay_scan res" where
  "replay_scan_step expectedRoomId sc raw =
     ebind (validateRoomOperationEventV1 raw) (\<lambda>event.
     ebind (throw_if (re_roomId event \<noteq> expectedRoomId) (RoomEventError EC_room_mismatch)) (\<lambda>_.
     ebind (throw_if (re_eventId event \<in> set (scan_seenIds sc))
       (RoomEventError EC_duplicate_event_id)) (\<lambda>_.
     ebind (assert_follows (scan_previous sc) (re_localSequence event)) (\<lambda>_.
     Inr \<lparr>scan_seenIds = re_eventId event # scan_seenIds sc,
          scan_previous = Some (re_localSequence event),
          scan_validated = scan_validated sc @ [event]\<rparr>))))"

definition replay_summary :: "room_state \<Rightarrow> replay_scan \<Rightarrow> replay_result" where
  "replay_summary state sc = \<lparr>rr_state = state, rr_appliedEventCount = length (scan_validated sc),
     rr_firstLocalSequence = (case scan_validated sc of [] \<Rightarrow> None
        | e # _ \<Rightarrow> Some (re_localSequence e)),
     rr_lastLocalSequence = scan_previous sc\<rparr>"

definition scan_init :: replay_scan where
  "scan_init = \<lparr>scan_seenIds = [], scan_previous = None, scan_validated = []\<rparr>"

definition replayRoomOperationEventsV1 ::
  "room_state \<Rightarrow> jsval list \<Rightarrow> jstr \<Rightarrow> replay_result res" where
  "replayRoomOperationEventsV1 seed events expectedRoomId =
     ebind (throw_if (rs_roomId seed \<noteq> expectedRoomId) (RoomReplayError EC_room_mismatch)) (\<lambda>_.
     ebind (assert_starts_at_one events) (\<lambda>_.
     ebind (efold (replay_scan_step expectedRoomId) scan_init events) (\<lambda>sc.
     ebind (efold reduceRoomOperationEventV1 seed (scan_validated sc)) (\<lambda>dryRun.
     ebind (efold reduceRoomOperationEventV1 seed (scan_validated sc)) (\<lambda>state.
     Inr (replay_summary state sc))))))"

section \<open>What the reducer keeps\<close>

fun lifecycle_rank :: "room_lifecycle \<Rightarrow> nat" where
  "lifecycle_rank LC_draft = 0"
| "lifecycle_rank LC_active_local = 1"
| "lifecycle_rank LC_sealed_local = 2"
| "lifecycle_rank LC_archived_local = 3"
| "lifecycle_rank LC_emergency_locked = 3"
| "lifecycle_rank LC_deleted_tombstone = 4"
| "lifecycle_rank LC_unknown = 5"

text \<open>The abstract machine: the lifecycle moves of a room, whatever the event.\<close>

inductive lifecycle_step :: "room_lifecycle \<Rightarrow> room_lifecycle \<Rightarrow> bool" where
  stay: "l \<in> {LC_draft, LC_active_local, LC_sealed_local, LC_archived_local, LC_emergency_locked}
     \<Longrightarrow> lifecycle_step l l"
| open_room: "lifecycle_step LC_draft LC_active_local"
| seal: "lifecycle_step LC_active_local LC_sealed_local"
| lock: "l = LC_active_local \<or> l = LC_sealed_local \<Longrightarrow> lifecycle_step l LC_emergency_locked"
| archive: "l = LC_active_local \<or> l = LC_sealed_local \<Longrightarrow> lifecycle_step l LC_archived_local"
| tombstone: "l \<noteq> LC_deleted_tombstone \<Longrightarrow> l \<noteq> LC_unknown \<Longrightarrow> lifecycle_step l LC_deleted_tombstone"

inductive_simps lifecycle_step_simps:
  "lifecycle_step LC_deleted_tombstone l" "lifecycle_step LC_emergency_locked l"
  "lifecycle_step LC_archived_local l" "lifecycle_step l LC_draft" "lifecycle_step LC_unknown l"

lemma lifecycle_step_rank: "lifecycle_step l l' \<Longrightarrow> lifecycle_rank l \<le> lifecycle_rank l'"
proof (induction rule: lifecycle_step.induct)
  case (tombstone l)
  then show ?case by (cases l) simp_all
qed auto

lemma lifecycle_steps_rank: "lifecycle_step\<^sup>*\<^sup>* l l' \<Longrightarrow> lifecycle_rank l \<le> lifecycle_rank l'"
  by (induction rule: rtranclp_induct) (auto dest: lifecycle_step_rank)

lemma tombstone_stuck: "lifecycle_step\<^sup>*\<^sup>* LC_deleted_tombstone l \<Longrightarrow> l = LC_deleted_tombstone"
  by (induction rule: rtranclp_induct) (auto simp: lifecycle_step_simps)

lemmas reduce_defs = reduceRoomOperationEventV1_def assertValidRoomLifecycleTransition_def
  transition_allowed_def transition_target_def project_event_def Let_def MUTATION_OPERATIONS_def
  LOCK_TARGETS_def

text \<open>The reducer implements the abstract machine.\<close>

lemma project_event_lifecycle:
  "project_event s e = Inr s' \<Longrightarrow>
     rs_lifecycle s' = (case re_operation e of
        Op_room_create \<Rightarrow> LC_active_local
      | Op_room_archive \<Rightarrow> LC_archived_local
      | Op_room_lock \<Rightarrow> the (payload_target (re_payload e))
      | Op_room_delete_tombstone \<Rightarrow> LC_deleted_tombstone
      | _ \<Rightarrow> rs_lifecycle s)"
  by (auto simp: project_event_def Let_def split: room_operation.splits room_payload.splits if_splits)

lemma project_event_frame:
  "project_event s e = Inr s' \<Longrightarrow> rs_roomId s' = rs_roomId s \<and> rs_policy s' = rs_policy s
     \<and> rs_mode s' = rs_mode s \<and> rs_membershipRecords s' = rs_membershipRecords s
     \<and> rs_policyDocument s' = rs_policyDocument s \<and> rs_policyRevision s' = rs_policyRevision s"
  by (auto simp: project_event_def Let_def split: room_operation.splits room_payload.splits if_splits)

lemma reduce_lifecycle_step:
  assumes "reduceRoomOperationEventV1 s e = Inr s'"
  shows "lifecycle_step (rs_lifecycle s) (rs_lifecycle s')"
proof -
  have p: "project_event s e = Inr s'" and
    t: "transition_allowed (rs_lifecycle s) (re_operation e) (transition_target e)" and
    u: "rs_lifecycle s \<noteq> LC_unknown" "transition_target e \<noteq> Some LC_unknown"
    using assms by (auto simp: reduceRoomOperationEventV1_def assertValidRoomLifecycleTransition_def)
  have live: "rs_lifecycle s \<in> {LC_draft, LC_active_local, LC_sealed_local, LC_archived_local,
      LC_emergency_locked}"
    using t u by (cases "rs_lifecycle s") (simp_all add: transition_allowed_def)
  note res = project_event_lifecycle [OF p]
  consider (create) "re_operation e = Op_room_create" | (archive) "re_operation e = Op_room_archive"
    | (lock) "re_operation e = Op_room_lock" | (tomb) "re_operation e = Op_room_delete_tombstone"
    | (other) "rs_lifecycle s' = rs_lifecycle s"
    using res by (cases "re_operation e") simp_all
  then show ?thesis
  proof cases
    case create
    then show ?thesis using t res
      by (cases "rs_lifecycle s") (simp_all add: transition_allowed_def MUTATION_OPERATIONS_def lifecycle_step.intros)
  next
    case archive
    then show ?thesis using t res
      by (cases "rs_lifecycle s") (simp_all add: transition_allowed_def MUTATION_OPERATIONS_def lifecycle_step.intros)
  next
    case lock
    then have "transition_target e = payload_target (re_payload e)" by (simp add: transition_target_def)
    with lock show ?thesis using t res
      by (cases "rs_lifecycle s")
        (auto simp: transition_allowed_def MUTATION_OPERATIONS_def LOCK_TARGETS_def lifecycle_step.intros)
  next
    case tomb
    then show ?thesis using live res by (auto intro: lifecycle_step.intros)
  next
    case other
    then show ?thesis using live by (auto intro: lifecycle_step.intros)
  qed
qed

lemma reduce_frame:
  "reduceRoomOperationEventV1 s e = Inr s' \<Longrightarrow> rs_roomId s' = rs_roomId s \<and> rs_policy s' = rs_policy s
     \<and> rs_mode s' = rs_mode s \<and> rs_membershipRecords s' = rs_membershipRecords s
     \<and> rs_policyDocument s' = rs_policyDocument s \<and> rs_policyRevision s' = rs_policyRevision s"
  by (auto simp: reduceRoomOperationEventV1_def dest: project_event_frame)

text \<open>A tombstoned room, and the members and objects of one.\<close>

definition room_inv :: "room_state \<Rightarrow> bool" where
  "room_inv s \<longleftrightarrow> distinct (map mem_ref (rs_members s))
     \<and> list_all mem_displayNameRedacted (rs_members s)
     \<and> list_all sum_redacted (rs_objects s)
     \<and> (rs_lifecycle s = LC_deleted_tombstone \<longrightarrow>
          rs_members s = [] \<and> rs_objects s = [] \<and> rs_titleRedacted s)"

lemma project_event_collections:
  "project_event s e = Inr s' \<Longrightarrow>
     rs_members s' = rs_members s
   \<or> rs_members s' = [] \<and> rs_objects s' = [] \<and> rs_titleRedacted s'
   \<or> (\<exists>r role. rs_members s' = rs_members s @ [\<lparr>mem_ref = r, mem_displayNameRedacted = True, mem_role = role\<rparr>]
        \<and> r \<notin> mem_ref ` set (rs_members s))
   \<or> (\<exists>r. rs_members s' = filter (\<lambda>m. mem_ref m \<noteq> r) (rs_members s))"
  by (auto simp: project_event_def Let_def list_ex_iff
      split: room_operation.splits room_payload.splits if_splits)

lemma project_event_objects:
  "project_event s e = Inr s' \<Longrightarrow> rs_objects s' = rs_objects s \<or> rs_objects s' = []
     \<or> (\<exists>x. rs_objects s' = rs_objects s @ [x] \<and> sum_redacted x)"
  by (auto simp: project_event_def Let_def objectSummaryFromPayload_def split: room_operation.splits room_payload.splits if_splits)

lemma project_event_tombstone:
  "project_event s e = Inr s' \<Longrightarrow> re_operation e = Op_room_delete_tombstone \<Longrightarrow>
     rs_members s' = [] \<and> rs_objects s' = [] \<and> rs_titleRedacted s'"
  by (auto simp: project_event_def Let_def split: room_payload.splits)

lemma room_inv_reduce:
  assumes "reduceRoomOperationEventV1 s e = Inr s'" and "room_inv s"
  shows "room_inv s'"
proof -
  have p: "project_event s e = Inr s'"
    using assms(1) by (auto simp: reduceRoomOperationEventV1_def)
  have members: "distinct (map mem_ref (rs_members s')) \<and> list_all mem_displayNameRedacted (rs_members s')"
    using project_event_collections [OF p] assms(2)
    by (auto simp: room_inv_def list_all_iff distinct_map_filter)
  have objects: "list_all sum_redacted (rs_objects s')"
    using project_event_objects [OF p] assms(2)
    by (auto simp: room_inv_def)
  have "re_operation e = Op_room_delete_tombstone" if "rs_lifecycle s' = LC_deleted_tombstone"
  proof -
    have "rs_lifecycle s \<noteq> LC_deleted_tombstone"
      using assms(1) by (auto simp: reduceRoomOperationEventV1_def
          assertValidRoomLifecycleTransition_def transition_allowed_def)
    moreover have "re_operation e = Op_room_lock \<Longrightarrow> rs_lifecycle s' \<noteq> LC_deleted_tombstone"
      using assms(1) project_event_lifecycle [OF p]
      by (cases "rs_lifecycle s") (auto simp: reduceRoomOperationEventV1_def transition_target_def
          assertValidRoomLifecycleTransition_def transition_allowed_def MUTATION_OPERATIONS_def
          LOCK_TARGETS_def)
    ultimately show ?thesis
      using that project_event_lifecycle [OF p] by (cases "re_operation e") auto
  qed
  then show ?thesis
    using members objects project_event_tombstone [OF p] by (auto simp: room_inv_def)
qed

text \<open>C13.  Projection keeps the room's invariant and implements the lifecycle machine: over any
  run of accepted events the member references stay distinct, every member and object summary
  stays redacted, a tombstoned room has no members or objects, identity and policy never
  change, the lifecycle moves only along the machine (never back in rank), and no event at all
  is accepted once the room is tombstoned.\<close>

theorem room_projection_invariant:
  assumes "efold reduceRoomOperationEventV1 s es = Inr s'" and "room_inv s"
  shows "room_inv s' \<and> rs_roomId s' = rs_roomId s \<and> rs_policy s' = rs_policy s \<and> rs_mode s' = rs_mode s
     \<and> lifecycle_step\<^sup>*\<^sup>* (rs_lifecycle s) (rs_lifecycle s')
     \<and> lifecycle_rank (rs_lifecycle s) \<le> lifecycle_rank (rs_lifecycle s')
     \<and> (rs_lifecycle s = LC_deleted_tombstone \<longrightarrow> es = [] \<and> s' = s)"
proof -
  have "room_inv s'" using assms(1) by (rule efold_invariant [where P = room_inv]) (auto intro: room_inv_reduce assms)
  moreover have "rs_roomId s' = rs_roomId s \<and> rs_policy s' = rs_policy s \<and> rs_mode s' = rs_mode s"
    by (rule efold_relates [OF assms(1)]) (auto dest: reduce_frame)
  moreover have "lifecycle_step\<^sup>*\<^sup>* (rs_lifecycle s) (rs_lifecycle s')"
    by (rule efold_relates [OF assms(1), of "\<lambda>s t. lifecycle_step\<^sup>*\<^sup>* (rs_lifecycle s) (rs_lifecycle t)"])
      (auto dest: reduce_lifecycle_step)
  moreover have "rs_lifecycle s = LC_deleted_tombstone \<longrightarrow> es = []"
    using assms(1) by (cases es) (auto simp: reduceRoomOperationEventV1_def
        assertValidRoomLifecycleTransition_def transition_allowed_def)
  ultimately show ?thesis using lifecycle_steps_rank assms(1) by auto
qed

definition draft_room :: "jstr \<Rightarrow> room_state" where
  "draft_room rid = \<lparr>rs_roomId = rid, rs_kind = RK_workspace, rs_lifecycle = LC_active_local,
     rs_mode = Mode_private, rs_titleRedacted = False, rs_title = None, rs_members = [],
     rs_objects = [], rs_membershipRecords = None, rs_policyRevision = None,
     rs_policyDocument = None, rs_lastLocalUpdateAt = None,
     rs_policy = resolveRoomPolicy \<lparr>rpi_mode = Mode_private, rpi_roomKind = RK_workspace,
       rpi_lifecycle = None, rpi_roomPolicy = None, rpi_deviceRiskLevel = None\<rparr>\<rparr>"

definition tombstone_event :: room_event where
  "tombstone_event = sample_event\<lparr>re_eventId := js ''evt-2'', re_localSequence := 2,
     re_operation := Op_room_delete_tombstone, re_objectKind := None,
     re_payload := Pay_lifecycle LC_deleted_tombstone\<rparr>"

theorem room_projection_invariant_witness:
  "\<exists>s. efold reduceRoomOperationEventV1 (draft_room (js ''room-local-1'')) [sample_event, tombstone_event] = Inr s
     \<and> room_inv s \<and> rs_lifecycle s = LC_deleted_tombstone
     \<and> lifecycle_step\<^sup>*\<^sup>* LC_active_local LC_deleted_tombstone"
proof -
  let ?s = "draft_room (js ''room-local-1'')"
  obtain s where s: "efold reduceRoomOperationEventV1 ?s [sample_event, tombstone_event] = Inr s"
    "rs_lifecycle s = LC_deleted_tombstone"
    by (simp add: reduce_defs draft_room_def sample_event_def tombstone_event_def)
  have "room_inv ?s" by (simp add: room_inv_def draft_room_def)
  from room_projection_invariant [OF s(1) this] s show ?thesis by (auto simp: draft_room_def)
qed

text \<open>A tombstone or a redacting rename hides the title by flag only: the state keeps the
  old \<open>title\<close> string.\<close>

theorem tombstone_keeps_title:
  "\<exists>s e s'. wf_event e \<and> re_operation e = Op_room_delete_tombstone \<and> rs_title s = Some (js ''Plan B'')
     \<and> reduceRoomOperationEventV1 s e = Inr s' \<and> rs_lifecycle s' = LC_deleted_tombstone
     \<and> rs_titleRedacted s' \<and> rs_title s' = Some (js ''Plan B'')"
proof -
  let ?s = "(draft_room (js ''room-local-1''))\<lparr>rs_title := Some (js ''Plan B'')\<rparr>"
  obtain s' where "reduceRoomOperationEventV1 ?s tombstone_event = Inr s'"
    "rs_lifecycle s' = LC_deleted_tombstone" "rs_titleRedacted s'" "rs_title s' = Some (js ''Plan B'')"
    by (simp add: reduce_defs draft_room_def sample_event_def tombstone_event_def)
  moreover have "wf_event tombstone_event" by code_simp
  moreover have "re_operation tombstone_event = Op_room_delete_tombstone"
    by (simp add: tombstone_event_def)
  ultimately show ?thesis by (intro exI [of _ ?s] exI [of _ tombstone_event] exI [of _ s']) simp
qed

section \<open>Replay is the fold over an exact log\<close>

fun contiguous :: "int option \<Rightarrow> int list \<Rightarrow> bool" where
  "contiguous p [] \<longleftrightarrow> True"
| "contiguous None (n # ns) \<longleftrightarrow> contiguous (Some n) ns"
| "contiguous (Some p) (n # ns) \<longleftrightarrow> n = p + 1 \<and> contiguous (Some n) ns"

lemma contiguous_Some_iff: "contiguous (Some p) ns \<longleftrightarrow> (\<forall>i<length ns. ns ! i = p + 1 + int i)"
proof (induction ns arbitrary: p)
  case Nil
  then show ?case by simp
next
  case (Cons n ns)
  show ?case
    using Cons.IH [of n] by (auto simp: All_less_Suc2)
qed

lemma assert_follows_Inr:
  "assert_follows p n = Inr u \<longleftrightarrow> (\<forall>q. p = Some q \<longrightarrow> n = q + 1)"
  by (auto simp: assert_follows_def split: option.splits)

text \<open>The events a scan accepts, from a scan state.\<close>

definition log_events :: "jstr \<Rightarrow> jstr list \<Rightarrow> int option \<Rightarrow> jsval list \<Rightarrow> room_event list \<Rightarrow> bool" where
  "log_events rid seen prev raws es \<longleftrightarrow>
     list_all2 (\<lambda>raw e. validateRoomOperationEventV1 raw = Inr e) raws es
   \<and> (\<forall>e \<in> set es. re_roomId e = rid) \<and> distinct (map re_eventId es)
   \<and> set (map re_eventId es) \<inter> set seen = {} \<and> contiguous prev (map re_localSequence es)"

definition scan_result :: "replay_scan \<Rightarrow> room_event list \<Rightarrow> replay_scan" where
  "scan_result sc es = \<lparr>scan_seenIds = rev (map re_eventId es) @ scan_seenIds sc,
     scan_previous = (if es = [] then scan_previous sc else Some (re_localSequence (last es))),
     scan_validated = scan_validated sc @ es\<rparr>"

lemma log_events_Cons:
  "log_events rid seen prev (raw # raws) es \<longleftrightarrow>
     (\<exists>e es'. es = e # es' \<and> validateRoomOperationEventV1 raw = Inr e \<and> re_roomId e = rid
        \<and> re_eventId e \<notin> set seen \<and> (\<forall>q. prev = Some q \<longrightarrow> re_localSequence e = q + 1)
        \<and> log_events rid (re_eventId e # seen) (Some (re_localSequence e)) raws es')"
  by (cases es; cases prev) (auto simp: log_events_def)

lemma replay_scan_step_Inr:
  "replay_scan_step rid sc raw = Inr sc' \<longleftrightarrow>
     (\<exists>e. validateRoomOperationEventV1 raw = Inr e \<and> re_roomId e = rid
        \<and> re_eventId e \<notin> set (scan_seenIds sc)
        \<and> (\<forall>q. scan_previous sc = Some q \<longrightarrow> re_localSequence e = q + 1)
        \<and> sc' = \<lparr>scan_seenIds = re_eventId e # scan_seenIds sc,
            scan_previous = Some (re_localSequence e),
            scan_validated = scan_validated sc @ [e]\<rparr>)"
  by (auto simp: replay_scan_step_def assert_follows_Inr)

lemma scan_result_step:
  "scan_result \<lparr>scan_seenIds = re_eventId e # scan_seenIds sc,
      scan_previous = Some (re_localSequence e), scan_validated = scan_validated sc @ [e]\<rparr> es
     = scan_result sc (e # es)"
  by (cases "es = []") (simp_all add: scan_result_def)

lemma scan_iff:
  "efold (replay_scan_step rid) sc raws = Inr sc' \<longleftrightarrow>
     (\<exists>es. log_events rid (scan_seenIds sc) (scan_previous sc) raws es \<and> sc' = scan_result sc es)"
proof (induction raws arbitrary: sc)
  case Nil
  then show ?case by (auto simp: log_events_def scan_result_def)
next
  case (Cons raw raws)
  have "efold (replay_scan_step rid) sc (raw # raws) = Inr sc' \<longleftrightarrow>
      (\<exists>t. replay_scan_step rid sc raw = Inr t \<and> efold (replay_scan_step rid) t raws = Inr sc')"
    by simp
  also have "\<dots> \<longleftrightarrow> (\<exists>e. validateRoomOperationEventV1 raw = Inr e \<and> re_roomId e = rid
        \<and> re_eventId e \<notin> set (scan_seenIds sc)
        \<and> (\<forall>q. scan_previous sc = Some q \<longrightarrow> re_localSequence e = q + 1)
        \<and> (\<exists>es. log_events rid (re_eventId e # scan_seenIds sc) (Some (re_localSequence e)) raws es
             \<and> sc' = scan_result sc (e # es)))"
    unfolding replay_scan_step_Inr Cons.IH scan_result_step [symmetric]
    by (rule iffI; elim exE conjE; intro exI conjI; simp)
  also have "\<dots> \<longleftrightarrow> (\<exists>es. log_events rid (scan_seenIds sc) (scan_previous sc) (raw # raws) es
        \<and> sc' = scan_result sc es)"
    unfolding log_events_Cons by blast
  finally show ?case .
qed

definition numbered :: "room_event list \<Rightarrow> bool" where
  "numbered es \<longleftrightarrow> (\<forall>i<length es. re_localSequence (es ! i) = int i + 1)"

lemma numbered_contiguous_iff: "numbered es \<longleftrightarrow> contiguous (Some 0) (map re_localSequence es)"
  by (auto simp: numbered_def contiguous_Some_iff)

lemma starts_at_one_contiguous:
  assumes "log_events rid [] None raws es"
  shows "assert_starts_at_one raws = Inr () \<longleftrightarrow> numbered es"
proof (cases raws)
  case Nil
  then show ?thesis using assms by (simp add: log_events_def assert_starts_at_one_def numbered_def)
next
  case (Cons raw raws')
  with assms obtain e es' where es: "es = e # es'" and v: "validateRoomOperationEventV1 raw = Inr e"
    and c: "contiguous (Some (re_localSequence e)) (map re_localSequence es')"
    by (auto simp: log_events_Cons) (auto simp: log_events_def)
  from v obtain fs where "raw = JObj fs" and q: "safe_integer (jget fs ''localSequence'') = Some (re_localSequence e)"
    by (auto simp: validateRoomOperationEventV1_def)
  then have "assert_starts_at_one raws = Inr () \<longleftrightarrow> re_localSequence e = 1"
    using Cons by (auto simp: assert_starts_at_one_def raw_sequence_def is_safe_int_def
        MAX_SAFE_INTEGER_def dest: safe_integer_SomeD)
  also have "\<dots> \<longleftrightarrow> contiguous (Some 0) (map re_localSequence es)"
    using c es by auto
  also have "\<dots> \<longleftrightarrow> numbered es"
    by (simp only: numbered_contiguous_iff)
  finally show ?thesis .
qed

text \<open>An exact log of a room: valid events of that room, distinct ids, numbered from one.\<close>

definition exact_log :: "jstr \<Rightarrow> jsval list \<Rightarrow> room_event list \<Rightarrow> bool" where
  "exact_log rid raws es \<longleftrightarrow>
     list_all2 (\<lambda>raw e. validateRoomOperationEventV1 raw = Inr e) raws es
   \<and> (\<forall>e \<in> set es. re_roomId e = rid) \<and> distinct (map re_eventId es) \<and> numbered es"

lemma numbered_contiguous: "numbered es \<Longrightarrow> contiguous None (map re_localSequence es)"
proof (cases es)
  case (Cons e es')
  assume "numbered es"
  then have "contiguous (Some 0) (map re_localSequence es)"
    by (simp only: numbered_contiguous_iff)
  then show ?thesis using Cons by auto
qed simp

lemma exact_log_iff:
  "exact_log rid raws es \<longleftrightarrow> log_events rid [] None raws es \<and> assert_starts_at_one raws = Inr ()"
  using starts_at_one_contiguous [of rid raws es]
  by (auto simp: exact_log_def log_events_def numbered_contiguous)

text \<open>What the summary of an exact log says.\<close>

lemma replay_summary_exact:
  assumes "exact_log rid raws es"
  shows "replay_summary st (scan_result scan_init es) = r \<longleftrightarrow> st = rr_state r \<and> rr_appliedEventCount r = length raws
     \<and> rr_firstLocalSequence r = (if es = [] then None else Some 1)
     \<and> rr_lastLocalSequence r = (if es = [] then None else Some (int (length es)))"
proof -
  have num: "numbered es \<Longrightarrow> es \<noteq> [] \<Longrightarrow>
      re_localSequence (hd es) = 1 \<and> re_localSequence (last es) = int (length es)"
    by (cases es) (auto simp: numbered_def hd_conv_nth last_conv_nth)
  have "length es = length raws" and "numbered es"
    using assms by (auto simp: exact_log_def dest: list_all2_lengthD)
  then show ?thesis
    using num by (cases r; cases es) (auto simp: replay_summary_def scan_result_def scan_init_def)
qed

lemma replay_as_fold:
  "replayRoomOperationEventsV1 seed raws rid = Inr r \<longleftrightarrow>
     rs_roomId seed = rid \<and> (\<exists>es st. exact_log rid raws es
       \<and> efold reduceRoomOperationEventV1 seed es = Inr st
       \<and> replay_summary st (scan_result scan_init es) = r)"
proof -
  have v: "scan_validated (scan_result scan_init es) = es" for es
    by (simp add: scan_result_def scan_init_def)
  have i: "scan_seenIds scan_init = []" "scan_previous scan_init = None"
    by (simp_all add: scan_init_def)
  show ?thesis
    unfolding replayRoomOperationEventsV1_def exact_log_iff ebind_eq_Inr throw_if_eq_Inr scan_iff
      sum.inject not_not i using v by auto
qed

text \<open>C12.  Replay is exact: it succeeds if and only if the seed is of the expected room, the
  raw values are an exact log of that room (all valid, of the room, ids distinct, numbered
  1, 2, 3, ... without gap or reordering) and the reducer accepts them in order; then its
  state is the fold of the reducer and its counters describe the whole log.\<close>

theorem room_replay_exact:
  "replayRoomOperationEventsV1 seed raws rid = Inr r \<longleftrightarrow>
     rs_roomId seed = rid
   \<and> (\<exists>es. exact_log rid raws es \<and> efold reduceRoomOperationEventV1 seed es = Inr (rr_state r)
        \<and> rr_appliedEventCount r = length raws
        \<and> rr_firstLocalSequence r = (if es = [] then None else Some 1)
        \<and> rr_lastLocalSequence r = (if es = [] then None else Some (int (length es))))"
  unfolding replay_as_fold
  by (intro conj_cong refl ex_cong1) (simp add: replay_summary_exact cong: conj_cong)

end
