(* ===== verification/Event_Log.thy ===== *)
theory Event_Log
  imports Room_Policy
begin

text \<open>
  The contract of a memory-only event log, which the object and membership logs share (the
  room operation log has the same laws and adds its own duplicate check): an append either
  fails and leaves the log as it was, or adds exactly one entry at the end, of the log's room,
  numbered one past the current length, and only under an authentic decision of the log's own
  append scope.  The client's facts about any history of appends are proved once here.
\<close>

text \<open>The result of an append: memory logs retain, null logs discard.\<close>

datatype append_result = Appended_memory int | Discarded_by_null_policy int

fun ar_retained :: "append_result \<Rightarrow> bool" where
  "ar_retained (Appended_memory n) = True"
| "ar_retained (Discarded_by_null_policy n) = False"

fun ar_localSequence :: "append_result \<Rightarrow> int" where
  "ar_localSequence (Appended_memory n) = n"
| "ar_localSequence (Discarded_by_null_policy n) = n"

datatype retention_kind = Memory_only | Null_log

record log_status =
  lst_roomId :: jstr
  lst_retention :: retention_kind
  lst_retainedEventCount :: nat
  lst_lastLocalSequence :: int
  lst_replayAvailable :: bool

definition numbered_from_one :: "('e \<Rightarrow> int) \<Rightarrow> 'e list \<Rightarrow> bool" where
  "numbered_from_one num es \<longleftrightarrow> (\<forall>i<length es. num (es ! i) = int i + 1)"

lemma numbered_from_one_Nil [simp]: "numbered_from_one num []"
  by (simp add: numbered_from_one_def)

lemma numbered_from_one_snoc:
  "numbered_from_one num (es @ [e]) \<longleftrightarrow> numbered_from_one num es \<and> num e = int (length es) + 1"
  by (auto simp: numbered_from_one_def nth_append less_Suc_eq)

lemma numbered_from_one_last:
  "numbered_from_one num es \<Longrightarrow> es \<noteq> [] \<Longrightarrow> num (last es) = int (length es)"
  by (cases es) (auto simp: numbered_from_one_def last_conv_nth)

locale event_log =
  fixes append :: "'s \<Rightarrow> privacy_state \<Rightarrow> 'i \<Rightarrow> dref \<Rightarrow> append_result res \<times> 's"
    and entries :: "'s \<Rightarrow> 'e list"
    and log_room :: "'s \<Rightarrow> jstr"
    and num :: "'e \<Rightarrow> int"
    and room_of :: "'e \<Rightarrow> jstr"
    and scope :: side_effect_scope
  assumes append_ok: "append s p i d = (Inr r, s') \<Longrightarrow> numbered_from_one num (entries s) \<Longrightarrow>
      \<exists>e. entries s' = entries s @ [e] \<and> num e = int (length (entries s)) + 1
        \<and> room_of e = log_room s \<and> log_room s' = log_room s
        \<and> r = Appended_memory (num e)
        \<and> (\<exists>dc. authentic p d = Some dc \<and> pd_verdict dc = Allowed \<and> pd_sideEffect dc = scope)"
    and append_error: "append s p i d = (Inl x, s') \<Longrightarrow> s' = s"
begin

definition log_ok :: "'s \<Rightarrow> bool" where
  "log_ok s \<longleftrightarrow> numbered_from_one num (entries s) \<and> (\<forall>e \<in> set (entries s). room_of e = log_room s)"

definition appends :: "'s \<Rightarrow> (privacy_state \<times> 'i \<times> dref) list \<Rightarrow> 's" where
  "appends s ops = foldl (\<lambda>t (p, i, d). snd (append t p i d)) s ops"

lemma append_log_ok: "log_ok s \<Longrightarrow> append s p i d = (r, s') \<Longrightarrow> log_ok s'"
proof (cases r)
  case (Inl x)
  then show "log_ok s \<Longrightarrow> append s p i d = (r, s') \<Longrightarrow> log_ok s'" by (auto dest: append_error)
next
  case (Inr a)
  then show "log_ok s \<Longrightarrow> append s p i d = (r, s') \<Longrightarrow> log_ok s'"
    by (auto simp: log_ok_def numbered_from_one_snoc dest!: append_ok)
qed

lemma append_grows:
  assumes "log_ok s" and "append s p i d = (r, s')"
  shows "log_room s' = log_room s \<and> (\<exists>es. entries s' = entries s @ es \<and> length es \<le> 1)"
proof (cases r)
  case (Inl x)
  then show ?thesis using assms by (auto dest: append_error)
next
  case (Inr a)
  then show ?thesis using assms by (auto simp: log_ok_def dest!: append_ok)
qed

text \<open>Any history of appends keeps the log numbered, of one room, and append-only.\<close>

lemma history:
  assumes "log_ok s"
  shows "log_ok (appends s ops) \<and> log_room (appends s ops) = log_room s
     \<and> (\<exists>es. entries (appends s ops) = entries s @ es \<and> length es \<le> length ops)"
  using assms
proof (induction ops arbitrary: s)
  case Nil
  then show ?case by (simp add: appends_def)
next
  case (Cons op ops)
  obtain p i d where op: "op = (p, i, d)" by (cases op)
  obtain r t where step: "append s p i d = (r, t)" by (cases "append s p i d")
  have run: "appends s (op # ops) = appends t ops" by (simp add: appends_def op step)
  obtain es where es: "entries t = entries s @ es" "length es \<le> 1" and lr: "log_room t = log_room s"
    using append_grows [OF Cons.prems step] by auto
  obtain fs where fs: "entries (appends t ops) = entries t @ fs" "length fs \<le> length ops"
    using Cons.IH [OF append_log_ok [OF Cons.prems step]] by auto
  have "entries (appends s (op # ops)) = entries s @ (es @ fs)"
    and "length (es @ fs) \<le> length (op # ops)"
    using es fs by (simp_all add: run)
  then show ?case
    using Cons.IH [OF append_log_ok [OF Cons.prems step]] lr unfolding run by metis
qed

lemma forged_append_rejected:
  "log_ok s \<Longrightarrow> \<not> isPolicyDecision p d \<Longrightarrow> \<exists>x. append s p i d = (Inl x, s)"
  by (metis append_error append_ok authentic_None_iff log_ok_def option.distinct(1)
      prod.collapse sum.collapse(1) sum.collapse(2))

end

end
