(* ===== verification/Room_Log.thy ===== *)
theory Room_Log
  imports Room_Reducer Event_Log
begin

text \<open>
  The local operation logs of \<open>room-log.ts\<close>: the in-memory log and the null log, with
  the log barrier.  A method that throws is a pair of an error and the unchanged log.  The
  in-memory log interprets \<^emph>\<open>event_log\<close>; what a reader gets back from any
  history of operations is an exact log in the sense of \<open>Room_Reducer\<close>.
\<close>

section \<open>The log barrier\<close>

definition assertLogDecision :: "privacy_state \<Rightarrow> dref \<Rightarrow> side_effect_scope \<Rightarrow> unit res" where
  "assertLogDecision s decision scope = (case authentic s decision of
       None \<Rightarrow> Inl (RoomError RoomBypassAttempt)
     | Some d \<Rightarrow>
       if pd_verdict d \<noteq> Allowed then Inl (RoomError RoomPolicyDenied)
       else if pd_capability d \<noteq> ROOM_CAPABILITY then Inl (RoomError RoomDecisionMismatch)
       else if pd_sideEffect d \<noteq> scope then Inl (RoomError RoomDecisionMismatch)
       else Inr ())"

lemma assertLogDecision_Inr:
  "assertLogDecision s r scope = Inr u \<longleftrightarrow> (\<exists>d. authentic s r = Some d \<and> pd_verdict d = Allowed
     \<and> pd_capability d = Cap_persistence \<and> pd_sideEffect d = scope)"
  by (auto simp: assertLogDecision_def ROOM_CAPABILITY_def split: option.splits)

interpretation room_log_gate: decision_gate assertLogDecision "\<lambda>scope. scope"
  by unfold_locales (simp add: assertLogDecision_Inr)

section \<open>The in-memory log\<close>

record room_log =
  rl_roomId :: jstr
  rl_events :: "room_event list"
  rl_eventIds :: "jstr list"

definition new_room_log :: "jstr \<Rightarrow> room_log" where
  "new_room_log rid = \<lparr>rl_roomId = rid, rl_events = [], rl_eventIds = []\<rparr>"

definition last_sequence :: "room_event list \<Rightarrow> int" where
  "last_sequence es = (if 0 < length es then re_localSequence (last es) else 0)"

definition room_log_check :: "privacy_state \<Rightarrow> room_log \<Rightarrow> jsval \<Rightarrow> dref \<Rightarrow> room_event res" where
  "room_log_check p log event decision =
     ebind (assertLogDecision p decision ''room.operation_log.append'') (\<lambda>_.
     ebind (validateRoomOperationEventV1 event) (\<lambda>validated.
     ebind (throw_if (re_roomId validated \<noteq> rl_roomId log) (RoomEventError EC_room_mismatch)) (\<lambda>_.
     ebind (throw_if (re_eventId validated \<in> set (rl_eventIds log))
       (RoomEventError EC_duplicate_event_id)) (\<lambda>_.
     let sequence = re_localSequence validated; last = last_sequence (rl_events log) in
     ebind (throw_if (sequence = last) (RoomEventError EC_duplicate_local_sequence)) (\<lambda>_.
     ebind (throw_if (sequence < last) (RoomEventError EC_out_of_order)) (\<lambda>_.
     ebind (throw_if (sequence \<noteq> last + 1) (RoomEventError EC_sequence_gap)) (\<lambda>_.
     Inr validated)))))))"

definition room_log_append ::
  "room_log \<Rightarrow> privacy_state \<Rightarrow> jsval \<Rightarrow> dref \<Rightarrow> append_result res \<times> room_log" where
  "room_log_append log p event decision = (case room_log_check p log event decision of
       Inl e \<Rightarrow> (Inl e, log)
     | Inr validated \<Rightarrow>
       (Inr (Appended_memory (re_localSequence validated)),
        log\<lparr>rl_events := rl_events log @ [validated],
            rl_eventIds := re_eventId validated # rl_eventIds log\<rparr>))"

definition room_log_readAll :: "room_log \<Rightarrow> privacy_state \<Rightarrow> dref \<Rightarrow> room_event list res" where
  "room_log_readAll log p decision =
     ebind (assertLogDecision p decision ''room.operation_log.read'') (\<lambda>_. Inr (rl_events log))"

definition room_log_clear :: "room_log \<Rightarrow> privacy_state \<Rightarrow> dref \<Rightarrow> nat res \<times> room_log" where
  "room_log_clear log p decision = (case assertLogDecision p decision ''room.operation_log.clear'' of
       Inl e \<Rightarrow> (Inl e, log)
     | Inr _ \<Rightarrow> (Inr (length (rl_events log)), log\<lparr>rl_events := [], rl_eventIds := []\<rparr>))"

definition room_log_status :: "room_log \<Rightarrow> log_status" where
  "room_log_status log = \<lparr>lst_roomId = rl_roomId log, lst_retention = Memory_only,
     lst_retainedEventCount = length (rl_events log),
     lst_lastLocalSequence = last_sequence (rl_events log),
     lst_replayAvailable = (0 < length (rl_events log))\<rparr>"

section \<open>The null log\<close>

record null_log =
  nl_roomId :: jstr
  nl_lastSequence :: int

definition new_null_log :: "jstr \<Rightarrow> null_log" where
  "new_null_log rid = \<lparr>nl_roomId = rid, nl_lastSequence = 0\<rparr>"

definition room_null_append ::
  "null_log \<Rightarrow> privacy_state \<Rightarrow> jsval \<Rightarrow> dref \<Rightarrow> append_result res \<times> null_log" where
  "room_null_append log p event decision =
     (case ebind (assertLogDecision p decision ''room.operation_log.append'') (\<lambda>_.
           ebind (validateRoomOperationEventV1 event) (\<lambda>validated.
           ebind (throw_if (re_roomId validated \<noteq> nl_roomId log) (RoomEventError EC_room_mismatch))
             (\<lambda>_. Inr validated))) of
        Inl e \<Rightarrow> (Inl e, log)
      | Inr validated \<Rightarrow> (Inr (Discarded_by_null_policy (re_localSequence validated)),
          log\<lparr>nl_lastSequence := re_localSequence validated\<rparr>))"

definition room_null_readAll :: "null_log \<Rightarrow> privacy_state \<Rightarrow> dref \<Rightarrow> room_event list res" where
  "room_null_readAll log p decision =
     ebind (assertLogDecision p decision ''room.operation_log.read'') (\<lambda>_. Inr [])"

definition room_null_clear :: "null_log \<Rightarrow> privacy_state \<Rightarrow> dref \<Rightarrow> nat res \<times> null_log" where
  "room_null_clear log p decision =
     (ebind (assertLogDecision p decision ''room.operation_log.clear'') (\<lambda>_. Inr 0), log)"

definition room_null_status :: "null_log \<Rightarrow> log_status" where
  "room_null_status log = \<lparr>lst_roomId = nl_roomId log, lst_retention = Null_log,
     lst_retainedEventCount = 0, lst_lastLocalSequence = nl_lastSequence log,
     lst_replayAvailable = False\<rparr>"

section \<open>The log as an event log\<close>

lemma room_log_check_Inr:
  "room_log_check p log v d = Inr e \<longleftrightarrow>
     validateRoomOperationEventV1 v = Inr e \<and> re_roomId e = rl_roomId log
   \<and> re_eventId e \<notin> set (rl_eventIds log)
   \<and> re_localSequence e = last_sequence (rl_events log) + 1
   \<and> (\<exists>dc. authentic p d = Some dc \<and> pd_verdict dc = Allowed \<and> pd_capability dc = Cap_persistence
        \<and> pd_sideEffect dc = ''room.operation_log.append'')"
  unfolding room_log_check_def Let_def ebind_eq_Inr throw_if_eq_Inr assertLogDecision_Inr by auto

lemma last_sequence_numbered:
  "numbered_from_one re_localSequence es \<Longrightarrow> last_sequence es = int (length es)"
  by (auto simp: last_sequence_def numbered_from_one_last)

interpretation room_log: event_log room_log_append rl_events rl_roomId re_localSequence re_roomId
  "''room.operation_log.append''"
  by unfold_locales
    (auto simp: room_log_append_def room_log_check_Inr last_sequence_numbered split: sum.splits)

text \<open>Clearing and reading beside appending: the operations a holder of the log can call.\<close>

datatype room_log_op =
    RL_append privacy_state jsval dref
  | RL_read privacy_state dref
  | RL_clear privacy_state dref

fun room_log_step :: "room_log \<Rightarrow> room_log_op \<Rightarrow> room_log" where
  "room_log_step log (RL_append p v d) = snd (room_log_append log p v d)"
| "room_log_step log (RL_read p d) = log"
| "room_log_step log (RL_clear p d) = snd (room_log_clear log p d)"

definition room_log_run :: "jstr \<Rightarrow> room_log_op list \<Rightarrow> room_log" where
  "room_log_run rid ops = foldl room_log_step (new_room_log rid) ops"

definition room_log_inv :: "jstr \<Rightarrow> room_log \<Rightarrow> bool" where
  "room_log_inv rid log \<longleftrightarrow> room_log.log_ok log \<and> rl_roomId log = rid
     \<and> set (rl_eventIds log) = re_eventId ` set (rl_events log)
     \<and> distinct (map re_eventId (rl_events log)) \<and> list_all wf_event (rl_events log)"

lemma room_log_append_cases:
  obtains (error) x where "room_log_append log p v d = (Inl x, log)"
  | (ok) e where "room_log_check p log v d = Inr e"
      "room_log_append log p v d = (Inr (Appended_memory (re_localSequence e)),
         log\<lparr>rl_events := rl_events log @ [e], rl_eventIds := re_eventId e # rl_eventIds log\<rparr>)"
  by (cases "room_log_check p log v d") (auto simp: room_log_append_def)

lemma room_log_inv_step:
  assumes "room_log_inv rid log" shows "room_log_inv rid (room_log_step log op)"
proof (cases op)
  case (RL_append p v d)
  show ?thesis
  proof (cases rule: room_log_append_cases [of log p v d])
    case (error x)
    then show ?thesis using assms RL_append by simp
  next
    case (ok e)
    have "room_log.log_ok (room_log_step log op)"
      unfolding RL_append room_log_step.simps ok(2) snd_conv
      by (rule room_log.append_log_ok [OF _ ok(2)]) (use assms in \<open>simp add: room_log_inv_def\<close>)
    then show ?thesis
      using assms ok RL_append by (auto simp: room_log_inv_def room_log_check_Inr validate_wf)
  qed
next
  case (RL_read p d)
  then show ?thesis using assms by simp
next
  case (RL_clear p d)
  then show ?thesis using assms
    by (auto simp: room_log_clear_def room_log_inv_def room_log.log_ok_def split: sum.splits)
qed

lemma room_log_inv_run: "room_log_inv rid (room_log_run rid ops)"
proof -
  have "room_log_inv rid log \<Longrightarrow> room_log_inv rid (foldl room_log_step log ops)" for log
    by (induction ops arbitrary: log) (auto intro: room_log_inv_step)
  moreover have "room_log_inv rid (new_room_log rid)"
    by (simp add: room_log_inv_def new_room_log_def room_log.log_ok_def)
  ultimately show ?thesis by (simp add: room_log_run_def)
qed

lemma room_log_inv_exact:
  "room_log_inv rid log \<Longrightarrow> exact_log rid (map room_event_to_js (rl_events log)) (rl_events log)"
  by (auto simp: room_log_inv_def exact_log_def room_log.log_ok_def numbered_def
      numbered_from_one_def list_all2_conv_all_nth list_all_length validate_encoded)

lemma exact_log_unique: "exact_log rid raws es \<Longrightarrow> exact_log rid raws es' \<Longrightarrow> es = es'"
  by (auto simp: exact_log_def list_all2_conv_all_nth intro!: nth_equalityI)

text \<open>A log replays to its projection: after any history of appends, reads and clears on a
  new in-memory log (with any decisions, forged ones included), what \<open>readAll\<close> returns to an
  authorised reader passes every check of replay, so replaying it over a seed of the room
  succeeds exactly when the reducer accepts the events in order, with that fold as the
  state.\<close>

theorem room_log_replays:
  assumes "room_log_readAll (room_log_run rid ops) p d = Inr es" and "rs_roomId seed = rid"
  shows "(replayRoomOperationEventsV1 seed (map room_event_to_js es) rid = Inr r \<longleftrightarrow>
      efold reduceRoomOperationEventV1 seed es = Inr (rr_state r)
      \<and> rr_appliedEventCount r = length es
      \<and> rr_firstLocalSequence r = (if es = [] then None else Some 1)
      \<and> rr_lastLocalSequence r = (if es = [] then None else Some (int (length es))))"
proof -
  let ?log = "room_log_run rid ops"
  have es: "es = rl_events ?log" using assms(1) by (auto simp: room_log_readAll_def)
  have x: "exact_log rid (map room_event_to_js es) es"
    unfolding es by (rule room_log_inv_exact [OF room_log_inv_run])
  have u: "exact_log rid (map room_event_to_js es) es' \<longleftrightarrow> es' = es" for es'
    using x exact_log_unique by blast
  show ?thesis
    unfolding room_replay_exact u using assms(2) by simp
qed

definition log_decisions :: privacy_state where
  "log_decisions = snd (issuePolicyDecision Cap_persistence Allowed Mode_private ''room.operation_log.read''
     (snd (issuePolicyDecision Cap_persistence Allowed Mode_private ''room.operation_log.append'' privacy_init)))"

theorem room_log_replays_witness:
  "\<exists>r. replayRoomOperationEventsV1 (draft_room (js ''room-local-1''))
      (map room_event_to_js [sample_event]) (js ''room-local-1'') = Inr r
     \<and> rr_lastLocalSequence r = Some 1"
proof -
  let ?ops = "[RL_append log_decisions (room_event_to_js sample_event) 0]"
  let ?rid = "js ''room-local-1''"
  have v: "validateRoomOperationEventV1 (room_event_to_js sample_event) = Inr sample_event"
    by (rule validate_encoded [OF wf_sample_event])
  have d: "assertLogDecision log_decisions 0 ''room.operation_log.append'' = Inr ()"
    "assertLogDecision log_decisions (Suc 0) ''room.operation_log.read'' = Inr ()"
    by (simp_all add: assertLogDecision_Inr log_decisions_def issuePolicyDecision_def Let_def
        privacy_init_def authentic_def isPolicyDecision_def)
  have "room_log_readAll (room_log_run ?rid ?ops) log_decisions 1 = Inr [sample_event]"
    by (simp add: room_log_readAll_def room_log_run_def room_log_append_def room_log_check_def v d
        new_room_log_def Let_def last_sequence_def) (simp add: sample_event_def)
  moreover have "rs_roomId (draft_room ?rid) = ?rid" by (simp add: draft_room_def)
  moreover obtain s where "efold reduceRoomOperationEventV1 (draft_room ?rid) [sample_event] = Inr s"
    by (simp add: reduce_defs draft_room_def sample_event_def)
  ultimately show ?thesis
    using room_log_replays [of ?rid ?ops log_decisions 1 "[sample_event]" "draft_room ?rid"
        "\<lparr>rr_state = s, rr_appliedEventCount = 1, rr_firstLocalSequence = Some 1,
          rr_lastLocalSequence = Some 1\<rparr>"]
    by (intro exI [of _ "\<lparr>rr_state = s, rr_appliedEventCount = 1, rr_firstLocalSequence = Some 1,
          rr_lastLocalSequence = Some 1\<rparr>"]) simp
qed

text \<open>The null log retains nothing: whatever is appended, a reader gets no event.\<close>

lemma null_log_reads_nothing: "room_null_readAll log p d = Inr es \<Longrightarrow> es = []"
  by (auto simp: room_null_readAll_def)

end
