(* ===== verification/Room_Factory.thy ===== *)
theory Room_Factory
  imports Room_Reducer
begin

text \<open>
  The first-generation room modules: local operation events (\<open>room-events.ts\<close>), the
  room factory (\<open>room-factory.ts\<close>), redacted audit events (\<open>room-audit.ts\<close>)
  and the tolerant projection (\<open>room-projection.ts\<close>).  The two module counters are
  explicit state; the reading of the wall clock (\<open>new Date().toISOString()\<close>) is the
  argument \<open>now\<close>.
\<close>

section \<open>Operation events\<close>

record operation_event =
  oe_id :: jstr
  oe_roomId :: jstr
  oe_operation :: room_operation
  oe_objectKind :: "object_kind option"
  oe_createdAtLocal :: jstr
  oe_actor :: jstr
  oe_redacted :: bool
  oe_payloadClass :: payload_class
  oe_payload :: jsval

record operation_event_input =
  oi_roomId :: jstr
  oi_operation :: room_operation
  oi_objectKind :: "object_kind option"
  oi_actor :: "jstr option"
  oi_payloadClass :: "payload_class option"
  oi_payload :: jsval

definition createRoomOperationEvent ::
  "operation_event_input \<Rightarrow> jstr \<Rightarrow> room_counters \<Rightarrow> operation_event res \<times> room_counters" where
  "createRoomOperationEvent inp now st =
     (if oi_operation inp = Op_unknown \<or> oi_operation inp \<notin> set ROOM_OPERATION_KINDS
      then (Inl (RoomError InvalidRoomOperation), st)
      else
        let n = Suc (eventSeq st);
            payloadClass = (case oi_payloadClass inp of None \<Rightarrow> PC_none | Some c \<Rightarrow> c)
        in (Inr \<lparr>oe_id = js (''revt-'' @ decimal n), oe_roomId = oi_roomId inp,
              oe_operation = oi_operation inp, oe_objectKind = oi_objectKind inp,
              oe_createdAtLocal = js ''local:'' @ now,
              oe_actor = (case oi_actor inp of None \<Rightarrow> js ''local_unknown'' | Some a \<Rightarrow> a),
              oe_redacted = (payloadClass \<noteq> PC_content), oe_payloadClass = payloadClass,
              oe_payload = (if oi_payload inp \<noteq> JUndef \<and> payloadClass = PC_content
                then oi_payload inp else JUndef)\<rparr>,
            st\<lparr>eventSeq := n\<rparr>))"

section \<open>The room factory\<close>

record create_room_input =
  cr_kind :: room_kind
  cr_mode :: privacy_mode
  cr_title :: "jstr option"
  cr_decision :: dref
  cr_roomPolicy :: "partial_room_policy option"

definition create_policy :: "create_room_input \<Rightarrow> room_policy" where
  "create_policy inp = resolveRoomPolicy \<lparr>rpi_mode = cr_mode inp, rpi_roomKind = cr_kind inp,
     rpi_lifecycle = Some LC_draft, rpi_roomPolicy = cr_roomPolicy inp, rpi_deviceRiskLevel = None\<rparr>"

definition createLocalRoom ::
  "privacy_state \<Rightarrow> create_room_input \<Rightarrow> jstr \<Rightarrow> room_counters
     \<Rightarrow> (room_state \<times> operation_event) res \<times> room_counters" where
  "createLocalRoom p inp now st =
     (let policy = create_policy inp in
      case assertRoomOperationAllowed p \<lparr>rq_operation = Op_room_create, rq_roomId = None,
             rq_objectKind = None, rq_mode = cr_mode inp\<rparr> (cr_decision inp) policy of
        Inl e \<Rightarrow> (Inl e, st)
      | Inr _ \<Rightarrow>
        (case createRoomLocalId None st of
          (Inl e, st1) \<Rightarrow> (Inl e, st1)
        | (Inr roomId, st1) \<Rightarrow>
          let includeTitle = (cr_title inp \<noteq> None \<and> \<not> rp_redactTitles policy) in
          (case createRoomOperationEvent \<lparr>oi_roomId = roomId, oi_operation = Op_room_create,
               oi_objectKind = None, oi_actor = None, oi_payloadClass = Some PC_placeholder,
               oi_payload = JUndef\<rparr> now st1 of
            (Inl e, st2) \<Rightarrow> (Inl e, st2)
          | (Inr event, st2) \<Rightarrow>
            (Inr (\<lparr>rs_roomId = roomId, rs_kind = cr_kind inp, rs_lifecycle = LC_active_local,
                rs_mode = cr_mode inp,
                rs_titleRedacted = (\<not> includeTitle \<and> cr_title inp \<noteq> None),
                rs_title = (if includeTitle then cr_title inp else None),
                rs_members = [], rs_objects = [], rs_membershipRecords = None,
                rs_policyRevision = None, rs_policyDocument = None,
                rs_lastLocalUpdateAt = Some (oe_createdAtLocal event), rs_policy = policy\<rparr>,
              event), st2))))"

lemmas create_room_defs = createLocalRoom_def createRoomLocalId_def createRoomOperationEvent_def
  create_policy_def Let_def

interpretation create_room_gate: decision_gate
  "\<lambda>p r (inp, now, st). fst (createLocalRoom p (inp\<lparr>cr_decision := r\<rparr>) now st)" "\<lambda>_. ''room.create''"
proof
  fix p r q u
  assume a: "(case q of (inp, now, st) \<Rightarrow> fst (createLocalRoom p (inp\<lparr>cr_decision := r\<rparr>) now st)) = Inr u"
  obtain inp now st where q: "q = (inp, now, st)" by (cases q)
  let ?rq = "\<lparr>rq_operation = Op_room_create, rq_roomId = None, rq_objectKind = None, rq_mode = cr_mode inp\<rparr>"
  let ?pol = "create_policy (inp\<lparr>cr_decision := r\<rparr>)"
  have "\<exists>v. assertRoomOperationAllowed p ?rq r ?pol = Inr v"
    using a unfolding q createLocalRoom_def Let_def
    by (cases "assertRoomOperationAllowed p ?rq r ?pol") auto
  then obtain v where "assertRoomOperationAllowed p ?rq r ?pol = Inr v" ..
  from assertRoomOperationAllowed_D [OF this]
  show "\<exists>d. authentic p r = Some d \<and> pd_verdict d = Allowed \<and> pd_capability d = Cap_persistence
      \<and> pd_sideEffect d = ''room.create''"
    by (simp add: expectedRoomScope_def)
qed

lemma create_room_ok:
  "createLocalRoom p inp now st = (Inr (s, e), st') \<Longrightarrow>
     rs_roomId s = js (''room-local-'' @ decimal (Suc (localIdSeq st)))
   \<and> oe_roomId e = rs_roomId s \<and> oe_operation e = Op_room_create \<and> oe_redacted e \<and> oe_payload e = JUndef
   \<and> rs_policy s = create_policy inp \<and> rs_lifecycle s = LC_active_local
   \<and> rs_members s = [] \<and> rs_objects s = []
   \<and> rs_title s = (if rp_redactTitles (create_policy inp) then None else cr_title inp)
   \<and> rs_titleRedacted s = (rp_redactTitles (create_policy inp) \<and> cr_title inp \<noteq> None)
   \<and> localIdSeq st' = Suc (localIdSeq st) \<and> eventSeq st' = Suc (eventSeq st)"
  by (auto simp: createLocalRoom_def createRoomLocalId_def createRoomOperationEvent_def Let_def
      enum_complete split: sum.splits if_splits)

lemma create_room_error: "createLocalRoom p inp now st = (Inl x, st') \<Longrightarrow> st' = st"
  by (auto simp: createLocalRoom_def createRoomLocalId_def createRoomOperationEvent_def Let_def
      enum_complete split: sum.splits if_splits)

text \<open>Creating a room: a refusal leaves no trace (no id or event number is consumed); a
  success needed an issued, allowed decision of exactly the scope \<open>room.create\<close> and a mode
  and kind that allow mutation, starts an empty active room whose state keeps the title only
  if the policy does not redact titles, and gets an id no earlier or later creation shares and
  every validator of room ids accepts.\<close>

theorem create_room_correct:
  assumes "createLocalRoom p inp now st = (r, st')"
  shows "(\<forall>x. r = Inl x \<longrightarrow> st' = st)
   \<and> (\<forall>s e. r = Inr (s, e) \<longrightarrow>
        (\<exists>d. authentic p (cr_decision inp) = Some d \<and> pd_verdict d = Allowed
           \<and> pd_sideEffect d = ''room.create'')
      \<and> cr_mode inp \<notin> {Mode_emergency} \<and> cr_mode inp \<in> set KNOWN_MODES \<and> cr_kind inp \<noteq> RK_unknown
      \<and> rs_lifecycle s = LC_active_local \<and> room_inv s
      \<and> (rp_redactTitles (rs_policy s) \<longrightarrow> rs_title s = None)
      \<and> (cr_mode inp = Mode_bunker \<longrightarrow> rs_title s = None)
      \<and> (localIdSeq st < 10 ^ 49 \<longrightarrow> validateRoomId (rs_roomId s) = Inr (rs_roomId s))
      \<and> (\<forall>p2 inp2 now2 st2 s2 e2 st2'. createLocalRoom p2 inp2 now2 st2 = (Inr (s2, e2), st2')
           \<longrightarrow> localIdSeq st2 \<noteq> localIdSeq st \<longrightarrow> rs_roomId s2 \<noteq> rs_roomId s))"
proof (intro conjI allI impI)
  fix x assume "r = Inl x"
  then show "st' = st" using assms create_room_error by blast
next
  fix s e assume r: "r = Inr (s, e)"
  note ok = create_room_ok [OF assms [unfolded r]]
  have b: "assertRoomOperationAllowed p \<lparr>rq_operation = Op_room_create, rq_roomId = None,
             rq_objectKind = None, rq_mode = cr_mode inp\<rparr> (cr_decision inp) (create_policy inp) = Inr ()"
    using assms unfolding r createLocalRoom_def Let_def by (auto split: sum.splits)
  note d = assertRoomOperationAllowed_D [OF b]
  show "\<exists>d. authentic p (cr_decision inp) = Some d \<and> pd_verdict d = Allowed
           \<and> pd_sideEffect d = ''room.create''"
    using d by (auto simp: expectedRoomScope_def)
  show "cr_mode inp \<notin> {Mode_emergency}" "cr_mode inp \<in> set KNOWN_MODES" "cr_kind inp \<noteq> RK_unknown"
    using d by (auto simp: create_policy_def resolveRoomPolicy_mutation)
  show "rs_lifecycle s = LC_active_local" "room_inv s" using ok by (auto simp: room_inv_def)
  show "rp_redactTitles (rs_policy s) \<Longrightarrow> rs_title s = None" using ok by auto
  show "cr_mode inp = Mode_bunker \<Longrightarrow> rs_title s = None"
    using ok by (auto simp: create_policy_def resolveRoomPolicy_redact)
  show "localIdSeq st < 10 ^ 49 \<Longrightarrow> validateRoomId (rs_roomId s) = Inr (rs_roomId s)"
  proof -
    assume "localIdSeq st < 10 ^ 49"
    then have "Suc (localIdSeq st) < 10 ^ 50" by simp
    from generated_room_id [OF this] show "validateRoomId (rs_roomId s) = Inr (rs_roomId s)"
      using ok by (simp add: validateRoomId_def)
  qed
  fix p2 inp2 now2 st2 s2 e2 st2'
  assume "createLocalRoom p2 inp2 now2 st2 = (Inr (s2, e2), st2')" and "localIdSeq st2 \<noteq> localIdSeq st"
  then show "rs_roomId s2 \<noteq> rs_roomId s"
    using ok create_room_ok [of p2 inp2 now2 st2 s2 e2 st2'] by (auto dest: decimal_inj)
qed

theorem create_room_correct_witness:
  "\<exists>s e st'. createLocalRoom
      (snd (issuePolicyDecision Cap_persistence Allowed Mode_bunker ''room.create'' privacy_init))
      \<lparr>cr_kind = RK_workspace, cr_mode = Mode_bunker, cr_title = Some (js ''Plan B''),
       cr_decision = 0, cr_roomPolicy = None\<rparr> (js ''2026'') \<lparr>localIdSeq = 0, eventSeq = 0\<rparr>
      = (Inr (s, e), st') \<and> rs_title s = None \<and> room_inv s"
proof -
  let ?p = "snd (issuePolicyDecision Cap_persistence Allowed Mode_bunker ''room.create'' privacy_init)"
  let ?inp = "\<lparr>cr_kind = RK_workspace, cr_mode = Mode_bunker, cr_title = Some (js ''Plan B''),
       cr_decision = 0, cr_roomPolicy = None\<rparr>"
  have "assertRoomOperationAllowed ?p \<lparr>rq_operation = Op_room_create, rq_roomId = None,
      rq_objectKind = None, rq_mode = Mode_bunker\<rparr> 0 (create_policy ?inp) = Inr ()"
    unfolding create_policy_def
    by (subst room_barrier_exact [OF refl])
      (simp add: resolveRoomPolicy_mutation KNOWN_MODES_def issuePolicyDecision_def Let_def
        privacy_init_def authentic_def isPolicyDecision_def expectedRoomScope_def)
  then obtain s e st' where
    c: "createLocalRoom ?p ?inp (js ''2026'') \<lparr>localIdSeq = 0, eventSeq = 0\<rparr> = (Inr (s, e), st')"
    by (simp add: createLocalRoom_def Let_def createRoomLocalId_def createRoomOperationEvent_def
        enum_complete)
  with create_room_correct [OF c] show ?thesis by auto
qed

section \<open>Redacted audit events\<close>

fun isSafeDetail :: "jsval \<Rightarrow> bool" where
  "isSafeDetail JNull = True"
| "isSafeDetail (JBool b) = True"
| "isSafeDetail (JNum n) = (case n of NInt i \<Rightarrow> True | NFrac \<Rightarrow> True | NNaN \<Rightarrow> False | NInf s \<Rightarrow> False)"
| "isSafeDetail _ = False"

record audit_event =
  ae_kind :: room_operation
  ae_severity :: string
  ae_createdAtLocal :: jstr
  ae_reasonCode :: jstr
  ae_details :: "(jstr \<times> jsval) list"

text \<open>An assignment to the key \<open>__proto__\<close>, which the key expression admits, creates no
  own property.\<close>

definition createRedactedRoomAuditEvent ::
  "room_operation \<Rightarrow> string \<Rightarrow> jstr \<Rightarrow> (jstr \<times> jsval) list option \<Rightarrow> jstr \<Rightarrow> audit_event" where
  "createRedactedRoomAuditEvent kind severity reasonCode details now = \<lparr>
     ae_kind = kind, ae_severity = severity, ae_createdAtLocal = js ''local:'' @ now,
     ae_reasonCode = (if slug_re 32 reasonCode then reasonCode else js ''unknown_input''),
     ae_details = (case details of None \<Rightarrow> []
       | Some fs \<Rightarrow> filter (\<lambda>(k, v). slug_re 32 k \<and> k \<noteq> js ''__proto__'' \<and> isSafeDetail v) fs)\<rparr>"

text \<open>Audit events carry no text: whatever details a caller passes, the event keeps only
  slug keys with null, boolean or finite number values that were in the input, and its reason
  code is a slug of at most 32 units.\<close>

theorem audit_event_redacted:
  "list_all (\<lambda>(k, v). slug_re 32 k \<and> (\<exists>ds. details = Some ds \<and> (k, v) \<in> set ds)
        \<and> (v = JNull \<or> (\<exists>b. v = JBool b) \<or> (\<exists>i. v = JNum (NInt i)) \<or> v = JNum NFrac))
      (ae_details (createRedactedRoomAuditEvent kind severity reasonCode details now))
   \<and> slug_re 32 (ae_reasonCode (createRedactedRoomAuditEvent kind severity reasonCode details now))"
proof -
  have safe: "isSafeDetail v \<Longrightarrow> v = JNull \<or> (\<exists>b. v = JBool b) \<or> (\<exists>i. v = JNum (NInt i)) \<or> v = JNum NFrac" for v
    by (cases v rule: isSafeDetail.cases) (auto split: jsnum.splits)
  have "slug_re 32 (js ''unknown_input'')" by code_simp
  then show ?thesis
    by (auto simp: createRedactedRoomAuditEvent_def list_all_iff dest!: safe split: option.splits)
qed

section \<open>The tolerant projection\<close>

fun OBJECT_CREATING_OPERATIONS :: "room_operation \<Rightarrow> object_kind option" where
  "OBJECT_CREATING_OPERATIONS Op_message_create = Some OK_message"
| "OBJECT_CREATING_OPERATIONS Op_note_create = Some OK_note"
| "OBJECT_CREATING_OPERATIONS Op_task_create = Some OK_task"
| "OBJECT_CREATING_OPERATIONS Op_decision_record = Some OK_decision"
| "OBJECT_CREATING_OPERATIONS Op_poll_create = Some OK_poll"
| "OBJECT_CREATING_OPERATIONS Op_file_attach_ref = Some OK_file_ref"
| "OBJECT_CREATING_OPERATIONS Op_ai_memory_ref = Some OK_ai_memory_ref"
| "OBJECT_CREATING_OPERATIONS Op_endpoint_hook_ref = Some OK_endpoint_hook_ref"
| "OBJECT_CREATING_OPERATIONS _ = None"

definition objectSummaryFor :: "operation_event \<Rightarrow> object_kind \<Rightarrow> room_object_summary" where
  "objectSummaryFor event kind = objectSummaryFromPayload (js ''robj-'' @ oe_id event) kind"

definition project_step :: "room_policy \<Rightarrow> room_state \<Rightarrow> operation_event \<Rightarrow> room_state" where
  "project_step policy state event =
     (if oe_roomId event \<noteq> rs_roomId state then state
      else
        let next = state\<lparr>rs_lastLocalUpdateAt := Some (oe_createdAtLocal event)\<rparr>
        in case oe_operation event of
          Op_room_rename \<Rightarrow>
            (let title = (if \<not> rp_redactTitles policy then string_value (oe_payload event) else None)
             in next\<lparr>rs_titleRedacted := rp_redactTitles policy,
                  rs_title := (if title \<noteq> None then title else rs_title state)\<rparr>)
        | Op_room_archive \<Rightarrow> next\<lparr>rs_lifecycle := LC_archived_local\<rparr>
        | Op_room_lock \<Rightarrow> next\<lparr>rs_lifecycle := LC_emergency_locked\<rparr>
        | Op_room_delete_tombstone \<Rightarrow> next\<lparr>rs_lifecycle := LC_deleted_tombstone\<rparr>
        | Op_member_add \<Rightarrow>
            (if string_value (oe_payload event) \<noteq> None \<or> oe_actor event \<noteq> js ''local_unknown''
             then let ref = (case string_value (oe_payload event) of Some r \<Rightarrow> r
                             | None \<Rightarrow> oe_actor event)
                  in if list_ex (\<lambda>m. mem_ref m = ref) (rs_members state) then state
                     else next\<lparr>rs_members := rs_members state @
                       [\<lparr>mem_ref = ref, mem_displayNameRedacted = True, mem_role = Role_member\<rparr>]\<rparr>
             else state)
        | Op_member_remove \<Rightarrow>
            (case string_value (oe_payload event) of
               Some r \<Rightarrow> next\<lparr>rs_members := filter (\<lambda>m. mem_ref m \<noteq> r) (rs_members state)\<rparr>
             | None \<Rightarrow> state)
        | op \<Rightarrow> (case OBJECT_CREATING_OPERATIONS op of
               Some kind \<Rightarrow> next\<lparr>rs_objects := rs_objects state @ [objectSummaryFor event kind]\<rparr>
             | None \<Rightarrow> state))"

definition projectRoomState :: "room_state \<Rightarrow> operation_event list \<Rightarrow> room_policy \<Rightarrow> room_state" where
  "projectRoomState initial events policy = foldl (project_step policy) initial events"

text \<open>The tolerant projection keeps members distinct and summaries redacted; unlike the reducer
  it applies mutations in any lifecycle state, a tombstoned room included.\<close>

lemma project_step_inv:
  assumes "distinct (map mem_ref (rs_members s)) \<and> list_all sum_redacted (rs_objects s)"
  shows "distinct (map mem_ref (rs_members (project_step p s e)))
     \<and> list_all sum_redacted (rs_objects (project_step p s e))
     \<and> rs_roomId (project_step p s e) = rs_roomId s"
  using assms
  by (cases "oe_operation e")
    (auto simp: project_step_def Let_def objectSummaryFor_def objectSummaryFromPayload_def
      distinct_map_filter list_ex_iff split: option.splits)

text \<open>The tolerant projection is total and keeps its collections well formed for every event
  list: members stay distinct, summaries stay redacted, the room never changes, and events of
  other rooms have no effect at all.\<close>

theorem tolerant_projection_inv:
  assumes "distinct (map mem_ref (rs_members s))" and "list_all sum_redacted (rs_objects s)"
  shows "distinct (map mem_ref (rs_members (projectRoomState s es p)))
     \<and> list_all sum_redacted (rs_objects (projectRoomState s es p))
     \<and> rs_roomId (projectRoomState s es p) = rs_roomId s
     \<and> projectRoomState s es p = projectRoomState s (filter (\<lambda>e. oe_roomId e = rs_roomId s) es) p"
  using assms unfolding projectRoomState_def
proof (induction es arbitrary: s)
  case Nil
  then show ?case by simp
next
  case (Cons e es)
  have step: "distinct (map mem_ref (rs_members (project_step p s e)))"
    "list_all sum_redacted (rs_objects (project_step p s e))"
    "rs_roomId (project_step p s e) = rs_roomId s"
    using project_step_inv [of s p e] Cons.prems by auto
  have skip: "oe_roomId e \<noteq> rs_roomId s \<Longrightarrow> project_step p s e = s"
    by (simp add: project_step_def)
  show ?case using Cons.IH [OF step(1,2)] step(3) skip by auto
qed

theorem tolerant_projection_inv_witness:
  "rs_roomId (projectRoomState (draft_room (js ''room-local-1'')) [] (rs_policy (draft_room (js ''x''))))
     = js ''room-local-1''"
  using tolerant_projection_inv [of "draft_room (js ''room-local-1'')" "[]" "rs_policy (draft_room (js ''x''))"]
  by (simp add: draft_room_def)

end
