(* ===== verification/Object_Commands.thy ===== *)
theory Object_Commands
  imports Room_State
begin

text \<open>
  \<open>packages/rooms/src/objects/object-commands.ts\<close>: the twenty mutation commands
  and the validator that builds a command from an untyped value, field by field.  A command
  is its base fields with one constructor of \<open>command_args\<close> for the fields of its own.
\<close>

section \<open>Commands\<close>

datatype command_name =
    N_message_create | N_message_edit | N_message_redact | N_note_create
  | N_note_update_content | N_note_update_tags | N_task_create | N_task_update_content
  | N_task_update_status | N_decision_create | N_decision_resolve | N_poll_create
  | N_poll_update_draft | N_poll_open | N_poll_close | N_file_ref_create
  | N_file_ref_update_metadata | N_object_archive | N_object_redact | N_object_tombstone

definition ROOM_OBJECT_COMMAND_NAMES :: "command_name list" where
  "ROOM_OBJECT_COMMAND_NAMES = [N_message_create, N_message_edit, N_message_redact,
     N_note_create, N_note_update_content, N_note_update_tags, N_task_create,
     N_task_update_content, N_task_update_status, N_decision_create, N_decision_resolve,
     N_poll_create, N_poll_update_draft, N_poll_open, N_poll_close, N_file_ref_create,
     N_file_ref_update_metadata, N_object_archive, N_object_redact, N_object_tombstone]"

fun command_string :: "command_name \<Rightarrow> string" where
  "command_string N_message_create = ''message.create''"
| "command_string N_message_edit = ''message.edit''"
| "command_string N_message_redact = ''message.redact''"
| "command_string N_note_create = ''note.create''"
| "command_string N_note_update_content = ''note.update_content''"
| "command_string N_note_update_tags = ''note.update_tags''"
| "command_string N_task_create = ''task.create''"
| "command_string N_task_update_content = ''task.update_content''"
| "command_string N_task_update_status = ''task.update_status''"
| "command_string N_decision_create = ''decision.create''"
| "command_string N_decision_resolve = ''decision.resolve''"
| "command_string N_poll_create = ''poll.create''"
| "command_string N_poll_update_draft = ''poll.update_draft''"
| "command_string N_poll_open = ''poll.open_placeholder''"
| "command_string N_poll_close = ''poll.close_placeholder''"
| "command_string N_file_ref_create = ''file_ref.create_placeholder''"
| "command_string N_file_ref_update_metadata = ''file_ref.update_metadata''"
| "command_string N_object_archive = ''object.archive''"
| "command_string N_object_redact = ''object.redact''"
| "command_string N_object_tombstone = ''object.tombstone''"

record file_meta =
  fm_displayName :: "jstr option"
  fm_mediaType :: "jstr option"
  fm_sizeBytes :: "int option"

record task_fields =
  tf_title :: jstr
  tf_description :: "jstr option"
  tf_assigneeRefs :: "jstr list"
  tf_dueAtLocal :: "jstr option"
  tf_tags :: "jstr list"

datatype command_args =
    Message_create jstr "jstr option"
  | Message_edit jstr
  | Message_redact
  | Note_create "jstr option" jstr "jstr list"
  | Note_update_content "jstr option" jstr
  | Note_update_tags "jstr list"
  | Task_create task_fields
  | Task_update_content task_fields
  | Task_update_status task_status
  | Decision_create jstr "jstr option"
  | Decision_resolve decision_status "jstr option" "jstr option" "jstr option"
  | Poll_create jstr "(jstr \<times> jstr) list"
  | Poll_update_draft jstr "(jstr \<times> jstr) list"
  | Poll_open
  | Poll_close
  | File_ref_create jstr file_meta
  | File_ref_update_metadata file_meta
  | Object_archive
  | Object_redact
  | Object_tombstone

fun args_name :: "command_args \<Rightarrow> command_name" where
  "args_name (Message_create b r) = N_message_create"
| "args_name (Message_edit b) = N_message_edit"
| "args_name Message_redact = N_message_redact"
| "args_name (Note_create t b ts) = N_note_create"
| "args_name (Note_update_content t b) = N_note_update_content"
| "args_name (Note_update_tags ts) = N_note_update_tags"
| "args_name (Task_create f) = N_task_create"
| "args_name (Task_update_content f) = N_task_update_content"
| "args_name (Task_update_status s) = N_task_update_status"
| "args_name (Decision_create s r) = N_decision_create"
| "args_name (Decision_resolve st s r p) = N_decision_resolve"
| "args_name (Poll_create q os) = N_poll_create"
| "args_name (Poll_update_draft q os) = N_poll_update_draft"
| "args_name Poll_open = N_poll_open"
| "args_name Poll_close = N_poll_close"
| "args_name (File_ref_create l m) = N_file_ref_create"
| "args_name (File_ref_update_metadata m) = N_file_ref_update_metadata"
| "args_name Object_archive = N_object_archive"
| "args_name Object_redact = N_object_redact"
| "args_name Object_tombstone = N_object_tombstone"

record object_command =
  cm_roomId :: jstr
  cm_objectId :: jstr
  cm_actorRef :: jstr
  cm_mode :: privacy_mode
  cm_reason :: jstr
  cm_expectedRevision :: "int option"
  cm_args :: command_args

definition cm_command :: "object_command \<Rightarrow> command_name" where
  "cm_command c = args_name (cm_args c)"

definition is_create_name :: "command_name \<Rightarrow> bool" where
  "is_create_name n \<longleftrightarrow> n \<in> {N_message_create, N_note_create, N_task_create, N_decision_create,
     N_poll_create, N_file_ref_create}"

text \<open>The source tests the suffix \<open>.create\<close> of the command string.\<close>

lemma is_create_name_suffix:
  "is_create_name n \<longleftrightarrow> drop (length (command_string n) - 7) (command_string n) = ''.create''
     \<or> command_string n = ''file_ref.create_placeholder''"
  by (cases n) (simp_all add: is_create_name_def)

section \<open>Field validators\<close>

fun has_infix :: "jstr \<Rightarrow> jstr \<Rightarrow> bool" where
  "has_infix p [] = (p = [])"
| "has_infix p (c # cs) = (starts_with (c # cs) p \<or> has_infix p cs)"

definition drive_letter :: "jstr \<Rightarrow> bool" where
  "drive_letter s = (case s of a # b # _ \<Rightarrow>
     0x61 \<le> ascii_lower a \<and> ascii_lower a \<le> 0x7a \<and> b = 0x3a | _ \<Rightarrow> False)"

text \<open>
  The prefixes are tested on \<open>value.toLowerCase()\<close>.  Beyond ASCII only the Kelvin sign
  lowers to a single ASCII letter, \<open>k\<close>, which none of the prefixes contains, so lowering
  ASCII letters decides the same test.
\<close>

definition forbidden_reference :: "jstr \<Rightarrow> bool" where
  "forbidden_reference value \<longleftrightarrow>
     (let lower = map ascii_lower value in
        has_infix (js ''://'') value
      \<or> 0x5c \<in> set value
      \<or> starts_with value (js ''/'') \<or> starts_with value (js ''./'') \<or> starts_with value (js ''../'')
      \<or> has_infix (js ''@'') value
      \<or> drive_letter value
      \<or> starts_with lower (js ''http:'') \<or> starts_with lower (js ''https:'')
      \<or> starts_with lower (js ''file:'') \<or> starts_with lower (js ''blob:'')
      \<or> starts_with lower (js ''data:''))"

definition assertNoForbiddenReference :: "jstr \<Rightarrow> unit res" where
  "assertNoForbiddenReference value =
     throw_if (forbidden_reference value) (ObjectError OC_forbidden_reference)"

definition is_alnum_i :: "16 word \<Rightarrow> bool" where
  "is_alnum_i c \<longleftrightarrow> is_lower_alnum (ascii_lower c)"

text \<open>\<open>TAG_RE\<close> is \<open>/^[a-z0-9][a-z0-9_.-]{0,63}$/i\<close>.\<close>

definition TAG_RE :: "jstr \<Rightarrow> bool" where
  "TAG_RE s = (case s of [] \<Rightarrow> False | c # cs \<Rightarrow> is_alnum_i c \<and> length cs \<le> 63
     \<and> list_all (\<lambda>d. is_alnum_i d \<or> d = 0x5f \<or> d = 0x2e \<or> d = 0x2d) cs)"

text \<open>One half of \<open>MEDIA_TYPE_RE\<close>: \<open>[a-z0-9][a-z0-9!#$&^_.+-]{0,126}\<close>, ignoring case.
  The slash is in neither class.\<close>

definition media_part :: "jstr \<Rightarrow> bool" where
  "media_part s = (case s of [] \<Rightarrow> False | c # cs \<Rightarrow> is_alnum_i c \<and> length cs \<le> 126
     \<and> list_all (\<lambda>d. is_alnum_i d \<or> d \<in> {0x21, 0x23, 0x24, 0x26, 0x5e, 0x5f, 0x2e, 0x2b, 0x2d}) cs)"

definition MEDIA_TYPE_RE :: "jstr \<Rightarrow> bool" where
  "MEDIA_TYPE_RE s =
     (let a = takeWhile (\<lambda>c. c \<noteq> 0x2f) s; b = dropWhile (\<lambda>c. c \<noteq> 0x2f) s
      in b \<noteq> [] \<and> media_part a \<and> media_part (tl b))"

fun array_items :: "jsval \<Rightarrow> jsval list option" where
  "array_items (JArr vs) = Some vs"
| "array_items _ = None"

definition add_once :: "'a \<Rightarrow> 'a list \<Rightarrow> 'a list" where
  "add_once x out = (if x \<in> set out then out else out @ [x])"

definition validate_tag :: "jstr list \<Rightarrow> jsval \<Rightarrow> jstr list res" where
  "validate_tag out raw =
     ebind (need (ObjectError OC_invalid_field) (string_value raw)) (\<lambda>s.
     ebind (throw_if (\<not> TAG_RE s) (ObjectError OC_invalid_field)) (\<lambda>_.
     ebind (throw_if (utf8ByteLength s > tagBytes ROOM_OBJECT_LIMITS_V1) (ObjectError OC_tag_too_large)) (\<lambda>_.
     Inr (add_once s out))))"

definition validateTags :: "jsval \<Rightarrow> jstr list res" where
  "validateTags input =
     ebind (need (ObjectError OC_invalid_field) (array_items input)) (\<lambda>vs.
     ebind (throw_if (length vs > tagCount ROOM_OBJECT_LIMITS_V1) (ObjectError OC_too_many_tags)) (\<lambda>_.
     efold validate_tag [] vs))"

definition validate_ref :: "jstr \<Rightarrow> jstr res" where
  "validate_ref s = (case validateRoomMemberRef s of
     Inl _ \<Rightarrow> Inl (ObjectError OC_invalid_actor_ref) | Inr r \<Rightarrow> Inr r)"

definition validate_assignee :: "jstr list \<Rightarrow> jsval \<Rightarrow> jstr list res" where
  "validate_assignee out raw =
     ebind (need (ObjectError OC_invalid_actor_ref) (string_value raw)) (\<lambda>s.
     ebind (validate_ref s) (\<lambda>r. Inr (add_once r out)))"

definition validateAssignees :: "jsval \<Rightarrow> jstr list res" where
  "validateAssignees input =
     ebind (need (ObjectError OC_invalid_field) (array_items input)) (\<lambda>vs.
     ebind (throw_if (length vs > TASK_MAX_ASSIGNEES) (ObjectError OC_too_many_tags)) (\<lambda>_.
     efold validate_assignee [] vs))"

definition validate_option :: "(jstr \<times> jstr) list \<Rightarrow> jsval \<Rightarrow> (jstr \<times> jstr) list res" where
  "validate_option out raw =
     ebind (need (ObjectError OC_invalid_field) (own_fields raw)) (\<lambda>fs.
     ebind (assertNoDangerousKeys fs) (\<lambda>_.
     ebind (assertOnlyKeys fs [''optionId'', ''label'']) (\<lambda>_.
     ebind (need (ObjectError OC_invalid_field) (string_value (jget fs ''optionId''))) (\<lambda>i.
     ebind (throw_if (\<not> id_re 127 i) (ObjectError OC_invalid_field)) (\<lambda>_.
     ebind (throw_if (i \<in> fst ` set out) (ObjectError OC_duplicate_option_id)) (\<lambda>_.
     ebind (validateRoomPlainText (jget fs ''label'') (pollOptionLabelBytes ROOM_OBJECT_LIMITS_V1)) (\<lambda>label.
     Inr (out @ [(i, label)]))))))))"

definition validateOptions :: "jsval \<Rightarrow> (jstr \<times> jstr) list res" where
  "validateOptions input =
     ebind (need (ObjectError OC_invalid_field) (array_items input)) (\<lambda>vs.
     ebind (throw_if (length vs < POLL_MIN_OPTIONS) (ObjectError OC_too_few_options)) (\<lambda>_.
     ebind (throw_if (length vs > pollOptionCount ROOM_OBJECT_LIMITS_V1) (ObjectError OC_too_many_options)) (\<lambda>_.
     efold validate_option [] vs)))"

definition validateMediaType :: "jsval \<Rightarrow> jstr res" where
  "validateMediaType input =
     ebind (need (ObjectError OC_invalid_field) (string_value input)) (\<lambda>s.
     ebind (throw_if (utf8ByteLength s > mediaTypeBytes ROOM_OBJECT_LIMITS_V1 \<or> \<not> MEDIA_TYPE_RE s)
       (ObjectError OC_invalid_field)) (\<lambda>_.
     ebind (assertNoForbiddenReference s) (\<lambda>_. Inr s)))"

definition validateSizeBytes :: "jsval \<Rightarrow> int res" where
  "validateSizeBytes input =
     ebind (need (ObjectError OC_invalid_field) (safe_integer input)) (\<lambda>n.
     ebind (throw_if (n < 0) (ObjectError OC_invalid_field)) (\<lambda>_. Inr n))"

definition validateDueLocal :: "jsval \<Rightarrow> jstr res" where
  "validateDueLocal input =
     ebind (need (ObjectError OC_invalid_field) (string_value input)) (\<lambda>s.
     ebind (throw_if (\<not> starts_with s (js ''local:'') \<or> length s > 64) (ObjectError OC_invalid_field)) (\<lambda>_.
     Inr s))"

definition validateActor :: "jsval \<Rightarrow> jstr res" where
  "validateActor actor =
     (if actor = JStr (js ''local_unknown'') then Inr (js ''local_unknown'')
      else ebind (need (ObjectError OC_invalid_actor_ref) (string_value actor)) validate_ref)"

definition optional :: "(jsval \<Rightarrow> 'a res) \<Rightarrow> jsval \<Rightarrow> 'a option res" where
  "optional f v = (if v = JUndef then Inr None else ebind (f v) (\<lambda>x. Inr (Some x)))"

definition optionalText :: "(jstr \<times> jsval) list \<Rightarrow> string \<Rightarrow> nat \<Rightarrow> jstr option res" where
  "optionalText fs key limit = optional (\<lambda>v. validateRoomPlainText v limit) (jget fs key)"

definition validate_file_name :: "jsval \<Rightarrow> jstr res" where
  "validate_file_name v =
     ebind (validateRoomPlainText v (fileDisplayNameBytes ROOM_OBJECT_LIMITS_V1)) (\<lambda>s.
     ebind (assertNoForbiddenReference s) (\<lambda>_. Inr s))"

definition fileMeta :: "(jstr \<times> jsval) list \<Rightarrow> file_meta res" where
  "fileMeta fs =
     ebind (optional validate_file_name (jget fs ''displayName'')) (\<lambda>n.
     ebind (optional validateMediaType (jget fs ''mediaType'')) (\<lambda>m.
     ebind (optional validateSizeBytes (jget fs ''sizeBytes'')) (\<lambda>b.
     Inr \<lparr>fm_displayName = n, fm_mediaType = m, fm_sizeBytes = b\<rparr>)))"

section \<open>Building a command\<close>

definition BASE_KEYS :: "string list" where
  "BASE_KEYS = [''schemaVersion'', ''command'', ''roomId'', ''objectId'', ''actorRef'', ''mode'',
     ''reason'']"

definition enum_field :: "'a list \<Rightarrow> ('a \<Rightarrow> string) \<Rightarrow> jsval \<Rightarrow> 'a res" where
  "enum_field xs nm v = need (ObjectError OC_invalid_field)
     (case string_value v of Some s \<Rightarrow> enum_of xs nm s | None \<Rightarrow> None)"

text \<open>The fields of \<open>task.create\<close> and \<open>task.update_content\<close>, in source order.\<close>

definition taskFields :: "(jstr \<times> jsval) list \<Rightarrow> task_fields res" where
  "taskFields fs =
     ebind (validateRoomPlainText (jget fs ''title'') (taskTitleBytes ROOM_OBJECT_LIMITS_V1)) (\<lambda>t.
     ebind (optionalText fs ''description'' (taskDescriptionBytes ROOM_OBJECT_LIMITS_V1)) (\<lambda>d.
     ebind (validateAssignees (jget fs ''assigneeRefs'')) (\<lambda>a.
     ebind (optional validateDueLocal (jget fs ''dueAtLocal'')) (\<lambda>due.
     ebind (validateTags (jget fs ''tags'')) (\<lambda>tags.
     Inr \<lparr>tf_title = t, tf_description = d, tf_assigneeRefs = a, tf_dueAtLocal = due, tf_tags = tags\<rparr>)))))"

definition pollFields :: "(jstr \<times> jsval) list \<Rightarrow> (jstr \<times> (jstr \<times> jstr) list) res" where
  "pollFields fs =
     ebind (validateRoomPlainText (jget fs ''question'') (pollQuestionBytes ROOM_OBJECT_LIMITS_V1)) (\<lambda>q.
     ebind (validateOptions (jget fs ''options'')) (\<lambda>os. Inr (q, os)))"

definition allow_keys :: "(jstr \<times> jsval) list \<Rightarrow> string list \<Rightarrow> 'a res \<Rightarrow> 'a res" where
  "allow_keys fs ks k = ebind (assertOnlyKeys fs (BASE_KEYS @ ks)) (\<lambda>_. k)"

definition buildCommand :: "command_name \<Rightarrow> (jstr \<times> jsval) list \<Rightarrow> command_args res" where
  "buildCommand command fs = (let L = ROOM_OBJECT_LIMITS_V1 in case command of
      N_message_create \<Rightarrow> allow_keys fs [''body'', ''replyToObjectId'']
        (ebind (validateRoomPlainText (jget fs ''body'') (messageBodyBytes L)) (\<lambda>b.
         ebind (optional validateRoomObjectId (jget fs ''replyToObjectId'')) (\<lambda>r.
         Inr (Message_create b r))))
    | N_message_edit \<Rightarrow> allow_keys fs [''expectedRevision'', ''body'']
        (ebind (validateRoomPlainText (jget fs ''body'') (messageBodyBytes L)) (\<lambda>b.
         Inr (Message_edit b)))
    | N_note_create \<Rightarrow> allow_keys fs [''title'', ''body'', ''tags'']
        (ebind (optionalText fs ''title'' (noteTitleBytes L)) (\<lambda>t.
         ebind (validateRoomPlainText (jget fs ''body'') (noteBodyBytes L)) (\<lambda>b.
         ebind (validateTags (jget fs ''tags'')) (\<lambda>tags.
         Inr (Note_create t b tags)))))
    | N_note_update_content \<Rightarrow> allow_keys fs [''expectedRevision'', ''title'', ''body'']
        (ebind (optionalText fs ''title'' (noteTitleBytes L)) (\<lambda>t.
         ebind (validateRoomPlainText (jget fs ''body'') (noteBodyBytes L)) (\<lambda>b.
         Inr (Note_update_content t b))))
    | N_note_update_tags \<Rightarrow> allow_keys fs [''expectedRevision'', ''tags'']
        (ebind (validateTags (jget fs ''tags'')) (\<lambda>tags. Inr (Note_update_tags tags)))
    | N_task_create \<Rightarrow>
        allow_keys fs [''title'', ''description'', ''assigneeRefs'', ''dueAtLocal'', ''tags'']
        (ebind (taskFields fs) (\<lambda>f. Inr (Task_create f)))
    | N_task_update_content \<Rightarrow> allow_keys fs
          [''expectedRevision'', ''title'', ''description'', ''assigneeRefs'', ''dueAtLocal'', ''tags'']
        (ebind (taskFields fs) (\<lambda>f. Inr (Task_update_content f)))
    | N_task_update_status \<Rightarrow> allow_keys fs [''expectedRevision'', ''status'']
        (ebind (enum_field ROOM_TASK_STATUSES task_status_name (jget fs ''status'')) (\<lambda>st.
         Inr (Task_update_status st)))
    | N_decision_create \<Rightarrow> allow_keys fs [''statement'', ''rationale'']
        (ebind (validateRoomPlainText (jget fs ''statement'') (decisionStatementBytes L)) (\<lambda>st.
         ebind (optionalText fs ''rationale'' (decisionRationaleBytes L)) (\<lambda>r.
         Inr (Decision_create st r))))
    | N_decision_resolve \<Rightarrow> allow_keys fs
          [''expectedRevision'', ''status'', ''statement'', ''rationale'', ''supersedesObjectId'']
        (ebind (enum_field ROOM_DECISION_STATUSES decision_status_name (jget fs ''status'')) (\<lambda>st.
         ebind (optionalText fs ''statement'' (decisionStatementBytes L)) (\<lambda>s.
         ebind (optionalText fs ''rationale'' (decisionRationaleBytes L)) (\<lambda>r.
         ebind (optional validateRoomObjectId (jget fs ''supersedesObjectId'')) (\<lambda>p.
         Inr (Decision_resolve st s r p))))))
    | N_poll_create \<Rightarrow> allow_keys fs [''question'', ''options'']
        (ebind (pollFields fs) (\<lambda>(q, os). Inr (Poll_create q os)))
    | N_poll_update_draft \<Rightarrow> allow_keys fs [''expectedRevision'', ''question'', ''options'']
        (ebind (pollFields fs) (\<lambda>(q, os). Inr (Poll_update_draft q os)))
    | N_message_redact \<Rightarrow> allow_keys fs [''expectedRevision''] (Inr Message_redact)
    | N_poll_open \<Rightarrow> allow_keys fs [''expectedRevision''] (Inr Poll_open)
    | N_poll_close \<Rightarrow> allow_keys fs [''expectedRevision''] (Inr Poll_close)
    | N_object_archive \<Rightarrow> allow_keys fs [''expectedRevision''] (Inr Object_archive)
    | N_object_redact \<Rightarrow> allow_keys fs [''expectedRevision''] (Inr Object_redact)
    | N_object_tombstone \<Rightarrow> allow_keys fs [''expectedRevision''] (Inr Object_tombstone)
    | N_file_ref_create \<Rightarrow> allow_keys fs [''localRefId'', ''displayName'', ''mediaType'', ''sizeBytes'']
        (ebind (need (ObjectError OC_invalid_field) (string_value (jget fs ''localRefId''))) (\<lambda>l.
         ebind (throw_if (\<not> id_re 127 l) (ObjectError OC_invalid_field)) (\<lambda>_.
         ebind (assertNoForbiddenReference l) (\<lambda>_.
         ebind (fileMeta fs) (\<lambda>m. Inr (File_ref_create l m))))))
    | N_file_ref_update_metadata \<Rightarrow>
        allow_keys fs [''expectedRevision'', ''displayName'', ''mediaType'', ''sizeBytes'']
        (ebind (fileMeta fs) (\<lambda>m. Inr (File_ref_update_metadata m))))"

definition expected_revision :: "command_name \<Rightarrow> (jstr \<times> jsval) list \<Rightarrow> int option res" where
  "expected_revision command fs =
     (if is_create_name command
      then ebind (throw_if (jget fs ''expectedRevision'' \<noteq> JUndef) (ObjectError OC_unexpected_field))
        (\<lambda>_. Inr None)
      else ebind (throw_if (jget fs ''expectedRevision'' = JUndef)
          (ObjectError OC_missing_expected_revision)) (\<lambda>_.
        ebind (validateRoomObjectRevision (jget fs ''expectedRevision'')) (\<lambda>r. Inr (Some r))))"

definition validateRoomObjectMutationCommandV1 :: "jsval \<Rightarrow> object_command res" where
  "validateRoomObjectMutationCommandV1 input =
     ebind (need (ObjectError OC_invalid_field) (own_fields input)) (\<lambda>fs.
     ebind (assertNoDangerousKeys fs) (\<lambda>_.
     ebind (throw_if (jget fs ''schemaVersion'' \<noteq> JNum (NInt 1))
       (ObjectError OC_unsupported_schema_version)) (\<lambda>_.
     ebind (need (ObjectError OC_unknown_command) (case string_value (jget fs ''command'') of
         Some s \<Rightarrow> enum_of ROOM_OBJECT_COMMAND_NAMES command_string s | None \<Rightarrow> None)) (\<lambda>command.
     ebind (need (ObjectError OC_invalid_room_id) (string_value (jget fs ''roomId''))) (\<lambda>roomId.
     ebind (validateRoomObjectId (jget fs ''objectId'')) (\<lambda>objectId.
     ebind (validateActor (jget fs ''actorRef'')) (\<lambda>actorRef.
     ebind (need (ObjectError OC_invalid_field) (string_value (jget fs ''mode''))) (\<lambda>mode.
     ebind (need (ObjectError OC_invalid_field) (string_value (jget fs ''reason''))) (\<lambda>reason.
     ebind (throw_if (\<not> slug_re 64 reason) (ObjectError OC_invalid_field)) (\<lambda>_.
     ebind (expected_revision command fs) (\<lambda>rev.
     ebind (buildCommand command fs) (\<lambda>args.
     Inr \<lparr>cm_roomId = roomId, cm_objectId = objectId, cm_actorRef = actorRef,
       cm_mode = mode_of_js mode, cm_reason = reason, cm_expectedRevision = rev,
       cm_args = args\<rparr>))))))))))))"

section \<open>What a validated command guarantees\<close>

definition text_ok :: "nat \<Rightarrow> jstr \<Rightarrow> bool" where
  "text_ok n s \<longleftrightarrow> utf8ByteLength s \<le> n \<and> \<not> hasNul s \<and> \<not> LONE_SURROGATE s"

definition opt_ok :: "('a \<Rightarrow> bool) \<Rightarrow> 'a option \<Rightarrow> bool" where
  "opt_ok P m \<longleftrightarrow> (case m of None \<Rightarrow> True | Some x \<Rightarrow> P x)"

definition tags_ok :: "jstr list \<Rightarrow> bool" where
  "tags_ok ts \<longleftrightarrow> length ts \<le> 32 \<and> distinct ts \<and> list_all TAG_RE ts"

definition options_ok :: "(jstr \<times> jstr) list \<Rightarrow> bool" where
  "options_ok os \<longleftrightarrow> 2 \<le> length os \<and> length os \<le> 32 \<and> distinct (map fst os)
     \<and> list_all (\<lambda>(i, l). id_re 127 i \<and> text_ok 1024 l) os"

definition assignees_ok :: "jstr list \<Rightarrow> bool" where
  "assignees_ok rs \<longleftrightarrow> length rs \<le> 64 \<and> distinct rs \<and> list_all (id_re 63) rs"

definition task_ok :: "task_fields \<Rightarrow> bool" where
  "task_ok f \<longleftrightarrow> text_ok 1024 (tf_title f) \<and> opt_ok (text_ok 16384) (tf_description f)
     \<and> assignees_ok (tf_assigneeRefs f) \<and> opt_ok (\<lambda>s. length s \<le> 64) (tf_dueAtLocal f)
     \<and> tags_ok (tf_tags f)"

definition file_ok :: "file_meta \<Rightarrow> bool" where
  "file_ok m \<longleftrightarrow> opt_ok (\<lambda>s. text_ok 1024 s \<and> \<not> forbidden_reference s) (fm_displayName m)
     \<and> opt_ok (\<lambda>s. utf8ByteLength s \<le> 255 \<and> MEDIA_TYPE_RE s \<and> \<not> forbidden_reference s) (fm_mediaType m)
     \<and> opt_ok (\<lambda>n. 0 \<le> n \<and> is_safe_int n) (fm_sizeBytes m)"

fun args_ok :: "command_args \<Rightarrow> bool" where
  "args_ok (Message_create b r) \<longleftrightarrow> text_ok 32768 b \<and> opt_ok (id_re 127) r"
| "args_ok (Message_edit b) \<longleftrightarrow> text_ok 32768 b"
| "args_ok (Note_create t b ts) \<longleftrightarrow> opt_ok (text_ok 512) t \<and> text_ok 131072 b \<and> tags_ok ts"
| "args_ok (Note_update_content t b) \<longleftrightarrow> opt_ok (text_ok 512) t \<and> text_ok 131072 b"
| "args_ok (Note_update_tags ts) \<longleftrightarrow> tags_ok ts"
| "args_ok (Task_create f) \<longleftrightarrow> task_ok f"
| "args_ok (Task_update_content f) \<longleftrightarrow> task_ok f"
| "args_ok (Decision_create s r) \<longleftrightarrow> text_ok 16384 s \<and> opt_ok (text_ok 65536) r"
| "args_ok (Decision_resolve st s r p) \<longleftrightarrow> opt_ok (text_ok 16384) s \<and> opt_ok (text_ok 65536) r
     \<and> opt_ok (id_re 127) p"
| "args_ok (Poll_create q os) \<longleftrightarrow> text_ok 4096 q \<and> options_ok os"
| "args_ok (Poll_update_draft q os) \<longleftrightarrow> text_ok 4096 q \<and> options_ok os"
| "args_ok (File_ref_create l m) \<longleftrightarrow> id_re 127 l \<and> file_ok m"
| "args_ok (File_ref_update_metadata m) \<longleftrightarrow> file_ok m"
| "args_ok _ \<longleftrightarrow> True"

lemma validate_text_ok: "validateRoomPlainText v n = Inr s \<Longrightarrow> text_ok n s"
  by (auto simp: validateRoomPlainText_def text_ok_def split: if_splits)

lemma optional_ok: "optional f v = Inr m \<Longrightarrow> (\<And>x. f v = Inr x \<Longrightarrow> P x) \<Longrightarrow> opt_ok P m"
  by (auto simp: optional_def opt_ok_def split: if_splits)

lemma optionalText_ok: "optionalText fs k n = Inr m \<Longrightarrow> opt_ok (text_ok n) m"
  unfolding optionalText_def by (erule optional_ok) (rule validate_text_ok)

lemma efold_length:
  assumes "efold f s xs = Inr t" and "\<And>s x t. f s x = Inr t \<Longrightarrow> length t \<le> Suc (length s)"
  shows "length t \<le> length s + length xs"
  using assms(1)
proof (induction xs arbitrary: s)
  case (Cons x xs)
  then show ?case using assms(2) by (auto, fastforce)
qed simp

lemma efold_length_exact:
  assumes "efold f s xs = Inr t" and step: "\<And>s x t. f s x = Inr t \<Longrightarrow> length t = Suc (length s)"
  shows "length t = length s + length xs"
  using assms(1)
proof (induction xs arbitrary: s)
  case (Cons x xs)
  then obtain u where "f s x = Inr u" "efold f u xs = Inr t" by auto
  then show ?case using Cons.IH [of u] step [of s x u] by simp
qed simp

lemma validateTags_ok: "validateTags v = Inr ts \<Longrightarrow> tags_ok ts"
proof -
  assume "validateTags v = Inr ts"
  then obtain vs where f: "efold validate_tag [] vs = Inr ts" and l: "length vs \<le> 32"
    by (auto simp: validateTags_def ROOM_OBJECT_LIMITS_V1_def)
  have "length ts \<le> 32"
    using efold_length [OF f] l by (force simp: validate_tag_def add_once_def split: if_splits)
  moreover have "distinct ts \<and> list_all TAG_RE ts"
    using f by (rule efold_invariant [where P = "\<lambda>t. distinct t \<and> list_all TAG_RE t"])
      (auto simp: validate_tag_def add_once_def)
  ultimately show ?thesis by (simp add: tags_ok_def)
qed

lemma validateAssignees_ok: "validateAssignees v = Inr rs \<Longrightarrow> assignees_ok rs"
proof -
  assume "validateAssignees v = Inr rs"
  then obtain vs where f: "efold validate_assignee [] vs = Inr rs" and l: "length vs \<le> 64"
    by (auto simp: validateAssignees_def TASK_MAX_ASSIGNEES_def)
  have "length rs \<le> 64"
    using efold_length [OF f] l by (force simp: validate_assignee_def add_once_def split: if_splits)
  moreover have "distinct rs \<and> list_all (id_re 63) rs"
    using f by (rule efold_invariant [where P = "\<lambda>t. distinct t \<and> list_all (id_re 63) t"])
      (auto simp: validate_assignee_def validate_ref_def validateRoomMemberRef_def add_once_def
        split: if_splits)
  ultimately show ?thesis by (simp add: assignees_ok_def)
qed

lemma validateOptions_ok: "validateOptions v = Inr os \<Longrightarrow> options_ok os"
proof -
  assume "validateOptions v = Inr os"
  then obtain vs where f: "efold validate_option [] vs = Inr os" and l: "2 \<le> length vs" "length vs \<le> 32"
    by (auto simp: validateOptions_def ROOM_OBJECT_LIMITS_V1_def POLL_MIN_OPTIONS_def)
  have "length os = length vs"
    using efold_length_exact [OF f] by (force simp: validate_option_def)
  moreover have "distinct (map fst os) \<and> list_all (\<lambda>(i, l). id_re 127 i \<and> text_ok 1024 l) os"
    using f by (rule efold_invariant
        [where P = "\<lambda>t. distinct (map fst t) \<and> list_all (\<lambda>(i, l). id_re 127 i \<and> text_ok 1024 l) t"])
      (auto simp: validate_option_def ROOM_OBJECT_LIMITS_V1_def dest: validate_text_ok)
  ultimately show ?thesis using l by (simp add: options_ok_def)
qed

lemma validate_text_1024: "validateRoomPlainText v 1024 = Inr s \<Longrightarrow> text_ok 1024 s"
  by (rule validate_text_ok)

lemma fileMeta_ok: "fileMeta fs = Inr m \<Longrightarrow> file_ok m"
  by (auto simp: fileMeta_def file_ok_def validate_file_name_def validateMediaType_def
      validateSizeBytes_def assertNoForbiddenReference_def ROOM_OBJECT_LIMITS_V1_def
      dest!: safe_integer_SomeD validate_text_1024 elim!: optional_ok)

lemma taskFields_ok: "taskFields fs = Inr f \<Longrightarrow> task_ok f"
  by (auto simp: taskFields_def task_ok_def ROOM_OBJECT_LIMITS_V1_def validateDueLocal_def
      dest: validate_text_ok optionalText_ok validateAssignees_ok validateTags_ok elim!: optional_ok)

lemma pollFields_ok: "pollFields fs = Inr (q, os) \<Longrightarrow> text_ok 4096 q \<and> options_ok os"
  by (auto simp: pollFields_def ROOM_OBJECT_LIMITS_V1_def dest: validate_text_ok validateOptions_ok)

lemmas field_ok = validate_text_ok optionalText_ok validateTags_ok fileMeta_ok taskFields_ok
  pollFields_ok

text \<open>Every own key some command may have.\<close>

definition COMMAND_KEYS :: "string list" where
  "COMMAND_KEYS = BASE_KEYS @ [''expectedRevision'', ''body'', ''replyToObjectId'', ''title'',
     ''tags'', ''description'', ''assigneeRefs'', ''dueAtLocal'', ''status'', ''statement'',
     ''rationale'', ''supersedesObjectId'', ''question'', ''options'', ''localRefId'',
     ''displayName'', ''mediaType'', ''sizeBytes'']"

lemma only_keys_mono: "only_keys ks fs \<Longrightarrow> set ks \<subseteq> set ks' \<Longrightarrow> only_keys ks' fs"
  by (fastforce simp: only_keys_def list_all_iff)

lemma allow_keys_Inr:
  "allow_keys fs ks k = Inr x \<Longrightarrow> set ks \<subseteq> set COMMAND_KEYS \<Longrightarrow> only_keys COMMAND_KEYS fs \<and> k = Inr x"
  by (auto simp: allow_keys_def COMMAND_KEYS_def elim!: only_keys_mono)

lemma buildCommand_ok:
  assumes "buildCommand n fs = Inr args"
  shows "args_ok args \<and> args_name args = n"
  using assms
  by (cases n) (auto simp: buildCommand_def Let_def allow_keys_def ROOM_OBJECT_LIMITS_V1_def
        dest: field_ok elim!: optional_ok)

lemma buildCommand_keys:
  assumes "buildCommand n fs = Inr args"
  shows "only_keys COMMAND_KEYS fs"
  using assms unfolding buildCommand_def Let_def
  by (cases n) (auto dest!: allow_keys_Inr simp: COMMAND_KEYS_def)

lemma expected_revision_ok:
  assumes "expected_revision n fs = Inr m"
  shows "(m = None \<longleftrightarrow> is_create_name n) \<and> (\<forall>r. m = Some r \<longrightarrow> 1 \<le> r \<and> r \<le> MAX_OBJECT_REVISION)"
  using assms unfolding expected_revision_def validateRoomObjectRevision_def
  by (cases m) (auto split: if_splits option.splits)


definition sample_note_command :: jsval where
  "sample_note_command = JObj [(js ''schemaVersion'', JNum (NInt 1)), (js ''command'', JStr (js ''note.create'')),
     (js ''roomId'', JStr (js ''room-local-1'')), (js ''objectId'', JStr (js ''note-1'')),
     (js ''actorRef'', JStr (js ''local_unknown'')), (js ''mode'', JStr (js ''private'')),
     (js ''reason'', JStr (js ''user_request'')), (js ''body'', JStr (js ''hello'')),
     (js ''tags'', JArr [JStr (js ''x''), JStr (js ''x'')])]"

definition sample_note :: object_command where
  "sample_note = \<lparr>cm_roomId = js ''room-local-1'', cm_objectId = js ''note-1'',
     cm_actorRef = js ''local_unknown'', cm_mode = Mode_private, cm_reason = js ''user_request'',
     cm_expectedRevision = None, cm_args = Note_create None (js ''hello'') [js ''x'']\<rparr>"

lemma sample_note_valid: "validateRoomObjectMutationCommandV1 sample_note_command = Inr sample_note"
proof -
  have leaf: "id_re 127 (js ''note-1'')" "slug_re 64 (js ''user_request'')" "TAG_RE (js ''x'')"
    "utf8ByteLength (js ''x'') = 1"
    by code_simp+
  have "js ''hello'' = [0x68, 0x65, 0x6c, 0x6c, 0x6f]" by code_simp
  then have plain: "validateRoomPlainText (JStr (js ''hello'')) 131072 = Inr (js ''hello'')"
    by (simp add: validateRoomPlainText_def plain_text_value_def hasNul_def LONE_SURROGATE_def
        is_high_surrogate_def is_low_surrogate_def)
  have mode: "mode_of_js (js ''private'') = Mode_private"
    by (simp add: mode_of_js_def enum_of_def KNOWN_MODES_def)
  have cmd: "enum_of ROOM_OBJECT_COMMAND_NAMES command_string (js ''note.create'') = Some N_note_create"
    by (simp add: enum_of_def ROOM_OBJECT_COMMAND_NAMES_def)
  show ?thesis
    by (simp add: validateRoomObjectMutationCommandV1_def sample_note_command_def
        assertNoDangerousKeys_def DANGEROUS_KEYS_def leaf plain mode cmd validateActor_def
        validateRoomObjectId_def expected_revision_def is_create_name_def buildCommand_def Let_def
        allow_keys_def BASE_KEYS_def optionalText_def optional_def ROOM_OBJECT_LIMITS_V1_def
        validateTags_def validate_tag_def add_once_def assertOnlyKeys_def sample_note_def)
qed


end
