(* ===== verification/Object_Events.thy ===== *)
theory Object_Events
  imports Object_Commands
begin

text \<open>
  The pure part of the object mutation pipeline: the policy and barrier of a mutation
  (\<open>object-policy.ts\<close>), the resulting object and event of a command
  (\<open>object-events.ts\<close>), and the reducer with its per-room projection and replay
  (\<open>object-reducer.ts\<close>, \<open>object-redaction.ts\<close>).
\<close>

section \<open>Policy and barrier\<close>

definition ROOM_OBJECT_CAPABILITY :: policy_capability where
  "ROOM_OBJECT_CAPABILITY = ROOM_CAPABILITY"

definition objectMutationScope :: "command_name \<Rightarrow> side_effect_scope" where
  "objectMutationScope command =
     (if command = N_object_redact \<or> command = N_message_redact then ''room.object.redact''
      else if command = N_object_archive then ''room.object.archive''
      else if command = N_object_tombstone then ''room.object.tombstone''
      else if is_create_name command then ''room.object.create''
      else ''room.object.update'')"

definition objectMutationClass :: "command_name \<Rightarrow> object_mutation_class" where
  "objectMutationClass command =
     (if command = N_object_redact \<or> command = N_message_redact then OM_redact
      else if command = N_object_archive then OM_archive
      else if command = N_object_tombstone then OM_tombstone
      else if is_create_name command then OM_create
      else OM_content_update)"

record object_mutation_policy =
  omp_mode :: privacy_mode
  omp_command :: command_name
  omp_objectKind :: object_kind_v1
  omp_allowed :: bool
  omp_contentInMemoryAllowed :: bool
  omp_persistentContentAllowed :: bool
  omp_operationLogRetention :: retention
  omp_projectionRetention :: retention
  omp_metadataAllowed :: bool
  omp_auditAllowed :: bool
  omp_networkAllowed :: bool
  omp_notificationAllowed :: bool
  omp_aiAllowed :: bool
  omp_endpointDefenseState :: endpoint_integration
  omp_reasonCode :: string

definition resolveRoomObjectMutationPolicy ::
  "privacy_mode \<Rightarrow> command_name \<Rightarrow> object_kind_v1 \<Rightarrow> room_policy \<Rightarrow> object_mutation_policy" where
  "resolveRoomObjectMutationPolicy mode command objectKind roomPolicy =
     (let cls = objectMutationClass command;
          safeDirection = (cls = OM_redact \<or> cls = OM_tombstone);
          base = \<lparr>omp_mode = mode, omp_command = command, omp_objectKind = objectKind,
            omp_allowed = True, omp_contentInMemoryAllowed = True,
            omp_persistentContentAllowed = False, omp_operationLogRetention = RT_memory_only,
            omp_projectionRetention = RT_memory_only,
            omp_metadataAllowed = rp_allowMetadataSignals roomPolicy, omp_auditAllowed = True,
            omp_networkAllowed = False, omp_notificationAllowed = False, omp_aiAllowed = False,
            omp_endpointDefenseState = ED_externalized, omp_reasonCode = ''default_deny''\<rparr>;
          deny = (\<lambda>reasonCode. base\<lparr>omp_allowed := False, omp_contentInMemoryAllowed := False,
            omp_operationLogRetention := RT_null, omp_projectionRetention := RT_null,
            omp_metadataAllowed := False, omp_auditAllowed := safeDirection,
            omp_reasonCode := reasonCode\<rparr>)
      in if mode = Mode_emergency
         then (if safeDirection
               then base\<lparr>omp_contentInMemoryAllowed := False, omp_metadataAllowed := False,
                         omp_reasonCode := ''emergency_mode''\<rparr>
               else deny ''emergency_mode'')
         else if \<not> rp_allowLocalContentMutation roomPolicy \<and> \<not> safeDirection
         then deny ''room_policy_stricter''
         else if mode = Mode_ghost \<or> mode = Mode_bunker
         then base\<lparr>omp_operationLogRetention := (if mode = Mode_bunker then RT_null else RT_memory_only),
                   omp_projectionRetention := RT_memory_only, omp_metadataAllowed := False,
                   omp_reasonCode := ''strict_mode''\<rparr>
         else if mode = Mode_offline_capsule
         then base\<lparr>omp_metadataAllowed := False, omp_reasonCode := ''offline_capsule_mode''\<rparr>
         else base\<lparr>omp_metadataAllowed := (if mode = Mode_standard
                     then rp_allowMetadataSignals roomPolicy else False),
                   omp_reasonCode := ''default_deny''\<rparr>)"

definition assertRoomObjectMutationAllowed ::
  "privacy_state \<Rightarrow> object_command \<Rightarrow> dref \<Rightarrow> object_mutation_policy \<Rightarrow> room_object option
     \<Rightarrow> unit res" where
  "assertRoomObjectMutationAllowed s command decision policy currentObject =
     ebind (need (ObjectError OC_decision_missing) (authentic s decision)) (\<lambda>d.
     ebind (throw_if (pd_verdict d \<noteq> Allowed) (ObjectError OC_policy_denied)) (\<lambda>_.
     ebind (throw_if (pd_capability d \<noteq> ROOM_OBJECT_CAPABILITY) (ObjectError OC_decision_mismatch)) (\<lambda>_.
     ebind (throw_if (pd_sideEffect d \<noteq> objectMutationScope (cm_command command))
       (ObjectError OC_decision_mismatch)) (\<lambda>_.
     ebind (throw_if (omp_command policy \<noteq> cm_command command) (ObjectError OC_decision_mismatch)) (\<lambda>_.
     ebind (throw_if (\<not> omp_allowed policy) (ObjectError OC_policy_denied)) (\<lambda>_.
     ebind (throw_if (omp_persistentContentAllowed policy)
       (ObjectError OC_content_persistence_forbidden)) (\<lambda>_.
     ebind (throw_if (omp_networkAllowed policy \<or> omp_notificationAllowed policy \<or> omp_aiAllowed policy)
       (ObjectError OC_forbidden_side_effect)) (\<lambda>_.
     ebind (throw_if (omp_endpointDefenseState policy = ED_active)
       (ObjectError OC_forbidden_side_effect)) (\<lambda>_.
     case currentObject of None \<Rightarrow> Inr ()
     | Some o' \<Rightarrow>
       ebind (throw_if (ro_roomId o' \<noteq> cm_roomId command) (ObjectError OC_room_mismatch)) (\<lambda>_.
       ebind (throw_if (ro_objectId o' \<noteq> cm_objectId command) (ObjectError OC_cross_object_reference)) (\<lambda>_.
       throw_if (ro_lifecycle o' = OL_deleted_tombstone) (ObjectError OC_object_is_terminal))))))))))))"

interpretation object_gate: decision_gate
  "\<lambda>s r (command, policy, current). assertRoomObjectMutationAllowed s command r policy current"
  "\<lambda>(command, policy, current). objectMutationScope (cm_command command)"
  by unfold_locales
    (auto simp: assertRoomObjectMutationAllowed_def ROOM_OBJECT_CAPABILITY_def ROOM_CAPABILITY_def)

section \<open>The resulting object\<close>

record built_object =
  bo_object :: room_object
  bo_previousRevision :: "int option"
  bo_resultingRevision :: int

definition kept :: "'a option \<Rightarrow> 'a option \<Rightarrow> 'a option" where
  "kept new old = (case new of None \<Rightarrow> old | Some x \<Rightarrow> Some x)"

definition created_base :: "object_command \<Rightarrow> jstr \<Rightarrow> object_kind_v1 \<Rightarrow> object_sensitivity
    \<Rightarrow> object_content \<Rightarrow> room_object" where
  "created_base command now kind sens content = \<lparr>ro_objectId = cm_objectId command,
     ro_roomId = cm_roomId command, ro_kind = kind, ro_revision = FIRST_OBJECT_REVISION,
     ro_lifecycle = OL_active, ro_sensitivity = sens, ro_createdAtLocal = now,
     ro_updatedAtLocal = now, ro_createdBy = cm_actorRef command,
     ro_updatedBy = cm_actorRef command, ro_redacted = False, ro_content = Some content\<rparr>"

definition buildCreatedObject :: "object_command \<Rightarrow> jstr \<Rightarrow> room_object res" where
  "buildCreatedObject command now = (case cm_args command of
      Message_create body reply \<Rightarrow> Inr (created_base command now OV_message OS_content
        (empty_content\<lparr>oc_body := Some body, oc_replyToObjectId := reply, oc_edited := Some False\<rparr>))
    | Note_create title body tags \<Rightarrow> Inr (created_base command now OV_note OS_content
        (empty_content\<lparr>oc_title := title, oc_body := Some body, oc_tags := Some tags\<rparr>))
    | Task_create f \<Rightarrow> Inr (created_base command now OV_task OS_content
        (empty_content\<lparr>oc_title := Some (tf_title f), oc_description := tf_description f,
           oc_status := Some (ST_task TS_todo), oc_assigneeRefs := Some (tf_assigneeRefs f),
           oc_dueAtLocal := tf_dueAtLocal f, oc_tags := Some (tf_tags f)\<rparr>))
    | Decision_create statement rationale \<Rightarrow> Inr (created_base command now OV_decision OS_content
        (empty_content\<lparr>oc_statement := Some statement, oc_rationale := rationale,
           oc_status := Some (ST_decision DS_proposed)\<rparr>))
    | Poll_create question options \<Rightarrow> Inr (created_base command now OV_poll OS_content
        (empty_content\<lparr>oc_question := Some question, oc_options := Some options,
           oc_status := Some (ST_poll PS_draft)\<rparr>))
    | File_ref_create localRefId m \<Rightarrow> Inr (created_base command now OV_file_ref OS_relationship
        (empty_content\<lparr>oc_localRefId := Some localRefId, oc_displayName := fm_displayName m,
           oc_mediaType := fm_mediaType m, oc_sizeBytes := fm_sizeBytes m\<rparr>))
    | _ \<Rightarrow> Inl (ObjectError OC_unknown_command))"

text \<open>The content an update leaves; the kind of the object is not consulted.\<close>

definition updated_content :: "command_args \<Rightarrow> object_content \<Rightarrow> object_content res" where
  "updated_content args c = (case args of
      Message_edit body \<Rightarrow> Inr (c\<lparr>oc_body := Some body, oc_edited := Some True\<rparr>)
    | Note_update_content title body \<Rightarrow>
        Inr (c\<lparr>oc_title := kept title (oc_title c), oc_body := Some body\<rparr>)
    | Note_update_tags tags \<Rightarrow> Inr (c\<lparr>oc_tags := Some tags\<rparr>)
    | Task_update_content f \<Rightarrow>
        Inr (c\<lparr>oc_title := Some (tf_title f), oc_description := kept (tf_description f) (oc_description c),
               oc_assigneeRefs := Some (tf_assigneeRefs f),
               oc_dueAtLocal := kept (tf_dueAtLocal f) (oc_dueAtLocal c), oc_tags := Some (tf_tags f)\<rparr>)
    | Task_update_status st \<Rightarrow>
        ebind (assertTaskStatusTransition (oc_status c) (ST_task st)) (\<lambda>_.
        Inr (c\<lparr>oc_status := Some (ST_task st)\<rparr>))
    | Decision_resolve st statement rationale superseded \<Rightarrow>
        ebind (assertDecisionStatusTransition (oc_status c) (ST_decision st)) (\<lambda>_.
        Inr (c\<lparr>oc_status := Some (ST_decision st), oc_statement := kept statement (oc_statement c),
               oc_rationale := kept rationale (oc_rationale c),
               oc_supersedesObjectId := kept superseded (oc_supersedesObjectId c)\<rparr>))
    | Poll_update_draft question options \<Rightarrow>
        ebind (assertPollDraftEditable (oc_status c)) (\<lambda>_.
        Inr (c\<lparr>oc_question := Some question, oc_options := Some options\<rparr>))
    | Poll_open \<Rightarrow>
        ebind (assertPollStatusTransition (oc_status c) (ST_poll PS_open_local_placeholder)) (\<lambda>_.
        Inr (c\<lparr>oc_status := Some (ST_poll PS_open_local_placeholder)\<rparr>))
    | Poll_close \<Rightarrow>
        ebind (assertPollStatusTransition (oc_status c) (ST_poll PS_closed_local_placeholder)) (\<lambda>_.
        Inr (c\<lparr>oc_status := Some (ST_poll PS_closed_local_placeholder)\<rparr>))
    | File_ref_update_metadata m \<Rightarrow>
        Inr (c\<lparr>oc_displayName := kept (fm_displayName m) (oc_displayName c),
               oc_mediaType := kept (fm_mediaType m) (oc_mediaType c),
               oc_sizeBytes := kept (fm_sizeBytes m) (oc_sizeBytes c)\<rparr>)
    | _ \<Rightarrow> Inl (ObjectError OC_unknown_command))"

definition with_meta :: "room_object \<Rightarrow> object_command \<Rightarrow> jstr \<Rightarrow> int \<Rightarrow> room_object" where
  "with_meta current command now newRev = current\<lparr>ro_updatedAtLocal := now,
     ro_updatedBy := cm_actorRef command, ro_revision := newRev\<rparr>"

definition applyContentUpdate :: "room_object \<Rightarrow> object_command \<Rightarrow> jstr \<Rightarrow> int \<Rightarrow> room_object res" where
  "applyContentUpdate current command now newRev = (case ro_content current of
      None \<Rightarrow> Inl (ObjectError OC_invalid_lifecycle_transition)
    | Some c \<Rightarrow> ebind (updated_content (cm_args command) c) (\<lambda>c'.
        Inr ((with_meta current command now newRev)\<lparr>ro_content := Some c'\<rparr>)))"

definition buildResultingObject ::
  "room_object option \<Rightarrow> object_command \<Rightarrow> jstr \<Rightarrow> built_object res" where
  "buildResultingObject current command nowLocal =
     (let cls = objectMutationClass (cm_command command) in
      if cls = OM_create then
        ebind (throw_if (current \<noteq> None) (ObjectError OC_invalid_lifecycle_transition)) (\<lambda>_.
        ebind (buildCreatedObject command nowLocal) (\<lambda>ob.
        Inr \<lparr>bo_object = ob, bo_previousRevision = None, bo_resultingRevision = FIRST_OBJECT_REVISION\<rparr>))
      else
        ebind (need (ObjectError OC_object_not_found) current) (\<lambda>cur.
        ebind (nextRoomObjectRevision (ro_revision cur)) (\<lambda>newRev.
        let base = with_meta cur command nowLocal newRev;
            result = (\<lambda>ob. \<lparr>bo_object = ob, bo_previousRevision = Some (ro_revision cur),
                            bo_resultingRevision = newRev\<rparr>)
        in if cls = OM_archive then
             ebind (assertObjectLifecycleAllows (ro_lifecycle cur) OM_archive) (\<lambda>_.
             Inr (result (base\<lparr>ro_lifecycle := OL_archived\<rparr>)))
           else if cls = OM_redact then
             ebind (assertObjectLifecycleAllows (ro_lifecycle cur) OM_redact) (\<lambda>_.
             Inr (result (base\<lparr>ro_lifecycle := OL_redacted, ro_redacted := True, ro_content := None\<rparr>)))
           else if cls = OM_tombstone then
             ebind (assertObjectLifecycleAllows (ro_lifecycle cur) OM_tombstone) (\<lambda>_.
             Inr (result (base\<lparr>ro_lifecycle := OL_deleted_tombstone, ro_redacted := True,
                               ro_content := None\<rparr>)))
           else
             ebind (assertObjectLifecycleAllows (ro_lifecycle cur) OM_content_update) (\<lambda>_.
             ebind (applyContentUpdate cur command nowLocal newRev) (\<lambda>ob. Inr (result ob))))))"

section \<open>Events and the reducer\<close>

text \<open>The event operation is a renaming of the command (\<open>COMMAND_TO_EVENT\<close> is one to one).\<close>

record object_event =
  ev_objectEventId :: jstr
  ev_roomId :: jstr
  ev_objectId :: jstr
  ev_kind :: object_kind_v1
  ev_command :: command_name
  ev_localSequence :: int
  ev_actor :: jstr
  ev_createdAtLocal :: jstr
  ev_previousRevision :: "int option"
  ev_resultingRevision :: int
  ev_resultingLifecycle :: object_lifecycle
  ev_object :: room_object

fun commandToEventOperation :: "command_name \<Rightarrow> string" where
  "commandToEventOperation N_message_create = ''message.created.v1''"
| "commandToEventOperation N_message_edit = ''message.edited.v1''"
| "commandToEventOperation N_message_redact = ''message.redacted.v1''"
| "commandToEventOperation N_note_create = ''note.created.v1''"
| "commandToEventOperation N_note_update_content = ''note.content_updated.v1''"
| "commandToEventOperation N_note_update_tags = ''note.tags_updated.v1''"
| "commandToEventOperation N_task_create = ''task.created.v1''"
| "commandToEventOperation N_task_update_content = ''task.content_updated.v1''"
| "commandToEventOperation N_task_update_status = ''task.status_updated.v1''"
| "commandToEventOperation N_decision_create = ''decision.created.v1''"
| "commandToEventOperation N_decision_resolve = ''decision.status_resolved.v1''"
| "commandToEventOperation N_poll_create = ''poll.created.v1''"
| "commandToEventOperation N_poll_update_draft = ''poll.draft_updated.v1''"
| "commandToEventOperation N_poll_open = ''poll.opened_placeholder.v1''"
| "commandToEventOperation N_poll_close = ''poll.closed_placeholder.v1''"
| "commandToEventOperation N_file_ref_create = ''file_ref.created_placeholder.v1''"
| "commandToEventOperation N_file_ref_update_metadata = ''file_ref.metadata_updated.v1''"
| "commandToEventOperation N_object_archive = ''room_object.archived.v1''"
| "commandToEventOperation N_object_redact = ''room_object.redacted.v1''"
| "commandToEventOperation N_object_tombstone = ''room_object.tombstoned.v1''"

lemma commandToEventOperation_inj: "inj_on commandToEventOperation (set ROOM_OBJECT_COMMAND_NAMES)"
  by (simp add: inj_on_def ROOM_OBJECT_COMMAND_NAMES_def)

definition createAcceptedRoomObjectEventV1 ::
  "object_command \<Rightarrow> built_object \<Rightarrow> jstr \<Rightarrow> int \<Rightarrow> jstr \<Rightarrow> object_event" where
  "createAcceptedRoomObjectEventV1 command built objectEventId localSequence now = \<lparr>
     ev_objectEventId = objectEventId, ev_roomId = cm_roomId command,
     ev_objectId = cm_objectId command, ev_kind = ro_kind (bo_object built),
     ev_command = cm_command command, ev_localSequence = localSequence,
     ev_actor = cm_actorRef command, ev_createdAtLocal = local_label now,
     ev_previousRevision = bo_previousRevision built,
     ev_resultingRevision = bo_resultingRevision built,
     ev_resultingLifecycle = ro_lifecycle (bo_object built), ev_object = bo_object built\<rparr>"

definition reduceRoomObjectEventV1 :: "room_object option \<Rightarrow> object_event \<Rightarrow> room_object res" where
  "reduceRoomObjectEventV1 current event =
     ebind (case ev_previousRevision event of
         None \<Rightarrow> throw_if (current \<noteq> None) (ObjectError OC_invalid_lifecycle_transition)
       | Some prev \<Rightarrow>
         ebind (need (ObjectError OC_object_not_found) current) (\<lambda>cur.
         ebind (throw_if (ro_objectId cur \<noteq> ev_objectId event) (ObjectError OC_cross_object_reference)) (\<lambda>_.
         ebind (throw_if (ro_roomId cur \<noteq> ev_roomId event) (ObjectError OC_room_mismatch)) (\<lambda>_.
         ebind (throw_if (ro_revision cur \<noteq> prev) (ObjectError OC_stale_revision)) (\<lambda>_.
         throw_if (ro_lifecycle cur = OL_deleted_tombstone) (ObjectError OC_object_is_terminal))))))
       (\<lambda>_. Inr (ev_object event))"

record object_projection =
  op_roomId :: jstr
  op_objects :: "room_object list"

definition emptyRoomObjectProjection :: "jstr \<Rightarrow> object_projection" where
  "emptyRoomObjectProjection roomId = \<lparr>op_roomId = roomId, op_objects = []\<rparr>"

definition object_at :: "object_projection \<Rightarrow> jstr \<Rightarrow> room_object option" where
  "object_at projection i = find (\<lambda>ob. ro_objectId ob = i) (op_objects projection)"

definition applyObjectEventToProjectionV1 ::
  "object_projection \<Rightarrow> object_event \<Rightarrow> object_projection res" where
  "applyObjectEventToProjectionV1 projection event =
     ebind (throw_if (ev_roomId event \<noteq> op_roomId projection) (ObjectError OC_room_mismatch)) (\<lambda>_.
     let current = object_at projection (ev_objectId event) in
     ebind (reduceRoomObjectEventV1 current event) (\<lambda>next.
     Inr (if current = None then projection\<lparr>op_objects := op_objects projection @ [next]\<rparr>
          else projection\<lparr>op_objects := upd_first (\<lambda>ob. ro_objectId ob = ev_objectId event) next
                 (op_objects projection)\<rparr>)))"

record object_replay_result =
  orr_projection :: object_projection
  orr_appliedEventCount :: nat

definition object_scan_step :: "jstr \<Rightarrow> int option \<Rightarrow> object_event \<Rightarrow> int option res" where
  "object_scan_step expectedRoomId previous event =
     ebind (throw_if (ev_roomId event \<noteq> expectedRoomId) (ObjectError OC_room_mismatch)) (\<lambda>_.
     ebind (throw_if (previous \<noteq> None \<and> ev_localSequence event \<noteq> the previous + 1)
       (ObjectError OC_invalid_lifecycle_transition)) (\<lambda>_.
     Inr (Some (ev_localSequence event))))"

definition replayRoomObjectEventsV1 ::
  "object_projection \<Rightarrow> object_event list \<Rightarrow> jstr \<Rightarrow> object_replay_result res" where
  "replayRoomObjectEventsV1 seed events expectedRoomId =
     ebind (throw_if (op_roomId seed \<noteq> expectedRoomId) (ObjectError OC_room_mismatch)) (\<lambda>_.
     ebind (throw_if (events \<noteq> [] \<and> ev_localSequence (hd events) \<noteq> 1)
       (ObjectError OC_invalid_lifecycle_transition)) (\<lambda>_.
     ebind (efold (object_scan_step expectedRoomId) None events) (\<lambda>_.
     ebind (efold applyObjectEventToProjectionV1 seed events) (\<lambda>dry.
     ebind (efold applyObjectEventToProjectionV1 seed events) (\<lambda>projection.
     Inr \<lparr>orr_projection = projection, orr_appliedEventCount = length events\<rparr>)))))"

definition summarizeRoomObjectV1 :: "room_object \<Rightarrow> bool \<Rightarrow> object_summary" where
  "summarizeRoomObjectV1 ob metadataAllowed = \<lparr>os_objectId = ro_objectId ob, os_roomId = ro_roomId ob,
     os_kind = ro_kind ob, os_lifecycle = ro_lifecycle ob, os_sensitivity = ro_sensitivity ob,
     os_redacted = ro_redacted ob,
     os_revision = (if metadataAllowed then Some (ro_revision ob) else None),
     os_contentPresent = (if metadataAllowed then Some (ro_content ob \<noteq> None) else None)\<rparr>"

end
