(* ===== verification/Object_Pipeline.thy ===== *)
theory Object_Pipeline
  imports Object_Events Event_Log Matrix_Rows Room_Log
begin

text \<open>
  The object-event logs (\<open>object-log.ts\<close>) and the single mutation pipeline
  (\<open>object-pipeline.ts\<close>).  A pipeline call returns its result, or the error it throws,
  with the log as it is afterwards.  \<open>object_run\<close> is a caller that starts from the
  empty projection and a new log and keeps the projection each successful call returns.
\<close>

section \<open>Object-event logs\<close>

definition assertObjectLogDecision :: "privacy_state \<Rightarrow> dref \<Rightarrow> side_effect_scope \<Rightarrow> unit res" where
  "assertObjectLogDecision s decision scope =
     ebind (need (ObjectError OC_decision_missing) (authentic s decision)) (\<lambda>d.
     ebind (throw_if (pd_verdict d \<noteq> Allowed) (ObjectError OC_policy_denied)) (\<lambda>_.
     throw_if (pd_capability d \<noteq> ROOM_CAPABILITY \<or> pd_sideEffect d \<noteq> scope)
       (ObjectError OC_decision_mismatch)))"

lemma assertObjectLogDecision_Inr:
  "assertObjectLogDecision s r scope = Inr u \<longleftrightarrow> (\<exists>d. authentic s r = Some d \<and> pd_verdict d = Allowed
     \<and> pd_capability d = Cap_persistence \<and> pd_sideEffect d = scope)"
  by (auto simp: assertObjectLogDecision_def ROOM_CAPABILITY_def)

interpretation object_log_gate: decision_gate assertObjectLogDecision "\<lambda>scope. scope"
  by unfold_locales (simp add: assertObjectLogDecision_Inr)

record object_memory_log =
  oml_roomId :: jstr
  oml_events :: "object_event list"

definition object_memory_check :: "object_memory_log \<Rightarrow> privacy_state \<Rightarrow> object_event \<Rightarrow> dref \<Rightarrow> unit res" where
  "object_memory_check log p event decision =
     ebind (assertObjectLogDecision p decision ''room.object_log.append'') (\<lambda>_.
     ebind (throw_if (ev_roomId event \<noteq> oml_roomId log) (ObjectError OC_room_mismatch)) (\<lambda>_.
     throw_if (ev_localSequence event \<noteq> int (length (oml_events log)) + 1)
       (ObjectError OC_invalid_lifecycle_transition)))"

definition object_memory_append ::
  "object_memory_log \<Rightarrow> privacy_state \<Rightarrow> object_event \<Rightarrow> dref
     \<Rightarrow> append_result res \<times> object_memory_log" where
  "object_memory_append log p event decision =
     (case object_memory_check log p event decision of
        Inl e \<Rightarrow> (Inl e, log)
      | Inr _ \<Rightarrow> (Inr (Appended_memory (ev_localSequence event)),
          log\<lparr>oml_events := oml_events log @ [event]\<rparr>))"

definition object_null_append ::
  "null_log \<Rightarrow> privacy_state \<Rightarrow> object_event \<Rightarrow> dref \<Rightarrow> append_result res \<times> null_log" where
  "object_null_append log p event decision =
     (case ebind (assertObjectLogDecision p decision ''room.object_log.append'') (\<lambda>_.
           throw_if (ev_roomId event \<noteq> nl_roomId log) (ObjectError OC_room_mismatch)) of
        Inl e \<Rightarrow> (Inl e, log)
      | Inr _ \<Rightarrow> (Inr (Discarded_by_null_policy (ev_localSequence event)),
          log\<lparr>nl_lastSequence := ev_localSequence event\<rparr>))"

text \<open>The interface \<open>RoomObjectLog\<close> with its two implementations.\<close>

datatype object_log = OLog_memory object_memory_log | OLog_null null_log

fun objlog_roomId :: "object_log \<Rightarrow> jstr" where
  "objlog_roomId (OLog_memory l) = oml_roomId l"
| "objlog_roomId (OLog_null l) = nl_roomId l"

fun objlog_nextLocalSequence :: "object_log \<Rightarrow> int" where
  "objlog_nextLocalSequence (OLog_memory l) = int (length (oml_events l)) + 1"
| "objlog_nextLocalSequence (OLog_null l) = nl_lastSequence l + 1"

fun objlog_append ::
  "object_log \<Rightarrow> privacy_state \<Rightarrow> object_event \<Rightarrow> dref \<Rightarrow> append_result res \<times> object_log" where
  "objlog_append (OLog_memory l) p event d = apsnd OLog_memory (object_memory_append l p event d)"
| "objlog_append (OLog_null l) p event d = apsnd OLog_null (object_null_append l p event d)"

fun objlog_readAll :: "object_log \<Rightarrow> privacy_state \<Rightarrow> dref \<Rightarrow> object_event list res" where
  "objlog_readAll (OLog_memory l) p d =
     ebind (assertObjectLogDecision p d ''room.object_log.read'') (\<lambda>_. Inr (oml_events l))"
| "objlog_readAll (OLog_null l) p d =
     ebind (assertObjectLogDecision p d ''room.object_log.read'') (\<lambda>_. Inr [])"

fun objlog_clear :: "object_log \<Rightarrow> privacy_state \<Rightarrow> dref \<Rightarrow> nat res \<times> object_log" where
  "objlog_clear (OLog_memory l) p d =
     (case assertObjectLogDecision p d ''room.object_log.clear'' of
        Inl e \<Rightarrow> (Inl e, OLog_memory l)
      | Inr _ \<Rightarrow> (Inr (length (oml_events l)), OLog_memory (l\<lparr>oml_events := []\<rparr>)))"
| "objlog_clear (OLog_null l) p d =
     (ebind (assertObjectLogDecision p d ''room.object_log.clear'') (\<lambda>_. Inr 0), OLog_null l)"

fun objlog_status :: "object_log \<Rightarrow> log_status" where
  "objlog_status (OLog_memory l) = \<lparr>lst_roomId = oml_roomId l, lst_retention = Memory_only,
     lst_retainedEventCount = length (oml_events l),
     lst_lastLocalSequence = int (length (oml_events l)),
     lst_replayAvailable = (0 < length (oml_events l))\<rparr>"
| "objlog_status (OLog_null l) = \<lparr>lst_roomId = nl_roomId l, lst_retention = Null_log,
     lst_retainedEventCount = 0, lst_lastLocalSequence = nl_lastSequence l,
     lst_replayAvailable = False\<rparr>"

fun objlog_events :: "object_log \<Rightarrow> object_event list" where
  "objlog_events (OLog_memory l) = oml_events l"
| "objlog_events (OLog_null l) = []"

lemma object_memory_check_Inr:
  "object_memory_check log p event d = Inr u \<longleftrightarrow>
     (\<exists>dc. authentic p d = Some dc \<and> pd_verdict dc = Allowed \<and> pd_capability dc = Cap_persistence
        \<and> pd_sideEffect dc = ''room.object_log.append'')
   \<and> ev_roomId event = oml_roomId log \<and> ev_localSequence event = int (length (oml_events log)) + 1"
  unfolding object_memory_check_def ebind_eq_Inr throw_if_eq_Inr assertObjectLogDecision_Inr by auto

lemma object_memory_append_Inr:
  "object_memory_append log p event d = (Inr r, log') \<longleftrightarrow>
     (\<exists>dc. authentic p d = Some dc \<and> pd_verdict dc = Allowed \<and> pd_capability dc = Cap_persistence
        \<and> pd_sideEffect dc = ''room.object_log.append'')
   \<and> ev_roomId event = oml_roomId log \<and> ev_localSequence event = int (length (oml_events log)) + 1
   \<and> r = Appended_memory (ev_localSequence event) \<and> log' = log\<lparr>oml_events := oml_events log @ [event]\<rparr>"
proof -
  have "object_memory_append log p event d = (Inr r, log') \<longleftrightarrow> object_memory_check log p event d = Inr ()
     \<and> r = Appended_memory (ev_localSequence event) \<and> log' = log\<lparr>oml_events := oml_events log @ [event]\<rparr>"
    by (cases "object_memory_check log p event d") (auto simp: object_memory_append_def)
  then show ?thesis unfolding object_memory_check_Inr by blast
qed

lemma object_memory_append_Inl: "object_memory_append log p event d = (Inl e, log') \<Longrightarrow> log' = log"
  unfolding object_memory_append_def by (auto split: sum.splits)

interpretation object_log: event_log object_memory_append oml_events oml_roomId ev_localSequence
  ev_roomId "''room.object_log.append''"
proof (unfold_locales, goal_cases)
  case (1 s p i d r s')
  then show ?case unfolding object_memory_append_Inr by auto
next
  case (2 s p i d x s')
  then show ?case by (rule object_memory_append_Inl)
qed

lemma objlog_append_Inr:
  assumes "objlog_append log p event d = (Inr r, log')"
  shows "(\<exists>dc. authentic p d = Some dc \<and> pd_verdict dc = Allowed
        \<and> pd_sideEffect dc = ''room.object_log.append'')
   \<and> ev_roomId event = objlog_roomId log \<and> objlog_roomId log' = objlog_roomId log
   \<and> ar_localSequence r = ev_localSequence event
   \<and> objlog_events log' = (if ar_retained r then objlog_events log @ [event] else [])"
  using assms
  by (cases log) (auto simp: apsnd_def map_prod_def object_memory_append_Inr object_null_append_def
      assertObjectLogDecision_Inr split: prod.splits sum.splits)

lemma objlog_append_Inl: "objlog_append log p event d = (Inl e, log') \<Longrightarrow> log' = log"
  by (cases log) (auto simp: apsnd_def map_prod_def object_null_append_def
      dest: object_memory_append_Inl split: prod.splits sum.splits)

section \<open>The pipeline\<close>

definition matrix_operation :: "object_mutation_class \<Rightarrow> string" where
  "matrix_operation cls = (case cls of OM_create \<Rightarrow> ''room.object.create''
     | OM_redact \<Rightarrow> ''room.object.redact'' | OM_archive \<Rightarrow> ''room.object.archive''
     | OM_tombstone \<Rightarrow> ''room.object.tombstone'' | OM_content_update \<Rightarrow> ''room.object.update'')"

definition assertMatrixLocal :: "privacy_mode \<Rightarrow> object_mutation_class \<Rightarrow> unit res" where
  "assertMatrixLocal mode cls =
     throw_if (md_effect (evaluatePolicyMatrix (room_matrix_input mode (matrix_operation cls)))
       \<noteq> PE_memory_only) (ObjectError OC_policy_denied)"

definition assertReferenceInRoom ::
  "object_projection \<Rightarrow> jstr \<Rightarrow> object_kind_v1 option \<Rightarrow> unit res" where
  "assertReferenceInRoom projection refId requiredKind =
     ebind (need (ObjectError OC_cross_object_reference) (object_at projection refId)) (\<lambda>target.
     throw_if (requiredKind \<noteq> None \<and> ro_kind target \<noteq> the requiredKind)
       (ObjectError OC_cross_object_reference))"

definition assertReferences :: "object_projection \<Rightarrow> command_args \<Rightarrow> unit res" where
  "assertReferences projection args = (case args of
       Message_create body (Some r) \<Rightarrow> assertReferenceInRoom projection r None
     | Decision_resolve st statement rationale (Some r) \<Rightarrow>
         assertReferenceInRoom projection r (Some OV_decision)
     | _ \<Rightarrow> Inr ())"

definition assertRevisionMatch :: "object_command \<Rightarrow> room_object option \<Rightarrow> unit res" where
  "assertRevisionMatch command current =
     (if objectMutationClass (cm_command command) = OM_create
      then throw_if (current \<noteq> None) (ObjectError OC_invalid_lifecycle_transition)
      else ebind (need (ObjectError OC_object_not_found) current) (\<lambda>cur.
           ebind (need (ObjectError OC_missing_expected_revision) (cm_expectedRevision command)) (\<lambda>exp.
           ebind (throw_if (exp < ro_revision cur) (ObjectError OC_stale_revision)) (\<lambda>_.
           throw_if (exp > ro_revision cur) (ObjectError OC_future_revision)))))"

fun kindFromCreate :: "command_name \<Rightarrow> object_kind_v1" where
  "kindFromCreate N_note_create = OV_note"
| "kindFromCreate N_task_create = OV_task"
| "kindFromCreate N_decision_create = OV_decision"
| "kindFromCreate N_poll_create = OV_poll"
| "kindFromCreate N_file_ref_create = OV_file_ref"
| "kindFromCreate _ = OV_message"

record object_mutation_input =
  omi_projection :: object_projection
  omi_command :: jsval
  omi_roomPolicy :: room_policy
  omi_mutationDecision :: dref
  omi_storageDecision :: dref
  omi_objectEventId :: jstr
  omi_nowBuild :: jstr
  omi_nowEvent :: jstr

record object_mutation_result =
  omr_event :: object_event
  omr_nextProjection :: object_projection
  omr_objectSummary :: object_summary
  omr_retained :: bool

text \<open>Steps 1 to 9: everything before the append.  The clock is read twice.\<close>

definition prepareObjectMutation ::
  "privacy_state \<Rightarrow> object_mutation_input \<Rightarrow> object_log \<Rightarrow> (object_command \<times> object_event) res" where
  "prepareObjectMutation s inp log =
     ebind (validateRoomObjectMutationCommandV1 (omi_command inp)) (\<lambda>command.
     ebind (throw_if (cm_roomId command \<noteq> op_roomId (omi_projection inp)) (ObjectError OC_room_mismatch)) (\<lambda>_.
     ebind (throw_if (objlog_roomId log \<noteq> op_roomId (omi_projection inp)) (ObjectError OC_room_mismatch)) (\<lambda>_.
     let current = object_at (omi_projection inp) (cm_objectId command);
         objectKind = (case current of Some ob \<Rightarrow> ro_kind ob | None \<Rightarrow> kindFromCreate (cm_command command));
         policy = resolveRoomObjectMutationPolicy (cm_mode command) (cm_command command) objectKind
           (omi_roomPolicy inp)
     in ebind (assertReferences (omi_projection inp) (cm_args command)) (\<lambda>_.
     ebind (assertMatrixLocal (cm_mode command) (objectMutationClass (cm_command command))) (\<lambda>_.
     ebind (assertRoomObjectMutationAllowed s command (omi_mutationDecision inp) policy current) (\<lambda>_.
     ebind (assertRevisionMatch command current) (\<lambda>_.
     ebind (buildResultingObject current command (local_label (omi_nowBuild inp))) (\<lambda>built.
     Inr (command, createAcceptedRoomObjectEventV1 command built (omi_objectEventId inp)
            (objlog_nextLocalSequence log) (omi_nowEvent inp))))))))))"

definition strict_summary_mode :: "privacy_mode \<Rightarrow> bool" where
  "strict_summary_mode m \<longleftrightarrow> m = Mode_ghost \<or> m = Mode_bunker \<or> m = Mode_emergency"

definition finishObjectMutation ::
  "object_projection \<Rightarrow> object_command \<Rightarrow> object_event \<Rightarrow> bool \<Rightarrow> object_mutation_result res" where
  "finishObjectMutation projection command event retained =
     ebind (applyObjectEventToProjectionV1 projection event) (\<lambda>next.
     ebind (need JsTypeError (object_at next (cm_objectId command))) (\<lambda>summarized.
     Inr \<lparr>omr_event = event, omr_nextProjection = next,
          omr_objectSummary = summarizeRoomObjectV1 summarized (\<not> strict_summary_mode (cm_mode command)),
          omr_retained = retained\<rparr>))"

definition applyLocalRoomObjectMutationV1 ::
  "privacy_state \<Rightarrow> object_mutation_input \<Rightarrow> object_log \<Rightarrow> object_mutation_result res \<times> object_log" where
  "applyLocalRoomObjectMutationV1 s inp log = (case prepareObjectMutation s inp log of
       Inl e \<Rightarrow> (Inl e, log)
     | Inr (command, event) \<Rightarrow> (case objlog_append log s event (omi_storageDecision inp) of
           (Inl e, log') \<Rightarrow> (Inl e, log')
         | (Inr a, log') \<Rightarrow>
             (finishObjectMutation (omi_projection inp) command event (ar_retained a), log')))"

section \<open>What a prepared mutation is\<close>

text \<open>The change an event may make to the object it names: a first object, or the next
  revision of a living one, with redaction only ever added.\<close>

definition object_change :: "room_object \<Rightarrow> room_object \<Rightarrow> bool" where
  "object_change cur ob \<longleftrightarrow> ro_revision ob = ro_revision cur + 1 \<and> ro_revision ob \<le> MAX_OBJECT_REVISION
     \<and> ro_lifecycle cur \<noteq> OL_deleted_tombstone \<and> ro_kind ob = ro_kind cur
     \<and> ro_createdAtLocal ob = ro_createdAtLocal cur \<and> ro_createdBy ob = ro_createdBy cur
     \<and> ro_sensitivity ob = ro_sensitivity cur
     \<and> (ro_lifecycle cur = OL_active \<and> ro_lifecycle ob = OL_active \<and> ro_redacted ob = ro_redacted cur
          \<and> ro_content cur \<noteq> None \<and> ro_content ob \<noteq> None
        \<or> ro_lifecycle cur \<in> {OL_active, OL_redacted} \<and> ro_lifecycle ob = OL_archived
          \<and> ro_redacted ob = ro_redacted cur \<and> ro_content ob = ro_content cur
        \<or> ro_lifecycle ob \<in> {OL_redacted, OL_deleted_tombstone} \<and> ro_redacted ob \<and> ro_content ob = None)"

definition object_step :: "jstr \<Rightarrow> room_object option \<Rightarrow> object_event \<Rightarrow> bool" where
  "object_step rid current ev \<longleftrightarrow>
     ev_roomId ev = rid \<and> ro_roomId (ev_object ev) = rid \<and> ro_objectId (ev_object ev) = ev_objectId ev
   \<and> (case current of
        None \<Rightarrow> ev_previousRevision ev = None \<and> ro_revision (ev_object ev) = 1
          \<and> ro_lifecycle (ev_object ev) = OL_active \<and> \<not> ro_redacted (ev_object ev)
          \<and> ro_content (ev_object ev) \<noteq> None
      | Some cur \<Rightarrow> ev_previousRevision ev = Some (ro_revision cur) \<and> ro_objectId cur = ev_objectId ev
          \<and> ro_roomId cur = rid \<and> object_change cur (ev_object ev))"

lemma buildCreatedObject_Inr:
  assumes "buildCreatedObject cmd now = Inr ob"
  shows "ro_objectId ob = cm_objectId cmd \<and> ro_roomId ob = cm_roomId cmd \<and> ro_revision ob = 1
     \<and> ro_lifecycle ob = OL_active \<and> \<not> ro_redacted ob \<and> ro_content ob \<noteq> None"
  using assms
  by (cases "cm_args cmd")
    (auto simp: buildCreatedObject_def created_base_def FIRST_OBJECT_REVISION_def)

lemma buildResultingObject_None:
  "buildResultingObject None cmd now = Inr b \<longleftrightarrow> objectMutationClass (cm_command cmd) = OM_create
     \<and> (\<exists>ob. buildCreatedObject cmd now = Inr ob
       \<and> b = \<lparr>bo_object = ob, bo_previousRevision = None, bo_resultingRevision = FIRST_OBJECT_REVISION\<rparr>)"
  by (auto simp: buildResultingObject_def Let_def)

lemma applyContentUpdate_Inr:
  "applyContentUpdate cur cmd now r = Inr ob \<Longrightarrow> ro_content cur \<noteq> None
     \<and> (\<exists>c. ob = (with_meta cur cmd now r)\<lparr>ro_content := Some c\<rparr>)"
  unfolding applyContentUpdate_def by (cases "ro_content cur") auto

text \<open>What a change of an existing object builds, by its class: an archived, an erased or a
  rewritten object.\<close>

lemma built_change:
  assumes "buildResultingObject (Some cur) cmd now = Inr b"
  obtains r where "nextRoomObjectRevision (ro_revision cur) = Inr r"
    and "bo_previousRevision b = Some (ro_revision cur)"
    and "ro_lifecycle cur \<in> {OL_active, OL_redacted}
        \<and> bo_object b = (with_meta cur cmd now r)\<lparr>ro_lifecycle := OL_archived\<rparr>
      \<or> ro_lifecycle cur \<noteq> OL_deleted_tombstone \<and> (\<exists>l \<in> {OL_redacted, OL_deleted_tombstone}.
          bo_object b = (with_meta cur cmd now r)\<lparr>ro_lifecycle := l, ro_redacted := True, ro_content := None\<rparr>)
      \<or> ro_lifecycle cur = OL_active \<and> applyContentUpdate cur cmd now r = Inr (bo_object b)"
  using assms
  by (cases "ro_lifecycle cur") (auto simp: buildResultingObject_def Let_def split: if_splits)

lemma buildResultingObject_Some:
  assumes "buildResultingObject (Some cur) cmd now = Inr b"
  shows "bo_previousRevision b = Some (ro_revision cur) \<and> object_change cur (bo_object b)
     \<and> ro_objectId (bo_object b) = ro_objectId cur \<and> ro_roomId (bo_object b) = ro_roomId cur"
  using assms
proof (cases rule: built_change)
  case (1 r)
  from 1(3) show ?thesis
  proof (elim disjE conjE bexE)
    assume "applyContentUpdate cur cmd now r = Inr (bo_object b)" "ro_lifecycle cur = OL_active"
    then show ?thesis
      using 1(1,2) by (auto simp: object_change_def with_meta_def dest!: applyContentUpdate_Inr)
  qed (use 1(1,2) in \<open>auto simp: object_change_def with_meta_def\<close>)
qed

lemma object_at_Some: "object_at P i = Some ob \<Longrightarrow> ro_objectId ob = i \<and> ob \<in> set (op_objects P)"
  unfolding object_at_def by (drule find_SomeD) simp

lemma assertRoomObjectMutationAllowed_current:
  "assertRoomObjectMutationAllowed s cmd d pol (Some cur) = Inr u \<Longrightarrow>
     ro_roomId cur = cm_roomId cmd \<and> ro_objectId cur = cm_objectId cmd
     \<and> ro_lifecycle cur \<noteq> OL_deleted_tombstone"
  by (auto simp: assertRoomObjectMutationAllowed_def)

lemma prepare_facts:
  assumes "prepareObjectMutation s inp log = Inr (cmd, ev)"
  shows "validateRoomObjectMutationCommandV1 (omi_command inp) = Inr cmd"
    and "ev_objectId ev = cm_objectId cmd" and "ev_localSequence ev = objlog_nextLocalSequence log"
    and "objlog_roomId log = op_roomId (omi_projection inp)"
    and "object_step (op_roomId (omi_projection inp))
           (object_at (omi_projection inp) (ev_objectId ev)) ev"
proof -
  let ?cur = "object_at (omi_projection inp) (cm_objectId cmd)"
  obtain b pol u where v: "validateRoomObjectMutationCommandV1 (omi_command inp) = Inr cmd"
    and room: "cm_roomId cmd = op_roomId (omi_projection inp)"
      "objlog_roomId log = op_roomId (omi_projection inp)"
    and allowed: "assertRoomObjectMutationAllowed s cmd (omi_mutationDecision inp) pol ?cur = Inr u"
    and b: "buildResultingObject ?cur cmd (local_label (omi_nowBuild inp)) = Inr b"
    and ev: "ev = createAcceptedRoomObjectEventV1 cmd b (omi_objectEventId inp)
          (objlog_nextLocalSequence log) (omi_nowEvent inp)"
    using assms by (auto simp: prepareObjectMutation_def Let_def)
  show "validateRoomObjectMutationCommandV1 (omi_command inp) = Inr cmd" by (rule v)
  show "ev_objectId ev = cm_objectId cmd" "ev_localSequence ev = objlog_nextLocalSequence log"
    by (simp_all add: ev createAcceptedRoomObjectEventV1_def)
  show "objlog_roomId log = op_roomId (omi_projection inp)" by (rule room)
  show "object_step (op_roomId (omi_projection inp))
           (object_at (omi_projection inp) (ev_objectId ev)) ev"
  proof (cases ?cur)
    case None
    then show ?thesis
      using b room by (auto simp: object_step_def ev createAcceptedRoomObjectEventV1_def
          buildResultingObject_None dest!: buildCreatedObject_Inr)
  next
    case (Some cur)
    then show ?thesis
      using b room buildResultingObject_Some [of cur cmd] object_at_Some [OF Some]
        assertRoomObjectMutationAllowed_current allowed
      by (auto simp: object_step_def ev createAcceptedRoomObjectEventV1_def)
  qed
qed

section \<open>Applying an event to the projection\<close>

definition object_ok :: "jstr \<Rightarrow> room_object \<Rightarrow> bool" where
  "object_ok rid ob \<longleftrightarrow> ro_roomId ob = rid \<and> 1 \<le> ro_revision ob \<and> ro_revision ob \<le> MAX_OBJECT_REVISION
     \<and> ro_redacted ob = (ro_content ob = None)
     \<and> (ro_lifecycle ob = OL_active \<longrightarrow> \<not> ro_redacted ob)
     \<and> (ro_lifecycle ob \<in> {OL_redacted, OL_deleted_tombstone} \<longrightarrow> ro_redacted ob)"

definition object_inv :: "jstr \<Rightarrow> object_projection \<Rightarrow> bool" where
  "object_inv rid P \<longleftrightarrow> op_roomId P = rid \<and> distinct (map ro_objectId (op_objects P))
     \<and> list_all (object_ok rid) (op_objects P)"

definition object_le :: "room_object \<Rightarrow> room_object \<Rightarrow> bool" where
  "object_le a b \<longleftrightarrow> b = a \<or> (ro_objectId b = ro_objectId a \<and> ro_roomId b = ro_roomId a
     \<and> ro_kind b = ro_kind a \<and> ro_createdAtLocal b = ro_createdAtLocal a
     \<and> ro_createdBy b = ro_createdBy a \<and> ro_revision a < ro_revision b
     \<and> (ro_redacted a \<longrightarrow> ro_redacted b)
     \<and> (ro_lifecycle b = OL_active \<longrightarrow> ro_lifecycle a = OL_active)
     \<and> ro_lifecycle a \<noteq> OL_deleted_tombstone)"

definition projection_le :: "object_projection \<Rightarrow> object_projection \<Rightarrow> bool" where
  "projection_le P Q \<longleftrightarrow> op_roomId Q = op_roomId P
     \<and> (\<forall>i a. object_at P i = Some a \<longrightarrow> (\<exists>b. object_at Q i = Some b \<and> object_le a b))"

lemma object_le_refl [simp]: "object_le a a"
  by (simp add: object_le_def)

lemma object_le_trans: "object_le a b \<Longrightarrow> object_le b c \<Longrightarrow> object_le a c"
  unfolding object_le_def by (elim disjE conjE; simp)

lemma projection_le_refl [simp]: "projection_le P P"
  by (simp add: projection_le_def)

lemma projection_le_trans: "projection_le P Q \<Longrightarrow> projection_le Q R \<Longrightarrow> projection_le P R"
  unfolding projection_le_def by (metis object_le_trans)

lemma object_change_le: "object_change a b \<Longrightarrow> ro_objectId b = ro_objectId a \<Longrightarrow>
    ro_roomId b = ro_roomId a \<Longrightarrow> object_le a b"
  by (auto simp: object_change_def object_le_def)

lemma object_change_ok: "object_change a b \<Longrightarrow> object_ok rid a \<Longrightarrow> ro_roomId b = rid \<Longrightarrow> object_ok rid b"
  by (auto simp: object_change_def object_ok_def)

lemma apply_object_step:
  assumes "object_step (op_roomId P) (object_at P (ev_objectId ev)) ev"
  shows "applyObjectEventToProjectionV1 P ev = Inr (case object_at P (ev_objectId ev) of
      None \<Rightarrow> P\<lparr>op_objects := op_objects P @ [ev_object ev]\<rparr>
    | Some _ \<Rightarrow> P\<lparr>op_objects := upd_first (\<lambda>ob. ro_objectId ob = ev_objectId ev) (ev_object ev)
        (op_objects P)\<rparr>)"
  using assms
  by (auto simp: object_step_def applyObjectEventToProjectionV1_def reduceRoomObjectEventV1_def
      object_change_def split: option.splits)

lemma object_at_after:
  assumes "object_step (op_roomId P) (object_at P (ev_objectId ev)) ev"
    and "applyObjectEventToProjectionV1 P ev = Inr Q"
  shows "op_roomId Q = op_roomId P"
    and "object_at Q i = (if i = ev_objectId ev then Some (ev_object ev) else object_at P i)"
proof -
  have id: "ro_objectId (ev_object ev) = ev_objectId ev" using assms(1) by (simp add: object_step_def)
  show "op_roomId Q = op_roomId P"
    using assms(2) by (auto simp: apply_object_step [OF assms(1)] split: option.splits)
  show "object_at Q i = (if i = ev_objectId ev then Some (ev_object ev) else object_at P i)"
  proof (cases "object_at P (ev_objectId ev)")
    case None
    then have "Q = P\<lparr>op_objects := op_objects P @ [ev_object ev]\<rparr>"
      using assms(2) by (simp add: apply_object_step [OF assms(1)])
    then show ?thesis
      using None id by (auto simp: object_at_def find_append split: option.splits)
  next
    case (Some cur)
    then have Q: "Q = P\<lparr>op_objects := upd_first (\<lambda>ob. ro_objectId ob = ev_objectId ev) (ev_object ev)
        (op_objects P)\<rparr>"
      using assms(2) by (simp add: apply_object_step [OF assms(1)])
    show ?thesis
    proof (cases "i = ev_objectId ev")
      case True
      then show ?thesis
        using find_upd_first_same [OF Some [unfolded object_at_def]] id by (simp add: Q object_at_def)
    next
      case False
      have "find (\<lambda>ob. ro_objectId ob = i) (upd_first (\<lambda>ob. ro_objectId ob = ev_objectId ev) (ev_object ev)
          (op_objects P)) = find (\<lambda>ob. ro_objectId ob = i) (op_objects P)"
        by (rule find_upd_first_other) (use False id in auto)
      then show ?thesis using False by (simp add: Q object_at_def)
    qed
  qed
qed

lemma object_inv_at: "object_inv rid P \<Longrightarrow> object_at P i = Some ob \<Longrightarrow> object_ok rid ob"
  by (auto simp: object_inv_def list_all_iff dest!: object_at_Some)

lemma object_inv_after:
  assumes "object_inv (op_roomId P) P" and st: "object_step (op_roomId P) (object_at P (ev_objectId ev)) ev"
    and app: "applyObjectEventToProjectionV1 P ev = Inr Q"
  shows "object_inv (op_roomId P) Q"
proof (cases "object_at P (ev_objectId ev)")
  case None
  then have Q: "Q = P\<lparr>op_objects := op_objects P @ [ev_object ev]\<rparr>"
    using app by (simp add: apply_object_step [OF st])
  have "object_ok (op_roomId P) (ev_object ev)"
    using st None by (auto simp: object_step_def object_ok_def MAX_OBJECT_REVISION_def MAX_SAFE_INTEGER_def)
  moreover have "ev_objectId ev \<notin> ro_objectId ` set (op_objects P)"
    using None by (simp add: object_at_def find_key_None)
  ultimately show ?thesis using assms(1) st by (auto simp: object_inv_def Q object_step_def)
next
  case (Some cur)
  then have Q: "Q = P\<lparr>op_objects := upd_first (\<lambda>ob. ro_objectId ob = ev_objectId ev) (ev_object ev)
        (op_objects P)\<rparr>"
    using app by (simp add: apply_object_step [OF st])
  have ch: "object_change cur (ev_object ev)" and ids: "ro_objectId (ev_object ev) = ro_objectId cur"
    and rm: "ro_roomId (ev_object ev) = op_roomId P"
    using st Some by (auto simp: object_step_def)
  have "object_ok (op_roomId P) (ev_object ev)"
    using object_change_ok [OF ch object_inv_at [OF assms(1) Some] rm] .
  moreover have "map ro_objectId (op_objects Q) = map ro_objectId (op_objects P)"
    unfolding Q using map_upd_first [OF Some [unfolded object_at_def] ids] by simp
  ultimately show ?thesis
    using assms(1) set_upd_first_subset [of _ "ev_object ev" "op_objects P"]
    by (fastforce simp: object_inv_def Q list_all_iff)
qed

lemma projection_le_after:
  assumes st: "object_step (op_roomId P) (object_at P (ev_objectId ev)) ev"
    and app: "applyObjectEventToProjectionV1 P ev = Inr Q"
  shows "projection_le P Q"
  unfolding projection_le_def
proof (intro conjI allI impI)
  show "op_roomId Q = op_roomId P" by (rule object_at_after(1) [OF st app])
  fix i a assume a: "object_at P i = Some a"
  show "\<exists>b. object_at Q i = Some b \<and> object_le a b"
  proof (cases "i = ev_objectId ev")
    case True
    then have "object_le a (ev_object ev)"
      using st a by (intro object_change_le) (auto simp: object_step_def)
    then show ?thesis using True by (simp add: object_at_after(2) [OF st app])
  next
    case False
    then show ?thesis using a by (simp add: object_at_after(2) [OF st app])
  qed
qed

section \<open>Guarantees of the pipeline\<close>

lemma assertMatrixLocal_Inr:
  "assertMatrixLocal m cls = Inr u \<longleftrightarrow>
     m \<in> set KNOWN_MODES \<and> (m = Mode_emergency \<longrightarrow> cls \<in> {OM_redact, OM_tombstone})"
proof -
  have "md_effect (evaluatePolicyMatrix (room_matrix_input m (matrix_operation cls))) =
      (if m \<notin> set KNOWN_MODES \<or> m = Mode_emergency \<and> cls \<notin> {OM_redact, OM_tombstone}
       then PE_deny else PE_memory_only)"
    by (cases cls) (simp_all add: matrix_operation_def room_row_effects)
  then show ?thesis by (simp add: assertMatrixLocal_def)
qed

lemma prepare_authorised:
  assumes "prepareObjectMutation s inp log = Inr (cmd, ev)"
  shows "\<exists>d. authentic s (omi_mutationDecision inp) = Some d \<and> pd_verdict d = Allowed
      \<and> pd_sideEffect d = objectMutationScope (cm_command cmd)"
    and "cm_mode cmd = Mode_emergency \<Longrightarrow> objectMutationClass (cm_command cmd) \<in> {OM_redact, OM_tombstone}"
    and "objectMutationClass (cm_command cmd) \<noteq> OM_create \<Longrightarrow> \<exists>cur. object_at (omi_projection inp)
      (ev_objectId ev) = Some cur \<and> cm_expectedRevision cmd = Some (ro_revision cur)"
proof -
  let ?cur = "object_at (omi_projection inp) (cm_objectId cmd)"
  obtain pol u u' u'' b where
    allowed: "assertRoomObjectMutationAllowed s cmd (omi_mutationDecision inp) pol ?cur = Inr u"
    and matrix: "assertMatrixLocal (cm_mode cmd) (objectMutationClass (cm_command cmd)) = Inr u'"
    and revision: "assertRevisionMatch cmd ?cur = Inr u''"
    and ev: "ev = createAcceptedRoomObjectEventV1 cmd b (omi_objectEventId inp)
          (objlog_nextLocalSequence log) (omi_nowEvent inp)"
    using assms by (auto simp: prepareObjectMutation_def Let_def)
  show "\<exists>d. authentic s (omi_mutationDecision inp) = Some d \<and> pd_verdict d = Allowed
      \<and> pd_sideEffect d = objectMutationScope (cm_command cmd)"
    using object_gate.accepts [where q = "(cmd, pol, ?cur)" and u = u] allowed by auto
  show "cm_mode cmd = Mode_emergency \<Longrightarrow> objectMutationClass (cm_command cmd) \<in> {OM_redact, OM_tombstone}"
    using matrix by (simp add: assertMatrixLocal_Inr)
  show "objectMutationClass (cm_command cmd) \<noteq> OM_create \<Longrightarrow> \<exists>cur. object_at (omi_projection inp)
      (ev_objectId ev) = Some cur \<and> cm_expectedRevision cmd = Some (ro_revision cur)"
    using revision by (auto simp: assertRevisionMatch_def ev createAcceptedRoomObjectEventV1_def
        not_less intro: order_antisym)
qed

text \<open>After a successful append nothing can throw.\<close>

lemma finish_total:
  assumes "prepareObjectMutation s inp log = Inr (cmd, ev)"
  obtains Q sm where "applyObjectEventToProjectionV1 (omi_projection inp) ev = Inr Q"
    "finishObjectMutation (omi_projection inp) cmd ev retained = Inr \<lparr>omr_event = ev,
       omr_nextProjection = Q, omr_objectSummary = sm, omr_retained = retained\<rparr>"
proof -
  note st = prepare_facts(5) [OF assms]
  obtain Q where Q: "applyObjectEventToProjectionV1 (omi_projection inp) ev = Inr Q"
    using apply_object_step [OF st] by blast
  have "object_at Q (cm_objectId cmd) = Some (ev_object ev)"
    using object_at_after(2) [OF st Q] prepare_facts(2) [OF assms] by simp
  then show ?thesis using that Q by (simp add: finishObjectMutation_def)
qed

lemma object_mutation_cases:
  obtains (error) e where "applyLocalRoomObjectMutationV1 s inp log = (Inl e, log)"
  | (ok) cmd ev a log' Q sm where "prepareObjectMutation s inp log = Inr (cmd, ev)"
      "objlog_append log s ev (omi_storageDecision inp) = (Inr a, log')"
      "applyObjectEventToProjectionV1 (omi_projection inp) ev = Inr Q"
      "applyLocalRoomObjectMutationV1 s inp log = (Inr \<lparr>omr_event = ev, omr_nextProjection = Q,
         omr_objectSummary = sm, omr_retained = ar_retained a\<rparr>, log')"
proof (cases "prepareObjectMutation s inp log")
  case (Inl e)
  then show ?thesis using error by (simp add: applyLocalRoomObjectMutationV1_def)
next
  case (Inr p)
  obtain cmd ev where p: "p = (cmd, ev)" by (cases p)
  obtain r log' where app: "objlog_append log s ev (omi_storageDecision inp) = (r, log')"
    by (cases "objlog_append log s ev (omi_storageDecision inp)")
  show ?thesis
  proof (cases r)
    case (Inl e)
    then have "log' = log" using app objlog_append_Inl by simp
    then show ?thesis using error Inr p app Inl by (simp add: applyLocalRoomObjectMutationV1_def)
  next
    case (Inr a)
    obtain Q sm where "applyObjectEventToProjectionV1 (omi_projection inp) ev = Inr Q"
      "finishObjectMutation (omi_projection inp) cmd ev (ar_retained a) = Inr \<lparr>omr_event = ev,
         omr_nextProjection = Q, omr_objectSummary = sm, omr_retained = ar_retained a\<rparr>"
      using finish_total \<open>prepareObjectMutation s inp log = Inr p\<close> p by metis
    then show ?thesis
      using ok \<open>prepareObjectMutation s inp log = Inr p\<close> p app Inr
      by (simp add: applyLocalRoomObjectMutationV1_def)
  qed
qed

text \<open>C2.  An object mutation is all or nothing and exactly authorised: an error leaves the log
  untouched; a success used an authentic allowed decision of the command's own scope and
  another of the append scope, an object command in emergency mode only redacts or
  tombstones, a change of an object names its current revision, the event is the next of the
  log, which keeps it when it is a memory log, and the projection changes at that object only,
  to the event's object.\<close>

theorem object_mutation_atomic:
  assumes "applyLocalRoomObjectMutationV1 s inp log = (res, log')"
  shows "case res of Inl e \<Rightarrow> log' = log
     | Inr r \<Rightarrow> \<exists>cmd d d'. validateRoomObjectMutationCommandV1 (omi_command inp) = Inr cmd
         \<and> authentic s (omi_mutationDecision inp) = Some d \<and> pd_verdict d = Allowed
         \<and> pd_sideEffect d = objectMutationScope (cm_command cmd)
         \<and> authentic s (omi_storageDecision inp) = Some d' \<and> pd_verdict d' = Allowed
         \<and> pd_sideEffect d' = ''room.object_log.append''
         \<and> \<not> (cm_mode cmd = Mode_emergency
              \<and> objectMutationClass (cm_command cmd) \<notin> {OM_redact, OM_tombstone})
         \<and> (objectMutationClass (cm_command cmd) = OM_create
            \<or> (\<exists>cur. object_at (omi_projection inp) (cm_objectId cmd) = Some cur
                 \<and> cm_expectedRevision cmd = Some (ro_revision cur)
                 \<and> ro_revision (ev_object (omr_event r)) = ro_revision cur + 1))
         \<and> ev_localSequence (omr_event r) = objlog_nextLocalSequence log
         \<and> objlog_events log' = (if omr_retained r then objlog_events log @ [omr_event r] else [])
         \<and> object_at (omr_nextProjection r) =
             (object_at (omi_projection inp))(cm_objectId cmd \<mapsto> ev_object (omr_event r))"
proof (cases rule: object_mutation_cases [of s inp log])
  case (error e)
  then show ?thesis using assms by simp
next
  case (ok cmd ev a log1 Q sm)
  note f = prepare_facts [OF ok(1)] and g = prepare_authorised [OF ok(1)]
  have at: "object_at Q = (object_at (omi_projection inp))(cm_objectId cmd \<mapsto> ev_object ev)"
    using object_at_after(2) [OF f(5) ok(3)] f(2) by auto
  have next_rev: "ro_revision (ev_object ev) = ro_revision cur + 1"
    if "object_at (omi_projection inp) (cm_objectId cmd) = Some cur" for cur
    using f(2,5) that by (simp add: object_step_def object_change_def)
  have current: "objectMutationClass (cm_command cmd) = OM_create
      \<or> (\<exists>cur. object_at (omi_projection inp) (cm_objectId cmd) = Some cur
         \<and> cm_expectedRevision cmd = Some (ro_revision cur)
         \<and> ro_revision (ev_object ev) = ro_revision cur + 1)"
    using g(3) next_rev f(2) by auto
  show ?thesis
    using assms ok(4) f(1,2,3) g(1,2) at current objlog_append_Inr [OF ok(2)] by auto
qed

definition sample_object_decisions :: privacy_state where
  "sample_object_decisions = snd (issuePolicyDecision Cap_persistence Allowed Mode_private ''room.object_log.append''
     (snd (issuePolicyDecision Cap_persistence Allowed Mode_private ''room.object.create'' privacy_init)))"

definition sample_object_input :: object_mutation_input where
  "sample_object_input = \<lparr>omi_projection = emptyRoomObjectProjection (js ''room-local-1''),
     omi_command = sample_note_command,
     omi_roomPolicy = resolveRoomPolicy (room_policy_input.make Mode_private RK_workspace None None None),
     omi_mutationDecision = 0, omi_storageDecision = 1, omi_objectEventId = js ''evt'',
     omi_nowBuild = js ''t1'', omi_nowEvent = js ''t2''\<rparr>"

definition new_object_log :: "jstr \<Rightarrow> bool \<Rightarrow> object_log" where
  "new_object_log rid retain = (if retain then OLog_memory \<lparr>oml_roomId = rid, oml_events = []\<rparr>
     else OLog_null (new_null_log rid))"

definition sample_built :: built_object where
  "sample_built = \<lparr>bo_object = created_base sample_note (local_label (js ''t1'')) OV_note OS_content
       (empty_content\<lparr>oc_title := None, oc_body := Some (js ''hello''), oc_tags := Some [js ''x'']\<rparr>),
     bo_previousRevision = None, bo_resultingRevision = 1\<rparr>"

definition sample_object_event :: object_event where
  "sample_object_event = createAcceptedRoomObjectEventV1 sample_note sample_built (js ''evt'') 1 (js ''t2'')"

lemma sample_prepared:
  "prepareObjectMutation sample_object_decisions sample_object_input
     (new_object_log (js ''room-local-1'') True) = Inr (sample_note, sample_object_event)"
proof -
  have cmd: "cm_command sample_note = N_note_create"
    by (simp add: cm_command_def sample_note_def)
  have cls: "objectMutationClass N_note_create = OM_create"
    "objectMutationScope N_note_create = ''room.object.create''"
    by (simp_all add: objectMutationClass_def objectMutationScope_def is_create_name_def)
  have pol: "rp_allowLocalContentMutation
      (resolveRoomPolicy (room_policy_input.make Mode_private RK_workspace None None None))"
    by (simp add: resolveRoomPolicy_mutation room_policy_input.defs KNOWN_MODES_def)
  have matrix: "assertMatrixLocal Mode_private OM_create = Inr ()"
    by (simp add: assertMatrixLocal_Inr KNOWN_MODES_def)
  have allowed: "assertRoomObjectMutationAllowed sample_object_decisions sample_note 0
      (resolveRoomObjectMutationPolicy Mode_private N_note_create k
        (resolveRoomPolicy (room_policy_input.make Mode_private RK_workspace None None None))) None = Inr ()" for k
    by (simp add: assertRoomObjectMutationAllowed_def sample_object_decisions_def cmd cls pol
        issuePolicyDecision_def Let_def privacy_init_def authentic_def isPolicyDecision_def
        ROOM_OBJECT_CAPABILITY_def ROOM_CAPABILITY_def resolveRoomObjectMutationPolicy_def)
  have none: "object_at (emptyRoomObjectProjection r) i = None" for r i
    by (simp add: object_at_def emptyRoomObjectProjection_def)
  have built: "buildResultingObject None sample_note (local_label (js ''t1'')) = Inr sample_built"
    by (simp add: buildResultingObject_None cmd cls sample_built_def FIRST_OBJECT_REVISION_def)
      (simp add: buildCreatedObject_def sample_note_def)
  have fields: "cm_mode sample_note = Mode_private" "cm_roomId sample_note = js ''room-local-1''"
    "cm_args sample_note = Note_create None (js ''hello'') [js ''x'']"
    by (simp_all add: sample_note_def)
  show ?thesis
    by (simp add: prepareObjectMutation_def sample_object_input_def sample_note_valid none cmd cls
        matrix allowed built fields Let_def new_object_log_def assertReferences_def
        assertRevisionMatch_def sample_object_event_def)
      (simp add: emptyRoomObjectProjection_def)
qed

lemma sample_mutation:
  "\<exists>r. applyLocalRoomObjectMutationV1 sample_object_decisions sample_object_input
      (new_object_log (js ''room-local-1'') True) =
     (Inr r, OLog_memory \<lparr>oml_roomId = js ''room-local-1'', oml_events = [sample_object_event]\<rparr>)
   \<and> omr_event r = sample_object_event \<and> omr_retained r"
proof -
  have ev: "ev_roomId sample_object_event = js ''room-local-1''" "ev_localSequence sample_object_event = 1"
    by (simp_all add: sample_object_event_def createAcceptedRoomObjectEventV1_def sample_note_def)
  have "object_memory_append \<lparr>oml_roomId = js ''room-local-1'', oml_events = []\<rparr> sample_object_decisions
      sample_object_event 1 = (Inr (Appended_memory 1),
        \<lparr>oml_roomId = js ''room-local-1'', oml_events = [sample_object_event]\<rparr>)"
    by (simp add: object_memory_append_Inr ev)
      (simp add: sample_object_decisions_def issuePolicyDecision_def Let_def privacy_init_def
        authentic_def isPolicyDecision_def)
  then have "objlog_append (new_object_log (js ''room-local-1'') True) sample_object_decisions
      sample_object_event 1 = (Inr (Appended_memory 1),
        OLog_memory \<lparr>oml_roomId = js ''room-local-1'', oml_events = [sample_object_event]\<rparr>)"
    by (simp add: new_object_log_def)
  moreover obtain Q sm where "finishObjectMutation (omi_projection sample_object_input) sample_note
      sample_object_event True = Inr \<lparr>omr_event = sample_object_event, omr_nextProjection = Q,
        omr_objectSummary = sm, omr_retained = True\<rparr>"
    using finish_total [OF sample_prepared] by metis
  ultimately show ?thesis
    by (simp add: applyLocalRoomObjectMutationV1_def sample_prepared)
      (simp add: sample_object_input_def)
qed

theorem object_mutation_atomic_witness:
  "\<exists>r. fst (applyLocalRoomObjectMutationV1 sample_object_decisions sample_object_input
        (new_object_log (js ''room-local-1'') True)) = Inr r
     \<and> ev_localSequence (omr_event r) = 1"
proof -
  obtain r where r: "applyLocalRoomObjectMutationV1 sample_object_decisions sample_object_input
      (new_object_log (js ''room-local-1'') True) =
     (Inr r, OLog_memory \<lparr>oml_roomId = js ''room-local-1'', oml_events = [sample_object_event]\<rparr>)"
    using sample_mutation by blast
  show ?thesis
    using object_mutation_atomic [OF r] r by (auto simp: new_object_log_def)
qed

section \<open>Histories of mutations\<close>

definition object_run_step ::
  "object_projection \<times> object_log \<Rightarrow> privacy_state \<times> object_mutation_input \<Rightarrow> object_projection \<times> object_log" where
  "object_run_step st op = (case applyLocalRoomObjectMutationV1 (fst op)
        ((snd op)\<lparr>omi_projection := fst st\<rparr>) (snd st) of
       (Inl e, log') \<Rightarrow> (fst st, log')
     | (Inr r, log') \<Rightarrow> (omr_nextProjection r, log'))"

definition object_run ::
  "jstr \<Rightarrow> bool \<Rightarrow> (privacy_state \<times> object_mutation_input) list \<Rightarrow> object_projection \<times> object_log" where
  "object_run rid retain ops =
     foldl object_run_step (emptyRoomObjectProjection rid, new_object_log rid retain) ops"

lemma object_run_step_cases:
  obtains (error) "object_run_step (P, log) op = (P, log)"
  | (ok) ev a log' Q where "object_step (op_roomId P) (object_at P (ev_objectId ev)) ev"
      "applyObjectEventToProjectionV1 P ev = Inr Q" "objlog_roomId log = op_roomId P"
      "ev_localSequence ev = objlog_nextLocalSequence log"
      "objlog_append log (fst op) ev (omi_storageDecision (snd op)) = (Inr a, log')"
      "object_run_step (P, log) op = (Q, log')"
proof (cases rule: object_mutation_cases [of "fst op" "(snd op)\<lparr>omi_projection := P\<rparr>" log])
  case (error e)
  then show ?thesis using that(1) by (simp add: object_run_step_def)
next
  case (ok cmd ev a log' Q sm)
  show ?thesis
    by (rule that(2) [of ev Q a log'])
      (use ok prepare_facts [OF ok(1)] in \<open>simp_all add: object_run_step_def\<close>)
qed

lemma object_run_step_inv:
  assumes "object_inv rid P" and "object_run_step (P, log) op = (Q, log')"
  shows "object_inv rid Q \<and> projection_le P Q"
proof (cases rule: object_run_step_cases [of P log op])
  case error
  then show ?thesis using assms by simp
next
  case (ok ev a log1 R)
  have "op_roomId P = rid" using assms(1) by (simp add: object_inv_def)
  then show ?thesis
    using assms ok object_inv_after [OF _ ok(1,2)] projection_le_after [OF ok(1,2)] by auto
qed

lemma object_run_from_inv:
  assumes "object_inv rid (fst st)"
  shows "object_inv rid (fst (foldl object_run_step st ops))
     \<and> projection_le (fst st) (fst (foldl object_run_step st ops))"
  using assms
proof (induction ops arbitrary: st)
  case Nil
  then show ?case by simp
next
  case (Cons op ops)
  have "object_inv rid (fst (object_run_step st op)) \<and> projection_le (fst st) (fst (object_run_step st op))"
    using object_run_step_inv [OF Cons.prems] by (metis prod.collapse)
  then show ?case using Cons.IH [of "object_run_step st op"] projection_le_trans by auto
qed

lemma object_inv_empty: "object_inv rid (emptyRoomObjectProjection rid)"
  by (simp add: object_inv_def emptyRoomObjectProjection_def)

text \<open>C3.  The object projection is well formed and only grows: after any history of mutations
  with any commands, policies and decisions, object ids are distinct, every object is of the
  room with a revision in range, and its content is absent exactly when it is redacted (never
  when active).  Any continuation keeps every object, its kind, author and creation time, never
  lowers a revision, never undoes a redaction, never reactivates, and leaves a tombstone as it
  is.\<close>

theorem object_projection_invariant:
  "object_inv rid (fst (object_run rid retain ops))
   \<and> projection_le (fst (object_run rid retain ops)) (fst (object_run rid retain (ops @ later)))"
proof -
  have "object_inv rid (fst (object_run rid retain ops))"
    unfolding object_run_def
    using object_run_from_inv [of rid "(emptyRoomObjectProjection rid, new_object_log rid retain)" ops]
    by (simp add: object_inv_empty)
  then show ?thesis
    using object_run_from_inv [of rid "object_run rid retain ops" later] by (simp add: object_run_def)
qed

text \<open>The log of a memory run is numbered, of the room, and folds to the projection.\<close>

definition logged :: "jstr \<Rightarrow> object_projection \<times> object_log \<Rightarrow> bool" where
  "logged rid st \<longleftrightarrow> (\<exists>l. snd st = OLog_memory l \<and> object_log.log_ok l \<and> oml_roomId l = rid
     \<and> op_roomId (fst st) = rid
     \<and> efold applyObjectEventToProjectionV1 (emptyRoomObjectProjection rid) (oml_events l) = Inr (fst st))"

lemma logged_step: "logged rid st \<Longrightarrow> logged rid (object_run_step st op)"
proof -
  assume L: "logged rid st"
  obtain P log where st: "st = (P, log)" by (cases st)
  obtain l where l: "log = OLog_memory l" "object_log.log_ok l" "oml_roomId l = rid" "op_roomId P = rid"
    "efold applyObjectEventToProjectionV1 (emptyRoomObjectProjection rid) (oml_events l) = Inr P"
    using L by (auto simp: logged_def st)
  show ?thesis
  proof (cases rule: object_run_step_cases [of P log op])
    case error
    then show ?thesis using L by (simp add: st)
  next
    case (ok ev a log' Q)
    obtain l' where l': "object_memory_append l (fst op) ev (omi_storageDecision (snd op)) = (Inr a, l')"
      "log' = OLog_memory l'"
      using ok(5) l(1) by (cases "object_memory_append l (fst op) ev (omi_storageDecision (snd op))") auto
    have "oml_events l' = oml_events l @ [ev]" "oml_roomId l' = rid"
      using l'(1) l(3) by (auto simp: object_memory_append_Inr)
    then show ?thesis
      using object_log.append_log_ok [OF l(2) l'(1)] l ok(2,6) object_at_after(1) [OF ok(1,2)] l'(2)
      by (simp add: logged_def st efold_append)
  qed
qed

lemma logged_run: "logged rid (object_run rid True ops)"
proof -
  have "logged rid (foldl object_run_step st ops)" if "logged rid st" for st
    using that by (induction ops arbitrary: st) (simp_all add: logged_step)
  moreover have "logged rid (emptyRoomObjectProjection rid, new_object_log rid True)"
    by (simp add: logged_def new_object_log_def object_log.log_ok_def emptyRoomObjectProjection_def)
  ultimately show ?thesis by (simp add: object_run_def)
qed

lemma object_scan_ok:
  "numbered_from_one ev_localSequence es \<Longrightarrow> \<forall>e \<in> set es. ev_roomId e = rid \<Longrightarrow>
     efold (object_scan_step rid) None es = Inr (if es = [] then None else Some (int (length es)))"
proof (induction es rule: rev_induct)
  case Nil
  then show ?case by simp
next
  case (snoc e es)
  then show ?case by (simp add: efold_append object_scan_step_def numbered_from_one_snoc)
qed

text \<open>C4.  The object log replays to the projection: after any history of mutations over a
  new in-memory log, what \<open>readAll\<close> gives an authorised reader passes replay's checks and
  replays from the empty projection to exactly the projection the caller holds.\<close>

theorem object_log_replays:
  assumes "objlog_readAll (snd (object_run rid True ops)) p d = Inr es"
  shows "replayRoomObjectEventsV1 (emptyRoomObjectProjection rid) es rid =
     Inr \<lparr>orr_projection = fst (object_run rid True ops), orr_appliedEventCount = length es\<rparr>"
proof -
  obtain l where l: "snd (object_run rid True ops) = OLog_memory l" "object_log.log_ok l" "oml_roomId l = rid"
    "efold applyObjectEventToProjectionV1 (emptyRoomObjectProjection rid) (oml_events l)
       = Inr (fst (object_run rid True ops))"
    using logged_run [of rid ops] by (auto simp: logged_def)
  have es: "es = oml_events l" using assms l(1) by auto
  have n: "numbered_from_one ev_localSequence es" "\<forall>e \<in> set es. ev_roomId e = rid"
    using l(2,3) by (auto simp: object_log.log_ok_def es)
  have "es = [] \<or> ev_localSequence (hd es) = 1"
    using n(1) by (cases es) (auto simp: numbered_from_one_def)
  then show ?thesis
    using l(4) object_scan_ok [OF n] by (simp add: replayRoomObjectEventsV1_def emptyRoomObjectProjection_def es)
qed

theorem object_log_replays_witness:
  "\<exists>r. replayRoomObjectEventsV1 (emptyRoomObjectProjection (js ''room-local-1'')) [sample_object_event]
     (js ''room-local-1'') = Inr r"
proof -
  let ?rid = "js ''room-local-1''"
  let ?p = "snd (issuePolicyDecision Cap_persistence Allowed Mode_private ''room.object_log.read'' privacy_init)"
  have same: "sample_object_input\<lparr>omi_projection := emptyRoomObjectProjection ?rid\<rparr> = sample_object_input"
    by (simp add: sample_object_input_def)
  have "snd (object_run ?rid True [(sample_object_decisions, sample_object_input)]) =
      OLog_memory \<lparr>oml_roomId = ?rid, oml_events = [sample_object_event]\<rparr>"
    using sample_mutation by (auto simp: object_run_def object_run_step_def same)
  moreover have "assertObjectLogDecision ?p 0 ''room.object_log.read'' = Inr ()"
    by (simp add: assertObjectLogDecision_Inr issuePolicyDecision_def Let_def privacy_init_def
        authentic_def isPolicyDecision_def)
  ultimately have "objlog_readAll (snd (object_run ?rid True
      [(sample_object_decisions, sample_object_input)])) ?p 0 = Inr [sample_object_event]"
    by simp
  from object_log_replays [OF this] show ?thesis by blast
qed

text \<open>The kind of an object plays no part in what a command may do to it: the barrier
  gives the same answer, and the resulting object is the same but for its kind, whatever the
  kind is.  A message edit is accepted on a note, and a status command meets a content with no
  status of its machine as a thrown \<open>TypeError\<close>, not as one of the pipeline's errors.\<close>

theorem object_kind_unchecked:
  "assertRoomObjectMutationAllowed s cmd d (resolveRoomObjectMutationPolicy m n k rp) (Some (cur\<lparr>ro_kind := k\<rparr>))
     = assertRoomObjectMutationAllowed s cmd d (resolveRoomObjectMutationPolicy m n (ro_kind cur) rp) (Some cur)
   \<and> buildResultingObject (Some (cur\<lparr>ro_kind := k\<rparr>)) cmd now
     = ebind (buildResultingObject (Some cur) cmd now)
         (\<lambda>b. Inr (b\<lparr>bo_object := (bo_object b)\<lparr>ro_kind := k\<rparr>\<rparr>))
   \<and> updated_content (Message_edit body) c = Inr (c\<lparr>oc_body := Some body, oc_edited := Some True\<rparr>)
   \<and> updated_content (Task_update_status TS_done) (empty_content\<lparr>oc_body := Some body\<rparr>) = Inl JsTypeError"
proof -
  have "resolveRoomObjectMutationPolicy m n k rp =
      (resolveRoomObjectMutationPolicy m n (ro_kind cur) rp)\<lparr>omp_objectKind := k\<rparr>"
    by (simp add: resolveRoomObjectMutationPolicy_def Let_def)
  then have "assertRoomObjectMutationAllowed s cmd d (resolveRoomObjectMutationPolicy m n k rp) (Some (cur\<lparr>ro_kind := k\<rparr>))
     = assertRoomObjectMutationAllowed s cmd d (resolveRoomObjectMutationPolicy m n (ro_kind cur) rp) (Some cur)"
    by (simp add: assertRoomObjectMutationAllowed_def)
  moreover have "ebind (applyContentUpdate (cur\<lparr>ro_kind := k\<rparr>) cmd now r) f =
      ebind (applyContentUpdate cur cmd now r) (\<lambda>ob. f (ob\<lparr>ro_kind := k\<rparr>))"
    for r and f :: "room_object \<Rightarrow> built_object res"
    by (cases cur; cases "ro_content cur") (simp_all add: applyContentUpdate_def ebind_assoc with_meta_def)
  ultimately show ?thesis
    by (cases cur; cases "objectMutationClass (cm_command cmd)")
      (simp_all add: buildResultingObject_def Let_def ebind_assoc with_meta_def updated_content_def
        status_machine_defs assertStatusTransition_def empty_content_def)
qed

end
