(* ===== verification/Membership_Capability.thy ===== *)
theory Membership_Capability
  imports Membership_Types
begin

text \<open>
  Local capabilities of \<open>packages/rooms/src/membership/\<close>: default-deny resolution
  (\<open>capability-resolution.ts\<close>), attenuation and the currency check
  (\<open>capability-attenuation.ts\<close>), and the authorization context that ties a current
  membership, a current descriptor and an authentic decision together
  (\<open>authorization-context.ts\<close>).
\<close>

section \<open>Resolution\<close>

record capability_resolution_input =
  cri_membership :: membership_record
  cri_requestedCapability :: capability_name
  cri_mode :: privacy_mode
  cri_roomPolicy :: room_policy
  cri_objectKind :: "object_kind_v1 option"
  cri_objectId :: "jstr option"
  cri_requestedView :: "view_class option"
  cri_deviceRiskLevel :: "risk_level option"

datatype capability_resolution = CR_allowed capability_descriptor string | CR_denied string

definition MUTATION_CAPS :: "capability_name list" where
  "MUTATION_CAPS = [CN_object_create, CN_object_update, CN_object_redact, CN_object_archive,
     CN_object_tombstone]"

definition MEMBERSHIP_MGMT_CAPS :: "capability_name list" where
  "MEMBERSHIP_MGMT_CAPS = [CN_membership_add, CN_membership_change_role, CN_membership_suspend,
     CN_membership_reactivate, CN_membership_remove]"

definition ADMIN_CAPS :: "capability_name list" where
  "ADMIN_CAPS = [CN_policy_tighten, CN_lifecycle_update]"

definition BUNKER_CAPS :: "capability_name list" where
  "BUNKER_CAPS = [CN_summary_read, CN_object_list, CN_membership_list_redacted,
     CN_membership_detail_redacted, CN_audit_read_redacted]"

definition isMutation :: "capability_name \<Rightarrow> bool" where
  "isMutation cap \<longleftrightarrow> cap \<in> set MUTATION_CAPS \<or> cap \<in> set MEMBERSHIP_MGMT_CAPS \<or> cap \<in> set ADMIN_CAPS"

definition capability_descriptor_for :: "capability_resolution_input \<Rightarrow> capability_descriptor" where
  "capability_descriptor_for inp = \<lparr>cd_roomId = mb_roomId (cri_membership inp),
     cd_memberRef = mb_memberRef (cri_membership inp),
     cd_membershipId = mb_membershipId (cri_membership inp),
     cd_membershipRevision = mb_revision (cri_membership inp),
     cd_capability = cri_requestedCapability inp,
     cd_objectKinds = map_option (\<lambda>k. [k]) (cri_objectKind inp),
     cd_exactObjectId = cri_objectId inp, cd_maximumView = cri_requestedView inp,
     cd_sourceRole = mb_role (cri_membership inp), cd_authoritative = False\<rparr>"

definition resolveRoomLocalCapabilityV1 :: "capability_resolution_input \<Rightarrow> capability_resolution" where
  "resolveRoomLocalCapabilityV1 inp =
     (let membership = cri_membership inp; cap = cri_requestedCapability inp; mode = cri_mode inp
      in if cap \<notin> set ROOM_CAPABILITY_NAMES then CR_denied ''unknown_capability''
         else if mb_state membership \<noteq> MS_active then CR_denied ''membership_not_active''
         else if \<not> roleIsEligibleFor (mb_role membership) cap then CR_denied ''role_not_eligible''
         else if mode = Mode_emergency then CR_denied ''emergency_mode''
         else if mode = Mode_bunker \<and> cap \<notin> set BUNKER_CAPS then CR_denied ''strict_mode''
         else if isMutation cap \<and> \<not> rp_allowLocalContentMutation (cri_roomPolicy inp)
         then CR_denied ''room_policy_stricter''
         else if cri_deviceRiskLevel inp = Some Risk_critical \<and> isMutation cap
         then CR_denied ''device_risk_tighten''
         else CR_allowed (capability_descriptor_for inp) ''default_deny'')"

section \<open>Attenuation\<close>

fun VIEW_RANK :: "view_class \<Rightarrow> nat" where
  "VIEW_RANK VC_room_summary_redacted = 0"
| "VIEW_RANK VC_object_summary_redacted = 0"
| "VIEW_RANK VC_room_summary = 1"
| "VIEW_RANK VC_object_summary = 1"
| "VIEW_RANK VC_object_detail_redacted = 1"
| "VIEW_RANK VC_object_detail_content = 2"

fun OBJECT_CAP_RANK :: "capability_name \<Rightarrow> nat option" where
  "OBJECT_CAP_RANK CN_summary_read = Some 0"
| "OBJECT_CAP_RANK CN_object_list = Some 1"
| "OBJECT_CAP_RANK CN_object_detail_read = Some 2"
| "OBJECT_CAP_RANK CN_object_search_local = Some 3"
| "OBJECT_CAP_RANK CN_object_create = Some 4"
| "OBJECT_CAP_RANK CN_object_update = Some 4"
| "OBJECT_CAP_RANK CN_object_redact = Some 4"
| "OBJECT_CAP_RANK CN_object_archive = Some 4"
| "OBJECT_CAP_RANK CN_object_tombstone = Some 4"
| "OBJECT_CAP_RANK _ = None"

definition isCapabilityNarrowerOrEqual :: "capability_name \<Rightarrow> capability_name \<Rightarrow> bool" where
  "isCapabilityNarrowerOrEqual candidate parent \<longleftrightarrow> candidate = parent
     \<or> (case (OBJECT_CAP_RANK candidate, OBJECT_CAP_RANK parent) of
          (Some c, Some p) \<Rightarrow> c \<le> p | _ \<Rightarrow> False)"

definition kindsSubset :: "object_kind_v1 list option \<Rightarrow> object_kind_v1 list option \<Rightarrow> bool" where
  "kindsSubset candidate parent = (case parent of None \<Rightarrow> True
     | Some ps \<Rightarrow> (case candidate of None \<Rightarrow> False | Some cs \<Rightarrow> list_all (\<lambda>k. k \<in> set ps) cs))"

definition viewWithin :: "view_class option \<Rightarrow> view_class option \<Rightarrow> bool" where
  "viewWithin candidate parent = (case parent of None \<Rightarrow> True
     | Some p \<Rightarrow> (case candidate of None \<Rightarrow> False | Some c \<Rightarrow> VIEW_RANK c \<le> VIEW_RANK p))"

definition isRoomCapabilitySubsetV1 :: "capability_descriptor \<Rightarrow> capability_descriptor \<Rightarrow> bool" where
  "isRoomCapabilitySubsetV1 candidate parent =
     (if cd_roomId candidate \<noteq> cd_roomId parent \<or> cd_memberRef candidate \<noteq> cd_memberRef parent
         \<or> cd_membershipId candidate \<noteq> cd_membershipId parent
         \<or> cd_membershipRevision candidate \<noteq> cd_membershipRevision parent
         \<or> cd_sourceRole candidate \<noteq> cd_sourceRole parent \<or> cd_authoritative candidate
      then False
      else if \<not> isCapabilityNarrowerOrEqual (cd_capability candidate) (cd_capability parent) then False
      else if \<not> kindsSubset (cd_objectKinds candidate) (cd_objectKinds parent) then False
      else if cd_exactObjectId parent \<noteq> None \<and> cd_exactObjectId candidate \<noteq> cd_exactObjectId parent
      then False
      else viewWithin (cd_maximumView candidate) (cd_maximumView parent))"

record attenuation =
  att_capability :: "capability_name option"
  att_objectKinds :: "object_kind_v1 list option"
  att_exactObjectId :: "jstr option"
  att_maximumView :: "view_class option"

definition override :: "'a option \<Rightarrow> 'a option \<Rightarrow> 'a option" where
  "override new old = (case new of None \<Rightarrow> old | Some x \<Rightarrow> Some x)"

definition attenuateRoomCapabilityDescriptorV1 ::
  "capability_descriptor \<Rightarrow> attenuation \<Rightarrow> capability_descriptor res" where
  "attenuateRoomCapabilityDescriptorV1 parent a =
     (let candidate = parent\<lparr>
        cd_capability := (case att_capability a of None \<Rightarrow> cd_capability parent | Some c \<Rightarrow> c),
        cd_objectKinds := override (att_objectKinds a) (cd_objectKinds parent),
        cd_exactObjectId := override (att_exactObjectId a) (cd_exactObjectId parent),
        cd_maximumView := override (att_maximumView a) (cd_maximumView parent),
        cd_authoritative := False\<rparr>
      in if \<not> isRoomCapabilitySubsetV1 candidate parent then Inl (MembershipError MC_capability_widening)
         else Inr candidate)"

section \<open>Currency and the authorization context\<close>

definition assertRoomCapabilityDescriptorCurrentV1 ::
  "capability_descriptor \<Rightarrow> membership_record \<Rightarrow> unit res" where
  "assertRoomCapabilityDescriptorCurrentV1 d m =
     ebind (throw_if (cd_authoritative d) (MembershipError MC_capability_scope)) (\<lambda>_.
     ebind (throw_if (cd_roomId d \<noteq> mb_roomId m \<or> cd_memberRef d \<noteq> mb_memberRef m
         \<or> cd_membershipId d \<noteq> mb_membershipId m) (MembershipError MC_capability_scope)) (\<lambda>_.
     ebind (throw_if (cd_membershipRevision d \<noteq> mb_revision m) (MembershipError MC_capability_stale)) (\<lambda>_.
     ebind (throw_if (cd_sourceRole d \<noteq> mb_role m) (MembershipError MC_capability_stale)) (\<lambda>_.
     ebind (throw_if (mb_state m \<noteq> MS_active) (MembershipError MC_capability_stale)) (\<lambda>_.
     throw_if (\<not> roleIsEligibleFor (mb_role m) (cd_capability d)) (MembershipError MC_capability_stale))))))"

definition ROOM_MEMBERSHIP_CAPABILITY :: policy_capability where
  "ROOM_MEMBERSHIP_CAPABILITY = ROOM_CAPABILITY"

record authorization_context =
  ac_membership :: membership_record
  ac_capability :: capability_descriptor
  ac_decision :: dref

record authorization_request =
  ar_requiredCapability :: capability_name
  ar_requiredSideEffect :: side_effect_scope
  ar_roomId :: jstr
  ar_objectId :: "jstr option"
  ar_objectKind :: "object_kind_v1 option"

definition assertRoomAuthorizationContextV1 ::
  "privacy_state \<Rightarrow> authorization_context \<Rightarrow> membership_record \<Rightarrow> authorization_request \<Rightarrow> unit res" where
  "assertRoomAuthorizationContextV1 s context currentMembership req =
     ebind (assertRoomCapabilityDescriptorCurrentV1 (ac_capability context) currentMembership) (\<lambda>_.
     ebind (throw_if (cd_capability (ac_capability context) \<noteq> ar_requiredCapability req)
       (MembershipError MC_capability_denied)) (\<lambda>_.
     ebind (throw_if (cd_roomId (ac_capability context) \<noteq> ar_roomId req
         \<or> mb_roomId currentMembership \<noteq> ar_roomId req) (MembershipError MC_capability_scope)) (\<lambda>_.
     ebind (throw_if (cd_exactObjectId (ac_capability context) \<noteq> None
         \<and> cd_exactObjectId (ac_capability context) \<noteq> ar_objectId req)
       (MembershipError MC_capability_scope)) (\<lambda>_.
     ebind (throw_if (case (cd_objectKinds (ac_capability context), ar_objectKind req) of
           (Some ks, Some k) \<Rightarrow> k \<notin> set ks | _ \<Rightarrow> False) (MembershipError MC_capability_scope)) (\<lambda>_.
     ebind (need (MembershipError MC_decision_mismatch) (authentic s (ac_decision context))) (\<lambda>d.
     ebind (throw_if (pd_verdict d \<noteq> Allowed) (MembershipError MC_decision_mismatch)) (\<lambda>_.
     ebind (throw_if (pd_capability d \<noteq> ROOM_MEMBERSHIP_CAPABILITY)
       (MembershipError MC_decision_mismatch)) (\<lambda>_.
     throw_if (pd_sideEffect d \<noteq> ar_requiredSideEffect req) (MembershipError MC_decision_mismatch)))))))))"

definition descriptor_current :: "capability_descriptor \<Rightarrow> membership_record \<Rightarrow> bool" where
  "descriptor_current d m \<longleftrightarrow> \<not> cd_authoritative d \<and> cd_roomId d = mb_roomId m
     \<and> cd_memberRef d = mb_memberRef m \<and> cd_membershipId d = mb_membershipId m
     \<and> cd_membershipRevision d = mb_revision m \<and> cd_sourceRole d = mb_role m
     \<and> mb_state m = MS_active \<and> roleIsEligibleFor (mb_role m) (cd_capability d)"

lemma descriptor_current_iff [simp]:
  "assertRoomCapabilityDescriptorCurrentV1 d m = Inr u \<longleftrightarrow> descriptor_current d m"
  by (auto simp: assertRoomCapabilityDescriptorCurrentV1_def descriptor_current_def)

lemma authorization_context_Inr:
  "assertRoomAuthorizationContextV1 s ctx m req = Inr u \<longleftrightarrow>
     descriptor_current (ac_capability ctx) m
   \<and> cd_capability (ac_capability ctx) = ar_requiredCapability req
   \<and> cd_roomId (ac_capability ctx) = ar_roomId req
   \<and> (cd_exactObjectId (ac_capability ctx) = None
        \<or> cd_exactObjectId (ac_capability ctx) = ar_objectId req)
   \<and> (case (cd_objectKinds (ac_capability ctx), ar_objectKind req) of
        (Some ks, Some k) \<Rightarrow> k \<in> set ks | _ \<Rightarrow> True)
   \<and> (\<exists>d. authentic s (ac_decision ctx) = Some d \<and> pd_verdict d = Allowed
        \<and> pd_capability d = Cap_persistence \<and> pd_sideEffect d = ar_requiredSideEffect req)"
  unfolding assertRoomAuthorizationContextV1_def ebind_eq_Inr throw_if_eq_Inr need_eq_Inr
    descriptor_current_iff ROOM_MEMBERSHIP_CAPABILITY_def ROOM_CAPABILITY_def
  by (auto simp: descriptor_current_def split: option.splits)

interpretation context_gate: decision_gate
  "\<lambda>s r (ctx, m, req). assertRoomAuthorizationContextV1 s (ctx\<lparr>ac_decision := r\<rparr>) m req"
  "\<lambda>(ctx, m, req). ar_requiredSideEffect req"
  by unfold_locales (auto simp: authorization_context_Inr)

section \<open>Guarantees\<close>

definition sample_member :: membership_record where
  "sample_member = \<lparr>mb_membershipId = js ''m1'', mb_roomId = js ''r1'', mb_memberRef = js ''u1'',
     mb_role = MR_editor, mb_state = MS_active, mb_revision = 1, mb_origin = MO_local_room_bootstrap,
     mb_createdAtLocal = [], mb_updatedAtLocal = []\<rparr>"

text \<open>Capability resolution is default deny and exact: a descriptor is granted exactly
  when the membership is active, the role is eligible, the mode is not emergency, bunker asks
  for one of its read capabilities, and a mutation has the room's flag and no critical device
  risk.  The descriptor granted is the membership's own, so it passes the currency check
  against that membership; and a grant never depends on the flag being off or the risk being
  critical (policy and risk only tighten).\<close>

theorem capability_resolution_exact:
  "(\<exists>r. resolveRoomLocalCapabilityV1 inp = CR_allowed d r) \<longleftrightarrow>
     d = capability_descriptor_for inp \<and> descriptor_current d (cri_membership inp)
   \<and> cri_mode inp \<noteq> Mode_emergency
   \<and> (cri_mode inp \<noteq> Mode_bunker \<or> cri_requestedCapability inp \<in> set BUNKER_CAPS)
   \<and> (\<not> isMutation (cri_requestedCapability inp)
      \<or> rp_allowLocalContentMutation (cri_roomPolicy inp) \<and> cri_deviceRiskLevel inp \<noteq> Some Risk_critical)"
  by (auto simp: resolveRoomLocalCapabilityV1_def Let_def ROOM_CAPABILITY_NAMES_complete
      descriptor_current_def capability_descriptor_for_def)

theorem capability_resolution_exact_witness:
  "\<exists>d r. resolveRoomLocalCapabilityV1 (capability_resolution_input.make sample_member CN_object_list
     Mode_bunker (deny_room_policy Mode_bunker RK_workspace LC_active_local []) None None None None)
       = CR_allowed d r"
proof -
  let ?inp = "capability_resolution_input.make sample_member CN_object_list
     Mode_bunker (deny_room_policy Mode_bunker RK_workspace LC_active_local []) None None None None"
  have "descriptor_current (capability_descriptor_for ?inp) (cri_membership ?inp)
    \<and> cri_mode ?inp = Mode_bunker \<and> CN_object_list \<in> set BUNKER_CAPS
    \<and> cri_requestedCapability ?inp = CN_object_list \<and> \<not> isMutation CN_object_list"
    by (simp add: descriptor_current_def capability_descriptor_for_def capability_resolution_input.defs
        sample_member_def roleIsEligibleFor_def BUNKER_CAPS_def isMutation_def MUTATION_CAPS_def
        MEMBERSHIP_MGMT_CAPS_def ADMIN_CAPS_def)
  then show ?thesis
    using capability_resolution_exact [of ?inp "capability_descriptor_for ?inp"] by auto
qed

lemma narrower_trans: "isCapabilityNarrowerOrEqual a b \<Longrightarrow> isCapabilityNarrowerOrEqual b c \<Longrightarrow>
    isCapabilityNarrowerOrEqual a c"
  by (auto simp: isCapabilityNarrowerOrEqual_def split: option.splits)

lemma kindsSubset_trans: "kindsSubset a b \<Longrightarrow> kindsSubset b c \<Longrightarrow> kindsSubset a c"
  by (auto simp: kindsSubset_def list_all_iff split: option.splits)

lemma viewWithin_trans: "viewWithin a b \<Longrightarrow> viewWithin b c \<Longrightarrow> viewWithin a c"
  by (auto simp: viewWithin_def split: option.splits)

lemma subset_iff:
  "isRoomCapabilitySubsetV1 c p \<longleftrightarrow> cd_roomId c = cd_roomId p \<and> cd_memberRef c = cd_memberRef p
     \<and> cd_membershipId c = cd_membershipId p \<and> cd_membershipRevision c = cd_membershipRevision p
     \<and> cd_sourceRole c = cd_sourceRole p \<and> \<not> cd_authoritative c
     \<and> isCapabilityNarrowerOrEqual (cd_capability c) (cd_capability p)
     \<and> kindsSubset (cd_objectKinds c) (cd_objectKinds p)
     \<and> (cd_exactObjectId p = None \<or> cd_exactObjectId c = cd_exactObjectId p)
     \<and> viewWithin (cd_maximumView c) (cd_maximumView p)"
  by (auto simp: isRoomCapabilitySubsetV1_def)

lemma subset_trans: "isRoomCapabilitySubsetV1 a b \<Longrightarrow> isRoomCapabilitySubsetV1 b c \<Longrightarrow>
    isRoomCapabilitySubsetV1 a c"
  unfolding subset_iff
  by (metis narrower_trans kindsSubset_trans viewWithin_trans)

lemma subset_refl: "\<not> cd_authoritative d \<Longrightarrow> isRoomCapabilitySubsetV1 d d"
  by (auto simp: subset_iff isCapabilityNarrowerOrEqual_def kindsSubset_def viewWithin_def list_all_iff
      split: option.splits)

lemma attenuate_subset: "attenuateRoomCapabilityDescriptorV1 p a = Inr d \<Longrightarrow> isRoomCapabilitySubsetV1 d p"
  by (auto simp: attenuateRoomCapabilityDescriptorV1_def Let_def split: if_splits)

text \<open>Every role that may hold a capability of the object family may hold every lower one.\<close>

lemma eligible_narrower_table:
  "list_all (\<lambda>r. list_all (\<lambda>p. list_all (\<lambda>c.
     roleIsEligibleFor r p \<longrightarrow> isCapabilityNarrowerOrEqual c p \<longrightarrow> roleIsEligibleFor r c)
     ROOM_CAPABILITY_NAMES) ROOM_CAPABILITY_NAMES) ROOM_MEMBERSHIP_ROLES"
  by code_simp

lemma eligible_narrower:
  assumes "roleIsEligibleFor r p" and "isCapabilityNarrowerOrEqual c p"
  shows "roleIsEligibleFor r c"
  using eligible_narrower_table assms
  unfolding list_all_iff by (blast intro: ROOM_CAPABILITY_NAMES_complete membership_role_complete)

lemma subset_current: "descriptor_current p m \<Longrightarrow> isRoomCapabilitySubsetV1 d p \<Longrightarrow> descriptor_current d m"
  by (auto simp: descriptor_current_def subset_iff dest: eligible_narrower)

text \<open>C29.  Attenuation only ever narrows: whatever chain of attenuations a holder of a current
  descriptor applies, the result is a subset of the original by the sources' own test, it is
  still current for the same membership (so within its role), it keeps an exact object, and it
  shows no more than the view allowed at the start.\<close>

theorem attenuation_chain_narrows:
  assumes "efold attenuateRoomCapabilityDescriptorV1 p as = Inr d" and "descriptor_current p m"
  shows "isRoomCapabilitySubsetV1 d p \<and> descriptor_current d m
     \<and> (cd_exactObjectId p = None \<or> cd_exactObjectId d = cd_exactObjectId p)
     \<and> viewWithin (cd_maximumView d) (cd_maximumView p)"
proof -
  have "\<not> cd_authoritative p" using assms(2) by (simp add: descriptor_current_def)
  then have "isRoomCapabilitySubsetV1 d p"
    using assms(1)
    by (intro efold_invariant [where P = "\<lambda>x. isRoomCapabilitySubsetV1 x p", OF assms(1)])
      (auto intro: subset_refl subset_trans dest: attenuate_subset)
  then show ?thesis using subset_current [OF assms(2)] by (simp add: subset_iff)
qed

theorem attenuation_chain_narrows_witness:
  "isRoomCapabilitySubsetV1
     ((capability_descriptor_for (capability_resolution_input.make sample_member CN_object_update
        Mode_private (deny_room_policy Mode_private RK_workspace LC_active_local []) None None None None))
       \<lparr>cd_capability := CN_object_list, cd_maximumView := Some VC_object_summary\<rparr>)
     (capability_descriptor_for (capability_resolution_input.make sample_member CN_object_update
        Mode_private (deny_room_policy Mode_private RK_workspace LC_active_local []) None None None None))"
proof -
  let ?p = "capability_descriptor_for (capability_resolution_input.make sample_member CN_object_update
        Mode_private (deny_room_policy Mode_private RK_workspace LC_active_local []) None None None None)"
  let ?d = "?p\<lparr>cd_capability := CN_object_list, cd_maximumView := Some VC_object_summary\<rparr>"
  have cur: "descriptor_current ?p sample_member"
    by (simp add: descriptor_current_def capability_descriptor_for_def capability_resolution_input.defs
        sample_member_def roleIsEligibleFor_def)
  have "efold attenuateRoomCapabilityDescriptorV1 ?p [\<lparr>att_capability = Some CN_object_list,
      att_objectKinds = None, att_exactObjectId = None, att_maximumView = Some VC_object_summary\<rparr>] = Inr ?d"
    by (simp add: attenuateRoomCapabilityDescriptorV1_def Let_def override_def subset_iff
        capability_descriptor_for_def capability_resolution_input.defs
        isCapabilityNarrowerOrEqual_def kindsSubset_def viewWithin_def)
  from attenuation_chain_narrows [OF this cur] show ?thesis by blast
qed

text \<open>A lateral move inside the mutation family also counts as narrower.\<close>

lemma attenuation_lateral:
  "isCapabilityNarrowerOrEqual CN_object_tombstone CN_object_create"
  by (simp add: isCapabilityNarrowerOrEqual_def)

end
