(* ===== verification/Membership_Events.thy ===== *)
theory Membership_Events
  imports Room_State FL_Sorting
begin

text \<open>
  Membership commands, policy, events, reducer and redacted queries of
  \<open>packages/rooms/src/membership/\<close> (\<open>membership-commands.ts\<close>,
  \<open>membership-policy.ts\<close>, \<open>membership-events.ts\<close>,
  \<open>membership-reducer.ts\<close>, \<open>membership-redaction.ts\<close>,
  \<open>membership-queries.ts\<close>).
\<close>

section \<open>Commands\<close>

datatype membership_command_name =
    MN_bootstrap | MN_add | MN_change_role | MN_suspend | MN_reactivate | MN_remove

definition ROOM_MEMBERSHIP_COMMAND_NAMES :: "membership_command_name list" where
  "ROOM_MEMBERSHIP_COMMAND_NAMES =
     [MN_bootstrap, MN_add, MN_change_role, MN_suspend, MN_reactivate, MN_remove]"

fun membership_command_string :: "membership_command_name \<Rightarrow> string" where
  "membership_command_string MN_bootstrap = ''membership.bootstrap_local_owner_placeholder''"
| "membership_command_string MN_add = ''membership.add_local_placeholder''"
| "membership_command_string MN_change_role = ''membership.change_role''"
| "membership_command_string MN_suspend = ''membership.suspend_local''"
| "membership_command_string MN_reactivate = ''membership.reactivate_local''"
| "membership_command_string MN_remove = ''membership.remove_tombstone''"

datatype membership_args =
    MA_bootstrap jstr
  | MA_add jstr membership_role
  | MA_change_role jstr membership_role int
  | MA_suspend jstr int
  | MA_reactivate jstr int
  | MA_remove jstr int

record membership_command =
  mc_roomId :: jstr
  mc_mode :: privacy_mode
  mc_reason :: jstr
  mc_args :: membership_args

fun margs_name :: "membership_args \<Rightarrow> membership_command_name" where
  "margs_name (MA_bootstrap r) = MN_bootstrap"
| "margs_name (MA_add r q) = MN_add"
| "margs_name (MA_change_role i q n) = MN_change_role"
| "margs_name (MA_suspend i n) = MN_suspend"
| "margs_name (MA_reactivate i n) = MN_reactivate"
| "margs_name (MA_remove i n) = MN_remove"

definition mc_command :: "membership_command \<Rightarrow> membership_command_name" where
  "mc_command c = margs_name (mc_args c)"

definition MEMBERSHIP_BASE_KEYS :: "string list" where
  "MEMBERSHIP_BASE_KEYS = [''schemaVersion'', ''command'', ''roomId'', ''mode'', ''reason'']"

definition validateRole :: "jsval \<Rightarrow> membership_role res" where
  "validateRole input = need (MembershipError MC_unknown_role)
     (case string_value input of Some s \<Rightarrow> enum_of ROOM_MEMBERSHIP_ROLES membership_role_name s
      | None \<Rightarrow> None)"

definition validateMemberRef :: "jsval \<Rightarrow> jstr res" where
  "validateMemberRef input =
     ebind (need (MembershipError MC_invalid_member_ref) (string_value input)) (\<lambda>s.
     case validateRoomMemberRef s of Inr r \<Rightarrow> Inr r
     | Inl e \<Rightarrow> Inl (MembershipError MC_invalid_member_ref))"

definition membership_target ::
  "(jstr \<times> jsval) list \<Rightarrow> (jstr \<Rightarrow> int \<Rightarrow> membership_args) \<Rightarrow> membership_args res" where
  "membership_target fs mk =
     ebind (assertOnlyKeys fs (MEMBERSHIP_BASE_KEYS @ [''membershipId'', ''expectedRevision''])) (\<lambda>_.
     ebind (validateRoomMembershipId (jget fs ''membershipId'')) (\<lambda>i.
     ebind (validateRoomMembershipRevision (jget fs ''expectedRevision'')) (\<lambda>n. Inr (mk i n))))"

definition membership_args_of ::
  "membership_command_name \<Rightarrow> (jstr \<times> jsval) list \<Rightarrow> membership_args res" where
  "membership_args_of name fs = (case name of
       MN_bootstrap \<Rightarrow>
         ebind (assertOnlyKeys fs (MEMBERSHIP_BASE_KEYS @ [''memberRef''])) (\<lambda>_.
         ebind (validateMemberRef (jget fs ''memberRef'')) (\<lambda>r. Inr (MA_bootstrap r)))
     | MN_add \<Rightarrow>
         ebind (assertOnlyKeys fs (MEMBERSHIP_BASE_KEYS @ [''memberRef'', ''role''])) (\<lambda>_.
         ebind (validateMemberRef (jget fs ''memberRef'')) (\<lambda>r.
         ebind (validateRole (jget fs ''role'')) (\<lambda>q. Inr (MA_add r q))))
     | MN_change_role \<Rightarrow>
         ebind (assertOnlyKeys fs
           (MEMBERSHIP_BASE_KEYS @ [''membershipId'', ''newRole'', ''expectedRevision''])) (\<lambda>_.
         ebind (validateRoomMembershipId (jget fs ''membershipId'')) (\<lambda>i.
         ebind (validateRole (jget fs ''newRole'')) (\<lambda>q.
         ebind (validateRoomMembershipRevision (jget fs ''expectedRevision'')) (\<lambda>n.
         Inr (MA_change_role i q n)))))
     | MN_suspend \<Rightarrow> membership_target fs MA_suspend
     | MN_reactivate \<Rightarrow> membership_target fs MA_reactivate
     | MN_remove \<Rightarrow> membership_target fs MA_remove)"

definition validateRoomMembershipCommandV1 :: "jsval \<Rightarrow> membership_command res" where
  "validateRoomMembershipCommandV1 input =
     ebind (need (MembershipError MC_invalid_field) (own_fields input)) (\<lambda>fs.
     ebind (assertNoDangerousKeys fs) (\<lambda>_.
     ebind (throw_if (jget fs ''schemaVersion'' \<noteq> JNum (NInt 1))
       (MembershipError MC_unsupported_schema_version)) (\<lambda>_.
     ebind (need (MembershipError MC_unknown_command) (case string_value (jget fs ''command'') of
         Some s \<Rightarrow> enum_of ROOM_MEMBERSHIP_COMMAND_NAMES membership_command_string s
       | None \<Rightarrow> None)) (\<lambda>name.
     ebind (need (MembershipError MC_room_mismatch) (string_value (jget fs ''roomId''))) (\<lambda>roomId.
     ebind (need (MembershipError MC_invalid_field) (string_value (jget fs ''mode''))) (\<lambda>mode.
     ebind (need (MembershipError MC_invalid_field) (string_value (jget fs ''reason''))) (\<lambda>reason.
     ebind (throw_if (\<not> slug_re 64 reason) (MembershipError MC_invalid_field)) (\<lambda>_.
     ebind (membership_args_of name fs) (\<lambda>args.
     Inr \<lparr>mc_roomId = roomId, mc_mode = mode_of_js mode, mc_reason = reason, mc_args = args\<rparr>)))))))))"

section \<open>Policy\<close>

record membership_policy =
  mp_mode :: privacy_mode
  mp_command :: membership_command_name
  mp_allowed :: bool
  mp_relationshipMetadataAllowed :: bool
  mp_operationLogRetention :: retention
  mp_membershipListAllowed :: bool
  mp_membershipCountAllowed :: bool
  mp_auditAllowed :: bool
  mp_reasonCode :: string

definition RESTRICTIVE :: "membership_command_name list" where
  "RESTRICTIVE = [MN_suspend, MN_remove]"

definition EXPANSION :: "membership_command_name list" where
  "EXPANSION = [MN_add, MN_reactivate, MN_change_role]"

definition relationship_mode :: "privacy_mode \<Rightarrow> bool" where
  "relationship_mode m \<longleftrightarrow> m = Mode_standard \<or> m = Mode_offline_capsule \<or> m = Mode_sovereign_room"

definition resolveRoomMembershipPolicyV1 ::
  "privacy_mode \<Rightarrow> membership_command_name \<Rightarrow> room_policy \<Rightarrow> membership_policy" where
  "resolveRoomMembershipPolicyV1 mode command roomPolicy =
     (let restrictive = command \<in> set RESTRICTIVE; expansion = command \<in> set EXPANSION;
          strict = (mode = Mode_ghost \<or> mode = Mode_bunker);
          base = \<lparr>mp_mode = mode, mp_command = command, mp_allowed = True,
            mp_relationshipMetadataAllowed = relationship_mode mode,
            mp_operationLogRetention = (if strict then RT_null else RT_memory_only),
            mp_membershipListAllowed = (mode \<noteq> Mode_bunker \<and> mode \<noteq> Mode_emergency),
            mp_membershipCountAllowed = relationship_mode mode, mp_auditAllowed = True,
            mp_reasonCode = ''default_deny''\<rparr>;
          hidden = base\<lparr>mp_relationshipMetadataAllowed := False, mp_membershipListAllowed := False,
            mp_membershipCountAllowed := False\<rparr>;
          deny = (\<lambda>reasonCode. hidden\<lparr>mp_allowed := False, mp_auditAllowed := restrictive,
            mp_reasonCode := reasonCode\<rparr>)
      in if expansion \<and> \<not> rp_allowLocalContentMutation roomPolicy then deny ''room_policy_stricter''
         else case mode of
             Mode_emergency \<Rightarrow> if restrictive then hidden\<lparr>mp_reasonCode := ''emergency_mode''\<rparr>
               else deny ''emergency_mode''
           | Mode_bunker \<Rightarrow> if command = MN_bootstrap \<or> restrictive
               then hidden\<lparr>mp_reasonCode := ''strict_mode''\<rparr> else deny ''strict_mode''
           | Mode_ghost \<Rightarrow> base\<lparr>mp_reasonCode := ''strict_mode''\<rparr>
           | Mode_private \<Rightarrow> base\<lparr>mp_membershipCountAllowed := False\<rparr>
           | Mode_offline_capsule \<Rightarrow> base\<lparr>mp_reasonCode := ''offline_capsule_mode''\<rparr>
           | Mode_standard \<Rightarrow> base
           | Mode_sovereign_room \<Rightarrow> base
           | Mode_other s \<Rightarrow> deny ''unknown_input'')"

section \<open>Events\<close>

record membership_event =
  me_membershipEventId :: jstr
  me_roomId :: jstr
  me_membershipId :: jstr
  me_memberRef :: jstr
  me_command :: membership_command_name
  me_localSequence :: int
  me_createdAtLocal :: jstr
  me_previous :: "(membership_role \<times> membership_state \<times> int) option"
  me_record :: membership_record

record built_membership =
  bm_record :: membership_record
  bm_previous :: "membership_record option"

fun membership_transition_target :: "membership_args \<Rightarrow> membership_state" where
  "membership_transition_target (MA_suspend i n) = MS_suspended"
| "membership_transition_target (MA_reactivate i n) = MS_active"
| "membership_transition_target _ = MS_removed_tombstone"

definition created_membership ::
  "membership_command \<Rightarrow> jstr \<Rightarrow> jstr \<Rightarrow> jstr \<Rightarrow> membership_role \<Rightarrow> membership_origin \<Rightarrow> membership_record" where
  "created_membership command membershipId memberRef nowLocal role origin = \<lparr>
     mb_membershipId = membershipId, mb_roomId = mc_roomId command, mb_memberRef = memberRef,
     mb_role = role, mb_state = MS_active, mb_revision = FIRST_MEMBERSHIP_REVISION,
     mb_origin = origin, mb_createdAtLocal = nowLocal, mb_updatedAtLocal = nowLocal\<rparr>"

definition buildResultingMembership ::
  "membership_record option \<Rightarrow> membership_command \<Rightarrow> jstr \<Rightarrow> jstr \<Rightarrow> jstr \<Rightarrow> built_membership res" where
  "buildResultingMembership current command membershipId memberRef nowLocal =
     (let create = (\<lambda>role origin.
            ebind (throw_if (current \<noteq> None) (MembershipError MC_duplicate_active_membership)) (\<lambda>_.
            Inr \<lparr>bm_record = created_membership command membershipId memberRef nowLocal role origin,
                 bm_previous = None\<rparr>));
          update = (\<lambda>k. ebind (need (MembershipError MC_membership_not_found) current) (\<lambda>cur.
            ebind (nextRoomMembershipRevision (mb_revision cur)) (\<lambda>r.
            ebind (k cur (cur\<lparr>mb_revision := r, mb_updatedAtLocal := nowLocal\<rparr>)) (\<lambda>rec.
            Inr \<lparr>bm_record = rec, bm_previous = Some cur\<rparr>))));
          move = update (\<lambda>cur base.
            ebind (assertMembershipTransition (mb_state cur) (membership_transition_target (mc_args command)))
              (\<lambda>_. Inr (base\<lparr>mb_state := membership_transition_target (mc_args command)\<rparr>)))
      in case mc_args command of
           MA_bootstrap r \<Rightarrow> create MR_owner MO_local_room_bootstrap
         | MA_add r role \<Rightarrow> create role MO_local_added_placeholder
         | MA_change_role i newRole n \<Rightarrow> update (\<lambda>cur base.
             ebind (throw_if (mb_state cur \<noteq> MS_active) (MembershipError MC_invalid_lifecycle_transition))
               (\<lambda>_. Inr (base\<lparr>mb_role := newRole\<rparr>)))
         | _ \<Rightarrow> move)"

definition createAcceptedRoomMembershipEventV1 ::
  "membership_command \<Rightarrow> built_membership \<Rightarrow> jstr \<Rightarrow> int \<Rightarrow> jstr \<Rightarrow> membership_event" where
  "createAcceptedRoomMembershipEventV1 command built membershipEventId localSequence now = \<lparr>
     me_membershipEventId = membershipEventId, me_roomId = mb_roomId (bm_record built),
     me_membershipId = mb_membershipId (bm_record built),
     me_memberRef = mb_memberRef (bm_record built), me_command = mc_command command,
     me_localSequence = localSequence, me_createdAtLocal = local_label now,
     me_previous = map_option (\<lambda>p. (mb_role p, mb_state p, mb_revision p)) (bm_previous built),
     me_record = bm_record built\<rparr>"

definition me_previousRevision :: "membership_event \<Rightarrow> int option" where
  "me_previousRevision e = map_option (\<lambda>(r, st, n). n) (me_previous e)"

section \<open>Reducer and replay\<close>

definition membership_at :: "membership_record list \<Rightarrow> jstr \<Rightarrow> membership_record option" where
  "membership_at rs i = find (\<lambda>r. mb_membershipId r = i) rs"

definition activeDuplicate :: "membership_record list \<Rightarrow> jstr \<Rightarrow> jstr \<Rightarrow> bool" where
  "activeDuplicate rs roomId memberRef = list_ex (\<lambda>r. mb_roomId r = roomId
     \<and> mb_memberRef r = memberRef \<and> mb_state r = MS_active) rs"

definition reduceRoomMembershipEventV1 ::
  "membership_record list \<Rightarrow> membership_event \<Rightarrow> membership_record list res" where
  "reduceRoomMembershipEventV1 current event =
     (case me_previousRevision event of
       None \<Rightarrow>
         ebind (throw_if (membership_at current (me_membershipId event) \<noteq> None)
           (MembershipError MC_duplicate_active_membership)) (\<lambda>_.
         ebind (throw_if (activeDuplicate current (me_roomId event) (me_memberRef event))
           (MembershipError MC_duplicate_active_membership)) (\<lambda>_.
         Inr (current @ [me_record event])))
     | Some prev \<Rightarrow>
         ebind (need (MembershipError MC_membership_not_found)
           (membership_at current (me_membershipId event))) (\<lambda>existing.
         ebind (throw_if (mb_roomId existing \<noteq> me_roomId event) (MembershipError MC_room_mismatch)) (\<lambda>_.
         ebind (throw_if (mb_revision existing \<noteq> prev) (MembershipError MC_stale_revision)) (\<lambda>_.
         ebind (throw_if (mb_state existing = MS_removed_tombstone)
           (MembershipError MC_membership_terminal)) (\<lambda>_.
         Inr (upd_first (\<lambda>r. mb_membershipId r = me_membershipId event) (me_record event) current))))))"

definition countActiveOwners :: "membership_record list \<Rightarrow> nat" where
  "countActiveOwners rs = length (filter (\<lambda>r. mb_role r = MR_owner \<and> mb_state r = MS_active) rs)"

definition membership_scan_step :: "int option \<Rightarrow> membership_event \<Rightarrow> int option res" where
  "membership_scan_step previous event =
     ebind (throw_if (previous \<noteq> None \<and> me_localSequence event \<noteq> the previous + 1)
       (MembershipError MC_invalid_lifecycle_transition)) (\<lambda>_. Inr (Some (me_localSequence event)))"

definition replayRoomMembershipEventsV1 ::
  "membership_record list \<Rightarrow> membership_event list \<Rightarrow> membership_record list res" where
  "replayRoomMembershipEventsV1 seed events =
     ebind (efold membership_scan_step None events) (\<lambda>_.
     efold reduceRoomMembershipEventV1 seed events)"

section \<open>Redacted queries\<close>

record membership_view =
  mv_membershipId :: "jstr option"
  mv_memberRef :: "jstr option"
  mv_role :: membership_role
  mv_state :: membership_state
  mv_revision :: "int option"
  mv_createdAtLocal :: "jstr option"
  mv_updatedAtLocal :: "jstr option"

definition redactMembershipRecordForQuery :: "membership_record \<Rightarrow> privacy_mode \<Rightarrow> membership_view" where
  "redactMembershipRecordForQuery rec mode =
     (let strict = mode \<in> {Mode_ghost, Mode_bunker, Mode_emergency, Mode_private};
          relationshipAllowed = relationship_mode mode
      in \<lparr>mv_membershipId = (if strict then None else Some (mb_membershipId rec)),
          mv_memberRef = (if relationshipAllowed then Some (mb_memberRef rec) else None),
          mv_role = mb_role rec, mv_state = mb_state rec,
          mv_revision = (if strict then None else Some (mb_revision rec)),
          mv_createdAtLocal = (if relationshipAllowed then Some (mb_createdAtLocal rec) else None),
          mv_updatedAtLocal = (if relationshipAllowed then Some (mb_updatedAtLocal rec) else None)\<rparr>)"

definition assertQueryDecision :: "privacy_state \<Rightarrow> dref \<Rightarrow> side_effect_scope \<Rightarrow> unit res" where
  "assertQueryDecision s decision scope =
     ebind (need (MembershipError MC_decision_mismatch) (authentic s decision)) (\<lambda>d.
     ebind (throw_if (pd_verdict d \<noteq> Allowed) (MembershipError MC_policy_denied)) (\<lambda>_.
     throw_if (pd_capability d \<noteq> ROOM_CAPABILITY \<or> pd_sideEffect d \<noteq> scope)
       (MembershipError MC_decision_mismatch)))"

lemma assertQueryDecision_Inr:
  "assertQueryDecision s r scope = Inr u \<longleftrightarrow> (\<exists>d. authentic s r = Some d \<and> pd_verdict d = Allowed
     \<and> pd_capability d = Cap_persistence \<and> pd_sideEffect d = scope)"
  by (auto simp: assertQueryDecision_def ROOM_CAPABILITY_def)

interpretation membership_query_gate: decision_gate assertQueryDecision "\<lambda>scope. scope"
  by unfold_locales (simp add: assertQueryDecision_Inr)

text \<open>
  \<open>sort_by\<close> with the string order on the ids: the comparator of the source answers
  \<open>1\<close> also on equal ids, which a projection does not have.
\<close>

definition queryRoomMembershipsListRedactedV1 ::
  "privacy_state \<Rightarrow> membership_record list \<Rightarrow> privacy_mode \<Rightarrow> dref \<Rightarrow> bool \<Rightarrow> membership_view list res" where
  "queryRoomMembershipsListRedactedV1 s rs mode decision membershipListAllowed =
     ebind (assertQueryDecision s decision ''room.membership.query.list'') (\<lambda>_.
     ebind (throw_if (\<not> membershipListAllowed) (MembershipError MC_policy_denied)) (\<lambda>_.
     Inr (map (\<lambda>r. redactMembershipRecordForQuery r mode)
       (sort_by (\<lambda>a b. jstr_less (mb_membershipId a) (mb_membershipId b)) rs))))"

definition queryRoomMembershipGetRedactedV1 ::
  "privacy_state \<Rightarrow> membership_record list \<Rightarrow> jstr \<Rightarrow> privacy_mode \<Rightarrow> dref \<Rightarrow> bool \<Rightarrow> membership_view res" where
  "queryRoomMembershipGetRedactedV1 s rs membershipId mode decision membershipListAllowed =
     ebind (assertQueryDecision s decision ''room.membership.query.detail'') (\<lambda>_.
     ebind (throw_if (\<not> membershipListAllowed) (MembershipError MC_policy_denied)) (\<lambda>_.
     ebind (need (MembershipError MC_membership_not_found) (membership_at rs membershipId)) (\<lambda>found.
     Inr (redactMembershipRecordForQuery found mode))))"

definition queryRoomMembershipCountV1 ::
  "privacy_state \<Rightarrow> membership_record list \<Rightarrow> privacy_mode \<Rightarrow> dref \<Rightarrow> bool \<Rightarrow> nat res" where
  "queryRoomMembershipCountV1 s rs mode decision membershipCountAllowed =
     ebind (assertQueryDecision s decision ''room.membership.query.count'') (\<lambda>_.
     ebind (throw_if (\<not> membershipCountAllowed) (MembershipError MC_policy_denied)) (\<lambda>_.
     Inr (length rs)))"

end
