(* ===== verification/Membership_Pipeline.thy ===== *)
theory Membership_Pipeline
  imports Membership_Events Membership_Capability Event_Log Matrix_Rows Room_Log
begin

text \<open>
  The membership-event logs (\<open>membership-log.ts\<close>) and the membership mutation pipeline
  (\<open>membership-pipeline.ts\<close>).  A call returns its result, or the error it throws, with the
  log as it is afterwards.  \<open>membership_run\<close> is a caller that starts from an empty room
  and keeps the state each successful call returns.
\<close>

section \<open>Logs\<close>

record membership_memory_log =
  mml_roomId :: jstr
  mml_events :: "membership_event list"

definition assertMembershipLogDecision :: "privacy_state \<Rightarrow> dref \<Rightarrow> side_effect_scope \<Rightarrow> unit res" where
  "assertMembershipLogDecision s decision scope =
     ebind (need (MembershipError MC_decision_mismatch) (authentic s decision)) (\<lambda>d.
     ebind (throw_if (pd_verdict d \<noteq> Allowed) (MembershipError MC_policy_denied)) (\<lambda>_.
     throw_if (pd_capability d \<noteq> ROOM_CAPABILITY \<or> pd_sideEffect d \<noteq> scope)
       (MembershipError MC_decision_mismatch)))"

lemma assertMembershipLogDecision_Inr:
  "assertMembershipLogDecision s r scope = Inr u \<longleftrightarrow> (\<exists>d. authentic s r = Some d
     \<and> pd_verdict d = Allowed \<and> pd_capability d = Cap_persistence \<and> pd_sideEffect d = scope)"
  by (auto simp: assertMembershipLogDecision_def ROOM_CAPABILITY_def)

interpretation membership_log_gate: decision_gate assertMembershipLogDecision "\<lambda>scope. scope"
  by unfold_locales (simp add: assertMembershipLogDecision_Inr)

definition membership_memory_check ::
  "membership_memory_log \<Rightarrow> privacy_state \<Rightarrow> membership_event \<Rightarrow> dref \<Rightarrow> unit res" where
  "membership_memory_check log p event decision =
     ebind (assertMembershipLogDecision p decision ''room.membership_log.append'') (\<lambda>_.
     ebind (throw_if (me_roomId event \<noteq> mml_roomId log) (MembershipError MC_decision_mismatch)) (\<lambda>_.
     throw_if (me_localSequence event \<noteq> int (length (mml_events log)) + 1)
       (MembershipError MC_decision_mismatch)))"

definition membership_memory_append ::
  "membership_memory_log \<Rightarrow> privacy_state \<Rightarrow> membership_event \<Rightarrow> dref
     \<Rightarrow> append_result res \<times> membership_memory_log" where
  "membership_memory_append log p event decision =
     (case membership_memory_check log p event decision of
        Inl e \<Rightarrow> (Inl e, log)
      | Inr _ \<Rightarrow> (Inr (Appended_memory (me_localSequence event)),
          log\<lparr>mml_events := mml_events log @ [event]\<rparr>))"

definition membership_null_append ::
  "null_log \<Rightarrow> privacy_state \<Rightarrow> membership_event \<Rightarrow> dref \<Rightarrow> append_result res \<times> null_log" where
  "membership_null_append log p event decision =
     (case ebind (assertMembershipLogDecision p decision ''room.membership_log.append'') (\<lambda>_.
           throw_if (me_roomId event \<noteq> nl_roomId log) (MembershipError MC_decision_mismatch)) of
        Inl e \<Rightarrow> (Inl e, log)
      | Inr _ \<Rightarrow> (Inr (Discarded_by_null_policy (me_localSequence event)),
          log\<lparr>nl_lastSequence := me_localSequence event\<rparr>))"

datatype membership_log = MLog_memory membership_memory_log | MLog_null null_log

fun mlog_nextLocalSequence :: "membership_log \<Rightarrow> int" where
  "mlog_nextLocalSequence (MLog_memory l) = int (length (mml_events l)) + 1"
| "mlog_nextLocalSequence (MLog_null l) = nl_lastSequence l + 1"

fun mlog_append ::
  "membership_log \<Rightarrow> privacy_state \<Rightarrow> membership_event \<Rightarrow> dref \<Rightarrow> append_result res \<times> membership_log" where
  "mlog_append (MLog_memory l) p event d = apsnd MLog_memory (membership_memory_append l p event d)"
| "mlog_append (MLog_null l) p event d = apsnd MLog_null (membership_null_append l p event d)"

fun mlog_readAll :: "membership_log \<Rightarrow> privacy_state \<Rightarrow> dref \<Rightarrow> membership_event list res" where
  "mlog_readAll (MLog_memory l) p d =
     ebind (assertMembershipLogDecision p d ''room.membership_log.read'') (\<lambda>_. Inr (mml_events l))"
| "mlog_readAll (MLog_null l) p d =
     ebind (assertMembershipLogDecision p d ''room.membership_log.read'') (\<lambda>_. Inr [])"

fun mlog_status :: "membership_log \<Rightarrow> log_status" where
  "mlog_status (MLog_memory l) = \<lparr>lst_roomId = mml_roomId l, lst_retention = Memory_only,
     lst_retainedEventCount = length (mml_events l),
     lst_lastLocalSequence = int (length (mml_events l)),
     lst_replayAvailable = (0 < length (mml_events l))\<rparr>"
| "mlog_status (MLog_null l) = \<lparr>lst_roomId = nl_roomId l, lst_retention = Null_log,
     lst_retainedEventCount = 0, lst_lastLocalSequence = nl_lastSequence l,
     lst_replayAvailable = False\<rparr>"

fun mlog_events :: "membership_log \<Rightarrow> membership_event list" where
  "mlog_events (MLog_memory l) = mml_events l"
| "mlog_events (MLog_null l) = []"

lemma membership_memory_append_Inr:
  "membership_memory_append log p event d = (Inr r, log') \<longleftrightarrow>
     (\<exists>dc. authentic p d = Some dc \<and> pd_verdict dc = Allowed \<and> pd_capability dc = Cap_persistence
        \<and> pd_sideEffect dc = ''room.membership_log.append'')
   \<and> me_roomId event = mml_roomId log \<and> me_localSequence event = int (length (mml_events log)) + 1
   \<and> r = Appended_memory (me_localSequence event) \<and> log' = log\<lparr>mml_events := mml_events log @ [event]\<rparr>"
proof -
  have "membership_memory_append log p event d = (Inr r, log') \<longleftrightarrow>
     membership_memory_check log p event d = Inr ()
     \<and> r = Appended_memory (me_localSequence event) \<and> log' = log\<lparr>mml_events := mml_events log @ [event]\<rparr>"
    by (cases "membership_memory_check log p event d") (auto simp: membership_memory_append_def)
  then show ?thesis
    unfolding membership_memory_check_def ebind_eq_Inr throw_if_eq_Inr assertMembershipLogDecision_Inr
    by blast
qed

lemma membership_memory_append_Inl:
  "membership_memory_append log p event d = (Inl e, log') \<Longrightarrow> log' = log"
  unfolding membership_memory_append_def by (auto split: sum.splits)

interpretation membership_log: event_log membership_memory_append mml_events mml_roomId
  me_localSequence me_roomId "''room.membership_log.append''"
proof (unfold_locales, goal_cases)
  case (1 s p i d r s')
  then show ?case unfolding membership_memory_append_Inr by auto
next
  case (2 s p i d x s')
  then show ?case by (rule membership_memory_append_Inl)
qed

section \<open>The pipeline\<close>

fun membership_side_effect :: "membership_command_name \<Rightarrow> side_effect_scope" where
  "membership_side_effect MN_bootstrap = ''room.membership.bootstrap''"
| "membership_side_effect MN_add = ''room.membership.add''"
| "membership_side_effect MN_change_role = ''room.membership.change_role''"
| "membership_side_effect MN_suspend = ''room.membership.suspend''"
| "membership_side_effect MN_reactivate = ''room.membership.reactivate''"
| "membership_side_effect MN_remove = ''room.membership.remove''"

fun membership_required_capability :: "membership_command_name \<Rightarrow> capability_name" where
  "membership_required_capability MN_add = CN_membership_add"
| "membership_required_capability MN_change_role = CN_membership_change_role"
| "membership_required_capability MN_suspend = CN_membership_suspend"
| "membership_required_capability MN_reactivate = CN_membership_reactivate"
| "membership_required_capability _ = CN_membership_remove"

definition membership_records :: "room_state \<Rightarrow> membership_record list" where
  "membership_records st = (case rs_membershipRecords st of None \<Rightarrow> [] | Some rs \<Rightarrow> rs)"

fun target_id :: "membership_args \<Rightarrow> (jstr \<times> int) option" where
  "target_id (MA_change_role i q n) = Some (i, n)"
| "target_id (MA_suspend i n) = Some (i, n)"
| "target_id (MA_reactivate i n) = Some (i, n)"
| "target_id (MA_remove i n) = Some (i, n)"
| "target_id _ = None"

fun new_ref :: "membership_args \<Rightarrow> jstr" where
  "new_ref (MA_bootstrap r) = r"
| "new_ref (MA_add r q) = r"
| "new_ref _ = []"

definition removes_owner :: "membership_args \<Rightarrow> bool" where
  "removes_owner args = (case args of MA_suspend i n \<Rightarrow> True | MA_remove i n \<Rightarrow> True
     | MA_change_role i q n \<Rightarrow> q \<noteq> MR_owner | _ \<Rightarrow> False)"

definition assertOwnerContinuity ::
  "membership_record list \<Rightarrow> membership_record option \<Rightarrow> membership_args \<Rightarrow> unit res" where
  "assertOwnerContinuity current target args = (case target of None \<Rightarrow> Inr ()
     | Some t \<Rightarrow> throw_if (mb_role t = MR_owner \<and> mb_state t = MS_active \<and> removes_owner args
         \<and> countActiveOwners current \<le> 1) (MembershipError MC_last_owner_continuity))"

record membership_mutation_input =
  mmi_roomState :: room_state
  mmi_command :: jsval
  mmi_roomPolicy :: room_policy
  mmi_authorization :: "authorization_context option"
  mmi_bootstrapDecision :: "dref option"
  mmi_storageDecision :: dref
  mmi_eventId :: jstr
  mmi_membershipId :: "jstr option"
  mmi_nowBuild :: jstr
  mmi_nowEvent :: jstr

record membership_mutation_result =
  mmr_event :: membership_event
  mmr_nextState :: room_state
  mmr_membership :: membership_record
  mmr_retained :: bool

lemma membership_records_update [simp]:
  "membership_records (st\<lparr>rs_membershipRecords := Some rs\<rparr>) = rs"
  "membership_records (st\<lparr>rs_membershipRecords := None\<rparr>) = []"
  by (simp_all add: membership_records_def)

text \<open>Steps 5 and 6.  Note that the context is checked against the membership it carries.\<close>

definition authorizeMembershipMutation ::
  "privacy_state \<Rightarrow> membership_mutation_input \<Rightarrow> membership_command \<Rightarrow> unit res" where
  "authorizeMembershipMutation s inp command =
     (let current = membership_records (mmi_roomState inp)
      in if mc_command command = MN_bootstrap then
           ebind (need (MembershipError MC_decision_mismatch)
             (case mmi_bootstrapDecision inp of None \<Rightarrow> None | Some r \<Rightarrow> authentic s r)) (\<lambda>d.
           ebind (throw_if (pd_verdict d \<noteq> Allowed \<or> pd_capability d \<noteq> ROOM_MEMBERSHIP_CAPABILITY
               \<or> pd_sideEffect d \<noteq> ''room.membership.bootstrap'')
             (MembershipError MC_decision_mismatch)) (\<lambda>_.
           throw_if (current \<noteq> []) (MembershipError MC_duplicate_active_membership)))
         else
           ebind (need (MembershipError MC_decision_mismatch) (mmi_authorization inp)) (\<lambda>ctx.
           ebind (assertRoomAuthorizationContextV1 s ctx (ac_membership ctx)
             \<lparr>ar_requiredCapability = membership_required_capability (mc_command command),
              ar_requiredSideEffect = membership_side_effect (mc_command command),
              ar_roomId = rs_roomId (mmi_roomState inp), ar_objectId = None, ar_objectKind = None\<rparr>) (\<lambda>_.
           ebind (need (MembershipError MC_policy_denied)
             (membership_at current (mb_membershipId (ac_membership ctx)))) (\<lambda>actor.
           throw_if (mb_state actor \<noteq> MS_active) (MembershipError MC_policy_denied)))))"

definition findTarget :: "membership_record list \<Rightarrow> membership_args \<Rightarrow> membership_record option" where
  "findTarget current args = (case target_id args of None \<Rightarrow> None
     | Some (i, n) \<Rightarrow> membership_at current i)"

definition assertExpectedRevision :: "membership_args \<Rightarrow> membership_record option \<Rightarrow> unit res" where
  "assertExpectedRevision args target = (case (target_id args, target) of
       (Some (i, expected), Some t) \<Rightarrow>
         ebind (throw_if (expected < mb_revision t) (MembershipError MC_stale_revision)) (\<lambda>_.
         throw_if (expected > mb_revision t) (MembershipError MC_future_revision))
     | _ \<Rightarrow> Inr ())"

definition prepareMembershipMutation ::
  "privacy_state \<Rightarrow> membership_mutation_input \<Rightarrow> (membership_command \<times> built_membership) res" where
  "prepareMembershipMutation s inp =
     ebind (validateRoomMembershipCommandV1 (mmi_command inp)) (\<lambda>command.
     ebind (throw_if (mc_roomId command \<noteq> rs_roomId (mmi_roomState inp)) (MembershipError MC_room_mismatch)) (\<lambda>_.
     let current = membership_records (mmi_roomState inp);
         target = findTarget current (mc_args command)
     in ebind (throw_if (target_id (mc_args command) \<noteq> None \<and> target = None)
         (MembershipError MC_membership_not_found)) (\<lambda>_.
     ebind (throw_if (\<not> mp_allowed (resolveRoomMembershipPolicyV1 (mc_mode command)
         (mc_command command) (mmi_roomPolicy inp))) (MembershipError MC_policy_denied)) (\<lambda>_.
     ebind (throw_if (md_effect (evaluatePolicyMatrix (room_matrix_input (mc_mode command)
         (membership_side_effect (mc_command command)))) \<noteq> PE_memory_only)
       (MembershipError MC_policy_denied)) (\<lambda>_.
     ebind (authorizeMembershipMutation s inp command) (\<lambda>_.
     ebind (assertExpectedRevision (mc_args command) target) (\<lambda>_.
     ebind (assertOwnerContinuity current target (mc_args command)) (\<lambda>_.
     ebind (case target of Some t \<Rightarrow> Inr (mb_membershipId t)
       | None \<Rightarrow> need (MembershipError MC_invalid_membership_id) (mmi_membershipId inp)) (\<lambda>membershipId.
     ebind (buildResultingMembership target command membershipId
       (case target of Some t \<Rightarrow> mb_memberRef t | None \<Rightarrow> new_ref (mc_args command))
       (local_label (mmi_nowBuild inp))) (\<lambda>built.
     Inr (command, built)))))))))))"

definition applyLocalRoomMembershipMutationV1 ::
  "privacy_state \<Rightarrow> membership_mutation_input \<Rightarrow> membership_log \<Rightarrow>
     membership_mutation_result res \<times> membership_log" where
  "applyLocalRoomMembershipMutationV1 s inp log = (case prepareMembershipMutation s inp of
       Inl e \<Rightarrow> (Inl e, log)
     | Inr (command, built) \<Rightarrow>
       (let event = createAcceptedRoomMembershipEventV1 command built (mmi_eventId inp)
              (mlog_nextLocalSequence log) (mmi_nowEvent inp)
        in case mlog_append log s event (mmi_storageDecision inp) of
             (Inl e, log') \<Rightarrow> (Inl e, log')
           | (Inr a, log') \<Rightarrow>
               (ebind (reduceRoomMembershipEventV1 (membership_records (mmi_roomState inp)) event)
                 (\<lambda>next. Inr \<lparr>mmr_event = event,
                    mmr_nextState = (mmi_roomState inp)\<lparr>rs_membershipRecords := Some next\<rparr>,
                    mmr_membership = bm_record built, mmr_retained = ar_retained a\<rparr>), log')))"

section \<open>What a prepared mutation is\<close>

definition membership_change :: "membership_args \<Rightarrow> membership_record \<Rightarrow> membership_record \<Rightarrow> bool" where
  "membership_change args t r \<longleftrightarrow> mb_membershipId r = mb_membershipId t \<and> mb_roomId r = mb_roomId t
     \<and> mb_memberRef r = mb_memberRef t \<and> mb_revision r = mb_revision t + 1
     \<and> mb_state t \<noteq> MS_removed_tombstone
     \<and> (case args of
          MA_change_role i q n \<Rightarrow> mb_state t = MS_active \<and> mb_state r = MS_active \<and> mb_role r = q
        | MA_suspend i n \<Rightarrow> mb_state t = MS_active \<and> mb_state r = MS_suspended \<and> mb_role r = mb_role t
        | MA_reactivate i n \<Rightarrow> mb_state t = MS_suspended \<and> mb_state r = MS_active \<and> mb_role r = mb_role t
        | MA_remove i n \<Rightarrow> mb_state r = MS_removed_tombstone \<and> mb_role r = mb_role t
        | _ \<Rightarrow> False)"

text \<open>The record a creating command makes, or the change an update makes to its target.\<close>

definition membership_step ::
  "jstr \<Rightarrow> membership_record list \<Rightarrow> membership_command \<Rightarrow> built_membership \<Rightarrow> bool" where
  "membership_step rid rs cmd b \<longleftrightarrow> mb_roomId (bm_record b) = mc_roomId cmd \<and> mc_roomId cmd = rid
     \<and> bm_previous b = None \<and> mb_state (bm_record b) = MS_active \<and> mb_revision (bm_record b) = 1
       \<and> target_id (mc_args cmd) = None
       \<and> (mc_command cmd = MN_bootstrap \<longrightarrow> rs = [] \<and> mb_role (bm_record b) = MR_owner)
   \<or> (\<exists>t i n. bm_previous b = Some t \<and> target_id (mc_args cmd) = Some (i, n)
       \<and> membership_at rs i = Some t \<and> mb_revision t = n \<and> membership_change (mc_args cmd) t (bm_record b)
       \<and> (mb_role t = MR_owner \<and> mb_state t = MS_active \<and> removes_owner (mc_args cmd)
            \<longrightarrow> 1 < countActiveOwners rs))"

lemma membership_at_Some: "membership_at rs i = Some r \<Longrightarrow> mb_membershipId r = i \<and> r \<in> set rs"
  unfolding membership_at_def by (drule find_SomeD) simp

lemma build_create:
  assumes "buildResultingMembership t cmd i ref now = Inr b" and "target_id (mc_args cmd) = None"
  shows "t = None \<and> bm_previous b = None \<and> mb_roomId (bm_record b) = mc_roomId cmd
     \<and> mb_state (bm_record b) = MS_active \<and> mb_revision (bm_record b) = 1
     \<and> (mc_command cmd = MN_bootstrap \<longrightarrow> mb_role (bm_record b) = MR_owner)"
  using assms
  by (cases "mc_args cmd") (auto simp: buildResultingMembership_def Let_def created_membership_def
      FIRST_MEMBERSHIP_REVISION_def mc_command_def)

lemma build_update:
  assumes "buildResultingMembership (Some t) cmd i ref now = Inr b"
  shows "bm_previous b = Some t \<and> membership_change (mc_args cmd) t (bm_record b)"
proof -
  have live: "l = MS_active" if "MS_suspended \<in> set (MEMBERSHIP_TRANSITIONS l)" for l
    using that by (cases l) auto
  have again: "l = MS_suspended" if "MS_active \<in> set (MEMBERSHIP_TRANSITIONS l)" for l
    using that by (cases l) auto
  have gone: "l \<noteq> MS_removed_tombstone" if "MS_removed_tombstone \<in> set (MEMBERSHIP_TRANSITIONS l)" for l
    using that by (cases l) auto
  show ?thesis
    using assms
    by (cases "mc_args cmd")
      (auto simp: buildResultingMembership_def Let_def membership_change_def dest: live again gone)
qed

lemma prepare_membership_step:
  assumes "prepareMembershipMutation s inp = Inr (cmd, b)"
  shows "membership_step (rs_roomId (mmi_roomState inp)) (membership_records (mmi_roomState inp)) cmd b"
proof -
  let ?rs = "membership_records (mmi_roomState inp)"
  let ?t = "findTarget ?rs (mc_args cmd)"
  obtain i ref u u' u'' where room: "mc_roomId cmd = rs_roomId (mmi_roomState inp)"
    and found: "\<not> (target_id (mc_args cmd) \<noteq> None \<and> ?t = None)"
    and auth: "authorizeMembershipMutation s inp cmd = Inr u"
    and expected: "assertExpectedRevision (mc_args cmd) ?t = Inr u'"
    and owner: "assertOwnerContinuity ?rs ?t (mc_args cmd) = Inr u''"
    and b: "buildResultingMembership ?t cmd i ref (local_label (mmi_nowBuild inp)) = Inr b"
    using assms unfolding prepareMembershipMutation_def Let_def ebind_eq_Inr throw_if_eq_Inr by auto
  show ?thesis
  proof (cases "target_id (mc_args cmd)")
    case None
    have "?rs = []" if "mc_command cmd = MN_bootstrap"
      using auth that by (auto simp: authorizeMembershipMutation_def Let_def)
    then show ?thesis
      unfolding membership_step_def using None room build_create [OF b None] by auto
  next
    case (Some p)
    obtain j n where p: "p = (j, n)" by (cases p)
    have tj: "?t = membership_at ?rs j" by (simp add: findTarget_def Some p)
    then obtain t where t: "membership_at ?rs j = Some t" using found Some by auto
    have "mb_revision t = n" using expected t by (simp add: assertExpectedRevision_def tj Some p)
    moreover have "1 < countActiveOwners ?rs"
      if "mb_role t = MR_owner" "mb_state t = MS_active" "removes_owner (mc_args cmd)"
      using owner that t by (simp add: assertOwnerContinuity_def tj)
    moreover have "bm_previous b = Some t \<and> membership_change (mc_args cmd) t (bm_record b)"
      using build_update [of t cmd] b t by (simp add: tj)
    ultimately show ?thesis unfolding membership_step_def using Some p t by blast
  qed
qed

lemma membership_step_Some:
  assumes "membership_step rid rs cmd b" and "bm_previous b = Some t"
  shows "membership_change (mc_args cmd) t (bm_record b)"
    and "membership_at rs (mb_membershipId (bm_record b)) = Some t"
    and "mb_role t = MR_owner \<and> mb_state t = MS_active \<and> removes_owner (mc_args cmd)
       \<longrightarrow> 1 < countActiveOwners rs"
proof -
  obtain i where i: "membership_at rs i = Some t" and ch: "membership_change (mc_args cmd) t (bm_record b)"
    and own: "mb_role t = MR_owner \<and> mb_state t = MS_active \<and> removes_owner (mc_args cmd)
       \<longrightarrow> 1 < countActiveOwners rs"
    using assms unfolding membership_step_def by auto
  show "membership_change (mc_args cmd) t (bm_record b)" by (rule ch)
  show "membership_at rs (mb_membershipId (bm_record b)) = Some t"
    using i ch membership_at_Some [OF i] by (simp add: membership_change_def)
  show "mb_role t = MR_owner \<and> mb_state t = MS_active \<and> removes_owner (mc_args cmd)
       \<longrightarrow> 1 < countActiveOwners rs" by (rule own)
qed

section \<open>The invariant of the records\<close>

definition membership_inv :: "jstr \<Rightarrow> membership_record list \<Rightarrow> bool" where
  "membership_inv rid rs \<longleftrightarrow> distinct (map mb_membershipId rs)
     \<and> list_all (\<lambda>r. mb_roomId r = rid \<and> 1 \<le> mb_revision r) rs
     \<and> (rs = [] \<or> 1 \<le> countActiveOwners rs)"

lemma count_upd_first:
  "find p xs = Some x \<Longrightarrow> length (filter P (upd_first p y xs)) + (if P x then 1 else 0)
     = length (filter P xs) + (if P y then 1 else 0)"
  by (induction xs) (auto split: if_splits)

lemma owners_upd_first:
  assumes "membership_at rs i = Some t" and "membership_change args t r"
    and "mb_role t = MR_owner \<and> mb_state t = MS_active \<and> removes_owner args \<longrightarrow> 1 < countActiveOwners rs"
    and "1 \<le> countActiveOwners rs"
  shows "1 \<le> countActiveOwners (upd_first (\<lambda>x. mb_membershipId x = i) r rs)"
proof -
  let ?P = "\<lambda>x. mb_role x = MR_owner \<and> mb_state x = MS_active"
  have eq: "countActiveOwners (upd_first (\<lambda>x. mb_membershipId x = i) r rs) + (if ?P t then 1 else 0)
      = countActiveOwners rs + (if ?P r then 1 else 0)"
    unfolding countActiveOwners_def by (rule count_upd_first [OF assms(1) [unfolded membership_at_def]])
  have "removes_owner args" if "?P t" "\<not> ?P r"
    using assms(2) that by (cases args) (auto simp: membership_change_def removes_owner_def)
  then show ?thesis using eq assms(3,4) by (auto split: if_splits)
qed

text \<open>The event the pipeline makes of a built membership.\<close>

lemma event_fields:
  "me_record (createAcceptedRoomMembershipEventV1 cmd b i n now) = bm_record b"
  "me_membershipId (createAcceptedRoomMembershipEventV1 cmd b i n now) = mb_membershipId (bm_record b)"
  "me_memberRef (createAcceptedRoomMembershipEventV1 cmd b i n now) = mb_memberRef (bm_record b)"
  "me_roomId (createAcceptedRoomMembershipEventV1 cmd b i n now) = mb_roomId (bm_record b)"
  "me_localSequence (createAcceptedRoomMembershipEventV1 cmd b i n now) = n"
  "me_previousRevision (createAcceptedRoomMembershipEventV1 cmd b i n now)
     = map_option mb_revision (bm_previous b)"
  by (simp_all add: createAcceptedRoomMembershipEventV1_def me_previousRevision_def option.map_comp o_def)

text \<open>The reducer accepts every update; a creation it refuses on a duplicate.\<close>

lemma reduce_membership_step:
  assumes "membership_step rid rs cmd b"
  shows "reduceRoomMembershipEventV1 rs (createAcceptedRoomMembershipEventV1 cmd b i n now) =
     (if bm_previous b \<noteq> None
      then Inr (upd_first (\<lambda>r. mb_membershipId r = mb_membershipId (bm_record b)) (bm_record b) rs)
      else if membership_at rs (mb_membershipId (bm_record b)) \<noteq> None
         \<or> activeDuplicate rs (mb_roomId (bm_record b)) (mb_memberRef (bm_record b))
      then Inl (MembershipError MC_duplicate_active_membership)
      else Inr (rs @ [bm_record b]))"
proof (cases "bm_previous b")
  case None
  then show ?thesis by (auto simp: reduceRoomMembershipEventV1_def event_fields throw_if_def)
next
  case (Some t)
  then show ?thesis
    using membership_step_Some [OF assms Some]
    by (simp add: reduceRoomMembershipEventV1_def event_fields membership_change_def)
qed

text \<open>An accepted event changes the lookup of its own record and of no other.\<close>

lemma reduce_membership_lookup:
  assumes "membership_step rid rs cmd b"
    and "reduceRoomMembershipEventV1 rs (createAcceptedRoomMembershipEventV1 cmd b i n now) = Inr rs'"
  shows "membership_at rs' = (membership_at rs)(mb_membershipId (bm_record b) \<mapsto> bm_record b)"
proof (cases "bm_previous b")
  case None
  then show ?thesis
    using assms(2) unfolding reduce_membership_step [OF assms(1)]
    by (auto simp: membership_at_def find_append split: if_splits option.splits)
next
  case (Some t)
  note t = membership_step_Some(2) [OF assms(1) Some, unfolded membership_at_def]
  have "rs' = upd_first (\<lambda>r. mb_membershipId r = mb_membershipId (bm_record b)) (bm_record b) rs"
    using assms(2) Some by (simp add: reduce_membership_step [OF assms(1)])
  moreover have "find (\<lambda>r. mb_membershipId r = j)
      (upd_first (\<lambda>r. mb_membershipId r = mb_membershipId (bm_record b)) (bm_record b) rs)
      = find (\<lambda>r. mb_membershipId r = j) rs" if "j \<noteq> mb_membershipId (bm_record b)" for j
    by (rule find_upd_first_other) (use that in auto)
  ultimately show ?thesis
    using find_upd_first_same [OF t] by (auto simp: membership_at_def)
qed

lemma membership_inv_step:
  assumes inv: "membership_inv rid rs" and st: "membership_step rid rs cmd b"
    and red: "reduceRoomMembershipEventV1 rs (createAcceptedRoomMembershipEventV1 cmd b i n now) = Inr rs'"
    and boot: "rs = [] \<Longrightarrow> mc_command cmd = MN_bootstrap"
  shows "membership_inv rid rs'"
proof (cases "bm_previous b")
  case None
  then have new: "membership_at rs (mb_membershipId (bm_record b)) = None" "rs' = rs @ [bm_record b]"
    using red by (auto simp: reduce_membership_step [OF st] split: if_splits)
  have r: "mb_roomId (bm_record b) = rid" "mb_revision (bm_record b) = 1" "mb_state (bm_record b) = MS_active"
    "rs = [] \<Longrightarrow> mb_role (bm_record b) = MR_owner"
    using st None boot by (auto simp: membership_step_def)
  have "mb_membershipId (bm_record b) \<notin> mb_membershipId ` set rs"
    using new(1) by (simp add: membership_at_def find_key_None)
  then show ?thesis
    using inv r by (auto simp: membership_inv_def new countActiveOwners_def)
next
  case (Some t)
  note ch = membership_step_Some(1) [OF st Some] and present = membership_step_Some(2) [OF st Some]
    and own = membership_step_Some(3) [OF st Some]
  have rs': "rs' = upd_first (\<lambda>r. mb_membershipId r = mb_membershipId (bm_record b)) (bm_record b) rs"
    using red Some by (simp add: reduce_membership_step [OF st])
  have t: "t \<in> set rs" "mb_membershipId t = mb_membershipId (bm_record b)"
    using membership_at_Some [OF present] by auto
  have "map mb_membershipId rs' = map mb_membershipId rs"
    unfolding rs' using map_upd_first [OF present [unfolded membership_at_def], of mb_membershipId] t by simp
  moreover have "1 \<le> countActiveOwners rs'"
    unfolding rs' using inv t by (intro owners_upd_first [OF present ch own]) (auto simp: membership_inv_def)
  moreover have "mb_roomId (bm_record b) = rid" "1 \<le> mb_revision (bm_record b)"
    using ch t inv by (auto simp: membership_change_def membership_inv_def list_all_iff)
  ultimately show ?thesis
    using inv set_upd_first_subset [of _ "bm_record b" rs]
    by (fastforce simp: membership_inv_def rs' list_all_iff)
qed

section \<open>Authorization\<close>

lemma membership_matrix_effect:
  "md_effect (evaluatePolicyMatrix (room_matrix_input m (membership_side_effect n))) =
     (if m \<notin> set KNOWN_MODES \<or> m = Mode_emergency \<and> n \<notin> set RESTRICTIVE
        \<or> m = Mode_bunker \<and> n \<in> set EXPANSION
      then PE_deny else PE_memory_only)"
  by (cases n) (simp_all add: room_row_effects RESTRICTIVE_def EXPANSION_def)

lemma authorize_decision:
  assumes "authorizeMembershipMutation s inp cmd = Inr u"
  shows "\<exists>r d. (if mc_command cmd = MN_bootstrap then mmi_bootstrapDecision inp = Some r
        else \<exists>ctx. mmi_authorization inp = Some ctx \<and> ac_decision ctx = r)
     \<and> authentic s r = Some d \<and> pd_verdict d = Allowed
     \<and> pd_sideEffect d = membership_side_effect (mc_command cmd)"
  using assms
  by (cases "mc_command cmd = MN_bootstrap")
    (auto simp: authorizeMembershipMutation_def Let_def authorization_context_Inr split: option.splits)

lemma prepare_membership_facts:
  assumes "prepareMembershipMutation s inp = Inr (cmd, b)"
  shows "validateRoomMembershipCommandV1 (mmi_command inp) = Inr cmd"
    and "authorizeMembershipMutation s inp cmd = Inr ()"
    and "mc_mode cmd \<in> set KNOWN_MODES \<and> (mc_mode cmd = Mode_emergency \<longrightarrow> mc_command cmd \<in> set RESTRICTIVE)
      \<and> (mc_mode cmd = Mode_bunker \<longrightarrow> mc_command cmd \<notin> set EXPANSION)"
  using assms unfolding prepareMembershipMutation_def Let_def ebind_eq_Inr throw_if_eq_Inr
    membership_matrix_effect by (auto split: if_splits)

lemma authorize_nonempty:
  "authorizeMembershipMutation s inp cmd = Inr u \<Longrightarrow> membership_records (mmi_roomState inp) = [] \<Longrightarrow>
     mc_command cmd = MN_bootstrap"
  by (auto simp: authorizeMembershipMutation_def Let_def membership_at_def split: if_splits)

text \<open>A membership decision is checked against the membership the caller supplies, not the
  stored one: changing the role and revision of every stored record (demoting the actor to a
  viewer, bumping its revision) leaves the verdict of the authorization step as it was, for
  every context, command and decision; the stored record is only asked whether it is active.\<close>

theorem membership_stale_authority:
  "authorizeMembershipMutation s (inp\<lparr>mmi_roomState := (mmi_roomState inp)\<lparr>rs_membershipRecords :=
       Some (map (\<lambda>r. r\<lparr>mb_role := f r, mb_revision := g r\<rparr>) (membership_records (mmi_roomState inp)))\<rparr>\<rparr>) cmd
   = authorizeMembershipMutation s inp cmd"
proof -
  let ?h = "\<lambda>r. r\<lparr>mb_role := f r, mb_revision := g r\<rparr>"
  have find: "membership_at (map ?h rs) i = map_option ?h (membership_at rs i)" for rs i
    by (induction rs) (simp_all add: membership_at_def)
  have actor: "ebind (need e (map_option ?h x)) (\<lambda>a. throw_if (mb_state a \<noteq> MS_active) e')
      = ebind (need e x) (\<lambda>a. throw_if (mb_state a \<noteq> MS_active) e')" for e e' :: exn and x
    by (cases x) simp_all
  show ?thesis
    by (simp add: authorizeMembershipMutation_def Let_def membership_records_def find actor)
qed

section \<open>Outcomes\<close>

lemma mlog_append_Inr:
  assumes "mlog_append log p event d = (Inr r, log')"
  shows "(\<exists>dc. authentic p d = Some dc \<and> pd_verdict dc = Allowed
        \<and> pd_sideEffect dc = ''room.membership_log.append'')
   \<and> mlog_events log' = (if ar_retained r then mlog_events log @ [event] else [])"
  using assms
  by (cases log) (auto simp: apsnd_def map_prod_def membership_memory_append_Inr
      membership_null_append_def assertMembershipLogDecision_Inr split: prod.splits sum.splits)

lemma mlog_append_Inl: "mlog_append log p event d = (Inl e, log') \<Longrightarrow> log' = log"
  by (cases log) (auto simp: apsnd_def map_prod_def membership_null_append_def
      dest: membership_memory_append_Inl split: prod.splits sum.splits)

lemma membership_mutation_cases:
  obtains (error) e where "applyLocalRoomMembershipMutationV1 s inp log = (Inl e, log)"
  | (appended) cmd b ev a log' where "prepareMembershipMutation s inp = Inr (cmd, b)"
      "ev = createAcceptedRoomMembershipEventV1 cmd b (mmi_eventId inp) (mlog_nextLocalSequence log)
         (mmi_nowEvent inp)"
      "mlog_append log s ev (mmi_storageDecision inp) = (Inr a, log')"
      "applyLocalRoomMembershipMutationV1 s inp log =
         (ebind (reduceRoomMembershipEventV1 (membership_records (mmi_roomState inp)) ev)
           (\<lambda>next. Inr \<lparr>mmr_event = ev,
              mmr_nextState = (mmi_roomState inp)\<lparr>rs_membershipRecords := Some next\<rparr>,
              mmr_membership = bm_record b, mmr_retained = ar_retained a\<rparr>), log')"
proof (cases "prepareMembershipMutation s inp")
  case (Inl e)
  then show ?thesis using error by (simp add: applyLocalRoomMembershipMutationV1_def)
next
  case (Inr p)
  obtain cmd b where p: "p = (cmd, b)" by (cases p)
  let ?ev = "createAcceptedRoomMembershipEventV1 cmd b (mmi_eventId inp) (mlog_nextLocalSequence log)
         (mmi_nowEvent inp)"
  obtain r log' where app: "mlog_append log s ?ev (mmi_storageDecision inp) = (r, log')"
    by (cases "mlog_append log s ?ev (mmi_storageDecision inp)")
  show ?thesis
  proof (cases r)
    case (Inl e)
    then have "log' = log" using app mlog_append_Inl by simp
    then show ?thesis
      using error Inr p app Inl by (simp add: applyLocalRoomMembershipMutationV1_def)
  next
    case (Inr a)
    then show ?thesis
      using appended [OF _ refl, of cmd b a log'] \<open>prepareMembershipMutation s inp = Inr p\<close> p app
      by (simp add: applyLocalRoomMembershipMutationV1_def Let_def)
  qed
qed

text \<open>The one refusal that comes after the append, and the modes of a mutation.\<close>

lemma refused_after_append:
  assumes "prepareMembershipMutation s inp = Inr (cmd, b)"
    and "reduceRoomMembershipEventV1 (membership_records (mmi_roomState inp))
      (createAcceptedRoomMembershipEventV1 cmd b i n now) = Inl e"
  shows "e = MembershipError MC_duplicate_active_membership \<and> mc_command cmd = MN_add
    \<and> (membership_at (membership_records (mmi_roomState inp)) (mb_membershipId (bm_record b)) \<noteq> None
      \<or> activeDuplicate (membership_records (mmi_roomState inp)) (mc_roomId cmd) (mb_memberRef (bm_record b)))"
proof -
  let ?rs = "membership_records (mmi_roomState inp)"
  note st = prepare_membership_step [OF assms(1)]
  have none: "bm_previous b = None" and dup: "e = MembershipError MC_duplicate_active_membership"
    "membership_at ?rs (mb_membershipId (bm_record b)) \<noteq> None
       \<or> activeDuplicate ?rs (mb_roomId (bm_record b)) (mb_memberRef (bm_record b))"
    using assms(2) unfolding reduce_membership_step [OF st] by (auto split: if_splits)
  then have create: "target_id (mc_args cmd) = None" "mb_roomId (bm_record b) = mc_roomId cmd"
    "mc_command cmd = MN_bootstrap \<longrightarrow> ?rs = []"
    using st by (auto simp: membership_step_def)
  have "mc_command cmd \<noteq> MN_bootstrap"
    using create(3) dup(2) by (auto simp: membership_at_def activeDuplicate_def)
  then have "mc_command cmd = MN_add"
    using create(1) by (cases "mc_args cmd") (auto simp: mc_command_def)
  then show ?thesis using dup create(2) by simp
qed

lemma prepared_mode:
  assumes "prepareMembershipMutation s inp = Inr (cmd, b)"
  shows "mc_mode cmd \<in> set KNOWN_MODES"
    and "mc_mode cmd \<noteq> Mode_emergency \<or> mc_command cmd \<in> {MN_suspend, MN_remove}"
    and "mc_mode cmd \<noteq> Mode_bunker \<or> mc_command cmd \<in> {MN_bootstrap, MN_suspend, MN_remove}"
  using prepare_membership_facts(3) [OF assms]
  by (cases "mc_command cmd"; simp add: RESTRICTIVE_def EXPANSION_def)+

text \<open>C7.  What a membership mutation can do.  A success carried an authentic allowed decision
  of the command's own scope (the bootstrap decision, or the context's) and another of the
  append scope, was of a known mode that permits the command, and changes exactly the record
  of the event's id.  An error leaves the log untouched, except in one case: an add of a used
  membership id or of a member that is already active, which is refused only after its event
  has been appended.\<close>

theorem membership_mutation_outcome:
  assumes "applyLocalRoomMembershipMutationV1 s inp log = (res, log')"
  shows "case res of
      Inr r \<Rightarrow> \<exists>cmd q d d'. validateRoomMembershipCommandV1 (mmi_command inp) = Inr cmd
        \<and> (if mc_command cmd = MN_bootstrap then mmi_bootstrapDecision inp = Some q
           else \<exists>ctx. mmi_authorization inp = Some ctx \<and> ac_decision ctx = q)
        \<and> authentic s q = Some d \<and> pd_verdict d = Allowed
        \<and> pd_sideEffect d = membership_side_effect (mc_command cmd)
        \<and> authentic s (mmi_storageDecision inp) = Some d' \<and> pd_verdict d' = Allowed
        \<and> pd_sideEffect d' = ''room.membership_log.append''
        \<and> mc_mode cmd \<in> set KNOWN_MODES
        \<and> (mc_mode cmd \<noteq> Mode_emergency \<or> mc_command cmd \<in> {MN_suspend, MN_remove})
        \<and> (mc_mode cmd \<noteq> Mode_bunker \<or> mc_command cmd \<in> {MN_bootstrap, MN_suspend, MN_remove})
        \<and> membership_at (membership_records (mmr_nextState r)) =
            (membership_at (membership_records (mmi_roomState inp)))
              (mb_membershipId (mmr_membership r) \<mapsto> mmr_membership r)
        \<and> mlog_events log' = (if mmr_retained r then mlog_events log @ [mmr_event r] else [])
    | Inl e \<Rightarrow> log' = log \<or> e = MembershipError MC_duplicate_active_membership
        \<and> (\<exists>cmd b. prepareMembershipMutation s inp = Inr (cmd, b) \<and> mc_command cmd = MN_add
            \<and> (membership_at (membership_records (mmi_roomState inp)) (mb_membershipId (bm_record b)) \<noteq> None
               \<or> activeDuplicate (membership_records (mmi_roomState inp)) (mc_roomId cmd)
                   (mb_memberRef (bm_record b))))"
proof (cases rule: membership_mutation_cases [of s inp log])
  case (error e)
  then show ?thesis using assms by simp
next
  case (appended cmd b ev a log1)
  let ?rs = "membership_records (mmi_roomState inp)"
  note st = prepare_membership_step [OF appended(1)] and f = prepare_membership_facts [OF appended(1)]
  show ?thesis
  proof (cases "reduceRoomMembershipEventV1 ?rs ev")
    case (Inl e)
    then show ?thesis
      using assms appended(1,4) refused_after_append [OF appended(1) Inl [unfolded appended(2)]] by auto
  next
    case (Inr rs')
    note changed = reduce_membership_lookup [OF st Inr [unfolded appended(2)]]
    obtain q d where q: "(if mc_command cmd = MN_bootstrap then mmi_bootstrapDecision inp = Some q
           else \<exists>ctx. mmi_authorization inp = Some ctx \<and> ac_decision ctx = q)"
      "authentic s q = Some d" "pd_verdict d = Allowed"
      "pd_sideEffect d = membership_side_effect (mc_command cmd)"
      using authorize_decision [OF f(2)] by blast
    obtain d' where d': "authentic s (mmi_storageDecision inp) = Some d'" "pd_verdict d' = Allowed"
      "pd_sideEffect d' = ''room.membership_log.append''"
      and ev: "mlog_events log1 = (if ar_retained a then mlog_events log @ [ev] else [])"
      using mlog_append_Inr [OF appended(3)] by blast
    have res: "res = Inr \<lparr>mmr_event = ev,
        mmr_nextState = (mmi_roomState inp)\<lparr>rs_membershipRecords := Some rs'\<rparr>,
        mmr_membership = bm_record b, mmr_retained = ar_retained a\<rparr>" "log' = log1"
      using assms appended(4) Inr by auto
    show ?thesis
      unfolding res sum.case
      by (rule exI [of _ cmd], rule exI [of _ q], rule exI [of _ d], rule exI [of _ d'])
        (use f(1) q d' prepared_mode [OF appended(1)] changed ev in \<open>simp add: membership_records_def\<close>)
  qed
qed

section \<open>Histories\<close>

record membership_run_state =
  mr_room :: room_state
  mr_log :: membership_log
  mr_clean :: bool

text \<open>\<open>mr_clean\<close> records whether no call so far failed with its event already in the log.\<close>

definition membership_run_step ::
  "membership_run_state \<Rightarrow> privacy_state \<times> membership_mutation_input \<Rightarrow> membership_run_state" where
  "membership_run_step st op = (case applyLocalRoomMembershipMutationV1 (fst op)
        ((snd op)\<lparr>mmi_roomState := mr_room st\<rparr>) (mr_log st) of
       (Inl e, log') \<Rightarrow> st\<lparr>mr_log := log', mr_clean := mr_clean st \<and> log' = mr_log st\<rparr>
     | (Inr r, log') \<Rightarrow> st\<lparr>mr_room := mmr_nextState r, mr_log := log'\<rparr>)"

definition membership_run ::
  "room_state \<Rightarrow> (privacy_state \<times> membership_mutation_input) list \<Rightarrow> membership_run_state" where
  "membership_run seed ops = foldl membership_run_step
     \<lparr>mr_room = seed\<lparr>rs_membershipRecords := None\<rparr>,
      mr_log = MLog_memory \<lparr>mml_roomId = rs_roomId seed, mml_events = []\<rparr>, mr_clean = True\<rparr> ops"

definition membership_run_inv :: "jstr \<Rightarrow> membership_run_state \<Rightarrow> bool" where
  "membership_run_inv rid st \<longleftrightarrow> rs_roomId (mr_room st) = rid
     \<and> membership_inv rid (membership_records (mr_room st))
     \<and> (\<exists>l. mr_log st = MLog_memory l \<and> membership_log.log_ok l \<and> mml_roomId l = rid
         \<and> efold reduceRoomMembershipEventV1 [] (mml_events l) =
             (if mr_clean st then Inr (membership_records (mr_room st))
              else Inl (MembershipError MC_duplicate_active_membership)))"

lemma membership_run_inv_step:
  assumes "membership_run_inv rid st" shows "membership_run_inv rid (membership_run_step st op)"
proof -
  let ?inp = "(snd op)\<lparr>mmi_roomState := mr_room st\<rparr>" and ?rs = "membership_records (mr_room st)"
  obtain l where l: "mr_log st = MLog_memory l" "membership_log.log_ok l" "mml_roomId l = rid"
    "efold reduceRoomMembershipEventV1 [] (mml_events l) =
       (if mr_clean st then Inr ?rs else Inl (MembershipError MC_duplicate_active_membership))"
    and inv: "membership_inv rid ?rs" and room: "rs_roomId (mr_room st) = rid"
    using assms by (auto simp: membership_run_inv_def)
  show ?thesis
  proof (cases rule: membership_mutation_cases [of "fst op" ?inp "mr_log st"])
    case (error e)
    then show ?thesis using assms by (simp add: membership_run_step_def)
  next
    case (appended cmd b ev a log')
    note st = prepare_membership_step [OF appended(1), simplified]
    note auth = prepare_membership_facts(2) [OF appended(1)]
    obtain l' where l': "membership_memory_append l (fst op) ev (mmi_storageDecision (snd op)) = (Inr a, l')"
      "log' = MLog_memory l'"
      using appended(3) l(1)
      by (cases "membership_memory_append l (fst op) ev (mmi_storageDecision (snd op))") auto
    have ok: "membership_log.log_ok l'" by (rule membership_log.append_log_ok [OF l(2) l'(1)])
    have ev: "mml_events l' = mml_events l @ [ev]" "mml_roomId l' = rid"
      using l'(1) l(3) by (auto simp: membership_memory_append_Inr)
    have boot: "?rs = [] \<Longrightarrow> mc_command cmd = MN_bootstrap"
      using authorize_nonempty [OF auth] by simp
    note red = reduce_membership_step [OF st, of "mmi_eventId (snd op)" "mlog_nextLocalSequence (mr_log st)"
        "mmi_nowEvent (snd op)"]
    show ?thesis
    proof (cases "reduceRoomMembershipEventV1 ?rs ev")
      case (Inl e)
      then have "e = MembershipError MC_duplicate_active_membership"
        using red appended(2) by (auto split: if_splits)
      moreover have "log' \<noteq> mr_log st" using l(1) l'(2) ev(1) by auto
      ultimately show ?thesis
        using appended(4) Inl l ok ev l'(2) inv room
        by (simp add: membership_run_step_def membership_run_inv_def efold_append)
    next
      case (Inr rs')
      have "membership_inv rid rs'"
        using membership_inv_step [OF inv] st Inr appended(2) boot room by auto
      then show ?thesis
        using appended(4) Inr l ok ev l'(2) room
        by (simp add: membership_run_step_def membership_run_inv_def membership_records_def efold_append)
    qed
  qed
qed

lemma membership_run_inv_run: "membership_run_inv (rs_roomId seed) (membership_run seed ops)"
proof -
  have "membership_run_inv rid (foldl membership_run_step st ops)" if "membership_run_inv rid st" for rid st
    using that by (induction ops arbitrary: st) (simp_all add: membership_run_inv_step)
  moreover have "membership_run_inv (rs_roomId seed) \<lparr>mr_room = seed\<lparr>rs_membershipRecords := None\<rparr>,
      mr_log = MLog_memory \<lparr>mml_roomId = rs_roomId seed, mml_events = []\<rparr>, mr_clean = True\<rparr>"
    by (simp add: membership_run_inv_def membership_records_def membership_inv_def membership_log.log_ok_def)
  ultimately show ?thesis unfolding membership_run_def by blast
qed

text \<open>C1.  Owner continuity and well-formedness: after any history of membership mutations, with
  any commands, contexts and decisions, the records of the room have distinct ids, all are of
  the room with a positive revision, and there is at least one active owner as soon as there is
  any record.\<close>

theorem membership_owner_continuity:
  "membership_inv (rs_roomId seed) (membership_records (mr_room (membership_run seed ops)))"
  using membership_run_inv_run [of seed ops] by (simp add: membership_run_inv_def)

lemma membership_scan_ok:
  "numbered_from_one me_localSequence es \<Longrightarrow>
     efold membership_scan_step None es = Inr (if es = [] then None else Some (int (length es)))"
proof (induction es rule: rev_induct)
  case Nil
  then show ?case by simp
next
  case (snoc e es)
  then show ?case by (simp add: efold_append membership_scan_step_def numbered_from_one_snoc)
qed

text \<open>C28.  The membership log replays to the records, unless some add failed after its append:
  then replay always fails.  For any history over a new memory log, what an authorised reader
  gets back replays from no records to exactly the room's records when no call left its event
  behind, and to the duplicate error otherwise.\<close>

theorem membership_log_replays:
  assumes "mlog_readAll (mr_log (membership_run seed ops)) p d = Inr es"
  shows "replayRoomMembershipEventsV1 [] es =
     (if mr_clean (membership_run seed ops)
      then Inr (membership_records (mr_room (membership_run seed ops)))
      else Inl (MembershipError MC_duplicate_active_membership))"
proof -
  obtain l where l: "mr_log (membership_run seed ops) = MLog_memory l" "membership_log.log_ok l"
    "efold reduceRoomMembershipEventV1 [] (mml_events l) =
       (if mr_clean (membership_run seed ops)
        then Inr (membership_records (mr_room (membership_run seed ops)))
        else Inl (MembershipError MC_duplicate_active_membership))"
    using membership_run_inv_run [of seed ops] by (auto simp: membership_run_inv_def)
  then have es: "es = mml_events l" using assms by auto
  have "numbered_from_one me_localSequence es" using l(2) by (simp add: es membership_log.log_ok_def)
  then show ?thesis
    using l(3) by (simp add: replayRoomMembershipEventsV1_def membership_scan_ok es)
qed

text \<open>One active record per member is not kept: an accepted reactivation never looks at
  the other records, so a member who was suspended, added again and then reactivated ends up
  with two active records.\<close>

theorem reactivation_duplicates_member:
  assumes "applyLocalRoomMembershipMutationV1 s inp log = (Inr r, log')"
    and "validateRoomMembershipCommandV1 (mmi_command inp) = Inr cmd" and "mc_args cmd = MA_reactivate i n"
    and "membership_at (membership_records (mmi_roomState inp)) i = Some t"
    and "membership_at (membership_records (mmi_roomState inp)) j = Some q"
    and "mb_state q = MS_active" and "mb_memberRef q = mb_memberRef t"
  shows "i \<noteq> j \<and> (\<exists>t'. membership_at (membership_records (mmr_nextState r)) i = Some t'
      \<and> mb_state t' = MS_active \<and> mb_memberRef t' = mb_memberRef q)
    \<and> membership_at (membership_records (mmr_nextState r)) j = Some q"
proof (cases rule: membership_mutation_cases [of s inp log])
  case (error e)
  then show ?thesis using assms by simp
next
  case (appended cmd' b ev a log1)
  let ?rs = "membership_records (mmi_roomState inp)"
  note st = prepare_membership_step [OF appended(1)]
  have cmd': "cmd' = cmd" using prepare_membership_facts(1) [OF appended(1)] assms(2) by simp
  have prev: "bm_previous b = Some t"
    using st assms(3,4) unfolding membership_step_def cmd' by auto
  note ch = membership_step_Some(1) [OF st prev] and present = membership_step_Some(2) [OF st prev]
  have t: "mb_state t = MS_suspended" "mb_state (bm_record b) = MS_active"
    "mb_memberRef (bm_record b) = mb_memberRef t" "mb_membershipId (bm_record b) = i"
    using ch assms(3) membership_at_Some [OF assms(4)] by (auto simp: membership_change_def cmd')
  have "i \<noteq> j" using t(1) assms(4-6) by auto
  have "reduceRoomMembershipEventV1 ?rs ev =
      Inr (upd_first (\<lambda>r. mb_membershipId r = i) (bm_record b) ?rs)"
    unfolding appended(2) reduce_membership_step [OF st] using prev t(4) by simp
  then have next_records: "membership_records (mmr_nextState r) =
      upd_first (\<lambda>r. mb_membershipId r = i) (bm_record b) ?rs"
    using assms(1) appended(4) by (auto simp: membership_records_def)
  have "membership_at (membership_records (mmr_nextState r)) i = Some (bm_record b)"
    unfolding next_records membership_at_def
    by (rule find_upd_first_same) (use assms(4) t(4) in \<open>auto simp: membership_at_def\<close>)
  moreover have "membership_at (membership_records (mmr_nextState r)) j = Some q"
    unfolding next_records membership_at_def
    by (subst find_upd_first_other) (use \<open>i \<noteq> j\<close> t(4) assms(5) in \<open>auto simp: membership_at_def\<close>)
  ultimately show ?thesis using \<open>i \<noteq> j\<close> t(2,3) assms(7) by simp
qed

section \<open>Concrete calls\<close>

definition sample_membership_decisions :: "side_effect_scope \<Rightarrow> privacy_state" where
  "sample_membership_decisions scope =
     snd (issuePolicyDecision Cap_persistence Allowed Mode_private ''room.membership_log.read''
     (snd (issuePolicyDecision Cap_persistence Allowed Mode_private ''room.membership_log.append''
     (snd (issuePolicyDecision Cap_persistence Allowed Mode_private scope privacy_init)))))"

lemma sample_membership_authentic:
  "\<exists>d. authentic (sample_membership_decisions scope) 0 = Some d \<and> pd_verdict d = Allowed
     \<and> pd_capability d = Cap_persistence \<and> pd_sideEffect d = scope"
  "assertMembershipLogDecision (sample_membership_decisions scope) (Suc 0) ''room.membership_log.append'' = Inr ()"
  "assertMembershipLogDecision (sample_membership_decisions scope) 2 ''room.membership_log.read'' = Inr ()"
  by (simp_all add: sample_membership_decisions_def assertMembershipLogDecision_Inr issuePolicyDecision_def
      Let_def privacy_init_def authentic_def isPolicyDecision_def numeral_2_eq_2)

definition sample_membership_input ::
  "membership_record list \<Rightarrow> jsval \<Rightarrow> authorization_context option \<Rightarrow> membership_mutation_input" where
  "sample_membership_input rs cmd ctx = \<lparr>
     mmi_roomState = (draft_room (js ''room-local-1''))
       \<lparr>rs_membershipRecords := (if rs = [] then None else Some rs)\<rparr>,
     mmi_command = cmd,
     mmi_roomPolicy = resolveRoomPolicy (room_policy_input.make Mode_private RK_workspace None None None),
     mmi_authorization = ctx, mmi_bootstrapDecision = Some 0, mmi_storageDecision = 1,
     mmi_eventId = [], mmi_membershipId = Some (js ''mem-1''), mmi_nowBuild = [], mmi_nowEvent = []\<rparr>"

definition membership_json :: "string \<Rightarrow> (jstr \<times> jsval) list \<Rightarrow> jsval" where
  "membership_json name fs = JObj ([(js ''schemaVersion'', JNum (NInt 1)), (js ''command'', JStr (js name)),
     (js ''roomId'', JStr (js ''room-local-1'')), (js ''mode'', JStr (js ''private'')),
     (js ''reason'', JStr (js ''user_request''))] @ fs)"

definition sample_mcommand :: "membership_args \<Rightarrow> membership_command" where
  "sample_mcommand args = \<lparr>mc_roomId = js ''room-local-1'', mc_mode = Mode_private,
     mc_reason = js ''user_request'', mc_args = args\<rparr>"

lemma sample_membership_valid:
  "validateRoomMembershipCommandV1 (membership_json ''membership.bootstrap_local_owner_placeholder''
      [(js ''memberRef'', JStr (js ''alice''))]) = Inr (sample_mcommand (MA_bootstrap (js ''alice'')))"
  "validateRoomMembershipCommandV1 (membership_json ''membership.reactivate_local''
      [(js ''membershipId'', JStr (js ''mem-1'')), (js ''expectedRevision'', JNum (NInt 2))])
     = Inr (sample_mcommand (MA_reactivate (js ''mem-1'') 2))"
proof -
  have leaf: "id_re 127 (js ''mem-1'')" "id_re 63 (js ''alice'')" "slug_re 64 (js ''user_request'')"
    by code_simp+
  have mode: "mode_of_js (js ''private'') = Mode_private"
    by (simp add: mode_of_js_def enum_of_def KNOWN_MODES_def)
  have role: "validateMemberRef (JStr (js ''alice'')) = Inr (js ''alice'')"
    by (simp add: validateMemberRef_def validateRoomMemberRef_def leaf)
  note defs = validateRoomMembershipCommandV1_def membership_json_def assertNoDangerousKeys_def
    DANGEROUS_KEYS_def leaf mode enum_of_def ROOM_MEMBERSHIP_COMMAND_NAMES_def membership_args_of_def
    assertOnlyKeys_def MEMBERSHIP_BASE_KEYS_def sample_mcommand_def
  show "validateRoomMembershipCommandV1 (membership_json ''membership.bootstrap_local_owner_placeholder''
      [(js ''memberRef'', JStr (js ''alice''))]) = Inr (sample_mcommand (MA_bootstrap (js ''alice'')))"
    by (simp add: defs role)
  show "validateRoomMembershipCommandV1 (membership_json ''membership.reactivate_local''
      [(js ''membershipId'', JStr (js ''mem-1'')), (js ''expectedRevision'', JNum (NInt 2))])
     = Inr (sample_mcommand (MA_reactivate (js ''mem-1'') 2))"
    by (simp add: defs membership_target_def validateRoomMembershipRevision_def is_safe_int_def
        MAX_SAFE_INTEGER_def MAX_MEMBERSHIP_REVISION_def)
qed

lemma sample_membership_gates:
  assumes "n \<in> {MN_bootstrap, MN_reactivate, MN_suspend}"
  shows "mp_allowed (resolveRoomMembershipPolicyV1 Mode_private n
      (resolveRoomPolicy (room_policy_input.make Mode_private RK_workspace None None None)))"
    and "md_effect (evaluatePolicyMatrix (room_matrix_input Mode_private (membership_side_effect n)))
      = PE_memory_only"
  using assms
  by (auto simp: resolveRoomMembershipPolicyV1_def Let_def resolveRoomPolicy_mutation
      room_policy_input.defs KNOWN_MODES_def membership_matrix_effect)

definition sample_log :: membership_log where
  "sample_log = MLog_memory \<lparr>mml_roomId = js ''room-local-1'', mml_events = []\<rparr>"

lemma sample_append:
  assumes "me_roomId ev = js ''room-local-1''" and "me_localSequence ev = 1"
  shows "mlog_append sample_log (sample_membership_decisions scope) ev (Suc 0) = (Inr (Appended_memory 1),
     MLog_memory \<lparr>mml_roomId = js ''room-local-1'', mml_events = [ev]\<rparr>)"
proof -
  have "membership_memory_append \<lparr>mml_roomId = js ''room-local-1'', mml_events = []\<rparr>
      (sample_membership_decisions scope) ev (Suc 0) = (Inr (Appended_memory 1),
      \<lparr>mml_roomId = js ''room-local-1'', mml_events = [ev]\<rparr>)"
    unfolding membership_memory_append_Inr
    using assms sample_membership_authentic(2) [of scope] by (simp add: assertMembershipLogDecision_Inr)
  then show ?thesis by (simp add: sample_log_def)
qed

definition sample_owner :: membership_record where
  "sample_owner = \<lparr>mb_membershipId = js ''mem-1'', mb_roomId = js ''room-local-1'',
     mb_memberRef = js ''alice'', mb_role = MR_owner, mb_state = MS_active, mb_revision = 1,
     mb_origin = MO_local_room_bootstrap, mb_createdAtLocal = local_label [],
     mb_updatedAtLocal = local_label []\<rparr>"

abbreviation bootstrap_input :: membership_mutation_input where
  "bootstrap_input \<equiv> sample_membership_input []
     (membership_json ''membership.bootstrap_local_owner_placeholder''
        [(js ''memberRef'', JStr (js ''alice''))]) None"

lemma bootstrap_prepared:
  "prepareMembershipMutation (sample_membership_decisions ''room.membership.bootstrap'') bootstrap_input =
     Inr (sample_mcommand (MA_bootstrap (js ''alice'')), \<lparr>bm_record = sample_owner, bm_previous = None\<rparr>)"
proof -
  let ?c = "sample_mcommand (MA_bootstrap (js ''alice''))"
  have fields: "mc_roomId ?c = js ''room-local-1''" "mc_mode ?c = Mode_private"
    "mc_args ?c = MA_bootstrap (js ''alice'')" "mc_command ?c = MN_bootstrap"
    by (simp_all add: sample_mcommand_def mc_command_def)
  have state: "membership_records (mmi_roomState bootstrap_input) = []"
    "rs_roomId (mmi_roomState bootstrap_input) = js ''room-local-1''"
    by (simp_all add: sample_membership_input_def membership_records_def draft_room_def)
  have auth: "authorizeMembershipMutation (sample_membership_decisions ''room.membership.bootstrap'')
      bootstrap_input ?c = Inr ()"
    using sample_membership_authentic(1) [of "''room.membership.bootstrap''"]
    by (auto simp: authorizeMembershipMutation_def fields state ROOM_MEMBERSHIP_CAPABILITY_def
        ROOM_CAPABILITY_def sample_membership_input_def Let_def membership_records_def)
  have inp: "mmi_command bootstrap_input = membership_json ''membership.bootstrap_local_owner_placeholder''
        [(js ''memberRef'', JStr (js ''alice''))]"
    "mmi_roomPolicy bootstrap_input = resolveRoomPolicy (room_policy_input.make Mode_private RK_workspace None None None)"
    "mmi_membershipId bootstrap_input = Some (js ''mem-1'')" "mmi_nowBuild bootstrap_input = []"
    by (simp_all add: sample_membership_input_def)
  have built: "buildResultingMembership None ?c (js ''mem-1'') (js ''alice'') (local_label []) =
      Inr \<lparr>bm_record = sample_owner, bm_previous = None\<rparr>"
    by (simp add: buildResultingMembership_def Let_def fields created_membership_def
        FIRST_MEMBERSHIP_REVISION_def sample_owner_def)
  have gates: "mp_allowed (resolveRoomMembershipPolicyV1 Mode_private MN_bootstrap
      (resolveRoomPolicy (room_policy_input.make Mode_private RK_workspace None None None)))"
    "md_effect (evaluatePolicyMatrix (room_matrix_input Mode_private (membership_side_effect MN_bootstrap)))
      = PE_memory_only"
    by (rule sample_membership_gates; simp)+
  show ?thesis
    by (simp only: prepareMembershipMutation_def inp sample_membership_valid state fields Let_def
        ebind_simps throw_if_simps need_simps findTarget_def target_id.simps option.case
        assertExpectedRevision_def assertOwnerContinuity_def prod.case gates auth built new_ref.simps
        simp_thms)
qed

lemma sample_apply:
  assumes "prepareMembershipMutation (sample_membership_decisions scope) (sample_membership_input rs cj ctx)
      = Inr (cmd, b)"
    and "mb_roomId (bm_record b) = js ''room-local-1''"
    and "reduceRoomMembershipEventV1 rs (createAcceptedRoomMembershipEventV1 cmd b [] 1 []) = Inr rs'"
  shows "\<exists>r ev. applyLocalRoomMembershipMutationV1 (sample_membership_decisions scope)
      (sample_membership_input rs cj ctx) sample_log =
        (Inr r, MLog_memory \<lparr>mml_roomId = js ''room-local-1'', mml_events = [ev]\<rparr>)
     \<and> membership_records (mmr_nextState r) = rs'"
proof -
  let ?ev = "createAcceptedRoomMembershipEventV1 cmd b [] 1 []"
  have inp: "mmi_eventId (sample_membership_input rs cj ctx) = []"
    "mmi_nowEvent (sample_membership_input rs cj ctx) = []"
    "mmi_storageDecision (sample_membership_input rs cj ctx) = Suc 0"
    "membership_records (mmi_roomState (sample_membership_input rs cj ctx)) = rs"
    by (simp_all add: sample_membership_input_def membership_records_def)
  have "mlog_append sample_log (sample_membership_decisions scope) ?ev (Suc 0) = (Inr (Appended_memory 1),
     MLog_memory \<lparr>mml_roomId = js ''room-local-1'', mml_events = [?ev]\<rparr>)"
    by (rule sample_append) (simp_all add: event_fields assms(2))
  moreover have "mlog_nextLocalSequence sample_log = 1" by (simp add: sample_log_def)
  ultimately show ?thesis
    by (simp add: applyLocalRoomMembershipMutationV1_def assms(1,3) inp Let_def)
qed

lemma bootstrap_applied:
  "\<exists>r ev. applyLocalRoomMembershipMutationV1 (sample_membership_decisions ''room.membership.bootstrap'')
      bootstrap_input sample_log =
        (Inr r, MLog_memory \<lparr>mml_roomId = js ''room-local-1'', mml_events = [ev]\<rparr>)
     \<and> membership_records (mmr_nextState r) = [sample_owner]"
  by (rule sample_apply [OF bootstrap_prepared])
    (simp_all add: reduceRoomMembershipEventV1_def event_fields membership_at_def activeDuplicate_def,
      simp add: sample_owner_def)

theorem membership_mutation_outcome_witness:
  "\<exists>r. fst (applyLocalRoomMembershipMutationV1 (sample_membership_decisions ''room.membership.bootstrap'')
      bootstrap_input sample_log) = Inr r \<and> mmr_retained r"
proof -
  obtain r ev where r: "applyLocalRoomMembershipMutationV1
      (sample_membership_decisions ''room.membership.bootstrap'') bootstrap_input sample_log =
        (Inr r, MLog_memory \<lparr>mml_roomId = js ''room-local-1'', mml_events = [ev]\<rparr>)"
    using bootstrap_applied by blast
  show ?thesis using membership_mutation_outcome [OF r] r by (auto split: if_splits)
qed

theorem membership_log_replays_witness:
  "\<exists>ev. replayRoomMembershipEventsV1 [] [ev] = Inr [sample_owner]"
proof -
  let ?p = "sample_membership_decisions ''room.membership.bootstrap''"
  let ?seed = "draft_room (js ''room-local-1'')"
  have room: "rs_roomId ?seed = js ''room-local-1''" by (simp add: draft_room_def)
  have same: "bootstrap_input\<lparr>mmi_roomState := ?seed\<lparr>rs_membershipRecords := None\<rparr>\<rparr> = bootstrap_input"
    by (simp add: sample_membership_input_def)
  obtain r' ev' where r': "applyLocalRoomMembershipMutationV1 ?p bootstrap_input sample_log =
        (Inr r', MLog_memory \<lparr>mml_roomId = js ''room-local-1'', mml_events = [ev']\<rparr>)"
    "membership_records (mmr_nextState r') = [sample_owner]"
    using bootstrap_applied by blast
  have run: "membership_run ?seed [(?p, bootstrap_input)] = \<lparr>mr_room = mmr_nextState r',
      mr_log = MLog_memory \<lparr>mml_roomId = js ''room-local-1'', mml_events = [ev']\<rparr>, mr_clean = True\<rparr>"
    using r'(1) by (simp add: membership_run_def membership_run_step_def sample_log_def room same)
  have "mlog_readAll (mr_log (membership_run ?seed [(?p, bootstrap_input)])) ?p 2 = Inr [ev']"
    by (simp add: run sample_membership_authentic)
  from membership_log_replays [OF this] show ?thesis by (auto simp: run r'(2))
qed

text \<open>A room in which bob was suspended (\<open>mem-1\<close>) and added again (\<open>mem-2\<close>).\<close>

definition bob_suspended :: membership_record where
  "bob_suspended = sample_owner\<lparr>mb_memberRef := js ''bob'', mb_role := MR_viewer,
     mb_state := MS_suspended, mb_revision := 2\<rparr>"

definition bob_again :: membership_record where
  "bob_again = sample_owner\<lparr>mb_membershipId := js ''mem-2'', mb_memberRef := js ''bob'', mb_role := MR_viewer\<rparr>"

definition alice :: membership_record where
  "alice = sample_owner\<lparr>mb_membershipId := js ''mem-0''\<rparr>"

definition alice_context :: authorization_context where
  "alice_context = \<lparr>ac_membership = alice, ac_capability = \<lparr>cd_roomId = js ''room-local-1'',
     cd_memberRef = js ''alice'', cd_membershipId = js ''mem-0'', cd_membershipRevision = 1,
     cd_capability = CN_membership_reactivate, cd_objectKinds = None, cd_exactObjectId = None,
     cd_maximumView = None, cd_sourceRole = MR_owner, cd_authoritative = False\<rparr>, ac_decision = 0\<rparr>"

abbreviation reactivate_input :: membership_mutation_input where
  "reactivate_input \<equiv> sample_membership_input [alice, bob_suspended, bob_again]
     (membership_json ''membership.reactivate_local''
        [(js ''membershipId'', JStr (js ''mem-1'')), (js ''expectedRevision'', JNum (NInt 2))])
     (Some alice_context)"

definition bob_active :: membership_record where
  "bob_active = bob_suspended\<lparr>mb_revision := 3, mb_updatedAtLocal := local_label [], mb_state := MS_active\<rparr>"

lemma reactivate_prepared:
  "prepareMembershipMutation (sample_membership_decisions ''room.membership.reactivate'') reactivate_input =
     Inr (sample_mcommand (MA_reactivate (js ''mem-1'') 2),
          \<lparr>bm_record = bob_active, bm_previous = Some bob_suspended\<rparr>)"
proof -
  let ?c = "sample_mcommand (MA_reactivate (js ''mem-1'') 2)"
  let ?rs = "[alice, bob_suspended, bob_again]"
  have fields: "mc_roomId ?c = js ''room-local-1''" "mc_mode ?c = Mode_private"
    "mc_args ?c = MA_reactivate (js ''mem-1'') 2" "mc_command ?c = MN_reactivate"
    by (simp_all add: sample_mcommand_def mc_command_def)
  have state: "membership_records (mmi_roomState reactivate_input) = ?rs"
    "rs_roomId (mmi_roomState reactivate_input) = js ''room-local-1''"
    by (simp_all add: sample_membership_input_def membership_records_def draft_room_def)
  have find: "membership_at ?rs (js ''mem-1'') = Some bob_suspended" "membership_at ?rs (js ''mem-0'') = Some alice"
    by (simp_all add: membership_at_def alice_def bob_suspended_def sample_owner_def)
  have "assertRoomAuthorizationContextV1 (sample_membership_decisions ''room.membership.reactivate'')
      alice_context (ac_membership alice_context) \<lparr>ar_requiredCapability = CN_membership_reactivate,
        ar_requiredSideEffect = ''room.membership.reactivate'', ar_roomId = js ''room-local-1'',
        ar_objectId = None, ar_objectKind = None\<rparr> = Inr ()"
    using sample_membership_authentic(1) [of "''room.membership.reactivate''"]
    by (simp add: authorization_context_Inr alice_context_def descriptor_current_def alice_def sample_owner_def)
  moreover have "mb_membershipId (ac_membership alice_context) = js ''mem-0''" "mb_state alice = MS_active"
    "mmi_authorization reactivate_input = Some alice_context"
    by (simp_all add: alice_context_def alice_def sample_owner_def sample_membership_input_def)
  ultimately have auth: "authorizeMembershipMutation
      (sample_membership_decisions ''room.membership.reactivate'') reactivate_input ?c = Inr ()"
    by (simp add: authorizeMembershipMutation_def fields state Let_def find)
  have inp: "mmi_command reactivate_input = membership_json ''membership.reactivate_local''
        [(js ''membershipId'', JStr (js ''mem-1'')), (js ''expectedRevision'', JNum (NInt 2))]"
    "mmi_roomPolicy reactivate_input = resolveRoomPolicy (room_policy_input.make Mode_private RK_workspace None None None)"
    "mmi_nowBuild reactivate_input = []"
    by (simp_all add: sample_membership_input_def)
  have bob: "mb_revision bob_suspended = 2" "mb_role bob_suspended = MR_viewer"
    by (simp_all add: bob_suspended_def)
  have built: "buildResultingMembership (Some bob_suspended) ?c i r (local_label []) =
      Inr \<lparr>bm_record = bob_active, bm_previous = Some bob_suspended\<rparr>" for i r
    by (simp add: buildResultingMembership_def Let_def fields nextRoomMembershipRevision_def
        MAX_MEMBERSHIP_REVISION_def MAX_SAFE_INTEGER_def bob bob_active_def)
      (simp add: assertMembershipTransition_def bob_suspended_def)
  have gates: "mp_allowed (resolveRoomMembershipPolicyV1 Mode_private MN_reactivate
      (resolveRoomPolicy (room_policy_input.make Mode_private RK_workspace None None None)))"
    "md_effect (evaluatePolicyMatrix (room_matrix_input Mode_private (membership_side_effect MN_reactivate)))
      = PE_memory_only"
    by (rule sample_membership_gates; simp)+
  have target: "findTarget ?rs (MA_reactivate (js ''mem-1'') 2) = Some bob_suspended"
    by (simp add: findTarget_def find)
  have checks: "assertExpectedRevision (MA_reactivate (js ''mem-1'') 2) (Some bob_suspended) = Inr ()"
    "assertOwnerContinuity ?rs (Some bob_suspended) (MA_reactivate (js ''mem-1'') 2) = Inr ()"
    by (simp_all add: assertExpectedRevision_def assertOwnerContinuity_def bob)
  show ?thesis
    by (simp add: prepareMembershipMutation_def inp sample_membership_valid state fields Let_def
        target gates(1) gates(2) [unfolded membership_side_effect.simps] auth checks built)
qed

theorem reactivation_duplicates_member_witness:
  "\<exists>r log'. applyLocalRoomMembershipMutationV1 (sample_membership_decisions ''room.membership.reactivate'')
      reactivate_input sample_log = (Inr r, log')
     \<and> activeDuplicate (membership_records (mmr_nextState r)) (js ''room-local-1'') (js ''bob'')
     \<and> membership_at (membership_records (mmr_nextState r)) (js ''mem-2'') = Some bob_again"
proof -
  let ?rs = "[alice, bob_suspended, bob_again]"
  have state: "membership_records (mmi_roomState reactivate_input) = ?rs"
    by (simp add: sample_membership_input_def membership_records_def)
  have present: "membership_at ?rs (js ''mem-1'') = Some bob_suspended" "membership_at ?rs (js ''mem-2'') = Some bob_again"
    by (simp_all add: membership_at_def alice_def bob_suspended_def bob_again_def sample_owner_def)
  have red: "reduceRoomMembershipEventV1 ?rs (createAcceptedRoomMembershipEventV1
      (sample_mcommand (MA_reactivate (js ''mem-1'') 2))
      \<lparr>bm_record = bob_active, bm_previous = Some bob_suspended\<rparr> [] 1 []) = Inr [alice, bob_active, bob_again]"
    using present(1) by (simp add: reduceRoomMembershipEventV1_def event_fields)
      (simp add: bob_active_def bob_suspended_def bob_again_def alice_def sample_owner_def)
  have "mb_roomId bob_active = js ''room-local-1''"
    by (simp add: bob_active_def bob_suspended_def sample_owner_def)
  then obtain r ev where r: "applyLocalRoomMembershipMutationV1
      (sample_membership_decisions ''room.membership.reactivate'') reactivate_input sample_log =
        (Inr r, MLog_memory \<lparr>mml_roomId = js ''room-local-1'', mml_events = [ev]\<rparr>)"
    "membership_records (mmr_nextState r) = [alice, bob_active, bob_again]"
    using sample_apply [OF reactivate_prepared _ red] by auto
  have cmd: "validateRoomMembershipCommandV1 (mmi_command reactivate_input)
      = Inr (sample_mcommand (MA_reactivate (js ''mem-1'') 2))"
    by (simp add: sample_membership_input_def sample_membership_valid)
  have bob: "mb_state bob_again = MS_active" "mb_memberRef bob_again = mb_memberRef bob_suspended"
    "mc_args (sample_mcommand (MA_reactivate (js ''mem-1'') 2)) = MA_reactivate (js ''mem-1'') 2"
    by (simp_all add: bob_again_def bob_suspended_def sample_owner_def sample_mcommand_def)
  have "membership_at (membership_records (mmr_nextState r)) (js ''mem-2'') = Some bob_again"
    using reactivation_duplicates_member [OF r(1) cmd bob(3), unfolded state, OF present bob(1,2)] by blast
  moreover have "activeDuplicate [alice, bob_active, bob_again] (js ''room-local-1'') (js ''bob'')"
    by (simp add: activeDuplicate_def bob_again_def sample_owner_def)
  ultimately show ?thesis using r by auto
qed

end
