(* ===== verification/Policy_Composition.thy ===== *)
theory Policy_Composition
  imports Membership_Capability Room_State
begin

text \<open>
  Effective room policy: the composition of \<open>policy-composition.ts\<close>, its redacted
  conflict report, and the admission check of \<open>sensitive-admission.ts\<close>.  The effect
  constraints and the documents they come from are those of \<open>Policy_Document\<close>.
\<close>

section \<open>Composition\<close>

record constraint_result =
  cr_layer :: policy_layer
  cr_effect :: composed_effect
  cr_allowed :: bool
  cr_reasonCode :: string

definition layer_constraint :: "policy_layer \<Rightarrow> composed_effect \<Rightarrow> string \<Rightarrow> constraint_result" where
  "layer_constraint layer effect reasonCode = \<lparr>cr_layer = layer, cr_effect = effect,
     cr_allowed = effectPermitsExecutionV1 effect, cr_reasonCode = reasonCode\<rparr>"

text \<open>\<open>/(create|update|redact|detail|search|content|mutate)/.test(s)\<close>.\<close>

definition CONTENT_OPS :: "jstr \<Rightarrow> bool" where
  "CONTENT_OPS s \<longleftrightarrow> list_ex (\<lambda>p. includes_js s (js p))
     [''create'', ''update'', ''redact'', ''detail'', ''search'', ''content'', ''mutate'']"

text \<open>The members \<open>Array.from(new Set(xs))\<close> keeps: the first of each.\<close>

primrec js_unique :: "'a list \<Rightarrow> 'a list" where
  "js_unique [] = []"
| "js_unique (x # xs) = x # filter (\<lambda>y. y \<noteq> x) (js_unique xs)"

record composition_input =
  ci_privacyMode :: privacy_mode
  ci_effectiveDevicePosture :: effective_posture
  ci_roomPolicy :: policy_document
  ci_roomLifecycle :: room_lifecycle
  ci_operation :: jstr
  ci_membership :: "membership_record option"
  ci_capability :: "capability_descriptor option"
  ci_objectKind :: "object_kind_v1 option"
  ci_objectSensitivity :: "object_sensitivity option"
  ci_requestedView :: "view_class option"

record effective_room_policy =
  ef_roomId :: jstr
  ef_roomPolicyRevision :: int
  ef_devicePostureSignalRevision :: int
  ef_allowed :: bool
  ef_effect :: composed_effect
  ef_contentAllowed :: bool
  ef_persistentStorageAllowed :: bool
  ef_networkAllowed :: bool
  ef_metadataAllowed :: bool
  ef_notificationAllowed :: bool
  ef_aiAllowed :: bool
  ef_postureRequirementSatisfied :: bool
  ef_protectedPresentationSatisfied :: bool
  ef_winningConstraints :: "constraint_result list"
  ef_reasonCodes :: "string list"

definition push_if :: "bool \<Rightarrow> 'a \<Rightarrow> 'a list \<Rightarrow> 'a list" where
  "push_if c x xs = (if c then xs @ [x] else xs)"

text \<open>The constraints pushed for the content of the room, in the order of the source.\<close>

definition content_constraints :: "composition_input \<Rightarrow> constraint_result list" where
  "content_constraints inp =
     (let mode = ci_privacyMode inp; rp = ci_roomPolicy inp;
          posture = ep_effectivePosture (ci_effectiveDevicePosture inp);
          isContentOp = CONTENT_OPS (ci_operation inp);
          protect = resolveProtectedPresentationStatusV1 (doc_protectedContentRequirement rp);
          c1 = push_if (mode = Mode_emergency \<and> isContentOp)
            (layer_constraint PL_emergency_override CE_deny ''emergency_mode'') [];
          c2 = push_if (posture = DP_at_risk \<and> isContentOp)
            (layer_constraint PL_device_posture CE_deny ''device_at_risk'') c1;
          c3 = push_if (\<not> devicePostureSatisfiesMinimumV1 posture (doc_minimumDevicePosture rp) \<and> isContentOp)
            (layer_constraint PL_device_posture CE_deny ''posture_requirement_unmet'') c2;
          c4 = push_if (\<not> ps_requirementSatisfied protect \<and> isContentOp)
            (layer_constraint PL_room_policy CE_future_gate (ps_reasonCode protect)) c3;
          c5 = push_if ((mode = Mode_ghost \<or> mode = Mode_bunker) \<and> isContentOp
              \<and> doc_protectedContentRequirement rp \<noteq> PRq_none)
            (layer_constraint PL_privacy_mode CE_redact ''strict_mode_redaction'') c4
      in push_if (c5 = []) (layer_constraint PL_room_policy CE_allow ''content_permitted'') c5)"

definition storage_effect :: "composition_input \<Rightarrow> composed_effect" where
  "storage_effect inp =
     (if doc_maximumRetention (ci_roomPolicy inp) = RT_null
         \<or> ci_privacyMode inp = Mode_ghost \<or> ci_privacyMode inp = Mode_bunker
      then CE_null else CE_memory_only)"

definition metadata_effect :: "composition_input \<Rightarrow> composed_effect" where
  "metadata_effect inp =
     (if ci_privacyMode inp = Mode_emergency then CE_deny
      else if ci_privacyMode inp = Mode_ghost \<or> ci_privacyMode inp = Mode_bunker then CE_coarsen
      else if doc_actorRefsAllowed (ci_roomPolicy inp) then CE_allow else CE_coarsen)"

definition composeEffectiveRoomPolicyV1 :: "composition_input \<Rightarrow> effective_room_policy" where
  "composeEffectiveRoomPolicyV1 inp =
     (let mode = ci_privacyMode inp; rp = ci_roomPolicy inp;
          postureOk = devicePostureSatisfiesMinimumV1
            (ep_effectivePosture (ci_effectiveDevicePosture inp)) (doc_minimumDevicePosture rp);
          protect = resolveProtectedPresentationStatusV1 (doc_protectedContentRequirement rp);
          contentConstraints = content_constraints inp;
          contentEffect = foldStrictestEffectV1 (map cr_effect contentConstraints);
          contentAllowed = (effectPermitsExecutionV1 contentEffect \<and> postureOk
            \<and> ps_requirementSatisfied protect);
          notificationEffect = (if doc_notificationAllowed rp then CE_allow else CE_deny);
          aiEffect = (if doc_localAiAllowed rp \<and> \<not> (mode = Mode_ghost \<or> mode = Mode_bunker)
            \<and> mode \<noteq> Mode_emergency then CE_allow else CE_deny);
          overallEffect = (if CONTENT_OPS (ci_operation inp) then contentEffect
            else foldStrictestEffectV1 [contentEffect, storage_effect inp, metadata_effect inp])
      in \<lparr>ef_roomId = doc_roomId rp, ef_roomPolicyRevision = doc_revision rp,
          ef_devicePostureSignalRevision = ep_signalRevision (ci_effectiveDevicePosture inp),
          ef_allowed = (contentAllowed \<and> effectPermitsExecutionV1 overallEffect),
          ef_effect = overallEffect, ef_contentAllowed = contentAllowed,
          ef_persistentStorageAllowed = False, ef_networkAllowed = False,
          ef_metadataAllowed = (effectPermitsExecutionV1 (metadata_effect inp)
            \<and> metadata_effect inp = CE_allow),
          ef_notificationAllowed = (notificationEffect = CE_allow),
          ef_aiAllowed = (aiEffect = CE_allow),
          ef_postureRequirementSatisfied = postureOk,
          ef_protectedPresentationSatisfied = ps_requirementSatisfied protect,
          ef_winningConstraints = contentConstraints,
          ef_reasonCodes = js_unique (map cr_reasonCode contentConstraints)\<rparr>)"

datatype conflict_kind =
    CK_allow_conflicts_with_deny | CK_retention_conflict | CK_network_conflict
  | CK_metadata_conflict | CK_notification_conflict | CK_posture_requirement_unmet
  | CK_protected_presentation_unavailable | CK_governance_loosen_attempt
  | CK_unknown_policy_input

record conflict_report =
  ck_kind :: conflict_kind
  ck_layers :: "policy_layer list"
  ck_effect :: composed_effect
  ck_reasonCode :: string

definition buildRoomPolicyConflictReportV1 ::
  "conflict_kind \<Rightarrow> policy_layer list \<Rightarrow> composed_effect \<Rightarrow> string \<Rightarrow> conflict_report" where
  "buildRoomPolicyConflictReportV1 kind layers effect reasonCode = \<lparr>ck_kind = kind,
     ck_layers = layers, ck_effect = effect, ck_reasonCode = reasonCode\<rparr>"

section \<open>Admission\<close>

text \<open>\<open>SA_other\<close> is an action string outside the union.\<close>

datatype admission_action =
    SA_open_summary | SA_open_content | SA_mutate_content | SA_manage_membership
  | SA_change_policy | SA_other jstr

record admission_decision =
  ad_allowed :: bool
  ad_action :: admission_action
  ad_effectivePosture :: device_posture
  ad_requiredPosture :: min_posture
  ad_protectedPresentationSatisfied :: bool
  ad_reasonCode :: string

definition CONTENT_ACTIONS :: "admission_action list" where
  "CONTENT_ACTIONS = [SA_open_content, SA_mutate_content]"

definition resolveSensitiveRoomAdmissionV1 ::
  "policy_document \<Rightarrow> effective_posture \<Rightarrow> admission_action \<Rightarrow> privacy_mode \<Rightarrow> admission_decision" where
  "resolveSensitiveRoomAdmissionV1 rp posture action mode =
     (let protect = resolveProtectedPresentationStatusV1 (doc_protectedContentRequirement rp);
          eff = ep_effectivePosture posture;
          postureOk = devicePostureSatisfiesMinimumV1 eff (doc_minimumDevicePosture rp);
          answer = (\<lambda>allowed reasonCode. \<lparr>ad_allowed = allowed, ad_action = action,
            ad_effectivePosture = eff, ad_requiredPosture = doc_minimumDevicePosture rp,
            ad_protectedPresentationSatisfied = ps_requirementSatisfied protect,
            ad_reasonCode = reasonCode\<rparr>)
      in if action = SA_open_summary then
           (if mode = Mode_emergency then answer False ''emergency_mode''
            else answer True ''summary_permitted'')
         else if action = SA_manage_membership \<or> action = SA_change_policy then
           (if eff = DP_at_risk then answer False ''device_at_risk''
            else answer True ''separately_authorized'')
         else if action \<in> set CONTENT_ACTIONS then
           (if mode = Mode_emergency then answer False ''emergency_mode''
            else if eff = DP_at_risk then answer False ''device_at_risk''
            else if \<not> postureOk then answer False ''posture_requirement_unmet''
            else if \<not> ps_requirementSatisfied protect
              then answer False ''protected_presentation_unavailable''
            else answer True ''content_permitted'')
         else answer False ''unknown_action'')"

section \<open>Guarantees\<close>

lemma at_risk_unmet [simp]: "\<not> devicePostureSatisfiesMinimumV1 DP_at_risk m"
  by (simp add: devicePostureSatisfiesMinimumV1_def)

lemma push_if_set [simp]: "set (push_if c x xs) = (if c then insert x (set xs) else set xs)"
  by (auto simp: push_if_def)

lemma push_if_Nil [simp]: "push_if c x xs = [] \<longleftrightarrow> \<not> c \<and> xs = []"
  by (simp add: push_if_def)

lemma layer_constraint_sel [simp]:
  "cr_effect (layer_constraint l e r) = e" "cr_reasonCode (layer_constraint l e r) = r"
  "cr_layer (layer_constraint l e r) = l" "cr_allowed (layer_constraint l e r) = effectPermitsExecutionV1 e"
  by (simp_all add: layer_constraint_def)

lemma permits_simps [simp]:
  "\<not> effectPermitsExecutionV1 CE_deny" "\<not> effectPermitsExecutionV1 CE_future_gate"
  "effectPermitsExecutionV1 CE_redact" "effectPermitsExecutionV1 CE_allow"
  "effectPermitsExecutionV1 CE_null" "effectPermitsExecutionV1 CE_memory_only"
  "effectPermitsExecutionV1 CE_coarsen"
  by (simp_all add: effect_permits_strictness)

lemma content_effect_permits:
  "effectPermitsExecutionV1 (foldStrictestEffectV1 (map cr_effect (content_constraints inp))) \<longleftrightarrow>
     \<not> (CONTENT_OPS (ci_operation inp) \<and> (ci_privacyMode inp = Mode_emergency
        \<or> \<not> devicePostureSatisfiesMinimumV1 (ep_effectivePosture (ci_effectiveDevicePosture inp))
             (doc_minimumDevicePosture (ci_roomPolicy inp))
        \<or> \<not> ps_requirementSatisfied (resolveProtectedPresentationStatusV1
             (doc_protectedContentRequirement (ci_roomPolicy inp)))))"
  by (auto simp: fold_strictest_permits content_constraints_def Let_def)

lemma constraint_bound:
  "c \<in> set cs \<Longrightarrow> effectStrictnessV1 (cr_effect c) \<le> effectStrictnessV1 (foldStrictestEffectV1 (map cr_effect cs))"
  by (simp add: fold_strictest_strictness)

lemma fold_strictest_Cons_bound: "effectStrictnessV1 e \<le> effectStrictnessV1 (foldStrictestEffectV1 (e # es))"
  by (simp add: fold_strictest_strictness)

lemma composition_fields:
  "ef_contentAllowed (composeEffectiveRoomPolicyV1 inp) \<longleftrightarrow>
     \<not> (CONTENT_OPS (ci_operation inp) \<and> ci_privacyMode inp = Mode_emergency)
   \<and> devicePostureSatisfiesMinimumV1 (ep_effectivePosture (ci_effectiveDevicePosture inp))
       (doc_minimumDevicePosture (ci_roomPolicy inp))
   \<and> ps_requirementSatisfied (resolveProtectedPresentationStatusV1
       (doc_protectedContentRequirement (ci_roomPolicy inp)))"
  "ef_allowed (composeEffectiveRoomPolicyV1 inp) \<longleftrightarrow>
     ci_privacyMode inp \<noteq> Mode_emergency
   \<and> devicePostureSatisfiesMinimumV1 (ep_effectivePosture (ci_effectiveDevicePosture inp))
       (doc_minimumDevicePosture (ci_roomPolicy inp))
   \<and> ps_requirementSatisfied (resolveProtectedPresentationStatusV1
       (doc_protectedContentRequirement (ci_roomPolicy inp)))"
  "ef_metadataAllowed (composeEffectiveRoomPolicyV1 inp) \<longleftrightarrow>
     ci_privacyMode inp \<notin> {Mode_emergency, Mode_ghost, Mode_bunker} \<and> doc_actorRefsAllowed (ci_roomPolicy inp)"
  "ef_notificationAllowed (composeEffectiveRoomPolicyV1 inp) \<longleftrightarrow> doc_notificationAllowed (ci_roomPolicy inp)"
  "ef_aiAllowed (composeEffectiveRoomPolicyV1 inp) \<longleftrightarrow>
     ci_privacyMode inp \<notin> {Mode_emergency, Mode_ghost, Mode_bunker} \<and> doc_localAiAllowed (ci_roomPolicy inp)"
  "\<not> ef_persistentStorageAllowed (composeEffectiveRoomPolicyV1 inp)"
  "\<not> ef_networkAllowed (composeEffectiveRoomPolicyV1 inp)"
  unfolding composeEffectiveRoomPolicyV1_def Let_def effective_room_policy.simps
  by (auto simp: content_effect_permits fold_strictest_permits [of "[x, y, z]" for x y z]
      storage_effect_def metadata_effect_def)

text \<open>C26.  The composed verdict is exact and the same for every operation: a room is allowed
  exactly when the mode is not emergency, the device's effective posture meets the document's
  minimum and the document asks for no protection that only a future integration could give;
  persistence and network are never granted; and the reported effect is at least as strict as
  every constraint that is reported.\<close>

theorem composition_exact:
  "(ef_allowed (composeEffectiveRoomPolicyV1 inp) \<longleftrightarrow>
     ci_privacyMode inp \<noteq> Mode_emergency
     \<and> devicePostureSatisfiesMinimumV1 (ep_effectivePosture (ci_effectiveDevicePosture inp))
         (doc_minimumDevicePosture (ci_roomPolicy inp))
     \<and> doc_protectedContentRequirement (ci_roomPolicy inp) \<in> {PRq_none, PRq_policy_redaction_only})
   \<and> \<not> ef_persistentStorageAllowed (composeEffectiveRoomPolicyV1 inp)
   \<and> \<not> ef_networkAllowed (composeEffectiveRoomPolicyV1 inp)
   \<and> list_all (\<lambda>c. effectStrictnessV1 (cr_effect c)
         \<le> effectStrictnessV1 (ef_effect (composeEffectiveRoomPolicyV1 inp)))
       (ef_winningConstraints (composeEffectiveRoomPolicyV1 inp))"
proof -
  have "list_all (\<lambda>c. effectStrictnessV1 (cr_effect c)
         \<le> effectStrictnessV1 (ef_effect (composeEffectiveRoomPolicyV1 inp)))
       (ef_winningConstraints (composeEffectiveRoomPolicyV1 inp))"
    unfolding composeEffectiveRoomPolicyV1_def Let_def effective_room_policy.simps list_all_iff
    by (auto intro: constraint_bound order_trans [OF constraint_bound fold_strictest_Cons_bound])
  then show ?thesis by (auto simp: composition_fields protected_satisfied_iff)
qed

lemma allowed_rank_le: "(if a then 0 else 1) \<le> (if b then 0 else (1 :: int)) \<longleftrightarrow> (b \<longrightarrow> a)"
  by simp

lemma no_looser_iff:
  "no_looser a b \<longleftrightarrow>
     SENSITIVITY_RANK (doc_sensitivity a) \<le> SENSITIVITY_RANK (doc_sensitivity b)
   \<and> MIN_POSTURE_RANK (doc_minimumDevicePosture a) \<le> MIN_POSTURE_RANK (doc_minimumDevicePosture b)
   \<and> PROTECTED_RANK (doc_protectedContentRequirement a) \<le> PROTECTED_RANK (doc_protectedContentRequirement b)
   \<and> RETENTION_RANK (doc_maximumRetention a) \<le> RETENTION_RANK (doc_maximumRetention b)
   \<and> (doc_networkAllowed b \<longrightarrow> doc_networkAllowed a) \<and> (doc_directPeerAllowed b \<longrightarrow> doc_directPeerAllowed a)
   \<and> (doc_receiptsAllowed b \<longrightarrow> doc_receiptsAllowed a) \<and> (doc_typingAllowed b \<longrightarrow> doc_typingAllowed a)
   \<and> (doc_presenceAllowed b \<longrightarrow> doc_presenceAllowed a)
   \<and> (doc_exactCountsAllowed b \<longrightarrow> doc_exactCountsAllowed a)
   \<and> (doc_exactTimestampsAllowed b \<longrightarrow> doc_exactTimestampsAllowed a)
   \<and> (doc_actorRefsAllowed b \<longrightarrow> doc_actorRefsAllowed a)
   \<and> (doc_notificationAllowed b \<longrightarrow> doc_notificationAllowed a)
   \<and> (doc_localAiAllowed b \<longrightarrow> doc_localAiAllowed a)"
  unfolding no_looser_def restrictiveness_def
  by (simp only: list.simps append.simps list_all2_Cons list_all2_Nil allowed_rank_le simp_thms conj_assoc)

text \<open>C27.  Tightening a document never grants anything: whatever is allowed under a document
  that is no looser is allowed under the original one, for the verdict and for the content,
  metadata, notification and local AI permissions, in every mode, posture and operation.\<close>

theorem composition_monotone:
  assumes "no_looser (ci_roomPolicy inp) d"
  shows "let old = composeEffectiveRoomPolicyV1 inp;
             new = composeEffectiveRoomPolicyV1 (inp\<lparr>ci_roomPolicy := d\<rparr>)
    in (ef_allowed new \<longrightarrow> ef_allowed old) \<and> (ef_contentAllowed new \<longrightarrow> ef_contentAllowed old)
     \<and> (ef_metadataAllowed new \<longrightarrow> ef_metadataAllowed old)
     \<and> (ef_notificationAllowed new \<longrightarrow> ef_notificationAllowed old)
     \<and> (ef_aiAllowed new \<longrightarrow> ef_aiAllowed old)"
proof -
  have ranks: "MIN_POSTURE_RANK (doc_minimumDevicePosture (ci_roomPolicy inp)) \<le> MIN_POSTURE_RANK (doc_minimumDevicePosture d)"
    "PROTECTED_RANK (doc_protectedContentRequirement (ci_roomPolicy inp)) \<le> PROTECTED_RANK (doc_protectedContentRequirement d)"
    "doc_actorRefsAllowed d \<longrightarrow> doc_actorRefsAllowed (ci_roomPolicy inp)"
    "doc_notificationAllowed d \<longrightarrow> doc_notificationAllowed (ci_roomPolicy inp)"
    "doc_localAiAllowed d \<longrightarrow> doc_localAiAllowed (ci_roomPolicy inp)"
    using assms by (simp_all add: no_looser_iff)
  have req: "REQUIRED_RANK m = MIN_POSTURE_RANK m" for m by (cases m) simp_all
  have posture: "devicePostureSatisfiesMinimumV1 p (doc_minimumDevicePosture d) \<Longrightarrow>
      devicePostureSatisfiesMinimumV1 p (doc_minimumDevicePosture (ci_roomPolicy inp))" for p
    using ranks(1) by (auto simp: devicePostureSatisfiesMinimumV1_def req split: option.splits)
  have low: "ps_requirementSatisfied (resolveProtectedPresentationStatusV1 r) \<longleftrightarrow> PROTECTED_RANK r \<le> 1" for r
    by (cases r) (simp_all add: protected_satisfied_iff)
  show ?thesis
    using ranks posture unfolding Let_def by (auto simp: composition_fields low)
qed

text \<open>The admission check for content and the composition decide alike: opening or mutating
  the content of a room is admitted exactly when the composed policy of any operation allows
  the room, under the same document, posture and mode.\<close>

theorem admission_matches_composition:
  assumes "action \<in> set CONTENT_ACTIONS"
  shows "ad_allowed (resolveSensitiveRoomAdmissionV1 (ci_roomPolicy inp) (ci_effectiveDevicePosture inp)
       action (ci_privacyMode inp))
     \<longleftrightarrow> ef_allowed (composeEffectiveRoomPolicyV1 inp)"
  using assms
  by (auto simp: composition_fields resolveSensitiveRoomAdmissionV1_def Let_def CONTENT_ACTIONS_def)

definition sample_composition :: "privacy_mode \<Rightarrow> composition_input" where
  "sample_composition mode = \<lparr>ci_privacyMode = mode,
     ci_effectiveDevicePosture = resolveEffectiveDevicePostureV1 None,
     ci_roomPolicy = resolveRoomPolicyDocumentDefaultsV1 (js ''room-1'') mode None,
     ci_roomLifecycle = LC_active_local, ci_operation = js ''room.object.detail'',
     ci_membership = None, ci_capability = None, ci_objectKind = None,
     ci_objectSensitivity = None, ci_requestedView = None\<rparr>"

theorem composition_monotone_witness:
  "ef_allowed (composeEffectiveRoomPolicyV1 ((sample_composition Mode_private)
        \<lparr>ci_roomPolicy := (ci_roomPolicy (sample_composition Mode_private))\<lparr>doc_sensitivity := SN_critical\<rparr>\<rparr>))
   \<and> ef_allowed (composeEffectiveRoomPolicyV1 (sample_composition Mode_private))"
proof -
  let ?tight = "(ci_roomPolicy (sample_composition Mode_private))\<lparr>doc_sensitivity := SN_critical\<rparr>"
  have "no_looser (ci_roomPolicy (sample_composition Mode_private)) ?tight"
    by (simp add: no_looser_iff sample_composition_def
        resolveRoomPolicyDocumentDefaultsV1_def Let_def)
  from composition_monotone [OF this]
  have "ef_allowed (composeEffectiveRoomPolicyV1 ((sample_composition Mode_private)\<lparr>ci_roomPolicy := ?tight\<rparr>))
      \<longrightarrow> ef_allowed (composeEffectiveRoomPolicyV1 (sample_composition Mode_private))"
    unfolding Let_def by blast
  moreover have "ef_allowed (composeEffectiveRoomPolicyV1
      ((sample_composition Mode_private)\<lparr>ci_roomPolicy := ?tight\<rparr>))"
    by (simp add: composition_fields sample_composition_def resolveRoomPolicyDocumentDefaultsV1_def Let_def
        protected_satisfied_iff devicePostureSatisfiesMinimumV1_def resolveEffectiveDevicePostureV1_def
        unverifiedResult_def)
  ultimately show ?thesis by blast
qed

theorem admission_matches_composition_witness:
  "ad_allowed (resolveSensitiveRoomAdmissionV1 (ci_roomPolicy (sample_composition Mode_private))
      (ci_effectiveDevicePosture (sample_composition Mode_private)) SA_open_content Mode_private)
   \<and> ef_allowed (composeEffectiveRoomPolicyV1 (sample_composition Mode_private))"
proof -
  have "ad_allowed (resolveSensitiveRoomAdmissionV1 (ci_roomPolicy (sample_composition Mode_private))
      (ci_effectiveDevicePosture (sample_composition Mode_private)) SA_open_content Mode_private)"
    by (simp add: resolveSensitiveRoomAdmissionV1_def Let_def CONTENT_ACTIONS_def sample_composition_def
        resolveRoomPolicyDocumentDefaultsV1_def protected_satisfied_iff devicePostureSatisfiesMinimumV1_def
        resolveEffectiveDevicePostureV1_def unverifiedResult_def)
  then show ?thesis
    using admission_matches_composition [of SA_open_content "sample_composition Mode_private"]
    by (simp add: CONTENT_ACTIONS_def sample_composition_def)
qed

end
