(* ===== verification/Authorization.thy ===== *)
theory Authorization
  imports Membership_Pipeline
begin

text \<open>
  Prepared authorizations of \<open>packages/rooms/src/authorization/\<close>: the revision fence
  (\<open>authorization-revision.ts\<close>), preparation (\<open>prepared-authorization.ts\<close>),
  the revalidation right before a side effect (\<open>authorization-revalidation.ts\<close>), the
  comparison of roles by their capability sets (\<open>role-authority.ts\<close>), the revocation
  pipeline (\<open>revocation-pipeline.ts\<close>) and its redacted report
  (\<open>revocation-report.ts\<close>).
\<close>

section \<open>The revision fence\<close>

record authorization_revision =
  rv_roomId :: jstr
  rv_membershipId :: jstr
  rv_membershipRevision :: int
  rv_roomPolicyRevision :: int
  rv_roomLifecycle :: room_lifecycle
  rv_privacyMode :: privacy_mode
  rv_effectiveDevicePosture :: device_posture
  rv_devicePostureSignalRevision :: int

definition policy_bits :: "room_policy \<Rightarrow> bool list" where
  "policy_bits policy = [rp_allowLocalContentMutation policy, rp_allowPersistentProjection policy,
     rp_allowOperationLogPersistence policy, rp_allowNetworkSync policy,
     rp_allowMetadataSignals policy, rp_allowNotifications policy, rp_allowLocalAI policy,
     rp_redactTitles policy]"

text \<open>The loop \<open>if (bits[i]) value |= 1 << i\<close> on a 32-bit integer.\<close>

fun fold_bits :: "nat \<Rightarrow> bool list \<Rightarrow> 32 word \<Rightarrow> 32 word" where
  "fold_bits i [] v = v"
| "fold_bits i (b # bs) v = fold_bits (Suc i) bs (if b then or v (push_bit i 1) else v)"

definition computeRoomPolicyFingerprintV1 :: "room_policy \<Rightarrow> int" where
  "computeRoomPolicyFingerprintV1 policy = sint (fold_bits 0 (policy_bits policy) 0)"

definition roomPolicyRevisionOfV1 :: "room_state \<Rightarrow> room_policy \<Rightarrow> int" where
  "roomPolicyRevisionOfV1 roomState policy = (case rs_policyRevision roomState of
     Some n \<Rightarrow> n | None \<Rightarrow> computeRoomPolicyFingerprintV1 policy)"

definition roomAuthorizationRevisionV1 ::
  "room_state \<Rightarrow> membership_record \<Rightarrow> room_policy \<Rightarrow> device_posture option \<Rightarrow> int option
     \<Rightarrow> authorization_revision" where
  "roomAuthorizationRevisionV1 roomState membership roomPolicy posture signalRevision = \<lparr>
     rv_roomId = rs_roomId roomState, rv_membershipId = mb_membershipId membership,
     rv_membershipRevision = mb_revision membership,
     rv_roomPolicyRevision = roomPolicyRevisionOfV1 roomState roomPolicy,
     rv_roomLifecycle = rs_lifecycle roomState, rv_privacyMode = rs_mode roomState,
     rv_effectiveDevicePosture = (case posture of None \<Rightarrow> DP_unverified | Some p \<Rightarrow> p),
     rv_devicePostureSignalRevision = (case signalRevision of None \<Rightarrow> 0 | Some n \<Rightarrow> n)\<rparr>"

definition roomAuthorizationRevisionEqualV1 ::
  "authorization_revision \<Rightarrow> authorization_revision \<Rightarrow> bool" where
  "roomAuthorizationRevisionEqualV1 a b \<longleftrightarrow> rv_roomId a = rv_roomId b
     \<and> rv_membershipId a = rv_membershipId b
     \<and> rv_membershipRevision a = rv_membershipRevision b
     \<and> rv_roomPolicyRevision a = rv_roomPolicyRevision b
     \<and> rv_roomLifecycle a = rv_roomLifecycle b \<and> rv_privacyMode a = rv_privacyMode b
     \<and> rv_effectiveDevicePosture a = rv_effectiveDevicePosture b
     \<and> rv_devicePostureSignalRevision a = rv_devicePostureSignalRevision b"

section \<open>Preparation\<close>

record prepared_authorization =
  pa_schemaVersion :: int
  pa_revision :: authorization_revision
  pa_membershipId :: jstr
  pa_memberRef :: jstr
  pa_capability :: capability_descriptor
  pa_requiredCapability :: capability_name
  pa_requiredSideEffect :: side_effect_scope
  pa_roomId :: jstr
  pa_objectId :: "jstr option"
  pa_objectKind :: "object_kind_v1 option"
  pa_requestedView :: "view_class option"
  pa_targetMembershipId :: "jstr option"
  pa_targetMembershipRevision :: "int option"
  pa_authoritative :: bool

record prepare_input =
  pri_roomState :: room_state
  pri_membership :: membership_record
  pri_requestedCapability :: capability_name
  pri_requiredSideEffect :: side_effect_scope
  pri_roomPolicy :: room_policy
  pri_objectId :: "jstr option"
  pri_objectKind :: "object_kind_v1 option"
  pri_requestedView :: "view_class option"
  pri_targetMembership :: "membership_record option"
  pri_deviceRiskLevel :: "risk_level option"
  pri_devicePostureSignal :: "posture_signal option"

definition prepare_resolution :: "prepare_input \<Rightarrow> membership_record \<Rightarrow> capability_resolution" where
  "prepare_resolution inp current = resolveRoomLocalCapabilityV1 \<lparr>
     cri_membership = current, cri_requestedCapability = pri_requestedCapability inp,
     cri_mode = rs_mode (pri_roomState inp), cri_roomPolicy = pri_roomPolicy inp,
     cri_objectKind = pri_objectKind inp, cri_objectId = pri_objectId inp,
     cri_requestedView = pri_requestedView inp, cri_deviceRiskLevel = pri_deviceRiskLevel inp\<rparr>"

definition prepared_context ::
  "prepare_input \<Rightarrow> membership_record \<Rightarrow> capability_descriptor \<Rightarrow> prepared_authorization" where
  "prepared_context inp current descriptor =
     (let posture = resolveEffectiveDevicePostureV1 (pri_devicePostureSignal inp)
      in \<lparr>pa_schemaVersion = 1,
          pa_revision = roomAuthorizationRevisionV1 (pri_roomState inp) current (pri_roomPolicy inp)
            (Some (ep_effectivePosture posture)) (Some (ep_signalRevision posture)),
          pa_membershipId = mb_membershipId current, pa_memberRef = mb_memberRef current,
          pa_capability = descriptor, pa_requiredCapability = pri_requestedCapability inp,
          pa_requiredSideEffect = pri_requiredSideEffect inp,
          pa_roomId = rs_roomId (pri_roomState inp),
          pa_objectId = pri_objectId inp, pa_objectKind = pri_objectKind inp,
          pa_requestedView = pri_requestedView inp,
          pa_targetMembershipId = map_option mb_membershipId (pri_targetMembership inp),
          pa_targetMembershipRevision = map_option mb_revision (pri_targetMembership inp),
          pa_authoritative = False\<rparr>)"

definition prepareRoomAuthorizationV1 :: "prepare_input \<Rightarrow> prepared_authorization res" where
  "prepareRoomAuthorizationV1 inp =
     ebind (need (AuthorizationError AC_membership_suspended)
       (membership_at (membership_records (pri_roomState inp)) (mb_membershipId (pri_membership inp)))) (\<lambda>current.
     ebind (throw_if (mb_state current \<noteq> MS_active) (AuthorizationError AC_membership_suspended)) (\<lambda>_.
     case prepare_resolution inp current of
       CR_denied r \<Rightarrow> Inl (AuthorizationError AC_role_capability_revoked)
     | CR_allowed descriptor r \<Rightarrow> Inr (prepared_context inp current descriptor)))"

section \<open>Revalidation\<close>

record revalidation =
  rq_prepared :: prepared_authorization
  rq_roomState :: room_state
  rq_membership :: membership_record
  rq_roomPolicy :: room_policy
  rq_decision :: dref
  rq_requiredCapability :: capability_name
  rq_sideEffect :: side_effect_scope
  rq_objectId :: "jstr option"
  rq_actualObjectKind :: "object_kind_v1 option"
  rq_requestedView :: "view_class option"
  rq_targetMembership :: "membership_record option"
  rq_postureSignal :: "posture_signal option"

text \<open>Steps 1 to 6: the context is a prepared one, of this room, and its member is still here.\<close>

definition assertPreparedMember :: "revalidation \<Rightarrow> unit res" where
  "assertPreparedMember q =
     (let prepared = rq_prepared q; rs = rq_roomState q; m = rq_membership q
      in ebind (throw_if (pa_schemaVersion prepared \<noteq> 1 \<or> pa_authoritative prepared)
           (AuthorizationError AC_prepared_authorization_stale)) (\<lambda>_.
         ebind (throw_if (pa_roomId prepared \<noteq> rs_roomId rs
             \<or> rv_roomId (pa_revision prepared) \<noteq> rs_roomId rs)
           (AuthorizationError AC_authorization_revision_mismatch)) (\<lambda>_.
         ebind (throw_if (membership_at (membership_records rs) (pa_membershipId prepared) = None
             \<or> mb_membershipId m \<noteq> pa_membershipId prepared)
           (AuthorizationError AC_membership_removed)) (\<lambda>_.
         ebind (throw_if (mb_memberRef m \<noteq> pa_memberRef prepared)
           (AuthorizationError AC_authorization_revision_mismatch)) (\<lambda>_.
         ebind (throw_if (mb_state m = MS_removed_tombstone)
           (AuthorizationError AC_membership_removed)) (\<lambda>_.
         throw_if (mb_state m \<noteq> MS_active) (AuthorizationError AC_membership_suspended)))))))"

text \<open>Steps 7 to 12: nothing the fence recorded has changed, and the descriptor is current.\<close>

definition assertPreparedFence :: "revalidation \<Rightarrow> unit res" where
  "assertPreparedFence q =
     (let rv = pa_revision (rq_prepared q); rs = rq_roomState q; m = rq_membership q;
          posture = resolveEffectiveDevicePostureV1 (rq_postureSignal q)
      in ebind (throw_if (mb_revision m \<noteq> rv_membershipRevision rv)
           (AuthorizationError AC_authorization_revision_mismatch)) (\<lambda>_.
         ebind (throw_if (mb_role m \<noteq> cd_sourceRole (pa_capability (rq_prepared q)))
           (AuthorizationError AC_role_capability_revoked)) (\<lambda>_.
         ebind (throw_if (roomPolicyRevisionOfV1 rs (rq_roomPolicy q) \<noteq> rv_roomPolicyRevision rv)
           (AuthorizationError AC_room_policy_revision_mismatch)) (\<lambda>_.
         ebind (throw_if (rs_mode rs \<noteq> rv_privacyMode rv)
           (AuthorizationError AC_privacy_mode_revision_mismatch)) (\<lambda>_.
         ebind (throw_if (rs_lifecycle rs \<noteq> rv_roomLifecycle rv)
           (AuthorizationError AC_authorization_revision_mismatch)) (\<lambda>_.
         ebind (throw_if (ep_effectivePosture posture \<noteq> rv_effectiveDevicePosture rv
             \<or> ep_signalRevision posture \<noteq> rv_devicePostureSignalRevision rv)
           (AuthorizationError AC_authorization_revision_mismatch)) (\<lambda>_.
         assertRoomCapabilityDescriptorCurrentV1 (pa_capability (rq_prepared q)) m)))))))"

text \<open>Steps 13 and 14: the context is used for what it was prepared for.\<close>

definition assertPreparedBinding :: "revalidation \<Rightarrow> unit res" where
  "assertPreparedBinding q =
     (let prepared = rq_prepared q
      in ebind (throw_if (pa_objectId prepared \<noteq> rq_objectId q)
           (AuthorizationError AC_authorization_object_binding)) (\<lambda>_.
         ebind (throw_if (pa_objectKind prepared \<noteq> rq_actualObjectKind q)
           (AuthorizationError AC_authorization_object_binding)) (\<lambda>_.
         ebind (throw_if (pa_requestedView prepared \<noteq> rq_requestedView q)
           (AuthorizationError AC_authorization_view_binding)) (\<lambda>_.
         ebind (throw_if (pa_targetMembershipId prepared
             \<noteq> map_option mb_membershipId (rq_targetMembership q))
           (AuthorizationError AC_authorization_target_binding)) (\<lambda>_.
         ebind (throw_if (pa_targetMembershipRevision prepared \<noteq> None
             \<and> pa_targetMembershipRevision prepared \<noteq> map_option mb_revision (rq_targetMembership q))
           (AuthorizationError AC_authorization_target_binding)) (\<lambda>_.
         throw_if (pa_requiredCapability prepared \<noteq> rq_requiredCapability q
             \<or> pa_requiredSideEffect prepared \<noteq> rq_sideEffect q)
           (AuthorizationError AC_authorization_operation_binding)))))))"

definition assertPreparedDecision :: "privacy_state \<Rightarrow> dref \<Rightarrow> side_effect_scope \<Rightarrow> unit res" where
  "assertPreparedDecision s decision scope =
     ebind (need (AuthorizationError AC_decision_missing) (authentic s decision)) (\<lambda>d.
     ebind (throw_if (pd_verdict d \<noteq> Allowed) (AuthorizationError AC_decision_mismatch)) (\<lambda>_.
     ebind (throw_if (pd_capability d \<noteq> ROOM_CAPABILITY) (AuthorizationError AC_decision_mismatch)) (\<lambda>_.
     throw_if (pd_sideEffect d \<noteq> scope) (AuthorizationError AC_decision_mismatch))))"

definition assertPreparedRoomAuthorizationCurrentV1 :: "privacy_state \<Rightarrow> revalidation \<Rightarrow> unit res" where
  "assertPreparedRoomAuthorizationCurrentV1 s q =
     ebind (assertPreparedMember q) (\<lambda>_.
     ebind (assertPreparedFence q) (\<lambda>_.
     ebind (assertPreparedBinding q) (\<lambda>_.
     assertPreparedDecision s (rq_decision q) (rq_sideEffect q))))"

lemma assertPreparedMember_Inr:
  "assertPreparedMember q = Inr u \<longleftrightarrow>
     pa_schemaVersion (rq_prepared q) = 1 \<and> \<not> pa_authoritative (rq_prepared q)
   \<and> pa_roomId (rq_prepared q) = rs_roomId (rq_roomState q)
   \<and> rv_roomId (pa_revision (rq_prepared q)) = rs_roomId (rq_roomState q)
   \<and> membership_at (membership_records (rq_roomState q)) (pa_membershipId (rq_prepared q)) \<noteq> None
   \<and> mb_membershipId (rq_membership q) = pa_membershipId (rq_prepared q)
   \<and> mb_memberRef (rq_membership q) = pa_memberRef (rq_prepared q)
   \<and> mb_state (rq_membership q) = MS_active"
  unfolding assertPreparedMember_def Let_def ebind_eq_Inr throw_if_eq_Inr by auto

lemma assertPreparedFence_Inr:
  "assertPreparedFence q = Inr u \<longleftrightarrow>
     mb_revision (rq_membership q) = rv_membershipRevision (pa_revision (rq_prepared q))
   \<and> roomPolicyRevisionOfV1 (rq_roomState q) (rq_roomPolicy q)
       = rv_roomPolicyRevision (pa_revision (rq_prepared q))
   \<and> rs_mode (rq_roomState q) = rv_privacyMode (pa_revision (rq_prepared q))
   \<and> rs_lifecycle (rq_roomState q) = rv_roomLifecycle (pa_revision (rq_prepared q))
   \<and> ep_effectivePosture (resolveEffectiveDevicePostureV1 (rq_postureSignal q))
       = rv_effectiveDevicePosture (pa_revision (rq_prepared q))
   \<and> ep_signalRevision (resolveEffectiveDevicePostureV1 (rq_postureSignal q))
       = rv_devicePostureSignalRevision (pa_revision (rq_prepared q))
   \<and> descriptor_current (pa_capability (rq_prepared q)) (rq_membership q)"
  unfolding assertPreparedFence_def Let_def ebind_eq_Inr throw_if_eq_Inr descriptor_current_iff
  by (auto simp: descriptor_current_def)

lemma assertPreparedBinding_Inr:
  "assertPreparedBinding q = Inr u \<longleftrightarrow>
     pa_objectId (rq_prepared q) = rq_objectId q \<and> pa_objectKind (rq_prepared q) = rq_actualObjectKind q
   \<and> pa_requestedView (rq_prepared q) = rq_requestedView q
   \<and> pa_targetMembershipId (rq_prepared q) = map_option mb_membershipId (rq_targetMembership q)
   \<and> (pa_targetMembershipRevision (rq_prepared q) = None
      \<or> pa_targetMembershipRevision (rq_prepared q) = map_option mb_revision (rq_targetMembership q))
   \<and> pa_requiredCapability (rq_prepared q) = rq_requiredCapability q
   \<and> pa_requiredSideEffect (rq_prepared q) = rq_sideEffect q"
  unfolding assertPreparedBinding_def Let_def ebind_eq_Inr throw_if_eq_Inr by blast

lemma assertPreparedDecision_Inr:
  "assertPreparedDecision s r scope = Inr u \<longleftrightarrow> (\<exists>d. authentic s r = Some d
     \<and> pd_verdict d = Allowed \<and> pd_capability d = Cap_persistence \<and> pd_sideEffect d = scope)"
  by (auto simp: assertPreparedDecision_def ROOM_CAPABILITY_def)

lemma assertPrepared_Inr:
  "assertPreparedRoomAuthorizationCurrentV1 s q = Inr u \<longleftrightarrow>
     assertPreparedMember q = Inr () \<and> assertPreparedFence q = Inr ()
   \<and> assertPreparedBinding q = Inr ()
   \<and> assertPreparedDecision s (rq_decision q) (rq_sideEffect q) = Inr ()"
  by (simp add: assertPreparedRoomAuthorizationCurrentV1_def)

interpretation prepared_gate: decision_gate
  "\<lambda>s r q. assertPreparedRoomAuthorizationCurrentV1 s (q\<lparr>rq_decision := r\<rparr>)" rq_sideEffect
  by unfold_locales (auto simp: assertPrepared_Inr assertPreparedDecision_Inr)

section \<open>Roles by their capability sets\<close>

definition getRoleCapabilitiesV1 :: "membership_role \<Rightarrow> capability_name set" where
  "getRoleCapabilitiesV1 role = set (ROLE_CAPABILITY_ELIGIBILITY role)"

datatype authority_comparison = AU_narrower | AU_wider | AU_equal | AU_incomparable

definition compareRoleAuthorityV1 :: "membership_role \<Rightarrow> membership_role \<Rightarrow> authority_comparison" where
  "compareRoleAuthorityV1 source target =
     (let aSubB = getRoleCapabilitiesV1 source \<subseteq> getRoleCapabilitiesV1 target;
          bSubA = getRoleCapabilitiesV1 target \<subseteq> getRoleCapabilitiesV1 source
      in if aSubB \<and> bSubA then AU_equal
         else if bSubA then AU_narrower
         else if aSubB then AU_wider
         else AU_incomparable)"

datatype change_direction_v1 = CD_restrictive | CD_expansive | CD_neutral | CD_unknown_direction

definition classifyMembershipChangeDirectionV1 ::
  "membership_args \<Rightarrow> membership_record option \<Rightarrow> change_direction_v1" where
  "classifyMembershipChangeDirectionV1 args current = (case args of
       MA_bootstrap r \<Rightarrow> CD_expansive
     | MA_add r role \<Rightarrow> CD_expansive
     | MA_suspend i n \<Rightarrow> CD_restrictive
     | MA_remove i n \<Rightarrow> CD_restrictive
     | MA_reactivate i n \<Rightarrow> CD_expansive
     | MA_change_role i newRole n \<Rightarrow> (case current of
           None \<Rightarrow> CD_unknown_direction
         | Some c \<Rightarrow> (case compareRoleAuthorityV1 (mb_role c) newRole of
               AU_narrower \<Rightarrow> CD_restrictive
             | AU_wider \<Rightarrow> CD_expansive
             | AU_equal \<Rightarrow> CD_neutral
             | AU_incomparable \<Rightarrow> CD_unknown_direction)))"

lemma role_sets:
  "getRoleCapabilitiesV1 MR_viewer \<subset> getRoleCapabilitiesV1 MR_editor"
  "getRoleCapabilitiesV1 MR_editor \<subset> getRoleCapabilitiesV1 MR_owner"
  "getRoleCapabilitiesV1 MR_auditor \<subset> getRoleCapabilitiesV1 MR_owner"
  "\<not> getRoleCapabilitiesV1 MR_auditor \<subseteq> getRoleCapabilitiesV1 MR_editor"
  "\<not> getRoleCapabilitiesV1 MR_viewer \<subseteq> getRoleCapabilitiesV1 MR_auditor"
  by (auto simp: getRoleCapabilitiesV1_def ROOM_CAPABILITY_NAMES_def)

lemma direction_restricts:
  assumes "classifyMembershipChangeDirectionV1 (MA_change_role i q n) (Some t) \<in> {CD_restrictive, CD_neutral}"
  shows "getRoleCapabilitiesV1 q \<subseteq> getRoleCapabilitiesV1 (mb_role t)"
  using assms by (auto simp: classifyMembershipChangeDirectionV1_def compareRoleAuthorityV1_def Let_def
      split: if_splits)

section \<open>The revocation pipeline\<close>

fun revocation_capability :: "membership_args \<Rightarrow> capability_name" where
  "revocation_capability (MA_suspend i n) = CN_membership_suspend"
| "revocation_capability (MA_change_role i q n) = CN_membership_change_role"
| "revocation_capability _ = CN_membership_remove"

fun revocation_side_effect :: "membership_args \<Rightarrow> side_effect_scope" where
  "revocation_side_effect (MA_suspend i n) = ''room.membership.suspend''"
| "revocation_side_effect (MA_change_role i q n) = ''room.membership.change_role''"
| "revocation_side_effect _ = ''room.membership.remove''"

record revocation_input =
  rvi_roomState :: room_state
  rvi_command :: jsval
  rvi_prepared :: prepared_authorization
  rvi_decision :: dref
  rvi_storageDecision :: dref
  rvi_roomPolicy :: room_policy
  rvi_eventId :: jstr
  rvi_nowBuild :: jstr
  rvi_nowEvent :: jstr

record revocation_result =
  rvr_event :: membership_event
  rvr_nextState :: room_state
  rvr_membership :: membership_record
  rvr_invalidatedMembershipRevision :: int
  rvr_retained :: bool

text \<open>Steps 1 to 7: the target record, the acting record and everything revalidated.\<close>

definition prepareRevocation ::
  "privacy_state \<Rightarrow> revocation_input \<Rightarrow> (membership_record \<times> membership_record) res" where
  "prepareRevocation s inp =
     ebind (validateRoomMembershipCommandV1 (rvi_command inp)) (\<lambda>command.
     let records = membership_records (rvi_roomState inp); args = mc_args command
     in ebind (need (AuthorizationError AC_membership_removed)
         (membership_at records (pa_membershipId (rvi_prepared inp)))) (\<lambda>actor.
        ebind (need (AuthorizationError AC_authorization_target_binding)
         (findTarget records args)) (\<lambda>target.
        ebind (throw_if (classifyMembershipChangeDirectionV1 args (Some target)
             \<in> {CD_expansive, CD_unknown_direction})
           (AuthorizationError AC_restrictive_operation_escalation)) (\<lambda>_.
        ebind (assertPreparedRoomAuthorizationCurrentV1 s \<lparr>rq_prepared = rvi_prepared inp,
           rq_roomState = rvi_roomState inp, rq_membership = actor,
           rq_roomPolicy = rvi_roomPolicy inp, rq_decision = rvi_decision inp,
           rq_requiredCapability = revocation_capability args,
           rq_sideEffect = revocation_side_effect args, rq_objectId = None,
           rq_actualObjectKind = None, rq_requestedView = None, rq_targetMembership = Some target,
           rq_postureSignal = None\<rparr>) (\<lambda>_.
        Inr (actor, target))))))"

definition revocation_mutation :: "revocation_input \<Rightarrow> membership_record \<Rightarrow> membership_mutation_input" where
  "revocation_mutation inp actor = \<lparr>mmi_roomState = rvi_roomState inp, mmi_command = rvi_command inp,
     mmi_roomPolicy = rvi_roomPolicy inp,
     mmi_authorization = Some \<lparr>ac_membership = actor, ac_capability = pa_capability (rvi_prepared inp),
       ac_decision = rvi_decision inp\<rparr>,
     mmi_bootstrapDecision = None, mmi_storageDecision = rvi_storageDecision inp,
     mmi_eventId = rvi_eventId inp, mmi_membershipId = None, mmi_nowBuild = rvi_nowBuild inp,
     mmi_nowEvent = rvi_nowEvent inp\<rparr>"

definition applyLocalMembershipRevocationV1 ::
  "privacy_state \<Rightarrow> revocation_input \<Rightarrow> membership_log \<Rightarrow> revocation_result res \<times> membership_log" where
  "applyLocalMembershipRevocationV1 s inp log = (case prepareRevocation s inp of
       Inl e \<Rightarrow> (Inl e, log)
     | Inr (actor, target) \<Rightarrow>
         (case applyLocalRoomMembershipMutationV1 s (revocation_mutation inp actor) log of
            (Inl e, log') \<Rightarrow> (Inl e, log')
          | (Inr r, log') \<Rightarrow> (Inr \<lparr>rvr_event = mmr_event r, rvr_nextState = mmr_nextState r,
                rvr_membership = mmr_membership r,
                rvr_invalidatedMembershipRevision = mb_revision target,
                rvr_retained = mmr_retained r\<rparr>, log')))"

section \<open>The invalidation report\<close>

datatype invalidation_cause =
    IC_membership_suspended | IC_membership_removed | IC_membership_role_changed
  | IC_membership_reactivated | IC_room_policy_changed | IC_privacy_mode_changed
  | IC_room_lifecycle_changed

record invalidation_report =
  ir_roomId :: "jstr option"
  ir_cause :: invalidation_cause
  ir_invalidatedRevision :: int

definition buildLocalAuthorizationInvalidationReportV1 ::
  "invalidation_cause \<Rightarrow> int \<Rightarrow> jstr option \<Rightarrow> invalidation_report" where
  "buildLocalAuthorizationInvalidationReportV1 cause invalidatedRevision includeRoomId = \<lparr>
     ir_roomId = includeRoomId, ir_cause = cause, ir_invalidatedRevision = invalidatedRevision\<rparr>"

section \<open>Guarantees\<close>

lemma policy_bits_inj: "map (bit (fold_bits 0 (policy_bits p) 0)) [0..<8] = policy_bits p"
  by (simp add: policy_bits_def upt_rec bit_or_iff bit_push_bit_iff bit_1_iff)

lemma fold_bits_8: "fold_bits 0 [a, b, c, d, e, f, g, h] 0 \<le> 255"
  by (cases a; cases b; cases c; cases d; cases e; cases f; cases g; cases h; simp)

lemma fold_bits_bound: "fold_bits 0 (policy_bits p) 0 \<le> 255"
  unfolding policy_bits_def by (rule fold_bits_8)


lemma prepare_Inr:
  assumes "prepareRoomAuthorizationV1 inp = Inr p"
  obtains m d where "membership_at (membership_records (pri_roomState inp))
      (mb_membershipId (pri_membership inp)) = Some m"
    and "descriptor_current d m" and "p = prepared_context inp m d"
    and "cd_capability d = pri_requestedCapability inp"
proof -
  have granted: "descriptor_current d m \<and> cd_capability d = pri_requestedCapability inp"
    if "prepare_resolution inp m = CR_allowed d r" for m d r
    using that by (auto simp: prepare_resolution_def resolveRoomLocalCapabilityV1_def Let_def
        descriptor_current_def capability_descriptor_for_def split: if_splits)
  obtain m where m: "membership_at (membership_records (pri_roomState inp))
      (mb_membershipId (pri_membership inp)) = Some m"
    and p: "(case prepare_resolution inp m of CR_denied r \<Rightarrow> Inl (AuthorizationError AC_role_capability_revoked)
       | CR_allowed d r \<Rightarrow> Inr (prepared_context inp m d)) = Inr p"
    using assms unfolding prepareRoomAuthorizationV1_def ebind_eq_Inr need_eq_Inr by blast
  show ?thesis
    using p that [OF m] granted [of m] by (cases "prepare_resolution inp m") auto
qed

text \<open>C16.  The execution-time fence is exact: a prepared authorization is accepted again
  exactly when the revision fence taken now equals the one taken at preparation (room, member,
  membership revision, policy revision, lifecycle, mode, device posture and signal), the member
  is still in the room's records, the descriptor is still current for it, the operation,
  object, kind, view and target are the prepared ones, and the decision is an authentic allowed
  one of exactly that side effect.\<close>

theorem prepared_authorization_fence:
  assumes "prepareRoomAuthorizationV1 inp = Inr p" and "rq_prepared q = p"
  shows "assertPreparedRoomAuthorizationCurrentV1 s q = Inr () \<longleftrightarrow>
     roomAuthorizationRevisionEqualV1 (pa_revision p)
       (roomAuthorizationRevisionV1 (rq_roomState q) (rq_membership q) (rq_roomPolicy q)
         (Some (ep_effectivePosture (resolveEffectiveDevicePostureV1 (rq_postureSignal q))))
         (Some (ep_signalRevision (resolveEffectiveDevicePostureV1 (rq_postureSignal q)))))
   \<and> membership_at (membership_records (rq_roomState q)) (pa_membershipId p) \<noteq> None
   \<and> descriptor_current (pa_capability p) (rq_membership q)
   \<and> rq_requiredCapability q = pri_requestedCapability inp
   \<and> rq_sideEffect q = pri_requiredSideEffect inp
   \<and> rq_objectId q = pri_objectId inp \<and> rq_actualObjectKind q = pri_objectKind inp
   \<and> rq_requestedView q = pri_requestedView inp
   \<and> map_option (\<lambda>t. (mb_membershipId t, mb_revision t)) (rq_targetMembership q)
       = map_option (\<lambda>t. (mb_membershipId t, mb_revision t)) (pri_targetMembership inp)
   \<and> (\<exists>d. authentic s (rq_decision q) = Some d \<and> pd_verdict d = Allowed
        \<and> pd_capability d = Cap_persistence \<and> pd_sideEffect d = rq_sideEffect q)"
proof -
  obtain m d where m: "descriptor_current d m" and p: "p = prepared_context inp m d"
    using prepare_Inr [OF assms(1)] by blast
  have tgt: "map_option mb_membershipId a = map_option mb_membershipId b \<and>
      (map_option mb_revision a = None \<or> map_option mb_revision a = map_option mb_revision b) \<longleftrightarrow>
      map_option (\<lambda>t. (mb_membershipId t, mb_revision t)) b
        = map_option (\<lambda>t. (mb_membershipId t, mb_revision t)) a" for a b
    by (cases a; cases b) auto
  show ?thesis
    unfolding assertPrepared_Inr assertPreparedMember_Inr assertPreparedFence_Inr
      assertPreparedBinding_Inr assertPreparedDecision_Inr assms(2) p
      roomAuthorizationRevisionEqualV1_def tgt [symmetric]
    using m
    by (simp add: prepared_context_def Let_def roomAuthorizationRevisionV1_def descriptor_current_def)
      (rule iffI; elim conjE; intro conjI; (assumption | rule sym, assumption))
qed

section \<open>What a revocation does\<close>

text \<open>The capabilities a member can be granted: none while it is not active.\<close>

definition authority_of :: "membership_record \<Rightarrow> capability_name set" where
  "authority_of m = (if mb_state m = MS_active then getRoleCapabilitiesV1 (mb_role m) else {})"

lemma restrictive_change:
  assumes "membership_change args t r"
    and "classifyMembershipChangeDirectionV1 args (Some t) \<notin> {CD_expansive, CD_unknown_direction}"
  shows "authority_of r \<subseteq> authority_of t"
proof (cases args)
  case (MA_change_role i q n)
  have "classifyMembershipChangeDirectionV1 args (Some t) \<in> {CD_restrictive, CD_neutral}"
    using assms(2) by (cases "classifyMembershipChangeDirectionV1 args (Some t)") auto
  then have "getRoleCapabilitiesV1 q \<subseteq> getRoleCapabilitiesV1 (mb_role t)"
    unfolding MA_change_role by (rule direction_restricts)
  then show ?thesis using assms(1) MA_change_role by (simp add: membership_change_def authority_of_def)
qed (use assms in \<open>auto simp: membership_change_def authority_of_def classifyMembershipChangeDirectionV1_def\<close>)

lemma prepareRevocation_Inr:
  assumes "prepareRevocation s inp = Inr (actor, target)"
  obtains cmd where "validateRoomMembershipCommandV1 (rvi_command inp) = Inr cmd"
    and "findTarget (membership_records (rvi_roomState inp)) (mc_args cmd) = Some target"
    and "classifyMembershipChangeDirectionV1 (mc_args cmd) (Some target)
      \<notin> {CD_expansive, CD_unknown_direction}"
  using assms unfolding prepareRevocation_def Let_def ebind_eq_Inr need_eq_Inr throw_if_eq_Inr by blast

lemma stale_fence:
  assumes "rv_membershipRevision (pa_revision (rq_prepared q)) < mb_revision (rq_membership q)"
  shows "assertPreparedRoomAuthorizationCurrentV1 s q \<noteq> Inr ()"
  using assms by (auto simp: assertPrepared_Inr assertPreparedFence_Inr)

text \<open>The record a revocation changes.\<close>

lemma revocation_change:
  assumes "applyLocalMembershipRevocationV1 s inp log = (Inr r, log')"
    and "i = mb_membershipId (rvr_membership r)"
  shows "\<exists>t. membership_at (membership_records (rvi_roomState inp)) i = Some t
     \<and> membership_at (membership_records (rvr_nextState r)) =
         (membership_at (membership_records (rvi_roomState inp)))(i \<mapsto> rvr_membership r)
     \<and> authority_of (rvr_membership r) \<subseteq> authority_of t
     \<and> rvr_invalidatedMembershipRevision r = mb_revision t
     \<and> mb_revision (rvr_membership r) = mb_revision t + 1"
proof -
  let ?rs = "membership_records (rvi_roomState inp)"
  obtain actor target mr where prep: "prepareRevocation s inp = Inr (actor, target)"
    and mut: "applyLocalRoomMembershipMutationV1 s (revocation_mutation inp actor) log = (Inr mr, log')"
    and r: "rvr_nextState r = mmr_nextState mr" "rvr_membership r = mmr_membership mr"
      "rvr_invalidatedMembershipRevision r = mb_revision target"
    using assms(1) unfolding applyLocalMembershipRevocationV1_def
    by (auto split: sum.splits prod.splits)
  obtain cmd where cmd: "validateRoomMembershipCommandV1 (rvi_command inp) = Inr cmd"
    and tgt: "findTarget ?rs (mc_args cmd) = Some target"
    and dir: "classifyMembershipChangeDirectionV1 (mc_args cmd) (Some target)
      \<notin> {CD_expansive, CD_unknown_direction}"
    using prepareRevocation_Inr [OF prep] by blast
  show ?thesis
  proof (cases rule: membership_mutation_cases [of s "revocation_mutation inp actor" log])
    case (error e)
    then show ?thesis using mut by simp
  next
    case (appended c b ev a l)
    have c: "c = cmd" using prepare_membership_facts(1) [OF appended(1)] cmd by (simp add: revocation_mutation_def)
    have st: "membership_step (rs_roomId (rvi_roomState inp)) ?rs cmd b"
      using prepare_membership_step [OF appended(1)] by (simp add: revocation_mutation_def c)
    obtain rs' where red: "reduceRoomMembershipEventV1 ?rs ev = Inr rs'" and mr: "mmr_membership mr = bm_record b"
      "membership_records (mmr_nextState mr) = rs'"
      using trans [OF appended(4) [symmetric] mut]
      by (auto simp: revocation_mutation_def membership_records_def)
    obtain j n where j: "target_id (mc_args cmd) = Some (j, n)" "membership_at ?rs j = Some target"
      using tgt by (auto simp: findTarget_def split: option.splits)
    then have prev: "bm_previous b = Some target"
      using st by (auto simp: membership_step_def)
    note ch = membership_step_Some(1) [OF st prev] and present = membership_step_Some(2) [OF st prev]
    have look: "membership_at rs' = (membership_at ?rs)(i \<mapsto> bm_record b)"
      using reduce_membership_lookup [OF st red [unfolded appended(2) c]] by (simp add: assms(2) r mr)
    have next_rev: "mb_revision (bm_record b) = mb_revision target + 1" using ch by (simp add: membership_change_def)
    show ?thesis
      using present look next_rev restrictive_change [OF ch dir] by (auto simp: assms(2) r mr)
  qed
qed


section \<open>Samples\<close>

text \<open>Alice, the owner, suspends bob in a private room.\<close>

abbreviation two_members :: room_state where
  "two_members \<equiv> (draft_room (js ''room-local-1''))\<lparr>rs_membershipRecords := Some [alice, bob_again]\<rparr>"

abbreviation private_policy :: room_policy where
  "private_policy \<equiv> resolveRoomPolicy (room_policy_input.make Mode_private RK_workspace None None None)"

definition sample_prepare :: prepare_input where
  "sample_prepare = \<lparr>pri_roomState = two_members, pri_membership = alice,
     pri_requestedCapability = CN_membership_suspend,
     pri_requiredSideEffect = ''room.membership.suspend'', pri_roomPolicy = private_policy,
     pri_objectId = None, pri_objectKind = None, pri_requestedView = None,
     pri_targetMembership = Some bob_again, pri_deviceRiskLevel = None,
     pri_devicePostureSignal = None\<rparr>"

definition sample_context :: prepared_authorization where
  "sample_context = prepared_context sample_prepare alice
     (ac_capability alice_context\<lparr>cd_capability := CN_membership_suspend\<rparr>)"

lemma two_members_at:
  "membership_records two_members = [alice, bob_again]"
  "membership_at [alice, bob_again] (js ''mem-0'') = Some alice"
  "membership_at [alice, bob_again] (js ''mem-2'') = Some bob_again"
  by (simp_all add: membership_records_def membership_at_def alice_def bob_again_def sample_owner_def)

lemma alice_fields:
  "mb_membershipId alice = js ''mem-0''" "mb_memberRef alice = js ''alice''" "mb_state alice = MS_active"
  "mb_role alice = MR_owner" "mb_revision alice = 1" "mb_roomId alice = js ''room-local-1''"
  "mb_membershipId bob_again = js ''mem-2''" "mb_revision bob_again = 1" "mb_state bob_again = MS_active"
  "mb_role bob_again = MR_viewer" "mb_roomId bob_again = js ''room-local-1''"
  "mb_memberRef bob_again = js ''bob''"
  by (simp_all add: alice_def sample_owner_def bob_again_def)

lemma sample_context_prepared: "prepareRoomAuthorizationV1 sample_prepare = Inr sample_context"
proof -
  have "prepare_resolution sample_prepare alice = CR_allowed
      (ac_capability alice_context\<lparr>cd_capability := CN_membership_suspend\<rparr>) ''default_deny''"
    by (simp add: prepare_resolution_def resolveRoomLocalCapabilityV1_def Let_def sample_prepare_def
        alice_fields ROOM_CAPABILITY_NAMES_complete resolveRoomPolicy_mutation room_policy_input.defs
        KNOWN_MODES_def capability_descriptor_for_def alice_context_def draft_room_def)
  then show ?thesis
    unfolding prepareRoomAuthorizationV1_def
    by (simp add: sample_context_def alice_fields two_members_at sample_prepare_def)
qed

definition sample_use :: "room_state \<Rightarrow> revalidation" where
  "sample_use st = \<lparr>rq_prepared = sample_context, rq_roomState = st, rq_membership = alice,
     rq_roomPolicy = private_policy, rq_decision = 0, rq_requiredCapability = CN_membership_suspend,
     rq_sideEffect = ''room.membership.suspend'', rq_objectId = None, rq_actualObjectKind = None,
     rq_requestedView = None, rq_targetMembership = Some bob_again, rq_postureSignal = None\<rparr>"

lemma sample_context_fields:
  "pa_membershipId sample_context = js ''mem-0''"
  "descriptor_current (pa_capability sample_context) alice"
  "pa_capability sample_context = ac_capability alice_context\<lparr>cd_capability := CN_membership_suspend\<rparr>"
  "pa_revision sample_context = roomAuthorizationRevisionV1 two_members alice private_policy
     (Some (ep_effectivePosture (resolveEffectiveDevicePostureV1 None)))
     (Some (ep_signalRevision (resolveEffectiveDevicePostureV1 None)))"
  by (simp_all add: sample_context_def prepared_context_def Let_def alice_fields alice_context_def
      descriptor_current_def sample_prepare_def)

theorem prepared_authorization_fence_witness:
  "assertPreparedRoomAuthorizationCurrentV1 (sample_membership_decisions ''room.membership.suspend'')
      (sample_use two_members) = Inr ()
   \<and> assertPreparedRoomAuthorizationCurrentV1 (sample_membership_decisions ''room.membership.suspend'')
      (sample_use (two_members\<lparr>rs_mode := Mode_ghost\<rparr>)) \<noteq> Inr ()"
proof -
  let ?s = "sample_membership_decisions ''room.membership.suspend''"
  have p: "rq_prepared (sample_use st) = sample_context" for st by (simp add: sample_use_def)
  note fence = prepared_authorization_fence [OF sample_context_prepared p, of ?s]
  have fresh: "assertPreparedRoomAuthorizationCurrentV1 ?s (sample_use two_members) = Inr ()"
    unfolding fence using sample_membership_authentic(1) [of "''room.membership.suspend''"] two_members_at
    by (simp add: sample_use_def sample_context_fields(1,2,4) roomAuthorizationRevisionEqualV1_def sample_prepare_def)
  have ghost: "\<not> roomAuthorizationRevisionEqualV1 (pa_revision sample_context)
      (roomAuthorizationRevisionV1 (two_members\<lparr>rs_mode := Mode_ghost\<rparr>) alice private_policy
        (Some (ep_effectivePosture (resolveEffectiveDevicePostureV1 None)))
        (Some (ep_signalRevision (resolveEffectiveDevicePostureV1 None))))"
    by (simp add: sample_context_fields roomAuthorizationRevisionEqualV1_def roomAuthorizationRevisionV1_def
        draft_room_def)
  have "assertPreparedRoomAuthorizationCurrentV1 ?s (sample_use (two_members\<lparr>rs_mode := Mode_ghost\<rparr>)) \<noteq> Inr ()"
    unfolding fence using ghost by (simp add: sample_use_def)
  with fresh show ?thesis by blast
qed

abbreviation suspend_json :: jsval where
  "suspend_json \<equiv> membership_json ''membership.suspend_local''
     [(js ''membershipId'', JStr (js ''mem-2'')), (js ''expectedRevision'', JNum (NInt 1))]"

definition sample_revocation :: revocation_input where
  "sample_revocation = \<lparr>rvi_roomState = two_members, rvi_command = suspend_json,
     rvi_prepared = sample_context, rvi_decision = 0, rvi_storageDecision = 1,
     rvi_roomPolicy = private_policy, rvi_eventId = [], rvi_nowBuild = [], rvi_nowEvent = []\<rparr>"

lemma suspend_valid:
  "validateRoomMembershipCommandV1 suspend_json = Inr (sample_mcommand (MA_suspend (js ''mem-2'') 1))"
proof -
  have leaf: "id_re 127 (js ''mem-2'')" "slug_re 64 (js ''user_request'')" by code_simp+
  have mode: "mode_of_js (js ''private'') = Mode_private"
    by (simp add: mode_of_js_def enum_of_def KNOWN_MODES_def)
  show ?thesis
    by (simp add: validateRoomMembershipCommandV1_def membership_json_def assertNoDangerousKeys_def
        DANGEROUS_KEYS_def leaf mode enum_of_def ROOM_MEMBERSHIP_COMMAND_NAMES_def membership_args_of_def
        assertOnlyKeys_def MEMBERSHIP_BASE_KEYS_def sample_mcommand_def membership_target_def
        validateRoomMembershipRevision_def is_safe_int_def MAX_SAFE_INTEGER_def MAX_MEMBERSHIP_REVISION_def)
qed

lemma suspend_target: "findTarget [alice, bob_again] (MA_suspend (js ''mem-2'') 1) = Some bob_again"
  by (simp add: findTarget_def two_members_at)

definition bob_out :: membership_record where
  "bob_out = bob_again\<lparr>mb_revision := 2, mb_updatedAtLocal := local_label [], mb_state := MS_suspended\<rparr>"

lemma suspend_prepared:
  "prepareMembershipMutation (sample_membership_decisions ''room.membership.suspend'')
      (revocation_mutation sample_revocation alice) =
     Inr (sample_mcommand (MA_suspend (js ''mem-2'') 1), \<lparr>bm_record = bob_out, bm_previous = Some bob_again\<rparr>)"
proof -
  let ?s = "sample_membership_decisions ''room.membership.suspend''"
  let ?c = "sample_mcommand (MA_suspend (js ''mem-2'') 1)"
  let ?inp = "revocation_mutation sample_revocation alice"
  have fields: "mc_roomId ?c = js ''room-local-1''" "mc_mode ?c = Mode_private"
    "mc_args ?c = MA_suspend (js ''mem-2'') 1" "mc_command ?c = MN_suspend"
    by (simp_all add: sample_mcommand_def mc_command_def)
  have inp: "mmi_command ?inp = suspend_json" "mmi_roomPolicy ?inp = private_policy"
    "mmi_nowBuild ?inp = []" "membership_records (mmi_roomState ?inp) = [alice, bob_again]"
    "rs_roomId (mmi_roomState ?inp) = js ''room-local-1''"
    by (simp_all add: revocation_mutation_def sample_revocation_def membership_records_def draft_room_def)
  have auth: "authorizeMembershipMutation ?s ?inp ?c = Inr ()"
    using sample_membership_authentic(1) [of "''room.membership.suspend''"] sample_context_fields(2)
    by (simp add: authorizeMembershipMutation_def fields inp Let_def two_members_at alice_fields
        authorization_context_Inr revocation_mutation_def sample_revocation_def)
      (simp add: sample_context_fields alice_context_def draft_room_def)
  have built: "buildResultingMembership (Some bob_again) ?c i r (local_label []) =
      Inr \<lparr>bm_record = bob_out, bm_previous = Some bob_again\<rparr>" for i r
    by (simp add: buildResultingMembership_def Let_def fields nextRoomMembershipRevision_def
        MAX_MEMBERSHIP_REVISION_def MAX_SAFE_INTEGER_def alice_fields bob_out_def assertMembershipTransition_def)
  have gates: "mp_allowed (resolveRoomMembershipPolicyV1 Mode_private MN_suspend private_policy)"
    "md_effect (evaluatePolicyMatrix (room_matrix_input Mode_private (membership_side_effect MN_suspend)))
      = PE_memory_only"
    by (rule sample_membership_gates; simp)+
  have checks: "assertExpectedRevision (MA_suspend (js ''mem-2'') 1) (Some bob_again) = Inr ()"
    "assertOwnerContinuity [alice, bob_again] (Some bob_again) (MA_suspend (js ''mem-2'') 1) = Inr ()"
    by (simp_all add: assertExpectedRevision_def assertOwnerContinuity_def alice_fields)
  show ?thesis
    by (simp add: prepareMembershipMutation_def inp suspend_valid fields Let_def suspend_target gates(1)
        gates(2) [unfolded membership_side_effect.simps] auth checks built)
qed

lemma suspend_applied:
  "\<exists>r l. applyLocalMembershipRevocationV1 (sample_membership_decisions ''room.membership.suspend'')
      sample_revocation sample_log = (Inr r, l) \<and> rvr_membership r = bob_out"
proof -
  let ?s = "sample_membership_decisions ''room.membership.suspend''"
  let ?ev = "createAcceptedRoomMembershipEventV1 (sample_mcommand (MA_suspend (js ''mem-2'') 1))
     \<lparr>bm_record = bob_out, bm_previous = Some bob_again\<rparr> [] 1 []"
  have red: "reduceRoomMembershipEventV1 [alice, bob_again] ?ev = Inr [alice, bob_out]"
    by (simp add: reduceRoomMembershipEventV1_def event_fields bob_out_def alice_fields two_members_at)
  have bob: "mb_roomId bob_out = js ''room-local-1''" by (simp add: bob_out_def alice_fields)
  have app: "mlog_append sample_log ?s ?ev (Suc 0) = (Inr (Appended_memory 1),
     MLog_memory \<lparr>mml_roomId = js ''room-local-1'', mml_events = [?ev]\<rparr>)"
    by (rule sample_append) (simp_all add: event_fields bob)
  have inp: "mmi_eventId (revocation_mutation sample_revocation alice) = []"
    "mmi_nowEvent (revocation_mutation sample_revocation alice) = []"
    "mmi_storageDecision (revocation_mutation sample_revocation alice) = Suc 0"
    "membership_records (mmi_roomState (revocation_mutation sample_revocation alice)) = [alice, bob_again]"
    by (simp_all add: revocation_mutation_def sample_revocation_def membership_records_def)
  have "mlog_nextLocalSequence sample_log = 1" by (simp add: sample_log_def)
  then obtain mr l where mut: "applyLocalRoomMembershipMutationV1 ?s
      (revocation_mutation sample_revocation alice) sample_log = (Inr mr, l)" "mmr_membership mr = bob_out"
    by (simp add: applyLocalRoomMembershipMutationV1_def suspend_prepared inp Let_def app red)
  have st: "rvi_roomState sample_revocation = two_members" "rvi_command sample_revocation = suspend_json"
    "rvi_prepared sample_revocation = sample_context" by (simp_all add: sample_revocation_def)
  have fence: "assertPreparedRoomAuthorizationCurrentV1 ?s (sample_use two_members) = Inr ()"
    using sample_membership_authentic(1) [of "''room.membership.suspend''"]
    by (simp add: assertPrepared_Inr assertPreparedMember_Inr assertPreparedFence_Inr
        assertPreparedBinding_Inr assertPreparedDecision_Inr sample_use_def sample_context_fields(1,2,4)
        two_members_at alice_fields roomAuthorizationRevisionV1_def)
      (simp add: sample_context_def prepared_context_def Let_def sample_prepare_def alice_fields
        roomAuthorizationRevisionV1_def)
  have "prepareRevocation ?s sample_revocation = Inr (alice, bob_again)"
    using fence
    by (simp add: prepareRevocation_def st suspend_valid Let_def two_members_at sample_context_fields(1)
        suspend_target classifyMembershipChangeDirectionV1_def sample_mcommand_def sample_use_def
        sample_revocation_def)
  then show ?thesis using mut by (simp add: applyLocalMembershipRevocationV1_def)
qed


end
