(* ===== verification/Governance.thy ===== *)
theory Governance
  imports Policy_Composition Authorization Room_Events
begin

text \<open>
  Room governance of \<open>packages/rooms/src/policy-composition/\<close>: the tighten-only commands
  (\<open>governance-commands.ts\<close>), their events (\<open>governance-events.ts\<close>), the
  logs, the policy reducer and the update pipeline (\<open>governance-pipeline.ts\<close>).
  \<open>governance_run\<close> is a caller that keeps the document each successful update returns.
\<close>

section \<open>Commands\<close>

datatype governance_name =
    GN_tighten | GN_increase_minimum_device_posture | GN_increase_sensitivity
  | GN_strengthen_protected_content | GN_disable_feature

fun governance_command_string :: "governance_name \<Rightarrow> string" where
  "governance_command_string GN_tighten = ''room.policy.tighten''"
| "governance_command_string GN_increase_minimum_device_posture =
     ''room.policy.increase_minimum_device_posture''"
| "governance_command_string GN_increase_sensitivity = ''room.policy.increase_sensitivity''"
| "governance_command_string GN_strengthen_protected_content =
     ''room.policy.strengthen_protected_content''"
| "governance_command_string GN_disable_feature = ''room.policy.disable_feature''"

definition ROOM_GOVERNANCE_COMMAND_NAMES :: "governance_name list" where
  "ROOM_GOVERNANCE_COMMAND_NAMES = [GN_tighten, GN_increase_minimum_device_posture,
     GN_increase_sensitivity, GN_strengthen_protected_content, GN_disable_feature]"

datatype room_feature =
    RF_receipts | RF_typing | RF_presence | RF_exact_counts | RF_exact_timestamps
  | RF_actor_refs | RF_notifications | RF_local_ai | RF_network | RF_direct_peer

fun feature_name :: "room_feature \<Rightarrow> string" where
  "feature_name RF_receipts = ''receipts''"
| "feature_name RF_typing = ''typing''"
| "feature_name RF_presence = ''presence''"
| "feature_name RF_exact_counts = ''exact_counts''"
| "feature_name RF_exact_timestamps = ''exact_timestamps''"
| "feature_name RF_actor_refs = ''actor_refs''"
| "feature_name RF_notifications = ''notifications''"
| "feature_name RF_local_ai = ''local_ai''"
| "feature_name RF_network = ''network''"
| "feature_name RF_direct_peer = ''direct_peer''"

definition ROOM_DISABLEABLE_FEATURES :: "room_feature list" where
  "ROOM_DISABLEABLE_FEATURES = [RF_receipts, RF_typing, RF_presence, RF_exact_counts,
     RF_exact_timestamps, RF_actor_refs, RF_notifications, RF_local_ai, RF_network, RF_direct_peer]"

datatype governance_args =
    GA_tighten "room_feature list"
  | GA_minimum_posture min_posture
  | GA_sensitivity sensitivity
  | GA_protected_content protected_requirement
  | GA_disable_feature room_feature

record governance_command =
  gc_roomId :: jstr
  gc_actorMembershipId :: jstr
  gc_expectedPolicyRevision :: int
  gc_mode :: privacy_mode
  gc_reason :: jstr
  gc_args :: governance_args

fun gargs_name :: "governance_args \<Rightarrow> governance_name" where
  "gargs_name (GA_tighten fs) = GN_tighten"
| "gargs_name (GA_minimum_posture m) = GN_increase_minimum_device_posture"
| "gargs_name (GA_sensitivity x) = GN_increase_sensitivity"
| "gargs_name (GA_protected_content r) = GN_strengthen_protected_content"
| "gargs_name (GA_disable_feature f) = GN_disable_feature"

definition GOVERNANCE_BASE_KEYS :: "string list" where
  "GOVERNANCE_BASE_KEYS = [''schemaVersion'', ''command'', ''roomId'', ''actorMembershipId'',
     ''expectedPolicyRevision'', ''mode'', ''reason'']"

definition requirePolicyRevision :: "(jstr \<times> jsval) list \<Rightarrow> int res" where
  "requirePolicyRevision fs =
     ebind (need (CompositionError CC_invalid_field)
       (safe_integer (jget fs ''expectedPolicyRevision''))) (\<lambda>v.
     ebind (throw_if (v < 1) (CompositionError CC_invalid_field)) (\<lambda>_. Inr v))"

text \<open>The loop over the array: an unknown member throws, a repeated one is skipped.\<close>

definition collect_feature :: "room_feature list \<Rightarrow> jsval \<Rightarrow> room_feature list res" where
  "collect_feature out v =
     ebind (need (CompositionError CC_unknown_policy_input)
       (enum_value ROOM_DISABLEABLE_FEATURES feature_name v)) (\<lambda>f.
     Inr (if f \<in> set out then out else out @ [f]))"

definition requireFeatures :: "jsval \<Rightarrow> room_feature list res" where
  "requireFeatures value = (case value of
       JArr vs \<Rightarrow> if vs = [] \<or> length vs > length ROOM_DISABLEABLE_FEATURES
         then Inl (CompositionError CC_invalid_field)
         else efold collect_feature [] vs
     | _ \<Rightarrow> Inl (CompositionError CC_invalid_field))"

definition governance_value ::
  "(jstr \<times> jsval) list \<Rightarrow> string \<Rightarrow> 'a list \<Rightarrow> ('a \<Rightarrow> string) \<Rightarrow> ('a \<Rightarrow> governance_args)
     \<Rightarrow> governance_args res" where
  "governance_value fs key xs nm mk =
     ebind (assertOnlyKeys fs (GOVERNANCE_BASE_KEYS @ [key])) (\<lambda>_.
     ebind (need (CompositionError CC_unknown_policy_input) (enum_value xs nm (jget fs key))) (\<lambda>x.
     Inr (mk x)))"

definition governance_args_of :: "governance_name \<Rightarrow> (jstr \<times> jsval) list \<Rightarrow> governance_args res" where
  "governance_args_of name fs = (case name of
       GN_tighten \<Rightarrow>
         ebind (assertOnlyKeys fs (GOVERNANCE_BASE_KEYS @ [''disableFeatures''])) (\<lambda>_.
         ebind (requireFeatures (jget fs ''disableFeatures'')) (\<lambda>features. Inr (GA_tighten features)))
     | GN_increase_minimum_device_posture \<Rightarrow>
         governance_value fs ''newMinimum'' MINIMUM_DEVICE_POSTURES min_posture_name GA_minimum_posture
     | GN_increase_sensitivity \<Rightarrow>
         governance_value fs ''newSensitivity'' ROOM_SENSITIVITIES sensitivity_name GA_sensitivity
     | GN_strengthen_protected_content \<Rightarrow>
         governance_value fs ''newRequirement'' PROTECTED_CONTENT_REQUIREMENTS protected_name
           GA_protected_content
     | GN_disable_feature \<Rightarrow>
         governance_value fs ''feature'' ROOM_DISABLEABLE_FEATURES feature_name GA_disable_feature)"

definition validateRoomGovernanceCommandV1 :: "jsval \<Rightarrow> governance_command res" where
  "validateRoomGovernanceCommandV1 input =
     ebind (need (CompositionError CC_invalid_field) (own_fields input)) (\<lambda>fs.
     ebind (assertNoDangerousKeys fs) (\<lambda>_.
     ebind (throw_if (jget fs ''schemaVersion'' \<noteq> JNum (NInt 1))
       (CompositionError CC_unsupported_schema_version)) (\<lambda>_.
     ebind (need (CompositionError CC_unknown_command)
       (enum_value ROOM_GOVERNANCE_COMMAND_NAMES governance_command_string (jget fs ''command''))) (\<lambda>name.
     ebind (need (CompositionError CC_room_mismatch) (string_value (jget fs ''roomId''))) (\<lambda>roomId.
     ebind (validateRoomMembershipId (jget fs ''actorMembershipId'')) (\<lambda>actor.
     ebind (need (CompositionError CC_invalid_field) (string_value (jget fs ''mode''))) (\<lambda>mode.
     ebind (need (CompositionError CC_invalid_field) (string_value (jget fs ''reason''))) (\<lambda>reason.
     ebind (throw_if (\<not> slug_re 64 reason) (CompositionError CC_invalid_field)) (\<lambda>_.
     ebind (requirePolicyRevision fs) (\<lambda>revision.
     ebind (governance_args_of name fs) (\<lambda>args.
     Inr \<lparr>gc_roomId = roomId, gc_actorMembershipId = actor, gc_expectedPolicyRevision = revision,
          gc_mode = mode_of_js mode, gc_reason = reason, gc_args = args\<rparr>)))))))))))"

fun withFeatureDisabled :: "policy_document \<Rightarrow> room_feature \<Rightarrow> policy_document" where
  "withFeatureDisabled p RF_receipts = p\<lparr>doc_receiptsAllowed := False\<rparr>"
| "withFeatureDisabled p RF_typing = p\<lparr>doc_typingAllowed := False\<rparr>"
| "withFeatureDisabled p RF_presence = p\<lparr>doc_presenceAllowed := False\<rparr>"
| "withFeatureDisabled p RF_exact_counts = p\<lparr>doc_exactCountsAllowed := False\<rparr>"
| "withFeatureDisabled p RF_exact_timestamps = p\<lparr>doc_exactTimestampsAllowed := False\<rparr>"
| "withFeatureDisabled p RF_actor_refs = p\<lparr>doc_actorRefsAllowed := False\<rparr>"
| "withFeatureDisabled p RF_notifications = p\<lparr>doc_notificationAllowed := False\<rparr>"
| "withFeatureDisabled p RF_local_ai = p\<lparr>doc_localAiAllowed := False\<rparr>"
| "withFeatureDisabled p RF_network = p\<lparr>doc_networkAllowed := False\<rparr>"
| "withFeatureDisabled p RF_direct_peer = p\<lparr>doc_directPeerAllowed := False\<rparr>"

text \<open>
  The next revision cannot leave the exact integers: the pipeline compares the current one with
  a safe integer first.
\<close>

definition buildCandidateRoomPolicyV1 :: "policy_document \<Rightarrow> governance_command \<Rightarrow> policy_document" where
  "buildCandidateRoomPolicyV1 current command =
     (let withRev = (\<lambda>p :: policy_document. p\<lparr>doc_revision := doc_revision current + 1\<rparr>)
      in case gc_args command of
           GA_tighten fs \<Rightarrow> withRev (foldl withFeatureDisabled current fs)
         | GA_minimum_posture m \<Rightarrow> withRev (current\<lparr>doc_minimumDevicePosture := m\<rparr>)
         | GA_sensitivity x \<Rightarrow> withRev (current\<lparr>doc_sensitivity := x\<rparr>)
         | GA_protected_content r \<Rightarrow> withRev (current\<lparr>doc_protectedContentRequirement := r\<rparr>)
         | GA_disable_feature f \<Rightarrow> withRev (withFeatureDisabled current f))"

section \<open>Events\<close>

fun governanceCommandToEventOperation :: "governance_name \<Rightarrow> string" where
  "governanceCommandToEventOperation GN_tighten = ''room.policy.tightened.v1''"
| "governanceCommandToEventOperation GN_increase_minimum_device_posture =
     ''room.policy.minimum_posture_increased.v1''"
| "governanceCommandToEventOperation GN_increase_sensitivity = ''room.policy.sensitivity_increased.v1''"
| "governanceCommandToEventOperation GN_strengthen_protected_content =
     ''room.policy.protected_content_strengthened.v1''"
| "governanceCommandToEventOperation GN_disable_feature = ''room.policy.feature_disabled.v1''"

record governance_event =
  ge_governanceEventId :: jstr
  ge_roomId :: jstr
  ge_actorMembershipId :: jstr
  ge_operation :: string
  ge_localSequence :: int
  ge_createdAtLocal :: jstr
  ge_previousRevision :: int
  ge_resultingRevision :: int
  ge_changedFieldCode :: string
  ge_resultingPolicy :: policy_document

fun changedFieldCode :: "governance_args \<Rightarrow> string" where
  "changedFieldCode (GA_tighten fs) = ''disable:'' @ join_strings ''+'' (map feature_name fs)"
| "changedFieldCode (GA_minimum_posture m) = ''min_posture:'' @ min_posture_name m"
| "changedFieldCode (GA_sensitivity x) = ''sensitivity:'' @ sensitivity_name x"
| "changedFieldCode (GA_protected_content r) = ''protected:'' @ protected_name r"
| "changedFieldCode (GA_disable_feature f) = ''disable:'' @ feature_name f"

definition createAcceptedRoomGovernanceEventV1 ::
  "governance_command \<Rightarrow> policy_document \<Rightarrow> policy_document \<Rightarrow> jstr \<Rightarrow> int \<Rightarrow> jstr \<Rightarrow> governance_event" where
  "createAcceptedRoomGovernanceEventV1 command previous resulting eventId localSequence now = \<lparr>
     ge_governanceEventId = eventId, ge_roomId = doc_roomId resulting,
     ge_actorMembershipId = gc_actorMembershipId command,
     ge_operation = governanceCommandToEventOperation (gargs_name (gc_args command)),
     ge_localSequence = localSequence, ge_createdAtLocal = local_label now,
     ge_previousRevision = doc_revision previous, ge_resultingRevision = doc_revision resulting,
     ge_changedFieldCode = changedFieldCode (gc_args command), ge_resultingPolicy = resulting\<rparr>"

section \<open>Logs and the reducer\<close>

definition assertGovernanceLogDecision :: "privacy_state \<Rightarrow> dref \<Rightarrow> side_effect_scope \<Rightarrow> unit res" where
  "assertGovernanceLogDecision s decision scope =
     ebind (need (CompositionError CC_governance_denied) (authentic s decision)) (\<lambda>d.
     ebind (throw_if (pd_verdict d \<noteq> Allowed) (CompositionError CC_governance_denied)) (\<lambda>_.
     throw_if (pd_capability d \<noteq> ROOM_CAPABILITY \<or> pd_sideEffect d \<noteq> scope)
       (CompositionError CC_governance_denied)))"

lemma assertGovernanceLogDecision_Inr:
  "assertGovernanceLogDecision s r scope = Inr u \<longleftrightarrow> (\<exists>d. authentic s r = Some d
     \<and> pd_verdict d = Allowed \<and> pd_capability d = Cap_persistence \<and> pd_sideEffect d = scope)"
  by (auto simp: assertGovernanceLogDecision_def ROOM_CAPABILITY_def)

interpretation governance_log_gate: decision_gate assertGovernanceLogDecision "\<lambda>scope. scope"
  by unfold_locales (simp add: assertGovernanceLogDecision_Inr)

datatype governance_log = GLog_memory "governance_event list" | GLog_null int

fun glog_nextLocalSequence :: "governance_log \<Rightarrow> int" where
  "glog_nextLocalSequence (GLog_memory es) = int (length es) + 1"
| "glog_nextLocalSequence (GLog_null n) = n + 1"

fun glog_add :: "governance_log \<Rightarrow> governance_event \<Rightarrow> append_result \<times> governance_log" where
  "glog_add (GLog_memory es) event = (Appended_memory (ge_localSequence event), GLog_memory (es @ [event]))"
| "glog_add (GLog_null n) event =
     (Discarded_by_null_policy (ge_localSequence event), GLog_null (ge_localSequence event))"

definition glog_append ::
  "governance_log \<Rightarrow> privacy_state \<Rightarrow> governance_event \<Rightarrow> dref \<Rightarrow> append_result res \<times> governance_log" where
  "glog_append log p event decision =
     (case assertGovernanceLogDecision p decision ''room.governance_log.append'' of
        Inl e \<Rightarrow> (Inl e, log)
      | Inr _ \<Rightarrow> apfst Inr (glog_add log event))"

fun glog_events :: "governance_log \<Rightarrow> governance_event list" where
  "glog_events (GLog_memory es) = es"
| "glog_events (GLog_null n) = []"

definition reduceRoomGovernanceEventV1 :: "policy_document \<Rightarrow> governance_event \<Rightarrow> policy_document res" where
  "reduceRoomGovernanceEventV1 current event =
     ebind (throw_if (doc_revision current \<noteq> ge_previousRevision event)
       (CompositionError CC_policy_revision_mismatch)) (\<lambda>_.
     ebind (throw_if (doc_roomId current \<noteq> ge_roomId event) (CompositionError CC_room_mismatch)) (\<lambda>_.
     Inr (ge_resultingPolicy event)))"

section \<open>The pipeline\<close>

record governance_input =
  gi_roomState :: room_state
  gi_currentPolicy :: policy_document
  gi_command :: jsval
  gi_prepared :: prepared_authorization
  gi_decision :: dref
  gi_storageDecision :: dref
  gi_roomPolicy :: room_policy
  gi_effectiveDevicePosture :: effective_posture
  gi_eventId :: jstr
  gi_now :: jstr
  gi_postureSignal :: "posture_signal option"

record governance_result =
  gr_event :: governance_event
  gr_nextState :: room_state
  gr_nextRoomPolicy :: policy_document
  gr_previousRevision :: int
  gr_resultingRevision :: int
  gr_retained :: bool

text \<open>Steps 1 to 10: the validated command and the candidate document.\<close>

definition prepareGovernanceUpdate ::
  "privacy_state \<Rightarrow> governance_input \<Rightarrow> (governance_command \<times> policy_document) res" where
  "prepareGovernanceUpdate s inp =
     ebind (validateRoomGovernanceCommandV1 (gi_command inp)) (\<lambda>command.
     ebind (throw_if (gc_roomId command \<noteq> rs_roomId (gi_roomState inp))
       (CompositionError CC_room_mismatch)) (\<lambda>_.
     ebind (need (CompositionError CC_governance_denied)
       (membership_at (membership_records (gi_roomState inp)) (gc_actorMembershipId command))) (\<lambda>actor.
     ebind (throw_if (gc_expectedPolicyRevision command \<noteq> doc_revision (gi_currentPolicy inp))
       (CompositionError CC_policy_revision_mismatch)) (\<lambda>_.
     ebind (assertPreparedRoomAuthorizationCurrentV1 s \<lparr>rq_prepared = gi_prepared inp,
        rq_roomState = gi_roomState inp, rq_membership = actor, rq_roomPolicy = gi_roomPolicy inp,
        rq_decision = gi_decision inp, rq_requiredCapability = CN_policy_tighten,
        rq_sideEffect = ''room.governance.update'', rq_objectId = None, rq_actualObjectKind = None,
        rq_requestedView = None, rq_targetMembership = None,
        rq_postureSignal = gi_postureSignal inp\<rparr>) (\<lambda>_.
     let candidate = buildCandidateRoomPolicyV1 (gi_currentPolicy inp) command
     in ebind (throw_if (compareRoomPoliciesV1 (gi_currentPolicy inp) candidate \<noteq> CD_stricter)
          (CompositionError CC_governance_loosen_attempt)) (\<lambda>_.
        Inr (command, candidate)))))))"

definition applyLocalRoomGovernanceUpdateV1 ::
  "privacy_state \<Rightarrow> governance_input \<Rightarrow> governance_log \<Rightarrow> governance_result res \<times> governance_log" where
  "applyLocalRoomGovernanceUpdateV1 s inp log = (case prepareGovernanceUpdate s inp of
       Inl e \<Rightarrow> (Inl e, log)
     | Inr (command, candidate) \<Rightarrow>
       (let current = gi_currentPolicy inp;
            event = createAcceptedRoomGovernanceEventV1 command current candidate (gi_eventId inp)
              (glog_nextLocalSequence log) (gi_now inp)
        in case reduceRoomGovernanceEventV1 current event of
             Inl e \<Rightarrow> (Inl e, log)
           | Inr _ \<Rightarrow> (case glog_append log s event (gi_storageDecision inp) of
               (Inl e, log') \<Rightarrow> (Inl e, log')
             | (Inr a, log') \<Rightarrow>
                 (ebind (reduceRoomGovernanceEventV1 current event) (\<lambda>next.
                   Inr \<lparr>gr_event = event,
                     gr_nextState = (gi_roomState inp)\<lparr>rs_policyDocument := Some next,
                       rs_policyRevision := Some (doc_revision next)\<rparr>,
                     gr_nextRoomPolicy = next, gr_previousRevision = doc_revision current,
                     gr_resultingRevision = doc_revision next,
                     gr_retained = ar_retained a\<rparr>), log'))))"

section \<open>What an accepted update is\<close>

lemma feature_disabled_frame:
  "doc_roomId (withFeatureDisabled p f) = doc_roomId p"
  "doc_revision (withFeatureDisabled p f) = doc_revision p"
  by (cases f; simp)+

lemma candidate_frame:
  "doc_roomId (buildCandidateRoomPolicyV1 p c) = doc_roomId p"
  "doc_revision (buildCandidateRoomPolicyV1 p c) = doc_revision p + 1"
proof -
  have "doc_roomId (foldl withFeatureDisabled q fs) = doc_roomId q" for q fs
    by (induction fs arbitrary: q) (simp_all add: feature_disabled_frame)
  then show "doc_roomId (buildCandidateRoomPolicyV1 p c) = doc_roomId p"
    and "doc_revision (buildCandidateRoomPolicyV1 p c) = doc_revision p + 1"
    by (cases "gc_args c"; simp add: buildCandidateRoomPolicyV1_def Let_def feature_disabled_frame)+
qed

lemma reduce_governance_event:
  "doc_roomId cand = doc_roomId current \<Longrightarrow>
     reduceRoomGovernanceEventV1 current (createAcceptedRoomGovernanceEventV1 c current cand i n now) = Inr cand"
  by (simp add: reduceRoomGovernanceEventV1_def createAcceptedRoomGovernanceEventV1_def)

lemma glog_append_Inr:
  assumes "glog_append log p ev d = (Inr a, log')"
  shows "\<exists>dc. authentic p d = Some dc \<and> pd_verdict dc = Allowed
      \<and> pd_sideEffect dc = ''room.governance_log.append''"
    and "(a, log') = glog_add log ev"
  using assms unfolding glog_append_def
  by (auto simp: apfst_def map_prod_def assertGovernanceLogDecision_Inr split: sum.splits prod.splits)

lemma glog_append_Inl: "glog_append log p ev d = (Inl e, log') \<Longrightarrow> log' = log"
  unfolding glog_append_def by (auto simp: apfst_def map_prod_def split: sum.splits prod.splits)

lemma glog_add_events:
  "glog_events (snd (glog_add log ev)) = (if ar_retained (fst (glog_add log ev)) then glog_events log @ [ev] else [])"
  by (cases log) simp_all

definition governance_use :: "governance_input \<Rightarrow> membership_record \<Rightarrow> revalidation" where
  "governance_use inp actor = \<lparr>rq_prepared = gi_prepared inp,
     rq_roomState = gi_roomState inp, rq_membership = actor, rq_roomPolicy = gi_roomPolicy inp,
     rq_decision = gi_decision inp, rq_requiredCapability = CN_policy_tighten,
     rq_sideEffect = ''room.governance.update'', rq_objectId = None, rq_actualObjectKind = None,
     rq_requestedView = None, rq_targetMembership = None,
     rq_postureSignal = gi_postureSignal inp\<rparr>"

lemma prepareGovernanceUpdate_Inr:
  "prepareGovernanceUpdate s inp = Inr (c, cand) \<longleftrightarrow>
     validateRoomGovernanceCommandV1 (gi_command inp) = Inr c
   \<and> gc_roomId c = rs_roomId (gi_roomState inp)
   \<and> gc_expectedPolicyRevision c = doc_revision (gi_currentPolicy inp)
   \<and> (\<exists>m. membership_at (membership_records (gi_roomState inp)) (gc_actorMembershipId c) = Some m
       \<and> assertPreparedRoomAuthorizationCurrentV1 s (governance_use inp m) = Inr ())
   \<and> cand = buildCandidateRoomPolicyV1 (gi_currentPolicy inp) c
   \<and> no_looser (gi_currentPolicy inp) cand \<and> \<not> no_looser cand (gi_currentPolicy inp)"
proof -
  have "compareRoomPoliciesV1 (gi_currentPolicy inp) (buildCandidateRoomPolicyV1 (gi_currentPolicy inp) c) = CD_stricter
     \<longleftrightarrow> no_looser (gi_currentPolicy inp) (buildCandidateRoomPolicyV1 (gi_currentPolicy inp) c)
       \<and> \<not> no_looser (buildCandidateRoomPolicyV1 (gi_currentPolicy inp) c) (gi_currentPolicy inp)" for c
    by (simp add: compare_stricter_iff candidate_frame)
  then show ?thesis
    unfolding prepareGovernanceUpdate_def Let_def ebind_eq_Inr throw_if_eq_Inr need_eq_Inr governance_use_def
    by auto
qed

lemma prepared_candidate:
  assumes "prepareGovernanceUpdate s inp = Inr (c, cand)"
  shows "doc_roomId cand = doc_roomId (gi_currentPolicy inp)"
    and "doc_revision cand = doc_revision (gi_currentPolicy inp) + 1"
    and "no_looser (gi_currentPolicy inp) cand" and "\<not> no_looser cand (gi_currentPolicy inp)"
  using assms unfolding prepareGovernanceUpdate_Inr by (metis candidate_frame(1), metis candidate_frame(2), blast+)

text \<open>A context that was prepared, and not assembled by hand, is that of an active owner.\<close>

lemma governance_actor:
  assumes "assertPreparedRoomAuthorizationCurrentV1 s (governance_use inp m) = Inr ()"
  shows "mb_state m = MS_active"
    and "\<exists>d. authentic s (gi_decision inp) = Some d \<and> pd_verdict d = Allowed
      \<and> pd_sideEffect d = ''room.governance.update''"
    and "prepareRoomAuthorizationV1 pin = Inr (gi_prepared inp) \<Longrightarrow> mb_role m = MR_owner"
proof -
  show "mb_state m = MS_active"
    and "\<exists>d. authentic s (gi_decision inp) = Some d \<and> pd_verdict d = Allowed
      \<and> pd_sideEffect d = ''room.governance.update''"
    using assms by (auto simp: assertPrepared_Inr assertPreparedMember_Inr assertPreparedDecision_Inr
        governance_use_def)
  show "mb_role m = MR_owner" if prep: "prepareRoomAuthorizationV1 pin = Inr (gi_prepared inp)"
  proof -
    obtain k d where "gi_prepared inp = prepared_context pin k d" "cd_capability d = pri_requestedCapability pin"
      using prepare_Inr [OF prep] by blast
    moreover have "descriptor_current (pa_capability (gi_prepared inp)) m"
      "pa_requiredCapability (gi_prepared inp) = CN_policy_tighten"
      using assms unfolding assertPrepared_Inr assertPreparedFence_Inr assertPreparedBinding_Inr
      by (simp_all add: governance_use_def)
    ultimately have "roleIsEligibleFor (mb_role m) CN_policy_tighten"
      by (simp add: descriptor_current_def prepared_context_def Let_def)
    then show ?thesis by (rule membership_management_owner_only) simp
  qed
qed

lemma governance_update_cases:
  obtains (error) e where "applyLocalRoomGovernanceUpdateV1 s inp log = (Inl e, log)"
  | (updated) c cand ev a log' where "prepareGovernanceUpdate s inp = Inr (c, cand)"
      "ev = createAcceptedRoomGovernanceEventV1 c (gi_currentPolicy inp) cand (gi_eventId inp)
         (glog_nextLocalSequence log) (gi_now inp)"
      "glog_append log s ev (gi_storageDecision inp) = (Inr a, log')"
      "applyLocalRoomGovernanceUpdateV1 s inp log = (Inr \<lparr>gr_event = ev,
         gr_nextState = (gi_roomState inp)\<lparr>rs_policyDocument := Some cand,
           rs_policyRevision := Some (doc_revision cand)\<rparr>,
         gr_nextRoomPolicy = cand, gr_previousRevision = doc_revision (gi_currentPolicy inp),
         gr_resultingRevision = doc_revision cand, gr_retained = ar_retained a\<rparr>, log')"
proof (cases "prepareGovernanceUpdate s inp")
  case (Inl e)
  then show ?thesis using error by (simp add: applyLocalRoomGovernanceUpdateV1_def)
next
  case (Inr p)
  obtain c cand where p: "p = (c, cand)" by (cases p)
  let ?ev = "createAcceptedRoomGovernanceEventV1 c (gi_currentPolicy inp) cand (gi_eventId inp)
         (glog_nextLocalSequence log) (gi_now inp)"
  have red: "reduceRoomGovernanceEventV1 (gi_currentPolicy inp) ?ev = Inr cand"
    using Inr p by (intro reduce_governance_event) (simp add: prepareGovernanceUpdate_Inr candidate_frame)
  obtain r log' where app: "glog_append log s ?ev (gi_storageDecision inp) = (r, log')"
    by (cases "glog_append log s ?ev (gi_storageDecision inp)")
  show ?thesis
  proof (cases r)
    case (Inl e)
    then show ?thesis
      using error glog_append_Inl [of log s ?ev] app Inr p red
      by (simp add: applyLocalRoomGovernanceUpdateV1_def Let_def)
  next
    case (Inr a)
    then show ?thesis
      using updated [OF _ refl, of c cand a log'] \<open>prepareGovernanceUpdate s inp = Inr p\<close> p app red
      by (simp add: applyLocalRoomGovernanceUpdateV1_def Let_def)
  qed
qed

section \<open>Guarantees\<close>

text \<open>C25.  Governance only tightens and is atomic: a successful update was a valid command of this
  room by an active member with an authentic allowed governance decision and another for the
  append; the member is an owner when the context was really prepared; the new document is of
  the same room, has the next revision and is strictly stricter in the comparison order, and
  only it and the revision change in the room's state.  An error leaves the log as it was.\<close>

theorem governance_update_tightens:
  assumes "applyLocalRoomGovernanceUpdateV1 s inp log = (res, log')"
  shows "case res of
      Inr r \<Rightarrow> doc_roomId (gr_nextRoomPolicy r) = doc_roomId (gi_currentPolicy inp)
        \<and> doc_revision (gr_nextRoomPolicy r) = doc_revision (gi_currentPolicy inp) + 1
        \<and> no_looser (gi_currentPolicy inp) (gr_nextRoomPolicy r)
        \<and> \<not> no_looser (gr_nextRoomPolicy r) (gi_currentPolicy inp)
        \<and> gr_nextState r = (gi_roomState inp)\<lparr>rs_policyDocument := Some (gr_nextRoomPolicy r),
            rs_policyRevision := Some (doc_revision (gr_nextRoomPolicy r))\<rparr>
        \<and> glog_events log' = (if gr_retained r then glog_events log @ [gr_event r] else [])
        \<and> (\<exists>c m d d'. validateRoomGovernanceCommandV1 (gi_command inp) = Inr c
            \<and> membership_at (membership_records (gi_roomState inp)) (gc_actorMembershipId c) = Some m
            \<and> mb_state m = MS_active
            \<and> ((\<exists>pin. prepareRoomAuthorizationV1 pin = Inr (gi_prepared inp)) \<longrightarrow> mb_role m = MR_owner)
            \<and> authentic s (gi_decision inp) = Some d \<and> pd_verdict d = Allowed
            \<and> pd_sideEffect d = ''room.governance.update''
            \<and> authentic s (gi_storageDecision inp) = Some d' \<and> pd_verdict d' = Allowed
            \<and> pd_sideEffect d' = ''room.governance_log.append'')
    | Inl e \<Rightarrow> log' = log"
proof (cases rule: governance_update_cases [of s inp log])
  case (error e)
  then show ?thesis using assms by simp
next
  case (updated c cand ev a log1)
  note prep = updated(1) [unfolded prepareGovernanceUpdate_Inr]
  obtain m where m: "membership_at (membership_records (gi_roomState inp)) (gc_actorMembershipId c) = Some m"
    and ok: "assertPreparedRoomAuthorizationCurrentV1 s (governance_use inp m) = Inr ()"
    using prep by blast
  have actor: "mb_state m = MS_active"
    "(\<exists>pin. prepareRoomAuthorizationV1 pin = Inr (gi_prepared inp)) \<longrightarrow> mb_role m = MR_owner"
    using governance_actor(1,3) [OF ok] by blast+
  obtain d where d: "authentic s (gi_decision inp) = Some d" "pd_verdict d = Allowed"
    "pd_sideEffect d = ''room.governance.update''"
    using governance_actor(2) [OF ok] by blast
  obtain d' where d': "authentic s (gi_storageDecision inp) = Some d'" "pd_verdict d' = Allowed"
    "pd_sideEffect d' = ''room.governance_log.append''"
    using glog_append_Inr(1) [OF updated(3)] by blast
  have app: "glog_events log1 = (if ar_retained a then glog_events log @ [ev] else [])"
    using glog_append_Inr(2) [OF updated(3)] glog_add_events [of log ev] by (metis fst_conv snd_conv)
  have "\<exists>c m d d'. validateRoomGovernanceCommandV1 (gi_command inp) = Inr c
            \<and> membership_at (membership_records (gi_roomState inp)) (gc_actorMembershipId c) = Some m
            \<and> mb_state m = MS_active
            \<and> ((\<exists>pin. prepareRoomAuthorizationV1 pin = Inr (gi_prepared inp)) \<longrightarrow> mb_role m = MR_owner)
            \<and> authentic s (gi_decision inp) = Some d \<and> pd_verdict d = Allowed
            \<and> pd_sideEffect d = ''room.governance.update''
            \<and> authentic s (gi_storageDecision inp) = Some d' \<and> pd_verdict d' = Allowed
            \<and> pd_sideEffect d' = ''room.governance_log.append''"
    using prep m actor d d' by blast
  moreover have "res = Inr \<lparr>gr_event = ev,
         gr_nextState = (gi_roomState inp)\<lparr>rs_policyDocument := Some cand,
           rs_policyRevision := Some (doc_revision cand)\<rparr>,
         gr_nextRoomPolicy = cand, gr_previousRevision = doc_revision (gi_currentPolicy inp),
         gr_resultingRevision = doc_revision cand, gr_retained = ar_retained a\<rparr>" "log' = log1"
    using assms updated(4) by auto
  ultimately show ?thesis
    using prepared_candidate [OF updated(1)] app by simp
qed

section \<open>Histories\<close>

record governance_run_state =
  gv_room :: room_state
  gv_doc :: policy_document
  gv_log :: governance_log

definition governance_run_step ::
  "governance_run_state \<Rightarrow> privacy_state \<times> governance_input \<Rightarrow> governance_run_state" where
  "governance_run_step st op = (case applyLocalRoomGovernanceUpdateV1 (fst op)
        ((snd op)\<lparr>gi_roomState := gv_room st, gi_currentPolicy := gv_doc st\<rparr>) (gv_log st) of
       (Inl e, log') \<Rightarrow> st\<lparr>gv_log := log'\<rparr>
     | (Inr r, log') \<Rightarrow> \<lparr>gv_room = gr_nextState r, gv_doc = gr_nextRoomPolicy r, gv_log = log'\<rparr>)"

definition governance_run ::
  "room_state \<Rightarrow> policy_document \<Rightarrow> (privacy_state \<times> governance_input) list \<Rightarrow> governance_run_state" where
  "governance_run room doc ops = foldl governance_run_step
     \<lparr>gv_room = room, gv_doc = doc, gv_log = GLog_memory []\<rparr> ops"

definition governance_run_inv :: "policy_document \<Rightarrow> governance_run_state \<Rightarrow> bool" where
  "governance_run_inv doc st \<longleftrightarrow> (\<exists>es. gv_log st = GLog_memory es
     \<and> numbered_from_one ge_localSequence es
     \<and> efold reduceRoomGovernanceEventV1 doc es = Inr (gv_doc st)
     \<and> no_looser doc (gv_doc st) \<and> doc_roomId (gv_doc st) = doc_roomId doc
     \<and> doc_revision (gv_doc st) = doc_revision doc + int (length es)
     \<and> sum_list (restrictiveness doc) + int (length es) \<le> sum_list (restrictiveness (gv_doc st))
     \<and> (es \<noteq> [] \<longrightarrow> rs_policyDocument (gv_room st) = Some (gv_doc st)
          \<and> rs_policyRevision (gv_room st) = Some (doc_revision (gv_doc st))))"

lemma sum_list_all2_mono:
  "list_all2 (\<le>) xs ys \<Longrightarrow> sum_list xs \<le> sum_list (ys :: int list)"
  by (induction rule: list_all2_induct) simp_all

lemma sum_list_strict:
  "list_all2 (\<le>) xs ys \<Longrightarrow> xs \<noteq> ys \<Longrightarrow> sum_list xs < sum_list (ys :: int list)"
proof (induction rule: list_all2_induct)
  case Nil
  then show ?case by simp
next
  case (Cons x xs y ys)
  then show ?case
    using sum_list_all2_mono [OF Cons(2)] by (cases "x = y") auto
qed

lemma stricter_rank:
  assumes "no_looser a b" and "\<not> no_looser b a"
  shows "sum_list (restrictiveness a) + 1 \<le> sum_list (restrictiveness b)"
proof -
  have "restrictiveness a \<noteq> restrictiveness b"
    using assms by (metis no_looser_def)
  then have "sum_list (restrictiveness a) < sum_list (restrictiveness b)"
    using assms(1) sum_list_strict by (simp add: no_looser_def)
  then show ?thesis by simp
qed

lemma governance_run_inv_step:
  assumes "governance_run_inv doc st" shows "governance_run_inv doc (governance_run_step st op)"
proof -
  let ?inp = "(snd op)\<lparr>gi_roomState := gv_room st, gi_currentPolicy := gv_doc st\<rparr>"
  obtain es where es: "gv_log st = GLog_memory es" "numbered_from_one ge_localSequence es"
    "efold reduceRoomGovernanceEventV1 doc es = Inr (gv_doc st)" "no_looser doc (gv_doc st)"
    "doc_roomId (gv_doc st) = doc_roomId doc" "doc_revision (gv_doc st) = doc_revision doc + int (length es)"
    "sum_list (restrictiveness doc) + int (length es) \<le> sum_list (restrictiveness (gv_doc st))"
    using assms unfolding governance_run_inv_def by blast
  show ?thesis
  proof (cases rule: governance_update_cases [of "fst op" ?inp "gv_log st"])
    case (error e)
    then show ?thesis using assms by (simp add: governance_run_step_def)
  next
    case (updated c cand ev a log')
    have cand: "doc_roomId cand = doc_roomId (gv_doc st)" "doc_revision cand = doc_revision (gv_doc st) + 1"
      "no_looser (gv_doc st) cand" "sum_list (restrictiveness (gv_doc st)) + 1 \<le> sum_list (restrictiveness cand)"
      using prepared_candidate [OF updated(1)] stricter_rank [of "gv_doc st" cand] by simp_all
    have red: "reduceRoomGovernanceEventV1 (gv_doc st) ev = Inr cand"
      unfolding updated(2) using cand(1) by (simp add: reduce_governance_event)
    have log': "log' = GLog_memory (es @ [ev])" and ev: "ge_localSequence ev = int (length es) + 1"
      using glog_append_Inr(2) [OF updated(3)] es(1)
      by (auto simp: updated(2) createAcceptedRoomGovernanceEventV1_def)
    have "efold reduceRoomGovernanceEventV1 doc (es @ [ev]) = Inr cand"
      by (simp add: efold_append es(3) red)
    moreover have "no_looser doc cand" using es(4) cand(3) by (rule no_looser_trans)
    ultimately show ?thesis
      unfolding governance_run_inv_def
      by (intro exI [of _ "es @ [ev]"])
        (use updated(4) es cand log' ev in \<open>simp add: governance_run_step_def numbered_from_one_snoc\<close>)
  qed
qed

lemma governance_run_inv_run: "governance_run_inv doc (governance_run room doc ops)"
proof -
  have "governance_run_inv doc (foldl governance_run_step st ops)" if "governance_run_inv doc st" for st
    using that by (induction ops arbitrary: st) (simp_all add: governance_run_inv_step)
  moreover have "governance_run_inv doc \<lparr>gv_room = room, gv_doc = doc, gv_log = GLog_memory []\<rparr>"
    by (simp add: governance_run_inv_def no_looser_refl)
  ultimately show ?thesis unfolding governance_run_def by blast
qed

text \<open>Over any history of governance calls, with any commands, contexts and decisions, the
  room's document is never looser than the one it started from, its revision counts the accepted
  updates, and replaying the recorded events from the first document gives the current one.\<close>

theorem governance_history:
  "no_looser doc (gv_doc (governance_run room doc ops))
   \<and> doc_roomId (gv_doc (governance_run room doc ops)) = doc_roomId doc
   \<and> doc_revision (gv_doc (governance_run room doc ops))
       = doc_revision doc + int (length (glog_events (gv_log (governance_run room doc ops))))
   \<and> efold reduceRoomGovernanceEventV1 doc (glog_events (gv_log (governance_run room doc ops)))
       = Inr (gv_doc (governance_run room doc ops))"
  using governance_run_inv_run [of doc room ops] unfolding governance_run_inv_def by auto

lemma sum_list_between:
  fixes xs bs :: "int list"
  assumes "list_all2 (\<lambda>x b. 0 \<le> x \<and> x \<le> b) xs bs"
  shows "0 \<le> sum_list xs \<and> sum_list xs \<le> sum_list bs"
  using assms by (induction rule: list_all2_induct) auto

lemma restrictiveness_bounds: "0 \<le> sum_list (restrictiveness d) \<and> sum_list (restrictiveness d) \<le> 23"
proof -
  have ranks: "0 \<le> SENSITIVITY_RANK a \<and> SENSITIVITY_RANK a \<le> 3" "0 \<le> MIN_POSTURE_RANK b \<and> MIN_POSTURE_RANK b \<le> 4"
    "0 \<le> PROTECTED_RANK c \<and> PROTECTED_RANK c \<le> 4" "0 \<le> RETENTION_RANK r \<and> RETENTION_RANK r \<le> 2" for a b c r
    by ((cases a; simp), (cases b; simp), (cases c; simp), (cases r; simp))
  have "list_all2 (\<lambda>x b. 0 \<le> x \<and> x \<le> b) (restrictiveness d) [3, 4, 4, 2, 1, 1, 1, 1, 1, 1, 1, 1, 1, 1]"
    by (simp add: restrictiveness_def ranks)
  from sum_list_between [OF this] show ?thesis by simp
qed

text \<open>C38.  Tightening comes to an end: however many governance calls are made, at most
  twenty-three of them are accepted, one for each step of restrictiveness left in the first
  document.\<close>

theorem governance_terminates:
  "int (length (glog_events (gv_log (governance_run room doc ops))))
     \<le> 23 - sum_list (restrictiveness doc)"
  using governance_run_inv_run [of doc room ops]
    restrictiveness_bounds [of "gv_doc (governance_run room doc ops)"]
  unfolding governance_run_inv_def by auto

section \<open>Samples\<close>

definition governance_decisions :: privacy_state where
  "governance_decisions =
     snd (issuePolicyDecision Cap_persistence Allowed Mode_private ''room.governance_log.append''
       (snd (issuePolicyDecision Cap_persistence Allowed Mode_private ''room.governance.update'' privacy_init)))"

lemma governance_decisions_ok:
  "assertPreparedDecision governance_decisions 0 ''room.governance.update'' = Inr ()"
  "assertGovernanceLogDecision governance_decisions (Suc 0) ''room.governance_log.append'' = Inr ()"
  by (simp_all add: governance_decisions_def assertPreparedDecision_Inr assertGovernanceLogDecision_Inr
      issuePolicyDecision_def Let_def privacy_init_def authentic_def isPolicyDecision_def)

abbreviation private_document :: policy_document where
  "private_document \<equiv> resolveRoomPolicyDocumentDefaultsV1 (js ''room-local-1'') Mode_private None"

definition sensitivity_json :: "jstr \<Rightarrow> jsval" where
  "sensitivity_json actor = JObj [(js ''schemaVersion'', JNum (NInt 1)),
     (js ''command'', JStr (js ''room.policy.increase_sensitivity'')),
     (js ''roomId'', JStr (js ''room-local-1'')), (js ''actorMembershipId'', JStr actor),
     (js ''expectedPolicyRevision'', JNum (NInt 1)), (js ''mode'', JStr (js ''private'')),
     (js ''reason'', JStr (js ''user_request'')), (js ''newSensitivity'', JStr (js ''critical''))]"

definition sensitivity_command :: "jstr \<Rightarrow> governance_command" where
  "sensitivity_command actor = \<lparr>gc_roomId = js ''room-local-1'', gc_actorMembershipId = actor,
     gc_expectedPolicyRevision = 1, gc_mode = Mode_private, gc_reason = js ''user_request'',
     gc_args = GA_sensitivity SN_critical\<rparr>"

lemma sensitivity_valid:
  assumes "id_re 127 actor"
  shows "validateRoomGovernanceCommandV1 (sensitivity_json actor) = Inr (sensitivity_command actor)"
proof -
  have leaf: "slug_re 64 (js ''user_request'')" by code_simp
  have mode: "mode_of_js (js ''private'') = Mode_private"
    by (simp add: mode_of_js_def enum_of_def KNOWN_MODES_def)
  show ?thesis
    by (simp add: validateRoomGovernanceCommandV1_def sensitivity_json_def assertNoDangerousKeys_def
        DANGEROUS_KEYS_def leaf mode enum_of_def ROOM_GOVERNANCE_COMMAND_NAMES_def governance_args_of_def
        governance_value_def assertOnlyKeys_def GOVERNANCE_BASE_KEYS_def sensitivity_command_def
        requirePolicyRevision_def is_safe_int_def MAX_SAFE_INTEGER_def ROOM_SENSITIVITIES_def
        enum_value_def assms)
qed

text \<open>The context of a member of the two-member room, with any descriptor.\<close>

definition assembled_context :: "membership_record \<Rightarrow> capability_descriptor \<Rightarrow> prepared_authorization" where
  "assembled_context m d = prepared_context (sample_prepare\<lparr>pri_requestedCapability := CN_policy_tighten,
     pri_requiredSideEffect := ''room.governance.update'', pri_targetMembership := None\<rparr>) m d"

definition member_descriptor :: "membership_record \<Rightarrow> capability_name \<Rightarrow> capability_descriptor" where
  "member_descriptor m c = \<lparr>cd_roomId = mb_roomId m, cd_memberRef = mb_memberRef m,
     cd_membershipId = mb_membershipId m, cd_membershipRevision = mb_revision m, cd_capability = c,
     cd_objectKinds = None, cd_exactObjectId = None, cd_maximumView = None, cd_sourceRole = mb_role m,
     cd_authoritative = False\<rparr>"

definition sample_governance :: "membership_record \<Rightarrow> capability_name \<Rightarrow> governance_input" where
  "sample_governance m c = \<lparr>gi_roomState = two_members, gi_currentPolicy = private_document,
     gi_command = sensitivity_json (mb_membershipId m),
     gi_prepared = assembled_context m (member_descriptor m c), gi_decision = 0, gi_storageDecision = 1,
     gi_roomPolicy = private_policy,
     gi_effectiveDevicePosture = resolveEffectiveDevicePostureV1 None, gi_eventId = [], gi_now = [],
     gi_postureSignal = None\<rparr>"

lemma sample_governance_applied:
  assumes "m \<in> {alice, bob_again}" and "roleIsEligibleFor (mb_role m) c"
  shows "\<exists>r l. applyLocalRoomGovernanceUpdateV1 governance_decisions (sample_governance m c) (GLog_memory [])
      = (Inr r, l)
     \<and> gr_nextRoomPolicy r = private_document\<lparr>doc_revision := 2, doc_sensitivity := SN_critical\<rparr>
     \<and> ge_actorMembershipId (gr_event r) = mb_membershipId m"
proof -
  let ?inp = "sample_governance m c" and ?c = "sensitivity_command (mb_membershipId m)"
  let ?next = "private_document\<lparr>doc_revision := 2, doc_sensitivity := SN_critical\<rparr>"
  have id: "id_re 127 (mb_membershipId m)"
  proof -
    have "id_re 127 (js ''mem-0'')" "id_re 127 (js ''mem-2'')" by code_simp+
    then show ?thesis using assms(1) by (auto simp: alice_fields)
  qed
  have m: "membership_at [alice, bob_again] (mb_membershipId m) = Some m" "mb_state m = MS_active"
    "mb_revision m = 1" "mb_roomId m = js ''room-local-1''"
    using assms(1) by (auto simp: two_members_at alice_fields)
  have doc: "doc_revision private_document = 1" "doc_sensitivity private_document = SN_normal"
    by (simp_all add: resolveRoomPolicyDocumentDefaultsV1_def FIRST_ROOM_POLICY_REVISION_def)
  have cand: "buildCandidateRoomPolicyV1 private_document ?c = ?next"
    by (simp add: buildCandidateRoomPolicyV1_def sensitivity_command_def doc)
  have strict: "no_looser private_document ?next" "\<not> no_looser ?next private_document"
    by (simp_all add: no_looser_iff doc)
  have inp: "gi_currentPolicy ?inp = private_document" "gi_command ?inp = sensitivity_json (mb_membershipId m)"
    "gi_roomState ?inp = two_members" "gi_storageDecision ?inp = Suc 0"
    by (simp_all add: sample_governance_def)
  have gate: "assertPreparedRoomAuthorizationCurrentV1 governance_decisions (governance_use ?inp m) = Inr ()"
    using m assms(2) governance_decisions_ok(1)
    by (simp add: assertPrepared_Inr assertPreparedMember_Inr assertPreparedFence_Inr
        assertPreparedBinding_Inr governance_use_def sample_governance_def assembled_context_def
        prepared_context_def Let_def sample_prepare_def roomAuthorizationRevisionV1_def two_members_at(1)
        member_descriptor_def descriptor_current_def)
  have room: "rs_roomId two_members = js ''room-local-1''" by (simp add: draft_room_def)
  have "prepareGovernanceUpdate governance_decisions ?inp = Inr (?c, ?next)"
    unfolding prepareGovernanceUpdate_Inr inp cand two_members_at(1) room
    using sensitivity_valid [OF id] gate m(1) strict doc by (simp add: sensitivity_command_def)
  moreover have "doc_roomId ?next = doc_roomId private_document" by simp
  ultimately show ?thesis
    by (simp add: applyLocalRoomGovernanceUpdateV1_def Let_def inp reduce_governance_event glog_append_def
        governance_decisions_ok(2))
      (simp add: createAcceptedRoomGovernanceEventV1_def sensitivity_command_def)
qed

theorem governance_update_tightens_witness:
  "\<exists>r l. applyLocalRoomGovernanceUpdateV1 governance_decisions (sample_governance alice CN_policy_tighten)
      (GLog_memory []) = (Inr r, l)
     \<and> no_looser private_document (gr_nextRoomPolicy r) \<and> \<not> no_looser (gr_nextRoomPolicy r) private_document"
proof -
  obtain r l where r: "applyLocalRoomGovernanceUpdateV1 governance_decisions
      (sample_governance alice CN_policy_tighten) (GLog_memory []) = (Inr r, l)"
    using sample_governance_applied [of alice CN_policy_tighten] by (auto simp: alice_fields)
  have "gi_currentPolicy (sample_governance alice CN_policy_tighten) = private_document"
    by (simp add: sample_governance_def)
  then show ?thesis using governance_update_tightens [OF r] r by auto
qed

text \<open>The descriptor's own capability is not revalidated: a context assembled by hand, with a
  viewer's current descriptor for listing objects and the operation fields of a governance
  update, lets the viewer change the policy of the room (a role the capability table excludes).\<close>

theorem governance_forged_context:
  "\<exists>r l. applyLocalRoomGovernanceUpdateV1 governance_decisions (sample_governance bob_again CN_object_list)
      (GLog_memory []) = (Inr r, l)
     \<and> ge_actorMembershipId (gr_event r) = mb_membershipId bob_again
     \<and> gr_nextRoomPolicy r \<noteq> gi_currentPolicy (sample_governance bob_again CN_object_list)
     \<and> mb_role bob_again = MR_viewer \<and> \<not> roleIsEligibleFor MR_viewer CN_policy_tighten"
proof -
  have "roleIsEligibleFor (mb_role bob_again) CN_object_list"
    by (simp add: alice_fields roleIsEligibleFor_def)
  then obtain r l where r: "applyLocalRoomGovernanceUpdateV1 governance_decisions
      (sample_governance bob_again CN_object_list) (GLog_memory []) = (Inr r, l)"
    "gr_nextRoomPolicy r = private_document\<lparr>doc_revision := 2, doc_sensitivity := SN_critical\<rparr>"
    "ge_actorMembershipId (gr_event r) = mb_membershipId bob_again"
    using sample_governance_applied [of bob_again CN_object_list] by blast
  have "doc_sensitivity (gr_nextRoomPolicy r) \<noteq> doc_sensitivity private_document"
    by (simp add: r(2)) (simp add: resolveRoomPolicyDocumentDefaultsV1_def)
  then have "gr_nextRoomPolicy r \<noteq> private_document" by auto
  then show ?thesis
    using r(1,3) by (auto simp: alice_fields roleIsEligibleFor_def sample_governance_def)
qed

text \<open>The baseline of a governance update is the document the caller passes, not the one the
  room's state carries: replacing the state's document by any other leaves the outcome as it
  was, so a stricter document in the state is overwritten by the candidate.\<close>

theorem governance_baseline_unchecked:
  assumes "applyLocalRoomGovernanceUpdateV1 s inp log = (Inr r, log')"
  shows "applyLocalRoomGovernanceUpdateV1 s
       (inp\<lparr>gi_roomState := (gi_roomState inp)\<lparr>rs_policyDocument := d\<rparr>\<rparr>) log = (Inr r, log')
     \<and> rs_policyDocument (gr_nextState r) = Some (gr_nextRoomPolicy r)"
proof -
  let ?inp = "inp\<lparr>gi_roomState := (gi_roomState inp)\<lparr>rs_policyDocument := d\<rparr>\<rparr>"
  have gate: "assertPreparedRoomAuthorizationCurrentV1 s (governance_use ?inp m) = Inr () \<longleftrightarrow>
      assertPreparedRoomAuthorizationCurrentV1 s (governance_use inp m) = Inr ()" for m
    by (simp add: assertPrepared_Inr assertPreparedMember_Inr assertPreparedFence_Inr
        assertPreparedBinding_Inr governance_use_def roomPolicyRevisionOfV1_def membership_records_def)
  show ?thesis
  proof (cases rule: governance_update_cases [of s inp log])
    case (error e)
    then show ?thesis using assms by simp
  next
    case (updated c cand ev a log1)
    have "prepareGovernanceUpdate s ?inp = Inr (c, cand)"
      using updated(1) gate unfolding prepareGovernanceUpdate_Inr by (auto simp: membership_records_def)
    moreover have "reduceRoomGovernanceEventV1 (gi_currentPolicy inp) ev = Inr cand"
      unfolding updated(2) by (rule reduce_governance_event) (rule prepared_candidate(1) [OF updated(1)])
    ultimately show ?thesis
      using assms updated(3,4)
      by (simp add: applyLocalRoomGovernanceUpdateV1_def Let_def updated(2) [symmetric])
  qed
qed

theorem governance_baseline_unchecked_witness:
  "\<exists>r l. applyLocalRoomGovernanceUpdateV1 governance_decisions
      ((sample_governance alice CN_policy_tighten)\<lparr>gi_roomState := two_members\<lparr>rs_policyDocument :=
         Some (private_document\<lparr>doc_minimumDevicePosture := MP_managed_bunker\<rparr>)\<rparr>\<rparr>) (GLog_memory []) = (Inr r, l)
     \<and> map_option doc_minimumDevicePosture (rs_policyDocument (gr_nextState r)) = Some MP_unverified"
proof -
  obtain r l where r: "applyLocalRoomGovernanceUpdateV1 governance_decisions
      (sample_governance alice CN_policy_tighten) (GLog_memory []) = (Inr r, l)"
    "gr_nextRoomPolicy r = private_document\<lparr>doc_revision := 2, doc_sensitivity := SN_critical\<rparr>"
    using sample_governance_applied [of alice CN_policy_tighten] by (auto simp: alice_fields)
  have st: "gi_roomState (sample_governance alice CN_policy_tighten) = two_members"
    by (simp add: sample_governance_def)
  have "doc_minimumDevicePosture private_document = MP_unverified"
    by (simp add: resolveRoomPolicyDocumentDefaultsV1_def)
  then show ?thesis
    using governance_baseline_unchecked [OF r(1),
        of "Some (private_document\<lparr>doc_minimumDevicePosture := MP_managed_bunker\<rparr>)"]
    by (auto simp: st r(2))
qed

end
