(* ===== verification/Room_System.thy ===== *)
theory Room_System
  imports Governance Object_Pipeline
begin

text \<open>
  A room as one system: its state, its object projection and its policy document with the three
  logs, over the decision registry, under any interleaving of decisions, membership mutations,
  revocations, object mutations and governance updates.  Every operation is the pipeline of its
  own theory, called with the state the system holds and with any other input.
\<close>

section \<open>The system and its steps\<close>

record room_system =
  sys_room :: room_state
  sys_objects :: object_projection
  sys_document :: policy_document
  sys_mlog :: membership_log
  sys_olog :: object_log
  sys_glog :: governance_log
  sys_clean :: bool
  sys_privacy :: privacy_state

definition members_of :: "room_system \<Rightarrow> membership_run_state" where
  "members_of x = \<lparr>mr_room = sys_room x, mr_log = sys_mlog x, mr_clean = sys_clean x\<rparr>"

definition with_members :: "room_system \<Rightarrow> membership_run_state \<Rightarrow> room_system" where
  "with_members x y = x\<lparr>sys_room := mr_room y, sys_mlog := mr_log y, sys_clean := mr_clean y\<rparr>"

definition objects_of :: "room_system \<Rightarrow> object_projection \<times> object_log" where
  "objects_of x = (sys_objects x, sys_olog x)"

definition with_objects :: "room_system \<Rightarrow> object_projection \<times> object_log \<Rightarrow> room_system" where
  "with_objects x y = x\<lparr>sys_objects := fst y, sys_olog := snd y\<rparr>"

definition governance_of :: "room_system \<Rightarrow> governance_run_state" where
  "governance_of x = \<lparr>gv_room = sys_room x, gv_doc = sys_document x, gv_log = sys_glog x\<rparr>"

definition with_governance :: "room_system \<Rightarrow> governance_run_state \<Rightarrow> room_system" where
  "with_governance x y = x\<lparr>sys_room := gv_room y, sys_document := gv_doc y, sys_glog := gv_log y\<rparr>"

text \<open>A revocation call on the members' part of the system.\<close>

definition revocation_run_step ::
  "membership_run_state \<Rightarrow> privacy_state \<times> revocation_input \<Rightarrow> membership_run_state" where
  "revocation_run_step st op = (case applyLocalMembershipRevocationV1 (fst op)
        ((snd op)\<lparr>rvi_roomState := mr_room st\<rparr>) (mr_log st) of
       (Inl e, log') \<Rightarrow> st\<lparr>mr_log := log', mr_clean := mr_clean st \<and> log' = mr_log st\<rparr>
     | (Inr r, log') \<Rightarrow> st\<lparr>mr_room := rvr_nextState r, mr_log := log'\<rparr>)"

inductive room_system_step :: "room_system \<Rightarrow> room_system \<Rightarrow> bool" where
  decide: "decision_step False (sys_privacy x) s \<Longrightarrow> room_system_step x (x\<lparr>sys_privacy := s\<rparr>)"
| change_member: "room_system_step x (with_members x (membership_run_step (members_of x) (sys_privacy x, mutation)))"
| revoke_member: "room_system_step x (with_members x (revocation_run_step (members_of x) (sys_privacy x, revocation)))"
| mutate_object: "room_system_step x (with_objects x (object_run_step (objects_of x) (sys_privacy x, change)))"
| govern: "room_system_step x (with_governance x (governance_run_step (governance_of x) (sys_privacy x, update)))"

inductive_cases room_system_stepE [consumes 1, case_names decide change_member revoke_member mutate_object govern]:
  "room_system_step x y"

definition room_system_start :: "room_state \<Rightarrow> policy_document \<Rightarrow> room_system" where
  "room_system_start seed doc = \<lparr>sys_room = seed\<lparr>rs_membershipRecords := None\<rparr>,
     sys_objects = emptyRoomObjectProjection (rs_roomId seed), sys_document = doc,
     sys_mlog = MLog_memory \<lparr>mml_roomId = rs_roomId seed, mml_events = []\<rparr>,
     sys_olog = new_object_log (rs_roomId seed) True, sys_glog = GLog_memory [], sys_clean = True,
     sys_privacy = privacy_init\<rparr>"

lemma members_of_fields [simp]:
  "mr_room (members_of x) = sys_room x" "mr_log (members_of x) = sys_mlog x" "mr_clean (members_of x) = sys_clean x"
  "members_of (with_members x st) = st" "members_of (with_objects x P) = members_of x"
  "members_of (x\<lparr>sys_privacy := s\<rparr>) = members_of x"
  by (simp_all add: members_of_def with_members_def with_objects_def)

lemma objects_of_fields [simp]:
  "objects_of (with_members x st) = objects_of x" "objects_of (with_objects x P) = P"
  "objects_of (with_governance x g) = objects_of x" "objects_of (x\<lparr>sys_privacy := s\<rparr>) = objects_of x"
  by (simp_all add: objects_of_def with_members_def with_objects_def with_governance_def)

lemma governance_of_fields [simp]:
  "gv_room (governance_of x) = sys_room x" "gv_doc (governance_of x) = sys_document x"
  "gv_log (governance_of x) = sys_glog x" "governance_of (with_governance x g) = g"
  "governance_of (with_objects x P) = governance_of x" "governance_of (x\<lparr>sys_privacy := s\<rparr>) = governance_of x"
  by (simp_all add: governance_of_def with_governance_def with_objects_def)

lemma system_fields [simp]:
  "sys_room (with_members x st) = mr_room st" "sys_room (with_objects x P) = sys_room x"
  "sys_room (with_governance x g) = gv_room g" "sys_document (with_members x st) = sys_document x"
  "sys_document (with_objects x P) = sys_document x" "sys_document (with_governance x g) = gv_doc g"
  "sys_glog (with_members x st) = sys_glog x" "sys_glog (with_objects x P) = sys_glog x"
  "sys_glog (with_governance x g) = gv_log g"
  "sys_privacy (with_members x st) = sys_privacy x" "sys_privacy (with_objects x P) = sys_privacy x"
  "sys_privacy (with_governance x g) = sys_privacy x"
  by (simp_all add: with_members_def with_objects_def with_governance_def)

section \<open>What each part leaves of the others\<close>

text \<open>A revocation is a membership mutation or nothing.\<close>

lemma revocation_is_mutation:
  "revocation_run_step st op = st \<or> (\<exists>op'. revocation_run_step st op = membership_run_step st op')"
proof (cases "prepareRevocation (fst op) ((snd op)\<lparr>rvi_roomState := mr_room st\<rparr>)")
  case (Inl e)
  then show ?thesis by (simp add: revocation_run_step_def applyLocalMembershipRevocationV1_def)
next
  case (Inr p)
  obtain actor target where p: "p = (actor, target)" by (cases p)
  let ?m = "revocation_mutation ((snd op)\<lparr>rvi_roomState := mr_room st\<rparr>) actor"
  have "?m\<lparr>mmi_roomState := mr_room st\<rparr> = ?m" by (simp add: revocation_mutation_def)
  then have "revocation_run_step st op = membership_run_step st (fst op, ?m)"
    by (simp add: revocation_run_step_def applyLocalMembershipRevocationV1_def Inr p membership_run_step_def
        split: prod.split sum.split)
  then show ?thesis by blast
qed

text \<open>The records a mutation may change: one, to its next revision, never a removed one.\<close>

definition member_le :: "membership_record \<Rightarrow> membership_record \<Rightarrow> bool" where
  "member_le r r' \<longleftrightarrow> r' = r \<or> mb_revision r < mb_revision r' \<and> mb_state r \<noteq> MS_removed_tombstone
     \<and> mb_membershipId r' = mb_membershipId r \<and> mb_memberRef r' = mb_memberRef r"

definition members_le :: "membership_record list \<Rightarrow> membership_record list \<Rightarrow> bool" where
  "members_le rs rs' \<longleftrightarrow> (\<forall>i r. membership_at rs i = Some r \<longrightarrow>
     (\<exists>r'. membership_at rs' i = Some r' \<and> member_le r r'))"

lemma member_le_trans: "member_le a b \<Longrightarrow> member_le b c \<Longrightarrow> member_le a c"
  by (auto simp: member_le_def)

lemma members_le_refl [simp]: "members_le rs rs"
  by (simp add: members_le_def member_le_def)

lemma members_le_trans: "members_le a b \<Longrightarrow> members_le b c \<Longrightarrow> members_le a c"
  unfolding members_le_def by (metis member_le_trans)

lemma members_le_reduce:
  assumes st: "membership_step rid rs cmd b"
    and red: "reduceRoomMembershipEventV1 rs (createAcceptedRoomMembershipEventV1 cmd b i n now) = Inr rs'"
  shows "members_le rs rs'"
proof (cases "bm_previous b")
  case None
  then have "membership_at rs (mb_membershipId (bm_record b)) = None"
    using red unfolding reduce_membership_step [OF st] by (auto split: if_splits)
  then show ?thesis
    by (auto simp: reduce_membership_lookup [OF st red] members_le_def member_le_def)
next
  case (Some t)
  note t = membership_step_Some [OF st Some]
  have "member_le t (bm_record b)" using t(1) by (auto simp: member_le_def membership_change_def)
  then show ?thesis
    using t(2) by (auto simp: reduce_membership_lookup [OF st red] members_le_def member_le_def)
qed

lemma membership_run_step_frame:
  obtains rs where "mr_room (membership_run_step st op) = (mr_room st)\<lparr>rs_membershipRecords := rs\<rparr>"
    and "members_le (membership_records (mr_room st)) (membership_records (mr_room (membership_run_step st op)))"
proof (cases rule: membership_mutation_cases [of "fst op" "(snd op)\<lparr>mmi_roomState := mr_room st\<rparr>" "mr_log st"])
  case (error e)
  then show ?thesis using that [of "rs_membershipRecords (mr_room st)"] by (simp add: membership_run_step_def)
next
  case (appended cmd b ev a log')
  note st = prepare_membership_step [OF appended(1), simplified]
  show ?thesis
  proof (cases "reduceRoomMembershipEventV1 (membership_records (mr_room st)) ev")
    case (Inl e)
    then show ?thesis
      using that [of "rs_membershipRecords (mr_room st)"] appended(4) by (simp add: membership_run_step_def)
  next
    case (Inr rs')
    have "members_le (membership_records (mr_room st)) rs'"
      by (rule members_le_reduce [OF st]) (use Inr appended(2) in simp)
    then show ?thesis
      using that [of "Some rs'"] appended(4) Inr by (simp add: membership_run_step_def membership_records_def)
  qed
qed

lemma revocation_run_step_frame:
  obtains rs where "mr_room (revocation_run_step st op) = (mr_room st)\<lparr>rs_membershipRecords := rs\<rparr>"
    and "members_le (membership_records (mr_room st)) (membership_records (mr_room (revocation_run_step st op)))"
proof -
  have "mr_room st = (mr_room st)\<lparr>rs_membershipRecords := rs_membershipRecords (mr_room st)\<rparr>" by simp
  then show ?thesis
    using revocation_is_mutation [of st op] membership_run_step_frame that by (metis members_le_refl)
qed

lemma governance_run_step_frame:
  obtains d n where "gv_room (governance_run_step st op)
      = (gv_room st)\<lparr>rs_policyDocument := d, rs_policyRevision := n\<rparr>"
    and "governance_run_step st op = st \<or> doc_revision (gv_doc st) < doc_revision (gv_doc (governance_run_step st op))"
proof (cases rule: governance_update_cases [of "fst op"
    "(snd op)\<lparr>gi_roomState := gv_room st, gi_currentPolicy := gv_doc st\<rparr>" "gv_log st"])
  case (error e)
  then show ?thesis
    using that [of "rs_policyRevision (gv_room st)" "rs_policyDocument (gv_room st)"]
    by (simp add: governance_run_step_def)
next
  case (updated c cand ev a log')
  then show ?thesis
    using that [of "Some (doc_revision cand)" "Some cand"] prepared_candidate(2) [OF updated(1)]
    by (simp add: governance_run_step_def)
qed

section \<open>The invariant of the system\<close>

definition room_system_inv :: "jstr \<Rightarrow> policy_document \<Rightarrow> room_system \<Rightarrow> bool" where
  "room_system_inv rid doc x \<longleftrightarrow> membership_run_inv rid (members_of x)
     \<and> logged rid (objects_of x) \<and> object_inv rid (sys_objects x)
     \<and> governance_run_inv doc (governance_of x) \<and> privacy_inv (sys_privacy x)"

lemma membership_run_inv_room:
  assumes "membership_run_inv rid st" and "mr_room st' = (mr_room st)\<lparr>rs_policyDocument := d, rs_policyRevision := n\<rparr>"
    and "mr_log st' = mr_log st" and "mr_clean st' = mr_clean st"
  shows "membership_run_inv rid st'"
proof -
  have "membership_records (mr_room st') = membership_records (mr_room st)" "rs_roomId (mr_room st') = rs_roomId (mr_room st)"
    by (simp_all add: assms(2) membership_records_def)
  then show ?thesis using assms(1) by (simp only: membership_run_inv_def assms(3,4))
qed

lemma governance_run_inv_room:
  assumes "governance_run_inv doc st" and "gv_room st' = (gv_room st)\<lparr>rs_membershipRecords := rs\<rparr>"
    and "gv_doc st' = gv_doc st" and "gv_log st' = gv_log st"
  shows "governance_run_inv doc st'"
  using assms by (simp add: governance_run_inv_def)

lemma room_system_inv_members:
  assumes "room_system_inv rid doc x" and "membership_run_inv rid st"
    and "mr_room st = (sys_room x)\<lparr>rs_membershipRecords := rs\<rparr>"
  shows "room_system_inv rid doc (with_members x st)"
proof -
  have "governance_run_inv doc (governance_of (with_members x st))"
    by (rule governance_run_inv_room [of doc "governance_of x" _ rs])
      (use assms in \<open>simp_all add: room_system_inv_def governance_of_def\<close>)
  moreover have "sys_objects (with_members x st) = sys_objects x" by (simp add: with_members_def)
  ultimately show ?thesis using assms(1,2) by (simp add: room_system_inv_def)
qed

lemma room_system_inv_step:
  assumes "room_system_step x y" and inv: "room_system_inv rid doc x"
  shows "room_system_inv rid doc y"
  using assms(1)
proof (cases rule: room_system_stepE)
  case (decide s)
  then show ?thesis
    using inv privacy_inv_honest_step [of "sys_privacy x" s] by (simp add: room_system_inv_def)
next
  case (change_member m)
  obtain rs where "mr_room (membership_run_step (members_of x) (sys_privacy x, m))
      = (sys_room x)\<lparr>rs_membershipRecords := rs\<rparr>"
    using membership_run_step_frame [of "members_of x"] by (metis members_of_fields(1))
  then show ?thesis
    unfolding change_member using inv
    by (intro room_system_inv_members membership_run_inv_step) (simp_all add: room_system_inv_def)
next
  case (revoke_member m)
  obtain rs where "mr_room (revocation_run_step (members_of x) (sys_privacy x, m))
      = (sys_room x)\<lparr>rs_membershipRecords := rs\<rparr>"
    using revocation_run_step_frame [of "members_of x"] by (metis members_of_fields(1))
  moreover have "membership_run_inv rid (revocation_run_step (members_of x) (sys_privacy x, m))"
    using inv revocation_is_mutation [of "members_of x"] membership_run_inv_step [of rid "members_of x"]
    unfolding room_system_inv_def by metis
  ultimately show ?thesis unfolding revoke_member using inv by (intro room_system_inv_members)
next
  case (mutate_object m)
  obtain P l where P: "object_run_step (sys_objects x, sys_olog x) (sys_privacy x, m) = (P, l)" by fastforce
  then have "object_inv rid P" "logged rid (P, l)"
    using inv object_run_step_inv [OF _ P, of rid] logged_step [of rid "(sys_objects x, sys_olog x)" "(sys_privacy x, m)"]
    by (simp_all add: room_system_inv_def objects_of_def)
  then show ?thesis
    using inv P unfolding mutate_object by (simp add: room_system_inv_def objects_of_def) (simp add: with_objects_def)
next
  case (govern m)
  let ?g = "governance_run_step (governance_of x) (sys_privacy x, m)"
  obtain d n where room: "gv_room ?g = (sys_room x)\<lparr>rs_policyDocument := d, rs_policyRevision := n\<rparr>"
    using governance_run_step_frame [of "governance_of x"] by (metis governance_of_fields(1))
  have "membership_run_inv rid (members_of (with_governance x ?g))"
    by (rule membership_run_inv_room [of rid "members_of x" _ n d])
      (use inv room in \<open>simp_all add: room_system_inv_def members_of_def with_governance_def\<close>)
  then show ?thesis
    using inv governance_run_inv_step [of doc "governance_of x"] unfolding govern
    by (simp add: room_system_inv_def) (simp add: with_governance_def)
qed

lemma room_system_inv_start: "room_system_inv (rs_roomId seed) doc (room_system_start seed doc)"
  by (simp add: room_system_inv_def room_system_start_def members_of_def objects_of_def governance_of_def
      membership_run_inv_def membership_records_def membership_inv_def membership_log.log_ok_def
      logged_def new_object_log_def object_log.log_ok_def object_inv_def emptyRoomObjectProjection_def
      governance_run_inv_def no_looser_refl privacy_inv_init)

lemma room_system_inv_reach:
  "room_system_step\<^sup>*\<^sup>* x y \<Longrightarrow> room_system_inv rid doc x \<Longrightarrow> room_system_inv rid doc y"
  by (induction rule: rtranclp_induct) (auto intro: room_system_inv_step)

lemma room_system_step_lifecycle:
  assumes "room_system_step z y"
  shows "rs_lifecycle (sys_room y) = rs_lifecycle (sys_room z)"
  using assms
proof (cases rule: room_system_stepE)
  case (change_member m)
  then show ?thesis by (cases rule: membership_run_step_frame [of "members_of z" "(sys_privacy z, m)"]) auto
next
  case (revoke_member m)
  then show ?thesis by (cases rule: revocation_run_step_frame [of "members_of z" "(sys_privacy z, m)"]) auto
next
  case (govern m)
  then show ?thesis by (cases rule: governance_run_step_frame [of "governance_of z" "(sys_privacy z, m)"]) auto
qed auto

lemma room_system_lifecycle:
  "room_system_step\<^sup>*\<^sup>* z y \<Longrightarrow> rs_lifecycle (sys_room y) = rs_lifecycle (sys_room z)"
  by (induction rule: rtranclp_induct) (simp_all add: room_system_step_lifecycle)

text \<open>C5.  One invariant for the whole room: after any interleaving of decisions, membership
  mutations, revocations, object mutations and governance updates the members keep an active
  owner and distinct ids, the objects are well formed, the policy document is no looser than the
  first one and is the one in the room's state once it has been updated, and each of the three
  logs folds to the state its component holds (the membership log as long as no refused
  mutation was left in it).\<close>

theorem room_system_invariant:
  assumes "room_system_step\<^sup>*\<^sup>* (room_system_start seed doc) x"
  shows "membership_inv (rs_roomId seed) (membership_records (sys_room x))
   \<and> object_inv (rs_roomId seed) (sys_objects x)
   \<and> no_looser doc (sys_document x)
   \<and> (glog_events (sys_glog x) \<noteq> [] \<longrightarrow> rs_policyDocument (sys_room x) = Some (sys_document x)
        \<and> rs_policyRevision (sys_room x) = Some (doc_revision (sys_document x)))
   \<and> efold reduceRoomGovernanceEventV1 doc (glog_events (sys_glog x)) = Inr (sys_document x)
   \<and> efold applyObjectEventToProjectionV1 (emptyRoomObjectProjection (rs_roomId seed)) (objlog_events (sys_olog x))
       = Inr (sys_objects x)
   \<and> (sys_clean x \<longrightarrow> efold reduceRoomMembershipEventV1 [] (mlog_events (sys_mlog x))
       = Inr (membership_records (sys_room x)))
   \<and> rs_lifecycle (sys_room x) = rs_lifecycle seed"
proof -
  have inv: "room_system_inv (rs_roomId seed) doc x"
    by (rule room_system_inv_reach [OF assms room_system_inv_start])
  then show ?thesis
    using room_system_lifecycle [OF assms]
    by (auto simp: room_system_inv_def membership_run_inv_def governance_run_inv_def logged_def objects_of_def
        room_system_start_def)
qed

section \<open>A prepared authorization is fresh\<close>

lemma room_system_revision:
  "room_system_inv rid doc x \<Longrightarrow>
     doc_revision (sys_document x) = doc_revision doc + int (length (glog_events (sys_glog x)))"
  by (auto simp: room_system_inv_def governance_run_inv_def)

lemma room_system_governed:
  "room_system_inv rid doc x \<Longrightarrow> glog_events (sys_glog x) \<noteq> [] \<Longrightarrow>
     rs_policyRevision (sys_room x) = Some (doc_revision (sys_document x))"
  by (auto simp: room_system_inv_def governance_run_inv_def)

lemma room_system_tightenings:
  "room_system_inv rid doc x \<Longrightarrow> int (length (glog_events (sys_glog x))) \<le> 23"
  using restrictiveness_bounds [of doc] restrictiveness_bounds [of "sys_document x"]
  by (auto simp: room_system_inv_def governance_run_inv_def)

lemma room_system_step_le:
  assumes "room_system_step x y" and "room_system_inv rid doc x"
  shows "members_le (membership_records (sys_room x)) (membership_records (sys_room y))"
    and "sys_document y = sys_document x \<and> sys_glog y = sys_glog x
      \<or> doc_revision (sys_document x) < doc_revision (sys_document y)"
proof -
  show "members_le (membership_records (sys_room x)) (membership_records (sys_room y))"
    using assms(1)
  proof (cases rule: room_system_stepE)
    case (change_member m)
    then show ?thesis by (cases rule: membership_run_step_frame [of "members_of x" "(sys_privacy x, m)"]) auto
  next
    case (revoke_member m)
    then show ?thesis by (cases rule: revocation_run_step_frame [of "members_of x" "(sys_privacy x, m)"]) auto
  next
    case (govern m)
    then show ?thesis
      by (cases rule: governance_run_step_frame [of "governance_of x" "(sys_privacy x, m)"])
        (simp add: membership_records_def)
  qed auto
  show "sys_document y = sys_document x \<and> sys_glog y = sys_glog x
      \<or> doc_revision (sys_document x) < doc_revision (sys_document y)"
    using assms(1)
  proof (cases rule: room_system_stepE)
    case (govern m)
    then show ?thesis
      by (cases rule: governance_run_step_frame [of "governance_of x" "(sys_privacy x, m)"]) auto
  qed auto
qed

lemma room_system_le:
  assumes "room_system_step\<^sup>*\<^sup>* x y" and "room_system_inv rid doc x"
  shows "members_le (membership_records (sys_room x)) (membership_records (sys_room y))
    \<and> (sys_document y = sys_document x \<and> sys_glog y = sys_glog x
      \<or> doc_revision (sys_document x) < doc_revision (sys_document y))"
  using assms(1)
proof (induction rule: rtranclp_induct)
  case base
  then show ?case by simp
next
  case (step y z)
  have "room_system_inv rid doc y" using room_system_inv_reach [OF step(1) assms(2)] .
  note le = room_system_step_le [OF step(2) this]
  show ?case
    using members_le_trans [OF conjunct1 [OF step.IH] le(1)] step.IH le(2) by auto
qed

text \<open>The policy revision of a room that was never governed is the one it started with.\<close>

lemma room_system_ungoverned:
  assumes "room_system_step\<^sup>*\<^sup>* (room_system_start seed doc) x" and "glog_events (sys_glog x) = []"
  shows "rs_policyRevision (sys_room x) = rs_policyRevision seed"
  using assms
proof (induction rule: rtranclp_induct)
  case base
  then show ?case by (simp add: room_system_start_def)
next
  case (step y z)
  have inv: "room_system_inv (rs_roomId seed) doc y"
    by (rule room_system_inv_reach [OF step(1) room_system_inv_start])
  have "doc_revision (sys_document z) \<le> doc_revision (sys_document y)"
    using room_system_revision [OF inv] room_system_revision [OF room_system_inv_step [OF step(2) inv]] step.prems by simp
  then have same: "sys_document z = sys_document y \<and> sys_glog z = sys_glog y"
    using room_system_step_le(2) [OF step(2) inv] by auto
  have "rs_policyRevision (sys_room z) = rs_policyRevision (sys_room y)"
    using step(2)
  proof (cases rule: room_system_stepE)
    case (change_member m)
    then show ?thesis by (cases rule: membership_run_step_frame [of "members_of y" "(sys_privacy y, m)"]) auto
  next
    case (revoke_member m)
    then show ?thesis by (cases rule: revocation_run_step_frame [of "members_of y" "(sys_privacy y, m)"]) auto
  next
    case (govern m)
    then show ?thesis
      using same
      by (cases rule: governance_run_step_frame [of "governance_of y" "(sys_privacy y, m)"]) auto
  qed auto
  then show ?case using step.IH step.prems same by simp
qed

text \<open>The fingerprint of a resolved policy is no revision a governed document can have.\<close>

lemma ceiling_fingerprint:
  assumes "v1_ceiling p"
  shows "computeRoomPolicyFingerprintV1 p \<in> {0, 1, 128, 129}"
  using assms
  by (cases "rp_allowLocalContentMutation p"; cases "rp_redactTitles p")
    (simp_all add: computeRoomPolicyFingerprintV1_def policy_bits_def v1_ceiling_def)

lemma policy_fence_fresh:
  assumes "room_system_step\<^sup>*\<^sup>* (room_system_start seed doc) x"
    and "rs_policyRevision seed = None" and "doc_revision doc = FIRST_ROOM_POLICY_REVISION"
    and "room_system_step\<^sup>*\<^sup>* x y"
    and "roomPolicyRevisionOfV1 (sys_room y) pol = roomPolicyRevisionOfV1 (sys_room x) (resolveRoomPolicy rpi)"
  shows "sys_document y = sys_document x \<and> sys_glog y = sys_glog x"
proof (rule ccontr)
  have inv: "room_system_inv (rs_roomId seed) doc x"
    by (rule room_system_inv_reach [OF assms(1) room_system_inv_start])
  have inv': "room_system_inv (rs_roomId seed) doc y" by (rule room_system_inv_reach [OF assms(4) inv])
  assume "\<not> ?thesis"
  then have less: "doc_revision (sys_document x) < doc_revision (sys_document y)" using room_system_le [OF assms(4) inv] by blast
  then have "glog_events (sys_glog y) \<noteq> []"
    using room_system_revision [OF inv] room_system_revision [OF inv'] by auto
  then have now: "roomPolicyRevisionOfV1 (sys_room y) pol = doc_revision (sys_document y)"
    using room_system_governed [OF inv'] by (simp add: roomPolicyRevisionOfV1_def)
  show False
  proof (cases "glog_events (sys_glog x) = []")
    case True
    then have "roomPolicyRevisionOfV1 (sys_room x) (resolveRoomPolicy rpi) = computeRoomPolicyFingerprintV1 (resolveRoomPolicy rpi)"
      using room_system_ungoverned [OF assms(1)] assms(2) by (simp add: roomPolicyRevisionOfV1_def)
    moreover have "1 < doc_revision (sys_document y)" "doc_revision (sys_document y) \<le> 24"
      using less room_system_revision [OF inv'] room_system_revision [OF inv] True assms(3)
        restrictiveness_bounds [of doc] room_system_tightenings [OF inv']
      by (simp_all add: FIRST_ROOM_POLICY_REVISION_def)
    ultimately show False
      using assms(5) now ceiling_fingerprint [OF resolveRoomPolicy_ceiling, of rpi] by auto
  next
    case False
    then show False using assms(5) now less room_system_governed [OF inv] by (simp add: roomPolicyRevisionOfV1_def)
  qed
qed

text \<open>C6.  Between the preparation of an authorization and its accepted use nothing it depends on has
  changed: if a context prepared in some reachable state of the room is accepted in a later one,
  against the member's record there, then since the preparation no governance update was
  accepted and the member's record is the very same.  Any revocation, role change or tightening
  in between, however interleaved with other operations, makes the context useless for good;
  even the first update of a room without a policy revision, whose fence is the fingerprint of a
  resolved policy: a document that started at the first revision never reaches that number.\<close>

theorem prepared_authorization_fresh:
  assumes "room_system_step\<^sup>*\<^sup>* (room_system_start seed doc) x"
    and "rs_policyRevision seed = None" and "doc_revision doc = FIRST_ROOM_POLICY_REVISION"
    and "prepareRoomAuthorizationV1 pin = Inr p" and "pri_roomState pin = sys_room x"
    and "pri_roomPolicy pin = resolveRoomPolicy rpi"
    and "room_system_step\<^sup>*\<^sup>* x y" and "rq_prepared q = p" and "rq_roomState q = sys_room y"
    and "membership_at (membership_records (sys_room y)) (pa_membershipId p) = Some (rq_membership q)"
    and "assertPreparedRoomAuthorizationCurrentV1 s q = Inr ()"
  shows "membership_at (membership_records (sys_room x)) (pa_membershipId p) = Some (rq_membership q)
   \<and> sys_document y = sys_document x \<and> sys_glog y = sys_glog x
   \<and> mb_state (rq_membership q) = MS_active
   \<and> roleIsEligibleFor (mb_role (rq_membership q)) (rq_requiredCapability q)"
proof -
  have inv: "room_system_inv (rs_roomId seed) doc x"
    by (rule room_system_inv_reach [OF assms(1) room_system_inv_start])
  note le = room_system_le [OF assms(7) inv]
  obtain m d where m: "membership_at (membership_records (sys_room x)) (mb_membershipId (pri_membership pin)) = Some m"
    and d: "descriptor_current d m" "cd_capability d = pri_requestedCapability pin" and p: "p = prepared_context pin m d"
    using prepare_Inr [OF assms(4)] assms(5) by metis
  have id: "pa_membershipId p = mb_membershipId m" "membership_at (membership_records (sys_room x)) (mb_membershipId m) = Some m"
    using m membership_at_Some [OF m] by (simp_all add: p prepared_context_def Let_def)
  note use = assms(11) [unfolded assertPrepared_Inr assertPreparedMember_Inr assertPreparedFence_Inr
      assertPreparedBinding_Inr assms(8,9)]
  have made: "rv_membershipRevision (pa_revision p) = mb_revision m" "pa_requiredCapability p = pri_requestedCapability pin"
    "rv_roomPolicyRevision (pa_revision p) = roomPolicyRevisionOfV1 (sys_room x) (pri_roomPolicy pin)"
    "pa_capability p = d"
    by (simp_all add: p prepared_context_def Let_def roomAuthorizationRevisionV1_def assms(5))
  have fence: "mb_revision (rq_membership q) = mb_revision m"
    "roomPolicyRevisionOfV1 (sys_room y) (rq_roomPolicy q) = roomPolicyRevisionOfV1 (sys_room x) (pri_roomPolicy pin)"
    "mb_state (rq_membership q) = MS_active" "rq_requiredCapability q = pri_requestedCapability pin"
    "descriptor_current d (rq_membership q)"
    using use by (simp_all add: made)
  note same = policy_fence_fresh [OF assms(1,2,3,7) fence(2) [unfolded assms(6)]]
  obtain r' where "membership_at (membership_records (sys_room y)) (mb_membershipId m) = Some r'" "member_le m r'"
    using le id(2) unfolding members_le_def by blast
  then have "rq_membership q = m" using assms(10) fence(1) by (auto simp: id member_le_def)
  then show ?thesis using same fence d id by (simp add: descriptor_current_def)
qed

section \<open>A run of the system\<close>

text \<open>An owner is bootstrapped, raises the sensitivity of the room, and prepares another update.\<close>

definition owner_prepare :: "room_state \<Rightarrow> prepare_input" where
  "owner_prepare room = \<lparr>pri_roomState = room, pri_membership = sample_owner,
     pri_requestedCapability = CN_policy_tighten, pri_requiredSideEffect = ''room.governance.update'',
     pri_roomPolicy = private_policy, pri_objectId = None, pri_objectKind = None,
     pri_requestedView = None, pri_targetMembership = None, pri_deviceRiskLevel = None,
     pri_devicePostureSignal = None\<rparr>"

definition owner_context :: "room_state \<Rightarrow> prepared_authorization" where
  "owner_context room = prepared_context (owner_prepare room) sample_owner
     (member_descriptor sample_owner CN_policy_tighten)"

definition owner_use :: "room_state \<Rightarrow> dref \<Rightarrow> revalidation" where
  "owner_use room d = \<lparr>rq_prepared = owner_context room, rq_roomState = room, rq_membership = sample_owner,
     rq_roomPolicy = private_policy, rq_decision = d, rq_requiredCapability = CN_policy_tighten,
     rq_sideEffect = ''room.governance.update'', rq_objectId = None, rq_actualObjectKind = None,
     rq_requestedView = None, rq_targetMembership = None, rq_postureSignal = None\<rparr>"

definition owner_room :: "room_state \<Rightarrow> bool" where
  "owner_room room \<longleftrightarrow> rs_roomId room = js ''room-local-1'' \<and> rs_mode room = Mode_private
     \<and> membership_records room = [sample_owner]"

lemma owner_fields:
  "mb_membershipId sample_owner = js ''mem-1''" "mb_roomId sample_owner = js ''room-local-1''"
  "mb_role sample_owner = MR_owner" "mb_state sample_owner = MS_active" "mb_revision sample_owner = 1"
  "membership_at [sample_owner] (js ''mem-1'') = Some sample_owner"
  by (simp_all add: sample_owner_def membership_at_def)

lemma owner_may_tighten: "roleIsEligibleFor MR_owner CN_policy_tighten"
  by (simp add: roleIsEligibleFor_def ROOM_CAPABILITY_NAMES_complete)

lemma owner_prepared:
  assumes "owner_room room"
  shows "prepareRoomAuthorizationV1 (owner_prepare room) = Inr (owner_context room)"
proof -
  have "prepare_resolution (owner_prepare room) sample_owner
      = CR_allowed (member_descriptor sample_owner CN_policy_tighten) ''default_deny''"
    using assms
    by (simp add: prepare_resolution_def resolveRoomLocalCapabilityV1_def Let_def owner_prepare_def
        owner_fields owner_room_def ROOM_CAPABILITY_NAMES_complete resolveRoomPolicy_mutation
        room_policy_input.defs KNOWN_MODES_def capability_descriptor_for_def member_descriptor_def)
  then show ?thesis
    using assms unfolding prepareRoomAuthorizationV1_def
    by (simp add: owner_context_def owner_room_def owner_fields) (simp add: owner_prepare_def owner_fields)
qed

lemma owner_accepted:
  assumes "owner_room room" and "assertPreparedDecision s d ''room.governance.update'' = Inr ()"
  shows "assertPreparedRoomAuthorizationCurrentV1 s (owner_use room d) = Inr ()"
  using assms owner_may_tighten
  by (simp add: assertPrepared_Inr assertPreparedMember_Inr assertPreparedFence_Inr
      assertPreparedBinding_Inr owner_use_def owner_context_def owner_prepare_def
      prepared_context_def Let_def roomAuthorizationRevisionV1_def owner_room_def owner_fields
      member_descriptor_def descriptor_current_def)

definition owner_update :: "room_state \<Rightarrow> governance_input" where
  "owner_update room = \<lparr>gi_roomState = room, gi_currentPolicy = private_document,
     gi_command = sensitivity_json (js ''mem-1''), gi_prepared = owner_context room, gi_decision = 3,
     gi_storageDecision = 4, gi_roomPolicy = private_policy,
     gi_effectiveDevicePosture = resolveEffectiveDevicePostureV1 None, gi_eventId = [], gi_now = [],
     gi_postureSignal = None\<rparr>"

lemma owner_update_applied:
  assumes "owner_room room" and "assertPreparedDecision s 3 ''room.governance.update'' = Inr ()"
    and "assertGovernanceLogDecision s 4 ''room.governance_log.append'' = Inr ()"
  shows "\<exists>r ev. applyLocalRoomGovernanceUpdateV1 s (owner_update room) (GLog_memory []) = (Inr r, GLog_memory [ev])
     \<and> owner_room (gr_nextState r)"
proof -
  let ?c = "sensitivity_command (js ''mem-1'')"
  let ?next = "private_document\<lparr>doc_revision := 2, doc_sensitivity := SN_critical\<rparr>"
  have id: "id_re 127 (js ''mem-1'')" by code_simp
  have doc: "doc_revision private_document = 1" "doc_sensitivity private_document = SN_normal"
    by (simp_all add: resolveRoomPolicyDocumentDefaultsV1_def FIRST_ROOM_POLICY_REVISION_def)
  have cand: "buildCandidateRoomPolicyV1 private_document ?c = ?next"
    by (simp add: buildCandidateRoomPolicyV1_def sensitivity_command_def doc)
  have strict: "no_looser private_document ?next" "\<not> no_looser ?next private_document"
    by (simp_all add: no_looser_iff doc)
  have use: "governance_use (owner_update room) sample_owner = owner_use room 3"
    by (simp add: governance_use_def owner_update_def owner_use_def)
  have "prepareGovernanceUpdate s (owner_update room) = Inr (?c, ?next)"
    unfolding prepareGovernanceUpdate_Inr
    using sensitivity_valid [OF id] owner_accepted [OF assms(1,2)] assms(1) strict doc cand use
    by (intro conjI exI [of _ sample_owner])
      (simp_all add: owner_update_def sensitivity_command_def owner_room_def owner_fields)
  moreover have "doc_roomId ?next = doc_roomId private_document" by simp
  moreover have "gi_currentPolicy (owner_update room) = private_document" "gi_roomState (owner_update room) = room"
    "gi_storageDecision (owner_update room) = 4" by (simp_all add: owner_update_def)
  ultimately show ?thesis
    using assms(1,3)
    by (simp add: applyLocalRoomGovernanceUpdateV1_def Let_def reduce_governance_event glog_append_def
        owner_room_def membership_records_def)
qed

definition owner_decisions :: privacy_state where
  "owner_decisions = snd (issuePolicyDecision Cap_persistence Allowed Mode_private ''room.governance_log.append''
     (snd (issuePolicyDecision Cap_persistence Allowed Mode_private ''room.governance.update''
     (sample_membership_decisions ''room.membership.bootstrap''))))"

lemma owner_decisions_ok:
  "assertPreparedDecision owner_decisions 3 ''room.governance.update'' = Inr ()"
  "assertGovernanceLogDecision owner_decisions 4 ''room.governance_log.append'' = Inr ()"
  by (simp_all add: owner_decisions_def sample_membership_decisions_def assertPreparedDecision_Inr
      assertGovernanceLogDecision_Inr issuePolicyDecision_def Let_def privacy_init_def authentic_def
      isPolicyDecision_def eval_nat_numeral)

lemma issue_step:
  "room_system_step x (x\<lparr>sys_privacy := snd (issuePolicyDecision c v m e (sys_privacy x))\<rparr>)"
  by (rule room_system_step.decide [OF decision_step.issue]) (rule prod.collapse [symmetric])

lemma issue_reach:
  "room_system_step\<^sup>*\<^sup>* x z \<Longrightarrow> room_system_step\<^sup>*\<^sup>* x
     (z\<lparr>sys_privacy := snd (issuePolicyDecision c v m e (sys_privacy z))\<rparr>)"
  by (erule rtranclp.rtrancl_into_rtrancl) (rule issue_step)

text \<open>A reachable room with an owner, and then one the owner has governed once.\<close>

lemma bootstrapped_room:
  "\<exists>x. room_system_step\<^sup>*\<^sup>* (room_system_start (draft_room (js ''room-local-1'')) private_document) x
     \<and> owner_room (sys_room x) \<and> sys_document x = private_document \<and> sys_glog x = GLog_memory []
     \<and> sys_privacy x = owner_decisions"
proof -
  let ?rid = "js ''room-local-1''" and ?boot = "sample_membership_decisions ''room.membership.bootstrap''"
  let ?start = "room_system_start (draft_room ?rid) private_document"
  let ?x1 = "?start\<lparr>sys_privacy := ?boot\<rparr>"
  let ?st = "membership_run_step (members_of ?x1) (?boot, bootstrap_input)"
  let ?x2 = "with_members ?x1 ?st"
  let ?x3 = "?x2\<lparr>sys_privacy := owner_decisions\<rparr>"
  have "sys_privacy ?start = privacy_init" by (simp add: room_system_start_def)
  then have start: "room_system_step\<^sup>*\<^sup>* ?start ?x1"
    using issue_reach [OF issue_reach [OF issue_reach [OF rtranclp.rtrancl_refl]], of ?start Cap_persistence Allowed Mode_private
        "''room.membership_log.read''" Cap_persistence Allowed Mode_private "''room.membership_log.append''"
        Cap_persistence Allowed Mode_private "''room.membership.bootstrap''"]
    by (simp add: sample_membership_decisions_def)
  obtain r ev where r: "applyLocalRoomMembershipMutationV1 ?boot bootstrap_input sample_log =
        (Inr r, MLog_memory \<lparr>mml_roomId = ?rid, mml_events = [ev]\<rparr>)"
    "membership_records (mmr_nextState r) = [sample_owner]"
    using bootstrap_applied by blast
  have room: "rs_roomId (draft_room ?rid) = ?rid" "rs_mode (draft_room ?rid) = Mode_private" by (simp_all add: draft_room_def)
  have same: "bootstrap_input\<lparr>mmi_roomState := (draft_room ?rid)\<lparr>rs_membershipRecords := None\<rparr>\<rparr> = bootstrap_input"
    by (simp add: sample_membership_input_def)
  have st: "mr_room ?st = mmr_nextState r"
    using r(1) by (simp add: membership_run_step_def members_of_def room_system_start_def same room sample_log_def)
  obtain rs where frame: "mr_room ?st = (draft_room ?rid)\<lparr>rs_membershipRecords := rs\<rparr>"
    by (cases rule: membership_run_step_frame [of "members_of ?x1" "(?boot, bootstrap_input)"])
      (simp add: room_system_start_def members_of_def)
  have "membership_records (mr_room ?st) = [sample_owner]" unfolding st by (rule r(2))
  moreover have "rs_roomId (mr_room ?st) = ?rid" "rs_mode (mr_room ?st) = Mode_private"
    unfolding frame by (simp_all add: room)
  ultimately have owner: "owner_room (mr_room ?st)" by (simp add: owner_room_def)
  have "room_system_step ?x1 ?x2"
    using room_system_step.change_member [of ?x1 bootstrap_input] by simp
  with start have "room_system_step\<^sup>*\<^sup>* ?start ?x2" by (rule rtranclp.rtrancl_into_rtrancl)
  from issue_reach [OF issue_reach [OF this], of Cap_persistence Allowed Mode_private "''room.governance_log.append''"
      Cap_persistence Allowed Mode_private "''room.governance.update''"]
  have "room_system_step\<^sup>*\<^sup>* ?start ?x3" by (simp add: owner_decisions_def)
  moreover have "sys_document ?x3 = private_document" "sys_glog ?x3 = GLog_memory []"
    by (simp_all add: room_system_start_def with_members_def)
  ultimately show ?thesis using owner by (intro exI [of _ ?x3]) simp
qed

lemma governed_room:
  "\<exists>x. room_system_step\<^sup>*\<^sup>* (room_system_start (draft_room (js ''room-local-1'')) private_document) x
     \<and> glog_events (sys_glog x) \<noteq> [] \<and> owner_room (sys_room x) \<and> sys_privacy x = owner_decisions"
proof -
  obtain x where x: "room_system_step\<^sup>*\<^sup>* (room_system_start (draft_room (js ''room-local-1'')) private_document) x"
    "owner_room (sys_room x)" "sys_document x = private_document" "sys_glog x = GLog_memory []"
    "sys_privacy x = owner_decisions"
    using bootstrapped_room by blast
  obtain g gev where g: "applyLocalRoomGovernanceUpdateV1 owner_decisions (owner_update (sys_room x)) (GLog_memory [])
      = (Inr g, GLog_memory [gev])" "owner_room (gr_nextState g)"
    using owner_update_applied [OF x(2) owner_decisions_ok] by blast
  let ?g = "governance_run_step (governance_of x) (owner_decisions, owner_update (sys_room x))"
  have "(owner_update (sys_room x))\<lparr>gi_roomState := sys_room x, gi_currentPolicy := private_document\<rparr>
      = owner_update (sys_room x)" by (simp add: owner_update_def)
  then have "?g = \<lparr>gv_room = gr_nextState g, gv_doc = gr_nextRoomPolicy g, gv_log = GLog_memory [gev]\<rparr>"
    using g(1) by (simp add: governance_run_step_def x)
  moreover have "room_system_step x (with_governance x ?g)"
    using room_system_step.govern [of x "owner_update (sys_room x)"] by (simp add: x)
  ultimately have "room_system_step\<^sup>*\<^sup>* (room_system_start (draft_room (js ''room-local-1'')) private_document) (with_governance x ?g)"
    "glog_events (sys_glog (with_governance x ?g)) \<noteq> []"
    "owner_room (sys_room (with_governance x ?g))" "sys_privacy (with_governance x ?g) = owner_decisions"
    using x g(2) by (auto intro: rtranclp.rtrancl_into_rtrancl)
  then show ?thesis by blast
qed

theorem room_system_invariant_witness:
  "\<exists>x :: room_system. glog_events (sys_glog x) \<noteq> [] \<and> rs_policyDocument (sys_room x) = Some (sys_document x)
     \<and> membership_records (sys_room x) = [sample_owner]
     \<and> efold reduceRoomGovernanceEventV1 private_document (glog_events (sys_glog x)) = Inr (sys_document x)"
proof -
  obtain x where x: "room_system_step\<^sup>*\<^sup>* (room_system_start (draft_room (js ''room-local-1'')) private_document) x"
    "glog_events (sys_glog x) \<noteq> []" "owner_room (sys_room x)" using governed_room by blast
  show ?thesis
    using room_system_invariant [OF x(1)] x(2,3) by (intro exI [of _ x]) (simp add: owner_room_def)
qed

theorem prepared_authorization_fresh_witness:
  "\<exists>x y. room_system_step\<^sup>*\<^sup>* x y \<and> sys_privacy y \<noteq> sys_privacy x
     \<and> assertPreparedRoomAuthorizationCurrentV1 (sys_privacy x) (owner_use (sys_room y) 3) = Inr ()
     \<and> sys_document y = sys_document x \<and> sys_glog y = sys_glog x"
proof -
  obtain x where x: "room_system_step\<^sup>*\<^sup>* (room_system_start (draft_room (js ''room-local-1'')) private_document) x"
    "glog_events (sys_glog x) \<noteq> []" "owner_room (sys_room x)" "sys_privacy x = owner_decisions"
    using governed_room by blast
  let ?y = "x\<lparr>sys_privacy := snd (issuePolicyDecision Cap_persistence Allowed Mode_private ''room.query.list''
    (sys_privacy x))\<rparr>"
  have step: "room_system_step\<^sup>*\<^sup>* x ?y" using issue_step by blast
  have ok: "assertPreparedRoomAuthorizationCurrentV1 owner_decisions (owner_use (sys_room x) 3) = Inr ()"
    using owner_accepted [OF x(3) owner_decisions_ok(1)] .
  have apart: "sys_privacy ?y \<noteq> sys_privacy x"
  proof
    assume "sys_privacy ?y = sys_privacy x"
    then have "decisionSeq (sys_privacy ?y) = decisionSeq (sys_privacy x)" by simp
    then show False by (simp add: issuePolicyDecision_def Let_def)
  qed
  have "pri_roomState (owner_prepare (sys_room x)) = sys_room x" "pri_roomPolicy (owner_prepare (sys_room x)) = private_policy"
    "rs_policyRevision (draft_room (js ''room-local-1'')) = None" "doc_revision private_document = FIRST_ROOM_POLICY_REVISION"
    by (simp_all add: owner_prepare_def draft_room_def resolveRoomPolicyDocumentDefaultsV1_def)
  moreover have "rq_prepared (owner_use (sys_room x) 3) = owner_context (sys_room x)"
    "rq_roomState (owner_use (sys_room x) 3) = sys_room ?y"
    "membership_at (membership_records (sys_room ?y)) (pa_membershipId (owner_context (sys_room x)))
      = Some (rq_membership (owner_use (sys_room x) 3))"
    using x(3) by (simp_all add: owner_use_def owner_context_def prepared_context_def Let_def owner_room_def owner_fields)
  ultimately have "sys_document ?y = sys_document x \<and> sys_glog ?y = sys_glog x"
    using prepared_authorization_fresh [OF x(1) _ _ owner_prepared [OF x(3)] _ _ step _ _ _ ok] by blast
  then show ?thesis using step apart ok x(4) by (intro exI [of _ x] exI [of _ ?y]) simp
qed

end
