(* ===== verification/Query_Types.thy ===== *)
theory Query_Types
  imports Object_Commands Room_Events
begin

text \<open>
  Room queries of \<open>packages/rooms/src/query/\<close>: kinds, filters, sorts, cursors and pages
  (\<open>query-types.ts\<close>, \<open>query-requests.ts\<close>), the validation of cursors
  (\<open>query-cursor.ts\<close>) and of whole requests (\<open>query-validation.ts\<close>).
\<close>

section \<open>Kinds, filters, sorts and pages\<close>

datatype query_kind =
    QK_summary | QK_objects_list | QK_object_get | QK_search_plain_text | QK_tasks_list
  | QK_decisions_list | QK_polls_list | QK_file_refs_list | QK_object_counts | QK_unknown

definition ROOM_QUERY_KINDS :: "query_kind list" where
  "ROOM_QUERY_KINDS = [QK_summary, QK_objects_list, QK_object_get, QK_search_plain_text,
     QK_tasks_list, QK_decisions_list, QK_polls_list, QK_file_refs_list, QK_object_counts, QK_unknown]"

fun query_kind_name :: "query_kind \<Rightarrow> string" where
  "query_kind_name QK_summary = ''room.summary''"
| "query_kind_name QK_objects_list = ''room.objects.list''"
| "query_kind_name QK_object_get = ''room.object.get''"
| "query_kind_name QK_search_plain_text = ''room.objects.search_plain_text''"
| "query_kind_name QK_tasks_list = ''room.tasks.list''"
| "query_kind_name QK_decisions_list = ''room.decisions.list''"
| "query_kind_name QK_polls_list = ''room.polls.list''"
| "query_kind_name QK_file_refs_list = ''room.file_refs.list''"
| "query_kind_name QK_object_counts = ''room.object_counts''"
| "query_kind_name QK_unknown = ''unknown''"

definition ROOM_QUERY_VIEW_CLASSES :: "view_class list" where
  "ROOM_QUERY_VIEW_CLASSES = [VC_room_summary_redacted, VC_room_summary, VC_object_summary_redacted,
     VC_object_summary, VC_object_detail_redacted, VC_object_detail_content]"

fun view_class_name :: "view_class \<Rightarrow> string" where
  "view_class_name VC_room_summary_redacted = ''room_summary_redacted''"
| "view_class_name VC_room_summary = ''room_summary''"
| "view_class_name VC_object_summary_redacted = ''object_summary_redacted''"
| "view_class_name VC_object_summary = ''object_summary''"
| "view_class_name VC_object_detail_redacted = ''object_detail_redacted''"
| "view_class_name VC_object_detail_content = ''object_detail_content''"

record object_filter =
  fl_kinds :: "object_kind_v1 list option"
  fl_lifecycles :: "object_lifecycle list option"
  fl_redacted :: "bool option"
  fl_taskStatuses :: "task_status list option"
  fl_decisionStatuses :: "decision_status list option"
  fl_pollStatuses :: "poll_status list option"
  fl_exactTag :: "jstr option"

definition ROOM_OBJECT_FILTER_KEYS :: "string list" where
  "ROOM_OBJECT_FILTER_KEYS = [''kinds'', ''lifecycles'', ''redacted'', ''taskStatuses'',
     ''decisionStatuses'', ''pollStatuses'', ''exactTag'']"

datatype object_sort = SO_object_id_asc | SO_created_local_asc | SO_updated_local_desc | SO_revision_desc

definition ROOM_OBJECT_SORTS :: "object_sort list" where
  "ROOM_OBJECT_SORTS = [SO_object_id_asc, SO_created_local_asc, SO_updated_local_desc, SO_revision_desc]"

fun object_sort_name :: "object_sort \<Rightarrow> string" where
  "object_sort_name SO_object_id_asc = ''object_id_asc''"
| "object_sort_name SO_created_local_asc = ''created_local_asc''"
| "object_sort_name SO_updated_local_desc = ''updated_local_desc''"
| "object_sort_name SO_revision_desc = ''revision_desc''"

definition ROOM_QUERY_DEFAULT_LIMIT :: int where "ROOM_QUERY_DEFAULT_LIMIT = 25"
definition ROOM_QUERY_MAX_LIMIT :: int where "ROOM_QUERY_MAX_LIMIT = 100"
definition ROOM_QUERY_SEARCH_MAX_LIMIT :: int where "ROOM_QUERY_SEARCH_MAX_LIMIT = 50"
definition ROOM_QUERY_SEARCH_MAX_TERM_BYTES :: nat where "ROOM_QUERY_SEARCH_MAX_TERM_BYTES = 256"

record query_cursor =
  cu_roomId :: jstr
  cu_sort :: object_sort
  cu_lastObjectId :: jstr
  cu_lastRevision :: "int option"
  cu_lastCreatedAtLocal :: "jstr option"
  cu_lastUpdatedAtLocal :: "jstr option"

record page_request =
  pg_limit :: int
  pg_cursor :: "query_cursor option"

section \<open>Requests\<close>

text \<open>The five list-shaped queries share their fields and carry their kind.\<close>

datatype query_args =
    QA_summary
  | QA_get jstr
  | QA_search jstr "object_kind_v1 list option" "page_request option"
  | QA_counts "object_filter option"
  | QA_list query_kind "object_filter option" "object_sort option" "page_request option"

record query_request =
  qr_roomId :: jstr
  qr_requestedView :: view_class
  qr_mode :: privacy_mode
  qr_reason :: jstr
  qr_args :: query_args

fun qargs_kind :: "query_args \<Rightarrow> query_kind" where
  "qargs_kind QA_summary = QK_summary"
| "qargs_kind (QA_get i) = QK_object_get"
| "qargs_kind (QA_search t ks p) = QK_search_plain_text"
| "qargs_kind (QA_counts f) = QK_object_counts"
| "qargs_kind (QA_list k f x p) = k"

definition qr_query :: "query_request \<Rightarrow> query_kind" where
  "qr_query r = qargs_kind (qr_args r)"

definition LIST_QUERY_KINDS :: "query_kind list" where
  "LIST_QUERY_KINDS = [QK_objects_list, QK_tasks_list, QK_decisions_list, QK_polls_list, QK_file_refs_list]"

section \<open>Validation of cursors\<close>

definition CURSOR_KEYS :: "string list" where
  "CURSOR_KEYS = [''schemaVersion'', ''roomId'', ''sort'', ''lastObjectId'', ''lastRevision'',
     ''lastCreatedAtLocal'', ''lastUpdatedAtLocal'']"

text \<open>An optional field: absent stays absent, present is checked by \<open>f\<close>.\<close>

definition optional_field :: "(jsval \<Rightarrow> 'a res) \<Rightarrow> jsval \<Rightarrow> 'a option res" where
  "optional_field f v = (if v = JUndef then Inr None else ebind (f v) (\<lambda>x. Inr (Some x)))"

definition cursor_timestamp :: "jsval \<Rightarrow> jstr res" where
  "cursor_timestamp v = need (QueryError QC_cursor_invalid) (case string_value v of
     Some s \<Rightarrow> if starts_with s (js ''local:'') then Some s else None | None \<Rightarrow> None)"

definition validateCursor :: "jsval \<Rightarrow> jstr \<Rightarrow> query_cursor res" where
  "validateCursor input roomId =
     ebind (need (QueryError QC_cursor_invalid) (own_fields input)) (\<lambda>fs.
     ebind (assertNoDangerousKeys fs) (\<lambda>_.
     ebind (throw_if (\<not> only_keys CURSOR_KEYS fs) (QueryError QC_cursor_invalid)) (\<lambda>_.
     ebind (throw_if (jget fs ''schemaVersion'' \<noteq> JNum (NInt 1)) (QueryError QC_cursor_invalid)) (\<lambda>_.
     ebind (throw_if (jget fs ''roomId'' \<noteq> JStr roomId) (QueryError QC_cursor_room_mismatch)) (\<lambda>_.
     ebind (need (QueryError QC_cursor_invalid)
       (enum_value ROOM_OBJECT_SORTS object_sort_name (jget fs ''sort''))) (\<lambda>sort.
     ebind (validateRoomObjectId (jget fs ''lastObjectId'')) (\<lambda>lastObjectId.
     ebind (optional_field (\<lambda>v. need (QueryError QC_cursor_invalid) (safe_integer v))
       (jget fs ''lastRevision'')) (\<lambda>lastRevision.
     ebind (optional_field cursor_timestamp (jget fs ''lastCreatedAtLocal'')) (\<lambda>created.
     ebind (optional_field cursor_timestamp (jget fs ''lastUpdatedAtLocal'')) (\<lambda>updated.
     Inr \<lparr>cu_roomId = roomId, cu_sort = sort, cu_lastObjectId = lastObjectId,
          cu_lastRevision = lastRevision, cu_lastCreatedAtLocal = created,
          cu_lastUpdatedAtLocal = updated\<rparr>))))))))))"

definition assertCursorMatchesQuery :: "query_cursor \<Rightarrow> jstr \<Rightarrow> object_sort \<Rightarrow> unit res" where
  "assertCursorMatchesQuery cursor roomId order =
     ebind (throw_if (cu_roomId cursor \<noteq> roomId) (QueryError QC_cursor_room_mismatch)) (\<lambda>_.
     throw_if (cu_sort cursor \<noteq> order) (QueryError QC_cursor_sort_mismatch))"

section \<open>Validation of requests\<close>

definition LIFECYCLES :: "object_lifecycle list" where
  "LIFECYCLES = [OL_active, OL_archived, OL_redacted, OL_deleted_tombstone]"

fun object_lifecycle_name :: "object_lifecycle \<Rightarrow> string" where
  "object_lifecycle_name OL_active = ''active''"
| "object_lifecycle_name OL_archived = ''archived''"
| "object_lifecycle_name OL_redacted = ''redacted''"
| "object_lifecycle_name OL_deleted_tombstone = ''deleted_tombstone''"

definition QUERY_BASE_KEYS :: "string list" where
  "QUERY_BASE_KEYS = [''schemaVersion'', ''query'', ''roomId'', ''requestedView'', ''mode'', ''reason'']"

definition collect_enum :: "'a list \<Rightarrow> ('a \<Rightarrow> string) \<Rightarrow> 'a list \<Rightarrow> jsval \<Rightarrow> 'a list res" where
  "collect_enum allowed nm out v =
     ebind (need (QueryError QC_unknown_filter) (enum_value allowed nm v)) (\<lambda>x.
     Inr (if x \<in> set out then out else out @ [x]))"

definition requireStringArray :: "'a list \<Rightarrow> ('a \<Rightarrow> string) \<Rightarrow> nat \<Rightarrow> jsval \<Rightarrow> 'a list res" where
  "requireStringArray allowed nm max_length value = (case value of
       JArr vs \<Rightarrow> if length vs > max_length then Inl (QueryError QC_invalid_field)
         else efold (collect_enum allowed nm) [] vs
     | _ \<Rightarrow> Inl (QueryError QC_invalid_field))"

fun boolean_value :: "jsval \<Rightarrow> bool option" where
  "boolean_value (JBool b) = Some b"
| "boolean_value _ = None"

definition tag_value :: "jsval \<Rightarrow> jstr option" where
  "tag_value v = (case string_value v of Some s \<Rightarrow> if TAG_RE s then Some s else None | None \<Rightarrow> None)"

definition validateFilter :: "jsval \<Rightarrow> object_filter res" where
  "validateFilter input =
     ebind (need (QueryError QC_invalid_field) (own_fields input)) (\<lambda>fs.
     ebind (assertNoDangerousKeys fs) (\<lambda>_.
     ebind (assertOnlyKeys fs ROOM_OBJECT_FILTER_KEYS) (\<lambda>_.
     ebind (optional_field (requireStringArray ROOM_OBJECT_KINDS_V1 object_kind_v1_name 6)
       (jget fs ''kinds'')) (\<lambda>kinds.
     ebind (optional_field (requireStringArray LIFECYCLES object_lifecycle_name 4)
       (jget fs ''lifecycles'')) (\<lambda>lifecycles.
     ebind (optional_field (\<lambda>v. need (QueryError QC_invalid_field) (boolean_value v))
       (jget fs ''redacted'')) (\<lambda>redacted.
     ebind (optional_field (requireStringArray ROOM_TASK_STATUSES task_status_name 4)
       (jget fs ''taskStatuses'')) (\<lambda>tasks.
     ebind (optional_field (requireStringArray ROOM_DECISION_STATUSES decision_status_name 4)
       (jget fs ''decisionStatuses'')) (\<lambda>decisions.
     ebind (optional_field (requireStringArray ROOM_POLL_STATUSES poll_status_name 3)
       (jget fs ''pollStatuses'')) (\<lambda>polls.
     ebind (optional_field (\<lambda>v. need (QueryError QC_invalid_field) (tag_value v))
       (jget fs ''exactTag'')) (\<lambda>tag.
     Inr \<lparr>fl_kinds = kinds, fl_lifecycles = lifecycles, fl_redacted = redacted,
          fl_taskStatuses = tasks, fl_decisionStatuses = decisions, fl_pollStatuses = polls,
          fl_exactTag = tag\<rparr>))))))))))"

definition validateSort :: "jsval \<Rightarrow> object_sort res" where
  "validateSort input = need (QueryError QC_unknown_sort) (enum_value ROOM_OBJECT_SORTS object_sort_name input)"

definition validatePage :: "jstr \<Rightarrow> jsval \<Rightarrow> page_request res" where
  "validatePage roomId input =
     ebind (need (QueryError QC_invalid_field) (own_fields input)) (\<lambda>fs.
     ebind (assertNoDangerousKeys fs) (\<lambda>_.
     ebind (assertOnlyKeys fs [''limit'', ''cursor'']) (\<lambda>_.
     ebind (need (QueryError QC_invalid_field) (safe_integer (jget fs ''limit''))) (\<lambda>limit.
     ebind (optional_field (\<lambda>v. validateCursor v roomId) (jget fs ''cursor'')) (\<lambda>cursor.
     Inr \<lparr>pg_limit = limit, pg_cursor = cursor\<rparr>)))))"

definition validateView :: "jsval \<Rightarrow> view_class res" where
  "validateView input = need (QueryError QC_unknown_view)
     (enum_value ROOM_QUERY_VIEW_CLASSES view_class_name input)"

definition query_args_of :: "query_kind \<Rightarrow> jstr \<Rightarrow> (jstr \<times> jsval) list \<Rightarrow> query_args res" where
  "query_args_of q roomId fs = (case q of
       QK_summary \<Rightarrow> ebind (assertOnlyKeys fs QUERY_BASE_KEYS) (\<lambda>_. Inr QA_summary)
     | QK_object_get \<Rightarrow>
         ebind (assertOnlyKeys fs (QUERY_BASE_KEYS @ [''objectId''])) (\<lambda>_.
         ebind (validateRoomObjectId (jget fs ''objectId'')) (\<lambda>i. Inr (QA_get i)))
     | QK_search_plain_text \<Rightarrow>
         ebind (assertOnlyKeys fs (QUERY_BASE_KEYS @ [''term'', ''kinds'', ''page''])) (\<lambda>_.
         ebind (need (QueryError QC_invalid_field) (string_value (jget fs ''term''))) (\<lambda>term.
         ebind (throw_if (term = []) (QueryError QC_empty_term)) (\<lambda>_.
         ebind (throw_if (utf8ByteLength term > ROOM_QUERY_SEARCH_MAX_TERM_BYTES)
           (QueryError QC_term_too_large)) (\<lambda>_.
         ebind (optional_field (requireStringArray ROOM_OBJECT_KINDS_V1 object_kind_v1_name 6)
           (jget fs ''kinds'')) (\<lambda>kinds.
         ebind (optional_field (validatePage roomId) (jget fs ''page'')) (\<lambda>page.
         Inr (QA_search term kinds page)))))))
     | QK_object_counts \<Rightarrow>
         ebind (assertOnlyKeys fs (QUERY_BASE_KEYS @ [''filter''])) (\<lambda>_.
         ebind (optional_field validateFilter (jget fs ''filter'')) (\<lambda>f. Inr (QA_counts f)))
     | QK_unknown \<Rightarrow> Inl (QueryError QC_unknown_query)
     | _ \<Rightarrow>
         ebind (assertOnlyKeys fs (QUERY_BASE_KEYS @ [''filter'', ''sort'', ''page''])) (\<lambda>_.
         ebind (optional_field validateFilter (jget fs ''filter'')) (\<lambda>f.
         ebind (optional_field validateSort (jget fs ''sort'')) (\<lambda>x.
         ebind (optional_field (validatePage roomId) (jget fs ''page'')) (\<lambda>p.
         Inr (QA_list q f x p))))))"

definition validateRoomQueryRequestV1 :: "jsval \<Rightarrow> query_request res" where
  "validateRoomQueryRequestV1 input =
     ebind (need (QueryError QC_invalid_field) (own_fields input)) (\<lambda>fs.
     ebind (assertNoDangerousKeys fs) (\<lambda>_.
     ebind (throw_if (jget fs ''schemaVersion'' \<noteq> JNum (NInt 1))
       (QueryError QC_unsupported_schema_version)) (\<lambda>_.
     ebind (need (QueryError QC_unknown_query)
       (enum_value ROOM_QUERY_KINDS query_kind_name (jget fs ''query''))) (\<lambda>q.
     ebind (throw_if (q = QK_unknown) (QueryError QC_unknown_query)) (\<lambda>_.
     ebind (need (QueryError QC_invalid_room_id) (string_value (jget fs ''roomId''))) (\<lambda>roomId.
     ebind (validateView (jget fs ''requestedView'')) (\<lambda>view.
     ebind (need (QueryError QC_invalid_field) (string_value (jget fs ''mode''))) (\<lambda>mode.
     ebind (need (QueryError QC_invalid_field) (string_value (jget fs ''reason''))) (\<lambda>reason.
     ebind (throw_if (\<not> slug_re 64 reason) (QueryError QC_invalid_field)) (\<lambda>_.
     ebind (query_args_of q roomId fs) (\<lambda>args.
     Inr \<lparr>qr_roomId = roomId, qr_requestedView = view, qr_mode = mode_of_js mode,
          qr_reason = reason, qr_args = args\<rparr>)))))))))))"

lemma validated_args_kind: "query_args_of q roomId fs = Inr args \<Longrightarrow> qargs_kind args = q"
  by (cases q) (auto simp: query_args_of_def)

lemma validated_list_kind:
  "query_args_of q roomId fs = Inr (QA_list k f x p) \<Longrightarrow> k \<in> set LIST_QUERY_KINDS"
  by (cases q) (auto simp: query_args_of_def LIST_QUERY_KINDS_def)

end
