(* ===== verification/Query_Engine.thy ===== *)
theory Query_Engine
  imports Query_Types Matrix_Rows Object_Pipeline FL_Sorting
begin

text \<open>
  The query executor of \<open>packages/rooms/src/query/\<close>: policy and authorization
  (\<open>query-policy.ts\<close>), the snapshot (\<open>query-snapshot.ts\<close>), the views and their
  redaction (\<open>query-views.ts\<close>, \<open>query-redaction.ts\<close>), plain-text search
  (\<open>query-search.ts\<close>) and filter, sort, pagination and dispatch
  (\<open>query-executor.ts\<close>).  Policy fields whose type is a literal are not modelled.
\<close>

section \<open>Policy\<close>

fun roomQueryScope :: "query_kind \<Rightarrow> side_effect_scope" where
  "roomQueryScope QK_summary = ''room.query.summary''"
| "roomQueryScope QK_object_get = ''room.query.detail''"
| "roomQueryScope QK_search_plain_text = ''room.query.search''"
| "roomQueryScope QK_object_counts = ''room.query.count''"
| "roomQueryScope _ = ''room.query.list''"

record query_policy =
  qp_mode :: privacy_mode
  qp_query :: query_kind
  qp_requestedView :: view_class
  qp_allowed :: bool
  qp_effectiveView :: view_class
  qp_maxResults :: nat
  qp_contentAllowed :: bool
  qp_actorRefsAllowed :: bool
  qp_timestampsAllowed :: bool
  qp_revisionsAllowed :: bool
  qp_countsAllowed :: bool
  qp_tagsAllowed :: bool
  qp_relationshipMetadataAllowed :: bool
  qp_searchAllowed :: bool
  qp_aiAllowed :: bool
  qp_reasonCode :: string

definition effectiveViewFor :: "view_class \<Rightarrow> bool \<Rightarrow> bool \<Rightarrow> view_class" where
  "effectiveViewFor requested contentAllowed detailAllowed =
     (if requested = VC_object_detail_content then
        (if contentAllowed then VC_object_detail_content else VC_object_detail_redacted)
      else if requested = VC_object_detail_redacted then VC_object_detail_redacted
      else if requested = VC_object_summary then
        (if detailAllowed then VC_object_summary else VC_object_summary_redacted)
      else if requested = VC_object_summary_redacted then VC_object_summary_redacted
      else if requested = VC_room_summary then
        (if detailAllowed then VC_room_summary else VC_room_summary_redacted)
      else VC_room_summary_redacted)"

text \<open>The merged record of \<open>base\<close> before its view is derived.\<close>

definition query_policy_base :: "privacy_mode \<Rightarrow> query_kind \<Rightarrow> view_class \<Rightarrow> query_policy" where
  "query_policy_base mode query view = \<lparr>qp_mode = mode, qp_query = query, qp_requestedView = view,
     qp_allowed = True, qp_effectiveView = VC_object_summary_redacted,
     qp_maxResults = nat ROOM_QUERY_MAX_LIMIT, qp_contentAllowed = False, qp_actorRefsAllowed = True,
     qp_timestampsAllowed = True, qp_revisionsAllowed = True, qp_countsAllowed = False,
     qp_tagsAllowed = True, qp_relationshipMetadataAllowed = True, qp_searchAllowed = False,
     qp_aiAllowed = False, qp_reasonCode = ''default_deny''\<rparr>"

definition derive_view :: "query_policy \<Rightarrow> query_policy" where
  "derive_view p = p\<lparr>qp_effectiveView :=
     effectiveViewFor (qp_requestedView p) (qp_contentAllowed p) (qp_actorRefsAllowed p)\<rparr>"

text \<open>Everything a relationship reveals, hidden: shared by the strict branches.\<close>

definition hide_metadata :: "query_policy \<Rightarrow> query_policy" where
  "hide_metadata p = p\<lparr>qp_contentAllowed := False, qp_actorRefsAllowed := False,
     qp_timestampsAllowed := False, qp_revisionsAllowed := False, qp_countsAllowed := False,
     qp_tagsAllowed := False, qp_relationshipMetadataAllowed := False\<rparr>"

record query_policy_input =
  qi_mode :: privacy_mode
  qi_query :: query_kind
  qi_requestedView :: view_class
  qi_roomPolicy :: room_policy
  qi_objectSensitivity :: "object_sensitivity option"
  qi_deviceRiskLevel :: "risk_level option"

definition resolveRoomQueryPolicy :: "query_policy_input \<Rightarrow> query_policy" where
  "resolveRoomQueryPolicy inp =
     (let mode = qi_mode inp; query = qi_query inp;
          base = query_policy_base mode query (qi_requestedView inp);
          hidden = hide_metadata base;
          deny = (\<lambda>reasonCode. derive_view (hidden\<lparr>qp_allowed := False, qp_searchAllowed := False,
            qp_maxResults := 0, qp_reasonCode := reasonCode\<rparr>));
          isSearch = (query = QK_search_plain_text);
          quiet = base\<lparr>qp_contentAllowed := (query = QK_object_get), qp_actorRefsAllowed := False,
            qp_timestampsAllowed := False, qp_relationshipMetadataAllowed := False,
            qp_searchAllowed := isSearch\<rparr>;
          open_view = base\<lparr>qp_contentAllowed := (query = QK_object_get), qp_countsAllowed := True,
            qp_searchAllowed := isSearch\<rparr>
      in case mode of
           Mode_emergency \<Rightarrow>
             if query = QK_summary
             then derive_view (hidden\<lparr>qp_maxResults := 0, qp_reasonCode := ''emergency_mode''\<rparr>)
             else deny ''emergency_mode''
         | Mode_bunker \<Rightarrow>
             if isSearch \<or> query = QK_object_counts then deny ''strict_mode''
             else derive_view (hidden\<lparr>qp_maxResults := 10, qp_reasonCode := ''strict_mode''\<rparr>)
         | Mode_ghost \<Rightarrow> derive_view (quiet\<lparr>qp_maxResults := 15, qp_reasonCode := ''strict_mode''\<rparr>)
         | Mode_private \<Rightarrow> derive_view quiet
         | Mode_offline_capsule \<Rightarrow> derive_view (open_view\<lparr>qp_reasonCode := ''offline_capsule_mode''\<rparr>)
         | Mode_standard \<Rightarrow> derive_view (open_view\<lparr>qp_maxResults :=
             (if isSearch then nat ROOM_QUERY_SEARCH_MAX_LIMIT else nat ROOM_QUERY_MAX_LIMIT)\<rparr>)
         | Mode_sovereign_room \<Rightarrow> derive_view (open_view\<lparr>qp_maxResults :=
             (if isSearch then nat ROOM_QUERY_SEARCH_MAX_LIMIT else nat ROOM_QUERY_MAX_LIMIT)\<rparr>)
         | Mode_other s \<Rightarrow> deny ''unknown_input'')"

definition assertRoomQueryAllowed ::
  "privacy_state \<Rightarrow> dref \<Rightarrow> query_request \<times> query_policy \<Rightarrow> unit res" where
  "assertRoomQueryAllowed s decision q =
     (let request = fst q; policy = snd q
      in ebind (need (QueryError QC_decision_mismatch) (authentic s decision)) (\<lambda>d.
         ebind (throw_if (pd_verdict d \<noteq> Allowed) (QueryError QC_policy_denied)) (\<lambda>_.
         ebind (throw_if (pd_capability d \<noteq> ROOM_CAPABILITY) (QueryError QC_decision_mismatch)) (\<lambda>_.
         ebind (throw_if (pd_sideEffect d \<noteq> roomQueryScope (qr_query request))
           (QueryError QC_decision_mismatch)) (\<lambda>_.
         ebind (throw_if (qp_query policy \<noteq> qr_query request
             \<or> qp_requestedView policy \<noteq> qr_requestedView request)
           (QueryError QC_decision_mismatch)) (\<lambda>_.
         ebind (throw_if (\<not> qp_allowed policy) (QueryError QC_policy_denied)) (\<lambda>_.
         ebind (throw_if (qr_query request = QK_search_plain_text \<and> \<not> qp_searchAllowed policy)
           (QueryError QC_policy_denied)) (\<lambda>_.
         ebind (throw_if (qr_query request = QK_object_counts \<and> \<not> qp_countsAllowed policy)
           (QueryError QC_policy_denied)) (\<lambda>_.
         throw_if (qr_requestedView request = VC_object_detail_content
             \<and> qp_effectiveView policy \<noteq> VC_object_detail_content \<and> \<not> qp_contentAllowed policy)
           (QueryError QC_policy_denied))))))))))"

lemma assertRoomQueryAllowed_Inr:
  "assertRoomQueryAllowed s r (request, policy) = Inr u \<longleftrightarrow>
     (\<exists>d. authentic s r = Some d \<and> pd_verdict d = Allowed \<and> pd_capability d = Cap_persistence
        \<and> pd_sideEffect d = roomQueryScope (qr_query request))
   \<and> qp_query policy = qr_query request \<and> qp_requestedView policy = qr_requestedView request
   \<and> qp_allowed policy
   \<and> (qr_query request = QK_search_plain_text \<longrightarrow> qp_searchAllowed policy)
   \<and> (qr_query request = QK_object_counts \<longrightarrow> qp_countsAllowed policy)
   \<and> (qr_requestedView request = VC_object_detail_content \<longrightarrow>
        qp_effectiveView policy = VC_object_detail_content \<or> qp_contentAllowed policy)"
  unfolding assertRoomQueryAllowed_def Let_def ebind_eq_Inr throw_if_eq_Inr need_eq_Inr ROOM_CAPABILITY_def
  by auto

interpretation query_gate: decision_gate assertRoomQueryAllowed "\<lambda>q. roomQueryScope (qr_query (fst q))"
  by unfold_locales (auto simp: assertRoomQueryAllowed_Inr)

section \<open>Snapshot\<close>

record query_snapshot =
  qs_roomId :: jstr
  qs_roomKind :: room_kind
  qs_lifecycle :: room_lifecycle
  qs_mode :: privacy_mode
  qs_title :: "jstr option"
  qs_objects :: "room_object list"

definition createRoomQuerySnapshotV1 :: "room_state \<Rightarrow> object_projection \<Rightarrow> query_snapshot res" where
  "createRoomQuerySnapshotV1 roomState projection =
     ebind (throw_if (rs_roomId roomState \<noteq> op_roomId projection) (QueryError QC_room_mismatch)) (\<lambda>_.
     let strict = (rs_mode roomState = Mode_bunker \<or> rs_mode roomState = Mode_emergency)
     in Inr \<lparr>qs_roomId = rs_roomId roomState, qs_roomKind = rs_kind roomState,
          qs_lifecycle = rs_lifecycle roomState, qs_mode = rs_mode roomState,
          qs_title = (if strict then None else rs_title roomState),
          qs_objects = op_objects projection\<rparr>)"

section \<open>Views\<close>

record room_summary_view =
  rv_viewRoomId :: "jstr option"
  rv_kind :: room_kind
  rv_lifecycle :: room_lifecycle
  rv_mode :: privacy_mode
  rv_title :: "jstr option"
  rv_redacted :: bool
  rv_objectCount :: "nat option"

record object_summary_view =
  sv_objectId :: "jstr option"
  sv_kind :: object_kind_v1
  sv_lifecycle :: object_lifecycle
  sv_revision :: "int option"
  sv_sensitivity :: "object_sensitivity option"
  sv_redacted :: bool
  sv_contentPresent :: "bool option"
  sv_createdAtLocal :: "jstr option"
  sv_updatedAtLocal :: "jstr option"

record object_detail_view =
  dv_object :: room_object
  dv_redacted :: bool
  dv_redactionReason :: "string option"

record page_info =
  pi_returnedCount :: nat
  pi_limit :: nat
  pi_hasMore :: bool
  pi_nextCursor :: "query_cursor option"

text \<open>\<open>QR_items\<close> is the shape of all list queries and of search, tagged with the kind.\<close>

datatype query_result =
    QR_summary room_summary_view
  | QR_detail object_detail_view
  | QR_items query_kind "object_summary_view list" page_info
  | QR_counts "nat option"

section \<open>Redaction\<close>

definition isRedactedView :: "query_policy \<Rightarrow> bool" where
  "isRedactedView policy \<longleftrightarrow> qp_effectiveView policy = VC_room_summary_redacted
     \<or> qp_effectiveView policy = VC_object_summary_redacted
     \<or> qp_effectiveView policy = VC_object_detail_redacted"

definition redactRoomSummaryForQuery :: "query_snapshot \<Rightarrow> query_policy \<Rightarrow> nat \<Rightarrow> room_summary_view" where
  "redactRoomSummaryForQuery snapshot policy objectCount =
     (let redacted = (qp_effectiveView policy = VC_room_summary_redacted)
      in \<lparr>rv_viewRoomId = (if redacted then None else Some (qs_roomId snapshot)),
          rv_kind = qs_roomKind snapshot, rv_lifecycle = qs_lifecycle snapshot, rv_mode = qs_mode snapshot,
          rv_title = (if redacted then None else qs_title snapshot), rv_redacted = redacted,
          rv_objectCount = (if qp_countsAllowed policy then Some objectCount else None)\<rparr>)"

definition redactRoomObjectSummaryForQuery :: "query_policy \<Rightarrow> room_object \<Rightarrow> object_summary_view" where
  "redactRoomObjectSummaryForQuery policy ob =
     (if isRedactedView policy then
        \<lparr>sv_objectId = None, sv_kind = ro_kind ob, sv_lifecycle = ro_lifecycle ob, sv_revision = None,
         sv_sensitivity = None, sv_redacted = True, sv_contentPresent = None,
         sv_createdAtLocal = None, sv_updatedAtLocal = None\<rparr>
      else
        \<lparr>sv_objectId = Some (ro_objectId ob), sv_kind = ro_kind ob, sv_lifecycle = ro_lifecycle ob,
         sv_revision = (if qp_revisionsAllowed policy then Some (ro_revision ob) else None),
         sv_sensitivity = Some (ro_sensitivity ob), sv_redacted = ro_redacted ob,
         sv_contentPresent = (if qp_revisionsAllowed policy then Some (ro_content ob \<noteq> None) else None),
         sv_createdAtLocal = (if qp_timestampsAllowed policy then Some (ro_createdAtLocal ob) else None),
         sv_updatedAtLocal = (if qp_timestampsAllowed policy then Some (ro_updatedAtLocal ob) else None)\<rparr>)"

definition REDACTED_TS :: jstr where "REDACTED_TS = js ''local:redacted''"
definition LOCAL_UNKNOWN :: jstr where "LOCAL_UNKNOWN = js ''local_unknown''"

definition sanitize_content :: "query_policy \<Rightarrow> object_content \<Rightarrow> object_content" where
  "sanitize_content policy c =
     (let c1 = (if \<not> qp_tagsAllowed policy then c\<lparr>oc_tags := map_option (\<lambda>_. []) (oc_tags c)\<rparr> else c)
      in if qp_relationshipMetadataAllowed policy then c1
         else let c2 = c1\<lparr>oc_assigneeRefs := map_option (\<lambda>_. []) (oc_assigneeRefs c1)\<rparr>
              in if qp_timestampsAllowed policy then c2
                 else c2\<lparr>oc_dueAtLocal := map_option (\<lambda>_. REDACTED_TS) (oc_dueAtLocal c2)\<rparr>)"

definition sanitizeObjectForDetail :: "room_object \<Rightarrow> query_policy \<Rightarrow> room_object" where
  "sanitizeObjectForDetail ob policy =
     (let o1 = (if qp_actorRefsAllowed policy then ob
            else ob\<lparr>ro_createdBy := LOCAL_UNKNOWN, ro_updatedBy := LOCAL_UNKNOWN\<rparr>);
          o2 = (if qp_timestampsAllowed policy then o1
            else o1\<lparr>ro_createdAtLocal := REDACTED_TS, ro_updatedAtLocal := REDACTED_TS\<rparr>)
      in o2\<lparr>ro_content := map_option (sanitize_content policy) (ro_content o2)\<rparr>)"

definition createRoomObjectDetailView :: "room_object \<Rightarrow> query_policy \<Rightarrow> object_detail_view" where
  "createRoomObjectDetailView ob policy =
     (if ro_lifecycle ob = OL_deleted_tombstone then
        \<lparr>dv_object = sanitizeObjectForDetail ob policy, dv_redacted = True,
         dv_redactionReason = Some ''object_tombstoned''\<rparr>
      else if ro_redacted ob \<or> ro_content ob = None then
        \<lparr>dv_object = sanitizeObjectForDetail ob policy, dv_redacted = True,
         dv_redactionReason = Some ''object_redacted''\<rparr>
      else if \<not> qp_contentAllowed policy \<or> qp_effectiveView policy \<noteq> VC_object_detail_content then
        \<lparr>dv_object = sanitizeObjectForDetail (ob\<lparr>ro_content := None\<rparr>) policy, dv_redacted = True,
         dv_redactionReason = Some ''policy_redacted''\<rparr>
      else \<lparr>dv_object = sanitizeObjectForDetail ob policy, dv_redacted = False,
            dv_redactionReason = None\<rparr>)"

section \<open>Search\<close>

definition optional_text :: "jstr option \<Rightarrow> jstr list" where
  "optional_text t = (case t of None \<Rightarrow> [] | Some s \<Rightarrow> [s])"

text \<open>A poll without options makes the loop over them throw.\<close>

definition searchableText :: "query_policy \<Rightarrow> room_object \<Rightarrow> jstr list res" where
  "searchableText policy ob =
     (if ro_redacted ob \<or> ro_lifecycle ob = OL_deleted_tombstone then Inr []
      else case ro_content ob of None \<Rightarrow> Inr []
        | Some c \<Rightarrow> (case ro_kind ob of
            OV_message \<Rightarrow> Inr (optional_text (oc_body c))
          | OV_note \<Rightarrow> Inr (optional_text (oc_title c) @ optional_text (oc_body c))
          | OV_task \<Rightarrow> Inr (optional_text (oc_title c) @ optional_text (oc_description c))
          | OV_decision \<Rightarrow> Inr (optional_text (oc_statement c) @ optional_text (oc_rationale c))
          | OV_poll \<Rightarrow> ebind (need JsTypeError (oc_options c)) (\<lambda>options.
              Inr (optional_text (oc_question c) @ map snd options))
          | OV_file_ref \<Rightarrow> Inr (if qp_relationshipMetadataAllowed policy
              then optional_text (oc_displayName c) else [])))"

definition search_step ::
  "jstr \<Rightarrow> query_policy \<Rightarrow> object_kind_v1 list option \<Rightarrow> room_object list \<Rightarrow> room_object
     \<Rightarrow> room_object list res" where
  "search_step term policy kinds hits ob =
     (if (case kinds of Some ks \<Rightarrow> ks \<noteq> [] \<and> ro_kind ob \<notin> set ks | None \<Rightarrow> False) then Inr hits
      else ebind (searchableText policy ob) (\<lambda>texts.
        Inr (if list_ex (\<lambda>t. includes_js t term) texts then hits @ [ob] else hits)))"

definition searchRoomObjectsExact ::
  "room_object list \<Rightarrow> jstr \<Rightarrow> query_policy \<Rightarrow> object_kind_v1 list option \<Rightarrow> room_object list res" where
  "searchRoomObjectsExact objects term policy allowedKinds =
     efold (search_step term policy allowedKinds) [] objects"

section \<open>Filter and sort\<close>

definition status_matches :: "(object_status option \<Rightarrow> bool) \<Rightarrow> object_kind_v1 \<Rightarrow> room_object \<Rightarrow> bool" where
  "status_matches p kind ob \<longleftrightarrow> ro_kind ob = kind
     \<and> (case ro_content ob of None \<Rightarrow> False | Some c \<Rightarrow> p (oc_status c))"

definition listed_status :: "('a \<Rightarrow> object_status) \<Rightarrow> 'a list \<Rightarrow> object_status option \<Rightarrow> bool" where
  "listed_status mk xs st \<longleftrightarrow> (case st of None \<Rightarrow> False | Some x \<Rightarrow> x \<in> set (map mk xs))"

definition object_tags :: "room_object \<Rightarrow> jstr list" where
  "object_tags ob = (case ro_content ob of None \<Rightarrow> []
     | Some c \<Rightarrow> (case oc_tags c of None \<Rightarrow> [] | Some ts \<Rightarrow> ts))"

definition option_allows :: "('a \<Rightarrow> bool) \<Rightarrow> 'a option \<Rightarrow> bool" where
  "option_allows p x \<longleftrightarrow> (case x of None \<Rightarrow> True | Some y \<Rightarrow> p y)"

definition matchesFilter :: "object_filter option \<Rightarrow> room_object \<Rightarrow> bool" where
  "matchesFilter fltr ob = option_allows (\<lambda>f.
       option_allows (\<lambda>ks. ro_kind ob \<in> set ks) (fl_kinds f)
     \<and> option_allows (\<lambda>ls. ro_lifecycle ob \<in> set ls) (fl_lifecycles f)
     \<and> option_allows (\<lambda>b. ro_redacted ob = b) (fl_redacted f)
     \<and> option_allows (\<lambda>xs. status_matches (listed_status ST_task xs) OV_task ob) (fl_taskStatuses f)
     \<and> option_allows (\<lambda>xs. status_matches (listed_status ST_decision xs) OV_decision ob) (fl_decisionStatuses f)
     \<and> option_allows (\<lambda>xs. status_matches (listed_status ST_poll xs) OV_poll ob) (fl_pollStatuses f)
     \<and> option_allows (\<lambda>t. t \<in> set (object_tags ob)) (fl_exactTag f)) fltr"

text \<open>\<open>comparator(sort)(a, b) < 0\<close>.\<close>

fun object_before :: "object_sort \<Rightarrow> room_object \<Rightarrow> room_object \<Rightarrow> bool" where
  "object_before SO_object_id_asc a b = jstr_less (ro_objectId a) (ro_objectId b)"
| "object_before SO_created_local_asc a b = (jstr_less (ro_createdAtLocal a) (ro_createdAtLocal b)
     \<or> ro_createdAtLocal a = ro_createdAtLocal b \<and> jstr_less (ro_objectId a) (ro_objectId b))"
| "object_before SO_updated_local_desc a b = (jstr_less (ro_updatedAtLocal b) (ro_updatedAtLocal a)
     \<or> ro_updatedAtLocal a = ro_updatedAtLocal b \<and> jstr_less (ro_objectId a) (ro_objectId b))"
| "object_before SO_revision_desc a b = (ro_revision b < ro_revision a
     \<or> ro_revision a = ro_revision b \<and> jstr_less (ro_objectId a) (ro_objectId b))"

definition sortedCopy :: "object_sort \<Rightarrow> room_object list \<Rightarrow> room_object list" where
  "sortedCopy order items = sort_by (object_before order) items"

lemma jstr_less_irrefl [simp]: "\<not> jstr_less a a"
  using jstr_less_asym by blast

lemma object_before_asym: "object_before s a b \<Longrightarrow> \<not> object_before s b a"
  by (cases s) (auto dest: jstr_less_asym)

lemma jstr_less_trans: "jstr_less a b \<Longrightarrow> jstr_less b c \<Longrightarrow> jstr_less a c"
  using jstr_less_between [of b c a] jstr_less_asym by blast

lemma object_before_between: "object_before s a c \<Longrightarrow> object_before s a b \<or> object_before s b c"
proof (cases s)
  case SO_created_local_asc
  then show "object_before s a c \<Longrightarrow> ?thesis"
    by (auto dest: jstr_less_between) (metis jstr_less_between jstr_less_total)+
next
  case SO_updated_local_desc
  then show "object_before s a c \<Longrightarrow> ?thesis"
    by (auto dest: jstr_less_between) (metis jstr_less_between jstr_less_total)+
qed (auto dest: jstr_less_between)

interpretation object_order: strict_weak "object_before s" for s
  by unfold_locales (blast dest: object_before_asym, blast dest: object_before_between)

section \<open>Pages\<close>

definition resolveLimit :: "page_request option \<Rightarrow> int \<Rightarrow> nat \<Rightarrow> nat res" where
  "resolveLimit page hardMax policyMax =
     (let ceiling = min hardMax (int policyMax)
      in case page of
           None \<Rightarrow> Inr (nat (min ROOM_QUERY_DEFAULT_LIMIT ceiling))
         | Some p \<Rightarrow>
             ebind (throw_if (pg_limit p < 1) (QueryError QC_limit_too_small)) (\<lambda>_.
             ebind (throw_if (pg_limit p > ceiling) (QueryError QC_limit_too_large)) (\<lambda>_.
             Inr (nat (pg_limit p)))))"

primrec index_where :: "('a \<Rightarrow> bool) \<Rightarrow> 'a list \<Rightarrow> nat option" where
  "index_where p [] = None"
| "index_where p (x # xs) = (if p x then Some 0 else map_option Suc (index_where p xs))"

definition cursor_of :: "object_sort \<Rightarrow> room_object \<Rightarrow> query_cursor" where
  "cursor_of order ob = \<lparr>cu_roomId = ro_roomId ob, cu_sort = order, cu_lastObjectId = ro_objectId ob,
     cu_lastRevision = Some (ro_revision ob), cu_lastCreatedAtLocal = Some (ro_createdAtLocal ob),
     cu_lastUpdatedAtLocal = Some (ro_updatedAtLocal ob)\<rparr>"

definition page_start :: "room_object list \<Rightarrow> jstr \<Rightarrow> object_sort \<Rightarrow> query_cursor option \<Rightarrow> nat res" where
  "page_start items roomId order cursor = (case cursor of None \<Rightarrow> Inr 0
     | Some c \<Rightarrow> ebind (assertCursorMatchesQuery c roomId order) (\<lambda>_.
         Inr (case index_where (\<lambda>ob. ro_objectId ob = cu_lastObjectId c) items of
                Some i \<Rightarrow> i + 1 | None \<Rightarrow> length items)))"

definition paginate ::
  "room_object list \<Rightarrow> jstr \<Rightarrow> object_sort \<Rightarrow> query_cursor option \<Rightarrow> nat
     \<Rightarrow> (room_object list \<times> page_info) res" where
  "paginate items roomId order cursor limit =
     ebind (page_start items roomId order cursor) (\<lambda>start.
     let window = take limit (drop start items); hasMore = (start + limit < length items)
     in Inr (window, \<lparr>pi_returnedCount = length window, pi_limit = limit, pi_hasMore = hasMore,
          pi_nextCursor = (if hasMore \<and> window \<noteq> [] then Some (cursor_of order (last window)) else None)\<rparr>))"

definition request_cursor :: "page_request option \<Rightarrow> query_cursor option" where
  "request_cursor page = (case page of None \<Rightarrow> None | Some p \<Rightarrow> pg_cursor p)"

section \<open>Execution\<close>

definition assertMatrixLocal_query :: "privacy_mode \<Rightarrow> side_effect_scope \<Rightarrow> unit res" where
  "assertMatrixLocal_query mode scope =
     throw_if (md_effect (evaluatePolicyMatrix (room_matrix_input mode scope)) \<noteq> PE_memory_only)
       (QueryError QC_object_not_available)"

fun KIND_FOR_LIST :: "query_kind \<Rightarrow> object_kind_v1 option" where
  "KIND_FOR_LIST QK_tasks_list = Some OV_task"
| "KIND_FOR_LIST QK_decisions_list = Some OV_decision"
| "KIND_FOR_LIST QK_polls_list = Some OV_poll"
| "KIND_FOR_LIST QK_file_refs_list = Some OV_file_ref"
| "KIND_FOR_LIST _ = None"

definition effective_sort :: "query_policy \<Rightarrow> object_sort option \<Rightarrow> object_sort" where
  "effective_sort policy given =
     (let order = (case given of None \<Rightarrow> SO_object_id_asc | Some x \<Rightarrow> x)
      in if \<not> qp_timestampsAllowed policy \<and> (order = SO_created_local_asc \<or> order = SO_updated_local_desc)
         then SO_object_id_asc else order)"

definition listed_objects ::
  "room_object list \<Rightarrow> query_kind \<Rightarrow> object_filter option \<Rightarrow> object_sort \<Rightarrow> room_object list" where
  "listed_objects objects query fltr order =
     sortedCopy order (filter (\<lambda>ob. option_allows (\<lambda>k. ro_kind ob = k) (KIND_FOR_LIST query)
       \<and> matchesFilter fltr ob) objects)"

definition items_page ::
  "query_policy \<Rightarrow> query_kind \<Rightarrow> room_object list \<Rightarrow> jstr \<Rightarrow> object_sort \<Rightarrow> page_request option \<Rightarrow> nat
     \<Rightarrow> query_result res" where
  "items_page policy query items roomId order page limit =
     ebind (paginate items roomId order (request_cursor page) limit) (\<lambda>(window, info).
     Inr (QR_items query (map (redactRoomObjectSummaryForQuery policy) window) info))"

definition run_query :: "query_snapshot \<Rightarrow> query_request \<Rightarrow> query_policy \<Rightarrow> query_result res" where
  "run_query snapshot request policy =
     (let objects = qs_objects snapshot
      in case qr_args request of
           QA_summary \<Rightarrow>
             Inr (QR_summary (redactRoomSummaryForQuery snapshot policy (length objects)))
         | QA_get objectId \<Rightarrow>
             ebind (need (QueryError QC_object_not_available)
               (find (\<lambda>ob. ro_objectId ob = objectId) objects)) (\<lambda>found.
             ebind (throw_if (ro_roomId found \<noteq> qs_roomId snapshot)
               (QueryError QC_object_not_available)) (\<lambda>_.
             Inr (QR_detail (createRoomObjectDetailView found policy))))
         | QA_counts fltr \<Rightarrow>
             Inr (QR_counts (if qp_countsAllowed policy
               then Some (length (filter (matchesFilter fltr) objects)) else None))
         | QA_search term kinds page \<Rightarrow>
             ebind (resolveLimit page ROOM_QUERY_SEARCH_MAX_LIMIT (qp_maxResults policy)) (\<lambda>limit.
             ebind (searchRoomObjectsExact (sortedCopy SO_object_id_asc objects) term policy kinds) (\<lambda>hits.
             items_page policy QK_search_plain_text hits (qs_roomId snapshot) SO_object_id_asc page limit))
         | QA_list query fltr order page \<Rightarrow>
             ebind (resolveLimit page ROOM_QUERY_MAX_LIMIT (qp_maxResults policy)) (\<lambda>limit.
             items_page policy query
               (listed_objects objects query fltr (effective_sort policy order))
               (qs_roomId snapshot) (effective_sort policy order) page limit))"

definition executeRoomQueryV1 ::
  "privacy_state \<Rightarrow> query_snapshot \<Rightarrow> jsval \<Rightarrow> dref \<Rightarrow> query_policy \<Rightarrow> query_result res" where
  "executeRoomQueryV1 s snapshot input decision policy =
     ebind (validateRoomQueryRequestV1 input) (\<lambda>request.
     ebind (throw_if (qr_roomId request \<noteq> qs_roomId snapshot) (QueryError QC_room_mismatch)) (\<lambda>_.
     ebind (assertMatrixLocal_query (qs_mode snapshot) (roomQueryScope (qr_query request))) (\<lambda>_.
     ebind (assertRoomQueryAllowed s decision (request, policy)) (\<lambda>_.
     run_query snapshot request policy))))"

end
