(* ===== verification/Query_Guarantees.thy ===== *)
theory Query_Guarantees
  imports Query_Engine
begin

text \<open>
  What a room query can show: the table of query policies, the disclosure bound of an executed
  query over a well-formed projection, the completeness of cursor pagination, and two places
  where the code shows more than its policy means to.
\<close>

section \<open>The policy table\<close>

lemma derive_view_fields [simp]:
  "qp_query (derive_view p) = qp_query p" "qp_requestedView (derive_view p) = qp_requestedView p"
  "qp_allowed (derive_view p) = qp_allowed p" "qp_maxResults (derive_view p) = qp_maxResults p"
  "qp_contentAllowed (derive_view p) = qp_contentAllowed p"
  "qp_actorRefsAllowed (derive_view p) = qp_actorRefsAllowed p"
  "qp_timestampsAllowed (derive_view p) = qp_timestampsAllowed p"
  "qp_countsAllowed (derive_view p) = qp_countsAllowed p"
  "qp_relationshipMetadataAllowed (derive_view p) = qp_relationshipMetadataAllowed p"
  "qp_searchAllowed (derive_view p) = qp_searchAllowed p"
  "qp_effectiveView (derive_view p) =
     effectiveViewFor (qp_requestedView p) (qp_contentAllowed p) (qp_actorRefsAllowed p)"
  by (simp_all add: derive_view_def)

text \<open>The policy of each mode as one record.\<close>

lemmas policy_unfold = resolveRoomQueryPolicy_def Let_def

lemma policy_of_mode:
  "qi_mode inp = Mode_emergency \<Longrightarrow> resolveRoomQueryPolicy inp =
     (if qi_query inp = QK_summary then derive_view ((hide_metadata (query_policy_base Mode_emergency (qi_query inp) (qi_requestedView inp)))
      \<lparr>qp_maxResults := 0, qp_reasonCode := ''emergency_mode''\<rparr>)
      else derive_view ((hide_metadata (query_policy_base Mode_emergency (qi_query inp) (qi_requestedView inp)))
      \<lparr>qp_allowed := False, qp_searchAllowed := False, qp_maxResults := 0, qp_reasonCode := ''emergency_mode''\<rparr>))"
  "qi_mode inp = Mode_bunker \<Longrightarrow> resolveRoomQueryPolicy inp =
     (if qi_query inp = QK_search_plain_text \<or> qi_query inp = QK_object_counts
      then derive_view ((hide_metadata (query_policy_base Mode_bunker (qi_query inp) (qi_requestedView inp)))
      \<lparr>qp_allowed := False, qp_searchAllowed := False, qp_maxResults := 0, qp_reasonCode := ''strict_mode''\<rparr>)
      else derive_view ((hide_metadata (query_policy_base Mode_bunker (qi_query inp) (qi_requestedView inp)))
      \<lparr>qp_maxResults := 10, qp_reasonCode := ''strict_mode''\<rparr>))"
  "qi_mode inp = Mode_ghost \<Longrightarrow> resolveRoomQueryPolicy inp =
     derive_view ((query_policy_base Mode_ghost (qi_query inp) (qi_requestedView inp))
      \<lparr>qp_contentAllowed := (qi_query inp = QK_object_get), qp_actorRefsAllowed := False,
       qp_timestampsAllowed := False, qp_relationshipMetadataAllowed := False,
       qp_searchAllowed := (qi_query inp = QK_search_plain_text),
       qp_maxResults := 15, qp_reasonCode := ''strict_mode''\<rparr>)"
  "qi_mode inp = Mode_private \<Longrightarrow> resolveRoomQueryPolicy inp =
     derive_view ((query_policy_base Mode_private (qi_query inp) (qi_requestedView inp))
      \<lparr>qp_contentAllowed := (qi_query inp = QK_object_get), qp_actorRefsAllowed := False,
       qp_timestampsAllowed := False, qp_relationshipMetadataAllowed := False,
       qp_searchAllowed := (qi_query inp = QK_search_plain_text)\<rparr>)"
  "qi_mode inp = Mode_offline_capsule \<Longrightarrow> resolveRoomQueryPolicy inp =
     derive_view ((query_policy_base Mode_offline_capsule (qi_query inp) (qi_requestedView inp))
      \<lparr>qp_contentAllowed := (qi_query inp = QK_object_get), qp_countsAllowed := True,
       qp_searchAllowed := (qi_query inp = QK_search_plain_text), qp_reasonCode := ''offline_capsule_mode''\<rparr>)"
  "qi_mode inp = Mode_standard \<Longrightarrow> resolveRoomQueryPolicy inp =
     derive_view ((query_policy_base Mode_standard (qi_query inp) (qi_requestedView inp))
      \<lparr>qp_contentAllowed := (qi_query inp = QK_object_get), qp_countsAllowed := True,
       qp_searchAllowed := (qi_query inp = QK_search_plain_text), qp_maxResults :=
         (if qi_query inp = QK_search_plain_text then nat ROOM_QUERY_SEARCH_MAX_LIMIT else nat ROOM_QUERY_MAX_LIMIT)\<rparr>)"
  "qi_mode inp = Mode_sovereign_room \<Longrightarrow> resolveRoomQueryPolicy inp =
     derive_view ((query_policy_base Mode_sovereign_room (qi_query inp) (qi_requestedView inp))
      \<lparr>qp_contentAllowed := (qi_query inp = QK_object_get), qp_countsAllowed := True,
       qp_searchAllowed := (qi_query inp = QK_search_plain_text), qp_maxResults :=
         (if qi_query inp = QK_search_plain_text then nat ROOM_QUERY_SEARCH_MAX_LIMIT else nat ROOM_QUERY_MAX_LIMIT)\<rparr>)"
  "qi_mode inp = Mode_other t \<Longrightarrow> resolveRoomQueryPolicy inp =
     derive_view ((hide_metadata (query_policy_base (Mode_other t) (qi_query inp) (qi_requestedView inp)))
      \<lparr>qp_allowed := False, qp_searchAllowed := False, qp_maxResults := 0, qp_reasonCode := ''unknown_input''\<rparr>)"
  by (simp_all only: policy_unfold privacy_mode.case)

lemmas policy_fields = policy_of_mode hide_metadata_def query_policy_base_def
  ROOM_QUERY_MAX_LIMIT_def ROOM_QUERY_SEARCH_MAX_LIMIT_def

lemma resolved_view:
  "qp_effectiveView (resolveRoomQueryPolicy inp) = effectiveViewFor (qi_requestedView inp)
     (qp_contentAllowed (resolveRoomQueryPolicy inp)) (qp_actorRefsAllowed (resolveRoomQueryPolicy inp))"
  by (cases "qi_mode inp") (simp_all add: policy_fields)

lemma resolved_flags:
  fixes inp
  defines "open_mode \<equiv> qi_mode inp \<in> {Mode_standard, Mode_sovereign_room, Mode_offline_capsule}"
    and "content_mode \<equiv> qi_mode inp \<in> {Mode_standard, Mode_sovereign_room, Mode_offline_capsule,
      Mode_ghost, Mode_private}"
  shows "qp_contentAllowed (resolveRoomQueryPolicy inp) \<longleftrightarrow> content_mode \<and> qi_query inp = QK_object_get"
    and "qp_searchAllowed (resolveRoomQueryPolicy inp) \<longleftrightarrow> content_mode \<and> qi_query inp = QK_search_plain_text"
    and "qp_countsAllowed (resolveRoomQueryPolicy inp) \<longleftrightarrow> open_mode"
    and "qp_actorRefsAllowed (resolveRoomQueryPolicy inp) \<longleftrightarrow> open_mode"
    and "qp_timestampsAllowed (resolveRoomQueryPolicy inp) \<longleftrightarrow> open_mode"
    and "qp_relationshipMetadataAllowed (resolveRoomQueryPolicy inp) \<longleftrightarrow> open_mode"
    and "int (qp_maxResults (resolveRoomQueryPolicy inp)) \<le> ROOM_QUERY_MAX_LIMIT"
    and "qp_allowed (resolveRoomQueryPolicy inp) \<longleftrightarrow> content_mode
      \<or> qi_mode inp = Mode_emergency \<and> qi_query inp = QK_summary
      \<or> qi_mode inp = Mode_bunker \<and> qi_query inp \<notin> {QK_search_plain_text, QK_object_counts}"
  unfolding open_mode_def content_mode_def
  by (cases "qi_mode inp"; simp add: policy_fields)+

fun redacted_form :: "view_class \<Rightarrow> view_class" where
  "redacted_form VC_room_summary = VC_room_summary_redacted"
| "redacted_form VC_object_summary = VC_object_summary_redacted"
| "redacted_form VC_object_detail_content = VC_object_detail_redacted"
| "redacted_form v = v"

lemma effectiveViewFor_or_redacted: "effectiveViewFor v c d = v \<or> effectiveViewFor v c d = redacted_form v"
  by (cases v; simp add: effectiveViewFor_def)

lemma effectiveViewFor_content:
  "effectiveViewFor v c d = VC_object_detail_content \<longleftrightarrow> v = VC_object_detail_content \<and> c"
  by (cases v; simp add: effectiveViewFor_def)

text \<open>The query policy never upgrades a view and opens each flag in its own modes only: content
  for a single-object read in the five content modes, counts, actor references, timestamps and
  relationship metadata in the three open modes, search in every mode but bunker, emergency and
  an unknown one; an unknown mode is denied everything, and emergency all but a room summary.\<close>

theorem query_policy_table:
  "let p = resolveRoomQueryPolicy inp; m = qi_mode inp;
       open_modes = {Mode_standard, Mode_sovereign_room, Mode_offline_capsule};
       content_modes = open_modes \<union> {Mode_ghost, Mode_private}
   in qp_effectiveView p \<in> {qi_requestedView inp, redacted_form (qi_requestedView inp)}
    \<and> (qp_effectiveView p = VC_object_detail_content \<longleftrightarrow>
         qi_requestedView inp = VC_object_detail_content \<and> qp_contentAllowed p)
    \<and> (qp_contentAllowed p \<longleftrightarrow> m \<in> content_modes \<and> qi_query inp = QK_object_get)
    \<and> (qp_searchAllowed p \<longleftrightarrow> m \<in> content_modes \<and> qi_query inp = QK_search_plain_text)
    \<and> (qp_countsAllowed p \<longleftrightarrow> m \<in> open_modes) \<and> (qp_actorRefsAllowed p \<longleftrightarrow> m \<in> open_modes)
    \<and> (qp_timestampsAllowed p \<longleftrightarrow> m \<in> open_modes)
    \<and> (qp_relationshipMetadataAllowed p \<longleftrightarrow> m \<in> open_modes)
    \<and> (qp_allowed p \<longleftrightarrow> m \<in> content_modes \<or> m = Mode_emergency \<and> qi_query inp = QK_summary
         \<or> m = Mode_bunker \<and> qi_query inp \<notin> {QK_search_plain_text, QK_object_counts})
    \<and> int (qp_maxResults p) \<le> ROOM_QUERY_MAX_LIMIT"
  unfolding Let_def resolved_view effectiveViewFor_content resolved_flags
  using effectiveViewFor_or_redacted resolved_flags(7) [of inp] by auto

section \<open>What an executed query shows\<close>

fun disclosure_ok :: "query_policy \<Rightarrow> query_snapshot \<Rightarrow> query_result \<Rightarrow> bool" where
  "disclosure_ok policy snap (QR_summary v) \<longleftrightarrow>
     (rv_redacted v \<longrightarrow> rv_title v = None \<and> rv_viewRoomId v = None)
   \<and> (qs_mode snap \<in> {Mode_bunker, Mode_emergency} \<longrightarrow> rv_title v = None)
   \<and> (rv_objectCount v \<noteq> None \<longleftrightarrow> qp_countsAllowed policy)"
| "disclosure_ok policy snap (QR_detail v) \<longleftrightarrow> (\<exists>ob \<in> set (qs_objects snap).
     ro_objectId (dv_object v) = ro_objectId ob
   \<and> (ro_content (dv_object v) \<noteq> None \<longleftrightarrow> ro_content ob \<noteq> None \<and> qp_contentAllowed policy
        \<and> qp_effectiveView policy = VC_object_detail_content)
   \<and> (qp_actorRefsAllowed policy \<or> ro_createdBy (dv_object v) = LOCAL_UNKNOWN
        \<and> ro_updatedBy (dv_object v) = LOCAL_UNKNOWN)
   \<and> (qp_timestampsAllowed policy \<or> ro_createdAtLocal (dv_object v) = REDACTED_TS
        \<and> ro_updatedAtLocal (dv_object v) = REDACTED_TS))"
| "disclosure_ok policy snap (QR_items k vs info) \<longleftrightarrow>
     int (length vs) \<le> min ROOM_QUERY_MAX_LIMIT (int (qp_maxResults policy))
   \<and> (\<exists>obs. set obs \<subseteq> set (qs_objects snap) \<and> vs = map (redactRoomObjectSummaryForQuery policy) obs)
   \<and> (isRedactedView policy \<longrightarrow> list_all (\<lambda>v. sv_objectId v = None \<and> sv_revision v = None
        \<and> sv_createdAtLocal v = None \<and> sv_updatedAtLocal v = None \<and> sv_contentPresent v = None) vs)"
| "disclosure_ok policy snap (QR_counts c) \<longleftrightarrow>
     (c \<noteq> None \<longleftrightarrow> qp_countsAllowed policy)"

lemma sanitize_fields:
  "ro_objectId (sanitizeObjectForDetail ob p) = ro_objectId ob"
  "ro_content (sanitizeObjectForDetail ob p) = None \<longleftrightarrow> ro_content ob = None"
  "qp_actorRefsAllowed p \<or> ro_createdBy (sanitizeObjectForDetail ob p) = LOCAL_UNKNOWN
     \<and> ro_updatedBy (sanitizeObjectForDetail ob p) = LOCAL_UNKNOWN"
  "qp_timestampsAllowed p \<or> ro_createdAtLocal (sanitizeObjectForDetail ob p) = REDACTED_TS
     \<and> ro_updatedAtLocal (sanitizeObjectForDetail ob p) = REDACTED_TS"
  by (simp_all add: sanitizeObjectForDetail_def Let_def)

lemma detail_view_fields:
  assumes "object_ok rid ob"
  shows "ro_objectId (dv_object (createRoomObjectDetailView ob p)) = ro_objectId ob"
    and "ro_content (dv_object (createRoomObjectDetailView ob p)) \<noteq> None \<longleftrightarrow> ro_content ob \<noteq> None
      \<and> qp_contentAllowed p \<and> qp_effectiveView p = VC_object_detail_content"
    and "qp_actorRefsAllowed p \<or> ro_createdBy (dv_object (createRoomObjectDetailView ob p)) = LOCAL_UNKNOWN
      \<and> ro_updatedBy (dv_object (createRoomObjectDetailView ob p)) = LOCAL_UNKNOWN"
    and "qp_timestampsAllowed p \<or> ro_createdAtLocal (dv_object (createRoomObjectDetailView ob p)) = REDACTED_TS
      \<and> ro_updatedAtLocal (dv_object (createRoomObjectDetailView ob p)) = REDACTED_TS"
proof -
  have gone: "ro_lifecycle ob = OL_deleted_tombstone \<Longrightarrow> ro_content ob = None"
    "ro_redacted ob \<Longrightarrow> ro_content ob = None"
    using assms by (auto simp: object_ok_def)
  show "ro_content (dv_object (createRoomObjectDetailView ob p)) \<noteq> None \<longleftrightarrow> ro_content ob \<noteq> None
      \<and> qp_contentAllowed p \<and> qp_effectiveView p = VC_object_detail_content"
    using gone by (simp add: createRoomObjectDetailView_def sanitize_fields(2) del: not_None_eq)
qed (auto simp: createRoomObjectDetailView_def sanitizeObjectForDetail_def Let_def)

lemma resolveLimit_bound:
  assumes "resolveLimit page hardMax m = Inr l" and "0 \<le> hardMax"
  shows "int l \<le> min hardMax (int m)"
  using assms by (cases page) (auto simp: resolveLimit_def Let_def)

lemma items_page_ok:
  assumes "items_page policy k items rid order page limit = Inr res"
    and "set items \<subseteq> set (qs_objects snap)"
    and "int limit \<le> min ROOM_QUERY_MAX_LIMIT (int (qp_maxResults policy))"
  shows "disclosure_ok policy snap res"
proof -
  obtain start info where w: "res = QR_items k (map (redactRoomObjectSummaryForQuery policy)
      (take limit (drop start items))) info"
    using assms(1) by (auto simp: items_page_def paginate_def Let_def)
  have "set (take limit (drop start items)) \<subseteq> set (qs_objects snap)"
    using assms(2) set_take_subset [of limit "drop start items"] set_drop_subset [of start items] by blast
  moreover have "int (length (take limit (drop start items)))
      \<le> min ROOM_QUERY_MAX_LIMIT (int (qp_maxResults policy))"
    by (rule order_trans [OF _ assms(3)]) simp
  ultimately show ?thesis
    unfolding w by (auto simp: list_all_iff redactRoomObjectSummaryForQuery_def)
qed

lemma search_hits_subset:
  assumes "searchRoomObjectsExact objects term policy kinds = Inr hits"
  shows "set hits \<subseteq> set objects"
proof -
  have "efold (search_step term policy kinds) acc objects = Inr hits \<Longrightarrow>
      set hits \<subseteq> set acc \<union> set objects" for acc
  proof (induction objects arbitrary: acc)
    case Nil
    then show ?case by simp
  next
    case (Cons x xs)
    from Cons.prems obtain a where a: "search_step term policy kinds acc x = Inr a"
      and rest: "efold (search_step term policy kinds) a xs = Inr hits" by auto
    have "set a \<subseteq> insert x (set acc)"
      using a by (auto simp: search_step_def split: if_splits)
    with Cons.IH [OF rest] show ?case by auto
  qed
  from this [of "[]"] show ?thesis using assms by (simp add: searchRoomObjectsExact_def)
qed

lemma listed_objects_subset: "set (listed_objects objects q f o1) \<subseteq> set objects"
  by (auto simp: listed_objects_def sortedCopy_def)

lemma snapshot_fields:
  assumes "createRoomQuerySnapshotV1 st P = Inr snap"
  shows "qs_objects snap = op_objects P" "qs_roomId snap = op_roomId P"
    "qs_mode snap \<in> {Mode_bunker, Mode_emergency} \<Longrightarrow> qs_title snap = None"
  using assms by (auto simp: createRoomQuerySnapshotV1_def Let_def)

lemma run_query_ok:
  assumes run: "run_query snap request policy = Inr res"
    and snap: "createRoomQuerySnapshotV1 st P = Inr snap" and inv: "object_inv rid P"
  shows "disclosure_ok policy snap res"
proof (cases "qr_args request")
  case QA_summary
  then show ?thesis
    using run snapshot_fields(3) [OF snap]
    by (auto simp: run_query_def redactRoomSummaryForQuery_def Let_def)
next
  case (QA_get i)
  then obtain ob where ob: "find (\<lambda>ob. ro_objectId ob = i) (qs_objects snap) = Some ob"
    and res: "res = QR_detail (createRoomObjectDetailView ob policy)"
    using run by (auto simp: run_query_def Let_def)
  have ok: "ob \<in> set (qs_objects snap)" "object_ok rid ob"
    using find_SomeD [OF ob] inv snapshot_fields(1) [OF snap] by (auto simp: object_inv_def list_all_iff)
  show ?thesis
    unfolding res disclosure_ok.simps
    by (intro bexI [of _ ob] conjI detail_view_fields [OF ok(2)] ok(1))
next
  case (QA_search t kinds page)
  then obtain l hits where l: "resolveLimit page ROOM_QUERY_SEARCH_MAX_LIMIT (qp_maxResults policy) = Inr l"
    and hits: "searchRoomObjectsExact (sortedCopy SO_object_id_asc (qs_objects snap)) t policy kinds = Inr hits"
    and res: "items_page policy QK_search_plain_text hits (qs_roomId snap) SO_object_id_asc page l = Inr res"
    using run by (auto simp: run_query_def Let_def)
  have "int l \<le> min ROOM_QUERY_MAX_LIMIT (int (qp_maxResults policy))"
    using resolveLimit_bound [OF l] by (simp add: ROOM_QUERY_SEARCH_MAX_LIMIT_def ROOM_QUERY_MAX_LIMIT_def)
  moreover have "set hits \<subseteq> set (qs_objects snap)"
    using search_hits_subset [OF hits] by (simp add: sortedCopy_def)
  ultimately show ?thesis by (intro items_page_ok [OF res])
next
  case (QA_counts f)
  then show ?thesis using run by (auto simp: run_query_def Let_def)
next
  case (QA_list q f x page)
  then obtain l where l: "resolveLimit page ROOM_QUERY_MAX_LIMIT (qp_maxResults policy) = Inr l"
    and res: "items_page policy q (listed_objects (qs_objects snap) q f (effective_sort policy x))
        (qs_roomId snap) (effective_sort policy x) page l = Inr res"
    using run by (auto simp: run_query_def Let_def)
  have "int l \<le> min ROOM_QUERY_MAX_LIMIT (int (qp_maxResults policy))"
    using resolveLimit_bound [OF l] by (simp add: ROOM_QUERY_MAX_LIMIT_def)
  then show ?thesis by (intro items_page_ok [OF res] listed_objects_subset)
qed


section \<open>Pagination is complete\<close>

text \<open>A reader that asks for one page after another until no cursor comes back.\<close>

fun page_walk ::
  "nat \<Rightarrow> query_snapshot \<Rightarrow> query_policy \<Rightarrow> (page_request option \<Rightarrow> query_request) \<Rightarrow> int
     \<Rightarrow> query_cursor option \<Rightarrow> object_summary_view list res" where
  "page_walk 0 snap policy mk limit cursor = Inr []"
| "page_walk (Suc n) snap policy mk limit cursor =
     ebind (run_query snap (mk (Some \<lparr>pg_limit = limit, pg_cursor = cursor\<rparr>)) policy) (\<lambda>r.
     case r of
       QR_items k vs info \<Rightarrow> (case pi_nextCursor info of
           None \<Rightarrow> Inr vs
         | Some c \<Rightarrow> ebind (page_walk n snap policy mk limit (Some c)) (\<lambda>rest. Inr (vs @ rest)))
     | _ \<Rightarrow> Inr [])"

lemma index_where_nth:
  "distinct (map k xs) \<Longrightarrow> i < length xs \<Longrightarrow> index_where (\<lambda>x. k x = k (xs ! i)) xs = Some i"
proof (induction xs arbitrary: i)
  case Nil
  then show ?case by simp
next
  case (Cons x xs)
  then show ?case by (cases i) (auto simp: image_iff)
qed

lemma page_start_after:
  assumes "distinct (map ro_objectId items)" and "\<forall>ob \<in> set items. ro_roomId ob = rid"
    and "0 < n" and "n \<le> length items"
  shows "page_start items rid order (Some (cursor_of order (items ! (n - 1)))) = Inr n"
  using assms index_where_nth [OF assms(1), of "n - 1"]
  by (simp add: page_start_def cursor_of_def assertCursorMatchesQuery_def)

lemma paginate_at:
  assumes "page_start items rid order cursor = Inr start" and "0 < l" and "start < length items"
  shows "paginate items rid order cursor l = Inr (take l (drop start items),
     \<lparr>pi_returnedCount = length (take l (drop start items)), pi_limit = l,
      pi_hasMore = (start + l < length items),
      pi_nextCursor = (if start + l < length items
        then Some (cursor_of order (items ! (start + l - 1))) else None)\<rparr>)"
proof -
  have "last (take l (drop start items)) = items ! (start + l - 1)" if "start + l < length items"
    using that assms(2) by (simp add: last_conv_nth)
  then show ?thesis using assms by (simp add: paginate_def Let_def)
qed

lemma page_walk_from:
  assumes list: "\<And>page. run_query snap (mk page) policy =
      ebind (resolveLimit page hardMax (qp_maxResults policy)) (\<lambda>l.
      items_page policy k items rid order page l)"
    and items: "distinct (map ro_objectId items)" "\<forall>ob \<in> set items. ro_roomId ob = rid"
    and l: "1 \<le> l" "l \<le> min hardMax (int (qp_maxResults policy))"
    and start: "page_start items rid order cursor = Inr start" "start < length items"
    and fuel: "length items - start \<le> n"
  shows "page_walk n snap policy mk l cursor = Inr (map (redactRoomObjectSummaryForQuery policy) (drop start items))"
  using start fuel
proof (induction n arbitrary: cursor start)
  case 0
  then show ?case by simp
next
  case (Suc n)
  let ?r = "redactRoomObjectSummaryForQuery policy" and ?w = "take (nat l) (drop start items)"
  let ?page = "Some \<lparr>pg_limit = l, pg_cursor = cursor\<rparr>"
  have lim: "resolveLimit ?page hardMax (qp_maxResults policy) = Inr (nat l)"
    using l by (auto simp: resolveLimit_def Let_def min_less_iff_disj)
  have pos: "0 < nat l" using l by simp
  note pg = paginate_at [OF Suc.prems(1) pos Suc.prems(2)]
  have run: "run_query snap (mk ?page) policy = Inr (QR_items k (map ?r ?w)
     \<lparr>pi_returnedCount = length ?w, pi_limit = nat l, pi_hasMore = (start + nat l < length items),
      pi_nextCursor = (if start + nat l < length items
        then Some (cursor_of order (items ! (start + nat l - 1))) else None)\<rparr>)"
    by (simp add: list lim items_page_def request_cursor_def pg)
  show ?case
  proof (cases "start + nat l < length items")
    case True
    have next_start: "page_start items rid order (Some (cursor_of order (items ! (start + nat l - 1))))
        = Inr (start + nat l)"
      by (rule page_start_after [OF items]) (use True pos in auto)
    have "page_walk n snap policy mk l (Some (cursor_of order (items ! (start + nat l - 1))))
        = Inr (map ?r (drop (start + nat l) items))"
      by (rule Suc.IH [OF next_start True]) (use Suc.prems pos in auto)
    moreover have "?w @ drop (start + nat l) items = drop start items"
      by (metis add.commute append_take_drop_id drop_drop)
    ultimately show ?thesis using True by (simp add: run flip: map_append)
  next
    case False
    then have "?w = drop start items" by simp
    then show ?thesis using False by (simp add: run)
  qed
qed

text \<open>C24.  Following the cursors of a list query returns every matching object exactly once, in the
  order of the sort: for any filter and sort, any page size the policy allows and a well-formed
  projection, the pages concatenate to the views of the sorted selection, within as many pages
  as there are objects.\<close>

theorem query_pages_complete:
  assumes "createRoomQuerySnapshotV1 st P = Inr snap" and "object_inv rid P"
    and "1 \<le> l" and "l \<le> min ROOM_QUERY_MAX_LIMIT (int (qp_maxResults policy))"
    and sel_def: "sel = listed_objects (qs_objects snap) q f (effective_sort policy x)"
  shows "page_walk (Suc (length (qs_objects snap))) snap policy
       (\<lambda>page. \<lparr>qr_roomId = qs_roomId snap, qr_requestedView = v, qr_mode = m, qr_reason = r,
          qr_args = QA_list q f x page\<rparr>) l None
       = Inr (map (redactRoomObjectSummaryForQuery policy) sel)
     \<and> sorted_wrt (\<lambda>a b. \<not> object_before (effective_sort policy x) b a) sel
     \<and> distinct sel
     \<and> set sel = {ob \<in> set (qs_objects snap). option_allows (\<lambda>k. ro_kind ob = k) (KIND_FOR_LIST q)
          \<and> matchesFilter f ob}"
proof -
  let ?mk = "\<lambda>page. \<lparr>qr_roomId = qs_roomId snap, qr_requestedView = v, qr_mode = m, qr_reason = r,
          qr_args = QA_list q f x page\<rparr>"
  let ?flt = "filter (\<lambda>ob. option_allows (\<lambda>k. ro_kind ob = k) (KIND_FOR_LIST q) \<and> matchesFilter f ob)
      (qs_objects snap)"
  note sf = snapshot_fields(1,2) [OF assms(1)]
  have sel: "mset sel = mset ?flt" and set_sel: "set sel = set ?flt"
    by (simp_all add: sel_def listed_objects_def sortedCopy_def)
  have "distinct (map ro_objectId ?flt)"
    using assms(2) by (simp add: sf object_inv_def distinct_map_filter)
  moreover have "mset (map ro_objectId sel) = mset (map ro_objectId ?flt)"
    using sel by simp
  ultimately have dist: "distinct (map ro_objectId sel)"
    by (metis mset_eq_imp_distinct_iff)
  have room: "\<forall>ob \<in> set sel. ro_roomId ob = qs_roomId snap"
    using assms(2) by (auto simp: set_sel sf object_inv_def list_all_iff object_ok_def)
  have len: "length sel \<le> length (qs_objects snap)"
    using mset_eq_length [OF sel] length_filter_le [of _ "qs_objects snap"] by (metis)
  have list: "run_query snap (?mk page) policy = ebind (resolveLimit page ROOM_QUERY_MAX_LIMIT (qp_maxResults policy))
      (\<lambda>l. items_page policy q sel (qs_roomId snap) (effective_sort policy x) page l)" for page
    by (simp add: run_query_def Let_def sel_def)
  have "page_walk (Suc (length (qs_objects snap))) snap policy ?mk l None
       = Inr (map (redactRoomObjectSummaryForQuery policy) sel)"
  proof (cases "sel = []")
    case True
    then show ?thesis
      using assms(3,4) by (simp add: list resolveLimit_def Let_def items_page_def request_cursor_def
          paginate_def page_start_def del: min.bounded_iff)
  next
    case False
    then show ?thesis
      using page_walk_from [of snap ?mk policy, OF list dist room assms(3,4), of None 0] len
      by (simp add: page_start_def del: page_walk.simps)
  qed
  moreover have "sorted_wrt (\<lambda>a b. \<not> object_before (effective_sort policy x) b a) sel"
    by (simp add: sel_def listed_objects_def sortedCopy_def object_order.sort_by_sorted)
  moreover have "distinct sel" using dist by (simp add: distinct_map)
  ultimately show ?thesis using set_sel by auto
qed

section \<open>A concrete query\<close>

definition query_object :: "string \<Rightarrow> room_object" where
  "query_object i = \<lparr>ro_objectId = js i, ro_roomId = js ''room-local-1'', ro_kind = OV_note,
     ro_revision = 7, ro_lifecycle = OL_active, ro_sensitivity = OS_content,
     ro_createdAtLocal = js ''local:2024'', ro_updatedAtLocal = js ''local:2025'',
     ro_createdBy = js ''alice'', ro_updatedBy = js ''alice'', ro_redacted = False,
     ro_content = Some (empty_content\<lparr>oc_body := Some (js ''secret'')\<rparr>)\<rparr>"

definition query_projection :: object_projection where
  "query_projection = \<lparr>op_roomId = js ''room-local-1'',
     op_objects = [query_object ''note-b'', query_object ''note-a'']\<rparr>"

definition query_state :: "privacy_mode \<Rightarrow> room_state" where
  "query_state mode = \<lparr>rs_roomId = js ''room-local-1'', rs_kind = RK_workspace,
     rs_lifecycle = LC_active_local, rs_mode = mode, rs_titleRedacted = False, rs_title = Some (js ''plans''),
     rs_members = [], rs_objects = [], rs_membershipRecords = None, rs_policyRevision = None,
     rs_policyDocument = None, rs_lastLocalUpdateAt = None,
     rs_policy = resolveRoomPolicy (room_policy_input.make mode RK_workspace None None None)\<rparr>"

definition query_snap :: "privacy_mode \<Rightarrow> query_snapshot" where
  "query_snap mode = \<lparr>qs_roomId = js ''room-local-1'', qs_roomKind = RK_workspace,
     qs_lifecycle = LC_active_local, qs_mode = mode,
     qs_title = (if mode = Mode_bunker \<or> mode = Mode_emergency then None else Some (js ''plans'')),
     qs_objects = op_objects query_projection\<rparr>"

definition query_json :: "string \<Rightarrow> string \<Rightarrow> string \<Rightarrow> (string \<times> jsval) list \<Rightarrow> jsval" where
  "query_json query view mode extra = JObj (map (\<lambda>(k, v). (js k, v))
     ([(''schemaVersion'', JNum (NInt 1)), (''query'', JStr (js query)), (''roomId'', JStr (js ''room-local-1'')),
       (''requestedView'', JStr (js view)), (''mode'', JStr (js mode)), (''reason'', JStr (js ''user_request''))]
      @ extra))"

definition first_page :: "(string \<times> jsval) list" where
  "first_page = [(''page'', JObj [(js ''limit'', JNum (NInt 1))])]"

definition query_policy_for :: "privacy_mode \<Rightarrow> query_kind \<Rightarrow> view_class \<Rightarrow> query_policy" where
  "query_policy_for mode q v = resolveRoomQueryPolicy \<lparr>qi_mode = mode, qi_query = q, qi_requestedView = v,
     qi_roomPolicy = resolveRoomPolicy (room_policy_input.make mode RK_workspace None None None),
     qi_objectSensitivity = None, qi_deviceRiskLevel = None\<rparr>"

definition query_decision :: "privacy_mode \<Rightarrow> query_kind \<Rightarrow> privacy_state" where
  "query_decision mode q = snd (issuePolicyDecision Cap_persistence Allowed mode (roomQueryScope q) privacy_init)"

lemma query_snapshot_made: "createRoomQuerySnapshotV1 (query_state mode) query_projection = Inr (query_snap mode)"
  by (simp add: createRoomQuerySnapshotV1_def query_state_def query_projection_def query_snap_def Let_def)

lemma query_projection_ok: "object_inv (js ''room-local-1'') query_projection"
  by (simp add: object_inv_def query_projection_def object_ok_def query_object_def MAX_OBJECT_REVISION_def MAX_SAFE_INTEGER_def)

lemma query_decision_ok:
  "\<exists>d. authentic (query_decision mode q) 0 = Some d \<and> pd_verdict d = Allowed
     \<and> pd_capability d = Cap_persistence \<and> pd_sideEffect d = roomQueryScope q"
  by (simp add: query_decision_def issuePolicyDecision_def Let_def privacy_init_def authentic_def isPolicyDecision_def)

lemma query_json_valid:
  shows "validateRoomQueryRequestV1 (query_json ''room.objects.list'' ''object_summary'' ''bunker'' first_page) =
      Inr \<lparr>qr_roomId = js ''room-local-1'', qr_requestedView = VC_object_summary, qr_mode = Mode_bunker,
        qr_reason = js ''user_request'',
        qr_args = QA_list QK_objects_list None None (Some \<lparr>pg_limit = 1, pg_cursor = None\<rparr>)\<rparr>"
    and "validateRoomQueryRequestV1 (query_json ''room.object.get'' ''object_detail_content'' ''bunker''
        [(''objectId'', JStr (js ''note-a''))]) =
      Inr \<lparr>qr_roomId = js ''room-local-1'', qr_requestedView = VC_object_detail_content,
        qr_mode = Mode_bunker, qr_reason = js ''user_request'', qr_args = QA_get (js ''note-a'')\<rparr>"
proof -
  have leaf: "slug_re 64 (js ''user_request'')" "validateRoomObjectId (JStr (js ''note-a'')) = Inr (js ''note-a'')"
    by code_simp+
  have mode: "mode_of_js (js ''bunker'') = Mode_bunker"
    by (simp add: mode_of_js_def enum_of_def KNOWN_MODES_def)
  note defs = validateRoomQueryRequestV1_def query_json_def assertNoDangerousKeys_def
    DANGEROUS_KEYS_def leaf mode enum_of_def enum_value_def ROOM_QUERY_KINDS_def query_args_of_def
    assertOnlyKeys_def QUERY_BASE_KEYS_def validateView_def ROOM_QUERY_VIEW_CLASSES_def
    optional_field_def validatePage_def first_page_def is_safe_int_def MAX_SAFE_INTEGER_def
  show "validateRoomQueryRequestV1 (query_json ''room.objects.list'' ''object_summary'' ''bunker'' first_page) =
      Inr \<lparr>qr_roomId = js ''room-local-1'', qr_requestedView = VC_object_summary, qr_mode = Mode_bunker,
        qr_reason = js ''user_request'',
        qr_args = QA_list QK_objects_list None None (Some \<lparr>pg_limit = 1, pg_cursor = None\<rparr>)\<rparr>"
    by (simp add: defs)
  show "validateRoomQueryRequestV1 (query_json ''room.object.get'' ''object_detail_content'' ''bunker''
        [(''objectId'', JStr (js ''note-a''))]) =
      Inr \<lparr>qr_roomId = js ''room-local-1'', qr_requestedView = VC_object_detail_content,
        qr_mode = Mode_bunker, qr_reason = js ''user_request'', qr_args = QA_get (js ''note-a'')\<rparr>"
    by (simp add: defs)
qed

lemma query_matrix_ok [simp]:
  "assertMatrixLocal_query Mode_bunker ''room.query.list'' = Inr ()"
  "assertMatrixLocal_query Mode_bunker ''room.query.detail'' = Inr ()"
  by (simp_all add: assertMatrixLocal_query_def room_row_effects KNOWN_MODES_def)

lemma query_policy_bunker:
  "query_policy_for Mode_bunker q v =
     (if q = QK_search_plain_text \<or> q = QK_object_counts
      then derive_view ((hide_metadata (query_policy_base Mode_bunker q v))
        \<lparr>qp_allowed := False, qp_searchAllowed := False, qp_maxResults := 0, qp_reasonCode := ''strict_mode''\<rparr>)
      else derive_view ((hide_metadata (query_policy_base Mode_bunker q v))
        \<lparr>qp_maxResults := 10, qp_reasonCode := ''strict_mode''\<rparr>))"
  by (simp add: query_policy_for_def policy_of_mode)

lemma sorted_query_objects:
  "sortedCopy SO_object_id_asc [query_object ''note-b'', query_object ''note-a'']
    = [query_object ''note-a'', query_object ''note-b'']"
  by code_simp

definition leaked_cursor :: query_cursor where
  "leaked_cursor = \<lparr>cu_roomId = js ''room-local-1'', cu_sort = SO_object_id_asc,
     cu_lastObjectId = js ''note-a'', cu_lastRevision = Some 7,
     cu_lastCreatedAtLocal = Some (js ''local:2024''), cu_lastUpdatedAtLocal = Some (js ''local:2025'')\<rparr>"

lemma bunker_list:
  "executeRoomQueryV1 (query_decision Mode_bunker QK_objects_list) (query_snap Mode_bunker)
      (query_json ''room.objects.list'' ''object_summary'' ''bunker'' first_page) 0
      (query_policy_for Mode_bunker QK_objects_list VC_object_summary)
    = Inr (QR_items QK_objects_list
        [redactRoomObjectSummaryForQuery (query_policy_for Mode_bunker QK_objects_list VC_object_summary)
          (query_object ''note-a'')]
        \<lparr>pi_returnedCount = 1, pi_limit = 1, pi_hasMore = True, pi_nextCursor = Some leaked_cursor\<rparr>)"
proof -
  let ?p = "query_policy_for Mode_bunker QK_objects_list VC_object_summary"
  let ?req = "\<lparr>qr_roomId = js ''room-local-1'', qr_requestedView = VC_object_summary, qr_mode = Mode_bunker,
        qr_reason = js ''user_request'',
        qr_args = QA_list QK_objects_list None None (Some \<lparr>pg_limit = 1, pg_cursor = None\<rparr>)\<rparr>"
  have p: "qp_query ?p = QK_objects_list" "qp_requestedView ?p = VC_object_summary" "qp_allowed ?p"
    "qp_maxResults ?p = 10" "\<not> qp_timestampsAllowed ?p"
    by (simp_all add: query_policy_bunker derive_view_def hide_metadata_def query_policy_base_def)
  have gate: "assertRoomQueryAllowed (query_decision Mode_bunker QK_objects_list) 0 (?req, ?p) = Inr ()"
    using query_decision_ok [of Mode_bunker QK_objects_list] by (simp add: assertRoomQueryAllowed_Inr qr_query_def p)
  have objs: "qs_objects (query_snap Mode_bunker) = [query_object ''note-b'', query_object ''note-a'']"
    "qs_roomId (query_snap Mode_bunker) = js ''room-local-1''" "qs_mode (query_snap Mode_bunker) = Mode_bunker"
    by (simp_all add: query_snap_def query_projection_def)
  have cur: "cursor_of SO_object_id_asc (query_object ''note-a'') = leaked_cursor"
    by (simp add: cursor_of_def query_object_def leaked_cursor_def)
  have "run_query (query_snap Mode_bunker) ?req ?p = Inr (QR_items QK_objects_list
        [redactRoomObjectSummaryForQuery ?p (query_object ''note-a'')]
        \<lparr>pi_returnedCount = 1, pi_limit = 1, pi_hasMore = True, pi_nextCursor = Some leaked_cursor\<rparr>)"
    by (simp add: run_query_def objs p resolveLimit_def ROOM_QUERY_MAX_LIMIT_def items_page_def
        paginate_def page_start_def request_cursor_def listed_objects_def option_allows_def matchesFilter_def
        effective_sort_def sorted_query_objects cur Let_def)
  then show ?thesis
    by (simp add: executeRoomQueryV1_def query_json_valid(1) objs gate qr_query_def)
qed


theorem query_pages_complete_witness:
  "\<exists>sel. page_walk 3 (query_snap Mode_bunker) (query_policy_for Mode_bunker QK_objects_list VC_object_summary)
       (\<lambda>page. \<lparr>qr_roomId = js ''room-local-1'', qr_requestedView = VC_object_summary,
          qr_mode = Mode_bunker, qr_reason = js ''user_request'',
          qr_args = QA_list QK_objects_list None None page\<rparr>) 1 None
     = Inr (map (redactRoomObjectSummaryForQuery
         (query_policy_for Mode_bunker QK_objects_list VC_object_summary)) sel)
   \<and> length sel = 2"
proof -
  let ?p = "query_policy_for Mode_bunker QK_objects_list VC_object_summary"
  have max: "int (qp_maxResults ?p) = 10" "qs_roomId (query_snap Mode_bunker) = js ''room-local-1''"
    "length (qs_objects (query_snap Mode_bunker)) = 2"
    "\<not> qp_timestampsAllowed ?p"
    by (simp_all add: query_policy_bunker hide_metadata_def query_policy_base_def query_snap_def query_projection_def)
  have sel: "listed_objects (qs_objects (query_snap Mode_bunker)) QK_objects_list None (effective_sort ?p None)
      = [query_object ''note-a'', query_object ''note-b'']"
    by (simp add: listed_objects_def option_allows_def matchesFilter_def effective_sort_def max
        query_snap_def query_projection_def sorted_query_objects)
  have lim: "1 \<le> min ROOM_QUERY_MAX_LIMIT (int (qp_maxResults ?p))"
    by (simp add: max ROOM_QUERY_MAX_LIMIT_def)
  have start: "(1::int) \<le> 1" by simp
  note walk = query_pages_complete [OF query_snapshot_made [of Mode_bunker] query_projection_ok start lim refl,
      where q = QK_objects_list and f = None and x = None and v = VC_object_summary
        and m = Mode_bunker and r = "js ''user_request''"]
  have "length [query_object ''note-a'', query_object ''note-b''] = 2" by simp
  with walk show ?thesis unfolding sel max numeral_2_eq_2 numeral_3_eq_3 by blast
qed

text \<open>The cursor escapes the redaction: in a bunker room a list request whose views are redacted,
  with times not allowed by the policy, comes back with a next cursor that holds the id, the
  revision and both times of the last object of the page.\<close>

theorem redacted_page_leaks_cursor:
  "\<exists>vs info c. executeRoomQueryV1 (query_decision Mode_bunker QK_objects_list) (query_snap Mode_bunker)
      (query_json ''room.objects.list'' ''object_summary'' ''bunker'' first_page) 0
      (query_policy_for Mode_bunker QK_objects_list VC_object_summary)
      = Inr (QR_items QK_objects_list vs info)
   \<and> \<not> qp_timestampsAllowed (query_policy_for Mode_bunker QK_objects_list VC_object_summary)
   \<and> list_all (\<lambda>v. sv_objectId v = None \<and> sv_revision v = None \<and> sv_createdAtLocal v = None
        \<and> sv_updatedAtLocal v = None) vs
   \<and> pi_nextCursor info = Some c \<and> cu_lastObjectId c = js ''note-a'' \<and> cu_lastRevision c = Some 7
   \<and> cu_lastCreatedAtLocal c = Some (js ''local:2024'') \<and> cu_lastUpdatedAtLocal c = Some (js ''local:2025'')"
proof -
  have "isRedactedView (query_policy_for Mode_bunker QK_objects_list VC_object_summary)"
    "\<not> qp_timestampsAllowed (query_policy_for Mode_bunker QK_objects_list VC_object_summary)"
    by (simp_all add: isRedactedView_def query_policy_bunker hide_metadata_def query_policy_base_def
        effectiveViewFor_def)
  then show ?thesis
    unfolding bunker_list by (simp add: redactRoomObjectSummaryForQuery_def leaked_cursor_def)
qed

lemma bunker_get:
  assumes "qp_query p = QK_object_get" "qp_requestedView p = VC_object_detail_content"
  shows "executeRoomQueryV1 (query_decision m QK_object_get) (query_snap Mode_bunker)
      (query_json ''room.object.get'' ''object_detail_content'' ''bunker''
        [(''objectId'', JStr (js ''note-a''))]) 0 p
    = (if qp_allowed p \<and> (qp_effectiveView p = VC_object_detail_content \<or> qp_contentAllowed p)
       then Inr (QR_detail (createRoomObjectDetailView (query_object ''note-a'') p))
       else Inl (QueryError QC_policy_denied))"
proof -
  have room: "ro_roomId (query_object ''note-a'') = js ''room-local-1''" "ro_objectId (query_object i) = js i" for i
    by (simp_all add: query_object_def)
  obtain d where "authentic (query_decision m QK_object_get) 0 = Some d" "pd_verdict d = Allowed"
    "pd_capability d = Cap_persistence" "pd_sideEffect d = ''room.query.detail''"
    using query_decision_ok [of m QK_object_get] by auto
  then show ?thesis
    using assms
    by (simp add: executeRoomQueryV1_def query_json_valid(2) qr_query_def assertRoomQueryAllowed_def
        query_snap_def query_projection_def run_query_def room ROOM_CAPABILITY_def throw_if_def)
qed

text \<open>The executor never compares the mode of the policy with the mode of the room or of the
  request: a content read of a bunker room is refused under the policy resolved for bunker mode,
  and shows the body under a policy resolved for standard mode.\<close>

theorem query_mode_unchecked:
  "executeRoomQueryV1 (query_decision Mode_bunker QK_object_get) (query_snap Mode_bunker)
      (query_json ''room.object.get'' ''object_detail_content'' ''bunker''
        [(''objectId'', JStr (js ''note-a''))]) 0
      (query_policy_for Mode_bunker QK_object_get VC_object_detail_content)
     = Inl (QueryError QC_policy_denied)
   \<and> (\<exists>v c. executeRoomQueryV1 (query_decision Mode_standard QK_object_get) (query_snap Mode_bunker)
        (query_json ''room.object.get'' ''object_detail_content'' ''bunker''
          [(''objectId'', JStr (js ''note-a''))]) 0
        (query_policy_for Mode_standard QK_object_get VC_object_detail_content)
       = Inr (QR_detail v) \<and> ro_content (dv_object v) = Some c \<and> oc_body c = Some (js ''secret''))"
proof -
  have p: "qp_query (query_policy_for m QK_object_get v) = QK_object_get"
    "qp_requestedView (query_policy_for m QK_object_get v) = v"
    if "m = Mode_bunker \<or> m = Mode_standard" for m v
    using that by (auto simp: query_policy_for_def policy_of_mode hide_metadata_def query_policy_base_def)
  show ?thesis
    by (simp add: bunker_get p)
      (simp add: query_policy_for_def policy_of_mode hide_metadata_def query_policy_base_def
        effectiveViewFor_def createRoomObjectDetailView_def sanitizeObjectForDetail_def
        sanitize_content_def query_object_def Let_def)
qed

end
