(* ===== verification/Query_Erasure.thy ===== *)
theory Query_Erasure
  imports Query_Guarantees
begin

text \<open>
  Hidden data cannot influence a query: the erasure of a snapshot removes what a query policy
  hides, and every query that does not look into content gives the same answer over a snapshot
  and over its erasure.  A filter on tags or statuses does look into content, and the executor
  accepts it under a policy that hides the content.
\<close>

section \<open>Erasure\<close>

definition shows_content :: "query_policy \<Rightarrow> bool" where
  "shows_content policy \<longleftrightarrow> qp_contentAllowed policy \<and> qp_effectiveView policy = VC_object_detail_content"

definition erase_object :: "query_policy \<Rightarrow> room_object \<Rightarrow> room_object" where
  "erase_object policy ob = ob\<lparr>
     ro_createdBy := (if qp_actorRefsAllowed policy then ro_createdBy ob else LOCAL_UNKNOWN),
     ro_updatedBy := (if qp_actorRefsAllowed policy then ro_updatedBy ob else LOCAL_UNKNOWN),
     ro_content := map_option (if shows_content policy then sanitize_content policy else (\<lambda>_. empty_content))
       (ro_content ob)\<rparr>"

definition erase_snapshot :: "query_policy \<Rightarrow> query_snapshot \<Rightarrow> query_snapshot" where
  "erase_snapshot policy snap = snap\<lparr>
     qs_title := (if qp_effectiveView policy = VC_room_summary_redacted then None else qs_title snap),
     qs_objects := map (erase_object policy) (qs_objects snap)\<rparr>"

text \<open>A filter that asks for no status and no tag, and a query with such a filter that is no search.\<close>

definition blind_filter :: "object_filter option \<Rightarrow> bool" where
  "blind_filter fltr = option_allows (\<lambda>f. fl_taskStatuses f = None \<and> fl_decisionStatuses f = None
     \<and> fl_pollStatuses f = None \<and> fl_exactTag f = None) fltr"

fun content_blind :: "query_args \<Rightarrow> bool" where
  "content_blind QA_summary = True"
| "content_blind (QA_get i) = True"
| "content_blind (QA_search t ks page) = False"
| "content_blind (QA_counts f) = blind_filter f"
| "content_blind (QA_list k f x page) = blind_filter f"

lemma erase_object_fields [simp]:
  "ro_objectId (erase_object p ob) = ro_objectId ob" "ro_roomId (erase_object p ob) = ro_roomId ob"
  "ro_kind (erase_object p ob) = ro_kind ob" "ro_revision (erase_object p ob) = ro_revision ob"
  "ro_lifecycle (erase_object p ob) = ro_lifecycle ob"
  "ro_sensitivity (erase_object p ob) = ro_sensitivity ob"
  "ro_createdAtLocal (erase_object p ob) = ro_createdAtLocal ob"
  "ro_updatedAtLocal (erase_object p ob) = ro_updatedAtLocal ob"
  "ro_redacted (erase_object p ob) = ro_redacted ob"
  "ro_content (erase_object p ob) = None \<longleftrightarrow> ro_content ob = None"
  by (simp_all add: erase_object_def)

lemma erase_snapshot_fields [simp]:
  "qs_roomId (erase_snapshot p snap) = qs_roomId snap" "qs_roomKind (erase_snapshot p snap) = qs_roomKind snap"
  "qs_lifecycle (erase_snapshot p snap) = qs_lifecycle snap" "qs_mode (erase_snapshot p snap) = qs_mode snap"
  "qs_objects (erase_snapshot p snap) = map (erase_object p) (qs_objects snap)"
  by (simp_all add: erase_snapshot_def)

section \<open>Every step of a query commutes with erasure\<close>

lemma sanitize_content_idem [simp]: "sanitize_content p (sanitize_content p c) = sanitize_content p c"
  by (cases c) (auto simp: sanitize_content_def Let_def option.map_comp comp_def)

lemma sanitize_erased:
  assumes "shows_content p \<or> ro_content ob = None"
  shows "sanitizeObjectForDetail (erase_object p ob) p = sanitizeObjectForDetail ob p"
proof (rule room_object.equality)
  show "ro_content (sanitizeObjectForDetail (erase_object p ob) p) = ro_content (sanitizeObjectForDetail ob p)"
    using assms
    by (cases "ro_content ob") (simp_all add: sanitizeObjectForDetail_def erase_object_def Let_def)
qed (simp_all add: sanitizeObjectForDetail_def erase_object_def Let_def)

lemma sanitize_erased_blank:
  "sanitizeObjectForDetail ((erase_object p ob)\<lparr>ro_content := None\<rparr>) p
     = sanitizeObjectForDetail (ob\<lparr>ro_content := None\<rparr>) p"
  by (rule room_object.equality) (simp_all add: sanitizeObjectForDetail_def erase_object_def Let_def)

lemma detail_view_erased:
  assumes "object_ok rid ob"
  shows "createRoomObjectDetailView (erase_object p ob) p = createRoomObjectDetailView ob p"
proof -
  have gone: "ro_lifecycle ob = OL_deleted_tombstone \<or> ro_redacted ob \<Longrightarrow> ro_content ob = None"
    using assms by (auto simp: object_ok_def)
  show ?thesis
    unfolding createRoomObjectDetailView_def erase_object_fields sanitize_erased_blank
    using gone sanitize_erased [of p ob] by (auto simp: shows_content_def)
qed

lemma summary_view_erased [simp]:
  "redactRoomObjectSummaryForQuery p (erase_object q ob) = redactRoomObjectSummaryForQuery p ob"
  by (simp add: redactRoomObjectSummaryForQuery_def)

lemma filter_erased:
  "blind_filter f \<Longrightarrow> matchesFilter f (erase_object p ob) = matchesFilter f ob"
  by (cases f) (simp_all add: blind_filter_def matchesFilter_def option_allows_def)

lemma before_erased [simp]:
  "object_before x (erase_object p a) (erase_object p b) = object_before x a b"
  by (cases x) simp_all

lemma insert_by_map:
  "(\<And>a b. lt (h a) (h b) = lt a b) \<Longrightarrow> insert_by lt (h x) (map h xs) = map h (insert_by lt x xs)"
  by (induction xs) auto

lemma sort_by_map:
  "(\<And>a b. lt (h a) (h b) = lt a b) \<Longrightarrow> sort_by lt (map h xs) = map h (sort_by lt xs)"
  by (induction xs) (simp_all add: sort_by_Cons insert_by_map)

lemma listed_erased:
  assumes "blind_filter f"
  shows "listed_objects (map (erase_object p) obs) q f x = map (erase_object p) (listed_objects obs q f x)"
  using assms
  by (simp add: listed_objects_def sortedCopy_def filter_map comp_def filter_erased sort_by_map)

lemma index_where_map: "index_where P (map h xs) = index_where (\<lambda>x. P (h x)) xs"
  by (induction xs) simp_all

lemma page_start_erased:
  "page_start (map (erase_object p) items) rid x c = page_start items rid x c"
  by (cases c) (simp_all add: page_start_def index_where_map cong: option.case_cong)

lemma cursor_of_erased [simp]: "cursor_of x (erase_object p ob) = cursor_of x ob"
  by (simp add: cursor_of_def)

lemma paginate_erased:
  "paginate (map (erase_object p) items) rid x c l
     = ebind (paginate items rid x c l) (\<lambda>(window, info). Inr (map (erase_object p) window, info))"
  by (cases "page_start items rid x c")
    (auto simp: paginate_def page_start_erased Let_def take_map drop_map last_map)

lemma items_page_erased:
  "items_page q k (map (erase_object p) items) rid x page = items_page q k items rid x page"
proof
  fix l show "items_page q k (map (erase_object p) items) rid x page l = items_page q k items rid x page l"
    unfolding items_page_def paginate_erased
    by (cases "paginate items rid x (request_cursor page) l") (auto simp: comp_def)
qed

lemma find_erased:
  "find (\<lambda>ob. ro_objectId ob = i) (map (erase_object p) obs)
     = map_option (erase_object p) (find (\<lambda>ob. ro_objectId ob = i) obs)"
  by (induction obs) simp_all

lemma run_query_erased:
  assumes "content_blind (qr_args request)" and "\<And>ob. ob \<in> set (qs_objects snap) \<Longrightarrow> object_ok rid ob"
  shows "run_query (erase_snapshot policy snap) request policy = run_query snap request policy"
proof (cases "qr_args request")
  case QA_summary
  then show ?thesis
    by (simp add: run_query_def redactRoomSummaryForQuery_def Let_def) (simp add: erase_snapshot_def)
next
  case (QA_get i)
  show ?thesis
  proof (cases "find (\<lambda>ob. ro_objectId ob = i) (qs_objects snap)")
    case None
    then show ?thesis by (simp add: run_query_def QA_get find_erased)
  next
    case (Some ob)
    then have "ob \<in> set (qs_objects snap)" by (auto dest: find_SomeD)
    from detail_view_erased [OF assms(2) [OF this]] show ?thesis by (simp add: run_query_def QA_get find_erased Some)
  qed
next
  case (QA_search t ks page)
  then show ?thesis using assms(1) by simp
next
  case (QA_counts f)
  then show ?thesis using assms(1) by (simp add: run_query_def comp_def filter_map filter_erased)
next
  case (QA_list k f x page)
  then show ?thesis using assms(1) by (simp add: run_query_def listed_erased items_page_erased)
qed

lemma execute_erased:
  assumes "validateRoomQueryRequestV1 input = Inr request" and "content_blind (qr_args request)"
    and "createRoomQuerySnapshotV1 st P = Inr snap" and "object_inv rid P"
  shows "executeRoomQueryV1 s (erase_snapshot policy snap) input d policy
    = executeRoomQueryV1 s snap input d policy"
proof -
  have "object_ok rid ob" if "ob \<in> set (qs_objects snap)" for ob
    using that assms(4) snapshot_fields(1) [OF assms(3)] by (simp add: object_inv_def list_all_iff)
  from run_query_erased [OF assms(2) this] show ?thesis
    by (simp add: executeRoomQueryV1_def assms(1))
qed

text \<open>C23.  What the policy hides does not influence the answer: two rooms whose snapshots differ only
  in what the policy hides (the content of objects, or the tags, assignees and due times of
  shown content, the authors, the title of a redacted room) give the same answer to every
  summary, single-object, count or list query without a status or tag filter, errors, page
  boundaries and cursors included.\<close>

theorem query_noninterference:
  assumes "validateRoomQueryRequestV1 input = Inr request" and "content_blind (qr_args request)"
    and "createRoomQuerySnapshotV1 st1 P1 = Inr snap1" and "object_inv rid1 P1"
    and "createRoomQuerySnapshotV1 st2 P2 = Inr snap2" and "object_inv rid2 P2"
    and "erase_snapshot policy snap1 = erase_snapshot policy snap2"
  shows "executeRoomQueryV1 s snap1 input d policy = executeRoomQueryV1 s snap2 input d policy"
  using execute_erased [OF assms(1,2,3,4)] execute_erased [OF assms(1,2,5,6)] assms(7) by metis

section \<open>Two rooms that differ in hidden data\<close>

definition other_object :: "string \<Rightarrow> room_object" where
  "other_object i = (query_object i)\<lparr>ro_createdBy := js ''bob'',
     ro_content := Some (empty_content\<lparr>oc_body := Some (js ''other''), oc_tags := Some [js ''strike'']\<rparr>)\<rparr>"

definition other_projection :: object_projection where
  "other_projection = \<lparr>op_roomId = js ''room-local-1'', op_objects = [other_object ''note-b'', other_object ''note-a'']\<rparr>"

definition other_snap :: query_snapshot where
  "other_snap = (query_snap Mode_bunker)\<lparr>qs_objects := op_objects other_projection\<rparr>"

lemma other_snapshot_made: "createRoomQuerySnapshotV1 (query_state Mode_bunker) other_projection = Inr other_snap"
  by (simp add: createRoomQuerySnapshotV1_def query_state_def other_projection_def other_snap_def query_snap_def Let_def)

lemma other_projection_ok: "object_inv (js ''room-local-1'') other_projection"
  by (simp add: object_inv_def other_projection_def other_object_def object_ok_def query_object_def
      MAX_OBJECT_REVISION_def MAX_SAFE_INTEGER_def)

lemma hidden_apart:
  assumes "\<not> qp_contentAllowed p" and "\<not> qp_actorRefsAllowed p"
  shows "erase_snapshot p (query_snap Mode_bunker) = erase_snapshot p other_snap"
  using assms
  by (simp add: erase_snapshot_def other_snap_def query_snap_def query_projection_def other_projection_def
      erase_object_def shows_content_def other_object_def query_object_def)

lemma bunker_policy_hides:
  "\<not> qp_contentAllowed (query_policy_for Mode_bunker q v)" "\<not> qp_actorRefsAllowed (query_policy_for Mode_bunker q v)"
  "\<not> qp_tagsAllowed (query_policy_for Mode_bunker q v)"
  by (simp_all add: query_policy_bunker derive_view_def hide_metadata_def query_policy_base_def)

theorem query_noninterference_witness:
  "executeRoomQueryV1 (query_decision Mode_bunker QK_objects_list) other_snap
      (query_json ''room.objects.list'' ''object_summary'' ''bunker'' first_page) 0
      (query_policy_for Mode_bunker QK_objects_list VC_object_summary)
    = Inr (QR_items QK_objects_list
        [redactRoomObjectSummaryForQuery (query_policy_for Mode_bunker QK_objects_list VC_object_summary)
          (query_object ''note-a'')]
        \<lparr>pi_returnedCount = 1, pi_limit = 1, pi_hasMore = True, pi_nextCursor = Some leaked_cursor\<rparr>)"
proof -
  have "content_blind (QA_list QK_objects_list None None (Some \<lparr>pg_limit = 1, pg_cursor = None\<rparr>))"
    by (simp add: blind_filter_def option_allows_def)
  then show ?thesis
    using query_noninterference [OF query_json_valid(1) _ query_snapshot_made query_projection_ok
        other_snapshot_made other_projection_ok hidden_apart [OF bunker_policy_hides(1,2)]] bunker_list
    by simp
qed

section \<open>A tag filter is an oracle\<close>

definition tag_page :: "(string \<times> jsval) list" where
  "tag_page = [(''filter'', JObj [(js ''exactTag'', JStr (js ''strike''))])]"

definition tag_filter :: object_filter where
  "tag_filter = \<lparr>fl_kinds = None, fl_lifecycles = None, fl_redacted = None, fl_taskStatuses = None,
     fl_decisionStatuses = None, fl_pollStatuses = None, fl_exactTag = Some (js ''strike'')\<rparr>"

lemma tag_query_valid:
  "validateRoomQueryRequestV1 (query_json ''room.objects.list'' ''object_summary'' ''bunker'' tag_page) =
      Inr \<lparr>qr_roomId = js ''room-local-1'', qr_requestedView = VC_object_summary, qr_mode = Mode_bunker,
        qr_reason = js ''user_request'', qr_args = QA_list QK_objects_list (Some tag_filter) None None\<rparr>"
proof -
  have leaf: "slug_re 64 (js ''user_request'')" "TAG_RE (js ''strike'')"
    by code_simp+
  have mode: "mode_of_js (js ''bunker'') = Mode_bunker"
    by (simp add: mode_of_js_def enum_of_def KNOWN_MODES_def)
  show ?thesis
    by (simp add: validateRoomQueryRequestV1_def query_json_def assertNoDangerousKeys_def
        DANGEROUS_KEYS_def leaf mode enum_of_def enum_value_def ROOM_QUERY_KINDS_def query_args_of_def
        assertOnlyKeys_def QUERY_BASE_KEYS_def validateView_def ROOM_QUERY_VIEW_CLASSES_def
        optional_field_def tag_page_def tag_filter_def validateFilter_def ROOM_OBJECT_FILTER_KEYS_def tag_value_def)
qed

lemma bunker_tag_query:
  fixes snap
  assumes "snap = query_snap Mode_bunker \<or> snap = other_snap"
  defines "p \<equiv> query_policy_for Mode_bunker QK_objects_list VC_object_summary"
  shows "executeRoomQueryV1 (query_decision Mode_bunker QK_objects_list) snap
      (query_json ''room.objects.list'' ''object_summary'' ''bunker'' tag_page) 0 p
    = items_page p QK_objects_list (listed_objects (qs_objects snap) QK_objects_list (Some tag_filter) SO_object_id_asc)
        (js ''room-local-1'') SO_object_id_asc None 10"
proof -
  have p: "qp_query p = QK_objects_list" "qp_requestedView p = VC_object_summary" "qp_allowed p"
    "qp_maxResults p = 10" "\<not> qp_timestampsAllowed p"
    by (simp_all add: p_def query_policy_bunker derive_view_def hide_metadata_def query_policy_base_def)
  let ?req = "\<lparr>qr_roomId = js ''room-local-1'', qr_requestedView = VC_object_summary, qr_mode = Mode_bunker,
        qr_reason = js ''user_request'', qr_args = QA_list QK_objects_list (Some tag_filter) None None\<rparr>"
  have gate: "assertRoomQueryAllowed (query_decision Mode_bunker QK_objects_list) 0 (?req, p) = Inr ()"
    using query_decision_ok [of Mode_bunker QK_objects_list] by (simp add: assertRoomQueryAllowed_Inr qr_query_def p)
  have snap: "qs_roomId snap = js ''room-local-1''" "qs_mode snap = Mode_bunker"
    using assms(1) by (auto simp: query_snap_def other_snap_def)
  show ?thesis
    by (simp add: executeRoomQueryV1_def tag_query_valid gate snap qr_query_def run_query_def p
        resolveLimit_def ROOM_QUERY_MAX_LIMIT_def ROOM_QUERY_DEFAULT_LIMIT_def effective_sort_def Let_def)
qed

lemma tag_selection:
  "listed_objects (qs_objects (query_snap Mode_bunker)) QK_objects_list (Some tag_filter) SO_object_id_asc = []"
  "listed_objects (qs_objects other_snap) QK_objects_list (Some tag_filter) SO_object_id_asc
     = [other_object ''note-a'', other_object ''note-b'']"
  by code_simp+

text \<open>A list query with a tag filter is answered in a bunker room although the policy hides content
  and tags: two rooms that differ only in what the policy hides answer it differently, so the
  reader learns a hidden tag (a search, which also reads content, is refused).\<close>

theorem tag_filter_is_oracle:
  "let p = query_policy_for Mode_bunker QK_objects_list VC_object_summary;
       ask = (\<lambda>snap. executeRoomQueryV1 (query_decision Mode_bunker QK_objects_list) snap
         (query_json ''room.objects.list'' ''object_summary'' ''bunker'' tag_page) 0 p)
   in \<not> qp_tagsAllowed p \<and> \<not> qp_contentAllowed p
    \<and> erase_snapshot p (query_snap Mode_bunker) = erase_snapshot p other_snap
    \<and> (\<exists>info. ask (query_snap Mode_bunker) = Inr (QR_items QK_objects_list [] info))
    \<and> (\<exists>v w info. ask other_snap = Inr (QR_items QK_objects_list [v, w] info))"
  unfolding Let_def
  by (simp add: bunker_policy_hides hidden_apart bunker_tag_query tag_selection items_page_def
      request_cursor_def paginate_def page_start_def Let_def)

end
