(* ===== verification/Storage_Policy.thy ===== *)
theory Storage_Policy
  imports Policy_Matrix
begin

text \<open>
  The storage policy of \<open>packages/storage/src/\<close>: data classes (\<open>dataClasses.ts\<close>),
  backends (\<open>backends.ts\<close>), operations and sensitivities (\<open>operations.ts\<close>), the
  resolution of a policy (\<open>policy.ts\<close>) and the zero-persistence assertions
  (\<open>zeroPersistence.ts\<close>), with what the resolution guarantees.
\<close>

section \<open>Data classes\<close>

text \<open>A class that is not one of the thirty, reachable through a cast, is \<open>SC_other\<close>.\<close>

datatype storage_class =
    SC_identity_key_material | SC_device_key_material | SC_room_key_material | SC_trust_notebook
    | SC_room_operation_log | SC_materialized_room_state | SC_message_content
    | SC_document_content | SC_file_blob | SC_capsule_spool | SC_capsule_inbox
    | SC_capsule_quarantine | SC_bundle_export | SC_settings | SC_contact_aliases
    | SC_room_aliases | SC_cache | SC_media_cache | SC_preview_cache | SC_thumbnail_cache
    | SC_ai_prompt_cache | SC_ai_embedding_index | SC_ai_output_cache
    | SC_endpoint_redaction_state | SC_protected_content_reveal_state
    | SC_screen_capture_audit_event | SC_device_risk_state | SC_watermark_canary_state
    | SC_logs | SC_debug_artifact | SC_other jstr

definition STORAGE_DATA_CLASSES :: "storage_class list" where
  "STORAGE_DATA_CLASSES = [SC_identity_key_material, SC_device_key_material, SC_room_key_material,
     SC_trust_notebook, SC_room_operation_log, SC_materialized_room_state,
     SC_message_content, SC_document_content, SC_file_blob, SC_capsule_spool,
     SC_capsule_inbox, SC_capsule_quarantine, SC_bundle_export, SC_settings,
     SC_contact_aliases, SC_room_aliases, SC_cache, SC_media_cache, SC_preview_cache,
     SC_thumbnail_cache, SC_ai_prompt_cache, SC_ai_embedding_index, SC_ai_output_cache,
     SC_endpoint_redaction_state, SC_protected_content_reveal_state,
     SC_screen_capture_audit_event, SC_device_risk_state, SC_watermark_canary_state,
     SC_logs, SC_debug_artifact]"

fun storage_class_name :: "storage_class \<Rightarrow> jstr" where
  "storage_class_name SC_identity_key_material = js ''identity_key_material''"
| "storage_class_name SC_device_key_material = js ''device_key_material''"
| "storage_class_name SC_room_key_material = js ''room_key_material''"
| "storage_class_name SC_trust_notebook = js ''trust_notebook''"
| "storage_class_name SC_room_operation_log = js ''room_operation_log''"
| "storage_class_name SC_materialized_room_state = js ''materialized_room_state''"
| "storage_class_name SC_message_content = js ''message_content''"
| "storage_class_name SC_document_content = js ''document_content''"
| "storage_class_name SC_file_blob = js ''file_blob''"
| "storage_class_name SC_capsule_spool = js ''capsule_spool''"
| "storage_class_name SC_capsule_inbox = js ''capsule_inbox''"
| "storage_class_name SC_capsule_quarantine = js ''capsule_quarantine''"
| "storage_class_name SC_bundle_export = js ''bundle_export''"
| "storage_class_name SC_settings = js ''settings''"
| "storage_class_name SC_contact_aliases = js ''contact_aliases''"
| "storage_class_name SC_room_aliases = js ''room_aliases''"
| "storage_class_name SC_cache = js ''cache''"
| "storage_class_name SC_media_cache = js ''media_cache''"
| "storage_class_name SC_preview_cache = js ''preview_cache''"
| "storage_class_name SC_thumbnail_cache = js ''thumbnail_cache''"
| "storage_class_name SC_ai_prompt_cache = js ''ai_prompt_cache''"
| "storage_class_name SC_ai_embedding_index = js ''ai_embedding_index''"
| "storage_class_name SC_ai_output_cache = js ''ai_output_cache''"
| "storage_class_name SC_endpoint_redaction_state = js ''endpoint_redaction_state''"
| "storage_class_name SC_protected_content_reveal_state = js ''protected_content_reveal_state''"
| "storage_class_name SC_screen_capture_audit_event = js ''screen_capture_audit_event''"
| "storage_class_name SC_device_risk_state = js ''device_risk_state''"
| "storage_class_name SC_watermark_canary_state = js ''watermark_canary_state''"
| "storage_class_name SC_logs = js ''logs''"
| "storage_class_name SC_debug_artifact = js ''debug_artifact''"
| "storage_class_name (SC_other s) = s"

definition KEY_MATERIAL_CLASSES :: "storage_class list" where
  "KEY_MATERIAL_CLASSES = [SC_identity_key_material, SC_device_key_material, SC_room_key_material,
     SC_trust_notebook]"

definition CONTENT_CLASSES :: "storage_class list" where
  "CONTENT_CLASSES = [SC_room_operation_log, SC_materialized_room_state, SC_message_content,
     SC_document_content, SC_file_blob, SC_capsule_spool, SC_capsule_inbox,
     SC_capsule_quarantine, SC_bundle_export]"

definition CACHE_CLASSES :: "storage_class list" where
  "CACHE_CLASSES = [SC_cache, SC_media_cache, SC_preview_cache, SC_thumbnail_cache]"

definition AI_CACHE_CLASSES :: "storage_class list" where
  "AI_CACHE_CLASSES = [SC_ai_prompt_cache, SC_ai_embedding_index, SC_ai_output_cache]"

definition ENDPOINT_CLASSES :: "storage_class list" where
  "ENDPOINT_CLASSES = [SC_endpoint_redaction_state, SC_protected_content_reveal_state,
     SC_screen_capture_audit_event, SC_device_risk_state, SC_watermark_canary_state]"

definition SETTINGS_CLASSES :: "storage_class list" where
  "SETTINGS_CLASSES = [SC_settings, SC_contact_aliases, SC_room_aliases]"

section \<open>Backends, operations, sensitivities\<close>

datatype storage_backend = SB_encrypted_persistent_placeholder | SB_memory_only | SB_null | SB_other jstr

record backend_capability =
  bc_persistent :: bool
  bc_encrypted :: bool
  bc_implemented :: bool

fun STORAGE_BACKEND_CAPABILITIES :: "storage_backend \<Rightarrow> backend_capability option" where
  "STORAGE_BACKEND_CAPABILITIES SB_encrypted_persistent_placeholder =
     Some \<lparr>bc_persistent = True, bc_encrypted = False, bc_implemented = False\<rparr>"
| "STORAGE_BACKEND_CAPABILITIES SB_memory_only =
     Some \<lparr>bc_persistent = False, bc_encrypted = False, bc_implemented = True\<rparr>"
| "STORAGE_BACKEND_CAPABILITIES SB_null =
     Some \<lparr>bc_persistent = False, bc_encrypted = False, bc_implemented = True\<rparr>"
| "STORAGE_BACKEND_CAPABILITIES (SB_other s) = None"

datatype storage_operation =
    STO_write | STO_read | STO_delete | STO_list | STO_clear | STO_export | STO_import | STO_cache_write
    | STO_cache_read | STO_audit_write

fun storage_operation_name :: "storage_operation \<Rightarrow> string" where
  "storage_operation_name STO_write = ''storage.write''"
| "storage_operation_name STO_read = ''storage.read''"
| "storage_operation_name STO_delete = ''storage.delete''"
| "storage_operation_name STO_list = ''storage.list''"
| "storage_operation_name STO_clear = ''storage.clear''"
| "storage_operation_name STO_export = ''storage.export''"
| "storage_operation_name STO_import = ''storage.import''"
| "storage_operation_name STO_cache_write = ''storage.cache.write''"
| "storage_operation_name STO_cache_read = ''storage.cache.read''"
| "storage_operation_name STO_audit_write = ''storage.audit.write''"

datatype storage_sensitivity =
    SV_public_project_metadata | SV_local_settings | SV_metadata | SV_sensitive_metadata
    | SV_content | SV_derived_content | SV_key_material | SV_security_event

definition PLAINTEXT_RESTRICTED_SENSITIVITIES :: "storage_sensitivity list" where
  "PLAINTEXT_RESTRICTED_SENSITIVITIES = [SV_content, SV_derived_content, SV_key_material]"

section \<open>Resolution\<close>

record storage_policy =
  stp_mode :: privacy_mode
  stp_dataClass :: storage_class
  stp_backend :: storage_backend
  stp_allowWrite :: bool
  stp_allowRead :: bool
  stp_allowDelete :: bool
  stp_allowList :: bool
  stp_allowExport :: bool
  stp_allowCache :: bool
  stp_allowDebugArtifacts :: bool
  stp_plaintextAllowed :: bool
  stp_persistentAllowed :: bool
  stp_reasons :: "string list"

text \<open>\<open>Partial<StoragePolicy>\<close>: the fields of a room's policy that the composition reads.\<close>

record partial_storage_policy =
  psp_backend :: "storage_backend option"
  psp_allowWrite :: "bool option"
  psp_allowRead :: "bool option"
  psp_allowDelete :: "bool option"
  psp_allowList :: "bool option"
  psp_allowExport :: "bool option"
  psp_allowCache :: "bool option"
  psp_allowDebugArtifacts :: "bool option"
  psp_plaintextAllowed :: "bool option"
  psp_persistentAllowed :: "bool option"

record storage_policy_input =
  si_mode :: privacy_mode
  si_dataClass :: storage_class
  si_sensitivity :: storage_sensitivity
  si_roomPolicy :: "partial_storage_policy option"
  si_deviceRiskLevel :: "risk_level option"
  si_screenShieldLevel :: "shield_level option"

text \<open>\<open>xs.indexOf(x)\<close>, minus one when absent.\<close>

fun js_indexOf :: "'a \<Rightarrow> 'a list \<Rightarrow> int" where
  "js_indexOf x [] = -1"
| "js_indexOf x (y # ys) = (if x = y then 0
     else let i = js_indexOf x ys in if i < 0 then -1 else i + 1)"

definition BACKEND_STRICTNESS :: "storage_backend list" where
  "BACKEND_STRICTNESS = [SB_null, SB_memory_only, SB_encrypted_persistent_placeholder]"

definition stricterBackend :: "storage_backend \<Rightarrow> storage_backend \<Rightarrow> storage_backend" where
  "stricterBackend a b =
     (if js_indexOf a BACKEND_STRICTNESS \<le> js_indexOf b BACKEND_STRICTNESS then a else b)"

definition storage_reason :: "string \<Rightarrow> storage_policy \<Rightarrow> storage_policy" where
  "storage_reason reason p = p\<lparr>stp_reasons := stp_reasons p @ [reason]\<rparr>"

definition storage_deny :: "string \<Rightarrow> storage_policy \<Rightarrow> storage_policy" where
  "storage_deny reason p = storage_reason reason
     (p\<lparr>stp_allowWrite := False, stp_allowRead := False, stp_allowCache := False\<rparr>)"

text \<open>The working copy, in its default-deny state.\<close>

definition storage_default :: "privacy_mode \<Rightarrow> storage_class \<Rightarrow> storage_policy" where
  "storage_default mode dataClass = \<lparr>stp_mode = mode, stp_dataClass = dataClass, stp_backend = SB_null,
     stp_allowWrite = False, stp_allowRead = False, stp_allowDelete = True, stp_allowList = False,
     stp_allowExport = False, stp_allowCache = False, stp_allowDebugArtifacts = False,
     stp_plaintextAllowed = False, stp_persistentAllowed = False, stp_reasons = [''default deny'']\<rparr>"

definition storage_unknown :: "privacy_mode \<Rightarrow> storage_class \<Rightarrow> storage_policy" where
  "storage_unknown mode dataClass = (storage_default mode dataClass)\<lparr>stp_allowDelete := False,
     stp_reasons := [''unknown data class or mode: fail closed (deny everything)'']\<rparr>"

text \<open>Ghost and bunker.\<close>

definition strict_baseline :: "privacy_mode \<Rightarrow> storage_class \<Rightarrow> storage_policy \<Rightarrow> storage_policy" where
  "strict_baseline mode dataClass p0 =
     (let p = p0\<lparr>stp_backend := SB_memory_only, stp_persistentAllowed := False\<rparr>;
          strict = (mode = Mode_bunker); m = mode_name mode
      in if dataClass \<in> set KEY_MATERIAL_CLASSES
         then storage_reason (m @ '': key material requires reviewed encryption (none exists)'') p
         else if dataClass \<in> set AI_CACHE_CLASSES
         then storage_reason (m @ '': AI caches denied (ADR-0007)'') p
         else if dataClass = SC_preview_cache \<or> dataClass = SC_thumbnail_cache
         then storage_reason (m @ '': preview/thumbnail caches denied'') p
         else if strict \<and> dataClass \<in> set CACHE_CLASSES
         then storage_reason ''bunker: cache writes denied'' p
         else if dataClass = SC_debug_artifact
         then storage_reason (m @ '': debug artifacts denied'') p
         else if dataClass = SC_protected_content_reveal_state \<and> strict
         then storage_reason ''bunker: reveal history denied'' p
         else storage_reason (m @ '': memory-only active state'')
           (p\<lparr>stp_allowWrite := True, stp_allowRead := True, stp_allowList := True,
              stp_allowCache := \<not> strict \<and> dataClass = SC_cache \<and> False, stp_plaintextAllowed := True\<rparr>))"

text \<open>Standard, private, offline capsule and sovereign room.\<close>

definition open_baseline ::
  "privacy_mode \<Rightarrow> storage_class \<Rightarrow> storage_sensitivity \<Rightarrow> storage_policy \<Rightarrow> storage_policy" where
  "open_baseline mode dataClass sensitivity p =
     (let privateish = (mode \<noteq> Mode_standard); m = mode_name mode;
          active = p\<lparr>stp_backend := SB_memory_only, stp_allowWrite := True, stp_allowRead := True\<rparr>
      in if dataClass \<in> set KEY_MATERIAL_CLASSES
         then storage_reason ''key material requires encrypted storage (not implemented, Gate F)''
           (p\<lparr>stp_backend := SB_encrypted_persistent_placeholder\<rparr>)
         else if dataClass \<in> set AI_CACHE_CLASSES
         then storage_reason ''AI caches require AIPolicy (Gate I); denied in v0'' p
         else if dataClass \<in> set CONTENT_CLASSES then
           (if mode = Mode_standard
            then storage_reason ''standard: content targets future encrypted backend (not implemented)''
              (p\<lparr>stp_backend := SB_encrypted_persistent_placeholder, stp_allowWrite := True,
                 stp_allowRead := True, stp_allowList := True,
                 stp_allowExport := (dataClass = SC_bundle_export), stp_persistentAllowed := False\<rparr>)
            else storage_reason (m @ '': content memory-only in current implementation'')
              (active\<lparr>stp_allowList := True, stp_allowExport := (dataClass = SC_bundle_export),
                 stp_plaintextAllowed := True\<rparr>))
         else if dataClass \<in> set SETTINGS_CLASSES
         then storage_reason ''settings: memory-only now, encrypted persistent later''
           (active\<lparr>stp_allowList := True, stp_plaintextAllowed := True\<rparr>)
         else if dataClass \<in> set CACHE_CLASSES then
           (if privateish \<and> (dataClass = SC_preview_cache \<or> dataClass = SC_thumbnail_cache)
            then storage_reason (m @ '': preview/thumbnail caches denied by default'') p
            else storage_reason (m @ '': cache memory-only'')
              (active\<lparr>stp_allowCache := True, stp_plaintextAllowed := True\<rparr>))
         else if dataClass \<in> set ENDPOINT_CLASSES
         then storage_reason (m @ '': endpoint state memory-only'')
           (active\<lparr>stp_allowList := True,
              stp_plaintextAllowed := (sensitivity \<noteq> SV_content \<and> sensitivity \<noteq> SV_key_material)\<rparr>)
         else if dataClass = SC_logs
         then let w = (sensitivity \<in> {SV_metadata, SV_sensitive_metadata, SV_security_event,
                  SV_public_project_metadata, SV_local_settings})
              in storage_reason ''logs: memory-only, non-content sensitivities only''
                (p\<lparr>stp_backend := SB_memory_only, stp_allowWrite := w, stp_allowRead := w\<rparr>)
         else if dataClass = SC_debug_artifact
         then storage_reason ''debug artifacts denied in v0'' p
         else p)"

definition mode_baseline ::
  "privacy_mode \<Rightarrow> storage_class \<Rightarrow> storage_sensitivity \<Rightarrow> storage_policy \<Rightarrow> storage_policy" where
  "mode_baseline mode dataClass sensitivity p = (case mode of
       Mode_emergency \<Rightarrow> storage_reason ''emergency: null backend, wipe-oriented'' (p\<lparr>stp_backend := SB_null\<rparr>)
     | Mode_ghost \<Rightarrow> strict_baseline mode dataClass p
     | Mode_bunker \<Rightarrow> strict_baseline mode dataClass p
     | _ \<Rightarrow> open_baseline mode dataClass sensitivity p)"

fun shield_name :: "shield_level \<Rightarrow> string" where
  "shield_name SL_off = ''off''"
| "shield_name SL_standard = ''standard''"
| "shield_name SL_protected = ''protected''"
| "shield_name SL_sealed = ''sealed''"
| "shield_name SL_bunker = ''bunker''"

fun risk_name :: "risk_level \<Rightarrow> string" where
  "risk_name Risk_low = ''low''"
| "risk_name Risk_medium = ''medium''"
| "risk_name Risk_high = ''high''"
| "risk_name Risk_critical = ''critical''"
| "risk_name Risk_unknown = ''unknown''"

definition storage_shield :: "shield_level \<Rightarrow> storage_class \<Rightarrow> storage_policy \<Rightarrow> storage_policy" where
  "storage_shield shield dataClass p =
     (if shield = SL_sealed \<or> shield = SL_bunker then
        let p1 = (if dataClass \<in> set CACHE_CLASSES \<or> dataClass \<in> set AI_CACHE_CLASSES
              then storage_deny (''screenshield '' @ shield_name shield
                @ '': cache/preview/thumbnail writes denied'') p else p);
            p2 = (if dataClass = SC_protected_content_reveal_state
              then storage_deny (''screenshield '' @ shield_name shield @ '': reveal history denied'') p1
              else p1)
        in p2\<lparr>stp_persistentAllowed := False\<rparr>
      else p)"

definition storage_risk :: "risk_level \<Rightarrow> storage_class \<Rightarrow> storage_policy \<Rightarrow> storage_policy" where
  "storage_risk risk dataClass p =
     (let p1 = (if (risk = Risk_high \<or> risk = Risk_critical) \<and> dataClass = SC_protected_content_reveal_state
            then storage_deny (''device risk '' @ risk_name risk @ '': reveal state not stored'') p else p)
      in if risk = Risk_critical
         then storage_reason ''device risk critical: exports denied'' (p1\<lparr>stp_allowExport := False\<rparr>)
         else p1)"

definition not_denied :: "bool option \<Rightarrow> bool" where
  "not_denied x = (case x of None \<Rightarrow> True | Some b \<Rightarrow> b)"

definition storage_room :: "partial_storage_policy option \<Rightarrow> storage_policy \<Rightarrow> storage_policy" where
  "storage_room room p = (case room of None \<Rightarrow> p
     | Some r \<Rightarrow> storage_reason ''room policy composed (tighten-only)''
         (p\<lparr>stp_backend := (case psp_backend r of None \<Rightarrow> stp_backend p
               | Some b \<Rightarrow> stricterBackend b (stp_backend p)),
            stp_allowWrite := stp_allowWrite p \<and> not_denied (psp_allowWrite r),
            stp_allowRead := stp_allowRead p \<and> not_denied (psp_allowRead r),
            stp_allowDelete := stp_allowDelete p \<and> not_denied (psp_allowDelete r),
            stp_allowList := stp_allowList p \<and> not_denied (psp_allowList r),
            stp_allowExport := stp_allowExport p \<and> not_denied (psp_allowExport r),
            stp_allowCache := stp_allowCache p \<and> not_denied (psp_allowCache r),
            stp_allowDebugArtifacts := stp_allowDebugArtifacts p \<and> not_denied (psp_allowDebugArtifacts r),
            stp_plaintextAllowed := stp_plaintextAllowed p \<and> not_denied (psp_plaintextAllowed r),
            stp_persistentAllowed := stp_persistentAllowed p \<and> not_denied (psp_persistentAllowed r)\<rparr>))"

definition resolveStoragePolicy :: "storage_policy_input \<Rightarrow> storage_policy" where
  "resolveStoragePolicy inp =
     (let mode = si_mode inp; dataClass = si_dataClass inp;
          risk = (case si_deviceRiskLevel inp of None \<Rightarrow> Risk_unknown | Some r \<Rightarrow> r);
          shield = (case si_screenShieldLevel inp of None \<Rightarrow> SL_off | Some l \<Rightarrow> l)
      in if dataClass \<notin> set STORAGE_DATA_CLASSES \<or> mode \<notin> set KNOWN_MODES
         then storage_unknown mode dataClass
         else let p = storage_room (si_roomPolicy inp) (storage_risk risk dataClass
                (storage_shield shield dataClass (mode_baseline mode dataClass (si_sensitivity inp)
                  (storage_default mode dataClass))))
              in if stp_backend p \<noteq> SB_encrypted_persistent_placeholder
                 then p\<lparr>stp_persistentAllowed := False\<rparr> else p)"

text \<open>The policy's \<open>reason\<close> is the reasons joined.\<close>

definition stp_reason :: "storage_policy \<Rightarrow> string" where
  "stp_reason p = join_strings ''; '' (stp_reasons p)"

section \<open>Zero persistence\<close>

definition isZeroPersistenceMode :: "privacy_mode \<Rightarrow> bool" where
  "isZeroPersistenceMode mode \<longleftrightarrow> mode = Mode_ghost \<or> mode = Mode_bunker \<or> mode = Mode_emergency"

definition assertZeroPersistentWriteMode :: "privacy_mode \<Rightarrow> unit res" where
  "assertZeroPersistentWriteMode mode =
     throw_if (\<not> isZeroPersistenceMode mode) (StorageError StorageBypassAttempt)"

fun isPersistentBackend :: "storage_backend \<Rightarrow> bool" where
  "isPersistentBackend SB_memory_only = False"
| "isPersistentBackend SB_null = False"
| "isPersistentBackend SB_encrypted_persistent_placeholder = True"
| "isPersistentBackend (SB_other s) = True"

definition assertNoPersistentBackendSelected :: "storage_policy \<Rightarrow> unit res" where
  "assertNoPersistentBackendSelected policy =
     ebind (throw_if (isPersistentBackend (stp_backend policy)) (StorageError ForbiddenPersistentWrite)) (\<lambda>_.
     throw_if (stp_persistentAllowed policy) (StorageError ForbiddenPersistentWrite))"

definition assertNoPersistentWriteAllowed ::
  "privacy_mode \<Rightarrow> storage_policy \<Rightarrow> storage_backend \<Rightarrow> unit res" where
  "assertNoPersistentWriteAllowed mode policy backend =
     (if \<not> isZeroPersistenceMode mode then Inr ()
      else ebind (assertNoPersistentBackendSelected policy) (\<lambda>_.
           ebind (throw_if (isPersistentBackend backend) (StorageError ForbiddenPersistentWrite)) (\<lambda>_.
           throw_if (stp_backend policy \<noteq> backend) (StorageError StorageBypassAttempt))))"

section \<open>What a resolved policy allows\<close>

text \<open>The steps of the resolution, seen through the fields of the policy.\<close>

lemma storage_reason_sel [simp]:
  "stp_allowWrite (storage_reason r p) = stp_allowWrite p" "stp_allowRead (storage_reason r p) = stp_allowRead p"
  "stp_allowDelete (storage_reason r p) = stp_allowDelete p" "stp_allowList (storage_reason r p) = stp_allowList p"
  "stp_allowExport (storage_reason r p) = stp_allowExport p" "stp_allowCache (storage_reason r p) = stp_allowCache p"
  "stp_allowDebugArtifacts (storage_reason r p) = stp_allowDebugArtifacts p"
  "stp_plaintextAllowed (storage_reason r p) = stp_plaintextAllowed p"
  "stp_persistentAllowed (storage_reason r p) = stp_persistentAllowed p"
  "stp_backend (storage_reason r p) = stp_backend p"
  "stp_mode (storage_reason r p) = stp_mode p" "stp_dataClass (storage_reason r p) = stp_dataClass p"
  by (simp_all add: storage_reason_def)

lemma storage_deny_sel [simp]:
  "\<not> stp_allowWrite (storage_deny r p)" "\<not> stp_allowRead (storage_deny r p)" "\<not> stp_allowCache (storage_deny r p)"
  "stp_allowDelete (storage_deny r p) = stp_allowDelete p"
  "stp_allowList (storage_deny r p) = stp_allowList p" "stp_allowExport (storage_deny r p) = stp_allowExport p"
  "stp_allowDebugArtifacts (storage_deny r p) = stp_allowDebugArtifacts p"
  "stp_plaintextAllowed (storage_deny r p) = stp_plaintextAllowed p"
  "stp_persistentAllowed (storage_deny r p) = stp_persistentAllowed p"
  "stp_backend (storage_deny r p) = stp_backend p"
  "stp_mode (storage_deny r p) = stp_mode p" "stp_dataClass (storage_deny r p) = stp_dataClass p"
  by (simp_all add: storage_deny_def)

definition reveal_state :: "storage_class \<Rightarrow> bool" where
  "reveal_state c \<longleftrightarrow> c = SC_protected_content_reveal_state"

definition previews :: "storage_class set" where
  "previews = {SC_preview_cache, SC_thumbnail_cache}"

text \<open>Which class may be written in which mode: the table of the storage model.\<close>

definition mode_writes :: "privacy_mode \<Rightarrow> storage_class \<Rightarrow> storage_sensitivity \<Rightarrow> bool" where
  "mode_writes mode c sens \<longleftrightarrow>
     c \<in> set STORAGE_DATA_CLASSES
   \<and> c \<notin> set KEY_MATERIAL_CLASSES \<and> c \<notin> set AI_CACHE_CLASSES \<and> c \<noteq> SC_debug_artifact
   \<and> (case mode of
        Mode_emergency \<Rightarrow> False
      | Mode_ghost \<Rightarrow> c \<notin> previews
      | Mode_bunker \<Rightarrow> c \<notin> set CACHE_CLASSES \<and> \<not> reveal_state c
      | Mode_other s \<Rightarrow> False
      | _ \<Rightarrow> (mode = Mode_standard \<or> c \<notin> previews)
           \<and> (c = SC_logs \<longrightarrow> sens \<notin> set PLAINTEXT_RESTRICTED_SENSITIVITIES))"

lemma storage_classes_iff: "c \<in> set STORAGE_DATA_CLASSES \<longleftrightarrow> (\<forall>s. c \<noteq> SC_other s)"
  by (cases c) (simp_all add: STORAGE_DATA_CLASSES_def)

lemmas storage_groups = KEY_MATERIAL_CLASSES_def CONTENT_CLASSES_def CACHE_CLASSES_def AI_CACHE_CLASSES_def
  ENDPOINT_CLASSES_def SETTINGS_CLASSES_def PLAINTEXT_RESTRICTED_SENSITIVITIES_def

lemma storage_default_sel [simp]:
  "\<not> stp_allowWrite (storage_default m c)" "\<not> stp_allowRead (storage_default m c)"
  "stp_allowDelete (storage_default m c)" "\<not> stp_allowList (storage_default m c)"
  "\<not> stp_allowExport (storage_default m c)" "\<not> stp_allowCache (storage_default m c)"
  "\<not> stp_allowDebugArtifacts (storage_default m c)" "\<not> stp_plaintextAllowed (storage_default m c)"
  "\<not> stp_persistentAllowed (storage_default m c)" "stp_backend (storage_default m c) = SB_null"
  by (simp_all add: storage_default_def)

lemma strict_baseline_writes:
  assumes "m = Mode_ghost \<or> m = Mode_bunker" and "c \<in> set STORAGE_DATA_CLASSES"
  shows "stp_allowWrite (strict_baseline m c (storage_default m c)) \<longleftrightarrow> mode_writes m c sens"
    and "stp_allowRead (strict_baseline m c (storage_default m c)) \<longleftrightarrow> mode_writes m c sens"
  using assms by (auto simp: strict_baseline_def mode_writes_def Let_def previews_def reveal_state_def storage_groups)

lemma open_baseline_writes:
  assumes "m \<in> {Mode_standard, Mode_private, Mode_offline_capsule, Mode_sovereign_room}"
    and "c \<in> set STORAGE_DATA_CLASSES"
  shows "stp_allowWrite (open_baseline m c sens (storage_default m c)) \<longleftrightarrow> mode_writes m c sens"
    and "stp_allowRead (open_baseline m c sens (storage_default m c)) \<longleftrightarrow> mode_writes m c sens"
  using assms
  by (cases c, simp_all add: open_baseline_def mode_writes_def Let_def previews_def storage_groups
      STORAGE_DATA_CLASSES_def split: privacy_mode.splits) (cases sens; auto)+

text \<open>What no baseline changes.\<close>

lemma baseline_kept:
  "stp_mode (strict_baseline m c p) = stp_mode p"
  "stp_allowDebugArtifacts (strict_baseline m c p) = stp_allowDebugArtifacts p"
  "\<not> stp_persistentAllowed (strict_baseline m c p)"
  "stp_mode (open_baseline m c sens p) = stp_mode p"
  "stp_allowDebugArtifacts (open_baseline m c sens p) = stp_allowDebugArtifacts p"
  "\<not> stp_persistentAllowed p \<Longrightarrow> \<not> stp_persistentAllowed (open_baseline m c sens p)"
  by (simp_all add: strict_baseline_def open_baseline_def Let_def if_distrib [of stp_mode]
      if_distrib [of stp_persistentAllowed] if_distrib [of stp_allowDebugArtifacts] cong: if_weak_cong)

definition room_permits :: "('r \<Rightarrow> bool option) \<Rightarrow> 'r option \<Rightarrow> bool" where
  "room_permits f room = (case room of None \<Rightarrow> True | Some r \<Rightarrow> not_denied (f r))"

definition shield_of :: "storage_policy_input \<Rightarrow> shield_level" where
  "shield_of inp = (case si_screenShieldLevel inp of None \<Rightarrow> SL_off | Some l \<Rightarrow> l)"

definition risk_of :: "storage_policy_input \<Rightarrow> risk_level" where
  "risk_of inp = (case si_deviceRiskLevel inp of None \<Rightarrow> Risk_unknown | Some r \<Rightarrow> r)"

text \<open>What the shield and the device risk take away from reading and writing.\<close>

definition context_denies :: "storage_policy_input \<Rightarrow> bool" where
  "context_denies inp \<longleftrightarrow>
     shield_of inp \<in> {SL_sealed, SL_bunker}
       \<and> (si_dataClass inp \<in> set CACHE_CLASSES \<or> si_dataClass inp \<in> set AI_CACHE_CLASSES
          \<or> reveal_state (si_dataClass inp))
   \<or> risk_of inp \<in> {Risk_high, Risk_critical} \<and> reveal_state (si_dataClass inp)"

lemma shield_sel:
  "stp_allowWrite (storage_shield l c p) \<longleftrightarrow> stp_allowWrite p \<and> \<not> (l \<in> {SL_sealed, SL_bunker}
     \<and> (c \<in> set CACHE_CLASSES \<or> c \<in> set AI_CACHE_CLASSES \<or> reveal_state c))"
  "stp_allowRead (storage_shield l c p) \<longleftrightarrow> stp_allowRead p \<and> \<not> (l \<in> {SL_sealed, SL_bunker}
     \<and> (c \<in> set CACHE_CLASSES \<or> c \<in> set AI_CACHE_CLASSES \<or> reveal_state c))"
  "stp_backend (storage_shield l c p) = stp_backend p"
  "stp_allowDebugArtifacts (storage_shield l c p) = stp_allowDebugArtifacts p"
  "stp_persistentAllowed (storage_shield l c p) \<Longrightarrow> stp_persistentAllowed p"
  by (auto simp: storage_shield_def Let_def reveal_state_def split: if_splits)

lemma risk_sel:
  "stp_allowWrite (storage_risk k c p) \<longleftrightarrow> stp_allowWrite p \<and> \<not> (k \<in> {Risk_high, Risk_critical} \<and> reveal_state c)"
  "stp_allowRead (storage_risk k c p) \<longleftrightarrow> stp_allowRead p \<and> \<not> (k \<in> {Risk_high, Risk_critical} \<and> reveal_state c)"
  "stp_backend (storage_risk k c p) = stp_backend p"
  "stp_allowDebugArtifacts (storage_risk k c p) = stp_allowDebugArtifacts p"
  "stp_persistentAllowed (storage_risk k c p) = stp_persistentAllowed p"
  by (auto simp: storage_risk_def Let_def reveal_state_def)

lemma room_sel:
  "stp_allowWrite (storage_room r p) \<longleftrightarrow> stp_allowWrite p \<and> room_permits psp_allowWrite r"
  "stp_allowRead (storage_room r p) \<longleftrightarrow> stp_allowRead p \<and> room_permits psp_allowRead r"
  "stp_allowDelete (storage_room r p) \<longleftrightarrow> stp_allowDelete p \<and> room_permits psp_allowDelete r"
  "stp_allowList (storage_room r p) \<longleftrightarrow> stp_allowList p \<and> room_permits psp_allowList r"
  "stp_allowExport (storage_room r p) \<longleftrightarrow> stp_allowExport p \<and> room_permits psp_allowExport r"
  "stp_allowCache (storage_room r p) \<longleftrightarrow> stp_allowCache p \<and> room_permits psp_allowCache r"
  "stp_plaintextAllowed (storage_room r p) \<longleftrightarrow> stp_plaintextAllowed p \<and> room_permits psp_plaintextAllowed r"
  "stp_persistentAllowed (storage_room r p) \<longleftrightarrow> stp_persistentAllowed p \<and> room_permits psp_persistentAllowed r"
  "stp_allowDebugArtifacts (storage_room r p) \<longleftrightarrow>
     stp_allowDebugArtifacts p \<and> room_permits psp_allowDebugArtifacts r"
  by (cases r; simp add: storage_room_def room_permits_def)+

lemma strict_backend: "stp_backend (strict_baseline m c p) = SB_memory_only"
  by (simp add: strict_baseline_def Let_def)

lemma mode_baseline_facts:
  assumes "c \<in> set STORAGE_DATA_CLASSES" "m \<in> set KNOWN_MODES"
  shows "stp_allowWrite (mode_baseline m c sens (storage_default m c)) \<longleftrightarrow> mode_writes m c sens"
    and "stp_allowRead (mode_baseline m c sens (storage_default m c)) \<longleftrightarrow> mode_writes m c sens"
    and "\<not> stp_persistentAllowed (mode_baseline m c sens (storage_default m c))"
    and "\<not> stp_allowDebugArtifacts (mode_baseline m c sens (storage_default m c))"
    and "isZeroPersistenceMode m \<Longrightarrow> \<not> isPersistentBackend (stp_backend (mode_baseline m c sens (storage_default m c)))"
proof -
  have emergency: "\<not> mode_writes Mode_emergency c sens" by (simp add: mode_writes_def)
  show "stp_allowWrite (mode_baseline m c sens (storage_default m c)) \<longleftrightarrow> mode_writes m c sens"
    "stp_allowRead (mode_baseline m c sens (storage_default m c)) \<longleftrightarrow> mode_writes m c sens"
    using assms strict_baseline_writes [of m c sens] open_baseline_writes [of m c sens] emergency
    by (auto simp: mode_baseline_def KNOWN_MODES_iff split: privacy_mode.splits)
  show "\<not> stp_persistentAllowed (mode_baseline m c sens (storage_default m c))"
    "\<not> stp_allowDebugArtifacts (mode_baseline m c sens (storage_default m c))"
    by (simp_all add: mode_baseline_def baseline_kept split: privacy_mode.splits)
  show "isZeroPersistenceMode m \<Longrightarrow> \<not> isPersistentBackend (stp_backend (mode_baseline m c sens (storage_default m c)))"
    by (auto simp: isZeroPersistenceMode_def mode_baseline_def strict_backend)
qed

lemma zero_persistence_Inr:
  "assertNoPersistentWriteAllowed m p b = Inr u \<longleftrightarrow>
     (isZeroPersistenceMode m \<longrightarrow> \<not> isPersistentBackend (stp_backend p) \<and> \<not> stp_persistentAllowed p
        \<and> \<not> isPersistentBackend b \<and> stp_backend p = b)"
  by (auto simp: assertNoPersistentWriteAllowed_def assertNoPersistentBackendSelected_def)

lemma persistent_backend_cases:
  "isPersistentBackend b \<longleftrightarrow> b = SB_encrypted_persistent_placeholder \<or> (\<exists>s. b = SB_other s)"
  by (cases b) auto

lemma room_backend:
  assumes "\<not> isPersistentBackend (stp_backend p)"
  shows "\<not> isPersistentBackend (stp_backend (storage_room r p)) \<or> (\<exists>s. stp_backend (storage_room r p) = SB_other s)"
  using assms
  by (cases "stp_backend p")
    (auto simp: storage_room_def stricterBackend_def BACKEND_STRICTNESS_def persistent_backend_cases
      split: option.splits)

lemma resolve_storage_known:
  assumes "si_dataClass inp \<in> set STORAGE_DATA_CLASSES" "si_mode inp \<in> set KNOWN_MODES"
  obtains p where "p = storage_room (si_roomPolicy inp) (storage_risk (risk_of inp) (si_dataClass inp)
      (storage_shield (shield_of inp) (si_dataClass inp) (mode_baseline (si_mode inp) (si_dataClass inp)
        (si_sensitivity inp) (storage_default (si_mode inp) (si_dataClass inp)))))"
    and "resolveStoragePolicy inp = (if stp_backend p \<noteq> SB_encrypted_persistent_placeholder
      then p\<lparr>stp_persistentAllowed := False\<rparr> else p)"
  using assms by (simp add: resolveStoragePolicy_def Let_def shield_of_def risk_of_def)

lemma resolve_storage_unknown:
  assumes "\<not> (si_dataClass inp \<in> set STORAGE_DATA_CLASSES \<and> si_mode inp \<in> set KNOWN_MODES)"
  shows "resolveStoragePolicy inp = storage_unknown (si_mode inp) (si_dataClass inp)"
    and "\<not> mode_writes (si_mode inp) (si_dataClass inp) sens"
  using assms by (auto simp: resolveStoragePolicy_def mode_writes_def KNOWN_MODES_iff)

lemma resolved_core:
  assumes "si_dataClass inp \<in> set STORAGE_DATA_CLASSES \<and> si_mode inp \<in> set KNOWN_MODES"
  shows "stp_allowWrite (resolveStoragePolicy inp) \<longleftrightarrow>
      mode_writes (si_mode inp) (si_dataClass inp) (si_sensitivity inp) \<and> \<not> context_denies inp
    \<and> room_permits psp_allowWrite (si_roomPolicy inp)"
    and "stp_allowRead (resolveStoragePolicy inp) \<longleftrightarrow>
      mode_writes (si_mode inp) (si_dataClass inp) (si_sensitivity inp) \<and> \<not> context_denies inp
    \<and> room_permits psp_allowRead (si_roomPolicy inp)"
    and "\<not> stp_persistentAllowed (resolveStoragePolicy inp)"
    and "\<not> stp_allowDebugArtifacts (resolveStoragePolicy inp)"
    and "isPersistentBackend (stp_backend (resolveStoragePolicy inp)) \<Longrightarrow> isZeroPersistenceMode (si_mode inp)
      \<Longrightarrow> \<exists>s. stp_backend (resolveStoragePolicy inp) = SB_other s"
proof -
  note True = assms
  from assms obtain p where p: "p = storage_room (si_roomPolicy inp) (storage_risk (risk_of inp) (si_dataClass inp)
      (storage_shield (shield_of inp) (si_dataClass inp) (mode_baseline (si_mode inp) (si_dataClass inp)
        (si_sensitivity inp) (storage_default (si_mode inp) (si_dataClass inp)))))"
    and res: "resolveStoragePolicy inp = (if stp_backend p \<noteq> SB_encrypted_persistent_placeholder
      then p\<lparr>stp_persistentAllowed := False\<rparr> else p)"
    using resolve_storage_known by blast
  note base = mode_baseline_facts [where c = "si_dataClass inp" and m = "si_mode inp" and sens = "si_sensitivity inp"]
  have rw: "stp_allowWrite p \<longleftrightarrow> mode_writes (si_mode inp) (si_dataClass inp) (si_sensitivity inp)
      \<and> \<not> context_denies inp \<and> room_permits psp_allowWrite (si_roomPolicy inp)"
    "stp_allowRead p \<longleftrightarrow> mode_writes (si_mode inp) (si_dataClass inp) (si_sensitivity inp)
      \<and> \<not> context_denies inp \<and> room_permits psp_allowRead (si_roomPolicy inp)"
    using True unfolding p room_sel risk_sel shield_sel context_denies_def by (auto simp: base(1,2))
  have never: "\<not> stp_persistentAllowed p" "\<not> stp_allowDebugArtifacts p"
    using base(3,4) True shield_sel(5) by (auto simp: p room_sel risk_sel shield_sel)
  have room: "\<exists>s. stp_backend p = SB_other s"
    if "isPersistentBackend (stp_backend p)" "isZeroPersistenceMode (si_mode inp)"
    using that base(5) True room_backend [where r = "si_roomPolicy inp"] by (simp add: p risk_sel shield_sel)
  have flags: "stp_allowWrite (resolveStoragePolicy inp) = stp_allowWrite p"
    "stp_allowRead (resolveStoragePolicy inp) = stp_allowRead p"
    "\<not> stp_persistentAllowed (resolveStoragePolicy inp)"
    "\<not> stp_allowDebugArtifacts (resolveStoragePolicy inp)"
    "stp_backend (resolveStoragePolicy inp) = stp_backend p"
    using never by (simp_all add: res)
  show "stp_allowWrite (resolveStoragePolicy inp) \<longleftrightarrow>
      mode_writes (si_mode inp) (si_dataClass inp) (si_sensitivity inp) \<and> \<not> context_denies inp
    \<and> room_permits psp_allowWrite (si_roomPolicy inp)"
    "stp_allowRead (resolveStoragePolicy inp) \<longleftrightarrow>
      mode_writes (si_mode inp) (si_dataClass inp) (si_sensitivity inp) \<and> \<not> context_denies inp
    \<and> room_permits psp_allowRead (si_roomPolicy inp)"
    using rw flags by blast+
  show "\<not> stp_persistentAllowed (resolveStoragePolicy inp)" "\<not> stp_allowDebugArtifacts (resolveStoragePolicy inp)"
    using flags by blast+
  show "\<exists>s. stp_backend (resolveStoragePolicy inp) = SB_other s"
    if "isPersistentBackend (stp_backend (resolveStoragePolicy inp))" "isZeroPersistenceMode (si_mode inp)"
    using that room flags(5) by simp
qed

text \<open>A write policy is never more than the mode's table.\<close>

lemma resolved_writes:
  assumes "stp_allowWrite (resolveStoragePolicy inp)"
  shows "mode_writes (si_mode inp) (si_dataClass inp) (si_sensitivity inp)"
proof (cases "si_dataClass inp \<in> set STORAGE_DATA_CLASSES \<and> si_mode inp \<in> set KNOWN_MODES")
  case True
  then show ?thesis using resolved_core(1) assms by blast
next
  case False
  then show ?thesis using assms resolve_storage_unknown [OF False] by (simp add: storage_unknown_def)
qed

lemma stp_mode_kept [simp]:
  "stp_mode (storage_reason x p) = stp_mode p" "stp_mode (storage_deny x p) = stp_mode p"
  by (simp_all add: storage_reason_def storage_deny_def)

lemma resolved_mode: "stp_mode (resolveStoragePolicy inp) = si_mode inp"
proof -
  have *: "stp_mode (storage_shield l c p) = stp_mode p" "stp_mode (storage_risk k c p) = stp_mode p"
    "stp_mode (storage_room r p) = stp_mode p" for l k c r p
    by (auto simp: storage_shield_def storage_risk_def storage_room_def Let_def split: option.splits)
  have "stp_mode (mode_baseline m c sens (storage_default m c)) = m" for m c sens
    by (simp add: mode_baseline_def baseline_kept storage_default_def split: privacy_mode.splits)
  then show ?thesis
    by (auto simp: resolveStoragePolicy_def storage_unknown_def storage_default_def * Let_def)
qed


text \<open>A room's policy only tightens: with any room policy, every permission is one the policy without
  it gives, and the backend is at most as permissive on the strictness scale.\<close>

theorem storage_room_tightens:
  "let p = resolveStoragePolicy inp; q = resolveStoragePolicy (inp\<lparr>si_roomPolicy := None\<rparr>)
   in stp_allowWrite p \<le> stp_allowWrite q \<and> stp_allowRead p \<le> stp_allowRead q
    \<and> stp_allowDelete p \<le> stp_allowDelete q \<and> stp_allowList p \<le> stp_allowList q
    \<and> stp_allowExport p \<le> stp_allowExport q \<and> stp_allowCache p \<le> stp_allowCache q
    \<and> stp_plaintextAllowed p \<le> stp_plaintextAllowed q
    \<and> js_indexOf (stp_backend p) BACKEND_STRICTNESS \<le> js_indexOf (stp_backend q) BACKEND_STRICTNESS"
proof (cases "si_dataClass inp \<in> set STORAGE_DATA_CLASSES \<and> si_mode inp \<in> set KNOWN_MODES")
  case False
  then have "resolveStoragePolicy inp = resolveStoragePolicy (inp\<lparr>si_roomPolicy := None\<rparr>)"
    using resolve_storage_unknown(1) [of inp] resolve_storage_unknown(1) [of "inp\<lparr>si_roomPolicy := None\<rparr>"] by simp
  then show ?thesis by (simp add: Let_def)
next
  case True
  define q where "q = storage_risk (risk_of inp) (si_dataClass inp)
      (storage_shield (shield_of inp) (si_dataClass inp) (mode_baseline (si_mode inp) (si_dataClass inp)
        (si_sensitivity inp) (storage_default (si_mode inp) (si_dataClass inp))))"
  have with_room: "resolveStoragePolicy (inp\<lparr>si_roomPolicy := r\<rparr>) =
      (if stp_backend (storage_room r q) \<noteq> SB_encrypted_persistent_placeholder
       then (storage_room r q)\<lparr>stp_persistentAllowed := False\<rparr> else storage_room r q)" for r
    unfolding q_def resolveStoragePolicy_def Let_def shield_of_def risk_of_def using True by simp
  have flags: "stp_allowWrite (resolveStoragePolicy (inp\<lparr>si_roomPolicy := r\<rparr>)) = stp_allowWrite (storage_room r q)"
    "stp_allowRead (resolveStoragePolicy (inp\<lparr>si_roomPolicy := r\<rparr>)) = stp_allowRead (storage_room r q)"
    "stp_allowDelete (resolveStoragePolicy (inp\<lparr>si_roomPolicy := r\<rparr>)) = stp_allowDelete (storage_room r q)"
    "stp_allowList (resolveStoragePolicy (inp\<lparr>si_roomPolicy := r\<rparr>)) = stp_allowList (storage_room r q)"
    "stp_allowExport (resolveStoragePolicy (inp\<lparr>si_roomPolicy := r\<rparr>)) = stp_allowExport (storage_room r q)"
    "stp_allowCache (resolveStoragePolicy (inp\<lparr>si_roomPolicy := r\<rparr>)) = stp_allowCache (storage_room r q)"
    "stp_plaintextAllowed (resolveStoragePolicy (inp\<lparr>si_roomPolicy := r\<rparr>)) = stp_plaintextAllowed (storage_room r q)"
    "stp_backend (resolveStoragePolicy (inp\<lparr>si_roomPolicy := r\<rparr>)) = stp_backend (storage_room r q)" for r
    by (simp_all add: with_room)
  have none: "storage_room None q = q" by (simp add: storage_room_def)
  have backend: "js_indexOf (stp_backend (storage_room r q)) BACKEND_STRICTNESS
      \<le> js_indexOf (stp_backend q) BACKEND_STRICTNESS" for r
    by (auto simp: storage_room_def stricterBackend_def split: option.splits)
  have "let p = resolveStoragePolicy (inp\<lparr>si_roomPolicy := r\<rparr>);
        q = resolveStoragePolicy (inp\<lparr>si_roomPolicy := None\<rparr>)
     in stp_allowWrite p \<le> stp_allowWrite q \<and> stp_allowRead p \<le> stp_allowRead q
      \<and> stp_allowDelete p \<le> stp_allowDelete q \<and> stp_allowList p \<le> stp_allowList q
      \<and> stp_allowExport p \<le> stp_allowExport q \<and> stp_allowCache p \<le> stp_allowCache q
      \<and> stp_plaintextAllowed p \<le> stp_plaintextAllowed q
      \<and> js_indexOf (stp_backend p) BACKEND_STRICTNESS \<le> js_indexOf (stp_backend q) BACKEND_STRICTNESS" for r
    unfolding Let_def flags none room_sel using backend by auto
  from this [of "si_roomPolicy inp"] show ?thesis by simp
qed

end
