(* ===== verification/Storage_Provider.thy ===== *)
theory Storage_Provider
  imports Storage_Policy "HOL-Library.AList"
begin

text \<open>
  The storage barrier and the providers of \<open>packages/storage/src/\<close>: \<open>barrier.ts\<close>,
  \<open>keys.ts\<close>, \<open>values.ts\<close>, \<open>results.ts\<close> and \<open>providers.ts\<close>.  A
  provider's call is a function of the decision registry, the call, the decision, the policy and
  the provider's records; it returns the result or the error and the records afterwards.  The
  records are an association list in the insertion order of the JavaScript map.
\<close>

section \<open>Requests and results\<close>

record storage_write_request =
  sw_operation :: storage_operation
  sw_dataClass :: storage_class
  sw_key :: jstr
  sw_value :: jsval
  sw_sensitivity :: storage_sensitivity

record storage_read_request =
  srq_operation :: storage_operation
  srq_dataClass :: storage_class
  srq_key :: jstr

record storage_list_entry =
  sle_key :: jstr
  sle_dataClass :: storage_class
  sle_sensitivity :: storage_sensitivity
  sle_createdAtLocal :: jstr
  sle_updatedAtLocal :: jstr
  sle_policyMode :: privacy_mode

text \<open>A write carries the reading of the clock; delete requests have the shape of read requests.\<close>

datatype storage_call =
    Call_write storage_write_request jstr
  | Call_read storage_read_request
  | Call_delete storage_class jstr
  | Call_list storage_class
  | Call_clear "storage_class option"

fun call_operation :: "storage_call \<Rightarrow> storage_operation" where
  "call_operation (Call_write r now) = sw_operation r"
| "call_operation (Call_read r) = srq_operation r"
| "call_operation (Call_delete c k) = STO_delete"
| "call_operation (Call_list c) = STO_list"
| "call_operation (Call_clear c) = STO_clear"

datatype storage_result =
    SR_write storage_backend storage_class
  | SR_read storage_backend storage_class "jsval option"
  | SR_delete storage_backend storage_class
  | SR_list storage_backend "storage_list_entry list"
  | SR_clear storage_backend

section \<open>The barrier\<close>

definition expectedCapability :: "storage_operation \<Rightarrow> policy_capability" where
  "expectedCapability operation =
     (if operation = STO_cache_write \<or> operation = STO_cache_read then Cap_mediaCache else Cap_persistence)"

definition assertStorageDecisionValid ::
  "privacy_state \<Rightarrow> dref \<Rightarrow> storage_operation \<Rightarrow> unit res" where
  "assertStorageDecisionValid s decision operation =
     ebind (need (StorageError StorageBypassAttempt) (authentic s decision)) (\<lambda>d.
     ebind (throw_if (pd_verdict d \<noteq> Allowed) (StorageError StoragePolicyDenied)) (\<lambda>_.
     ebind (throw_if (pd_capability d \<noteq> expectedCapability operation)
       (StorageError StorageDecisionMismatch)) (\<lambda>_.
     throw_if (pd_sideEffect d \<noteq> storage_operation_name operation)
       (StorageError StorageDecisionMismatch))))"

definition assertBackendUsable :: "storage_policy \<Rightarrow> backend_capability res" where
  "assertBackendUsable policy =
     ebind (need (StorageError StorageBypassAttempt) (STORAGE_BACKEND_CAPABILITIES (stp_backend policy))) (\<lambda>c.
     ebind (throw_if (\<not> bc_implemented c) (StorageError StorageBackendNotImplemented)) (\<lambda>_.
     Inr c))"

definition assertStorageWriteAllowed ::
  "privacy_state \<Rightarrow> dref \<Rightarrow> storage_write_request \<times> storage_policy \<Rightarrow> unit res" where
  "assertStorageWriteAllowed s decision q =
     (let request = fst q; policy = snd q;
          restricted = (sw_sensitivity request \<in> set PLAINTEXT_RESTRICTED_SENSITIVITIES)
      in ebind (assertStorageDecisionValid s decision (sw_operation request)) (\<lambda>_.
         ebind (throw_if (\<not> stp_allowWrite policy) (StorageError StoragePolicyDenied)) (\<lambda>_.
         ebind (throw_if (sw_operation request = STO_cache_write \<and> \<not> stp_allowCache policy)
           (StorageError ForbiddenCacheWrite)) (\<lambda>_.
         ebind (throw_if (sw_dataClass request = SC_debug_artifact \<and> \<not> stp_allowDebugArtifacts policy)
           (StorageError ForbiddenDebugArtifact)) (\<lambda>_.
         ebind (throw_if ((sw_dataClass request = SC_logs \<or> sw_operation request = STO_audit_write
               \<or> sw_dataClass request \<in> set ENDPOINT_CLASSES) \<and> restricted)
           (StorageError ForbiddenDebugArtifact)) (\<lambda>_.
         ebind (assertBackendUsable policy) (\<lambda>backend.
         ebind (throw_if (bc_persistent backend \<and> \<not> stp_persistentAllowed policy)
           (StorageError ForbiddenPersistentWrite)) (\<lambda>_.
         throw_if (bc_persistent backend \<and> \<not> stp_plaintextAllowed policy \<and> restricted)
           (StorageError ForbiddenPersistentWrite)))))))))"

definition assertStorageReadAllowed ::
  "privacy_state \<Rightarrow> dref \<Rightarrow> storage_read_request \<times> storage_policy \<Rightarrow> unit res" where
  "assertStorageReadAllowed s decision q =
     (let request = fst q; policy = snd q
      in ebind (assertStorageDecisionValid s decision (srq_operation request)) (\<lambda>_.
         ebind (throw_if (\<not> stp_allowRead policy) (StorageError StoragePolicyDenied)) (\<lambda>_.
         ebind (throw_if (srq_operation request = STO_cache_read \<and> \<not> stp_allowCache policy)
           (StorageError ForbiddenCacheWrite)) (\<lambda>_.
         ebind (assertBackendUsable policy) (\<lambda>_. Inr ())))))"

definition assertStorageDeleteAllowed :: "privacy_state \<Rightarrow> dref \<Rightarrow> storage_policy \<Rightarrow> unit res" where
  "assertStorageDeleteAllowed s decision policy =
     ebind (assertStorageDecisionValid s decision STO_delete) (\<lambda>_.
     ebind (throw_if (\<not> stp_allowDelete policy) (StorageError StoragePolicyDenied)) (\<lambda>_.
     ebind (assertBackendUsable policy) (\<lambda>_. Inr ())))"

definition assertStorageManagementAllowed ::
  "privacy_state \<Rightarrow> dref \<Rightarrow> storage_operation \<times> storage_policy \<Rightarrow> unit res" where
  "assertStorageManagementAllowed s decision q =
     (let operation = fst q; policy = snd q
      in ebind (assertStorageDecisionValid s decision operation) (\<lambda>_.
         ebind (throw_if (\<not> (if operation = STO_list then stp_allowList policy else stp_allowDelete policy))
           (StorageError StoragePolicyDenied)) (\<lambda>_.
         ebind (assertBackendUsable policy) (\<lambda>_. Inr ()))))"

section \<open>Keys and values\<close>

definition MAX_KEY_LENGTH :: nat where "MAX_KEY_LENGTH = 256"

definition URL_SCHEMES :: "jstr list" where
  "URL_SCHEMES = map js [''http:'', ''https:'', ''file:'', ''data:'', ''blob:'']"

definition windows_drive :: "jstr \<Rightarrow> bool" where
  "windows_drive s = (case s of a # b # c # _ \<Rightarrow>
     0x61 \<le> ascii_lower a \<and> ascii_lower a \<le> 0x7a \<and> b = 0x3a \<and> (c = 0x5c \<or> c = 0x2f) | _ \<Rightarrow> False)"

definition validateStorageKey :: "jstr \<Rightarrow> jstr res" where
  "validateStorageKey key =
     (let invalid = (key = [] \<or> js_trim key = [] \<or> length key > MAX_KEY_LENGTH
        \<or> 0 \<in> set key \<or> 0x0a \<in> set key \<or> 0x0d \<in> set key
        \<or> includes_js key (js ''../'') \<or> includes_js key (js ''..'' @ [0x5c])
        \<or> starts_with key (js ''/'') \<or> starts_with key [0x5c] \<or> windows_drive key
        \<or> list_ex (starts_with (map ascii_lower key)) URL_SCHEMES
        \<or> includes_js key (js ''FREELAYER_SECRET_SENTINEL'') \<or> includes_js key (js ''DO_NOT_LEAK''))
      in ebind (throw_if invalid (StorageError InvalidStorageKey)) (\<lambda>_. Inr key))"

definition cloneStorageValue :: "jsval \<Rightarrow> jsval res" where
  "cloneStorageValue v = ebind (throw_if (\<not> cloneable v) (StorageError UnsupportedStorageValue)) (\<lambda>_. Inr v)"

section \<open>The memory provider\<close>

record memory_record =
  sr_key :: jstr
  sr_dataClass :: storage_class
  sr_sensitivity :: storage_sensitivity
  sr_value :: jsval
  sr_createdAtLocal :: jstr
  sr_updatedAtLocal :: jstr
  sr_policyMode :: privacy_mode

type_synonym memory_records = "(jstr \<times> memory_record) list"

definition entryKey :: "storage_class \<Rightarrow> jstr \<Rightarrow> jstr" where
  "entryKey dataClass key = storage_class_name dataClass @ [0] @ key"

definition assertPolicyTargetsBackend :: "storage_policy \<Rightarrow> storage_backend \<Rightarrow> unit res" where
  "assertPolicyTargetsBackend policy backend =
     throw_if (stp_backend policy \<noteq> backend) (StorageError StorageBypassAttempt)"

definition memory_write ::
  "privacy_state \<Rightarrow> storage_write_request \<Rightarrow> jstr \<Rightarrow> dref \<Rightarrow> storage_policy \<Rightarrow> memory_records
     \<Rightarrow> (storage_result \<times> memory_records) res" where
  "memory_write s request now decision policy records =
     ebind (assertPolicyTargetsBackend policy SB_memory_only) (\<lambda>_.
     ebind (validateStorageKey (sw_key request)) (\<lambda>key.
     ebind (assertStorageWriteAllowed s decision (request, policy)) (\<lambda>_.
     let ek = entryKey (sw_dataClass request) key
     in ebind (cloneStorageValue (sw_value request)) (\<lambda>value.
        Inr (SR_write SB_memory_only (sw_dataClass request),
          AList.update ek \<lparr>sr_key = key, sr_dataClass = sw_dataClass request,
            sr_sensitivity = sw_sensitivity request, sr_value = value,
            sr_createdAtLocal = (case map_of records ek of None \<Rightarrow> now | Some old \<Rightarrow> sr_createdAtLocal old),
            sr_updatedAtLocal = now, sr_policyMode = stp_mode policy\<rparr> records)))))"

definition memory_read ::
  "privacy_state \<Rightarrow> storage_read_request \<Rightarrow> dref \<Rightarrow> storage_policy \<Rightarrow> memory_records \<Rightarrow> storage_result res" where
  "memory_read s request decision policy records =
     ebind (assertPolicyTargetsBackend policy SB_memory_only) (\<lambda>_.
     ebind (validateStorageKey (srq_key request)) (\<lambda>key.
     ebind (assertStorageReadAllowed s decision (request, policy)) (\<lambda>_.
     case map_of records (entryKey (srq_dataClass request) key) of
       None \<Rightarrow> Inr (SR_read SB_memory_only (srq_dataClass request) None)
     | Some record \<Rightarrow> ebind (cloneStorageValue (sr_value record)) (\<lambda>v.
         Inr (SR_read SB_memory_only (srq_dataClass request) (Some v))))))"

definition memory_delete ::
  "privacy_state \<Rightarrow> storage_class \<Rightarrow> jstr \<Rightarrow> dref \<Rightarrow> storage_policy \<Rightarrow> memory_records
     \<Rightarrow> (storage_result \<times> memory_records) res" where
  "memory_delete s dataClass key0 decision policy records =
     ebind (assertPolicyTargetsBackend policy SB_memory_only) (\<lambda>_.
     ebind (validateStorageKey key0) (\<lambda>key.
     ebind (assertStorageDeleteAllowed s decision policy) (\<lambda>_.
     Inr (SR_delete SB_memory_only dataClass, AList.delete (entryKey dataClass key) records))))"

definition list_entry :: "memory_record \<Rightarrow> storage_list_entry" where
  "list_entry r = \<lparr>sle_key = sr_key r, sle_dataClass = sr_dataClass r, sle_sensitivity = sr_sensitivity r,
     sle_createdAtLocal = sr_createdAtLocal r, sle_updatedAtLocal = sr_updatedAtLocal r,
     sle_policyMode = sr_policyMode r\<rparr>"

definition memory_list ::
  "privacy_state \<Rightarrow> storage_class \<Rightarrow> dref \<Rightarrow> storage_policy \<Rightarrow> memory_records \<Rightarrow> storage_result res" where
  "memory_list s dataClass decision policy records =
     ebind (assertPolicyTargetsBackend policy SB_memory_only) (\<lambda>_.
     ebind (assertStorageManagementAllowed s decision (STO_list, policy)) (\<lambda>_.
     Inr (SR_list SB_memory_only
       (map list_entry (filter (\<lambda>r. sr_dataClass r = dataClass) (map snd records))))))"

definition memory_clear ::
  "privacy_state \<Rightarrow> storage_class option \<Rightarrow> dref \<Rightarrow> storage_policy \<Rightarrow> memory_records
     \<Rightarrow> (storage_result \<times> memory_records) res" where
  "memory_clear s dataClass decision policy records =
     ebind (assertPolicyTargetsBackend policy SB_memory_only) (\<lambda>_.
     ebind (assertStorageManagementAllowed s decision (STO_clear, policy)) (\<lambda>_.
     Inr (SR_clear SB_memory_only, case dataClass of None \<Rightarrow> []
       | Some c \<Rightarrow> filter (\<lambda>e. sr_dataClass (snd e) \<noteq> c) records)))"

text \<open>One call of the provider; an error leaves the records as they were.\<close>

definition kept_state :: "'st \<Rightarrow> ('r \<times> 'st) res \<Rightarrow> 'r res \<times> 'st" where
  "kept_state st r = (case r of Inl e \<Rightarrow> (Inl e, st) | Inr (x, st') \<Rightarrow> (Inr x, st'))"

fun memory_call ::
  "privacy_state \<Rightarrow> storage_call \<Rightarrow> dref \<Rightarrow> storage_policy \<Rightarrow> memory_records
     \<Rightarrow> storage_result res \<times> memory_records" where
  "memory_call s (Call_write request now) d p m = kept_state m (memory_write s request now d p m)"
| "memory_call s (Call_read request) d p m = (memory_read s request d p m, m)"
| "memory_call s (Call_delete c k) d p m = kept_state m (memory_delete s c k d p m)"
| "memory_call s (Call_list c) d p m = (memory_list s c d p m, m)"
| "memory_call s (Call_clear c) d p m = kept_state m (memory_clear s c d p m)"

section \<open>The null provider and the placeholder\<close>

fun null_storage_call :: "privacy_state \<Rightarrow> storage_call \<Rightarrow> dref \<Rightarrow> storage_policy \<Rightarrow> storage_result res" where
  "null_storage_call s (Call_write request now) d p =
     ebind (assertPolicyTargetsBackend p SB_null) (\<lambda>_.
     ebind (validateStorageKey (sw_key request)) (\<lambda>_.
     ebind (assertStorageWriteAllowed s d (request, p)) (\<lambda>_. Inr (SR_write SB_null (sw_dataClass request)))))"
| "null_storage_call s (Call_read request) d p =
     ebind (assertPolicyTargetsBackend p SB_null) (\<lambda>_.
     ebind (validateStorageKey (srq_key request)) (\<lambda>_.
     ebind (assertStorageReadAllowed s d (request, p)) (\<lambda>_.
     Inr (SR_read SB_null (srq_dataClass request) None))))"
| "null_storage_call s (Call_delete c k) d p =
     ebind (assertPolicyTargetsBackend p SB_null) (\<lambda>_.
     ebind (validateStorageKey k) (\<lambda>_.
     ebind (assertStorageDeleteAllowed s d p) (\<lambda>_. Inr (SR_delete SB_null c))))"
| "null_storage_call s (Call_list c) d p =
     ebind (assertPolicyTargetsBackend p SB_null) (\<lambda>_.
     ebind (assertStorageManagementAllowed s d (STO_list, p)) (\<lambda>_. Inr (SR_list SB_null [])))"
| "null_storage_call s (Call_clear c) d p =
     ebind (assertPolicyTargetsBackend p SB_null) (\<lambda>_.
     ebind (assertStorageManagementAllowed s d (STO_clear, p)) (\<lambda>_. Inr (SR_clear SB_null)))"

definition placeholder_call ::
  "privacy_state \<Rightarrow> storage_call \<Rightarrow> dref \<Rightarrow> storage_policy \<Rightarrow> storage_result res" where
  "placeholder_call s call d p = Inl (StorageError StorageBackendNotImplemented)"

section \<open>Laws of the barrier\<close>

lemma storage_decision_Inr:
  "assertStorageDecisionValid s r op = Inr u \<longleftrightarrow> (\<exists>d. authentic s r = Some d \<and> pd_verdict d = Allowed
     \<and> pd_capability d = expectedCapability op \<and> pd_sideEffect d = storage_operation_name op)"
  unfolding assertStorageDecisionValid_def ebind_eq_Inr throw_if_eq_Inr need_eq_Inr by auto

lemma assertBackendUsable_Inr:
  "assertBackendUsable p = Inr c \<longleftrightarrow> (stp_backend p = SB_memory_only \<or> stp_backend p = SB_null)
     \<and> c = \<lparr>bc_persistent = False, bc_encrypted = False, bc_implemented = True\<rparr>"
  unfolding assertBackendUsable_def ebind_eq_Inr throw_if_eq_Inr need_eq_Inr
  by (cases "stp_backend p") auto

definition write_permitted :: "storage_write_request \<Rightarrow> storage_policy \<Rightarrow> bool" where
  "write_permitted request p \<longleftrightarrow> stp_allowWrite p
     \<and> \<not> (sw_operation request = STO_cache_write \<and> \<not> stp_allowCache p)
     \<and> \<not> (sw_dataClass request = SC_debug_artifact \<and> \<not> stp_allowDebugArtifacts p)
     \<and> \<not> ((sw_dataClass request = SC_logs \<or> sw_operation request = STO_audit_write
           \<or> sw_dataClass request \<in> set ENDPOINT_CLASSES)
         \<and> sw_sensitivity request \<in> set PLAINTEXT_RESTRICTED_SENSITIVITIES)
     \<and> (stp_backend p = SB_memory_only \<or> stp_backend p = SB_null)"

lemma storage_write_Inr:
  "assertStorageWriteAllowed s r (request, p) = Inr u \<longleftrightarrow>
     assertStorageDecisionValid s r (sw_operation request) = Inr () \<and> write_permitted request p"
  unfolding assertStorageWriteAllowed_def Let_def ebind_eq_Inr throw_if_eq_Inr fst_conv snd_conv
    assertBackendUsable_Inr write_permitted_def by auto

lemma storage_read_Inr:
  "assertStorageReadAllowed s r (request, p) = Inr u \<longleftrightarrow>
     assertStorageDecisionValid s r (srq_operation request) = Inr () \<and> stp_allowRead p
   \<and> \<not> (srq_operation request = STO_cache_read \<and> \<not> stp_allowCache p)
   \<and> (stp_backend p = SB_memory_only \<or> stp_backend p = SB_null)"
  unfolding assertStorageReadAllowed_def Let_def ebind_eq_Inr throw_if_eq_Inr fst_conv snd_conv
    assertBackendUsable_Inr by auto

lemma storage_delete_Inr:
  "assertStorageDeleteAllowed s r p = Inr u \<longleftrightarrow> assertStorageDecisionValid s r STO_delete = Inr ()
   \<and> stp_allowDelete p \<and> (stp_backend p = SB_memory_only \<or> stp_backend p = SB_null)"
  unfolding assertStorageDeleteAllowed_def ebind_eq_Inr throw_if_eq_Inr assertBackendUsable_Inr by auto

lemma storage_management_Inr:
  "assertStorageManagementAllowed s r (op, p) = Inr u \<longleftrightarrow> assertStorageDecisionValid s r op = Inr ()
   \<and> (if op = STO_list then stp_allowList p else stp_allowDelete p)
   \<and> (stp_backend p = SB_memory_only \<or> stp_backend p = SB_null)"
  unfolding assertStorageManagementAllowed_def Let_def ebind_eq_Inr throw_if_eq_Inr fst_conv snd_conv
    assertBackendUsable_Inr by auto

interpretation storage_write_gate: capability_gate assertStorageWriteAllowed
    "\<lambda>q. storage_operation_name (sw_operation (fst q))" "\<lambda>q. {expectedCapability (sw_operation (fst q))}"
  by unfold_locales (auto simp: storage_write_Inr storage_decision_Inr)

interpretation storage_read_gate: capability_gate assertStorageReadAllowed
    "\<lambda>q. storage_operation_name (srq_operation (fst q))" "\<lambda>q. {expectedCapability (srq_operation (fst q))}"
  by unfold_locales (auto simp: storage_read_Inr storage_decision_Inr)

interpretation storage_delete_gate: capability_gate assertStorageDeleteAllowed
    "\<lambda>p. ''storage.delete''" "\<lambda>p. {Cap_persistence}"
  by unfold_locales (auto simp: storage_delete_Inr storage_decision_Inr expectedCapability_def)

interpretation storage_management_gate: capability_gate assertStorageManagementAllowed
    "\<lambda>q. storage_operation_name (fst q)" "\<lambda>q. {expectedCapability (fst q)}"
  by unfold_locales (auto simp: storage_management_Inr storage_decision_Inr)

section \<open>The contract of a provider\<close>

text \<open>A sequence of calls, each with its registry state, decision and policy.\<close>

fun storage_run ::
  "(privacy_state \<Rightarrow> storage_call \<Rightarrow> dref \<Rightarrow> storage_policy \<Rightarrow> 'st \<Rightarrow> storage_result res \<times> 'st)
     \<Rightarrow> (privacy_state \<times> storage_call \<times> dref \<times> storage_policy) list \<Rightarrow> 'st \<Rightarrow> 'st" where
  "storage_run call [] st = st"
| "storage_run call ((s, c, d, p) # cs) st = storage_run call cs (snd (call s c d p st))"

text \<open>What every provider promises: a refused call changes nothing, and an accepted one had an
  authentic allowed decision of exactly its operation and capability and a policy for this
  backend.\<close>

locale storage_provider =
  fixes call :: "privacy_state \<Rightarrow> storage_call \<Rightarrow> dref \<Rightarrow> storage_policy \<Rightarrow> 'st \<Rightarrow> storage_result res \<times> 'st"
    and kind :: storage_backend
  assumes refused: "call s c d p st = (Inl e, st') \<Longrightarrow> st' = st"
    and authorised: "call s c d p st = (Inr r, st') \<Longrightarrow>
      assertStorageDecisionValid s d (call_operation c) = Inr () \<and> stp_backend p = kind"
begin

lemma unauthorised_unchanged:
  assumes "assertStorageDecisionValid s d (call_operation c) \<noteq> Inr () \<or> stp_backend p \<noteq> kind"
  shows "snd (call s c d p st) = st"
proof (cases "call s c d p st")
  case (Pair x st')
  then show ?thesis
  proof (cases x)
    case (Inl e)
    then show ?thesis using refused [of s c d p st e st'] Pair by simp
  next
    case (Inr r)
    then show ?thesis using authorised [of s c d p st r st'] assms Pair by blast
  qed
qed

lemma unauthorised_run:
  "list_all (\<lambda>(s, c, d, p). assertStorageDecisionValid s d (call_operation c) \<noteq> Inr () \<or> stp_backend p \<noteq> kind) cs
   \<Longrightarrow> storage_run call cs st = st"
  by (induction cs arbitrary: st) (auto simp: unauthorised_unchanged)

end

lemma kept_state_eq:
  "kept_state st r = (Inl e, st') \<longleftrightarrow> r = Inl e \<and> st' = st"
  "kept_state st r = (Inr x, st') \<longleftrightarrow> r = Inr (x, st')"
  by (auto simp: kept_state_def split: sum.splits)

lemma validateStorageKey_Inr: "validateStorageKey k = Inr k' \<Longrightarrow> k' = k \<and> 0 \<notin> set k \<and> k \<noteq> []"
  by (auto simp: validateStorageKey_def Let_def)

lemma cloneStorageValue_Inr: "cloneStorageValue v = Inr w \<longleftrightarrow> w = v \<and> cloneable v"
  by (auto simp: cloneStorageValue_def)

lemma targets_Inr: "assertPolicyTargetsBackend p b = Inr u \<longleftrightarrow> stp_backend p = b"
  by (simp add: assertPolicyTargetsBackend_def)

lemmas provider_Inr = ebind_eq_Inr targets_Inr storage_write_Inr storage_read_Inr storage_delete_Inr
  storage_management_Inr cloneStorageValue_Inr

interpretation memory_provider: storage_provider memory_call SB_memory_only
proof
  show "memory_call s c d p st = (Inl e, st') \<Longrightarrow> st' = st" for s c d p st e st'
    by (cases c) (auto simp: kept_state_eq)
  show "memory_call s c d p st = (Inr r, st') \<Longrightarrow>
      assertStorageDecisionValid s d (call_operation c) = Inr () \<and> stp_backend p = SB_memory_only" for s c d p st r st'
    by (cases c) (auto simp: kept_state_eq memory_write_def memory_read_def memory_delete_def memory_list_def
        memory_clear_def provider_Inr Let_def)
qed

interpretation null_provider: storage_provider "\<lambda>s c d p st. (null_storage_call s c d p, st)" SB_null
proof
  show "(null_storage_call s c d p, st) = (Inr r, st') \<Longrightarrow>
      assertStorageDecisionValid s d (call_operation c) = Inr () \<and> stp_backend p = SB_null"
    for s c d p and st :: 'b and r st'
    by (cases c) (auto simp: provider_Inr)
qed simp

interpretation placeholder_provider:
  storage_provider "\<lambda>s c d p st. (placeholder_call s c d p, st)" SB_encrypted_persistent_placeholder
  by unfold_locales (simp_all add: placeholder_call_def)

end
