(* ===== verification/Storage_Memory.thy ===== *)
theory Storage_Memory
  imports Storage_Provider
begin

text \<open>
  The memory provider of \<open>packages/storage/src/providers.ts\<close> against its abstract
  contract: a finite map from a data class and a key to a record.  The provider files its records
  under one string, the class, a NUL and the key; its invariant makes that encoding injective, so
  each accepted call is the map operation of its name and each refused call changes nothing.
\<close>

section \<open>The abstract store\<close>

type_synonym abstract_store = "storage_class \<times> jstr \<Rightarrow> memory_record option"

definition store_view :: "memory_records \<Rightarrow> abstract_store" where
  "store_view m = map_of (map (\<lambda>e. ((sr_dataClass (snd e), sr_key (snd e)), snd e)) m)"

definition stored_record ::
  "storage_write_request \<Rightarrow> jstr \<Rightarrow> privacy_mode \<Rightarrow> memory_record option \<Rightarrow> memory_record" where
  "stored_record w now mode old = \<lparr>sr_key = sw_key w, sr_dataClass = sw_dataClass w,
     sr_sensitivity = sw_sensitivity w, sr_value = sw_value w,
     sr_createdAtLocal = (case old of None \<Rightarrow> now | Some r \<Rightarrow> sr_createdAtLocal r),
     sr_updatedAtLocal = now, sr_policyMode = mode\<rparr>"

fun spec_store :: "storage_call \<Rightarrow> privacy_mode \<Rightarrow> abstract_store \<Rightarrow> abstract_store" where
  "spec_store (Call_write w now) mode v =
     (let ck = (sw_dataClass w, sw_key w) in v(ck \<mapsto> stored_record w now mode (v ck)))"
| "spec_store (Call_read q) mode v = v"
| "spec_store (Call_delete c k) mode v = v((c, k) := None)"
| "spec_store (Call_list c) mode v = v"
| "spec_store (Call_clear c) mode v =
     (\<lambda>ck. if c = None \<or> c = Some (fst ck) then None else v ck)"

text \<open>What the caller is told: a read yields the stored value, a list one entry for each key of
  the class.\<close>

fun spec_result :: "storage_call \<Rightarrow> abstract_store \<Rightarrow> storage_result \<Rightarrow> bool" where
  "spec_result (Call_write w now) v r \<longleftrightarrow> r = SR_write SB_memory_only (sw_dataClass w)"
| "spec_result (Call_read q) v r \<longleftrightarrow> r = SR_read SB_memory_only (srq_dataClass q)
     (map_option sr_value (v (srq_dataClass q, srq_key q)))"
| "spec_result (Call_delete c k) v r \<longleftrightarrow> r = SR_delete SB_memory_only c"
| "spec_result (Call_list c) v r \<longleftrightarrow> (\<exists>es. r = SR_list SB_memory_only es \<and> distinct (map sle_key es)
     \<and> set es = {list_entry x | k x. v (c, k) = Some x})"
| "spec_result (Call_clear c) v r \<longleftrightarrow> r = SR_clear SB_memory_only"

text \<open>Which calls are accepted does not depend on what is stored.\<close>

fun storage_accepts :: "privacy_state \<Rightarrow> storage_call \<Rightarrow> dref \<Rightarrow> storage_policy \<Rightarrow> bool" where
  "storage_accepts s (Call_write w now) d p \<longleftrightarrow> stp_backend p = SB_memory_only
     \<and> validateStorageKey (sw_key w) = Inr (sw_key w)
     \<and> assertStorageDecisionValid s d (sw_operation w) = Inr () \<and> write_permitted w p
     \<and> cloneable (sw_value w)"
| "storage_accepts s (Call_read q) d p \<longleftrightarrow> stp_backend p = SB_memory_only
     \<and> validateStorageKey (srq_key q) = Inr (srq_key q)
     \<and> assertStorageDecisionValid s d (srq_operation q) = Inr ()
     \<and> stp_allowRead p \<and> \<not> (srq_operation q = STO_cache_read \<and> \<not> stp_allowCache p)"
| "storage_accepts s (Call_delete c k) d p \<longleftrightarrow> stp_backend p = SB_memory_only
     \<and> validateStorageKey k = Inr k
     \<and> assertStorageDecisionValid s d STO_delete = Inr () \<and> stp_allowDelete p"
| "storage_accepts s (Call_list c) d p \<longleftrightarrow> stp_backend p = SB_memory_only
     \<and> assertStorageDecisionValid s d STO_list = Inr () \<and> stp_allowList p"
| "storage_accepts s (Call_clear c) d p \<longleftrightarrow> stp_backend p = SB_memory_only
     \<and> assertStorageDecisionValid s d STO_clear = Inr () \<and> stp_allowDelete p"

fun call_classes_known :: "storage_call \<Rightarrow> bool" where
  "call_classes_known (Call_write w now) \<longleftrightarrow> sw_dataClass w \<in> set STORAGE_DATA_CLASSES"
| "call_classes_known (Call_read q) \<longleftrightarrow> srq_dataClass q \<in> set STORAGE_DATA_CLASSES"
| "call_classes_known (Call_delete c k) \<longleftrightarrow> c \<in> set STORAGE_DATA_CLASSES"
| "call_classes_known (Call_list c) \<longleftrightarrow> c \<in> set STORAGE_DATA_CLASSES"
| "call_classes_known (Call_clear c) \<longleftrightarrow> True"

fun spec_run ::
  "(privacy_state \<times> storage_call \<times> dref \<times> storage_policy) list \<Rightarrow> abstract_store \<Rightarrow> abstract_store" where
  "spec_run [] v = v"
| "spec_run ((s, c, d, p) # cs) v =
     spec_run cs (if storage_accepts s c d p then spec_store c (stp_mode p) v else v)"

section \<open>The invariant of the records\<close>

definition entry_ok :: "jstr \<times> memory_record \<Rightarrow> bool" where
  "entry_ok e \<longleftrightarrow> fst e = entryKey (sr_dataClass (snd e)) (sr_key (snd e))
     \<and> sr_dataClass (snd e) \<in> set STORAGE_DATA_CLASSES \<and> 0 \<notin> set (sr_key (snd e))
     \<and> cloneable (sr_value (snd e))"

definition mem_inv :: "memory_records \<Rightarrow> bool" where
  "mem_inv m \<longleftrightarrow> distinct (map fst m) \<and> list_all entry_ok m"

lemma class_names: "distinct (map storage_class_name STORAGE_DATA_CLASSES)"
  "list_all (\<lambda>c. 0 \<notin> set (storage_class_name c)) STORAGE_DATA_CLASSES"
  by (simp_all add: STORAGE_DATA_CLASSES_def js_def)

lemma class_name_inj:
  "c \<in> set STORAGE_DATA_CLASSES \<Longrightarrow> c' \<in> set STORAGE_DATA_CLASSES \<Longrightarrow>
   storage_class_name c = storage_class_name c' \<longleftrightarrow> c = c'"
  using class_names(1) unfolding distinct_map inj_on_def by blast

lemma entryKey_inj:
  assumes "c \<in> set STORAGE_DATA_CLASSES" "c' \<in> set STORAGE_DATA_CLASSES" "0 \<notin> set k"
  shows "entryKey c k = entryKey c' k' \<longleftrightarrow> c = c' \<and> k = k'"
proof -
  have "0 \<notin> set (storage_class_name c)"
    using class_names(2) assms(1) by (simp add: list_all_iff)
  then have "storage_class_name c @ 0 # k = storage_class_name c' @ 0 # k'
      \<longleftrightarrow> storage_class_name c = storage_class_name c' \<and> k = k'"
    using assms(3) by (rule append_Cons_eq_iff)
  then show ?thesis
    using assms by (simp add: entryKey_def class_name_inj)
qed

lemma view_Nil: "store_view [] = (\<lambda>ck. None)"
  by (simp add: store_view_def)

lemma view_Cons: "store_view (e # m) (c, k) =
  (if sr_dataClass (snd e) = c \<and> sr_key (snd e) = k then Some (snd e) else store_view m (c, k))"
  by (auto simp: store_view_def)

lemma map_of_Cons: "map_of (e # m) q = (if fst e = q then Some (snd e) else map_of m q)"
  by (cases e) simp

lemma map_of_view:
  assumes "list_all entry_ok m" "c \<in> set STORAGE_DATA_CLASSES" "0 \<notin> set k"
  shows "map_of m (entryKey c k) = store_view m (c, k)"
  using assms(1)
proof (induction m)
  case Nil
  then show ?case by (simp add: view_Nil)
next
  case (Cons e m)
  have "fst e = entryKey c k \<longleftrightarrow> sr_dataClass (snd e) = c \<and> sr_key (snd e) = k"
    using Cons.prems assms(2,3) entryKey_inj [of c "sr_dataClass (snd e)" k "sr_key (snd e)"]
    by (auto simp: entry_ok_def)
  moreover have "map_of m (entryKey c k) = store_view m (c, k)"
    using Cons by simp
  ultimately show ?case
    unfolding map_of_Cons view_Cons by simp
qed

lemma view_known:
  "list_all entry_ok m \<Longrightarrow> store_view m (c, k) = Some r \<Longrightarrow>
     c \<in> set STORAGE_DATA_CLASSES \<and> 0 \<notin> set k \<and> sr_dataClass r = c \<and> sr_key r = k \<and> cloneable (sr_value r)"
  by (auto simp: store_view_def entry_ok_def list_all_iff dest!: map_of_SomeD)

lemma view_eqI:
  assumes "list_all entry_ok m"
    and "\<And>c k. c \<in> set STORAGE_DATA_CLASSES \<Longrightarrow> 0 \<notin> set k \<Longrightarrow> store_view m (c, k) = v (c, k)"
    and "\<And>c k. c \<notin> set STORAGE_DATA_CLASSES \<or> 0 \<in> set k \<Longrightarrow> v (c, k) = None"
  shows "store_view m = v"
proof
  fix ck :: "storage_class \<times> jstr"
  obtain c k where ck: "ck = (c, k)" by (cases ck)
  show "store_view m ck = v ck"
  proof (cases "c \<in> set STORAGE_DATA_CLASSES \<and> 0 \<notin> set k")
    case True
    then show ?thesis using assms(2) ck by blast
  next
    case False
    then have "store_view m (c, k) = None"
      using view_known [OF assms(1)] by (cases "store_view m (c, k)") auto
    then show ?thesis using assms(3) [of c k] False ck by auto
  qed
qed

section \<open>The records under each operation\<close>

lemma entry_ok_update: "list_all entry_ok m \<Longrightarrow> entry_ok (k, r) \<Longrightarrow> list_all entry_ok (AList.update k r m)"
  by (induction m) auto

lemma entry_ok_filter: "list_all entry_ok m \<Longrightarrow> list_all entry_ok (filter P m)"
  by (simp add: list_all_iff)

lemma inv_update: "mem_inv m \<Longrightarrow> entry_ok (k, r) \<Longrightarrow> mem_inv (AList.update k r m)"
  by (simp add: mem_inv_def entry_ok_update distinct_update)

lemma inv_filter: "mem_inv m \<Longrightarrow> mem_inv (filter P m)"
  by (simp add: mem_inv_def entry_ok_filter distinct_map_filter)

lemma delete_filter: "AList.delete k m = filter (\<lambda>e. fst e \<noteq> k) m"
  by (auto simp: AList.delete_eq intro: filter_cong)

lemma view_update:
  assumes "list_all entry_ok m" "entry_ok (entryKey c k, r)" "sr_dataClass r = c" "sr_key r = k"
  shows "store_view (AList.update (entryKey c k) r m) = (store_view m)((c, k) \<mapsto> r)"
proof (rule view_eqI)
  show *: "list_all entry_ok (AList.update (entryKey c k) r m)"
    using assms by (simp add: entry_ok_update)
  show "store_view (AList.update (entryKey c k) r m) (c', k') = ((store_view m)((c, k) \<mapsto> r)) (c', k')"
    if "c' \<in> set STORAGE_DATA_CLASSES" "0 \<notin> set k'" for c' k'
  proof -
    have c: "c \<in> set STORAGE_DATA_CLASSES"
      using assms(2,3) by (auto simp: entry_ok_def)
    show ?thesis
      using map_of_view [OF * that] map_of_view [OF assms(1) that] entryKey_inj [OF that(1) c that(2), of k]
      by (auto simp: update_conv)
  qed
  show "((store_view m)((c, k) \<mapsto> r)) (c', k') = None"
    if "c' \<notin> set STORAGE_DATA_CLASSES \<or> 0 \<in> set k'" for c' k'
    using that assms view_known [OF assms(1), of c' k']
    by (cases "store_view m (c', k')") (auto simp: entry_ok_def)
qed

lemma view_filter:
  "list_all entry_ok m \<Longrightarrow>
   store_view (filter (\<lambda>e. P (sr_dataClass (snd e), sr_key (snd e))) m) (c, k) =
     (if P (c, k) then store_view m (c, k) else None)"
  by (induction m) (auto simp: view_Nil view_Cons)

lemma view_delete:
  assumes "list_all entry_ok m" "c \<in> set STORAGE_DATA_CLASSES" "0 \<notin> set k"
  shows "store_view (AList.delete (entryKey c k) m) = (store_view m)((c, k) := None)"
proof -
  have "AList.delete (entryKey c k) m =
      filter (\<lambda>e. (sr_dataClass (snd e), sr_key (snd e)) \<noteq> (c, k)) m"
    unfolding delete_filter
  proof (rule filter_cong)
    fix e assume "e \<in> set m"
    then have "entry_ok e" using assms(1) by (simp add: list_all_iff)
    then show "fst e \<noteq> entryKey c k \<longleftrightarrow> (sr_dataClass (snd e), sr_key (snd e)) \<noteq> (c, k)"
      using assms(2,3) entryKey_inj [of c "sr_dataClass (snd e)" k "sr_key (snd e)"]
      by (auto simp: entry_ok_def)
  qed simp
  then show ?thesis
    using view_filter [OF assms(1), of "\<lambda>ck. ck \<noteq> (c, k)"] by (auto simp: fun_eq_iff)
qed

lemma view_clear:
  assumes "list_all entry_ok m"
  shows "store_view (filter (\<lambda>e. sr_dataClass (snd e) \<noteq> c) m) =
    (\<lambda>ck. if c = fst ck then None else store_view m ck)"
proof
  show "store_view (filter (\<lambda>e. sr_dataClass (snd e) \<noteq> c) m) ck = (if c = fst ck then None else store_view m ck)" for ck
    using view_filter [OF assms, of "\<lambda>ck. fst ck \<noteq> c" "fst ck" "snd ck"] by simp
qed

lemma view_distinct:
  assumes "mem_inv m"
  shows "distinct (map (\<lambda>e. (sr_dataClass (snd e), sr_key (snd e))) m)"
proof -
  have d: "distinct m" "inj_on fst (set m)" and ok: "\<forall>e\<in>set m. entry_ok e"
    using assms by (auto simp: mem_inv_def distinct_map list_all_iff)
  have "inj_on (\<lambda>e. (sr_dataClass (snd e), sr_key (snd e))) (set m)"
  proof (rule inj_onI)
    fix e e' assume e: "e \<in> set m" "e' \<in> set m"
      "(sr_dataClass (snd e), sr_key (snd e)) = (sr_dataClass (snd e'), sr_key (snd e'))"
    then have "fst e = fst e'" using ok by (simp add: entry_ok_def)
    then show "e = e'" using d(2) e by (simp add: inj_onD)
  qed
  then show ?thesis using d(1) by (simp add: distinct_map)
qed

lemma view_Some_iff:
  assumes "mem_inv m"
  shows "store_view m (c, k) = Some x \<longleftrightarrow> x \<in> snd ` set m \<and> sr_dataClass x = c \<and> sr_key x = k"
proof -
  have "distinct (map fst (map (\<lambda>e. ((sr_dataClass (snd e), sr_key (snd e)), snd e)) m))"
    using view_distinct [OF assms] by (simp add: comp_def)
  then show ?thesis
    unfolding store_view_def by (auto simp: map_of_eq_Some_iff)
qed

lemma listed_keys:
  assumes "mem_inv m"
  shows "distinct (map sle_key (map list_entry (filter (\<lambda>r. sr_dataClass r = c) (map snd m))))"
    and "set (map list_entry (filter (\<lambda>r. sr_dataClass r = c) (map snd m))) =
      {list_entry x | k x. store_view m (c, k) = Some x}"
proof -
  have "distinct (map (\<lambda>r. (sr_dataClass r, sr_key r)) (map snd m))"
    using view_distinct [OF assms] by (simp add: comp_def)
  then have "distinct (map (\<lambda>r. (sr_dataClass r, sr_key r)) (filter (\<lambda>r. sr_dataClass r = c) (map snd m)))"
    by (rule distinct_map_filter)
  then have "distinct (map sr_key (filter (\<lambda>r. sr_dataClass r = c) (map snd m)))"
    by (auto simp: distinct_map inj_on_def)
  then show "distinct (map sle_key (map list_entry (filter (\<lambda>r. sr_dataClass r = c) (map snd m))))"
    by (simp add: list_entry_def comp_def)
  show "set (map list_entry (filter (\<lambda>r. sr_dataClass r = c) (map snd m))) =
      {list_entry x | k x. store_view m (c, k) = Some x}"
    unfolding view_Some_iff [OF assms] by auto
qed

section \<open>Refinement\<close>

lemma key_Inr: "validateStorageKey k = Inr k' \<longleftrightarrow> k' = k \<and> validateStorageKey k = Inr k"
  by (auto dest: validateStorageKey_Inr)

lemma memory_write_Inr:
  "memory_write s w now d p m = Inr x \<longleftrightarrow> storage_accepts s (Call_write w now) d p
   \<and> x = (SR_write SB_memory_only (sw_dataClass w),
       AList.update (entryKey (sw_dataClass w) (sw_key w))
         (stored_record w now (stp_mode p) (map_of m (entryKey (sw_dataClass w) (sw_key w)))) m)"
  unfolding memory_write_def provider_Inr stored_record_def Let_def storage_accepts.simps sum.inject
  by (auto dest: validateStorageKey_Inr)

lemma memory_read_Inr:
  assumes "mem_inv m" "srq_dataClass q \<in> set STORAGE_DATA_CLASSES"
  shows "memory_read s q d p m = Inr x \<longleftrightarrow> storage_accepts s (Call_read q) d p
   \<and> x = SR_read SB_memory_only (srq_dataClass q)
       (map_option sr_value (store_view m (srq_dataClass q, srq_key q)))"
proof -
  have ok: "list_all entry_ok m" using assms(1) by (simp add: mem_inv_def)
  show ?thesis
  proof (cases "validateStorageKey (srq_key q) = Inr (srq_key q)")
    case True
    then have view: "map_of m (entryKey (srq_dataClass q) (srq_key q)) = store_view m (srq_dataClass q, srq_key q)"
      using map_of_view [OF ok assms(2)] by (auto dest: validateStorageKey_Inr)
    show ?thesis
    proof (cases "store_view m (srq_dataClass q, srq_key q)")
      case None
      then show ?thesis using True
        unfolding memory_read_def provider_Inr storage_accepts.simps by (auto simp: view)
    next
      case (Some r)
      then have "cloneable (sr_value r)" using view_known [OF ok] by blast
      then show ?thesis using True Some
        unfolding memory_read_def provider_Inr storage_accepts.simps by (auto simp: view provider_Inr)
    qed
  next
    case False
    then show ?thesis
      unfolding memory_read_def provider_Inr storage_accepts.simps by (auto dest: validateStorageKey_Inr)
  qed
qed

lemma memory_delete_Inr:
  "memory_delete s c k d p m = Inr x \<longleftrightarrow> storage_accepts s (Call_delete c k) d p
   \<and> x = (SR_delete SB_memory_only c, AList.delete (entryKey c k) m)"
  unfolding memory_delete_def provider_Inr storage_accepts.simps sum.inject
  by (auto dest: validateStorageKey_Inr)

lemma memory_list_Inr:
  "memory_list s c d p m = Inr x \<longleftrightarrow> storage_accepts s (Call_list c) d p
   \<and> x = SR_list SB_memory_only (map list_entry (filter (\<lambda>r. sr_dataClass r = c) (map snd m)))"
  unfolding memory_list_def provider_Inr storage_accepts.simps sum.inject by auto

lemma memory_clear_Inr:
  "memory_clear s c d p m = Inr x \<longleftrightarrow> storage_accepts s (Call_clear c) d p
   \<and> x = (SR_clear SB_memory_only, case c of None \<Rightarrow> []
       | Some c \<Rightarrow> filter (\<lambda>e. sr_dataClass (snd e) \<noteq> c) m)"
  unfolding memory_clear_def provider_Inr storage_accepts.simps sum.inject by auto

lemma memory_call_accepts:
  assumes "mem_inv m" "call_classes_known c"
  shows "(\<exists>r. fst (memory_call s c d p m) = Inr r) \<longleftrightarrow> storage_accepts s c d p"
proof (cases c)
  case (Call_write w now)
  then show ?thesis
    using memory_write_Inr [of s w now d p m]
    by (cases "memory_write s w now d p m") (auto simp: kept_state_def)
next
  case (Call_read q)
  then show ?thesis
    using memory_read_Inr [of m q s d p] assms by (cases "memory_read s q d p m") auto
next
  case (Call_delete cl k)
  then show ?thesis
    using memory_delete_Inr [of s cl k d p m]
    by (cases "memory_delete s cl k d p m") (auto simp: kept_state_def)
next
  case (Call_list cl)
  then show ?thesis
    using memory_list_Inr [of s cl d p m] by (cases "memory_list s cl d p m") auto
next
  case (Call_clear cl)
  then show ?thesis
    using memory_clear_Inr [of s cl d p m]
    by (cases "memory_clear s cl d p m") (auto simp: kept_state_def)
qed

lemma write_step:
  assumes "mem_inv m" "sw_dataClass w \<in> set STORAGE_DATA_CLASSES"
    "validateStorageKey (sw_key w) = Inr (sw_key w)" "cloneable (sw_value w)"
    and m': "m' = AList.update (entryKey (sw_dataClass w) (sw_key w))
        (stored_record w now mode (map_of m (entryKey (sw_dataClass w) (sw_key w)))) m"
  shows "mem_inv m' \<and> store_view m' = spec_store (Call_write w now) mode (store_view m)"
proof -
  have ok: "list_all entry_ok m" using assms(1) by (simp add: mem_inv_def)
  have k: "0 \<notin> set (sw_key w)" using validateStorageKey_Inr [OF assms(3)] by simp
  have e: "entry_ok (entryKey (sw_dataClass w) (sw_key w), stored_record w now mode old)" for old
    using assms(2,4) k by (simp add: entry_ok_def stored_record_def)
  show ?thesis
    using inv_update [OF assms(1) e] view_update [OF ok e] map_of_view [OF ok assms(2) k]
    unfolding m' by (simp add: stored_record_def Let_def)
qed

lemma memory_call_step:
  assumes "mem_inv m" "call_classes_known c" "memory_call s c d p m = (Inr r, m')"
  shows "mem_inv m' \<and> store_view m' = spec_store c (stp_mode p) (store_view m)
    \<and> spec_result c (store_view m) r"
proof (cases c)
  case (Call_write w now)
  then show ?thesis
    using assms write_step [of m w m' now "stp_mode p"] by (auto simp: kept_state_eq memory_write_Inr)
next
  case (Call_read q)
  then show ?thesis
    using assms memory_read_Inr [of m q s d p] by simp
next
  case (Call_delete cl k)
  then have k: "validateStorageKey k = Inr k" and *: "r = SR_delete SB_memory_only cl"
      "m' = AList.delete (entryKey cl k) m"
    using assms(3) by (auto simp: kept_state_eq memory_delete_Inr)
  show ?thesis
    using assms(1,2) Call_delete view_delete [of m cl k] validateStorageKey_Inr [OF k] inv_filter
    unfolding * by (simp add: mem_inv_def [of m] delete_filter)
next
  case (Call_list cl)
  then show ?thesis
    using assms listed_keys [OF assms(1), of cl] by (auto simp: memory_list_Inr)
next
  case (Call_clear cl)
  then have *: "r = SR_clear SB_memory_only"
      "m' = (case cl of None \<Rightarrow> [] | Some c \<Rightarrow> filter (\<lambda>e. sr_dataClass (snd e) \<noteq> c) m)"
    using assms(3) by (auto simp: kept_state_eq memory_clear_Inr)
  show ?thesis
  proof (cases cl)
    case None
    then show ?thesis using Call_clear * by (simp add: mem_inv_def view_Nil)
  next
    case (Some a)
    then show ?thesis
      using Call_clear * assms(1) inv_filter view_clear [of m a] by (auto simp: mem_inv_def)
  qed
qed

text \<open>The memory provider implements the map.  From records that satisfy its invariant, a
  call on declared data classes is accepted exactly when the abstract store accepts it, keeps the
  invariant, and then changes the map and answers as the abstract operation does: a write makes
  the new record, with the creation time of the one it replaces, readable under its class and key
  and no other; a delete or a clear removes exactly what it names; a list has one entry for each
  key of its class.  A refused call leaves the records as they were.\<close>

theorem memory_provider_refines:
  assumes "mem_inv m" "call_classes_known c"
  shows "mem_inv (snd (memory_call s c d p m))
    \<and> store_view (snd (memory_call s c d p m)) =
        (if storage_accepts s c d p then spec_store c (stp_mode p) (store_view m) else store_view m)
    \<and> storage_accepts s c d p = (\<exists>r. fst (memory_call s c d p m) = Inr r \<and> spec_result c (store_view m) r)"
proof (cases "fst (memory_call s c d p m)")
  case (Inl e)
  then have "snd (memory_call s c d p m) = m"
    using memory_provider.refused [of s c d p m e] by (metis prod.collapse)
  moreover have "\<not> storage_accepts s c d p"
    using memory_call_accepts [OF assms] Inl by (metis Inl_Inr_False)
  ultimately show ?thesis using assms Inl by simp
next
  case (Inr r)
  then have "memory_call s c d p m = (Inr r, snd (memory_call s c d p m))"
    by (metis prod.collapse)
  with Inr show ?thesis
    using memory_call_step [OF assms] memory_call_accepts [OF assms, of s d p] by metis
qed

lemma memory_call_spec:
  assumes "mem_inv m" "call_classes_known c"
  shows "mem_inv (snd (memory_call s c d p m))"
    and "store_view (snd (memory_call s c d p m)) =
        (if storage_accepts s c d p then spec_store c (stp_mode p) (store_view m) else store_view m)"
proof -
  show "mem_inv (snd (memory_call s c d p m))"
  proof (cases "fst (memory_call s c d p m)")
    case (Inl e)
    then show ?thesis
      using memory_provider.refused [of s c d p m e] assms(1) by (metis prod.collapse)
  next
    case (Inr r)
    then show ?thesis using memory_call_step [OF assms] by (metis prod.collapse)
  qed
  show "store_view (snd (memory_call s c d p m)) =
        (if storage_accepts s c d p then spec_store c (stp_mode p) (store_view m) else store_view m)"
  proof (cases "fst (memory_call s c d p m)")
    case (Inl e)
    then show ?thesis
      using memory_provider.refused [of s c d p m e] memory_call_accepts [OF assms, of s d p]
      by (metis Inl_Inr_False prod.collapse)
  next
    case (Inr r)
    then show ?thesis
      using memory_call_step [OF assms] memory_call_accepts [OF assms, of s d p] by (metis prod.collapse)
  qed
qed

lemma memory_run_spec:
  "mem_inv m \<Longrightarrow> list_all (\<lambda>(s, c, d, p). call_classes_known c) cs \<Longrightarrow>
   mem_inv (storage_run memory_call cs m) \<and> store_view (storage_run memory_call cs m) = spec_run cs (store_view m)"
proof (induction cs arbitrary: m)
  case (Cons x cs)
  obtain s c d p where x: "x = (s, c, d, p)" by (cases x)
  then have "call_classes_known c" using Cons.prems by simp
  from memory_call_spec [OF Cons.prems(1) this] Cons show ?case unfolding x by simp
qed simp

text \<open>C10.  Over any sequence of calls on declared data classes, each with its own decision and
  policy, a new memory provider is the map: its invariant holds at the end, its records are those
  of the abstract run of the accepted calls, and the next read, if accepted, returns what the
  abstract store holds under the class and key.\<close>

theorem memory_run_refines:
  assumes "list_all (\<lambda>(s, c, d, p). call_classes_known c) cs"
    and "srq_dataClass q \<in> set STORAGE_DATA_CLASSES"
  shows "store_view (storage_run memory_call cs []) = spec_run cs (\<lambda>ck. None)
    \<and> mem_inv (storage_run memory_call cs [])
    \<and> storage_accepts s (Call_read q) d p = (memory_call s (Call_read q) d p (storage_run memory_call cs []) =
        (Inr (SR_read SB_memory_only (srq_dataClass q)
           (map_option sr_value (spec_run cs (\<lambda>ck. None) (srq_dataClass q, srq_key q)))),
         storage_run memory_call cs []))"
proof -
  have "mem_inv []" by (simp add: mem_inv_def)
  from memory_run_spec [OF this assms(1)]
  show ?thesis using memory_read_Inr [of "storage_run memory_call cs []" q] assms(2) by (auto simp: view_Nil)
qed

section \<open>What is ever stored\<close>

text \<open>A caller that asks with the policy of the class and sensitivity it writes.\<close>

fun honest_call :: "storage_call \<Rightarrow> storage_policy_input \<Rightarrow> bool" where
  "honest_call (Call_write w now) inp \<longleftrightarrow>
     si_dataClass inp = sw_dataClass w \<and> si_sensitivity inp = sw_sensitivity w"
| "honest_call _ inp \<longleftrightarrow> True"

definition may_be_stored :: "memory_record \<Rightarrow> bool" where
  "may_be_stored r \<longleftrightarrow> mode_writes (sr_policyMode r) (sr_dataClass r) (sr_sensitivity r)"

lemma stored_update:
  "list_all (\<lambda>e. may_be_stored (snd e)) m \<Longrightarrow> may_be_stored r \<Longrightarrow>
   list_all (\<lambda>e. may_be_stored (snd e)) (AList.update k r m)"
  by (induction m) auto

lemma honest_step:
  assumes "list_all (\<lambda>e. may_be_stored (snd e)) m" "honest_call c inp"
  shows "list_all (\<lambda>e. may_be_stored (snd e)) (snd (memory_call s c d (resolveStoragePolicy inp) m))"
proof (cases "memory_call s c d (resolveStoragePolicy inp) m")
  case (Pair x m')
  show ?thesis
  proof (cases x)
    case (Inl e)
    then show ?thesis using memory_provider.refused Pair assms(1) by (metis snd_conv)
  next
    case (Inr r)
    note call = Pair [unfolded Inr]
    have "list_all (\<lambda>e. may_be_stored (snd e)) m'"
    proof (cases c)
      case (Call_write w now)
      then have "write_permitted w (resolveStoragePolicy inp)"
        using call by (auto simp: kept_state_eq memory_write_Inr)
      then have "stp_allowWrite (resolveStoragePolicy inp)" by (simp add: write_permitted_def)
      then have "mode_writes (si_mode inp) (sw_dataClass w) (sw_sensitivity w)"
        using resolved_writes [of inp] assms(2) Call_write by simp
      then have "may_be_stored (stored_record w now (stp_mode (resolveStoragePolicy inp)) old)" for old
        by (simp add: may_be_stored_def stored_record_def resolved_mode)
      then show ?thesis
        using call Call_write stored_update [OF assms(1)] by (auto simp: kept_state_eq memory_write_Inr)
    qed (use call assms(1) in \<open>auto simp: kept_state_eq memory_delete_Inr memory_clear_Inr
        delete_filter list_all_iff split: option.splits\<close>)
    then show ?thesis using Pair by simp
  qed
qed


section \<open>A concrete store\<close>

text \<open>Two decisions of a ghost-mode device: one writes, one reads.\<close>

definition sample_store_decisions :: privacy_state where
  "sample_store_decisions = snd (issuePolicyDecision Cap_persistence Allowed Mode_ghost ''storage.read''
     (snd (issuePolicyDecision Cap_persistence Allowed Mode_ghost ''storage.write'' privacy_init)))"

definition sample_write :: "storage_class \<Rightarrow> storage_sensitivity \<Rightarrow> storage_write_request" where
  "sample_write c v = \<lparr>sw_operation = STO_write, sw_dataClass = c, sw_key = js ''k1'',
     sw_value = JStr (js ''v''), sw_sensitivity = v\<rparr>"

definition sample_storage_input :: "storage_class \<Rightarrow> storage_sensitivity \<Rightarrow> storage_policy_input" where
  "sample_storage_input c v = \<lparr>si_mode = Mode_ghost, si_dataClass = c, si_sensitivity = v,
     si_roomPolicy = None, si_deviceRiskLevel = None, si_screenShieldLevel = None\<rparr>"

lemma sample_key: "validateStorageKey (js ''k1'') = Inr (js ''k1'')"
  by code_simp

lemma sample_decisions:
  "assertStorageDecisionValid sample_store_decisions 0 STO_write = Inr ()"
  "assertStorageDecisionValid sample_store_decisions (Suc 0) STO_read = Inr ()"
  by (simp_all add: sample_store_decisions_def issuePolicyDecision_def privacy_init_def Let_def
      storage_decision_Inr authentic_def isPolicyDecision_def expectedCapability_def)

lemmas sample_policy_defs = sample_storage_input_def resolveStoragePolicy_def mode_baseline_def
  strict_baseline_def storage_default_def storage_shield_def storage_risk_def storage_room_def
  STORAGE_DATA_CLASSES_def KNOWN_MODES_def storage_groups

lemma sample_policies:
  "stp_backend (resolveStoragePolicy (sample_storage_input SC_message_content SV_content)) = SB_memory_only"
  "stp_allowWrite (resolveStoragePolicy (sample_storage_input SC_message_content SV_content))"
  "stp_allowRead (resolveStoragePolicy (sample_storage_input SC_message_content SV_content))"
  "stp_backend (resolveStoragePolicy (sample_storage_input SC_settings SV_local_settings)) = SB_memory_only"
  "stp_allowWrite (resolveStoragePolicy (sample_storage_input SC_settings SV_local_settings))"
  "\<not> stp_allowWrite (resolveStoragePolicy (sample_storage_input SC_identity_key_material SV_key_material))"
  by (simp_all add: sample_policy_defs Let_def)

lemma sample_accepts:
  "storage_accepts sample_store_decisions (Call_write (sample_write SC_message_content SV_content) now) 0
     (resolveStoragePolicy (sample_storage_input SC_message_content SV_content))"
  "storage_accepts sample_store_decisions
     (Call_read \<lparr>srq_operation = STO_read, srq_dataClass = SC_message_content, srq_key = js ''k1''\<rparr>) 1
     (resolveStoragePolicy (sample_storage_input SC_message_content SV_content))"
  "storage_accepts sample_store_decisions (Call_write (sample_write SC_identity_key_material SV_key_material) now) 0
     (resolveStoragePolicy (sample_storage_input SC_settings SV_local_settings))"
  by (simp_all add: sample_write_def sample_key sample_decisions sample_policies write_permitted_def
      ENDPOINT_CLASSES_def)

theorem memory_provider_refines_witness:
  "store_view (snd (memory_call sample_store_decisions
      (Call_write (sample_write SC_message_content SV_content) (js ''t'')) 0
      (resolveStoragePolicy (sample_storage_input SC_message_content SV_content)) []))
    (SC_message_content, js ''k1'') =
   Some (stored_record (sample_write SC_message_content SV_content) (js ''t'') Mode_ghost None)"
proof -
  have "mem_inv []" by (simp add: mem_inv_def)
  moreover have "call_classes_known (Call_write (sample_write SC_message_content SV_content) (js ''t''))"
    by (simp add: sample_write_def STORAGE_DATA_CLASSES_def)
  moreover have "stp_mode (resolveStoragePolicy (sample_storage_input SC_message_content SV_content)) = Mode_ghost"
    by (simp add: resolved_mode sample_storage_input_def)
  ultimately show ?thesis
    using memory_provider_refines [of "[]" "Call_write (sample_write SC_message_content SV_content) (js ''t'')"
        sample_store_decisions 0 "resolveStoragePolicy (sample_storage_input SC_message_content SV_content)"]
      sample_accepts(1) [of "js ''t''"]
    by (simp add: view_Nil sample_write_def)
qed

theorem memory_run_refines_witness:
  "memory_call sample_store_decisions
      (Call_read \<lparr>srq_operation = STO_read, srq_dataClass = SC_message_content, srq_key = js ''k1''\<rparr>) 1
      (resolveStoragePolicy (sample_storage_input SC_message_content SV_content))
      (storage_run memory_call [(sample_store_decisions,
         Call_write (sample_write SC_message_content SV_content) (js ''t''), 0,
         resolveStoragePolicy (sample_storage_input SC_message_content SV_content))] []) =
   (Inr (SR_read SB_memory_only SC_message_content (Some (JStr (js ''v'')))),
    storage_run memory_call [(sample_store_decisions,
         Call_write (sample_write SC_message_content SV_content) (js ''t''), 0,
         resolveStoragePolicy (sample_storage_input SC_message_content SV_content))] [])"
proof -
  let ?cs = "[(sample_store_decisions,
         Call_write (sample_write SC_message_content SV_content) (js ''t''), 0,
         resolveStoragePolicy (sample_storage_input SC_message_content SV_content))]"
  let ?q = "\<lparr>srq_operation = STO_read, srq_dataClass = SC_message_content, srq_key = js ''k1''\<rparr>"
  have "list_all (\<lambda>(s, c, d, p). call_classes_known c) ?cs" "srq_dataClass ?q \<in> set STORAGE_DATA_CLASSES"
    by (simp_all add: sample_write_def STORAGE_DATA_CLASSES_def)
  from memory_run_refines [OF this, of sample_store_decisions 1
      "resolveStoragePolicy (sample_storage_input SC_message_content SV_content)"]
  have "memory_call sample_store_decisions (Call_read ?q) 1
      (resolveStoragePolicy (sample_storage_input SC_message_content SV_content)) (storage_run memory_call ?cs []) =
     (Inr (SR_read SB_memory_only SC_message_content
        (map_option sr_value (spec_run ?cs (\<lambda>ck. None) (SC_message_content, js ''k1'')))), storage_run memory_call ?cs [])"
    using sample_accepts(2) by (simp only: storage_read_request.simps simp_thms)
  also have "spec_run ?cs (\<lambda>ck. None) (SC_message_content, js ''k1'') =
      Some (stored_record (sample_write SC_message_content SV_content) (js ''t'')
        (stp_mode (resolveStoragePolicy (sample_storage_input SC_message_content SV_content))) None)"
    using sample_accepts(1) [of "js ''t''"] by (simp del: storage_accepts.simps add: sample_write_def)
  finally show ?thesis by (simp add: stored_record_def sample_write_def)
qed


text \<open>The barrier never compares the class of the policy with the class of the request: a
  policy resolved for settings lets identity key material be written, although the policy of its own
  class forbids it.\<close>

theorem storage_class_unchecked:
  "\<not> stp_allowWrite (resolveStoragePolicy (sample_storage_input SC_identity_key_material SV_key_material))
   \<and> fst (memory_call sample_store_decisions
       (Call_write (sample_write SC_identity_key_material SV_key_material) (js ''t'')) 0
       (resolveStoragePolicy (sample_storage_input SC_settings SV_local_settings)) [])
     = Inr (SR_write SB_memory_only SC_identity_key_material)"
proof -
  have "memory_write sample_store_decisions (sample_write SC_identity_key_material SV_key_material) (js ''t'') 0
      (resolveStoragePolicy (sample_storage_input SC_settings SV_local_settings)) []
      = Inr (SR_write SB_memory_only SC_identity_key_material,
        AList.update (entryKey SC_identity_key_material (js ''k1''))
          (stored_record (sample_write SC_identity_key_material SV_key_material) (js ''t'')
            (stp_mode (resolveStoragePolicy (sample_storage_input SC_settings SV_local_settings))) None) [])"
    using sample_accepts(3) [of "js ''t''"] by (simp add: memory_write_Inr sample_write_def)
  then show ?thesis using sample_policies(5,6) by (auto simp: kept_state_def)
qed

end
