(* ===== verification/Network_Policy.thy ===== *)
theory Network_Policy
  imports Policy_Matrix
begin

text \<open>
  The network policy layer of \<open>packages/transports/src/\<close>: the taxonomy
  (\<open>networkTypes.ts\<close>), the leakage labels (\<open>networkMetadata.ts\<close>), the resolution of
  a policy (\<open>networkPolicy.ts\<close>), the endpoint check (\<open>networkEndpoint.ts\<close>), the barrier
  (\<open>networkBarrier.ts\<close>) and the transports without input or output
  (\<open>networkProviders.ts\<close>).  The URL parser is the platform's: it is a parameter.
\<close>

section \<open>Taxonomy\<close>

datatype network_operation =
    NO_network_connect | NO_network_request | NO_network_listen | NO_transport_send
  | NO_transport_receive | NO_transport_poll | NO_transport_sync | NO_transport_discovery
  | NO_link_preview | NO_asset_fetch | NO_telemetry_send | NO_update_check
  | NO_ai_remote_request | NO_other jstr

definition NETWORK_OPERATION_KINDS :: "network_operation list" where
  "NETWORK_OPERATION_KINDS = [NO_network_connect, NO_network_request, NO_network_listen, NO_transport_send,
     NO_transport_receive, NO_transport_poll, NO_transport_sync, NO_transport_discovery,
     NO_link_preview, NO_asset_fetch, NO_telemetry_send, NO_update_check,
     NO_ai_remote_request]"

text \<open>The scope of an operation is its name.\<close>

fun network_operation_name :: "network_operation \<Rightarrow> jstr" where
  "network_operation_name NO_network_connect = js ''network.connect''"
| "network_operation_name NO_network_request = js ''network.request''"
| "network_operation_name NO_network_listen = js ''network.listen''"
| "network_operation_name NO_transport_send = js ''transport.send''"
| "network_operation_name NO_transport_receive = js ''transport.receive''"
| "network_operation_name NO_transport_poll = js ''transport.poll''"
| "network_operation_name NO_transport_sync = js ''transport.sync''"
| "network_operation_name NO_transport_discovery = js ''transport.discovery''"
| "network_operation_name NO_link_preview = js ''link.preview''"
| "network_operation_name NO_asset_fetch = js ''asset.fetch''"
| "network_operation_name NO_telemetry_send = js ''telemetry.send''"
| "network_operation_name NO_update_check = js ''update.check''"
| "network_operation_name NO_ai_remote_request = js ''ai.remote_request''"
| "network_operation_name (NO_other s) = s"

datatype transport_class =
    TC_relay | TC_qr | TC_file | TC_usb | TC_lan | TC_external_app | TC_email | TC_websocket
  | TC_webrtc | TC_http | TC_tor_proxy | TC_unknown | TC_other jstr

definition KNOWN_TRANSPORTS :: "transport_class list" where
  "KNOWN_TRANSPORTS = [TC_relay, TC_qr, TC_file, TC_usb, TC_lan, TC_external_app, TC_email, TC_websocket,
     TC_webrtc, TC_http, TC_tor_proxy, TC_unknown]"

definition OFFLINE_TRANSPORT_CLASSES :: "transport_class list" where
  "OFFLINE_TRANSPORT_CLASSES = [TC_qr, TC_file, TC_usb]"

definition DIRECT_PEER_TRANSPORT_CLASSES :: "transport_class list" where
  "DIRECT_PEER_TRANSPORT_CLASSES = [TC_webrtc]"

datatype network_capability = NC_forbidden | NC_offline_only | NC_local_only | NC_user_initiated_only
  | NC_approved_transport_only | NC_allowed_placeholder

datatype exposure_level = EL_none | EL_local_only | EL_low | EL_medium | EL_high | EL_unknown

record network_request =
  nr_operation :: network_operation
  nr_transportClass :: transport_class
  nr_endpoint :: "jstr option"
  nr_userInitiated :: bool

section \<open>Leakage labels\<close>

record leakage_label =
  ll_exposesIpAddress :: bool
  ll_exposesTiming :: bool
  ll_exposesSize :: bool
  ll_exposesRelationshipMetadata :: bool
  ll_exposesEndpointToThirdParty :: bool
  ll_exposureLevel :: exposure_level

definition leakage :: "bool \<Rightarrow> bool \<Rightarrow> bool \<Rightarrow> bool \<Rightarrow> bool \<Rightarrow> exposure_level \<Rightarrow> leakage_label" where
  "leakage ip timing bytes relationship endpoint level = \<lparr>ll_exposesIpAddress = ip, ll_exposesTiming = timing,
     ll_exposesSize = bytes, ll_exposesRelationshipMetadata = relationship,
     ll_exposesEndpointToThirdParty = endpoint, ll_exposureLevel = level\<rparr>"

text \<open>An unknown class has the label of \<open>unknown\<close>.\<close>

fun describeNetworkMetadataLeakage :: "transport_class \<Rightarrow> leakage_label" where
  "describeNetworkMetadataLeakage TC_qr = leakage False False False False False EL_local_only"
| "describeNetworkMetadataLeakage TC_file = leakage False False True False False EL_low"
| "describeNetworkMetadataLeakage TC_usb = leakage False False True False False EL_low"
| "describeNetworkMetadataLeakage TC_lan = leakage True True True True False EL_medium"
| "describeNetworkMetadataLeakage TC_relay = leakage True True True True True EL_medium"
| "describeNetworkMetadataLeakage TC_email = leakage True True True True True EL_high"
| "describeNetworkMetadataLeakage TC_external_app = leakage True True True True True EL_high"
| "describeNetworkMetadataLeakage TC_webrtc = leakage True True True True True EL_high"
| "describeNetworkMetadataLeakage TC_http = leakage True True True True True EL_high"
| "describeNetworkMetadataLeakage TC_websocket = leakage True True True True True EL_high"
| "describeNetworkMetadataLeakage TC_tor_proxy = leakage False True True False False EL_medium"
| "describeNetworkMetadataLeakage TC_unknown = leakage True True True True True EL_unknown"
| "describeNetworkMetadataLeakage (TC_other s) = leakage True True True True True EL_unknown"

section \<open>Resolution\<close>

record network_policy =
  np_mode :: privacy_mode
  np_operation :: network_operation
  np_transportClass :: transport_class
  np_capability :: network_capability
  np_allowed :: bool
  np_requiresUserInitiation :: bool
  np_allowsDirectPeerConnection :: bool
  np_allowsExternalEndpoint :: bool
  np_allowsTelemetry :: bool
  np_allowsExternalAssets :: bool
  np_allowsAutomaticLinkPreview :: bool
  np_metadataExposure :: exposure_level

text \<open>The fields of \<open>Partial<NetworkPolicy>\<close> the composition reads.\<close>

record partial_network_policy =
  pnp_allowed :: "bool option"
  pnp_allowsDirectPeerConnection :: "bool option"
  pnp_allowsExternalEndpoint :: "bool option"

record network_policy_input =
  ni_mode :: privacy_mode
  ni_operation :: network_operation
  ni_transportClass :: transport_class
  ni_roomPolicy :: "partial_network_policy option"

definition ALWAYS_FORBIDDEN_OPERATIONS :: "network_operation list" where
  "ALWAYS_FORBIDDEN_OPERATIONS =
     [NO_telemetry_send, NO_asset_fetch, NO_link_preview, NO_ai_remote_request, NO_update_check]"

definition OFFLINE_MODES :: "privacy_mode list" where
  "OFFLINE_MODES = [Mode_offline_capsule, Mode_emergency]"

definition STRICT_MODES :: "privacy_mode list" where
  "STRICT_MODES = [Mode_ghost, Mode_bunker]"

text \<open>Every draft of the code denies direct peers; its reasons are not carried.\<close>

record network_draft =
  nd_capability :: network_capability
  nd_allowed :: bool
  nd_requiresUserInitiation :: bool
  nd_allowsDirectPeerConnection :: bool
  nd_allowsExternalEndpoint :: bool

definition network_denied :: network_draft where
  "network_denied = \<lparr>nd_capability = NC_forbidden, nd_allowed = False, nd_requiresUserInitiation = False,
     nd_allowsDirectPeerConnection = False, nd_allowsExternalEndpoint = False\<rparr>"

definition tightened :: "bool \<Rightarrow> ('r \<Rightarrow> bool option) \<Rightarrow> 'r option \<Rightarrow> bool" where
  "tightened b f room \<longleftrightarrow> b \<and> (case room of None \<Rightarrow> True
     | Some r \<Rightarrow> (case f r of None \<Rightarrow> True | Some x \<Rightarrow> x))"

definition finalize_network :: "network_policy_input \<Rightarrow> network_draft \<Rightarrow> network_policy" where
  "finalize_network inp draft =
     (let allowed = tightened (nd_allowed draft) pnp_allowed (ni_roomPolicy inp)
      in \<lparr>np_mode = ni_mode inp, np_operation = ni_operation inp, np_transportClass = ni_transportClass inp,
          np_capability = (if allowed then nd_capability draft else NC_forbidden), np_allowed = allowed,
          np_requiresUserInitiation = nd_requiresUserInitiation draft,
          np_allowsDirectPeerConnection =
            tightened (nd_allowsDirectPeerConnection draft) pnp_allowsDirectPeerConnection (ni_roomPolicy inp),
          np_allowsExternalEndpoint =
            tightened (nd_allowsExternalEndpoint draft) pnp_allowsExternalEndpoint (ni_roomPolicy inp),
          np_allowsTelemetry = False, np_allowsExternalAssets = False, np_allowsAutomaticLinkPreview = False,
          np_metadataExposure = ll_exposureLevel (describeNetworkMetadataLeakage (ni_transportClass inp))\<rparr>)"

definition network_draft_of :: "network_policy_input \<Rightarrow> network_draft" where
  "network_draft_of inp =
     (let mode = ni_mode inp; operation = ni_operation inp; transport = ni_transportClass inp
      in if operation \<notin> set NETWORK_OPERATION_KINDS \<or> transport \<notin> set KNOWN_TRANSPORTS
            \<or> mode \<notin> set KNOWN_MODES then network_denied
         else if operation \<in> set ALWAYS_FORBIDDEN_OPERATIONS then network_denied
         else if transport \<in> set OFFLINE_TRANSPORT_CLASSES then
           network_denied\<lparr>nd_capability := NC_offline_only,
             nd_allowed := (mode \<notin> set OFFLINE_MODES \<or> mode = Mode_offline_capsule)\<rparr>
         else if mode \<in> set OFFLINE_MODES then network_denied
         else if transport \<in> set DIRECT_PEER_TRANSPORT_CLASSES then network_denied
         else if mode \<in> set STRICT_MODES then network_denied
         else if transport = TC_lan \<or> operation = NO_transport_discovery then network_denied
         else if transport = TC_http \<or> transport = TC_websocket then network_denied
         else if mode = Mode_standard \<or> mode = Mode_private then
           network_denied\<lparr>nd_capability := NC_allowed_placeholder, nd_allowed := True,
             nd_requiresUserInitiation := True,
             nd_allowsExternalEndpoint := (transport = TC_relay \<or> transport = TC_email)\<rparr>
         else if mode = Mode_sovereign_room then
           network_denied\<lparr>nd_capability := NC_approved_transport_only, nd_allowed := True,
             nd_requiresUserInitiation := True, nd_allowsExternalEndpoint := (transport = TC_relay)\<rparr>
         else network_denied)"

definition resolveNetworkPolicy :: "network_policy_input \<Rightarrow> network_policy" where
  "resolveNetworkPolicy inp = finalize_network inp (network_draft_of inp)"

section \<open>Endpoints\<close>

text \<open>What the check reads of \<open>new URL(endpoint)\<close>; \<open>None\<close> is the parser's exception.\<close>

record parsed_url =
  pu_protocol :: jstr
  pu_username :: jstr
  pu_password :: jstr
  pu_hostname :: jstr
  pu_queryKeys :: "jstr list"

type_synonym url_parser = "jstr \<Rightarrow> parsed_url option"

definition MAX_ENDPOINT_LENGTH :: nat where "MAX_ENDPOINT_LENGTH = 2048"

text \<open>\<open>key.toLowerCase()\<close>, as far as an equality with an ASCII word can tell: beyond ASCII
  only the Kelvin sign lowers to an ASCII letter.\<close>

definition lower_unit :: "16 word \<Rightarrow> 16 word" where
  "lower_unit c = (if c = 0x212a then 0x6b else ascii_lower c)"

definition SUSPICIOUS_QUERY_KEYS :: "jstr list" where
  "SUSPICIOUS_QUERY_KEYS = map js [''token'', ''secret'', ''key'', ''password'', ''auth'']"

definition private_172 :: "jstr \<Rightarrow> bool" where
  "private_172 h = (case h of a # b # c # _ \<Rightarrow> c = 0x2e
       \<and> (a = 0x31 \<and> 0x36 \<le> b \<and> b \<le> 0x39 \<or> a = 0x32 \<and> 0x30 \<le> b \<and> b \<le> 0x39
         \<or> a = 0x33 \<and> (b = 0x30 \<or> b = 0x31))
     | _ \<Rightarrow> False)"

definition PRIVATE_HOST :: "jstr \<Rightarrow> bool" where
  "PRIVATE_HOST host =
     (let h = map ascii_lower host; inner = (if starts_with h (js ''['') then drop 1 h else h)
      in list_ex (starts_with h) (map js [''localhost'', ''127.'', ''0.0.0.0'', ''10.'', ''192.168.'', ''169.254.''])
       \<or> starts_with h (js ''172.'') \<and> private_172 (drop 4 h)
       \<or> list_ex (starts_with inner) (map js [''::1'', ''fc'', ''fd'', ''fe'']))"

text \<open>The white space \<open>trim\<close> removes.\<close>

definition only_white :: "jstr \<Rightarrow> bool" where
  "only_white s = list_all (\<lambda>c. c \<in> set JS_WHITE) s"

definition validateNetworkEndpoint :: "url_parser \<Rightarrow> jstr \<Rightarrow> jstr res" where
  "validateNetworkEndpoint parse endpoint =
     (let invalid = NetworkError InvalidNetworkEndpoint
      in ebind (throw_if (endpoint = [] \<or> only_white endpoint \<or> length endpoint > MAX_ENDPOINT_LENGTH
            \<or> 0x0a \<in> set endpoint \<or> 0x0d \<in> set endpoint
            \<or> list_ex (starts_with endpoint) (map js [''http://'', ''file:'', ''data:'', ''blob:''])
            \<or> includes_js endpoint (js ''FREELAYER_NETWORK_SENTINEL'')
            \<or> includes_js endpoint (js ''DO_NOT_LEAK'')) invalid) (\<lambda>_.
         ebind (need invalid (parse endpoint)) (\<lambda>url.
         ebind (throw_if (pu_protocol url \<noteq> js ''https:'') invalid) (\<lambda>_.
         ebind (throw_if (pu_username url \<noteq> [] \<or> pu_password url \<noteq> []) invalid) (\<lambda>_.
         ebind (throw_if (PRIVATE_HOST (pu_hostname url)) invalid) (\<lambda>_.
         ebind (throw_if (list_ex (\<lambda>k. map lower_unit k \<in> set SUSPICIOUS_QUERY_KEYS) (pu_queryKeys url))
           invalid) (\<lambda>_.
         Inr endpoint)))))))"

section \<open>The barrier\<close>

definition assertNetworkDecisionValid ::
  "privacy_state \<Rightarrow> dref \<Rightarrow> network_operation \<Rightarrow> unit res" where
  "assertNetworkDecisionValid s decision operation =
     ebind (need (NetworkError NetworkBypassAttempt) (authentic s decision)) (\<lambda>d.
     ebind (throw_if (pd_capability d \<noteq> Cap_network \<and> pd_capability d \<noteq> Cap_directTransport)
       (NetworkError NetworkDecisionMismatch)) (\<lambda>_.
     ebind (throw_if (pd_verdict d \<noteq> Allowed) (NetworkError NetworkPolicyDenied)) (\<lambda>_.
     throw_if (js (pd_sideEffect d) \<noteq> network_operation_name operation)
       (NetworkError NetworkDecisionMismatch))))"

definition assertNetworkOperationAllowed ::
  "url_parser \<Rightarrow> privacy_state \<Rightarrow> dref \<Rightarrow> network_request \<times> network_policy \<Rightarrow> unit res" where
  "assertNetworkOperationAllowed parse s decision q =
     (let request = fst q; policy = snd q; operation = nr_operation request
      in ebind (assertNetworkDecisionValid s decision operation) (\<lambda>_.
         ebind (throw_if (operation = NO_telemetry_send) (NetworkError ForbiddenTelemetry)) (\<lambda>_.
         ebind (throw_if (operation = NO_asset_fetch) (NetworkError ForbiddenExternalAsset)) (\<lambda>_.
         ebind (throw_if (operation = NO_link_preview) (NetworkError ForbiddenLinkPreview)) (\<lambda>_.
         ebind (throw_if (nr_transportClass request \<in> set DIRECT_PEER_TRANSPORT_CLASSES
             \<and> \<not> np_allowsDirectPeerConnection policy)
           (NetworkError ForbiddenDirectPeerConnection)) (\<lambda>_.
         ebind (throw_if ((np_mode policy = Mode_offline_capsule \<or> np_mode policy = Mode_emergency)
             \<and> \<not> np_allowed policy) (NetworkError ForbiddenOfflineModeNetwork)) (\<lambda>_.
         ebind (throw_if (\<not> np_allowed policy) (NetworkError NetworkPolicyDenied)) (\<lambda>_.
         ebind (throw_if (np_requiresUserInitiation policy \<and> \<not> nr_userInitiated request)
           (NetworkError NetworkPolicyDenied)) (\<lambda>_.
         case nr_endpoint request of None \<Rightarrow> Inr ()
         | Some e \<Rightarrow>
             ebind (throw_if (\<not> np_allowsExternalEndpoint policy) (NetworkError NetworkPolicyDenied)) (\<lambda>_.
             ebind (validateNetworkEndpoint parse e) (\<lambda>_. Inr ())))))))))))"

section \<open>Transports\<close>

text \<open>The mock transport queues one empty payload per send and drains its queue on a receive.\<close>

definition noop_send ::
  "url_parser \<Rightarrow> privacy_state \<Rightarrow> dref \<Rightarrow> network_request \<times> network_policy \<Rightarrow> unit res" where
  "noop_send parse s decision q = assertNetworkOperationAllowed parse s decision q"

definition noop_receive ::
  "url_parser \<Rightarrow> privacy_state \<Rightarrow> dref \<Rightarrow> network_request \<times> network_policy \<Rightarrow> 8 word list list res" where
  "noop_receive parse s decision q = ebind (assertNetworkOperationAllowed parse s decision q) (\<lambda>_. Inr [])"

definition mock_send ::
  "url_parser \<Rightarrow> privacy_state \<Rightarrow> dref \<Rightarrow> network_request \<times> network_policy \<Rightarrow> 8 word list list
     \<Rightarrow> 8 word list list res" where
  "mock_send parse s decision q queue =
     ebind (assertNetworkOperationAllowed parse s decision q) (\<lambda>_. Inr (queue @ [[]]))"

definition mock_receive ::
  "url_parser \<Rightarrow> privacy_state \<Rightarrow> dref \<Rightarrow> network_request \<times> network_policy \<Rightarrow> 8 word list list
     \<Rightarrow> (8 word list list \<times> 8 word list list) res" where
  "mock_receive parse s decision q queue =
     ebind (assertNetworkOperationAllowed parse s decision q) (\<lambda>_. Inr (queue, []))"

section \<open>What the policy permits\<close>

text \<open>The mode, transport class and operation a send or receive needs; \<open>TC_unknown\<close> is one of
  the known classes.\<close>

definition network_permits :: "privacy_mode \<Rightarrow> transport_class \<Rightarrow> network_operation \<Rightarrow> bool" where
  "network_permits m t op \<longleftrightarrow> m \<in> set KNOWN_MODES \<and> op \<in> set NETWORK_OPERATION_KINDS
     \<and> op \<notin> set ALWAYS_FORBIDDEN_OPERATIONS
     \<and> (t \<in> {TC_qr, TC_file, TC_usb} \<and> m \<noteq> Mode_emergency
       \<or> t \<in> {TC_relay, TC_external_app, TC_email, TC_tor_proxy, TC_unknown}
         \<and> m \<in> {Mode_standard, Mode_private, Mode_sovereign_room} \<and> op \<noteq> NO_transport_discovery)"

text \<open>The transport classes whose policy lets a request name an endpoint.\<close>

definition endpoint_transport :: "privacy_mode \<Rightarrow> transport_class \<Rightarrow> bool" where
  "endpoint_transport m t \<longleftrightarrow> t = TC_relay \<or> t = TC_email \<and> m \<noteq> Mode_sovereign_room"

lemmas network_groups = KNOWN_TRANSPORTS_def OFFLINE_TRANSPORT_CLASSES_def OFFLINE_MODES_def
  DIRECT_PEER_TRANSPORT_CLASSES_def STRICT_MODES_def KNOWN_MODES_def

lemma network_draft_allowed:
  "nd_allowed (network_draft_of inp) \<longleftrightarrow>
     network_permits (ni_mode inp) (ni_transportClass inp) (ni_operation inp)"
  by (cases "ni_mode inp"; cases "ni_transportClass inp")
    (simp_all add: network_draft_of_def network_denied_def network_permits_def Let_def network_groups)

lemma network_draft_user:
  "nd_requiresUserInitiation (network_draft_of inp) \<longleftrightarrow>
     network_permits (ni_mode inp) (ni_transportClass inp) (ni_operation inp)
     \<and> ni_transportClass inp \<notin> set OFFLINE_TRANSPORT_CLASSES"
  by (cases "ni_mode inp"; cases "ni_transportClass inp")
    (simp_all add: network_draft_of_def network_denied_def network_permits_def Let_def network_groups)

lemma network_draft_endpoint:
  "nd_allowsExternalEndpoint (network_draft_of inp) \<longleftrightarrow>
     network_permits (ni_mode inp) (ni_transportClass inp) (ni_operation inp)
     \<and> endpoint_transport (ni_mode inp) (ni_transportClass inp)"
  by (cases "ni_mode inp"; cases "ni_transportClass inp")
    (simp_all add: network_draft_of_def network_denied_def network_permits_def endpoint_transport_def Let_def
      network_groups)

lemma network_draft_direct: "\<not> nd_allowsDirectPeerConnection (network_draft_of inp)"
  by (simp add: network_draft_of_def network_denied_def Let_def)

lemma resolved_network:
  "np_allowed (resolveNetworkPolicy inp) \<longleftrightarrow>
     network_permits (ni_mode inp) (ni_transportClass inp) (ni_operation inp)
     \<and> tightened True pnp_allowed (ni_roomPolicy inp)"
  "np_allowsExternalEndpoint (resolveNetworkPolicy inp) \<longleftrightarrow>
     network_permits (ni_mode inp) (ni_transportClass inp) (ni_operation inp)
     \<and> endpoint_transport (ni_mode inp) (ni_transportClass inp)
     \<and> tightened True pnp_allowsExternalEndpoint (ni_roomPolicy inp)"
  "np_allowsDirectPeerConnection (resolveNetworkPolicy inp) = False"
  "np_requiresUserInitiation (resolveNetworkPolicy inp) \<longleftrightarrow>
     network_permits (ni_mode inp) (ni_transportClass inp) (ni_operation inp)
     \<and> ni_transportClass inp \<notin> set OFFLINE_TRANSPORT_CLASSES"
  "np_mode (resolveNetworkPolicy inp) = ni_mode inp"
  by (auto simp: resolveNetworkPolicy_def finalize_network_def Let_def network_draft_allowed
      network_draft_user network_draft_endpoint network_draft_direct tightened_def)

lemma network_draft_capability:
  "nd_allowed (network_draft_of inp) \<Longrightarrow> nd_capability (network_draft_of inp) \<noteq> NC_forbidden"
  unfolding network_draft_allowed
  by (cases "ni_mode inp"; cases "ni_transportClass inp")
    (simp_all add: network_draft_of_def network_denied_def network_permits_def Let_def network_groups)

text \<open>The network policy is its table: an operation on a transport class is allowed in a mode
  exactly when the operation is not one of the always forbidden ones and either the transport needs
  no network and the mode is not emergency, or the mode is standard, private or sovereign-room, the
  transport is neither LAN, HTTP, a web socket nor a direct peer, and the operation is not a
  discovery; and the room does not forbid it.  A networked transport always needs the user's
  initiative, no policy allows a direct peer connection, and only relays and (outside sovereign
  rooms) electronic mail may name an endpoint.\<close>

theorem network_policy_table:
  "(np_allowed (resolveNetworkPolicy inp) \<longleftrightarrow>
      network_permits (ni_mode inp) (ni_transportClass inp) (ni_operation inp)
      \<and> tightened True pnp_allowed (ni_roomPolicy inp))
   \<and> (np_requiresUserInitiation (resolveNetworkPolicy inp) \<longleftrightarrow>
      network_permits (ni_mode inp) (ni_transportClass inp) (ni_operation inp)
      \<and> ni_transportClass inp \<notin> set OFFLINE_TRANSPORT_CLASSES)
   \<and> (np_allowsExternalEndpoint (resolveNetworkPolicy inp) \<longleftrightarrow>
      network_permits (ni_mode inp) (ni_transportClass inp) (ni_operation inp)
      \<and> endpoint_transport (ni_mode inp) (ni_transportClass inp)
      \<and> tightened True pnp_allowsExternalEndpoint (ni_roomPolicy inp))
   \<and> \<not> np_allowsDirectPeerConnection (resolveNetworkPolicy inp)
   \<and> \<not> np_allowsTelemetry (resolveNetworkPolicy inp)
   \<and> (np_capability (resolveNetworkPolicy inp) \<noteq> NC_forbidden) = np_allowed (resolveNetworkPolicy inp)"
proof -
  have "(np_capability (resolveNetworkPolicy inp) \<noteq> NC_forbidden) = np_allowed (resolveNetworkPolicy inp)"
    "\<not> np_allowsTelemetry (resolveNetworkPolicy inp)"
    using network_draft_capability [of inp]
    by (auto simp: resolveNetworkPolicy_def finalize_network_def Let_def tightened_def)
  then show ?thesis using resolved_network [of inp] by blast
qed

section \<open>What passes the barrier\<close>

text \<open>A scope of a decision is a literal text; an operation has it as its name.\<close>

definition network_scope :: "network_operation \<Rightarrow> side_effect_scope" where
  "network_scope op = map (\<lambda>c. char_of (unat c)) (network_operation_name op)"

lemma unat_of_char: "unat (of_char c :: 16 word) = of_char c"
proof -
  have "(of_char c :: 16 word) = word_of_nat (of_char c :: nat)"
    by (metis of_nat_of_char)
  moreover have "(of_char c :: nat) < 2 ^ LENGTH(16)"
    by (rule less_trans [of _ 256]) (simp_all add: nat_of_char_less_256)
  ultimately show ?thesis
    by (simp add: unat_of_nat take_bit_nat_eq_self)
qed

lemma network_scope_of: "js x = network_operation_name op \<Longrightarrow> x = network_scope op"
proof -
  assume *: "js x = network_operation_name op"
  have "map (\<lambda>c. char_of (unat c)) (js x) = x"
    by (simp add: js_def comp_def unat_of_char)
  with * show "x = network_scope op" by (simp add: network_scope_def)
qed

definition network_decision_ok :: "privacy_state \<Rightarrow> dref \<Rightarrow> network_operation \<Rightarrow> bool" where
  "network_decision_ok s r op = (case authentic s r of None \<Rightarrow> False
     | Some d \<Rightarrow> pd_verdict d = Allowed \<and> (pd_capability d = Cap_network \<or> pd_capability d = Cap_directTransport)
         \<and> js (pd_sideEffect d) = network_operation_name op)"

lemma network_decision_Inr: "assertNetworkDecisionValid s r op = Inr u \<longleftrightarrow> network_decision_ok s r op"
  unfolding assertNetworkDecisionValid_def ebind_eq_Inr throw_if_eq_Inr need_eq_Inr network_decision_ok_def
  by (auto split: option.splits)

lemma network_barrier_Inr:
  "assertNetworkOperationAllowed parse s r (request, p) = Inr u \<longleftrightarrow>
     network_decision_ok s r (nr_operation request)
   \<and> nr_operation request \<noteq> NO_telemetry_send \<and> nr_operation request \<noteq> NO_asset_fetch
   \<and> nr_operation request \<noteq> NO_link_preview
   \<and> \<not> (nr_transportClass request \<in> set DIRECT_PEER_TRANSPORT_CLASSES \<and> \<not> np_allowsDirectPeerConnection p)
   \<and> np_allowed p \<and> \<not> (np_requiresUserInitiation p \<and> \<not> nr_userInitiated request)
   \<and> (case nr_endpoint request of None \<Rightarrow> True
      | Some e \<Rightarrow> np_allowsExternalEndpoint p \<and> validateNetworkEndpoint parse e = Inr e)"
proof -
  have e: "validateNetworkEndpoint parse e = Inr x \<longleftrightarrow> x = e \<and> validateNetworkEndpoint parse e = Inr e" for e x
    unfolding validateNetworkEndpoint_def Let_def ebind_eq_Inr by auto
  show ?thesis
    unfolding assertNetworkOperationAllowed_def Let_def ebind_eq_Inr throw_if_eq_Inr fst_conv snd_conv
      network_decision_Inr
    by (auto simp: ebind_eq_Inr dest: e [THEN iffD1] split: option.splits)
qed

interpretation network_gate: capability_gate "assertNetworkOperationAllowed parse"
    "\<lambda>q. network_scope (nr_operation (fst q))" "\<lambda>q. {Cap_network, Cap_directTransport}" for parse
  by unfold_locales (auto simp: network_barrier_Inr network_decision_ok_def dest!: network_scope_of split: option.splits)

text \<open>C18.  What a transport sends.  With a policy the resolution produced, a request passes the
  barrier exactly when an authentic allowed network decision names its operation, the operation is
  not telemetry, an asset fetch or a link preview, its transport is not a direct peer, the
  policy's mode, transport and operation are in the table and its room agrees, the user started it
  or the policy's transport needs no network, and its endpoint, if it has one, is a valid one on a
  transport that may name endpoints.  Only then does the mock transport queue a payload.\<close>

theorem network_send_exact:
  "(mock_send parse s r (request, resolveNetworkPolicy inp) queue =
      (case assertNetworkOperationAllowed parse s r (request, resolveNetworkPolicy inp) of
         Inl e \<Rightarrow> Inl e | Inr u \<Rightarrow> Inr (queue @ [[]])))
   \<and> (assertNetworkOperationAllowed parse s r (request, resolveNetworkPolicy inp) = Inr () \<longleftrightarrow>
      network_decision_ok s r (nr_operation request)
    \<and> nr_operation request \<notin> {NO_telemetry_send, NO_asset_fetch, NO_link_preview}
    \<and> nr_transportClass request \<noteq> TC_webrtc
    \<and> network_permits (ni_mode inp) (ni_transportClass inp) (ni_operation inp)
    \<and> tightened True pnp_allowed (ni_roomPolicy inp)
    \<and> (ni_transportClass inp \<in> set OFFLINE_TRANSPORT_CLASSES \<or> nr_userInitiated request)
    \<and> (case nr_endpoint request of None \<Rightarrow> True
       | Some e \<Rightarrow> endpoint_transport (ni_mode inp) (ni_transportClass inp)
           \<and> tightened True pnp_allowsExternalEndpoint (ni_roomPolicy inp)
           \<and> validateNetworkEndpoint parse e = Inr e))"
  unfolding network_barrier_Inr resolved_network mock_send_def
  by (auto simp: DIRECT_PEER_TRANSPORT_CLASSES_def ebind_def split: option.splits sum.splits)

definition sample_network_decisions :: privacy_state where
  "sample_network_decisions =
     snd (issuePolicyDecision Cap_network Allowed Mode_standard ''ai.remote_request'' privacy_init)"

text \<open>The barrier does not compare the policy with the request: a policy resolved for a QR
  code in standard mode, which needs no user action, authorises a request over HTTP that the user
  did not start, for the remote-model operation the resolution forbids in every mode.\<close>

theorem network_policy_not_matched:
  "assertNetworkOperationAllowed parse sample_network_decisions 0
     (\<lparr>nr_operation = NO_ai_remote_request, nr_transportClass = TC_http, nr_endpoint = None,
       nr_userInitiated = False\<rparr>,
      resolveNetworkPolicy \<lparr>ni_mode = Mode_standard, ni_operation = NO_transport_send,
        ni_transportClass = TC_qr, ni_roomPolicy = None\<rparr>) = Inr ()
   \<and> \<not> np_allowed (resolveNetworkPolicy \<lparr>ni_mode = m, ni_operation = NO_ai_remote_request,
        ni_transportClass = t, ni_roomPolicy = None\<rparr>)
   \<and> \<not> np_allowed (resolveNetworkPolicy \<lparr>ni_mode = m, ni_operation = op,
        ni_transportClass = TC_http, ni_roomPolicy = None\<rparr>)"
  unfolding network_barrier_Inr resolved_network
  by (simp add: sample_network_decisions_def issuePolicyDecision_def privacy_init_def Let_def
      network_decision_ok_def authentic_def isPolicyDecision_def network_permits_def network_groups
      NETWORK_OPERATION_KINDS_def ALWAYS_FORBIDDEN_OPERATIONS_def tightened_def)

section \<open>Private hosts\<close>

definition dotted :: "8 word \<Rightarrow> 8 word \<Rightarrow> 8 word \<Rightarrow> 8 word \<Rightarrow> jstr" where
  "dotted a b c d = js (decimal (unat a)) @ 0x2e # js (decimal (unat b)) @ 0x2e #
     js (decimal (unat c)) @ 0x2e # js (decimal (unat d))"

definition is_digit_unit :: "16 word \<Rightarrow> bool" where
  "is_digit_unit c \<longleftrightarrow> 0x30 \<le> c \<and> c \<le> 0x39"

lemma decimal_digits: "list_all is_digit_unit (js (decimal n))"
proof -
  have "list_all (\<lambda>d. is_digit_unit (of_char (char_of (48 + d :: nat) :: char))) [0..<10]"
    by code_simp
  then show ?thesis
    by (auto simp: list_all_iff js_def dest!: decimal_digit)
qed

lemma starts_with_dot:
  assumes "0x2e \<notin> set x" "0x2e \<notin> set y"
  shows "starts_with (x @ 0x2e # r) (y @ 0x2e # t) \<longleftrightarrow> x = y \<and> starts_with r t"
proof -
  have iff: "starts_with u v \<longleftrightarrow> (\<exists>w. u = v @ w)" for u v :: jstr
    unfolding starts_with_def by (metis append_eq_conv_conj append_take_drop_id)
  show ?thesis
    unfolding iff using assms append_Cons_eq_iff
    by (auto simp: append_eq_append_conv2 append_eq_Cons_conv Cons_eq_append_conv)
qed

lemma decimal_no_dot: "0x2e \<notin> set (js (decimal n))"
  using decimal_digits [of n] by (auto simp: list_all_iff is_digit_unit_def)

lemma octet_start:
  "starts_with (js (decimal m) @ 0x2e # r) (js (decimal n) @ 0x2e # t) \<longleftrightarrow> m = n \<and> starts_with r t"
  using starts_with_dot [OF decimal_no_dot decimal_no_dot] by (auto dest: decimal_inj)

lemma starts_with_Nil [simp]: "starts_with s []"
  by (simp add: starts_with_def)

text \<open>The texts of the pattern, octet by octet.\<close>

lemma private_texts:
  "js ''127.'' = js (decimal 127) @ 0x2e # []" "js ''10.'' = js (decimal 10) @ 0x2e # []"
  "js ''192.168.'' = js (decimal 192) @ 0x2e # js (decimal 168) @ 0x2e # []"
  "js ''169.254.'' = js (decimal 169) @ 0x2e # js (decimal 254) @ 0x2e # []"
  "js ''172.'' = js (decimal 172) @ 0x2e # []"
  "js ''0.0.0.0'' = js (decimal 0) @ 0x2e # js (decimal 0) @ 0x2e # js (decimal 0) @ 0x2e # js ''0''"
  by code_simp+

lemma decimal_head_zero: "hd (decimal n) = CHR ''0'' \<longleftrightarrow> n = 0"
proof (induction n rule: decimal.induct)
  case (1 n)
  show ?case
  proof (cases "n < 10")
    case True
    have "char_of (48 + 0 :: nat) = CHR ''0''" by code_simp
    then show ?thesis using True digit_char_inj [of n 0] by (subst decimal.simps) auto
  next
    case False
    then show ?thesis using 1 decimal_length_pos [of "n div 10"] by (subst decimal.simps) (auto simp: div_eq_0_iff)
  qed
qed

lemma zero_octet: "starts_with (js (decimal (unat (d :: 8 word)))) (js ''0'') \<longleftrightarrow> d = 0"
proof -
  obtain c cs where c: "decimal (unat d) = c # cs"
    using decimal_length_pos by (cases "decimal (unat d)") auto
  then have "starts_with (js (decimal (unat d))) (js ''0'') \<longleftrightarrow> c = CHR ''0''"
    by (simp add: starts_with_def js_def flip: of_char16_inj)
  then show ?thesis using decimal_head_zero [of "unat d"] c by (simp add: unat_eq_zero)
qed

lemma unat_digit: "d < 10 \<Longrightarrow> unat (of_char (char_of (48 + d :: nat) :: char) :: 16 word) = 48 + d"
  by (simp add: unat_of_char)

lemma decimal_short:
  "n < 10 \<Longrightarrow> decimal n = [char_of (48 + n)]"
  "10 \<le> n \<Longrightarrow> n < 100 \<Longrightarrow> decimal n = [char_of (48 + n div 10), char_of (48 + n mod 10)]"
proof -
  show one: "decimal n = [char_of (48 + n)]" if "n < 10" for n
    using that by (simp add: decimal.simps)
  show "decimal n = [char_of (48 + n div 10), char_of (48 + n mod 10)]" if "10 \<le> n" "n < 100"
  proof -
    have "n div 10 < 10" using that by auto
    then show ?thesis using that one [of "n div 10"] by (subst decimal.simps) simp
  qed
qed

lemma private_172_digits:
  assumes "unat x = 48 + d" "unat y = 48 + e" "e < 10"
  shows "private_172 (x # y # 0x2e # r) \<longleftrightarrow> d = 1 \<and> 6 \<le> e \<or> d = 2 \<or> d = 3 \<and> e \<le> 1"
  using assms by (auto simp: private_172_def word_le_nat_alt word_unat_eq_iff)

lemma decimal_long: "100 \<le> n \<Longrightarrow> \<exists>x y z zs. js (decimal n) = x # y # z # zs"
proof -
  assume n: "100 \<le> n"
  obtain x xs where x: "decimal (n div 10 div 10) = x # xs"
    using decimal_length_pos by (cases "decimal (n div 10 div 10)") auto
  have "\<not> n < 10" "\<not> n div 10 < 10" using n by auto
  then have "decimal n = x # xs @ [char_of (48 + n div 10 mod 10), char_of (48 + n mod 10)]"
    using x by (simp add: decimal.simps [of n] decimal.simps [of "n div 10"])
  then show ?thesis by (cases xs; cases "tl xs") (auto simp: js_def)
qed

lemma private_172_octet: "private_172 (js (decimal (unat (b :: 8 word))) @ 0x2e # r) \<longleftrightarrow> 16 \<le> b \<and> b \<le> 31"
proof -
  have "private_172 (js (decimal n) @ 0x2e # r) \<longleftrightarrow> 16 \<le> n \<and> n \<le> 31" for n
  proof (cases "n < 100")
    case hundred: True
    show ?thesis
    proof (cases "n < 10")
      case True
      then show ?thesis by (auto simp: decimal_short js_def private_172_def word_le_nat_alt word_unat_eq_iff split: list.splits)
    next
      case False
      have "n div 10 < 10" "n mod 10 < 10" using hundred by auto
      then have "private_172 (js (decimal n) @ 0x2e # r) \<longleftrightarrow>
          n div 10 = 1 \<and> 6 \<le> n mod 10 \<or> n div 10 = 2 \<or> n div 10 = 3 \<and> n mod 10 \<le> 1"
        using private_172_digits [OF unat_digit unat_digit, of "n div 10" "n mod 10"]
        unfolding decimal_short(2) [OF False [unfolded not_less] hundred] js_def by simp
      also have "\<dots> \<longleftrightarrow> 16 \<le> n \<and> n \<le> 31"
        using div_mult_mod_eq [of n 10] \<open>n mod 10 < 10\<close> by linarith
      finally show ?thesis .
    qed
  next
    case False
    then obtain x y z zs where "js (decimal n) = x # y # z # zs" using decimal_long by force
    then show ?thesis
      using decimal_digits [of n] False by (auto simp: private_172_def is_digit_unit_def)
  qed
  then show ?thesis by (simp add: word_le_nat_alt)
qed

lemma lower_dotted: "map ascii_lower (dotted a b c d) = dotted a b c d"
proof -
  have "map ascii_lower (js (decimal n)) = js (decimal n)" for n
    using decimal_digits [of n]
    by (intro map_idI) (auto simp: list_all_iff is_digit_unit_def ascii_lower_def word_le_nat_alt)
  then show ?thesis by (simp add: dotted_def ascii_lower_def)
qed

text \<open>A dotted address starts with a digit, so the texts that do not cannot match it.\<close>

lemma dotted_digit: "\<exists>c cs. dotted a b x d = c # cs \<and> is_digit_unit c"
proof -
  obtain c cs where c: "js (decimal (unat a)) = c # cs"
    using decimal_length_pos by (cases "js (decimal (unat a))") (auto simp: js_def)
  then have "is_digit_unit c" using decimal_digits [of "unat a"] by simp
  with c show ?thesis by (simp add: dotted_def)
qed

lemma no_name_prefix: "\<not> is_digit_unit k \<Longrightarrow> \<not> starts_with (dotted a b c d) (k # ks)"
  using dotted_digit [of a b c d] by (auto simp: starts_with_def)

text \<open>The endpoint check knows the private addresses: of the dotted addresses it rejects
  exactly the loopback, 10/8, 172.16/12, 192.168/16 and link-local ones and 0.0.0.0.\<close>

theorem private_addresses_exact:
  "PRIVATE_HOST (dotted a b c d) \<longleftrightarrow>
     a = 127 \<or> a = 10 \<or> a = 172 \<and> 16 \<le> b \<and> b \<le> 31 \<or> a = 192 \<and> b = 168 \<or> a = 169 \<and> b = 254
     \<or> a = 0 \<and> b = 0 \<and> c = 0 \<and> d = 0"
proof -
  have names: "js ''localhost'' = 0x6c # js ''ocalhost''" "js ''['' = 0x5b # []" "js ''::1'' = 0x3a # js '':1''"
    "js ''fc'' = 0x66 # js ''c''" "js ''fd'' = 0x66 # js ''d''" "js ''fe'' = 0x66 # js ''e''"
    by code_simp+
  have none: "\<not> starts_with (dotted a b c d) (js ''localhost'')" "\<not> starts_with (dotted a b c d) (js ''['')"
    "\<not> starts_with (dotted a b c d) (js ''::1'')" "\<not> starts_with (dotted a b c d) (js ''fc'')"
    "\<not> starts_with (dotted a b c d) (js ''fd'')" "\<not> starts_with (dotted a b c d) (js ''fe'')"
    unfolding names by (simp_all add: no_name_prefix is_digit_unit_def)
  have octets: "starts_with (dotted a b c d) (js ''127.'') \<longleftrightarrow> a = 127"
    "starts_with (dotted a b c d) (js ''10.'') \<longleftrightarrow> a = 10"
    "starts_with (dotted a b c d) (js ''192.168.'') \<longleftrightarrow> a = 192 \<and> b = 168"
    "starts_with (dotted a b c d) (js ''169.254.'') \<longleftrightarrow> a = 169 \<and> b = 254"
    "starts_with (dotted a b c d) (js ''172.'') \<longleftrightarrow> a = 172"
    "starts_with (dotted a b c d) (js ''0.0.0.0'') \<longleftrightarrow> a = 0 \<and> b = 0 \<and> c = 0 \<and> d = 0"
    unfolding private_texts dotted_def octet_start zero_octet by (auto simp: word_unat_eq_iff)
  have "drop 4 (dotted 172 b c d) = js (decimal (unat b)) @ 0x2e # js (decimal (unat c)) @ 0x2e # js (decimal (unat d))"
  proof -
    have "js (decimal (unat (172 :: 8 word))) = js ''172''" by code_simp
    then show ?thesis by (simp add: dotted_def js_def)
  qed
  then have "a = 172 \<and> private_172 (drop 4 (dotted a b c d)) \<longleftrightarrow> a = 172 \<and> 16 \<le> b \<and> b \<le> 31"
    using private_172_octet by auto
  then show ?thesis
    unfolding PRIVATE_HOST_def lower_dotted Let_def by (auto simp: none octets)
qed

text \<open>The pattern is not a check of addresses: it rejects every host name that starts with
  \<open>fc\<close>, \<open>fd\<close> or \<open>fe\<close>, and lets the loopback address pass when it is written as
  an IPv4-mapped IPv6 address.\<close>

theorem private_host_misses:
  "PRIVATE_HOST (js ''fe'' @ rest) \<and> PRIVATE_HOST (js ''feedback.example'')
   \<and> \<not> PRIVATE_HOST (js ''[::ffff:7f00:1]'')"
proof -
  have "PRIVATE_HOST (js ''fe'' @ rest)"
  proof -
    have "map ascii_lower (js ''fe'' @ rest) = js ''fe'' @ map ascii_lower rest"
      "starts_with (js ''fe'' @ map ascii_lower rest) (js ''['') = False"
      by (simp_all add: js_def ascii_lower_def starts_with_def)
    then show ?thesis by (simp add: PRIVATE_HOST_def Let_def)
  qed
  moreover have "PRIVATE_HOST (js ''feedback.example'')" "\<not> PRIVATE_HOST (js ''[::ffff:7f00:1]'')"
    by code_simp+
  ultimately show ?thesis by blast
qed

end
