(* ===== verification/Metadata_Policy.thy ===== *)
theory Metadata_Policy
  imports Policy_Matrix
begin

text \<open>
  The metadata firewall of \<open>packages/privacy/src/\<close>: the taxonomy
  (\<open>metadataTypes.ts\<close>), the predicates and the redacted audit events
  (\<open>metadataHelpers.ts\<close>), the resolution of a policy (\<open>metadataPolicy.ts\<close>) and
  the signal hooks (\<open>metadataSignals.ts\<close>), with the exact table of what the resolution
  allows.  Reasons are texts and are not carried.
\<close>

section \<open>Events and sinks\<close>

text \<open>A kind outside the declared ones, reachable through a cast, is \<open>ME_other\<close> or
  \<open>MS_other\<close>; \<open>ME_unknown\<close> and \<open>MS_unknown\<close> are declared kinds.\<close>

datatype metadata_event =
    ME_receipt_read | ME_receipt_delivery | ME_typing_start | ME_typing_stop |
  ME_presence_online | ME_presence_offline | ME_presence_last_seen | ME_room_activity |
  ME_notification_preview | ME_notification_badge | ME_notification_sound | ME_link_preview |
  ME_asset_remote_fetch | ME_avatar_remote_fetch | ME_external_navigation | ME_transport_poll |
  ME_transport_send_timing | ME_transport_receive_timing | ME_transport_size | ME_relay_choice |
  ME_lan_discovery | ME_webrtc_ice_candidate | ME_capsule_spool_exists |
  ME_capsule_spool_timestamp | ME_cache_exists | ME_preview_generated | ME_thumbnail_generated |
  ME_log_write | ME_crash_report_create | ME_audit_event_write | ME_ai_prompt_exists |
  ME_ai_cache_exists | ME_ai_summary_exists | ME_screen_capture_detected |
  ME_protected_content_revealed | ME_device_risk_changed | ME_watermark_generated | ME_unknown |
  ME_other jstr

definition METADATA_EVENT_KINDS :: "metadata_event list" where
  "METADATA_EVENT_KINDS =
    [ME_receipt_read, ME_receipt_delivery, ME_typing_start, ME_typing_stop,
     ME_presence_online, ME_presence_offline, ME_presence_last_seen, ME_room_activity,
     ME_notification_preview, ME_notification_badge, ME_notification_sound, ME_link_preview,
     ME_asset_remote_fetch, ME_avatar_remote_fetch, ME_external_navigation,
     ME_transport_poll, ME_transport_send_timing, ME_transport_receive_timing,
     ME_transport_size, ME_relay_choice, ME_lan_discovery, ME_webrtc_ice_candidate,
     ME_capsule_spool_exists, ME_capsule_spool_timestamp, ME_cache_exists,
     ME_preview_generated, ME_thumbnail_generated, ME_log_write, ME_crash_report_create,
     ME_audit_event_write, ME_ai_prompt_exists, ME_ai_cache_exists, ME_ai_summary_exists,
     ME_screen_capture_detected, ME_protected_content_revealed, ME_device_risk_changed,
     ME_watermark_generated, ME_unknown]"

fun metadata_event_name :: "metadata_event \<Rightarrow> jstr" where
  "metadata_event_name ME_receipt_read = js ''receipt.read''"
| "metadata_event_name ME_receipt_delivery = js ''receipt.delivery''"
| "metadata_event_name ME_typing_start = js ''typing.start''"
| "metadata_event_name ME_typing_stop = js ''typing.stop''"
| "metadata_event_name ME_presence_online = js ''presence.online''"
| "metadata_event_name ME_presence_offline = js ''presence.offline''"
| "metadata_event_name ME_presence_last_seen = js ''presence.last_seen''"
| "metadata_event_name ME_room_activity = js ''room.activity''"
| "metadata_event_name ME_notification_preview = js ''notification.preview''"
| "metadata_event_name ME_notification_badge = js ''notification.badge''"
| "metadata_event_name ME_notification_sound = js ''notification.sound''"
| "metadata_event_name ME_link_preview = js ''link.preview''"
| "metadata_event_name ME_asset_remote_fetch = js ''asset.remote_fetch''"
| "metadata_event_name ME_avatar_remote_fetch = js ''avatar.remote_fetch''"
| "metadata_event_name ME_external_navigation = js ''external.navigation''"
| "metadata_event_name ME_transport_poll = js ''transport.poll''"
| "metadata_event_name ME_transport_send_timing = js ''transport.send_timing''"
| "metadata_event_name ME_transport_receive_timing = js ''transport.receive_timing''"
| "metadata_event_name ME_transport_size = js ''transport.size''"
| "metadata_event_name ME_relay_choice = js ''relay.choice''"
| "metadata_event_name ME_lan_discovery = js ''lan.discovery''"
| "metadata_event_name ME_webrtc_ice_candidate = js ''webrtc.ice_candidate''"
| "metadata_event_name ME_capsule_spool_exists = js ''capsule.spool_exists''"
| "metadata_event_name ME_capsule_spool_timestamp = js ''capsule.spool_timestamp''"
| "metadata_event_name ME_cache_exists = js ''cache.exists''"
| "metadata_event_name ME_preview_generated = js ''preview.generated''"
| "metadata_event_name ME_thumbnail_generated = js ''thumbnail.generated''"
| "metadata_event_name ME_log_write = js ''log.write''"
| "metadata_event_name ME_crash_report_create = js ''crash_report.create''"
| "metadata_event_name ME_audit_event_write = js ''audit_event.write''"
| "metadata_event_name ME_ai_prompt_exists = js ''ai.prompt_exists''"
| "metadata_event_name ME_ai_cache_exists = js ''ai.cache_exists''"
| "metadata_event_name ME_ai_summary_exists = js ''ai.summary_exists''"
| "metadata_event_name ME_screen_capture_detected = js ''screen.capture_detected''"
| "metadata_event_name ME_protected_content_revealed = js ''protected_content.revealed''"
| "metadata_event_name ME_device_risk_changed = js ''device_risk.changed''"
| "metadata_event_name ME_watermark_generated = js ''watermark.generated''"
| "metadata_event_name ME_unknown = js ''unknown''"
| "metadata_event_name (ME_other s) = s"

datatype metadata_sink =
    MS_local_memory | MS_local_persistent_storage | MS_network | MS_transport_envelope |
  MS_notification_system | MS_ui | MS_logs | MS_audit | MS_cache | MS_ai | MS_build_artifact |
  MS_unknown | MS_other jstr

definition METADATA_SINKS :: "metadata_sink list" where
  "METADATA_SINKS =
    [MS_local_memory, MS_local_persistent_storage, MS_network, MS_transport_envelope,
     MS_notification_system, MS_ui, MS_logs, MS_audit, MS_cache, MS_ai, MS_build_artifact,
     MS_unknown]"

text \<open>The groups of events and sinks.\<close>

definition APPLICATION_SIGNAL_EVENTS :: "metadata_event list" where
  "APPLICATION_SIGNAL_EVENTS =
    [ME_receipt_read, ME_receipt_delivery, ME_typing_start, ME_typing_stop,
     ME_presence_online, ME_presence_offline, ME_presence_last_seen, ME_room_activity]"

definition NOTIFICATION_EVENTS :: "metadata_event list" where
  "NOTIFICATION_EVENTS =
    [ME_notification_preview, ME_notification_badge, ME_notification_sound]"

definition EXTERNAL_FETCH_EVENTS :: "metadata_event list" where
  "EXTERNAL_FETCH_EVENTS =
    [ME_link_preview, ME_asset_remote_fetch, ME_avatar_remote_fetch, ME_external_navigation]"

definition DERIVED_PREVIEW_EVENTS :: "metadata_event list" where
  "DERIVED_PREVIEW_EVENTS =
    [ME_cache_exists, ME_preview_generated, ME_thumbnail_generated]"

definition NETWORK_METADATA_EVENTS :: "metadata_event list" where
  "NETWORK_METADATA_EVENTS =
    [ME_transport_poll, ME_transport_send_timing, ME_transport_receive_timing,
     ME_transport_size, ME_relay_choice, ME_lan_discovery, ME_webrtc_ice_candidate]"

definition AI_METADATA_EVENTS :: "metadata_event list" where
  "AI_METADATA_EVENTS =
    [ME_ai_prompt_exists, ME_ai_cache_exists, ME_ai_summary_exists]"

definition ENDPOINT_METADATA_EVENTS :: "metadata_event list" where
  "ENDPOINT_METADATA_EVENTS =
    [ME_screen_capture_detected, ME_protected_content_revealed, ME_device_risk_changed,
     ME_watermark_generated]"

definition PERSISTENT_SINKS :: "metadata_sink list" where
  "PERSISTENT_SINKS =
    [MS_local_persistent_storage, MS_build_artifact]"

definition NETWORKED_SINKS :: "metadata_sink list" where
  "NETWORKED_SINKS =
    [MS_network, MS_transport_envelope]"


datatype metadata_sensitivity = MV_public | MV_low | MV_sensitive | MV_relationship
  | MV_content_adjacent | MV_critical | MV_unknown

datatype metadata_action = MA_allow | MA_deny | MA_redact | MA_coarsen | MA_delay | MA_batch
  | MA_require_user_action | MA_memory_only | MA_null

section \<open>Predicates\<close>

definition isKnownMetadataEvent :: "metadata_event \<Rightarrow> bool" where
  "isKnownMetadataEvent e \<longleftrightarrow> e \<noteq> ME_unknown \<and> e \<in> set METADATA_EVENT_KINDS"

definition isKnownMetadataSink :: "metadata_sink \<Rightarrow> bool" where
  "isKnownMetadataSink k \<longleftrightarrow> k \<noteq> MS_unknown \<and> k \<in> set METADATA_SINKS"

definition isMetadataSinkPersistent :: "metadata_sink \<Rightarrow> bool" where
  "isMetadataSinkPersistent k \<longleftrightarrow> k \<in> set PERSISTENT_SINKS"

definition isMetadataSinkNetworked :: "metadata_sink \<Rightarrow> bool" where
  "isMetadataSinkNetworked k \<longleftrightarrow> k \<in> set NETWORKED_SINKS"

definition METADATA_STRICT_MODES :: "privacy_mode list" where
  "METADATA_STRICT_MODES = [Mode_ghost, Mode_bunker]"

definition PRIVATE_PLUS_MODES :: "privacy_mode list" where
  "PRIVATE_PLUS_MODES = [Mode_private, Mode_ghost, Mode_bunker, Mode_offline_capsule,
     Mode_emergency, Mode_sovereign_room]"

definition isMetadataEventForbiddenInMode :: "privacy_mode \<Rightarrow> metadata_event \<Rightarrow> bool" where
  "isMetadataEventForbiddenInMode mode e =
     (if e \<in> set EXTERNAL_FETCH_EVENTS \<or> e \<in> set NOTIFICATION_EVENTS
         \<or> e \<in> set APPLICATION_SIGNAL_EVENTS \<or> e \<in> set AI_METADATA_EVENTS
         \<or> e = ME_crash_report_create then True
      else if e \<in> set NETWORK_METADATA_EVENTS then True
      else if e \<in> set DERIVED_PREVIEW_EVENTS \<and> mode \<in> set PRIVATE_PLUS_MODES then True
      else if e = ME_protected_content_revealed \<and> mode \<in> set METADATA_STRICT_MODES then True
      else False)"

definition defaultMetadataSensitivity :: "metadata_event \<Rightarrow> metadata_sensitivity" where
  "defaultMetadataSensitivity e =
     (if e \<in> set APPLICATION_SIGNAL_EVENTS then MV_relationship
      else if e \<in> set EXTERNAL_FETCH_EVENTS \<or> e \<in> set DERIVED_PREVIEW_EVENTS then MV_content_adjacent
      else if e \<in> set NETWORK_METADATA_EVENTS then MV_sensitive
      else if e \<in> set AI_METADATA_EVENTS then MV_content_adjacent
      else if e \<in> set NOTIFICATION_EVENTS then MV_sensitive
      else if e = ME_protected_content_revealed \<or> e = ME_watermark_generated then MV_critical
      else if e = ME_crash_report_create \<or> e = ME_log_write then MV_sensitive
      else if e = ME_unknown then MV_unknown
      else MV_low)"

section \<open>Payloads and audit events\<close>

definition isSafeScalar :: "jsval \<Rightarrow> bool" where
  "isSafeScalar v = (case v of
       JNum n \<Rightarrow> (case n of NInt i \<Rightarrow> True | NFrac \<Rightarrow> True | NNaN \<Rightarrow> False | NInf s \<Rightarrow> False)
     | JBool b \<Rightarrow> True | _ \<Rightarrow> False)"

definition assertNoSensitiveMetadataPayload :: "jsval \<Rightarrow> unit res" where
  "assertNoSensitiveMetadataPayload payload =
     (if payload = JUndef \<or> payload = JNull then Inr ()
      else if isSafeScalar payload then Inr ()
      else ebind (need (MetadataError MetadataBypassAttempt) (own_fields payload)) (\<lambda>fs.
        throw_if (list_ex (\<lambda>(k, v). v \<noteq> JNull \<and> \<not> isSafeScalar v) fs)
          (MetadataError MetadataBypassAttempt)))"

text \<open>\<open>SAFE_SLUG\<close>, which also matches the empty key.  Assigning a scalar to the key
  \<open>__proto__\<close> of a fresh object leaves no own property.\<close>

definition SAFE_SLUG :: "jstr \<Rightarrow> bool" where
  "SAFE_SLUG s \<longleftrightarrow> length s \<le> 32 \<and> list_all is_slug_unit s"

definition keeps_own :: "jstr \<Rightarrow> bool" where
  "keeps_own k \<longleftrightarrow> SAFE_SLUG k \<and> k \<noteq> js ''__proto__''"

text \<open>The \<open>safe\<close> fields of the redacted payload, in the order of the input's entries.\<close>

definition redactMetadataPayload :: "jsval \<Rightarrow> (jstr \<times> jsval) list" where
  "redactMetadataPayload payload =
     (if isSafeScalar payload then [(js ''value'', payload)]
      else case own_fields payload of None \<Rightarrow> []
        | Some fs \<Rightarrow> filter (\<lambda>(k, v). keeps_own k \<and> isSafeScalar v) fs)"

record metadata_audit_event =
  mae_kind :: jstr
  mae_category :: string
  mae_severity :: string
  mae_createdAtLocal :: jstr
  mae_details :: "(jstr \<times> jsval) list"

text \<open>The counter \<open>auditSeq\<close> is threaded through.\<close>

definition createRedactedAuditEvent ::
  "jstr \<Rightarrow> string \<Rightarrow> string \<Rightarrow> (jstr \<times> jsval) list option \<Rightarrow> nat \<Rightarrow> metadata_audit_event \<times> nat" where
  "createRedactedAuditEvent kind category severity details auditSeq =
     (let n = Suc auditSeq
      in (\<lparr>mae_kind = kind, mae_category = category, mae_severity = severity,
           mae_createdAtLocal = js (''logical:'' @ decimal n),
           mae_details = (case details of None \<Rightarrow> []
             | Some fs \<Rightarrow> filter (\<lambda>(k, v). keeps_own k \<and> (v = JNull \<or> isSafeScalar v)) fs)\<rparr>, n))"

section \<open>Resolution\<close>

record metadata_policy =
  mp_mode :: privacy_mode
  mp_event :: metadata_event
  mp_sink :: metadata_sink
  mp_sensitivity :: metadata_sensitivity
  mp_action :: metadata_action
  mp_allowed :: bool
  mp_persistentAllowed :: bool
  mp_networkAllowed :: bool
  mp_userVisibleWarningRequired :: bool

text \<open>What the composition reads of \<open>Partial<MetadataPolicy>\<close>, and what the resolution reads
  of its input.\<close>

record partial_metadata_policy =
  pmp_allowed :: "bool option"
  pmp_userVisibleWarningRequired :: "bool option"

record metadata_policy_input =
  mpi_mode :: privacy_mode
  mpi_event :: metadata_event
  mpi_sink :: metadata_sink
  mpi_sensitivity :: "metadata_sensitivity option"
  mpi_roomPolicy :: "partial_metadata_policy option"
  mpi_storagePersistent :: "bool option"
  mpi_screenShieldLevel :: "shield_level option"

record metadata_draft =
  mdr_action :: metadata_action
  mdr_allowed :: bool
  mdr_warn :: bool

definition metadata_allow :: "metadata_action \<Rightarrow> bool \<Rightarrow> metadata_draft" where
  "metadata_allow action warn = \<lparr>mdr_action = action, mdr_allowed = True, mdr_warn = warn\<rparr>"

definition metadata_deny :: "metadata_action \<Rightarrow> metadata_draft" where
  "metadata_deny action = \<lparr>mdr_action = action, mdr_allowed = False, mdr_warn = False\<rparr>"

definition metadata_sensitivity_of :: "metadata_policy_input \<Rightarrow> metadata_sensitivity" where
  "metadata_sensitivity_of inp = (case mpi_sensitivity inp of
     None \<Rightarrow> defaultMetadataSensitivity (mpi_event inp) | Some s \<Rightarrow> s)"

definition sealed_shield :: "shield_level option \<Rightarrow> bool" where
  "sealed_shield l \<longleftrightarrow> l = Some SL_sealed \<or> l = Some SL_bunker"

definition finalize_metadata :: "metadata_policy_input \<Rightarrow> metadata_draft \<Rightarrow> metadata_policy" where
  "finalize_metadata inp draft =
     (let room = mpi_roomPolicy inp;
          allowed = (case room of None \<Rightarrow> mdr_allowed draft
            | Some r \<Rightarrow> mdr_allowed draft \<and> (case pmp_allowed r of None \<Rightarrow> True | Some b \<Rightarrow> b));
          warn = (case room of None \<Rightarrow> mdr_warn draft
            | Some r \<Rightarrow> mdr_warn draft
                \<or> (case pmp_userVisibleWarningRequired r of None \<Rightarrow> False | Some b \<Rightarrow> b))
      in \<lparr>mp_mode = mpi_mode inp, mp_event = mpi_event inp, mp_sink = mpi_sink inp,
          mp_sensitivity = metadata_sensitivity_of inp,
          mp_action = (if allowed then mdr_action draft
            else if mdr_action draft = MA_null then MA_null else MA_deny),
          mp_allowed = allowed, mp_persistentAllowed = False, mp_networkAllowed = False,
          mp_userVisibleWarningRequired = warn\<rparr>)"

definition metadata_draft_of :: "metadata_policy_input \<Rightarrow> metadata_draft" where
  "metadata_draft_of inp =
     (let mode = mpi_mode inp; e = mpi_event inp; sink = mpi_sink inp;
          sensitivity = metadata_sensitivity_of inp;
          strict = (mode \<in> set METADATA_STRICT_MODES);
          sealed = sealed_shield (mpi_screenShieldLevel inp);
          persistent = (isMetadataSinkPersistent sink \<or> mpi_storagePersistent inp = Some True);
          networked = isMetadataSinkNetworked sink;
          denied = metadata_deny MA_deny
      in if mode \<notin> set KNOWN_MODES \<or> \<not> isKnownMetadataEvent e \<or> \<not> isKnownMetadataSink sink
         then metadata_deny MA_null
         else if e \<in> set EXTERNAL_FETCH_EVENTS then denied
         else if e = ME_crash_report_create then denied
         else if e \<in> set AI_METADATA_EVENTS then denied
         else if e \<in> set APPLICATION_SIGNAL_EVENTS then denied
         else if e \<in> set NOTIFICATION_EVENTS then denied
         else if networked \<or> e \<in> set NETWORK_METADATA_EVENTS then denied
         else if persistent then denied
         else if mode = Mode_emergency then
           (if e = ME_audit_event_write \<and> (sink = MS_audit \<or> sink = MS_logs \<or> sink = MS_local_memory)
            then metadata_allow MA_redact False else denied)
         else if e \<in> set DERIVED_PREVIEW_EVENTS then
           (if strict \<or> sealed then denied
            else if (e = ME_preview_generated \<or> e = ME_thumbnail_generated) \<and> mode \<noteq> Mode_standard
            then denied
            else if sink = MS_local_memory \<or> sink = MS_cache \<or> sink = MS_ui
            then metadata_allow MA_memory_only False
            else denied)
         else if e = ME_protected_content_revealed then
           (if strict \<or> sealed then denied
            else if sink = MS_local_memory \<or> sink = MS_ui then metadata_allow MA_memory_only True
            else denied)
         else if e = ME_screen_capture_detected \<or> e = ME_device_risk_changed
              \<or> e = ME_watermark_generated then
           (if sink = MS_local_memory \<or> sink = MS_audit \<or> sink = MS_ui
            then metadata_allow MA_redact False else denied)
         else if e = ME_capsule_spool_exists \<or> e = ME_capsule_spool_timestamp then
           (if e = ME_capsule_spool_timestamp \<and> strict then denied
            else if sink = MS_local_memory then metadata_allow MA_memory_only False
            else denied)
         else if e = ME_audit_event_write then
           (if sink = MS_audit \<or> sink = MS_logs \<or> sink = MS_local_memory
            then metadata_allow MA_redact False else denied)
         else if e = ME_log_write then
           (if (sink = MS_logs \<or> sink = MS_local_memory) \<and> (sensitivity = MV_public \<or> sensitivity = MV_low)
            then metadata_allow MA_redact False else denied)
         else denied)"

definition resolveMetadataPolicy :: "metadata_policy_input \<Rightarrow> metadata_policy" where
  "resolveMetadataPolicy inp = finalize_metadata inp (metadata_draft_of inp)"

section \<open>Signal hooks\<close>

text \<open>A context names the mode, the room policy, the shield and a sink of its own choice.\<close>

record signal_context =
  sgc_mode :: privacy_mode
  sgc_roomPolicy :: "partial_metadata_policy option"
  sgc_screenShieldLevel :: "shield_level option"
  sgc_sink :: "metadata_sink option"

definition evaluate_signal :: "metadata_event \<Rightarrow> metadata_sink \<Rightarrow> signal_context \<Rightarrow> metadata_policy" where
  "evaluate_signal e sink ctx = resolveMetadataPolicy \<lparr>mpi_mode = sgc_mode ctx, mpi_event = e,
     mpi_sink = (case sgc_sink ctx of None \<Rightarrow> sink | Some k \<Rightarrow> k), mpi_sensitivity = None,
     mpi_roomPolicy = sgc_roomPolicy ctx, mpi_storagePersistent = None,
     mpi_screenShieldLevel = sgc_screenShieldLevel ctx\<rparr>"

definition evaluateReadReceiptPolicy :: "signal_context \<Rightarrow> string option \<Rightarrow> metadata_policy" where
  "evaluateReadReceiptPolicy ctx kind = evaluate_signal
     (if kind = Some ''delivery'' then ME_receipt_delivery else ME_receipt_read)
     MS_transport_envelope ctx"

definition evaluateTypingPolicy :: "signal_context \<Rightarrow> string option \<Rightarrow> metadata_policy" where
  "evaluateTypingPolicy ctx phase = evaluate_signal
     (if phase = Some ''stop'' then ME_typing_stop else ME_typing_start) MS_transport_envelope ctx"

definition evaluatePresencePolicy :: "signal_context \<Rightarrow> string option \<Rightarrow> metadata_policy" where
  "evaluatePresencePolicy ctx state = evaluate_signal
     (if state = Some ''offline'' then ME_presence_offline
      else if state = Some ''last_seen'' then ME_presence_last_seen else ME_presence_online)
     MS_transport_envelope ctx"

definition evaluateNotificationMetadataPolicy :: "signal_context \<Rightarrow> string option \<Rightarrow> metadata_policy" where
  "evaluateNotificationMetadataPolicy ctx part = evaluate_signal
     (if part = Some ''badge'' then ME_notification_badge
      else if part = Some ''sound'' then ME_notification_sound else ME_notification_preview)
     MS_notification_system ctx"

definition evaluateLinkPreviewMetadataPolicy :: "signal_context \<Rightarrow> metadata_policy" where
  "evaluateLinkPreviewMetadataPolicy ctx = evaluate_signal ME_link_preview MS_network ctx"

definition evaluateExternalAssetMetadataPolicy :: "signal_context \<Rightarrow> string option \<Rightarrow> metadata_policy" where
  "evaluateExternalAssetMetadataPolicy ctx kind = evaluate_signal
     (if kind = Some ''avatar'' then ME_avatar_remote_fetch else ME_asset_remote_fetch) MS_network ctx"

section \<open>What the resolution allows\<close>

lemmas metadata_groups = APPLICATION_SIGNAL_EVENTS_def NOTIFICATION_EVENTS_def EXTERNAL_FETCH_EVENTS_def
  DERIVED_PREVIEW_EVENTS_def NETWORK_METADATA_EVENTS_def AI_METADATA_EVENTS_def PERSISTENT_SINKS_def
  NETWORKED_SINKS_def METADATA_STRICT_MODES_def PRIVATE_PLUS_MODES_def

text \<open>The table: the event, the sinks it may reach and the modes it may happen in.\<close>

fun metadata_sinks :: "metadata_event \<Rightarrow> metadata_sink set" where
  "metadata_sinks ME_cache_exists = {MS_local_memory, MS_cache, MS_ui}"
| "metadata_sinks ME_preview_generated = {MS_local_memory, MS_cache, MS_ui}"
| "metadata_sinks ME_thumbnail_generated = {MS_local_memory, MS_cache, MS_ui}"
| "metadata_sinks ME_protected_content_revealed = {MS_local_memory, MS_ui}"
| "metadata_sinks ME_screen_capture_detected = {MS_local_memory, MS_audit, MS_ui}"
| "metadata_sinks ME_device_risk_changed = {MS_local_memory, MS_audit, MS_ui}"
| "metadata_sinks ME_watermark_generated = {MS_local_memory, MS_audit, MS_ui}"
| "metadata_sinks ME_capsule_spool_exists = {MS_local_memory}"
| "metadata_sinks ME_capsule_spool_timestamp = {MS_local_memory}"
| "metadata_sinks ME_audit_event_write = {MS_audit, MS_logs, MS_local_memory}"
| "metadata_sinks ME_log_write = {MS_logs, MS_local_memory}"
| "metadata_sinks _ = {}"

definition metadata_modes :: "metadata_event \<Rightarrow> privacy_mode set" where
  "metadata_modes e =
     (if e = ME_audit_event_write then set KNOWN_MODES
      else if e = ME_preview_generated \<or> e = ME_thumbnail_generated then {Mode_standard}
      else if e = ME_cache_exists \<or> e = ME_protected_content_revealed \<or> e = ME_capsule_spool_timestamp
      then {Mode_standard, Mode_private, Mode_offline_capsule, Mode_sovereign_room}
      else set KNOWN_MODES - {Mode_emergency})"

definition metadata_permits ::
  "privacy_mode \<Rightarrow> metadata_event \<Rightarrow> metadata_sink \<Rightarrow> metadata_sensitivity \<Rightarrow> bool \<Rightarrow> bool" where
  "metadata_permits m e k v sealed \<longleftrightarrow> m \<in> metadata_modes e \<and> k \<in> metadata_sinks e
     \<and> \<not> (sealed \<and> (e \<in> set DERIVED_PREVIEW_EVENTS \<or> e = ME_protected_content_revealed))
     \<and> \<not> (e = ME_log_write \<and> v \<notin> {MV_public, MV_low})"

lemma metadata_table_groups:
  "metadata_sinks e \<noteq> {} \<Longrightarrow> isKnownMetadataEvent e \<and> e \<notin> set EXTERNAL_FETCH_EVENTS
     \<and> e \<noteq> ME_crash_report_create \<and> e \<notin> set AI_METADATA_EVENTS \<and> e \<notin> set APPLICATION_SIGNAL_EVENTS
     \<and> e \<notin> set NOTIFICATION_EVENTS \<and> e \<notin> set NETWORK_METADATA_EVENTS"
  "k \<in> metadata_sinks e \<Longrightarrow> isKnownMetadataSink k \<and> \<not> isMetadataSinkNetworked k \<and> \<not> isMetadataSinkPersistent k"
  by (cases e; simp add: metadata_groups isKnownMetadataEvent_def METADATA_EVENT_KINDS_def
      isKnownMetadataSink_def METADATA_SINKS_def isMetadataSinkNetworked_def isMetadataSinkPersistent_def; auto)+

lemma metadata_listed:
  "metadata_sinks e \<noteq> {} \<Longrightarrow> e \<in> {ME_cache_exists, ME_preview_generated, ME_thumbnail_generated,
     ME_protected_content_revealed, ME_screen_capture_detected, ME_device_risk_changed,
     ME_watermark_generated, ME_capsule_spool_exists, ME_capsule_spool_timestamp, ME_audit_event_write,
     ME_log_write}"
  by (cases e) simp_all

text \<open>The part of the draft that is reached once the general denials are out of the way.\<close>

lemma metadata_draft_local:
  assumes "mpi_mode inp \<in> set KNOWN_MODES" "metadata_sinks (mpi_event inp) \<noteq> {}"
    "isKnownMetadataSink (mpi_sink inp)" "\<not> isMetadataSinkNetworked (mpi_sink inp)"
    "\<not> isMetadataSinkPersistent (mpi_sink inp)" "mpi_storagePersistent inp \<noteq> Some True"
  shows "mdr_allowed (metadata_draft_of inp) \<longleftrightarrow>
    metadata_permits (mpi_mode inp) (mpi_event inp) (mpi_sink inp) (metadata_sensitivity_of inp)
      (sealed_shield (mpi_screenShieldLevel inp))"
  using metadata_listed [OF assms(2)] metadata_table_groups(1) [OF assms(2)] assms
  unfolding metadata_draft_of_def Let_def
  by (elim insertE emptyE, simp_all add: metadata_permits_def metadata_modes_def metadata_allow_def
      metadata_deny_def METADATA_STRICT_MODES_def DERIVED_PREVIEW_EVENTS_def) (auto simp: KNOWN_MODES_def)

lemma metadata_draft_denied:
  assumes "metadata_sinks (mpi_event inp) = {}"
  shows "\<not> mdr_allowed (metadata_draft_of inp)"
proof -
  have e: "e \<notin> set DERIVED_PREVIEW_EVENTS" "e \<noteq> ME_protected_content_revealed" "e \<noteq> ME_screen_capture_detected"
    "e \<noteq> ME_device_risk_changed" "e \<noteq> ME_watermark_generated" "e \<noteq> ME_capsule_spool_exists"
    "e \<noteq> ME_capsule_spool_timestamp" "e \<noteq> ME_audit_event_write" "e \<noteq> ME_log_write"
    if "e = mpi_event inp" for e
    using assms that by (auto simp: DERIVED_PREVIEW_EVENTS_def)
  show ?thesis
    unfolding metadata_draft_of_def Let_def using e [OF refl] by (simp add: metadata_deny_def)
qed

lemma metadata_modes_known: "m \<in> metadata_modes e \<Longrightarrow> m \<in> set KNOWN_MODES"
  by (auto simp: metadata_modes_def KNOWN_MODES_def split: if_splits)

lemma metadata_draft_allowed:
  "mdr_allowed (metadata_draft_of inp) \<longleftrightarrow>
    mpi_storagePersistent inp \<noteq> Some True
    \<and> metadata_permits (mpi_mode inp) (mpi_event inp) (mpi_sink inp) (metadata_sensitivity_of inp)
      (sealed_shield (mpi_screenShieldLevel inp))"
proof (cases "mpi_mode inp \<in> set KNOWN_MODES \<and> metadata_sinks (mpi_event inp) \<noteq> {}
    \<and> isKnownMetadataSink (mpi_sink inp) \<and> \<not> isMetadataSinkNetworked (mpi_sink inp)
    \<and> \<not> isMetadataSinkPersistent (mpi_sink inp) \<and> mpi_storagePersistent inp \<noteq> Some True")
  case True
  then show ?thesis using metadata_draft_local [of inp] by blast
next
  case False
  have "\<not> mdr_allowed (metadata_draft_of inp)"
  proof (cases "metadata_sinks (mpi_event inp) = {}")
    case True
    then show ?thesis by (rule metadata_draft_denied)
  next
    case nonempty: False
    note e = metadata_table_groups(1) [OF this]
    consider "mpi_mode inp \<notin> set KNOWN_MODES \<or> \<not> isKnownMetadataSink (mpi_sink inp)"
      | "mpi_mode inp \<in> set KNOWN_MODES" "isKnownMetadataSink (mpi_sink inp)" "isMetadataSinkNetworked (mpi_sink inp)"
      | "mpi_mode inp \<in> set KNOWN_MODES" "isKnownMetadataSink (mpi_sink inp)" "\<not> isMetadataSinkNetworked (mpi_sink inp)"
        "isMetadataSinkPersistent (mpi_sink inp) \<or> mpi_storagePersistent inp = Some True"
      using False nonempty by blast
    then show ?thesis
      unfolding metadata_draft_of_def Let_def
      by cases (simp_all add: metadata_deny_def e split del: if_split)
  qed
  moreover have "mpi_storagePersistent inp = Some True \<or>
      \<not> metadata_permits (mpi_mode inp) (mpi_event inp) (mpi_sink inp) (metadata_sensitivity_of inp)
      (sealed_shield (mpi_screenShieldLevel inp))"
    using False metadata_table_groups(2) [of "mpi_sink inp" "mpi_event inp"] metadata_modes_known
    by (auto simp: metadata_permits_def)
  ultimately show ?thesis by blast
qed

definition room_allows :: "metadata_policy_input \<Rightarrow> bool" where
  "room_allows inp = (case mpi_roomPolicy inp of None \<Rightarrow> True
     | Some r \<Rightarrow> (case pmp_allowed r of None \<Rightarrow> True | Some b \<Rightarrow> b))"

lemma resolved_metadata:
  "mp_allowed (resolveMetadataPolicy inp) \<longleftrightarrow> mdr_allowed (metadata_draft_of inp) \<and> room_allows inp"
  "mp_event (resolveMetadataPolicy inp) = mpi_event inp" "mp_sink (resolveMetadataPolicy inp) = mpi_sink inp"
  "mp_persistentAllowed (resolveMetadataPolicy inp) = False" "mp_networkAllowed (resolveMetadataPolicy inp) = False"
  by (auto simp: resolveMetadataPolicy_def finalize_metadata_def Let_def room_allows_def split: option.splits)

lemma metadata_action_kept:
  "mp_allowed (resolveMetadataPolicy inp) \<Longrightarrow> mp_action (resolveMetadataPolicy inp) = mdr_action (metadata_draft_of inp)"
  by (auto simp: resolveMetadataPolicy_def finalize_metadata_def Let_def)

text \<open>Every draft pairs its verdict with an action of that verdict.\<close>

definition draft_safe :: "metadata_draft \<Rightarrow> bool" where
  "draft_safe d \<longleftrightarrow>
     mdr_action d \<in> (if mdr_allowed d then {MA_redact, MA_memory_only} else {MA_deny, MA_null})"

lemma draft_safe_if: "draft_safe d \<Longrightarrow> draft_safe d' \<Longrightarrow> draft_safe (if b then d else d')"
  by simp

lemma draft_safe: "draft_safe (metadata_draft_of inp)"
proof -
  have verdicts: "draft_safe (metadata_deny MA_deny)" "draft_safe (metadata_deny MA_null)"
    "draft_safe (metadata_allow MA_redact w)" "draft_safe (metadata_allow MA_memory_only w)" for w
    by (simp_all add: draft_safe_def metadata_allow_def metadata_deny_def)
  show ?thesis
    unfolding metadata_draft_of_def Let_def by (intro draft_safe_if verdicts)
qed

text \<open>The metadata firewall is its table: a metadata event is allowed exactly when its sink
  is one of the few memory-only sinks of the event, the mode is one of the event's, no sealed shield
  hides it, a log line is not sensitive, the caller does not store it, and the room does not forbid
  it.  Whatever is allowed is redacted or kept in memory, and nothing is persistent or leaves the
  device.\<close>

theorem metadata_policy_table:
  "(mp_allowed (resolveMetadataPolicy inp) \<longleftrightarrow>
      metadata_permits (mpi_mode inp) (mpi_event inp) (mpi_sink inp) (metadata_sensitivity_of inp)
        (sealed_shield (mpi_screenShieldLevel inp))
    \<and> mpi_storagePersistent inp \<noteq> Some True \<and> room_allows inp)
   \<and> mp_action (resolveMetadataPolicy inp) \<in>
      (if mp_allowed (resolveMetadataPolicy inp) then {MA_redact, MA_memory_only} else {MA_deny, MA_null})
   \<and> \<not> mp_persistentAllowed (resolveMetadataPolicy inp) \<and> \<not> mp_networkAllowed (resolveMetadataPolicy inp)"
proof -
  have "mp_action (resolveMetadataPolicy inp) \<in>
      (if mp_allowed (resolveMetadataPolicy inp) then {MA_redact, MA_memory_only} else {MA_deny, MA_null})"
    using draft_safe [of inp]
    by (auto simp: draft_safe_def resolveMetadataPolicy_def finalize_metadata_def Let_def
        split: if_splits option.splits)
  then show ?thesis
    using resolved_metadata [of inp] metadata_draft_allowed [of inp] by blast
qed

text \<open>The quick check and the resolution: an event can be allowed in a mode, for some sink and
  context, exactly when the quick check does not forbid it and the mode still generates it; the one
  disagreement is the existence of a cache entry, which the quick check forbids outside standard
  and the resolution allows in private, offline and sovereign-room mode.\<close>

theorem quick_check_exact:
  "(\<exists>inp. mpi_mode inp = m \<and> mpi_event inp = e \<and> mp_allowed (resolveMetadataPolicy inp)) \<longleftrightarrow>
     m \<in> metadata_modes e \<and> metadata_sinks e \<noteq> {}
   \<and> (\<not> isMetadataEventForbiddenInMode m e
      \<or> e = ME_cache_exists \<and> m \<in> {Mode_private, Mode_offline_capsule, Mode_sovereign_room})"
proof -
  have "m \<in> metadata_modes e \<Longrightarrow> metadata_sinks e \<noteq> {} \<Longrightarrow> \<not> isMetadataEventForbiddenInMode m e
      \<or> e = ME_cache_exists \<and> m \<in> {Mode_private, Mode_offline_capsule, Mode_sovereign_room}"
    by (cases e) (auto simp: metadata_modes_def isMetadataEventForbiddenInMode_def metadata_groups KNOWN_MODES_def)
  moreover have "\<exists>inp. mpi_mode inp = m \<and> mpi_event inp = e \<and> mp_allowed (resolveMetadataPolicy inp)"
    if "m \<in> metadata_modes e" "k \<in> metadata_sinks e" for k
  proof (intro exI conjI)
    let ?inp = "\<lparr>mpi_mode = m, mpi_event = e, mpi_sink = k, mpi_sensitivity = Some MV_low,
      mpi_roomPolicy = None, mpi_storagePersistent = None, mpi_screenShieldLevel = None\<rparr>"
    show "mpi_mode ?inp = m" "mpi_event ?inp = e" by simp_all
    show "mp_allowed (resolveMetadataPolicy ?inp)"
      using that by (simp add: resolved_metadata metadata_draft_allowed metadata_permits_def room_allows_def
          metadata_sensitivity_of_def sealed_shield_def)
  qed
  ultimately show ?thesis
    using resolved_metadata(1) metadata_draft_allowed by (auto simp: metadata_permits_def)
qed

end
