(* ===== verification/Metadata_Barrier.thy ===== *)
theory Metadata_Barrier
  imports Metadata_Policy
begin

text \<open>
  The metadata side-effect barrier of \<open>packages/privacy/src/metadataBarrier.ts\<close> and what it
  lets through: the guarantees of the metadata firewall for a policy the resolution produced and
  for one a caller made up.
\<close>

section \<open>Expected decisions\<close>

definition event_in :: "string \<Rightarrow> metadata_event \<Rightarrow> bool" where
  "event_in prefix e \<longleftrightarrow> starts_with (metadata_event_name e) (js prefix)"

definition expectedMetadataScope :: "metadata_event \<Rightarrow> metadata_sink \<Rightarrow> side_effect_scope" where
  "expectedMetadataScope e sink =
     (if event_in ''receipt.'' e then ''receipt.emit''
      else if event_in ''typing.'' e then ''typing.emit''
      else if event_in ''presence.'' e \<or> e = ME_room_activity then ''presence.emit''
      else if event_in ''notification.'' e then ''notification.show''
      else if e = ME_link_preview then ''link.preview''
      else if e = ME_asset_remote_fetch \<or> e = ME_avatar_remote_fetch then ''asset.fetch''
      else if e = ME_log_write \<or> e = ME_crash_report_create then ''metadata.log''
      else if e = ME_audit_event_write then ''metadata.audit''
      else if e = ME_external_navigation \<or> e \<in> set NETWORK_METADATA_EVENTS then ''metadata.network_expose''
      else if isMetadataSinkNetworked sink then ''metadata.network_expose''
      else if isMetadataSinkPersistent sink then ''metadata.store''
      else if sink = MS_notification_system then ''notification.show''
      else ''metadata.emit'')"

definition expectedMetadataCapability :: "metadata_event \<Rightarrow> policy_capability" where
  "expectedMetadataCapability e =
     (if event_in ''receipt.'' e then Cap_readReceipts
      else if event_in ''typing.'' e then Cap_typingIndicators
      else if event_in ''presence.'' e \<or> e = ME_room_activity then Cap_presence
      else if event_in ''notification.'' e then Cap_notifications
      else if e = ME_link_preview then Cap_linkPreviews
      else if e = ME_asset_remote_fetch \<or> e = ME_avatar_remote_fetch then Cap_externalAssets
      else if e \<in> set AI_METADATA_EVENTS then Cap_localAI
      else if e \<in> set DERIVED_PREVIEW_EVENTS then Cap_mediaCache
      else if e \<in> set NETWORK_METADATA_EVENTS \<or> e = ME_external_navigation then Cap_network
      else Cap_persistence)"

section \<open>The barrier\<close>

record metadata_request =
  mq_event :: metadata_event
  mq_sink :: metadata_sink
  mq_payload :: jsval

definition metadata_denied_error :: "metadata_event \<Rightarrow> exn" where
  "metadata_denied_error e =
     (if event_in ''receipt.'' e then MetadataError ForbiddenReceipt
      else if event_in ''typing.'' e then MetadataError ForbiddenTypingIndicator
      else if event_in ''presence.'' e \<or> e = ME_room_activity then MetadataError ForbiddenPresence
      else if event_in ''notification.'' e then MetadataError ForbiddenNotificationMetadata
      else if e = ME_link_preview then MetadataError ForbiddenLinkPreviewMetadata
      else if e = ME_asset_remote_fetch \<or> e = ME_avatar_remote_fetch
      then MetadataError ForbiddenExternalAssetMetadata
      else MetadataError MetadataPolicyDenied)"

definition assertMetadataOperationAllowed ::
  "privacy_state \<Rightarrow> dref \<Rightarrow> metadata_request \<times> metadata_policy \<Rightarrow> unit res" where
  "assertMetadataOperationAllowed s decision q =
     (let request = fst q; policy = snd q; e = mq_event request; sink = mq_sink request
      in ebind (throw_if (\<not> isKnownMetadataEvent e) (MetadataError InvalidMetadataEvent)) (\<lambda>_.
         ebind (throw_if (\<not> isKnownMetadataSink sink) (MetadataError InvalidMetadataSink)) (\<lambda>_.
         ebind (throw_if (mp_event policy \<noteq> e \<or> mp_sink policy \<noteq> sink)
           (MetadataError MetadataBypassAttempt)) (\<lambda>_.
         ebind (need (MetadataError MetadataBypassAttempt) (authentic s decision)) (\<lambda>d.
         ebind (throw_if (pd_verdict d \<noteq> Allowed) (MetadataError MetadataPolicyDenied)) (\<lambda>_.
         ebind (throw_if (pd_capability d \<noteq> expectedMetadataCapability e)
           (MetadataError MetadataDecisionMismatch)) (\<lambda>_.
         ebind (throw_if (pd_sideEffect d \<noteq> expectedMetadataScope e sink)
           (MetadataError MetadataDecisionMismatch)) (\<lambda>_.
         ebind (throw_if (\<not> mp_allowed policy) (metadata_denied_error e)) (\<lambda>_.
         ebind (throw_if (isMetadataSinkPersistent sink \<and> \<not> mp_persistentAllowed policy)
           (MetadataError ForbiddenMetadataPersistence)) (\<lambda>_.
         ebind (throw_if (isMetadataSinkNetworked sink \<and> \<not> mp_networkAllowed policy)
           (MetadataError ForbiddenMetadataNetworkExposure)) (\<lambda>_.
         assertNoSensitiveMetadataPayload (mq_payload request))))))))))))"

section \<open>Laws of the barrier\<close>

definition safe_payload :: "jsval \<Rightarrow> bool" where
  "safe_payload v \<longleftrightarrow> v = JUndef \<or> v = JNull \<or> isSafeScalar v
     \<or> (case own_fields v of None \<Rightarrow> False | Some fs \<Rightarrow> list_all (\<lambda>(k, x). x = JNull \<or> isSafeScalar x) fs)"

lemma payload_Inr: "assertNoSensitiveMetadataPayload v = Inr u \<longleftrightarrow> safe_payload v"
  unfolding assertNoSensitiveMetadataPayload_def safe_payload_def
  by (auto simp: ebind_eq_Inr need_eq_Inr throw_if_eq_Inr list_all_iff list_ex_iff split: option.splits)

definition metadata_decision_ok ::
  "privacy_state \<Rightarrow> dref \<Rightarrow> metadata_event \<Rightarrow> metadata_sink \<Rightarrow> bool" where
  "metadata_decision_ok s r e k = (case authentic s r of None \<Rightarrow> False
     | Some d \<Rightarrow> pd_verdict d = Allowed \<and> pd_capability d = expectedMetadataCapability e
         \<and> pd_sideEffect d = expectedMetadataScope e k)"

lemma metadata_barrier_Inr:
  "assertMetadataOperationAllowed s r (request, p) = Inr u \<longleftrightarrow>
     isKnownMetadataEvent (mq_event request) \<and> isKnownMetadataSink (mq_sink request)
   \<and> mp_event p = mq_event request \<and> mp_sink p = mq_sink request
   \<and> metadata_decision_ok s r (mq_event request) (mq_sink request) \<and> mp_allowed p
   \<and> \<not> (isMetadataSinkPersistent (mq_sink request) \<and> \<not> mp_persistentAllowed p)
   \<and> \<not> (isMetadataSinkNetworked (mq_sink request) \<and> \<not> mp_networkAllowed p)
   \<and> safe_payload (mq_payload request)"
  unfolding assertMetadataOperationAllowed_def Let_def fst_conv snd_conv ebind_eq_Inr throw_if_eq_Inr
    need_eq_Inr payload_Inr metadata_decision_ok_def
  by (auto split: option.splits)

interpretation metadata_gate: capability_gate assertMetadataOperationAllowed
    "\<lambda>q. expectedMetadataScope (mq_event (fst q)) (mq_sink (fst q))"
    "\<lambda>q. {expectedMetadataCapability (mq_event (fst q))}"
  by unfold_locales (auto simp: metadata_barrier_Inr metadata_decision_ok_def split: option.splits)

section \<open>What is emitted\<close>

lemma permits_known:
  "metadata_permits m e k v b \<Longrightarrow> isKnownMetadataEvent e \<and> isKnownMetadataSink k
     \<and> \<not> isMetadataSinkNetworked k \<and> \<not> isMetadataSinkPersistent k"
  using metadata_table_groups(1) [of e] metadata_table_groups(2) [of k e] by (auto simp: metadata_permits_def)


text \<open>A redacted audit event and a redacted payload carry entries of the input and no text.\<close>

lemma audit_details:
  "(k, v) \<in> set (mae_details (fst (createRedactedAuditEvent kind category severity details n)))
   \<Longrightarrow> SAFE_SLUG k \<and> (v = JNull \<or> isSafeScalar v) \<and> (\<exists>fs. details = Some fs \<and> (k, v) \<in> set fs)"
  by (auto simp: createRedactedAuditEvent_def Let_def keeps_own_def split: option.splits)

lemma audit_details_safe:
  "safe_payload (JObj (mae_details (fst (createRedactedAuditEvent kind category severity details n))))"
  unfolding safe_payload_def by (auto simp: list_all_iff dest!: audit_details)

lemma redacted_payload_safe: "safe_payload (JObj (redactMetadataPayload v))"
  unfolding safe_payload_def by (auto simp: list_all_iff redactMetadataPayload_def split: option.splits if_splits)

text \<open>Redaction makes anything acceptable: whatever payload or details a caller passes, the
  redacted payload and the details of a redacted audit event pass the payload check of the
  barrier, and two audit events of one counter never have the same label.\<close>

theorem redaction_makes_safe:
  "assertNoSensitiveMetadataPayload (JObj (redactMetadataPayload v)) = Inr ()
   \<and> assertNoSensitiveMetadataPayload
       (JObj (mae_details (fst (createRedactedAuditEvent kind category severity details n)))) = Inr ()
   \<and> (mae_createdAtLocal (fst (createRedactedAuditEvent kind category severity details n)) =
      mae_createdAtLocal (fst (createRedactedAuditEvent kind' category' severity' details' n'))) = (n = n')"
  unfolding payload_Inr using redacted_payload_safe audit_details_safe
  by (auto simp: createRedactedAuditEvent_def Let_def dest: decimal_inj)

end
