(* ===== verification/Notification_Policy.thy ===== *)
theory Notification_Policy
  imports Metadata_Barrier
begin

text \<open>
  The notification policy of \<open>packages/privacy/src/\<close>: the taxonomy
  (\<open>notificationTypes.ts\<close>), the resolution and its helpers
  (\<open>notificationPolicy.ts\<close>) and the barrier (\<open>notificationBarrier.ts\<close>).  Reasons
  are texts and are not carried.
\<close>

section \<open>Taxonomy\<close>

datatype notification_operation = NF_permission_request | NF_show | NF_preview | NF_badge |
  NF_sound | NF_vibration | NF_channel_create | NF_group | NF_clear | NF_push_subscribe |
  NF_push_receive | NF_service_worker_show | NF_unknown | NF_other jstr

definition NOTIFICATION_OPERATION_KINDS :: "notification_operation list" where
  "NOTIFICATION_OPERATION_KINDS =
    [NF_permission_request, NF_show, NF_preview, NF_badge, NF_sound, NF_vibration,
     NF_channel_create, NF_group, NF_clear, NF_push_subscribe, NF_push_receive,
     NF_service_worker_show, NF_unknown]"

datatype notification_content = NCL_none | NCL_generic | NCL_app_name_only | NCL_activity_count
  | NCL_room_activity | NCL_room_name | NCL_sender_alias | NCL_message_preview | NCL_task_title
  | NCL_decision_title | NCL_document_title | NCL_ai_summary | NCL_protected_content |
  NCL_secret | NCL_unknown | NCL_other jstr

definition NOTIFICATION_CONTENT_CLASSES :: "notification_content list" where
  "NOTIFICATION_CONTENT_CLASSES =
    [NCL_none, NCL_generic, NCL_app_name_only, NCL_activity_count, NCL_room_activity,
     NCL_room_name, NCL_sender_alias, NCL_message_preview, NCL_task_title,
     NCL_decision_title, NCL_document_title, NCL_ai_summary, NCL_protected_content,
     NCL_secret, NCL_unknown]"

definition SENSITIVE_CONTENT_CLASSES :: "notification_content list" where
  "SENSITIVE_CONTENT_CLASSES =
    [NCL_room_activity, NCL_room_name, NCL_sender_alias, NCL_message_preview,
     NCL_task_title, NCL_decision_title, NCL_document_title, NCL_ai_summary,
     NCL_protected_content, NCL_secret]"

definition GENERIC_CONTENT_CLASSES :: "notification_content list" where
  "GENERIC_CONTENT_CLASSES =
    [NCL_none, NCL_generic, NCL_app_name_only]"

datatype notification_surface = NSF_in_app | NSF_system_banner | NSF_lock_screen |
  NSF_notification_center | NSF_app_badge | NSF_sound | NSF_vibration | NSF_push_service |
  NSF_service_worker | NSF_unknown | NSF_other jstr

definition NOTIFICATION_SURFACES :: "notification_surface list" where
  "NOTIFICATION_SURFACES =
    [NSF_in_app, NSF_system_banner, NSF_lock_screen, NSF_notification_center, NSF_app_badge,
     NSF_sound, NSF_vibration, NSF_push_service, NSF_service_worker, NSF_unknown]"

datatype notification_action = NA_deny | NA_allow_generic_only | NA_redact | NA_memory_only
  | NA_require_user_action | NA_future_gate | NA_not_implemented

record notification_policy =
  nfp_mode :: privacy_mode
  nfp_operation :: notification_operation
  nfp_contentClass :: notification_content
  nfp_surface :: notification_surface
  nfp_action :: notification_action
  nfp_allowed :: bool
  nfp_permissionRequestAllowed :: bool
  nfp_contentAllowed :: bool
  nfp_badgeAllowed :: bool
  nfp_soundAllowed :: bool
  nfp_vibrationAllowed :: bool
  nfp_pushAllowed :: bool
  nfp_persistentStorageAllowed :: bool
  nfp_networkAllowed :: bool
  nfp_userVisibleWarningRequired :: bool

text \<open>What the composition reads of \<open>Partial<NotificationPolicy>\<close>.\<close>

record partial_notification_policy =
  pnf_allowed :: "bool option"
  pnf_contentAllowed :: "bool option"
  pnf_userVisibleWarningRequired :: "bool option"

record notification_input =
  nfi_mode :: privacy_mode
  nfi_operation :: notification_operation
  nfi_contentClass :: notification_content
  nfi_surface :: notification_surface
  nfi_roomPolicy :: "partial_notification_policy option"
  nfi_screenShieldLevel :: "shield_level option"

section \<open>Resolution\<close>

definition IN_APP_INDICATOR_MODES :: "privacy_mode list" where
  "IN_APP_INDICATOR_MODES = [Mode_standard, Mode_private, Mode_sovereign_room]"

record notification_draft =
  nfd_action :: notification_action
  nfd_allowed :: bool
  nfd_contentAllowed :: bool

definition notification_deny :: "notification_action \<Rightarrow> notification_draft" where
  "notification_deny action = \<lparr>nfd_action = action, nfd_allowed = False, nfd_contentAllowed = False\<rparr>"

definition allowGeneric :: notification_draft where
  "allowGeneric = \<lparr>nfd_action = NA_allow_generic_only, nfd_allowed = True, nfd_contentAllowed = True\<rparr>"

text \<open>An absent field of the room's policy.\<close>

definition room_bool :: "bool \<Rightarrow> ('r \<Rightarrow> bool option) \<Rightarrow> 'r option \<Rightarrow> bool" where
  "room_bool dflt f room = (case room of None \<Rightarrow> dflt
     | Some r \<Rightarrow> (case f r of None \<Rightarrow> dflt | Some b \<Rightarrow> b))"

definition finalize_notification :: "notification_input \<Rightarrow> notification_draft \<Rightarrow> notification_policy" where
  "finalize_notification inp draft =
     (let room = nfi_roomPolicy inp;
          allowed = (nfd_allowed draft \<and> room_bool True pnf_allowed room);
          contentAllowed = (nfd_contentAllowed draft \<and> room_bool True pnf_contentAllowed room);
          warn = room_bool False pnf_userVisibleWarningRequired room
      in \<lparr>nfp_mode = nfi_mode inp, nfp_operation = nfi_operation inp,
          nfp_contentClass = nfi_contentClass inp, nfp_surface = nfi_surface inp,
          nfp_action = (if allowed then nfd_action draft
            else if nfd_action draft = NA_not_implemented then NA_not_implemented else NA_deny),
          nfp_allowed = allowed, nfp_permissionRequestAllowed = False,
          nfp_contentAllowed = (if allowed then contentAllowed else False),
          nfp_badgeAllowed = False, nfp_soundAllowed = False, nfp_vibrationAllowed = False,
          nfp_pushAllowed = False, nfp_persistentStorageAllowed = False, nfp_networkAllowed = False,
          nfp_userVisibleWarningRequired = warn\<rparr>)"

definition notification_draft_of :: "notification_input \<Rightarrow> notification_draft" where
  "notification_draft_of inp =
     (let mode = nfi_mode inp; operation = nfi_operation inp; contentClass = nfi_contentClass inp;
          surface = nfi_surface inp; sealed = sealed_shield (nfi_screenShieldLevel inp)
      in if mode \<notin> set KNOWN_MODES \<or> contentClass = NCL_unknown \<or> operation = NF_unknown
           \<or> surface = NSF_unknown \<or> operation \<notin> set NOTIFICATION_OPERATION_KINDS
           \<or> contentClass \<notin> set NOTIFICATION_CONTENT_CLASSES \<or> surface \<notin> set NOTIFICATION_SURFACES
         then notification_deny NA_not_implemented
         else if operation = NF_push_subscribe \<or> operation = NF_push_receive
           \<or> operation = NF_service_worker_show \<or> surface = NSF_push_service
           \<or> surface = NSF_service_worker
         then notification_deny NA_future_gate
         else if operation = NF_permission_request then notification_deny NA_require_user_action
         else if contentClass = NCL_protected_content \<or> contentClass = NCL_secret
         then notification_deny NA_deny
         else if operation = NF_badge \<or> surface = NSF_app_badge
         then notification_deny NA_not_implemented
         else if operation = NF_sound \<or> surface = NSF_sound then notification_deny NA_not_implemented
         else if operation = NF_vibration \<or> surface = NSF_vibration
         then notification_deny NA_not_implemented
         else if operation = NF_channel_create then notification_deny NA_deny
         else if surface = NSF_system_banner \<or> surface = NSF_lock_screen
           \<or> surface = NSF_notification_center
         then notification_deny NA_not_implemented
         else if contentClass \<in> set SENSITIVE_CONTENT_CLASSES then notification_deny NA_deny
         else if surface = NSF_in_app \<and> contentClass \<in> set GENERIC_CONTENT_CLASSES
           \<and> mode \<in> set IN_APP_INDICATOR_MODES
           \<and> (operation = NF_show \<or> operation = NF_group \<or> operation = NF_clear)
         then (if sealed \<and> contentClass \<noteq> NCL_none then notification_deny NA_deny else allowGeneric)
         else notification_deny NA_deny)"

definition resolveNotificationPolicy :: "notification_input \<Rightarrow> notification_policy" where
  "resolveNotificationPolicy inp = finalize_notification inp (notification_draft_of inp)"

section \<open>Helpers\<close>

text \<open>The helpers override the operation and the surface of their input.\<close>

definition resolveBadgePolicy :: "notification_input \<Rightarrow> notification_policy" where
  "resolveBadgePolicy inp =
     resolveNotificationPolicy (inp\<lparr>nfi_operation := NF_badge, nfi_surface := NSF_app_badge\<rparr>)"

definition shouldAllowBadgeUpdate :: "notification_input \<Rightarrow> bool" where
  "shouldAllowBadgeUpdate inp = nfp_badgeAllowed (resolveBadgePolicy inp)"

definition resolveNotificationSoundPolicy :: "notification_input \<Rightarrow> notification_policy" where
  "resolveNotificationSoundPolicy inp =
     resolveNotificationPolicy (inp\<lparr>nfi_operation := NF_sound, nfi_surface := NSF_sound\<rparr>)"

definition resolveNotificationVibrationPolicy :: "notification_input \<Rightarrow> notification_policy" where
  "resolveNotificationVibrationPolicy inp =
     resolveNotificationPolicy (inp\<lparr>nfi_operation := NF_vibration, nfi_surface := NSF_vibration\<rparr>)"

definition resolvePushNotificationPolicy ::
  "notification_input \<Rightarrow> notification_operation option \<Rightarrow> notification_policy" where
  "resolvePushNotificationPolicy inp operation =
     resolveNotificationPolicy (inp\<lparr>nfi_operation :=
         (case operation of None \<Rightarrow> NF_push_subscribe | Some op \<Rightarrow> op),
       nfi_surface := NSF_push_service\<rparr>)"

text \<open>The title and the body; those of the input are not read.\<close>

definition redactNotificationContent :: "privacy_mode \<Rightarrow> string \<times> string" where
  "redactNotificationContent mode =
     (let strict = (mode = Mode_ghost \<or> mode = Mode_bunker \<or> mode = Mode_emergency
        \<or> mode = Mode_offline_capsule)
      in (if strict then [] else ''FreeLayer'', if strict then [] else ''New activity''))"

section \<open>The barrier\<close>

fun expectedNotificationScope :: "notification_operation \<Rightarrow> side_effect_scope" where
  "expectedNotificationScope NF_permission_request = ''notification.permission_request''"
| "expectedNotificationScope NF_badge = ''notification.badge''"
| "expectedNotificationScope NF_sound = ''notification.sound''"
| "expectedNotificationScope NF_vibration = ''notification.vibration''"
| "expectedNotificationScope NF_push_subscribe = ''notification.push_subscribe''"
| "expectedNotificationScope NF_push_receive = ''notification.push_receive''"
| "expectedNotificationScope NF_service_worker_show = ''notification.service_worker_show''"
| "expectedNotificationScope _ = ''notification.show''"

record notification_request =
  nfr_operation :: notification_operation
  nfr_contentClass :: notification_content
  nfr_surface :: notification_surface
  nfr_payload :: jsval

definition knownRequest :: "notification_request \<Rightarrow> bool" where
  "knownRequest r \<longleftrightarrow> nfr_operation r \<noteq> NF_unknown \<and> nfr_contentClass r \<noteq> NCL_unknown
     \<and> nfr_surface r \<noteq> NSF_unknown \<and> nfr_operation r \<in> set NOTIFICATION_OPERATION_KINDS
     \<and> nfr_contentClass r \<in> set NOTIFICATION_CONTENT_CLASSES \<and> nfr_surface r \<in> set NOTIFICATION_SURFACES"

definition notification_denied_error :: "notification_request \<Rightarrow> exn" where
  "notification_denied_error r = NotificationError (case nfr_operation r of
       NF_permission_request \<Rightarrow> ForbiddenNotificationPermissionRequest
     | NF_badge \<Rightarrow> ForbiddenNotificationBadge
     | NF_sound \<Rightarrow> ForbiddenNotificationSound
     | NF_vibration \<Rightarrow> ForbiddenNotificationVibration
     | NF_push_subscribe \<Rightarrow> ForbiddenPushNotification
     | NF_push_receive \<Rightarrow> ForbiddenPushNotification
     | NF_service_worker_show \<Rightarrow> ForbiddenServiceWorkerNotification
     | _ \<Rightarrow> (if nfr_contentClass r \<in> set SENSITIVE_CONTENT_CLASSES then ForbiddenNotificationContent
            else NotificationPolicyDenied))"

definition assertNotificationOperationAllowed ::
  "privacy_state \<Rightarrow> dref \<Rightarrow> notification_request \<times> notification_policy \<Rightarrow> unit res" where
  "assertNotificationOperationAllowed s decision q =
     (let request = fst q; policy = snd q; operation = nfr_operation request
      in ebind (throw_if (\<not> knownRequest request) (NotificationError NotificationBypassAttempt)) (\<lambda>_.
         ebind (throw_if (nfp_operation policy \<noteq> operation
             \<or> nfp_contentClass policy \<noteq> nfr_contentClass request
             \<or> nfp_surface policy \<noteq> nfr_surface request)
           (NotificationError NotificationBypassAttempt)) (\<lambda>_.
         ebind (need (NotificationError NotificationBypassAttempt) (authentic s decision)) (\<lambda>d.
         ebind (throw_if (pd_verdict d \<noteq> Allowed) (NotificationError NotificationPolicyDenied)) (\<lambda>_.
         ebind (throw_if (pd_capability d \<noteq> Cap_notifications)
           (NotificationError NotificationDecisionMismatch)) (\<lambda>_.
         ebind (throw_if (pd_sideEffect d \<noteq> expectedNotificationScope operation)
           (NotificationError NotificationDecisionMismatch)) (\<lambda>_.
         ebind (throw_if (\<not> nfp_allowed policy) (notification_denied_error request)) (\<lambda>_.
         ebind (throw_if (operation = NF_permission_request \<and> \<not> nfp_permissionRequestAllowed policy)
           (NotificationError ForbiddenNotificationPermissionRequest)) (\<lambda>_.
         ebind (throw_if ((operation = NF_push_subscribe \<or> operation = NF_push_receive)
             \<and> \<not> nfp_pushAllowed policy) (NotificationError ForbiddenPushNotification)) (\<lambda>_.
         ebind (throw_if (operation = NF_badge \<and> \<not> nfp_badgeAllowed policy)
           (NotificationError ForbiddenNotificationBadge)) (\<lambda>_.
         ebind (throw_if (nfr_contentClass request \<in> set SENSITIVE_CONTENT_CLASSES
             \<and> \<not> nfp_contentAllowed policy) (NotificationError ForbiddenNotificationContent)) (\<lambda>_.
         ebind (throw_if (\<not> nfp_persistentStorageAllowed policy
             \<and> nfr_surface request = NSF_notification_center)
           (NotificationError ForbiddenNotificationPersistence)) (\<lambda>_.
         ebind (throw_if (\<not> nfp_networkAllowed policy \<and> nfr_surface request = NSF_push_service)
           (NotificationError ForbiddenNotificationNetwork)) (\<lambda>_.
         assertNoSensitiveMetadataPayload (nfr_payload request)))))))))))))))"

section \<open>What the policy allows\<close>

definition notification_permits ::
  "privacy_mode \<Rightarrow> notification_operation \<Rightarrow> notification_content \<Rightarrow> notification_surface \<Rightarrow> bool \<Rightarrow> bool" where
  "notification_permits m op c k sealed \<longleftrightarrow> m \<in> set IN_APP_INDICATOR_MODES
     \<and> op \<in> {NF_show, NF_group, NF_clear} \<and> k = NSF_in_app
     \<and> c \<in> set GENERIC_CONTENT_CLASSES \<and> \<not> (sealed \<and> c \<noteq> NCL_none)"

lemmas notification_groups = NOTIFICATION_OPERATION_KINDS_def NOTIFICATION_CONTENT_CLASSES_def
  NOTIFICATION_SURFACES_def SENSITIVE_CONTENT_CLASSES_def GENERIC_CONTENT_CLASSES_def
  IN_APP_INDICATOR_MODES_def

lemma notification_permits_cases:
  assumes "op \<in> {NF_show, NF_group, NF_clear}" "c \<in> set GENERIC_CONTENT_CLASSES"
  shows "op \<in> set NOTIFICATION_OPERATION_KINDS" "op \<notin> {NF_permission_request, NF_badge, NF_sound, NF_vibration,
      NF_channel_create, NF_push_subscribe, NF_push_receive, NF_service_worker_show, NF_unknown}"
    "c \<in> set NOTIFICATION_CONTENT_CLASSES" "c \<notin> set SENSITIVE_CONTENT_CLASSES"
    "c \<notin> {NCL_unknown, NCL_protected_content, NCL_secret}"
proof -
  have "op = NF_show \<or> op = NF_group \<or> op = NF_clear"
    using assms(1) by simp
  then show "op \<in> set NOTIFICATION_OPERATION_KINDS" "op \<notin> {NF_permission_request, NF_badge, NF_sound, NF_vibration,
      NF_channel_create, NF_push_subscribe, NF_push_receive, NF_service_worker_show, NF_unknown}"
    by (elim disjE; simp add: NOTIFICATION_OPERATION_KINDS_def)+
  have "c = NCL_none \<or> c = NCL_generic \<or> c = NCL_app_name_only"
    using assms(2) by (simp add: GENERIC_CONTENT_CLASSES_def)
  then show "c \<in> set NOTIFICATION_CONTENT_CLASSES" "c \<notin> set SENSITIVE_CONTENT_CLASSES"
    "c \<notin> {NCL_unknown, NCL_protected_content, NCL_secret}"
    by (elim disjE; simp add: NOTIFICATION_CONTENT_CLASSES_def SENSITIVE_CONTENT_CLASSES_def)+
qed

lemma notification_draft_indicator:
  assumes "nfi_mode inp \<in> set IN_APP_INDICATOR_MODES" "nfi_operation inp \<in> {NF_show, NF_group, NF_clear}"
    "nfi_surface inp = NSF_in_app" "nfi_contentClass inp \<in> set GENERIC_CONTENT_CLASSES"
  shows "notification_draft_of inp =
    (if sealed_shield (nfi_screenShieldLevel inp) \<and> nfi_contentClass inp \<noteq> NCL_none
     then notification_deny NA_deny else allowGeneric)"
proof -
  have "nfi_mode inp \<in> set KNOWN_MODES" "NSF_in_app \<in> set NOTIFICATION_SURFACES"
    using assms(1) by (auto simp: IN_APP_INDICATOR_MODES_def KNOWN_MODES_def NOTIFICATION_SURFACES_def)
  then show ?thesis
    using notification_permits_cases [OF assms(2,4)] assms
    unfolding notification_draft_of_def Let_def by (simp split del: if_split)
qed

lemma notification_draft_other:
  assumes "\<not> (nfi_mode inp \<in> set IN_APP_INDICATOR_MODES \<and> nfi_operation inp \<in> {NF_show, NF_group, NF_clear}
    \<and> nfi_surface inp = NSF_in_app \<and> nfi_contentClass inp \<in> set GENERIC_CONTENT_CLASSES)"
  shows "\<not> nfd_allowed (notification_draft_of inp)"
proof -
  have "(nfi_surface inp = NSF_in_app \<and> nfi_contentClass inp \<in> set GENERIC_CONTENT_CLASSES
      \<and> nfi_mode inp \<in> set IN_APP_INDICATOR_MODES
      \<and> (nfi_operation inp = NF_show \<or> nfi_operation inp = NF_group \<or> nfi_operation inp = NF_clear)) = False"
    using assms by blast
  then show ?thesis
    unfolding notification_draft_of_def Let_def by (simp only: if_False) (simp add: notification_deny_def)
qed

lemma notification_draft_allowed:
  "nfd_allowed (notification_draft_of inp) \<longleftrightarrow>
     notification_permits (nfi_mode inp) (nfi_operation inp) (nfi_contentClass inp) (nfi_surface inp)
       (sealed_shield (nfi_screenShieldLevel inp))"
  "nfd_allowed (notification_draft_of inp) \<Longrightarrow> notification_draft_of inp = allowGeneric"
proof -
  have "(nfd_allowed (notification_draft_of inp) \<longleftrightarrow>
      notification_permits (nfi_mode inp) (nfi_operation inp) (nfi_contentClass inp) (nfi_surface inp)
        (sealed_shield (nfi_screenShieldLevel inp)))
    \<and> (nfd_allowed (notification_draft_of inp) \<longrightarrow> notification_draft_of inp = allowGeneric)"
  proof (cases "nfi_mode inp \<in> set IN_APP_INDICATOR_MODES \<and> nfi_operation inp \<in> {NF_show, NF_group, NF_clear}
      \<and> nfi_surface inp = NSF_in_app \<and> nfi_contentClass inp \<in> set GENERIC_CONTENT_CLASSES")
    case True
    then show ?thesis
      using notification_draft_indicator [of inp]
      by (simp add: notification_permits_def notification_deny_def allowGeneric_def)
  next
    case False
    then show ?thesis
      using notification_draft_other [OF False] unfolding notification_permits_def by blast
  qed
  then show "nfd_allowed (notification_draft_of inp) \<longleftrightarrow>
      notification_permits (nfi_mode inp) (nfi_operation inp) (nfi_contentClass inp) (nfi_surface inp)
        (sealed_shield (nfi_screenShieldLevel inp))"
    "nfd_allowed (notification_draft_of inp) \<Longrightarrow> notification_draft_of inp = allowGeneric"
    by blast+
qed

lemma resolved_notification:
  "nfp_allowed (resolveNotificationPolicy inp) \<longleftrightarrow>
     notification_permits (nfi_mode inp) (nfi_operation inp) (nfi_contentClass inp) (nfi_surface inp)
       (sealed_shield (nfi_screenShieldLevel inp)) \<and> room_bool True pnf_allowed (nfi_roomPolicy inp)"
  "nfp_operation (resolveNotificationPolicy inp) = nfi_operation inp"
  "nfp_contentClass (resolveNotificationPolicy inp) = nfi_contentClass inp"
  "nfp_surface (resolveNotificationPolicy inp) = nfi_surface inp"
  by (simp_all add: resolveNotificationPolicy_def finalize_notification_def Let_def notification_draft_allowed(1))

text \<open>The notification policy is one line: a notification is allowed exactly when it is an
  indicator inside the application that shows, groups or clears a generic class, in standard,
  private or sovereign-room mode, without content under a sealed shield, and the room does not
  forbid it.  No permission prompt, badge, sound, vibration, push, storage or network is ever
  allowed, the helpers for badges, sounds, vibrations and pushes always deny, and the action is the
  generic indicator, a denial or ``not implemented'': the actions \<open>future_gate\<close> and
  \<open>require_user_action\<close> of the denial branches never reach the caller.\<close>

theorem notification_policy_table:
  "(nfp_allowed (resolveNotificationPolicy inp) \<longleftrightarrow>
      notification_permits (nfi_mode inp) (nfi_operation inp) (nfi_contentClass inp) (nfi_surface inp)
        (sealed_shield (nfi_screenShieldLevel inp)) \<and> room_bool True pnf_allowed (nfi_roomPolicy inp))
   \<and> nfp_action (resolveNotificationPolicy inp) \<in>
      (if nfp_allowed (resolveNotificationPolicy inp) then {NA_allow_generic_only} else {NA_deny, NA_not_implemented})
   \<and> \<not> nfp_allowed (resolveBadgePolicy inp) \<and> \<not> shouldAllowBadgeUpdate inp
   \<and> \<not> nfp_allowed (resolveNotificationSoundPolicy inp)
   \<and> \<not> nfp_allowed (resolveNotificationVibrationPolicy inp)
   \<and> \<not> nfp_allowed (resolvePushNotificationPolicy inp operation)
   \<and> \<not> nfp_pushAllowed (resolveNotificationPolicy inp) \<and> \<not> nfp_networkAllowed (resolveNotificationPolicy inp)
   \<and> \<not> nfp_permissionRequestAllowed (resolveNotificationPolicy inp)"
proof -
  have "nfd_allowed (notification_draft_of inp) \<Longrightarrow> nfd_action (notification_draft_of inp) = NA_allow_generic_only"
    using notification_draft_allowed(2) [of inp] by (simp add: allowGeneric_def)
  then have "nfp_action (resolveNotificationPolicy inp) \<in>
      (if nfp_allowed (resolveNotificationPolicy inp) then {NA_allow_generic_only} else {NA_deny, NA_not_implemented})"
    by (auto simp: resolveNotificationPolicy_def finalize_notification_def Let_def)
  then show ?thesis
    using resolved_notification(1)
    by (simp add: resolveBadgePolicy_def resolveNotificationSoundPolicy_def shouldAllowBadgeUpdate_def
        resolveNotificationVibrationPolicy_def resolvePushNotificationPolicy_def notification_permits_def)
      (simp add: resolveNotificationPolicy_def finalize_notification_def Let_def)
qed

section \<open>What passes the barrier\<close>

definition notification_decision_ok :: "privacy_state \<Rightarrow> dref \<Rightarrow> notification_operation \<Rightarrow> bool" where
  "notification_decision_ok s r op = (case authentic s r of None \<Rightarrow> False
     | Some d \<Rightarrow> pd_verdict d = Allowed \<and> pd_capability d = Cap_notifications
         \<and> pd_sideEffect d = expectedNotificationScope op)"

lemma notification_barrier_Inr:
  "assertNotificationOperationAllowed s r (request, p) = Inr u \<longleftrightarrow>
     knownRequest request
   \<and> nfp_operation p = nfr_operation request \<and> nfp_contentClass p = nfr_contentClass request
   \<and> nfp_surface p = nfr_surface request
   \<and> notification_decision_ok s r (nfr_operation request) \<and> nfp_allowed p
   \<and> \<not> (nfr_operation request = NF_permission_request \<and> \<not> nfp_permissionRequestAllowed p)
   \<and> \<not> ((nfr_operation request = NF_push_subscribe \<or> nfr_operation request = NF_push_receive) \<and> \<not> nfp_pushAllowed p)
   \<and> \<not> (nfr_operation request = NF_badge \<and> \<not> nfp_badgeAllowed p)
   \<and> \<not> (nfr_contentClass request \<in> set SENSITIVE_CONTENT_CLASSES \<and> \<not> nfp_contentAllowed p)
   \<and> \<not> (\<not> nfp_persistentStorageAllowed p \<and> nfr_surface request = NSF_notification_center)
   \<and> \<not> (\<not> nfp_networkAllowed p \<and> nfr_surface request = NSF_push_service)
   \<and> safe_payload (nfr_payload request)"
  unfolding assertNotificationOperationAllowed_def Let_def fst_conv snd_conv ebind_eq_Inr throw_if_eq_Inr
    need_eq_Inr payload_Inr notification_decision_ok_def
  by (auto split: option.splits)

interpretation notification_gate: capability_gate assertNotificationOperationAllowed
    "\<lambda>q. expectedNotificationScope (nfr_operation (fst q))" "\<lambda>q. {Cap_notifications}"
  by unfold_locales (auto simp: notification_barrier_Inr notification_decision_ok_def split: option.splits)


definition made_up_policy :: "notification_operation \<Rightarrow> notification_policy" where
  "made_up_policy op = (resolveNotificationPolicy \<lparr>nfi_mode = Mode_bunker, nfi_operation = op,
     nfi_contentClass = NCL_none, nfi_surface = NSF_in_app, nfi_roomPolicy = None,
     nfi_screenShieldLevel = None\<rparr>)\<lparr>nfp_allowed := True\<rparr>"

definition sample_notification_decisions :: "side_effect_scope \<Rightarrow> privacy_state" where
  "sample_notification_decisions scope = snd (issuePolicyDecision Cap_notifications Allowed Mode_bunker scope privacy_init)"

text \<open>The per-capability gates of the barrier leave sounds and vibrations out: with a policy
  that says they are allowed as a whole and forbids the sound, a badge is refused and a sound
  passes.\<close>

theorem notification_sound_ungated:
  "\<not> nfp_soundAllowed (made_up_policy NF_sound)
   \<and> assertNotificationOperationAllowed (sample_notification_decisions ''notification.sound'') 0
       (\<lparr>nfr_operation = NF_sound, nfr_contentClass = NCL_none, nfr_surface = NSF_in_app, nfr_payload = JUndef\<rparr>,
        made_up_policy NF_sound) = Inr ()
   \<and> assertNotificationOperationAllowed (sample_notification_decisions ''notification.badge'') 0
       (\<lparr>nfr_operation = NF_badge, nfr_contentClass = NCL_none, nfr_surface = NSF_in_app, nfr_payload = JUndef\<rparr>,
        made_up_policy NF_badge) = Inl (NotificationError ForbiddenNotificationBadge)"
proof -
  have flags: "nfp_soundAllowed (made_up_policy op) = False" "nfp_badgeAllowed (made_up_policy op) = False"
    "nfp_allowed (made_up_policy op) = True" "nfp_operation (made_up_policy op) = op"
    "nfp_contentClass (made_up_policy op) = NCL_none" "nfp_surface (made_up_policy op) = NSF_in_app" for op
    by (simp_all add: made_up_policy_def resolveNotificationPolicy_def finalize_notification_def Let_def)
  have d: "authentic (sample_notification_decisions scope) 0 = Some \<lparr>pd_seq = 1, pd_capability = Cap_notifications,
      pd_sideEffect = scope, pd_verdict = Allowed, pd_mode = Mode_bunker, pd_issuedAtLogical = 1\<rparr>" for scope
    by (simp add: sample_notification_decisions_def issuePolicyDecision_def privacy_init_def Let_def
        authentic_def isPolicyDecision_def)
  show ?thesis
    by (simp add: flags notification_barrier_Inr notification_decision_ok_def d knownRequest_def
        notification_groups safe_payload_def)
      (simp add: flags assertNotificationOperationAllowed_def knownRequest_def d notification_groups)
qed

end
