(* ===== verification/Url_Policy.thy ===== *)
theory Url_Policy
  imports Policy_Matrix
begin

text \<open>
  URLs and remote content in \<open>packages/privacy/src/\<close>: the classification and the safe label
  of a URL (\<open>urlClassification.ts\<close>), the link preview policy
  (\<open>linkPreviewPolicy.ts\<close>), the external asset policy (\<open>externalAssetPolicy.ts\<close>) and
  the conflict reports (\<open>policyConflicts.ts\<close>).
\<close>

section \<open>Classification\<close>

datatype url_classification = UC_not_a_url | UC_relative_url | UC_local_fragment | UC_mailto | UC_tel
  | UC_http_url | UC_https_url | UC_websocket_url | UC_data_url | UC_blob_url | UC_file_url
  | UC_javascript_url | UC_unknown_scheme | UC_invalid

record classified_url =
  cu_classification :: url_classification
  cu_safeDisplayText :: jstr
  cu_networkCapable :: bool
  cu_external :: bool

definition ascii_letter :: "16 word \<Rightarrow> bool" where
  "ascii_letter c \<longleftrightarrow> 0x61 \<le> ascii_lower c \<and> ascii_lower c \<le> 0x7a"

definition scheme_unit :: "16 word \<Rightarrow> bool" where
  "scheme_unit c \<longleftrightarrow> ascii_letter c \<or> (0x30 \<le> c \<and> c \<le> 0x39) \<or> c = 0x2b \<or> c = 0x2e \<or> c = 0x2d"

text \<open>\<open>SCHEME_RE\<close>: the scheme and what follows the colon.\<close>

definition SCHEME_RE :: "jstr \<Rightarrow> (jstr \<times> jstr) option" where
  "SCHEME_RE s = (case s of [] \<Rightarrow> None
     | c # cs \<Rightarrow> if \<not> ascii_letter c then None
         else (case dropWhile scheme_unit cs of [] \<Rightarrow> None
           | d # rest \<Rightarrow> if d = 0x3a then Some (c # takeWhile scheme_unit cs, rest) else None))"

definition MAX_LABEL :: nat where "MAX_LABEL = 48"

definition hasControlChars :: "jstr \<Rightarrow> bool" where
  "hasControlChars s = list_ex (\<lambda>c. c \<le> 0x1f \<or> c = 0x7f) s"

definition truncate_label :: "jstr \<Rightarrow> jstr" where
  "truncate_label s = (if length s > MAX_LABEL then take MAX_LABEL s @ [0x2026] else s)"

definition build :: "url_classification \<Rightarrow> jstr \<Rightarrow> bool \<Rightarrow> bool \<Rightarrow> classified_url" where
  "build c label net ext = \<lparr>cu_classification = c, cu_safeDisplayText = truncate_label label,
     cu_networkCapable = net, cu_external = ext\<rparr>"

text \<open>\<open>xs.slice(xs.lastIndexOf(c) + 1)\<close>, which is \<open>xs\<close> when \<open>c\<close> does not occur.\<close>

definition after_last :: "16 word \<Rightarrow> jstr \<Rightarrow> jstr" where
  "after_last c xs = rev (takeWhile (\<lambda>x. x \<noteq> c) (rev xs))"

definition authority_unit :: "16 word \<Rightarrow> bool" where
  "authority_unit c \<longleftrightarrow> c \<noteq> 0x2f \<and> c \<noteq> 0x3f \<and> c \<noteq> 0x23 \<and> c \<noteq> 0x5c"

definition redactAuthority :: "jstr \<Rightarrow> jstr" where
  "redactAuthority raw =
     (let noScheme = (case SCHEME_RE raw of None \<Rightarrow> raw | Some (s, r) \<Rightarrow> r);
          afterScheme = (if starts_with noScheme (js ''//'') then drop 2 noScheme else noScheme);
          rest = dropWhile authority_unit afterScheme;
          authority = after_last 0x40 (takeWhile authority_unit afterScheme);
          host = takeWhile (\<lambda>c. c \<noteq> 0x3a) authority;
          hasMore = (length rest > 0 \<and> rest \<noteq> js ''/'')
      in if host = [] then js ''[redacted link]'' else if hasMore then host @ [0x2f, 0x2026] else host)"

text \<open>\<open>s.split(/[?#]/)[0]\<close>.\<close>

definition before_query :: "jstr \<Rightarrow> jstr" where
  "before_query s = takeWhile (\<lambda>c. c \<noteq> 0x3f \<and> c \<noteq> 0x23) s"

definition mailtoLabel :: "jstr \<Rightarrow> jstr" where
  "mailtoLabel rest =
     (let address = before_query rest
      in if 0x40 \<in> set address then js ''mailto:'' @ [0x2026, 0x40] @ after_last 0x40 address
         else js ''[email link]'')"

definition classifyUrl :: "jsval \<Rightarrow> classified_url" where
  "classifyUrl v =
     (let raw = (case v of JStr s \<Rightarrow> js_trim s | _ \<Rightarrow> [])
      in if raw = [] then build UC_not_a_url [] False False
         else if hasControlChars raw then build UC_invalid (js ''[invalid link]'') False False
         else if starts_with raw (js ''#'') then build UC_local_fragment (take MAX_LABEL raw) False False
         else if starts_with raw (js ''//'')
         then build UC_https_url (redactAuthority (js ''https:'' @ raw)) True True
         else case SCHEME_RE raw of
           None \<Rightarrow> if starts_with raw (js ''/'') \<or> starts_with raw (js ''./'')
               \<or> starts_with raw (js ''../'') \<or> starts_with raw (js ''?'')
             then build UC_relative_url (before_query raw) False False
             else build UC_not_a_url [] False False
         | Some (s, rest) \<Rightarrow>
             let scheme = map ascii_lower s
             in if scheme = js ''http'' then build UC_http_url (redactAuthority raw) True True
                else if scheme = js ''https'' then build UC_https_url (redactAuthority raw) True True
                else if scheme = js ''ws'' \<or> scheme = js ''wss''
                then build UC_websocket_url (js ''[redacted link]'') True True
                else if scheme = js ''data'' then build UC_data_url (js ''[data: URL]'') False True
                else if scheme = js ''blob'' then build UC_blob_url (js ''[blob: URL]'') False True
                else if scheme = js ''file'' then build UC_file_url (js ''[file: URL]'') False True
                else if scheme = js ''javascript''
                then build UC_javascript_url (js ''[blocked script URL]'') False True
                else if scheme = js ''mailto'' then build UC_mailto (mailtoLabel rest) False True
                else if scheme = js ''tel'' then build UC_tel (js ''[tel: link]'') False True
                else build UC_unknown_scheme (js ''[external link]'') False True)"

definition renderPlainTextUrlLabel :: "jsval \<Rightarrow> bool \<Rightarrow> jstr" where
  "renderPlainTextUrlLabel v forceRedactAll =
     (if forceRedactAll then js ''[redacted link]''
      else let c = classifyUrl v
           in if cu_classification c = UC_javascript_url then js ''[blocked script URL]''
              else if cu_safeDisplayText c = [] then js ''[link]'' else cu_safeDisplayText c)"

section \<open>Link previews and external assets\<close>

datatype link_preview_action = LP_deny | LP_show_plain_text_only | LP_require_user_action_future
  | LP_redact | LP_not_implemented

record link_preview_policy =
  lpp_mode :: privacy_mode
  lpp_action :: link_preview_action
  lpp_automaticPreviewAllowed :: bool
  lpp_networkFetchAllowed :: bool
  lpp_cacheAllowed :: bool
  lpp_thumbnailAllowed :: bool
  lpp_faviconAllowed :: bool
  lpp_openGraphAllowed :: bool
  lpp_userActionRequired :: bool

text \<open>Of the room's partial policy only the action is read: the outer option is the presence of
  the policy, the inner one of its field.\<close>

record link_preview_input =
  lpi_mode :: privacy_mode
  lpi_roomAction :: "link_preview_action option option"
  lpi_screenShieldLevel :: "shield_level option"

definition resolveLinkPreviewPolicy :: "link_preview_input \<Rightarrow> link_preview_policy" where
  "resolveLinkPreviewPolicy inp =
     (let sealed = (lpi_screenShieldLevel inp = Some SL_sealed \<or> lpi_screenShieldLevel inp = Some SL_bunker);
          base = (\<lambda>action. \<lparr>lpp_mode = lpi_mode inp, lpp_action = action, lpp_automaticPreviewAllowed = False,
            lpp_networkFetchAllowed = False, lpp_cacheAllowed = False, lpp_thumbnailAllowed = False,
            lpp_faviconAllowed = False, lpp_openGraphAllowed = False, lpp_userActionRequired = True\<rparr>);
          action = (if sealed then LP_redact else LP_show_plain_text_only)
      in if lpi_mode inp \<notin> set KNOWN_MODES then base LP_deny
         else base (case lpi_roomAction inp of
             Some (Some a) \<Rightarrow> if a = LP_deny \<or> a = LP_redact \<or> a = LP_not_implemented then a else action
           | _ \<Rightarrow> action))"

datatype external_asset_kind = EA_remote_image | EA_remote_avatar | EA_remote_font | EA_remote_script
  | EA_remote_stylesheet | EA_remote_css_url | EA_tracking_pixel | EA_favicon | EA_opengraph_image
  | EA_video | EA_audio | EA_iframe | EA_preconnect | EA_dns_prefetch | EA_preload | EA_prefetch
  | EA_unknown | EA_other jstr

definition EXTERNAL_ASSET_KINDS :: "external_asset_kind list" where
  "EXTERNAL_ASSET_KINDS = [EA_remote_image, EA_remote_avatar, EA_remote_font, EA_remote_script,
     EA_remote_stylesheet, EA_remote_css_url, EA_tracking_pixel, EA_favicon, EA_opengraph_image,
     EA_video, EA_audio, EA_iframe, EA_preconnect, EA_dns_prefetch, EA_preload, EA_prefetch, EA_unknown]"

definition BEACON_KINDS :: "external_asset_kind list" where
  "BEACON_KINDS = [EA_tracking_pixel, EA_preconnect, EA_dns_prefetch, EA_preload, EA_prefetch]"

record external_asset_policy =
  eap_mode :: privacy_mode
  eap_assetKind :: external_asset_kind
  eap_allowed :: bool
  eap_networkFetchAllowed :: bool
  eap_cacheAllowed :: bool
  eap_renderAllowed :: bool
  eap_userVisibleWarningRequired :: bool

text \<open>The reason, the one thing that depends on whether the kind is known, is not carried.\<close>

definition resolveExternalAssetPolicy :: "privacy_mode \<Rightarrow> external_asset_kind \<Rightarrow> external_asset_policy" where
  "resolveExternalAssetPolicy mode kind =
     \<lparr>eap_mode = mode, eap_assetKind = kind, eap_allowed = False, eap_networkFetchAllowed = False,
       eap_cacheAllowed = False, eap_renderAllowed = False,
       eap_userVisibleWarningRequired = (kind \<in> set BEACON_KINDS)\<rparr>"

section \<open>Conflict reports\<close>

datatype conflict_severity = CS_low | CS_medium | CS_high | CS_critical

fun severity_label :: "conflict_severity \<Rightarrow> string" where
  "severity_label CS_low = ''LOW''"
| "severity_label CS_medium = ''MEDIUM''"
| "severity_label CS_high = ''HIGH''"
| "severity_label CS_critical = ''CRITICAL''"

record policy_conflict =
  pcf_category :: jstr
  pcf_domain :: jstr
  pcf_mode :: "jstr option"
  pcf_operation :: "jstr option"
  pcf_expected :: jstr
  pcf_actual :: jstr
  pcf_severity :: conflict_severity
  pcf_explanation :: jstr

definition token_unit :: "16 word \<Rightarrow> bool" where
  "token_unit c \<longleftrightarrow> ascii_letter c \<or> (0x30 \<le> c \<and> c \<le> 0x39) \<or> c \<in> {0x5f, 0x2e, 0x3a, 0x2f, 0x2d}"

definition safeToken :: "jstr \<Rightarrow> string \<Rightarrow> jstr" where
  "safeToken v fallback =
     (if v = [] then js fallback
      else let capped = take 64 (filter token_unit v)
           in if capped = [] then js fallback else capped)"

definition conflict_head :: "policy_conflict \<Rightarrow> jstr" where
  "conflict_head c =
     js ''['' @ js (severity_label (pcf_severity c)) @ js ''] '' @ pcf_category c @ js '' @ ''
     @ js ''domain='' @ safeToken (pcf_domain c) ''unknown''
     @ (case pcf_mode c of None \<Rightarrow> [] | Some m \<Rightarrow> js '' mode='' @ safeToken m ''unknown'')
     @ (case pcf_operation c of None \<Rightarrow> [] | Some p \<Rightarrow> js '' operation='' @ safeToken p ''unknown'')
     @ js '' '' @ [0x2014] @ js '' expected '' @ safeToken (pcf_expected c) ''n/a''
     @ js '', got '' @ safeToken (pcf_actual c) ''n/a'' @ js ''. ''"

definition explainPolicyConflict :: "policy_conflict \<Rightarrow> jstr" where
  "explainPolicyConflict c = conflict_head c @ pcf_explanation c"

section \<open>What a label shows\<close>

lemma truncate_units: "c \<in> set (truncate_label s) \<Longrightarrow> c \<in> set s \<or> c = 0x2026"
  by (auto simp: truncate_label_def split: if_splits dest: in_set_takeD)

lemma truncate_length: "length (truncate_label s) \<le> Suc MAX_LABEL"
  by (simp add: truncate_label_def)

lemma build_sel [simp]:
  "cu_classification (build c l n e) = c" "cu_safeDisplayText (build c l n e) = truncate_label l"
  "cu_networkCapable (build c l n e) = n" "cu_external (build c l n e) = e"
  by (simp_all add: build_def)

lemma after_last_units: "k \<notin> set (after_last k xs)" "set (after_last k xs) \<subseteq> set xs"
  by (auto simp: after_last_def dest: set_takeWhileD)

lemma after_last_append:
  assumes "k \<notin> set ys"
  shows "after_last k (xs @ k # ys) = ys"
proof -
  have "takeWhile (\<lambda>x. x \<noteq> k) (rev ys @ k # rev xs) = takeWhile (\<lambda>x. x \<noteq> k) (rev ys)"
    by (rule takeWhile_tail) simp
  also have "\<dots> = rev ys"
    using assms by (auto simp: takeWhile_eq_all_conv)
  finally show ?thesis by (simp add: after_last_def)
qed

definition hidden_units :: "16 word set" where
  "hidden_units = {0x3f, 0x23, 0x40, 0x3a}"

definition queryless :: "jstr \<Rightarrow> bool" where
  "queryless s \<longleftrightarrow> 0x3f \<notin> set s \<and> 0x23 \<notin> set s"

lemma queryless_labels [simp]:
  "queryless (js ''[redacted link]'')" "queryless (js ''[invalid link]'')" "queryless (js ''[data: URL]'')"
  "queryless (js ''[blob: URL]'')" "queryless (js ''[file: URL]'')" "queryless (js ''[blocked script URL]'')"
  "queryless (js ''[tel: link]'')" "queryless (js ''[external link]'')" "queryless (js ''[email link]'')"
  "queryless (js ''mailto:'')" "queryless []"
  by code_simp+

lemma queryless_append [simp]: "queryless (s @ t) \<longleftrightarrow> queryless s \<and> queryless t"
  "queryless (c # s) \<longleftrightarrow> c \<noteq> 0x3f \<and> c \<noteq> 0x23 \<and> queryless s"
  by (auto simp: queryless_def)

lemma queryless_truncate: "queryless s \<Longrightarrow> queryless (truncate_label s)"
  by (auto simp: queryless_def dest: truncate_units)

lemma redacted_link_units:
  "list_all (\<lambda>c. c \<noteq> 0x3f \<and> c \<noteq> 0x23 \<and> c \<noteq> 0x40 \<and> c \<noteq> 0x3a) (js ''[redacted link]'')"
  by code_simp

lemma redactAuthority_units: "c \<in> hidden_units \<Longrightarrow> c \<notin> set (redactAuthority raw)"
proof -
  assume c: "c \<in> hidden_units"
  have "c \<notin> set (takeWhile (\<lambda>c. c \<noteq> 0x3a) (after_last 0x40 (takeWhile authority_unit xs)))" for xs
    using c after_last_units [of "0x40" "takeWhile authority_unit xs"]
    by (auto simp: hidden_units_def authority_unit_def dest!: set_takeWhileD)
  moreover have "c \<notin> set (js ''[redacted link]'')"
    using c redacted_link_units by (auto simp: hidden_units_def list_all_iff)
  moreover have "c \<noteq> 0x2f" "c \<noteq> 0x2026" using c by (auto simp: hidden_units_def)
  ultimately show ?thesis
    unfolding redactAuthority_def Let_def by simp
qed

lemma queryless_parts: "queryless (redactAuthority raw)" "queryless (before_query s)" "queryless (mailtoLabel rest)"
proof -
  show "queryless (redactAuthority raw)"
    using redactAuthority_units [of _ raw] by (simp add: queryless_def hidden_units_def)
  show b: "queryless (before_query s)" for s
    by (auto simp: queryless_def before_query_def dest: set_takeWhileD)
  have "queryless (after_last 0x40 (before_query rest))"
    using b [of rest] after_last_units(2) [of "0x40" "before_query rest"] by (auto simp: queryless_def)
  then show "queryless (mailtoLabel rest)"
    by (simp add: mailtoLabel_def Let_def)
qed

text \<open>The classes and what each says about the network and the outside.\<close>

lemma classify_flags:
  "cu_networkCapable (classifyUrl v) \<longleftrightarrow>
     cu_classification (classifyUrl v) \<in> {UC_http_url, UC_https_url, UC_websocket_url}"
  "cu_external (classifyUrl v) \<longleftrightarrow>
     cu_classification (classifyUrl v) \<notin> {UC_not_a_url, UC_relative_url, UC_local_fragment, UC_invalid}"
  by (auto simp: classifyUrl_def Let_def split: option.splits)

lemma classify_length: "length (cu_safeDisplayText (classifyUrl v)) \<le> Suc MAX_LABEL"
  by (auto simp: classifyUrl_def Let_def truncate_length split: option.splits)

text \<open>A label is short and never empty, and the flags agree with the class: a URL can open the
  network exactly when its scheme is an HTTP or web-socket one, and is external exactly when it is
  neither local, invalid nor no URL.\<close>

theorem url_label_bounds:
  "1 \<le> length (renderPlainTextUrlLabel v f) \<and> length (renderPlainTextUrlLabel v f) \<le> 49
   \<and> cu_networkCapable (classifyUrl v) =
      (cu_classification (classifyUrl v) \<in> {UC_http_url, UC_https_url, UC_websocket_url})
   \<and> cu_external (classifyUrl v) =
      (cu_classification (classifyUrl v) \<notin> {UC_not_a_url, UC_relative_url, UC_local_fragment, UC_invalid})"
proof -
  have "length (js ''[redacted link]'') = 15" "length (js ''[blocked script URL]'') = 20" "length (js ''[link]'') = 6"
    by code_simp+
  then have "1 \<le> length (renderPlainTextUrlLabel v f) \<and> length (renderPlainTextUrlLabel v f) \<le> 49"
    using classify_length [of v] by (auto simp: renderPlainTextUrlLabel_def Let_def MAX_LABEL_def Suc_le_eq)
  then show ?thesis using classify_flags by blast
qed

text \<open>What the label of an HTTP or HTTPS URL must not show.\<close>

definition authority_safe :: "classified_url \<Rightarrow> bool" where
  "authority_safe c \<longleftrightarrow> (cu_classification c = UC_http_url \<or> cu_classification c = UC_https_url)
     \<le> (0x40 \<notin> set (cu_safeDisplayText c) \<and> 0x3a \<notin> set (cu_safeDisplayText c))"

lemma authority_safe_build:
  "k \<noteq> UC_http_url \<Longrightarrow> k \<noteq> UC_https_url \<Longrightarrow> authority_safe (build k l n e)"
  "authority_safe (build k (redactAuthority raw) n e)"
  using redactAuthority_units [of "0x40" raw] redactAuthority_units [of "0x3a" raw]
    truncate_units [of "0x40" "redactAuthority raw"] truncate_units [of "0x3a" "redactAuthority raw"]
  by (auto simp: authority_safe_def hidden_units_def)

lemma classify_authority: "authority_safe (classifyUrl v)"
  by (simp add: classifyUrl_def Let_def authority_safe_build split: option.split)

lemma classify_queryless:
  "cu_classification (classifyUrl v) \<noteq> UC_local_fragment \<Longrightarrow> queryless (cu_safeDisplayText (classifyUrl v))"
  by (auto simp: classifyUrl_def Let_def queryless_truncate queryless_parts split: option.splits if_splits)

lemma queryless_link: "queryless (js ''[link]'')"
  by code_simp

text \<open>A label never leaks a query: apart from a local fragment, which is shown as it is, the
  label of every value has neither a question mark nor a number sign in it; and the label of an
  HTTP or HTTPS URL has no at sign and no colon either, so neither credentials nor a port.\<close>

theorem url_label_hides_query:
  assumes "cu_classification (classifyUrl v) \<noteq> UC_local_fragment"
  shows "queryless (cu_safeDisplayText (classifyUrl v))
    \<and> authority_safe (classifyUrl v)"
proof -
  have "queryless (cu_safeDisplayText (classifyUrl v))"
    using assms by (rule classify_queryless)
  then show ?thesis using classify_authority by blast
qed

theorem url_label_hides_query_witness:
  "cu_safeDisplayText (classifyUrl (JStr (js ''https://u:p@example.org/a?token=1''))) = js ''example.org/'' @ [0x2026]
   \<and> queryless (cu_safeDisplayText (classifyUrl (JStr (js ''https://u:p@example.org/a?token=1''))))"
proof -
  have "cu_classification (classifyUrl (JStr (js ''https://u:p@example.org/a?token=1''))) \<noteq> UC_local_fragment"
    "cu_safeDisplayText (classifyUrl (JStr (js ''https://u:p@example.org/a?token=1''))) = js ''example.org/'' @ [0x2026]"
    by code_simp+
  with url_label_hides_query [of "JStr (js ''https://u:p@example.org/a?token=1'')"] show ?thesis by simp
qed

text \<open>Two labels that do show something: a local fragment is rendered whole, so a token in it
  is readable, and credentials with a slash in them end the authority, so their user name is
  rendered as the host.\<close>

theorem url_label_leaks:
  "renderPlainTextUrlLabel (JStr (js ''#access_token=SECRET'')) False = js ''#access_token=SECRET''
   \<and> renderPlainTextUrlLabel (JStr (js ''https://alice:pa/ss@host.example'')) False = js ''alice/'' @ [0x2026]"
  by code_simp

section \<open>The exact label of a URL with credentials\<close>

definition plain_unit :: "16 word \<Rightarrow> bool" where
  "plain_unit c \<longleftrightarrow> c \<notin> set JS_WHITE \<and> \<not> (c \<le> 0x1f \<or> c = 0x7f)"

lemma js_trim_plain: "list_all (\<lambda>c. c \<notin> set JS_WHITE) s \<Longrightarrow> js_trim s = s"
proof -
  assume "list_all (\<lambda>c. c \<notin> set JS_WHITE) s"
  then have s: "\<forall>c\<in>set s. c \<notin> set JS_WHITE" by (simp add: list_all_iff)
  have keep: "dropWhile (\<lambda>c. c \<in> set JS_WHITE) t = t" if "\<forall>c\<in>set t. c \<notin> set JS_WHITE" for t :: jstr
    using that by (cases t) auto
  show ?thesis using keep [of s] keep [of "rev s"] s by (simp add: js_trim_def Let_def)
qed

lemma https_units:
  "js ''https://'' = js ''https'' @ 0x3a # js ''//''" "list_all plain_unit (js ''https://'')"
  "map ascii_lower (js ''https'') = js ''https''" "SCHEME_RE (js ''https'' @ [0x3a]) = Some (js ''https'', [])"
  "\<not> starts_with (js ''https:'') (js ''#'')" "\<not> starts_with (js ''https:'') (js ''//'')"
  "js ''https'' \<noteq> js ''http''"
  by code_simp+

lemma https_scheme: "SCHEME_RE (js ''https'' @ 0x3a # rest) = Some (js ''https'', rest)"
proof -
  have "js ''https'' = [0x68, 0x74, 0x74, 0x70, 0x73]" by code_simp
  then show ?thesis
    by (simp add: SCHEME_RE_def scheme_unit_def ascii_letter_def ascii_lower_def)
qed

lemma authority_split:
  assumes "list_all authority_unit (u @ 0x40 # h)" "t = [] \<or> \<not> authority_unit (hd t)"
  shows "takeWhile authority_unit (u @ 0x40 # h @ t) = u @ 0x40 # h"
    and "dropWhile authority_unit (u @ 0x40 # h @ t) = t"
proof -
  have all: "\<forall>c\<in>set (u @ 0x40 # h). authority_unit c" using assms(1) by (simp add: list_all_iff)
  have t: "takeWhile authority_unit t = []" "dropWhile authority_unit t = t"
    using assms(2) by (cases t; simp)+
  have "takeWhile authority_unit ((u @ 0x40 # h) @ t) = (u @ 0x40 # h) @ takeWhile authority_unit t"
    "dropWhile authority_unit ((u @ 0x40 # h) @ t) = dropWhile authority_unit t"
    using all by (simp_all only: takeWhile_append2 dropWhile_append2)
  then show "takeWhile authority_unit (u @ 0x40 # h @ t) = u @ 0x40 # h"
    "dropWhile authority_unit (u @ 0x40 # h @ t) = t"
    using t by simp_all
qed

lemma redactAuthority_eq:
  assumes "SCHEME_RE raw = Some (s, js ''//'' @ x)" "takeWhile authority_unit x = a"
    "dropWhile authority_unit x = t" "takeWhile (\<lambda>c. c \<noteq> 0x3a) (after_last 0x40 a) = h" "h \<noteq> []"
  shows "redactAuthority raw = (if t = [] \<or> t = js ''/'' then h else h @ [0x2f, 0x2026])"
proof -
  have "drop 2 (js ''//'' @ x) = x" by (simp add: js_def)
  then show ?thesis
    using assms by (simp add: redactAuthority_def)
qed

text \<open>The label of an HTTPS URL with credentials is its host, with an ellipsis if there is a
  path: for every user name and password without a slash, question mark, number sign or backslash,
  every host and every rest, the label does not depend on the credentials or the rest.\<close>

theorem url_label_exact:
  assumes "list_all plain_unit (u @ h @ t)" "list_all authority_unit (u @ h)"
    and "h \<noteq> []" "0x40 \<notin> set h" "0x3a \<notin> set h" "t = [] \<or> \<not> authority_unit (hd t)"
  shows "cu_safeDisplayText (classifyUrl (JStr (js ''https://'' @ u @ 0x40 # h @ t))) =
    truncate_label (if t = [] \<or> t = js ''/'' then h else h @ [0x2f, 0x2026])"
proof -
  let ?raw = "js ''https://'' @ u @ 0x40 # h @ t"
  have raw: "?raw = js ''https'' @ 0x3a # js ''//'' @ u @ 0x40 # h @ t"
    by (simp add: https_units(1))
  have plain: "list_all plain_unit ?raw"
    using assms(1) https_units(2) by (simp add: plain_unit_def JS_WHITE_def)
  then have trim: "js_trim ?raw = ?raw"
    by (intro js_trim_plain) (auto simp: list_all_iff plain_unit_def)
  have no_control: "\<not> hasControlChars ?raw"
    using plain by (auto simp: hasControlChars_def list_ex_iff list_all_iff plain_unit_def)
  have head: "\<not> starts_with ?raw (js ''#'')" "\<not> starts_with ?raw (js ''//'')" "?raw \<noteq> []"
    by (simp_all add: js_def starts_with_def)
  have scheme: "SCHEME_RE ?raw = Some (js ''https'', js ''//'' @ u @ 0x40 # h @ t)"
    unfolding raw by (rule https_scheme)
  have "authority_unit 0x40" by (simp add: authority_unit_def)
  then have auth: "list_all authority_unit (u @ 0x40 # h)" using assms(2) by simp
  have host: "takeWhile (\<lambda>c. c \<noteq> 0x3a) h = h" using assms(5) by (auto simp: takeWhile_eq_all_conv)
  have "redactAuthority ?raw = (if t = [] \<or> t = js ''/'' then h else h @ [0x2f, 0x2026])"
    by (rule redactAuthority_eq [OF scheme authority_split [OF auth assms(6)]])
      (simp_all add: after_last_append [OF assms(4)] host assms(3))
  moreover have "classifyUrl (JStr ?raw) = build UC_https_url (redactAuthority ?raw) True True"
    unfolding classifyUrl_def jsval.case trim
    by (simp only: Let_def head no_control scheme option.case prod.case https_units(3,7) if_False if_True simp_thms)
  ultimately show ?thesis by simp
qed

theorem url_label_exact_witness:
  "cu_safeDisplayText (classifyUrl (JStr (js ''https://'' @ js ''u:p'' @ 0x40 # js ''a.org'' @ js ''/x?token=1''))) =
     js ''a.org/'' @ [0x2026]"
proof -
  have "list_all plain_unit (js ''u:p'' @ js ''a.org'' @ js ''/x?token=1'')" "list_all authority_unit (js ''u:p'' @ js ''a.org'')"
    "js ''a.org'' \<noteq> []" "0x40 \<notin> set (js ''a.org'')" "0x3a \<notin> set (js ''a.org'')" "\<not> authority_unit (hd (js ''/x?token=1''))"
    "truncate_label (if js ''/x?token=1'' = [] \<or> js ''/x?token=1'' = js ''/'' then js ''a.org''
       else js ''a.org'' @ [0x2f, 0x2026]) = js ''a.org/'' @ [0x2026]"
    by code_simp+
  then show ?thesis using url_label_exact [of "js ''u:p''" "js ''a.org''" "js ''/x?token=1''"] by simp
qed

section \<open>Conflict reports\<close>

lemma token_fallbacks:
  "list_all token_unit (js ''unknown'')" "list_all token_unit (js ''n/a'')"
  "length (js ''unknown'') = 7" "length (js ''n/a'') = 3"
  by code_simp+

lemma safeToken_kept: "list_all token_unit v \<Longrightarrow> v \<noteq> [] \<Longrightarrow> length v \<le> 64 \<Longrightarrow> safeToken v f = v"
  by (simp add: safeToken_def Let_def list_all_iff)

lemma safeToken_units:
  "list_all token_unit (js f) \<Longrightarrow> list_all token_unit (safeToken v f)"
  by (auto simp: safeToken_def Let_def list_all_iff dest: in_set_takeD)

lemma safeToken_length:
  "1 \<le> length (js f) \<Longrightarrow> length (js f) \<le> 64 \<Longrightarrow> 1 \<le> length (safeToken v f) \<and> length (safeToken v f) \<le> 64"
  by (auto simp: safeToken_def Let_def Suc_le_eq)

text \<open>The tokens of a conflict report are slugs of one to sixty-four units, and a slug stays
  as it is; but the explanation is appended as the caller wrote it.\<close>

theorem conflict_report_tokens:
  "list_all token_unit (safeToken v (if b then ''unknown'' else ''n/a''))
   \<and> length (safeToken v (if b then ''unknown'' else ''n/a'')) \<in> {1..64}
   \<and> safeToken (safeToken v (if b then ''unknown'' else ''n/a'')) f = safeToken v (if b then ''unknown'' else ''n/a'')
   \<and> explainPolicyConflict (c\<lparr>pcf_explanation := e\<rparr>) = conflict_head c @ e"
proof -
  let ?f = "if b then ''unknown'' else ''n/a''"
  have f: "list_all token_unit (js ?f)" "1 \<le> length (js ?f)" "length (js ?f) \<le> 64"
    using token_fallbacks by simp_all
  note u = safeToken_units [OF f(1), of v] and l = safeToken_length [OF f(2,3), of v]
  have "safeToken (safeToken v ?f) f = safeToken v ?f"
    by (rule safeToken_kept [OF u]) (use l in auto)
  moreover have "conflict_head (c\<lparr>pcf_explanation := e\<rparr>) = conflict_head c"
    by (simp add: conflict_head_def)
  ultimately show ?thesis using u l by (simp add: explainPolicyConflict_def)
qed

end
