(* ===== verification/Privacy_Layers.thy ===== *)
theory Privacy_Layers
  imports Storage_Memory Network_Policy Notification_Policy Url_Policy
begin

text \<open>
  The policy layers together.  The storage, network, metadata, notification, link preview and asset
  policies are resolved independently by their packages; what a mode promises only holds when all
  of them agree.
\<close>


text \<open>No layer fetches remote content: in every mode and context the network policy denies link
  previews, asset fetches, telemetry, update checks and remote models, the metadata firewall denies
  the events of link previews, assets, avatars and navigation, the link preview policy allows
  neither an automatic preview nor a fetch nor a cache, and no external asset is fetched or
  rendered.\<close>

theorem remote_content_denied:
  "list_all (\<lambda>op. \<not> np_allowed (resolveNetworkPolicy (ni\<lparr>ni_operation := op\<rparr>))) ALWAYS_FORBIDDEN_OPERATIONS
   \<and> list_all (\<lambda>e. \<not> mp_allowed (resolveMetadataPolicy (mi\<lparr>mpi_event := e\<rparr>))) EXTERNAL_FETCH_EVENTS
   \<and> \<not> lpp_automaticPreviewAllowed (resolveLinkPreviewPolicy li) \<and> \<not> lpp_networkFetchAllowed (resolveLinkPreviewPolicy li)
   \<and> \<not> lpp_cacheAllowed (resolveLinkPreviewPolicy li)
   \<and> lpp_action (resolveLinkPreviewPolicy li) \<noteq> LP_require_user_action_future
   \<and> \<not> eap_networkFetchAllowed (resolveExternalAssetPolicy m k) \<and> \<not> eap_renderAllowed (resolveExternalAssetPolicy m k)"
proof -
  have "list_all (\<lambda>op. \<not> np_allowed (resolveNetworkPolicy (ni\<lparr>ni_operation := op\<rparr>))) ALWAYS_FORBIDDEN_OPERATIONS"
    by (auto simp: list_all_iff resolved_network network_permits_def)
  moreover have "list_all (\<lambda>e. \<not> mp_allowed (resolveMetadataPolicy (mi\<lparr>mpi_event := e\<rparr>))) EXTERNAL_FETCH_EVENTS"
    by (simp add: EXTERNAL_FETCH_EVENTS_def resolved_metadata metadata_draft_allowed metadata_permits_def)
  moreover have "lpp_action (resolveLinkPreviewPolicy li) \<noteq> LP_require_user_action_future"
    by (auto simp: resolveLinkPreviewPolicy_def Let_def split: option.splits)
  ultimately show ?thesis
    by (simp add: resolveLinkPreviewPolicy_def resolveExternalAssetPolicy_def Let_def)
qed

text \<open>A URL that could open the network never becomes a fetch: whatever a room says, the link
  of a network-capable URL is shown as text, redacted, denied or not implemented, its label hides
  the query and the credentials, and the network policy denies the preview.\<close>

theorem network_url_is_text_only:
  assumes "cu_networkCapable (classifyUrl v)"
  shows "lpp_action (resolveLinkPreviewPolicy li) \<in> {LP_deny, LP_show_plain_text_only, LP_redact, LP_not_implemented}
   \<and> queryless (renderPlainTextUrlLabel v forced)
   \<and> authority_safe (classifyUrl v)
   \<and> \<not> np_allowed (resolveNetworkPolicy (ni\<lparr>ni_operation := NO_link_preview\<rparr>))"
proof -
  have "cu_classification (classifyUrl v) \<noteq> UC_local_fragment"
    using assms classify_flags(1) by fastforce
  then have "queryless (cu_safeDisplayText (classifyUrl v))"
    by (rule classify_queryless)
  then have "queryless (renderPlainTextUrlLabel v forced)"
    using queryless_link by (simp add: renderPlainTextUrlLabel_def Let_def)
  moreover have "lpp_action (resolveLinkPreviewPolicy li) \<in> {LP_deny, LP_show_plain_text_only, LP_redact, LP_not_implemented}"
    by (auto simp: resolveLinkPreviewPolicy_def Let_def split: option.splits)
  ultimately show ?thesis
    using classify_authority by (simp add: resolved_network network_permits_def ALWAYS_FORBIDDEN_OPERATIONS_def)
qed

theorem network_url_is_text_only_witness:
  "queryless (renderPlainTextUrlLabel (JStr (js ''https://a.org/x?token=1'')) False)"
proof -
  have "cu_networkCapable (classifyUrl (JStr (js ''https://a.org/x?token=1'')))" by code_simp
  from network_url_is_text_only [OF this] show ?thesis by blast
qed

end
