(* ===== verification/Repo_Regex.thy ===== *)
theory Repo_Regex
  imports FL_Prelude
begin

text \<open>
  The patterns of the repository's checks (\<open>scripts/*.mjs\<close>).  A pattern the scripts only
  test is a term of \<open>rx\<close>; its matcher computes the positions a match can end at, and agrees
  with the inductive meaning of patterns.  A pattern the scripts match repeatedly, reading a group,
  is a function from the text at a position to the group and the length of the match;
  \<open>match_all\<close> is \<open>matchAll\<close> over it.
\<close>

section \<open>Patterns\<close>

text \<open>A class is a list of ranges of units, complemented if the flag says so.\<close>

datatype rx =
    RX_eps
  | RX_class bool "(16 word \<times> 16 word) list"
  | RX_boundary
  | RX_seq rx rx
  | RX_alt rx rx
  | RX_star rx

definition in_class :: "bool \<Rightarrow> (16 word \<times> 16 word) list \<Rightarrow> 16 word \<Rightarrow> bool" where
  "in_class negated ranges c \<longleftrightarrow> list_ex (\<lambda>(a, b). a \<le> c \<and> c \<le> b) ranges \<noteq> negated"

text \<open>The word units of \<open>\b\<close>: ASCII letters, digits and the underscore.\<close>

definition is_word_unit :: "16 word \<Rightarrow> bool" where
  "is_word_unit c \<longleftrightarrow> is_lower_alnum (ascii_lower c) \<or> c = 0x5f"

definition word_at :: "jstr \<Rightarrow> nat \<Rightarrow> bool" where
  "word_at s i \<longleftrightarrow> i < length s \<and> is_word_unit (s ! i)"

definition at_boundary :: "jstr \<Rightarrow> nat \<Rightarrow> bool" where
  "at_boundary s i \<longleftrightarrow> (0 < i \<and> word_at s (i - 1)) \<noteq> word_at s i"

section \<open>Matching\<close>

text \<open>The end positions of a repetition; every round consumes something, so as many rounds as there
  are units are enough.\<close>

fun star_ends :: "(nat \<Rightarrow> nat list) \<Rightarrow> nat \<Rightarrow> nat \<Rightarrow> nat list" where
  "star_ends f 0 i = [i]"
| "star_ends f (Suc n) i = i # concat (map (\<lambda>j. if i < j then star_ends f n j else []) (f i))"

fun rx_ends :: "jstr \<Rightarrow> rx \<Rightarrow> nat \<Rightarrow> nat list" where
  "rx_ends s RX_eps i = [i]"
| "rx_ends s (RX_class neg ranges) i =
     (if i < length s \<and> in_class neg ranges (s ! i) then [Suc i] else [])"
| "rx_ends s RX_boundary i = (if at_boundary s i then [i] else [])"
| "rx_ends s (RX_seq a b) i = concat (map (rx_ends s b) (rx_ends s a i))"
| "rx_ends s (RX_alt a b) i = rx_ends s a i @ rx_ends s b i"
| "rx_ends s (RX_star a) i = star_ends (rx_ends s a) (length s - i) i"

definition rx_test :: "rx \<Rightarrow> jstr \<Rightarrow> bool" where
  "rx_test r s = list_ex (\<lambda>i. rx_ends s r i \<noteq> []) [0..<Suc (length s)]"

section \<open>The meaning of patterns\<close>

inductive rx_match :: "jstr \<Rightarrow> rx \<Rightarrow> nat \<Rightarrow> nat \<Rightarrow> bool" for s :: jstr where
  match_eps: "rx_match s RX_eps i i"
| match_class: "i < length s \<Longrightarrow> in_class neg ranges (s ! i) \<Longrightarrow> rx_match s (RX_class neg ranges) i (Suc i)"
| match_boundary: "at_boundary s i \<Longrightarrow> rx_match s RX_boundary i i"
| match_seq: "rx_match s a i j \<Longrightarrow> rx_match s b j k \<Longrightarrow> rx_match s (RX_seq a b) i k"
| match_left: "rx_match s a i j \<Longrightarrow> rx_match s (RX_alt a b) i j"
| match_right: "rx_match s b i j \<Longrightarrow> rx_match s (RX_alt a b) i j"
| match_stop: "rx_match s (RX_star a) i i"
| match_more: "rx_match s a i j \<Longrightarrow> i < j \<Longrightarrow> rx_match s (RX_star a) j k \<Longrightarrow> rx_match s (RX_star a) i k"

inductive_simps match_simps [simp]:
  "rx_match s RX_eps i j"
  "rx_match s (RX_class neg ranges) i j"
  "rx_match s RX_boundary i j"
  "rx_match s (RX_seq a b) i j"
  "rx_match s (RX_alt a b) i j"

inductive_cases match_starE: "rx_match s (RX_star a) i j"

lemma match_forward: "rx_match s r i j \<Longrightarrow> i \<le> j \<and> (i \<le> length s \<longrightarrow> j \<le> length s)"
  by (induction rule: rx_match.induct) auto

lemma star_ends_sound:
  assumes "\<And>i j. i \<le> length s \<Longrightarrow> j \<in> set (f i) \<Longrightarrow> rx_match s a i j"
  shows "j \<in> set (star_ends f n i) \<Longrightarrow> i \<le> length s \<Longrightarrow> rx_match s (RX_star a) i j"
proof (induction n arbitrary: i)
  case (Suc n)
  then consider "j = i" | k where "k \<in> set (f i)" "i < k" "j \<in> set (star_ends f n k)"
    by (auto split: if_splits)
  then show ?case
  proof cases
    case 2
    note m = assms [OF Suc.prems(2) 2(1)]
    then show ?thesis using Suc.IH [OF 2(3)] match_forward [OF m] Suc.prems(2) match_more [OF m 2(2)] by blast
  qed (simp add: match_stop)
qed (simp add: match_stop)

lemma star_ends_complete:
  assumes "\<And>i j. i \<le> length s \<Longrightarrow> rx_match s a i j \<Longrightarrow> j \<in> set (f i)"
  shows "rx_match s (RX_star a) i k \<Longrightarrow> i \<le> length s \<Longrightarrow> length s - i \<le> n \<Longrightarrow> k \<in> set (star_ends f n i)"
proof (induction n arbitrary: i)
  case 0
  from 0(1) show ?case
  proof (rule match_starE)
    fix j assume "rx_match s a i j" "i < j"
    then show ?thesis using match_forward [of s a i j] 0(2,3) by auto
  qed auto
next
  case (Suc n)
  from Suc.prems(1) show ?case
  proof (rule match_starE)
    fix j assume j: "rx_match s a i j" "i < j" "rx_match s (RX_star a) j k"
    then have "k \<in> set (star_ends f n j)"
      using Suc.IH [OF j(3)] match_forward [OF j(1)] Suc.prems(2,3) by linarith
    then show ?thesis using assms [OF Suc.prems(2) j(1)] j(2) by auto
  qed auto
qed

lemma rx_ends_iff: "i \<le> length s \<Longrightarrow> j \<in> set (rx_ends s r i) \<longleftrightarrow> rx_match s r i j"
proof (induction r arbitrary: i j)
  case (RX_seq a b)
  have "rx_match s a i k \<Longrightarrow> k \<le> length s" for k
    using match_forward [of s a i k] RX_seq.prems by blast
  then show ?case using RX_seq by auto
next
  case (RX_star a)
  have "rx_match s (RX_star a) i j" if "j \<in> set (star_ends (rx_ends s a) (length s - i) i)"
    using RX_star that by (intro star_ends_sound) auto
  moreover have "j \<in> set (star_ends (rx_ends s a) (length s - i) i)" if "rx_match s (RX_star a) i j"
    using that RX_star by (intro star_ends_complete) auto
  ultimately show ?case using RX_star.prems by auto
qed auto

text \<open>The matcher of the repository's patterns is the meaning of the patterns: a pattern is
  found in a line exactly when some stretch of the line matches it, with word boundaries taken from
  the units around the stretch.\<close>

theorem rx_test_exact: "rx_test r s \<longleftrightarrow> (\<exists>i j. j \<le> length s \<and> rx_match s r i j)"
proof
  assume "rx_test r s"
  then obtain i where "i \<le> length s" "rx_ends s r i \<noteq> []"
    unfolding rx_test_def list_ex_iff by (metis atLeastLessThan_iff less_Suc_eq_le set_upt)
  then obtain j where "j \<in> set (rx_ends s r i)" by (cases "rx_ends s r i") auto
  then show "\<exists>i j. j \<le> length s \<and> rx_match s r i j"
    using rx_ends_iff match_forward \<open>i \<le> length s\<close> by blast
next
  assume "\<exists>i j. j \<le> length s \<and> rx_match s r i j"
  then obtain i j where ij: "j \<le> length s" "rx_match s r i j" by blast
  then have "i \<le> length s" using match_forward [of s r i j] by linarith
  then have "j \<in> set (rx_ends s r i)" using rx_ends_iff ij(2) by blast
  then have "rx_ends s r i \<noteq> []" by auto
  then show "rx_test r s" using \<open>i \<le> length s\<close>
    unfolding rx_test_def list_ex_iff by (intro bexI [of _ i]) auto
qed

section \<open>Building patterns\<close>

definition rx_lit :: "string \<Rightarrow> rx" where
  "rx_lit s = foldr (\<lambda>c r. RX_seq (RX_class False [(of_char c, of_char c)]) r) s RX_eps"

definition rx_seqs :: "rx list \<Rightarrow> rx" where
  "rx_seqs rs = foldr RX_seq rs RX_eps"

definition rx_choice :: "string list \<Rightarrow> rx" where
  "rx_choice ws = foldr (\<lambda>w r. RX_alt (rx_lit w) r) ws (RX_class False [])"

definition rx_whites :: rx where
  "rx_whites = RX_star (RX_class False (map (\<lambda>c. (c, c)) JS_WHITE))"

definition rx_quote :: rx where
  "rx_quote = RX_class False [(0x22, 0x22), (0x27, 0x27)]"

primrec rx_upto :: "nat \<Rightarrow> rx \<Rightarrow> rx" where
  "rx_upto 0 r = RX_eps"
| "rx_upto (Suc n) r = RX_alt RX_eps (RX_seq r (rx_upto n r))"

definition PROJECTION_ASSIGN_RE :: rx where
  "PROJECTION_ASSIGN_RE = rx_seqs [rx_lit ''.'', rx_choice [''objects'', ''members''], rx_lit ''['',
     RX_star (RX_class True [(0x5d, 0x5d)]), rx_lit '']'', rx_whites, rx_lit ''='', RX_class True [(0x3d, 0x3d)]]"

definition RAW_TRAVERSAL_RE :: rx where
  "RAW_TRAVERSAL_RE = rx_seqs [rx_lit ''roomState.objects.'',
     rx_choice [''find'', ''filter'', ''map'', ''forEach'', ''reduce'', ''some'', ''every'', ''sort'', ''slice''],
     RX_boundary]"

definition OWNER_AUTHZ_RE :: rx where
  "OWNER_AUTHZ_RE =
     (let owner = rx_seqs [rx_quote, rx_lit ''owner_placeholder'', rx_quote]; eq = rx_choice [''==='', ''!=='']
      in RX_alt (rx_seqs [eq, rx_whites, owner]) (rx_seqs [owner, rx_whites, eq]))"

definition AUTHORITY_FIELD_RE :: rx where
  "AUTHORITY_FIELD_RE = rx_seqs [RX_boundary,
     rx_choice [''isAdmin'', ''isOwner'', ''trustedDevice'', ''endpointSafe'', ''deviceTrusted'', ''grantAll''],
     rx_whites, rx_lit '':'', rx_whites,
     RX_alt (rx_choice [''true'', ''false'']) (RX_class False [(0x61, 0x7a), (0x41, 0x5a), (0x5f, 0x5f), (0x24, 0x24)])]"

definition ROLE_AUTHZ_RE :: rx where
  "ROLE_AUTHZ_RE = rx_seqs [rx_choice [''==='', ''!==''], rx_whites, rx_quote,
     rx_choice [''owner'', ''editor'', ''viewer'', ''auditor''], rx_lit ''_placeholder'', rx_quote]"

definition TRUSTED_POSTURE_RE :: rx where
  "TRUSTED_POSTURE_RE = rx_seqs [rx_lit ''source'', rx_whites, rx_lit '':'', rx_whites, rx_quote,
     rx_lit ''secure_device_future_provider'', rx_quote, rx_upto 40 (RX_class True []),
     rx_lit ''providerIntegration'', rx_whites, rx_lit '':'', rx_whites, rx_quote,
     rx_lit ''integrated_future'', rx_quote]"

section \<open>Repeated matching\<close>

text \<open>The function reads the unit before the position and the text from it on; its number is the
  length of the match, which is never zero.\<close>

fun match_all :: "(16 word option \<Rightarrow> jstr \<Rightarrow> ('a \<times> nat) option) \<Rightarrow> 16 word option \<Rightarrow> jstr \<Rightarrow> 'a list" where
  "match_all f prev [] = []"
| "match_all f prev (c # cs) = (case f prev (c # cs) of
       None \<Rightarrow> match_all f (Some c) cs
     | Some (x, n) \<Rightarrow> x # match_all f (Some ((c # cs) ! (n - 1))) (drop (n - 1) cs))"

definition is_host_unit :: "16 word \<Rightarrow> bool" where
  "is_host_unit c \<longleftrightarrow> is_lower_alnum c \<or> c = 0x2e \<or> c = 0x2d"

definition is_digit_char :: "16 word \<Rightarrow> bool" where
  "is_digit_char c \<longleftrightarrow> 0x30 \<le> c \<and> c \<le> 0x39"

definition port_length :: "jstr \<Rightarrow> nat" where
  "port_length s = (case s of [] \<Rightarrow> 0
     | c # ds \<Rightarrow> if c = 0x3a \<and> takeWhile is_digit_char ds \<noteq> [] then Suc (length (takeWhile is_digit_char ds)) else 0)"

text \<open>\<open>URL_RE\<close>; the flag \<open>i\<close> makes letters match in either case.\<close>

definition url_at :: "16 word option \<Rightarrow> jstr \<Rightarrow> (jstr \<times> nat) option" where
  "url_at prev s =
     (let low = map ascii_lower s
      in if (case prev of None \<Rightarrow> False | Some c \<Rightarrow> is_word_unit c) then None
         else case find (\<lambda>p. starts_with low (js p)) [''https://'', ''http://'', ''wss://'', ''ws://''] of
             None \<Rightarrow> None
           | Some p \<Rightarrow>
               (let rest = drop (length p) low; host = takeWhile is_host_unit rest
                in if host = [] then None
                   else Some (host, length p + length host + port_length (drop (length host) rest))))"

definition extractRemoteHosts :: "jstr \<Rightarrow> jstr list" where
  "extractRemoteHosts line = match_all url_at None line"

definition ends_with :: "jstr \<Rightarrow> jstr \<Rightarrow> bool" where
  "ends_with s p \<longleftrightarrow> length p \<le> length s \<and> drop (length s - length p) s = p"

definition hostAllowed :: "jstr \<Rightarrow> string list \<Rightarrow> bool" where
  "hostAllowed host allowlist \<longleftrightarrow> list_ex (\<lambda>a. host = js a \<or> ends_with host (0x2e # js a)) allowlist"

definition NAV_ALLOWED_HOSTS :: "string list" where
  "NAV_ALLOWED_HOSTS = [''github.com'']"

definition FRAMEWORK_BENIGN_HOSTS :: "string list" where
  "FRAMEWORK_BENIGN_HOSTS = [''www.w3.org'', ''react.dev'']"

definition BUILD_ALLOWED_HOSTS :: "string list" where
  "BUILD_ALLOWED_HOSTS = NAV_ALLOWED_HOSTS @ FRAMEWORK_BENIGN_HOSTS"

text \<open>\<open>IMPORT_RE\<close> of the boundary check; its group is the name after \<open>@freelayer/\<close>.\<close>

definition is_white :: "16 word \<Rightarrow> bool" where
  "is_white c \<longleftrightarrow> c \<in> set JS_WHITE"

definition import_lead :: "jstr \<Rightarrow> jstr option" where
  "import_lead s =
     (if starts_with s (js ''from'') then
        (case drop 4 s of [] \<Rightarrow> None | c # r \<Rightarrow> if is_white c then Some (dropWhile is_white r) else None)
      else if starts_with s (js ''import'') then
        (case dropWhile is_white (drop 6 s) of [] \<Rightarrow> None
         | c # r \<Rightarrow> if c = 0x28 then Some (dropWhile is_white r) else None)
      else if starts_with s (js ''require('') then Some (dropWhile is_white (drop 8 s))
      else None)"

definition is_quote :: "16 word \<Rightarrow> bool" where
  "is_quote c \<longleftrightarrow> c = 0x22 \<or> c = 0x27"

definition is_package_unit :: "16 word \<Rightarrow> bool" where
  "is_package_unit c \<longleftrightarrow> (0x61 \<le> c \<and> c \<le> 0x7a) \<or> c = 0x2d"

definition import_at :: "16 word option \<Rightarrow> jstr \<Rightarrow> (jstr \<times> nat) option" where
  "import_at prev s =
     (case import_lead s of
        None \<Rightarrow> None
      | Some r \<Rightarrow>
          (case r of [] \<Rightarrow> None
           | q # t \<Rightarrow>
              (let name = takeWhile is_package_unit (drop 11 t)
               in if is_quote q \<and> starts_with t (js ''@freelayer/'') \<and> name \<noteq> []
                  then case drop (11 + length name) t of [] \<Rightarrow> None
                     | q' # rest \<Rightarrow> if is_quote q' then Some (name, length s - length rest) else None
                  else None)))"

definition package_imports :: "jstr \<Rightarrow> jstr list" where
  "package_imports line = match_all import_at None line"

section \<open>What the patterns see\<close>

text \<open>The host check reads the text up to the first unit a host cannot have: the host of a URL
  with user information is never read, so a line that names a host off the list passes the check
  behind the name of one on it; the same host is found when the URL names it plainly.\<close>

theorem host_check_spoofed:
  "list_all (\<lambda>h. hostAllowed h NAV_ALLOWED_HOSTS) (extractRemoteHosts (js ''x = \"https://github.com@evil.example/p\"''))
   \<and> extractRemoteHosts (js ''https://evil.example/p'') = [js ''evil.example'']
   \<and> \<not> hostAllowed (js ''evil.example'') NAV_ALLOWED_HOSTS"
  by code_simp

end
