(* ===== verification/Repo_Scan.thy ===== *)
theory Repo_Scan
  imports Repo_Regex
begin

text \<open>
  The token guards of the repository (\<open>scripts/check-*.mjs\<close> over \<open>scripts/_util.mjs\<close>) as
  functions of the file tree.  A path is relative to the repository's root, which is what
  \<open>repoRelative\<close> reports; the text of a file is a sequence of code units.  A guard returns its
  violations: the token or the rule, with the file and the line the message names.
\<close>

section \<open>Files and lines\<close>

datatype fs_entry =
    FS_file jstr
  | FS_dir "(jstr \<times> fs_entry) list"
  | FS_other

definition SKIP_DIRS :: "string list" where
  "SKIP_DIRS = [''node_modules'', ''dist'', ''.turbo'', ''.git'', ''coverage'', ''src-tauri'']"

definition is_skipped :: "jstr \<Rightarrow> bool" where
  "is_skipped name \<longleftrightarrow> name \<in> set (map js SKIP_DIRS)"

definition path_join :: "jstr \<Rightarrow> jstr \<Rightarrow> jstr" where
  "path_join path name = (if path = [] then name else path @ 0x2f # name)"

definition has_extension :: "string list \<Rightarrow> jstr \<Rightarrow> bool" where
  "has_extension exts name \<longleftrightarrow> list_ex (\<lambda>ext. ends_with name (js ext)) exts"

fun walkFiles :: "string list \<Rightarrow> jstr \<Rightarrow> fs_entry \<Rightarrow> (jstr \<times> jstr) list" where
  "walkFiles exts path (FS_dir es) = concat (map (\<lambda>(name, e). case e of
       FS_dir _ \<Rightarrow> if is_skipped name then [] else walkFiles exts (path_join path name) e
     | FS_file content \<Rightarrow> if has_extension exts name then [(path_join path name, content)] else []
     | FS_other \<Rightarrow> []) es)"
| "walkFiles exts path _ = []"

text \<open>\<open>s.split(c)\<close> at a single unit.\<close>

fun split_on :: "16 word \<Rightarrow> jstr \<Rightarrow> jstr list" where
  "split_on d [] = [[]]"
| "split_on d (c # cs) =
     (if c = d then [] # split_on d cs
      else case split_on d cs of [] \<Rightarrow> [[c]] | p # ps \<Rightarrow> (c # p) # ps)"

fun fs_at :: "fs_entry \<Rightarrow> jstr list \<Rightarrow> fs_entry option" where
  "fs_at e [] = Some e"
| "fs_at (FS_dir es) (name # names) = (case map_of es name of None \<Rightarrow> None | Some e \<Rightarrow> fs_at e names)"
| "fs_at _ _ = None"

definition isPathExisting :: "fs_entry \<Rightarrow> jstr \<Rightarrow> bool" where
  "isPathExisting root path \<longleftrightarrow> fs_at root (split_on 0x2f path) \<noteq> None"

text \<open>\<open>walkFiles(join(root, dir), exts)\<close>; a directory that does not exist has no files.\<close>

definition walk_dir :: "fs_entry \<Rightarrow> string list \<Rightarrow> jstr \<Rightarrow> (jstr \<times> jstr) list" where
  "walk_dir root exts dir = (case fs_at root (split_on 0x2f dir) of None \<Rightarrow> [] | Some e \<Rightarrow> walkFiles exts dir e)"

text \<open>\<open>text.split(/\r?\n/)\<close>: a carriage return before a line feed belongs to the separator.\<close>

definition strip_return :: "jstr \<Rightarrow> jstr" where
  "strip_return line = (if line \<noteq> [] \<and> last line = 0x0d then butlast line else line)"

definition fileLines :: "jstr \<Rightarrow> jstr list" where
  "fileLines content = (let ps = split_on 0x0a content in map strip_return (butlast ps) @ [last ps])"

section \<open>Violations\<close>

datatype violation =
    V_token jstr nat string
  | V_rule jstr nat string
  | V_host jstr nat jstr
  | V_import jstr nat jstr jstr
  | V_file jstr string

definition token_hits :: "string list \<Rightarrow> jstr \<Rightarrow> nat \<Rightarrow> jstr \<Rightarrow> violation list" where
  "token_hits tokens path n line = map (V_token path n) (filter (\<lambda>t. includes_js line (js t)) tokens)"

definition rule_hit :: "bool \<Rightarrow> string \<Rightarrow> jstr \<Rightarrow> nat \<Rightarrow> violation list" where
  "rule_hit c rule path n = (if c then [V_rule path n rule] else [])"

text \<open>\<open>lines.forEach((line, index) => ...)\<close>; the message names \<open>index + 1\<close>.\<close>

definition scan_lines :: "(jstr \<Rightarrow> nat \<Rightarrow> jstr \<Rightarrow> violation list) \<Rightarrow> jstr \<times> jstr \<Rightarrow> violation list" where
  "scan_lines f file = concat (map (\<lambda>(n, line). f (fst file) n line) (enumerate 1 (fileLines (snd file))))"

text \<open>The directories named on the command line, unless its first word is a flag.\<close>

definition scan_dirs :: "jstr list \<Rightarrow> jstr list" where
  "scan_dirs args =
     (if args \<noteq> [] \<and> \<not> starts_with (hd args) (js ''--'') then args else [js ''apps'', js ''packages''])"

definition scanned_files :: "fs_entry \<Rightarrow> string list \<Rightarrow> (jstr \<Rightarrow> bool) \<Rightarrow> jstr list \<Rightarrow> (jstr \<times> jstr) list" where
  "scanned_files root exts allowlisted dirs =
     filter (\<lambda>f. \<not> allowlisted (fst f)) (concat (map (walk_dir root exts) dirs))"

definition scan_files :: "(jstr \<Rightarrow> nat \<Rightarrow> jstr \<Rightarrow> violation list) \<Rightarrow> (jstr \<times> jstr) list \<Rightarrow> violation list" where
  "scan_files f files = concat (map (scan_lines f) files)"

text \<open>The files a determinism scan reads; one that cannot be read is skipped.\<close>

definition fixed_files :: "fs_entry \<Rightarrow> string list \<Rightarrow> (jstr \<times> jstr) list" where
  "fixed_files root paths = concat (map (\<lambda>p. case fs_at root (split_on 0x2f (js p)) of
       Some (FS_file content) \<Rightarrow> [(js p, content)] | _ \<Rightarrow> []) paths)"

definition NONDETERMINISTIC_TOKENS :: "string list" where
  "NONDETERMINISTIC_TOKENS = [''Date.now('', ''Math.random('', ''new Date('']"

definition is_test_file :: "jstr \<Rightarrow> bool" where
  "is_test_file rel \<longleftrightarrow> ends_with rel (js ''.test.ts'') \<or> ends_with rel (js ''.test.tsx'')"

definition never_allowlisted :: "jstr \<Rightarrow> bool" where
  "never_allowlisted rel = False"

section \<open>Assets, telemetry, storage\<close>

definition ASSET_PATTERNS :: "string list" where
  "ASSET_PATTERNS = [
    ''https://fonts.'', ''http://fonts.'', ''fonts.googleapis.com'', ''fonts.gstatic.com'',
    ''//fonts.'', ''cdn.'', ''cdnjs.cloudflare.com'', ''cdn.jsdelivr.net'', ''jsdelivr.net'',
    ''unpkg.com'', ''ajax.googleapis.com'', ''gstatic.com'', ''googletagmanager.com'',
    ''google-analytics.com'', ''<script src=\"http'', ''<script src='' @ [CHR 0x27] @ ''http'',
    ''<script src=\"//'', ''<script src='' @ [CHR 0x27] @ ''//'', ''<img src=\"http'',
    ''<img src='' @ [CHR 0x27] @ ''http'', ''<img src=\"//'', ''<img src='' @ [CHR 0x27] @ ''//'',
    ''<source src=\"http'', ''<video src=\"http'', ''<audio src=\"http'', ''<iframe src=\"http'',
    ''url(http'', ''url('' @ [CHR 0x27] @ ''http'', ''url(\"http'', ''url(//'',
    ''url('' @ [CHR 0x27] @ ''//'', ''url(\"//'', ''@import url(http'', ''@import \"http'',
    ''@import '' @ [CHR 0x27] @ ''//'', ''rel=preconnect'', ''rel=\"preconnect\"'',
    ''rel='' @ [CHR 0x27] @ ''preconnect'' @ [CHR 0x27], ''rel=dns-prefetch'',
    ''rel=\"dns-prefetch\"'', ''rel='' @ [CHR 0x27] @ ''dns-prefetch'' @ [CHR 0x27],
    ''rel=\"prefetch\"'', ''rel='' @ [CHR 0x27] @ ''prefetch'' @ [CHR 0x27],
    ''<link rel=\"preload\" href=\"http'', ''<link rel=\"preload\" href=\"//'',
    ''<link rel=\"prefetch\" href=\"http'', ''<link rel=\"stylesheet\" href=\"http'',
    ''<link rel='' @ [CHR 0x27] @ ''stylesheet'' @ [CHR 0x27] @ '' href='' @ [CHR 0x27] @ ''http'',
    ''<link rel=\"stylesheet\" href=\"//'', ''rel=\"icon\" href=\"http'',
    ''rel=\"shortcut icon\" href=\"http'', ''property=\"og:image\" content=\"http'',
    ''name=\"twitter:image\" content=\"http'', ''new Image('', ''.src = \"http'',
    ''.src = '' @ [CHR 0x27] @ ''http'', ''.src=\"http'', ''.src='' @ [CHR 0x27] @ ''http'']"

definition check_external_assets :: "fs_entry \<Rightarrow> jstr list \<Rightarrow> violation list" where
  "check_external_assets root args =
     scan_files (token_hits ASSET_PATTERNS)
       (scanned_files root [''.ts'', ''.tsx'', ''.css'', ''.html'', ''.json'', ''.webmanifest''] never_allowlisted
          (scan_dirs args))"

definition TELEMETRY_NAMES :: "string list" where
  "TELEMETRY_NAMES = [
    ''google-analytics'', ''googletagmanager'', ''gtag('', ''\"gtag\"'', ''plausible'',
    ''posthog'', ''@sentry/'', ''\"sentry\"'', ''segment.com'', ''@segment/'', ''mixpanel'',
    ''amplitude'', ''@datadog/'', ''newrelic'', ''logrocket'', ''hotjar'', ''fullstory'']"

text \<open>The names are searched in the lower-case line.\<close>

definition check_telemetry :: "fs_entry \<Rightarrow> violation list" where
  "check_telemetry root =
     scan_files (\<lambda>path n line. token_hits TELEMETRY_NAMES path n (map ascii_lower line))
       (scanned_files root [''.ts'', ''.tsx'', ''.json'', ''.html'', ''.css'', ''.mjs''] never_allowlisted
          [js ''apps'', js ''packages''])"

definition STORAGE_TOKENS :: "string list" where
  "STORAGE_TOKENS = [
    ''localStorage'', ''window.localStorage'', ''sessionStorage'', ''window.sessionStorage'',
    ''indexedDB'', ''window.indexedDB'', ''caches.open'', ''CacheStorage'',
    ''navigator.serviceWorker'', ''navigator.sendBeacon'', ''document.cookie'', ''openDatabase'',
    ''serviceWorker.register'', ''showSaveFilePicker'', ''showOpenFilePicker'',
    ''showDirectoryPicker'', ''FileSystemWritableFileStream'', ''storage.persist('',
    ''fs.writeFile'', ''fs.appendFile'', ''promises.writeFile'', ''writeFileSync'',
    ''appendFileSync'', ''Deno.writeFile'', ''Bun.write'', ''sqlite'', ''@tauri-apps/plugin-fs'',
    ''@tauri-apps/api/fs'']"

text \<open>This guard takes every word of the command line as a directory.\<close>

definition check_forbidden_storage :: "fs_entry \<Rightarrow> jstr list \<Rightarrow> violation list" where
  "check_forbidden_storage root args =
     scan_files (token_hits STORAGE_TOKENS)
       (scanned_files root [''.ts'', ''.tsx'', ''.html'', ''.mjs''] is_test_file
          (if args \<noteq> [] then args else [js ''apps'', js ''packages'']))"

section \<open>Network\<close>

definition NETWORK_TOKENS :: "string list" where
  "NETWORK_TOKENS = [
    ''fetch('', ''window.fetch'', ''globalThis.fetch'', ''new XMLHttpRequest'', ''new WebSocket'',
    ''new EventSource'', ''new RTCPeerConnection'', ''RTCDataChannel'', ''navigator.sendBeacon'',
    ''importScripts('', ''serviceWorker.register'', ''createElement(\"script\")'',
    ''createElement('' @ [CHR 0x27] @ ''script'' @ [CHR 0x27] @ '')'', ''http://'',
    ''@tauri-apps/plugin-http'', ''require(\"http\")'', ''require(\"https\")'',
    ''require(\"net\")'', ''require(\"dgram\")'', ''require(\"tls\")'', ''from \"node:http\"'',
    ''from \"node:https\"'', ''from \"node:net\"'', ''from \"node:dgram\"'', ''from \"node:tls\"'',
    ''from \"axios\"'', ''from \"got\"'', ''from \"ky\"'', ''from \"superagent\"'',
    ''from \"request\"'', ''from \"node-fetch\"'', ''from \"undici\"'', ''ws://'', ''wss://'']"

definition host_hits :: "string list \<Rightarrow> jstr \<Rightarrow> nat \<Rightarrow> jstr \<Rightarrow> violation list" where
  "host_hits allowlist path n line =
     map (V_host path n) (filter (\<lambda>h. \<not> hostAllowed h allowlist) (extractRemoteHosts line))"

definition arg_after :: "string \<Rightarrow> jstr list \<Rightarrow> jstr option" where
  "arg_after flag args = (case dropWhile (\<lambda>a. a \<noteq> js flag) args of
       _ # a # _ \<Rightarrow> if a = [] then None else Some a | _ \<Rightarrow> None)"

definition network_dirs :: "jstr list \<Rightarrow> jstr list" where
  "network_dirs args =
     (case arg_after ''--build'' args of
        Some d \<Rightarrow> [d]
      | None \<Rightarrow> if js ''--all'' \<in> set args then [js ''apps'', js ''packages'', js ''apps/web/dist'']
               else scan_dirs args)"

definition check_forbidden_network :: "fs_entry \<Rightarrow> jstr list \<Rightarrow> violation list" where
  "check_forbidden_network root args =
     scan_files (\<lambda>path n line. token_hits NETWORK_TOKENS path n line @ host_hits NAV_ALLOWED_HOSTS path n line)
       (scanned_files root [''.ts'', ''.tsx'', ''.html'', ''.mjs'', ''.css''] is_test_file (network_dirs args))"

definition BUILD_ASSET_PATTERNS :: "string list" where
  "BUILD_ASSET_PATTERNS = [
    ''src=\"http'', ''src='' @ [CHR 0x27] @ ''http'', ''href=\"http'',
    ''href='' @ [CHR 0x27] @ ''http'', ''url(http'', ''url('' @ [CHR 0x27] @ ''http'',
    ''url(\"http'', ''@import'', ''//fonts.'', ''fonts.googleapis.com'', ''fonts.gstatic.com'',
    ''rel=preconnect'', ''rel=\"preconnect\"'', ''dns-prefetch'']"

definition BUILD_FORBIDDEN_HOSTS :: "string list" where
  "BUILD_FORBIDDEN_HOSTS = [
    ''googletagmanager'', ''google-analytics'', ''plausible.io'', ''posthog.com'', ''sentry.io'',
    ''ingest.sentry'', ''datadoghq'', ''mixpanel.com'', ''segment.io'', ''segment.com'',
    ''amplitude.com'', ''api.openai.com'', ''api.anthropic.com'']"

definition is_markup :: "jstr \<Rightarrow> bool" where
  "is_markup path \<longleftrightarrow> ends_with path (js ''.html'') \<or> ends_with path (js ''.css'')"

definition check_build_zero_egress :: "fs_entry \<Rightarrow> jstr list \<Rightarrow> violation list" where
  "check_build_zero_egress root args =
     scan_files (\<lambda>path n line.
         (if is_markup path then token_hits BUILD_ASSET_PATTERNS path n line else [])
         @ token_hits BUILD_FORBIDDEN_HOSTS path n (map ascii_lower line)
         @ host_hits BUILD_ALLOWED_HOSTS path n line)
       (scanned_files root [''.html'', ''.css'', ''.js'', ''.map'', ''.json'', ''.webmanifest''] never_allowlisted
          (if args \<noteq> [] then args else [js ''apps/web/dist'']))"

section \<open>Metadata and notifications\<close>

definition METADATA_TOKENS :: "string list" where
  "METADATA_TOKENS = [
    ''new Notification('', ''Notification.requestPermission'', ''navigator.setAppBadge'',
    ''navigator.clearAppBadge'', ''navigator.setClientBadge'', ''document.title ='',
    ''document.title='', ''emitReadReceipt'', ''sendReadReceipt'', ''emitTypingIndicator'',
    ''sendTypingIndicator'', ''broadcastPresence'', ''publishPresence'', ''emitPresence'',
    ''setOnlineStatus'', ''updateLastSeen'', ''fetchLinkPreview'', ''fetchOpenGraph'',
    ''loadOpenGraph'', ''fetchLinkMetadata'', ''unfurl('', ''fetchFavicon'', ''fetchRemoteAvatar'',
    ''fetchAvatar'', ''loadRemoteImage'']"

definition metadata_allowlisted :: "jstr \<Rightarrow> bool" where
  "metadata_allowlisted rel \<longleftrightarrow> includes_js rel (js ''packages/privacy/src/metadata'')
     \<or> is_test_file rel \<or> includes_js rel (js ''/fixtures/'')"

definition check_metadata_bypass :: "fs_entry \<Rightarrow> jstr list \<Rightarrow> violation list" where
  "check_metadata_bypass root args =
     scan_files (token_hits METADATA_TOKENS)
       (scanned_files root [''.ts'', ''.tsx'', ''.html'', ''.mjs''] metadata_allowlisted (scan_dirs args))"

definition NOTIFICATION_TOKENS :: "string list" where
  "NOTIFICATION_TOKENS = [
    ''new Notification('', ''Notification.requestPermission'', ''Notification.permission'',
    ''self.registration.showNotification'', ''.showNotification('', ''showNotification('',
    ''PushManager'', ''pushManager'', ''PushSubscription'', ''navigator.serviceWorker'',
    ''serviceWorker.register'', ''navigator.setAppBadge'', ''navigator.clearAppBadge'',
    ''setAppBadge('', ''clearAppBadge('', ''@tauri-apps/plugin-notification'',
    ''firebase/messaging'', ''@react-native-firebase/messaging'', ''onesignal'', ''OneSignal'',
    ''web-push'', ''pusher-js'', ''from \"pusher\"'']"

definition notification_allowlisted :: "jstr \<Rightarrow> bool" where
  "notification_allowlisted rel \<longleftrightarrow> includes_js rel (js ''packages/privacy/src/notification'') \<or> is_test_file rel"

definition check_notification_bypass :: "fs_entry \<Rightarrow> jstr list \<Rightarrow> violation list" where
  "check_notification_bypass root args =
     scan_files (token_hits NOTIFICATION_TOKENS)
       (scanned_files root [''.ts'', ''.tsx'', ''.html'', ''.mjs''] notification_allowlisted (scan_dirs args))"

section \<open>Rooms\<close>

definition ROOMOS_TOKENS :: "string list" where
  "ROOMOS_TOKENS = [
    ''.objects.push('', ''.members.push('', ''.objects.splice('', ''.members.splice('',
    ''console.log(room'', ''console.log(event'', ''console.error(room'', ''console.error(event'',
    ''endpointDefenseActive: true'', ''screenShieldActive: true'',
    ''endpointDefenseIntegration: \"active\"'', ''from \"yjs\"'',
    ''from '' @ [CHR 0x27] @ ''yjs'' @ [CHR 0x27], ''from \"automerge\"'',
    ''from '' @ [CHR 0x27] @ ''@automerge'', ''from \"@automerge'', ''from \"loro-crdt\"'',
    ''from '' @ [CHR 0x27] @ ''loro-crdt'' @ [CHR 0x27], ''from \"loro'', ''JSON.stringify(event'',
    ''JSON.stringify(room'']"

definition ROOMOS_DETERMINISTIC :: "string list" where
  "ROOMOS_DETERMINISTIC = [
    ''packages/rooms/src/room-reducer.ts'', ''packages/rooms/src/room-log.ts'',
    ''packages/rooms/src/room-lifecycle.ts'']"

definition ROOM_EXTS :: "string list" where
  "ROOM_EXTS = [''.ts'', ''.tsx'', ''.mjs'']"

definition check_roomos_bypass :: "fs_entry \<Rightarrow> jstr list \<Rightarrow> violation list" where
  "check_roomos_bypass root args =
     scan_files (token_hits ROOMOS_TOKENS) (scanned_files root ROOM_EXTS is_test_file (scan_dirs args))
     @ scan_files (token_hits NONDETERMINISTIC_TOKENS) (fixed_files root ROOMOS_DETERMINISTIC)"

definition OBJECT_TOKENS :: "string list" where
  "OBJECT_TOKENS = [
    ''.objects.push('', ''.objects.splice('', ''.objects.pop('', ''.objects.shift('',
    ''object.patch'', ''object.update_any'', ''set_property'', ''merge_payload'', ''json_patch'',
    ''jsonpatch'', ''fast-json-patch'', ''rfc6902'', ''__proto__'', ''[\"constructor\"]'',
    ''[\"prototype\"]'', ''JSON.stringify(command'', ''JSON.stringify(object'',
    ''JSON.stringify(mutation'', ''dangerouslySetInnerHTML'', ''.innerHTML'', ''marked('',
    ''from \"marked\"'', ''from \"markdown-it\"'', ''from \"dompurify\"'', ''createLinkPreview'',
    ''fetchPreview'', ''readFileSync('', ''fs.readFile'', ''from \"node:fs\"'',
    ''URL.createObjectURL'', ''fetch('', ''new WebSocket('', ''new RTCPeerConnection('',
    ''new Notification('', ''from \"yjs\"'', ''from \"@automerge'', ''from \"loro'',
    ''from \"@freelayer/crypto\"'', ''node:crypto'', ''from \"@freelayer/ai\"'', ''iohook'',
    ''robotjs'', ''endpointDefenseActive: true'', ''screenShieldActive: true'',
    ''endpointDefenseState: \"active\"'']"

definition OBJECT_DETERMINISTIC :: "string list" where
  "OBJECT_DETERMINISTIC = [
    ''packages/rooms/src/objects/object-reducer.ts'', ''packages/rooms/src/objects/object-log.ts'',
    ''packages/rooms/src/objects/object-lifecycle.ts'',
    ''packages/rooms/src/objects/object-redaction.ts'']"

definition object_allowlisted :: "jstr \<Rightarrow> bool" where
  "object_allowlisted rel \<longleftrightarrow> is_test_file rel \<or> ends_with rel (js ''objects/object-validation.ts'')
     \<or> ends_with rel (js ''objects/object-commands.ts'')
     \<or> ends_with rel (js ''check-no-room-object-bypass.mjs'')"

definition check_object_bypass :: "fs_entry \<Rightarrow> jstr list \<Rightarrow> violation list" where
  "check_object_bypass root args =
     scan_files (\<lambda>path n line. token_hits OBJECT_TOKENS path n line
         @ rule_hit (rx_test PROJECTION_ASSIGN_RE line) ''projection assignment'' path n)
       (scanned_files root ROOM_EXTS object_allowlisted (scan_dirs args))
     @ scan_files (token_hits NONDETERMINISTIC_TOKENS) (fixed_files root OBJECT_DETERMINISTIC)"

definition QUERY_TOKENS :: "string list" where
  "QUERY_TOKENS = [
    ''queryHistory.push'', ''queryHistory['', ''searchHistory'', ''recentSearches'',
    ''resultCache.set'', ''resultCache['', ''searchIndex.add'', ''buildSearchIndex'',
    ''persistIndex'', ''from \"fuse.js\"'', ''from \"lunr\"'', ''from \"minisearch\"'',
    ''from \"flexsearch\"'', ''from \"elasticlunr\"'', ''new RegExp(term'', ''new RegExp(query'',
    ''new RegExp(input'', ''JSON.stringify(query'', ''JSON.stringify(request'',
    ''JSON.stringify(result'', ''JSON.stringify(cursor'', ''console.log(term'',
    ''console.log(query'', ''console.error(query'', ''localStorage'', ''sessionStorage'',
    ''indexedDB'', ''.innerHTML'', ''dangerouslySetInnerHTML'', ''createLinkPreview'',
    ''readFileSync('', ''from \"node:fs\"'', ''fetch('', ''new WebSocket('', ''new Notification('',
    ''from \"@freelayer/ai\"'', ''node:crypto'', ''iohook'', ''robotjs'',
    ''captureProtected: true'', ''screenShieldActive: true'', ''endpointIntegration: \"active\"'']"

definition QUERY_DETERMINISTIC :: "string list" where
  "QUERY_DETERMINISTIC = [
    ''packages/rooms/src/query/query-executor.ts'', ''packages/rooms/src/query/query-search.ts'',
    ''packages/rooms/src/query/query-redaction.ts'', ''packages/rooms/src/query/query-policy.ts'']"

definition query_allowlisted :: "jstr \<Rightarrow> bool" where
  "query_allowlisted rel \<longleftrightarrow> is_test_file rel \<or> ends_with rel (js ''check-no-room-query-bypass.mjs'')"

definition in_query_package :: "jstr \<Rightarrow> bool" where
  "in_query_package rel \<longleftrightarrow> includes_js rel (js ''packages/rooms/src/query/'')
     \<or> includes_js rel (js ''packages/rooms/src/objects/'')"

definition check_query_bypass :: "fs_entry \<Rightarrow> jstr list \<Rightarrow> violation list" where
  "check_query_bypass root args =
     scan_files (\<lambda>path n line. token_hits QUERY_TOKENS path n line
         @ rule_hit (\<not> in_query_package path \<and> rx_test RAW_TRAVERSAL_RE line) ''raw traversal'' path n)
       (scanned_files root ROOM_EXTS query_allowlisted (scan_dirs args))
     @ scan_files (token_hits NONDETERMINISTIC_TOKENS) (fixed_files root QUERY_DETERMINISTIC)"

definition MEMBERSHIP_TOKENS :: "string list" where
  "MEMBERSHIP_TOKENS = [
    ''.membershipRecords.push('', ''.membershipRecords.splice('', ''.records.push('',
    ''.records.splice('', ''capabilities: [\"*\"]'', ''capability: \"*\"'',
    ''\"room.policy.loosen\"'', ''delegateCapability'', ''exportCapability'',
    ''JSON.stringify(descriptor'', ''JSON.stringify(capability'', ''serializeCapability'',
    ''persistCapability'', ''capabilityCache'', ''from \"jsonwebtoken\"'', ''from \"jose\"'',
    ''from \"macaroons.js\"'', ''from \"ucans\"'', ''from \"@ucans'', ''from \"did-jwt\"'',
    ''from \"@openfga'', ''from \"@authzed'', ''spicedb'', ''inviteUrl'', ''inviteCode'',
    ''inviteLink'', ''lastSeen'', ''onlineStatus'', ''presence:'', ''contactBook'',
    ''phoneNumber'', ''emailAddress'', ''fetch('', ''new WebSocket('', ''new Notification('',
    ''node:crypto'', ''from \"@freelayer/crypto\"'', ''from \"@freelayer/ai\"'', ''iohook'',
    ''robotjs'', ''endpointSafe: true'', ''deviceTrusted: true'',
    ''endpointIntegration: \"active\"'']"

definition membership_allowlisted :: "jstr \<Rightarrow> bool" where
  "membership_allowlisted rel \<longleftrightarrow> is_test_file rel \<or> ends_with rel (js ''packages/privacy/src/policyMatrix.ts'')
     \<or> ends_with rel (js ''check-no-room-membership-bypass.mjs'')"

definition check_membership_bypass :: "fs_entry \<Rightarrow> jstr list \<Rightarrow> violation list" where
  "check_membership_bypass root args =
     scan_files (\<lambda>path n line. token_hits MEMBERSHIP_TOKENS path n line
         @ rule_hit (\<not> includes_js path (js ''packages/rooms/src/membership/'') \<and> rx_test OWNER_AUTHZ_RE line)
             ''role authorization'' path n
         @ rule_hit (rx_test AUTHORITY_FIELD_RE line) ''authority field'' path n)
       (scanned_files root ROOM_EXTS membership_allowlisted (scan_dirs args))"

definition AUTHORIZATION_TOKENS :: "string list" where
  "AUTHORIZATION_TOKENS = [
    ''authorizationCache'', ''authAllowCache'', ''capabilityCache'', ''permissionResultCache'',
    ''rolePermissionCache'', ''globalAllowDecision'', ''currentMemberAuthorization'',
    ''cachedAuthorizationDecision'', ''lastAllowDecision'', ''memoizeAuthorization'',
    ''serializeCapability'', ''persistCapability'', ''serializePreparedAuthorization'',
    ''persistPreparedAuthorization'', ''JSON.stringify(prepared'', ''JSON.stringify(capability'',
    ''JSON.stringify(descriptor'', ''localStorage'', ''sessionStorage'', ''indexedDB'',
    ''callerRevision'', ''endpointGrantsAccess'', ''endpointRestoresAccess'',
    ''deviceTrustedGrants'', ''endpointSafe: true'', ''capability: \"*\"'',
    ''capabilities: [\"*\"]'', ''autoPromoteOwner'', ''promoteToOwner('',
    ''distributedRevocation: true'', ''signedRevocation: true'', ''cryptographicRevocation: true'',
    ''=== \"suspended_local\" ? true'', ''treatSuspendedAsActive'']"

definition authorization_allowlisted :: "jstr \<Rightarrow> bool" where
  "authorization_allowlisted rel \<longleftrightarrow> is_test_file rel \<or> ends_with rel (js ''check-no-room-authorization-bypass.mjs'')"

definition in_authorization_package :: "jstr \<Rightarrow> bool" where
  "in_authorization_package rel \<longleftrightarrow> includes_js rel (js ''packages/rooms/src/membership/'')
     \<or> includes_js rel (js ''packages/rooms/src/authorization/'')"

definition check_authorization_bypass :: "fs_entry \<Rightarrow> jstr list \<Rightarrow> violation list" where
  "check_authorization_bypass root args =
     scan_files (\<lambda>path n line. token_hits AUTHORIZATION_TOKENS path n line
         @ rule_hit (\<not> in_authorization_package path \<and> rx_test ROLE_AUTHZ_RE line) ''role authorization'' path n)
       (scanned_files root ROOM_EXTS authorization_allowlisted (scan_dirs args))"

definition POSTURE_TOKENS :: "string list" where
  "POSTURE_TOKENS = [
    ''providerIntegrated: true'', ''trustedForElevation: true'',
    ''effectivePosture: \"hardened\"'', ''effectivePosture: \"high_assurance\"'',
    ''effectivePosture: \"managed_bunker\"'', ''effectivePosture: \"basic\"'', ''elevatePosture'',
    ''elevateDevicePosture'', ''postureAsIdentity'', ''postureGrantsMembership'',
    ''postureGrantsAuthority'', ''postureAuthorizes'', ''endpointGrantsAccess'',
    ''endpointRestoresAccess'', ''activeProtectionClaim: true'', ''screenShieldActive: true'',
    ''screenShieldEnabled: true'', ''.policyDocument.metadata.'', ''loosenRoomPolicy'',
    ''lowerMinimumDevicePosture'', ''lowerRoomSensitivity'', ''weakenProtectedContent'',
    ''room.policy.loosen'', ''enableForbiddenFeature'', ''persistDevicePosture'',
    ''devicePostureCache'', ''postureHistory'', ''reportDevicePosture'',
    ''\"react-native-device-info\"'', ''PlayIntegrity'', ''play-integrity'', ''SafetyNet'',
    ''DevicePolicyManager'', ''DeviceOwner'', ''deviceAttestation'', ''hardwareAttestation'',
    ''antiSpyware'', ''spywareScanner'', ''stalkerware'', ''grapheneOsManager'', ''customRom'']"

definition posture_allowlisted :: "jstr \<Rightarrow> bool" where
  "posture_allowlisted rel \<longleftrightarrow> is_test_file rel
     \<or> ends_with rel (js ''check-no-device-posture-or-governance-bypass.mjs'')
     \<or> ends_with rel (js ''packages/privacy/src/policyMatrix.ts'')
     \<or> ends_with rel (js ''policy-composition/device-posture.ts'')
     \<or> ends_with rel (js ''policy-composition/protected-content.ts'')"

text \<open>\<open>lines.join("\n")\<close>.\<close>

fun join_lines :: "jstr list \<Rightarrow> jstr" where
  "join_lines [] = []"
| "join_lines [l] = l"
| "join_lines (l # k # ls) = l @ 0x0a # join_lines (k # ls)"

text \<open>One file: its lines, then the rule that may span lines.\<close>

definition posture_file :: "jstr \<times> jstr \<Rightarrow> violation list" where
  "posture_file file =
     scan_lines (token_hits POSTURE_TOKENS) file
     @ (if \<not> includes_js (fst file) (js ''packages/rooms/src/policy-composition/'')
           \<and> rx_test TRUSTED_POSTURE_RE (join_lines (fileLines (snd file)))
        then [V_file (fst file) ''trusted posture''] else [])"

definition check_posture_bypass :: "fs_entry \<Rightarrow> jstr list \<Rightarrow> violation list" where
  "check_posture_bypass root args =
     concat (map posture_file (scanned_files root ROOM_EXTS posture_allowlisted (scan_dirs args)))"

section \<open>Import boundaries\<close>

definition BOUNDARY_RULES :: "(string \<times> string list) list" where
  "BOUNDARY_RULES = [
     (''apps/web'', [''ui'', ''sdk'', ''core'', ''privacy'']),
     (''apps/desktop'', [''ui'', ''sdk'', ''core'', ''privacy'']),
     (''apps/docs'', []),
     (''apps/relay'', []),
     (''packages/core'', [''privacy'', ''security'', ''storage'', ''transports'', ''crypto'', ''protocol'',
        ''capsules'', ''rooms'', ''ai'']),
     (''packages/sdk'', [''core'', ''privacy'', ''security'']),
     (''packages/ui'', []),
     (''packages/privacy'', [''security'']),
     (''packages/security'', []),
     (''packages/crypto'', []),
     (''packages/protocol'', []),
     (''packages/storage'', [''privacy'', ''security'']),
     (''packages/transports'', [''privacy'', ''security'']),
     (''packages/ai'', [''privacy'', ''security'']),
     (''packages/capsules'', [''protocol'', ''privacy'', ''security'']),
     (''packages/rooms'', [''privacy'', ''security'', ''protocol'', ''capsules''])]"

text \<open>\<open>unit.split("/")[1]\<close>.\<close>

definition unit_name :: "string \<Rightarrow> jstr" where
  "unit_name unit = split_on 0x2f (js unit) ! 1"

definition boundary_hits :: "string \<Rightarrow> string list \<Rightarrow> jstr \<Rightarrow> nat \<Rightarrow> jstr \<Rightarrow> violation list" where
  "boundary_hits unit allowed path n line =
     map (V_import path n (js unit))
       (filter (\<lambda>p. p \<noteq> unit_name unit \<and> p \<notin> set (map js allowed)) (package_imports line))"

definition check_boundaries :: "fs_entry \<Rightarrow> violation list" where
  "check_boundaries root = concat (map (\<lambda>(unit, allowed).
       scan_files (boundary_hits unit allowed) (walk_dir root [''.ts'', ''.tsx''] (js unit @ js ''/src'')))
     BOUNDARY_RULES)"

end
