(* ===== verification/Repo_Guards.thy ===== *)
theory Repo_Guards
  imports Repo_Scan
begin

text \<open>
  What a passing guard says about the repository: which files are read, that a guard is silent
  exactly when every line it reads is clean, and what \<open>audit:privacy\<close> of \<open>package.json\<close>
  establishes for a source file.
\<close>

section \<open>Which files are read\<close>

text \<open>A file is reached by the names on its way; none of the directories is a skipped one.\<close>

inductive reaches :: "fs_entry \<Rightarrow> jstr list \<Rightarrow> jstr \<Rightarrow> bool" where
  reaches_file: "(n, FS_file t) \<in> set es \<Longrightarrow> reaches (FS_dir es) [n] t"
| reaches_dir: "(n, FS_dir ds) \<in> set es \<Longrightarrow> \<not> is_skipped n \<Longrightarrow> reaches (FS_dir ds) ns t
    \<Longrightarrow> reaches (FS_dir es) (n # ns) t"

inductive_simps reaches_simps [simp]:
  "reaches (FS_file c) ns t" "reaches FS_other ns t" "reaches (FS_dir es) [] t"

inductive_cases reaches_dirE: "reaches (FS_dir es) ns t"

definition path_of :: "jstr \<Rightarrow> jstr list \<Rightarrow> jstr" where
  "path_of path ns = foldl path_join path ns"

lemma path_of_simps [simp]: "path_of path [] = path" "path_of path (n # ns) = path_of (path_join path n) ns"
  by (simp_all add: path_of_def)

lemma reaches_nonempty: "reaches e ns t \<Longrightarrow> ns \<noteq> []"
  by (induction rule: reaches.induct) auto

lemma walk_mem: "(p, t) \<in> set (walkFiles exts path (FS_dir es)) \<longleftrightarrow>
    (\<exists>n. (n, FS_file t) \<in> set es \<and> has_extension exts n \<and> p = path_join path n)
    \<or> (\<exists>n ds. (n, FS_dir ds) \<in> set es \<and> \<not> is_skipped n
        \<and> (p, t) \<in> set (walkFiles exts (path_join path n) (FS_dir ds)))" (is "?l \<longleftrightarrow> ?r")
proof
  assume ?l
  then obtain n e where "(n, e) \<in> set es"
    "(p, t) \<in> set (case e of FS_dir ds \<Rightarrow> (if is_skipped n then [] else walkFiles exts (path_join path n) e)
      | FS_file c \<Rightarrow> (if has_extension exts n then [(path_join path n, c)] else []) | FS_other \<Rightarrow> [])"
    by auto
  then show ?r by (cases e) (auto simp del: walkFiles.simps split: if_splits)
next
  assume ?r
  then obtain n e where "(n, e) \<in> set es"
    "(p, t) \<in> set (case e of FS_dir ds \<Rightarrow> (if is_skipped n then [] else walkFiles exts (path_join path n) e)
      | FS_file c \<Rightarrow> (if has_extension exts n then [(path_join path n, c)] else []) | FS_other \<Rightarrow> [])"
    by (elim disjE exE conjE) (auto simp del: walkFiles.simps)
  then show ?l unfolding walkFiles.simps set_concat set_map by blast
qed

lemma walk_iff:
  "(p, t) \<in> set (walkFiles exts path e) \<longleftrightarrow>
     (\<exists>ns. reaches e ns t \<and> has_extension exts (last ns) \<and> p = path_of path ns)"
proof (induction exts path e rule: walkFiles.induct)
  case (1 exts path es)
  have dirs: "(p, t) \<in> set (walkFiles exts (path_join path n) (FS_dir ds)) \<longleftrightarrow>
      (\<exists>ns. reaches (FS_dir ds) ns t \<and> has_extension exts (last ns) \<and> p = path_of (path_join path n) ns)"
    if "(n, FS_dir ds) \<in> set es" "\<not> is_skipped n" for n ds
    using 1 [OF that(1) refl refl that(2)] .
  show ?case
  proof
    assume "(p, t) \<in> set (walkFiles exts path (FS_dir es))"
    then consider n where "(n, FS_file t) \<in> set es" "has_extension exts n" "p = path_join path n"
      | n ds ns where "(n, FS_dir ds) \<in> set es" "\<not> is_skipped n" "reaches (FS_dir ds) ns t"
          "has_extension exts (last ns)" "p = path_of (path_join path n) ns"
      using walk_mem [of p t exts path es] dirs by blast
    then show "\<exists>ns. reaches (FS_dir es) ns t \<and> has_extension exts (last ns) \<and> p = path_of path ns"
    proof cases
      case (1 n)
      then show ?thesis using reaches_file by (intro exI [of _ "[n]"]) auto
    next
      case (2 n ds ns)
      then show ?thesis using reaches_dir reaches_nonempty by (intro exI [of _ "n # ns"]) auto
    qed
  next
    assume "\<exists>ns. reaches (FS_dir es) ns t \<and> has_extension exts (last ns) \<and> p = path_of path ns"
    then obtain ns where ns: "reaches (FS_dir es) ns t" "has_extension exts (last ns)" "p = path_of path ns"
      by blast
    from ns(1) have "(\<exists>n. (n, FS_file t) \<in> set es \<and> has_extension exts n \<and> p = path_join path n)
        \<or> (\<exists>n ds. (n, FS_dir ds) \<in> set es \<and> \<not> is_skipped n
            \<and> (p, t) \<in> set (walkFiles exts (path_join path n) (FS_dir ds)))"
    proof (rule reaches_dirE)
      fix n ds ms assume d: "ns = n # ms" "(n, FS_dir ds) \<in> set es" "\<not> is_skipped n" "reaches (FS_dir ds) ms t"
      then have "has_extension exts (last ms)" "p = path_of (path_join path n) ms"
        using ns reaches_nonempty [OF d(4)] by auto
      then show "(\<exists>n. (n, FS_file t) \<in> set es \<and> has_extension exts n \<and> p = path_join path n)
        \<or> (\<exists>n ds. (n, FS_dir ds) \<in> set es \<and> \<not> is_skipped n
            \<and> (p, t) \<in> set (walkFiles exts (path_join path n) (FS_dir ds)))"
        using dirs [OF d(2,3)] d by blast
    qed (use ns in auto)
    then show "(p, t) \<in> set (walkFiles exts path (FS_dir es))" by (rule walk_mem [THEN iffD2])
  qed
qed simp_all


section \<open>When a guard is silent\<close>

definition no_tokens :: "string list \<Rightarrow> jstr \<Rightarrow> bool" where
  "no_tokens tokens line \<longleftrightarrow> list_all (\<lambda>t. \<not> includes_js line (js t)) tokens"

definition hosts_ok :: "string list \<Rightarrow> jstr \<Rightarrow> bool" where
  "hosts_ok allowlist line \<longleftrightarrow> list_all (\<lambda>h. hostAllowed h allowlist) (extractRemoteHosts line)"

lemma hits_Nil:
  "token_hits tokens path n line = [] \<longleftrightarrow> no_tokens tokens line"
  "host_hits allowlist path n line = [] \<longleftrightarrow> hosts_ok allowlist line"
  "rule_hit c rule path n = [] \<longleftrightarrow> \<not> c"
  by (auto simp: token_hits_def no_tokens_def host_hits_def hosts_ok_def rule_hit_def filter_empty_conv list_all_iff)

lemma scan_lines_Nil:
  assumes "\<And>n line. f (fst file) n line = [] \<longleftrightarrow> ok line"
  shows "scan_lines f file = [] \<longleftrightarrow> list_all ok (fileLines (snd file))"
proof -
  have "concat (map (\<lambda>(n, line). f (fst file) n line) (enumerate k ls)) = [] \<longleftrightarrow> list_all ok ls" for k ls
    using assms by (induction ls arbitrary: k) auto
  then show ?thesis unfolding scan_lines_def .
qed

lemma scan_files_Nil:
  assumes "\<And>path n line. f path n line = [] \<longleftrightarrow> ok path line"
  shows "scan_files f files = [] \<longleftrightarrow> list_all (\<lambda>(path, t). list_all (ok path) (fileLines t)) files"
  using scan_lines_Nil [of f _ "ok _", OF assms]
  by (induction files) (auto simp: scan_files_def)

text \<open>The contract of a guard: it reads some files, each with a condition on its lines, and is
  silent exactly when every line of every file it reads meets its condition.\<close>

locale line_guard =
  fixes check :: "fs_entry \<Rightarrow> 'a \<Rightarrow> violation list"
    and reads :: "fs_entry \<Rightarrow> 'a \<Rightarrow> (jstr \<times> jstr \<times> (jstr \<Rightarrow> bool)) list"
  assumes silent: "check root args = [] \<longleftrightarrow> list_all (\<lambda>(path, t, ok). list_all ok (fileLines t)) (reads root args)"
begin

lemma clean_line:
  "check root args = [] \<Longrightarrow> (path, t, ok) \<in> set (reads root args) \<Longrightarrow> line \<in> set (fileLines t) \<Longrightarrow> ok line"
  using silent by (fastforce simp: list_all_iff)

lemma alarm:
  "(path, t, ok) \<in> set (reads root args) \<Longrightarrow> line \<in> set (fileLines t) \<Longrightarrow> \<not> ok line \<Longrightarrow> check root args \<noteq> []"
  using clean_line by blast

end

definition with_rule :: "(jstr \<Rightarrow> jstr \<Rightarrow> bool) \<Rightarrow> (jstr \<times> jstr) list \<Rightarrow> (jstr \<times> jstr \<times> (jstr \<Rightarrow> bool)) list" where
  "with_rule ok files = map (\<lambda>(path, t). (path, t, ok path)) files"

lemma with_rule_all [simp]:
  "list_all (\<lambda>(path, t, ok'). list_all ok' (fileLines t)) (with_rule ok files)
     = list_all (\<lambda>(path, t). list_all (ok path) (fileLines t)) files"
  by (auto simp: with_rule_def list_all_iff)

lemma with_rule_mem: "(path, t) \<in> set files \<Longrightarrow> (path, t, ok path) \<in> set (with_rule ok files)"
  by (force simp: with_rule_def)

lemmas guard_silent = scan_files_Nil hits_Nil

interpretation assets: line_guard check_external_assets
  "\<lambda>root args. with_rule (\<lambda>path. no_tokens ASSET_PATTERNS)
     (scanned_files root [''.ts'', ''.tsx'', ''.css'', ''.html'', ''.json'', ''.webmanifest''] never_allowlisted
        (scan_dirs args))"
  by unfold_locales (simp add: check_external_assets_def scan_files_Nil [where ok = "\<lambda>path. no_tokens ASSET_PATTERNS"] hits_Nil)

interpretation telemetry: line_guard "\<lambda>root (args :: unit). check_telemetry root"
  "\<lambda>root args. with_rule (\<lambda>path line. no_tokens TELEMETRY_NAMES (map ascii_lower line))
     (scanned_files root [''.ts'', ''.tsx'', ''.json'', ''.html'', ''.css'', ''.mjs''] never_allowlisted
        [js ''apps'', js ''packages''])"
  by unfold_locales (simp add: check_telemetry_def
      scan_files_Nil [where ok = "\<lambda>path line. no_tokens TELEMETRY_NAMES (map ascii_lower line)"] hits_Nil)

interpretation storage_tokens: line_guard check_forbidden_storage
  "\<lambda>root args. with_rule (\<lambda>path. no_tokens STORAGE_TOKENS)
     (scanned_files root [''.ts'', ''.tsx'', ''.html'', ''.mjs''] is_test_file
        (if args \<noteq> [] then args else [js ''apps'', js ''packages'']))"
  by unfold_locales (simp add: check_forbidden_storage_def
      scan_files_Nil [where ok = "\<lambda>path. no_tokens STORAGE_TOKENS"] hits_Nil)

interpretation network_tokens: line_guard check_forbidden_network
  "\<lambda>root args. with_rule (\<lambda>path line. no_tokens NETWORK_TOKENS line \<and> hosts_ok NAV_ALLOWED_HOSTS line)
     (scanned_files root [''.ts'', ''.tsx'', ''.html'', ''.mjs'', ''.css''] is_test_file (network_dirs args))"
  by unfold_locales (simp add: check_forbidden_network_def
      scan_files_Nil [where ok = "\<lambda>path line. no_tokens NETWORK_TOKENS line \<and> hosts_ok NAV_ALLOWED_HOSTS line"] hits_Nil)

interpretation build: line_guard check_build_zero_egress
  "\<lambda>root args. with_rule (\<lambda>path line. (is_markup path \<le> no_tokens BUILD_ASSET_PATTERNS line)
       \<and> no_tokens BUILD_FORBIDDEN_HOSTS (map ascii_lower line) \<and> hosts_ok BUILD_ALLOWED_HOSTS line)
     (scanned_files root [''.html'', ''.css'', ''.js'', ''.map'', ''.json'', ''.webmanifest''] never_allowlisted
        (if args \<noteq> [] then args else [js ''apps/web/dist'']))"
  by unfold_locales (simp add: check_build_zero_egress_def
      scan_files_Nil [where ok = "\<lambda>path line. (is_markup path \<le> no_tokens BUILD_ASSET_PATTERNS line)
       \<and> no_tokens BUILD_FORBIDDEN_HOSTS (map ascii_lower line) \<and> hosts_ok BUILD_ALLOWED_HOSTS line"] hits_Nil)

interpretation metadata_tokens: line_guard check_metadata_bypass
  "\<lambda>root args. with_rule (\<lambda>path. no_tokens METADATA_TOKENS)
     (scanned_files root [''.ts'', ''.tsx'', ''.html'', ''.mjs''] metadata_allowlisted (scan_dirs args))"
  by unfold_locales (simp add: check_metadata_bypass_def
      scan_files_Nil [where ok = "\<lambda>path. no_tokens METADATA_TOKENS"] hits_Nil)

interpretation notification_tokens: line_guard check_notification_bypass
  "\<lambda>root args. with_rule (\<lambda>path. no_tokens NOTIFICATION_TOKENS)
     (scanned_files root [''.ts'', ''.tsx'', ''.html'', ''.mjs''] notification_allowlisted (scan_dirs args))"
  by unfold_locales (simp add: check_notification_bypass_def
      scan_files_Nil [where ok = "\<lambda>path. no_tokens NOTIFICATION_TOKENS"] hits_Nil)


interpretation roomos: line_guard check_roomos_bypass
  "\<lambda>root args. with_rule (\<lambda>path. no_tokens ROOMOS_TOKENS) (scanned_files root ROOM_EXTS is_test_file (scan_dirs args))
     @ with_rule (\<lambda>path. no_tokens NONDETERMINISTIC_TOKENS) (fixed_files root ROOMOS_DETERMINISTIC)"
  by unfold_locales (simp add: check_roomos_bypass_def scan_files_Nil [where ok = "\<lambda>path. no_tokens ROOMOS_TOKENS"]
      scan_files_Nil [where ok = "\<lambda>path. no_tokens NONDETERMINISTIC_TOKENS"] hits_Nil)

interpretation objects: line_guard check_object_bypass
  "\<lambda>root args. with_rule (\<lambda>path line. no_tokens OBJECT_TOKENS line \<and> \<not> rx_test PROJECTION_ASSIGN_RE line)
       (scanned_files root ROOM_EXTS object_allowlisted (scan_dirs args))
     @ with_rule (\<lambda>path. no_tokens NONDETERMINISTIC_TOKENS) (fixed_files root OBJECT_DETERMINISTIC)"
  by unfold_locales (simp add: check_object_bypass_def
      scan_files_Nil [where ok = "\<lambda>path line. no_tokens OBJECT_TOKENS line \<and> \<not> rx_test PROJECTION_ASSIGN_RE line"]
      scan_files_Nil [where ok = "\<lambda>path. no_tokens NONDETERMINISTIC_TOKENS"] hits_Nil)

interpretation queries: line_guard check_query_bypass
  "\<lambda>root args. with_rule (\<lambda>path line. no_tokens QUERY_TOKENS line
         \<and> (in_query_package path \<or> \<not> rx_test RAW_TRAVERSAL_RE line))
       (scanned_files root ROOM_EXTS query_allowlisted (scan_dirs args))
     @ with_rule (\<lambda>path. no_tokens NONDETERMINISTIC_TOKENS) (fixed_files root QUERY_DETERMINISTIC)"
  by unfold_locales (simp add: check_query_bypass_def
      scan_files_Nil [where ok = "\<lambda>path line. no_tokens QUERY_TOKENS line
         \<and> (in_query_package path \<or> \<not> rx_test RAW_TRAVERSAL_RE line)"]
      scan_files_Nil [where ok = "\<lambda>path. no_tokens NONDETERMINISTIC_TOKENS"] hits_Nil)

interpretation memberships: line_guard check_membership_bypass
  "\<lambda>root args. with_rule (\<lambda>path line. no_tokens MEMBERSHIP_TOKENS line
         \<and> (includes_js path (js ''packages/rooms/src/membership/'') \<or> \<not> rx_test OWNER_AUTHZ_RE line)
         \<and> \<not> rx_test AUTHORITY_FIELD_RE line)
       (scanned_files root ROOM_EXTS membership_allowlisted (scan_dirs args))"
  by unfold_locales (simp add: check_membership_bypass_def
      scan_files_Nil [where ok = "\<lambda>path line. no_tokens MEMBERSHIP_TOKENS line
         \<and> (includes_js path (js ''packages/rooms/src/membership/'') \<or> \<not> rx_test OWNER_AUTHZ_RE line)
         \<and> \<not> rx_test AUTHORITY_FIELD_RE line"] hits_Nil)

interpretation authorizations: line_guard check_authorization_bypass
  "\<lambda>root args. with_rule (\<lambda>path line. no_tokens AUTHORIZATION_TOKENS line
         \<and> (in_authorization_package path \<or> \<not> rx_test ROLE_AUTHZ_RE line))
       (scanned_files root ROOM_EXTS authorization_allowlisted (scan_dirs args))"
  by unfold_locales (simp add: check_authorization_bypass_def
      scan_files_Nil [where ok = "\<lambda>path line. no_tokens AUTHORIZATION_TOKENS line
         \<and> (in_authorization_package path \<or> \<not> rx_test ROLE_AUTHZ_RE line)"] hits_Nil)

lemma posture_silent:
  "check_posture_bypass root args = [] \<longleftrightarrow>
     list_all (\<lambda>(path, t). list_all (no_tokens POSTURE_TOKENS) (fileLines t)
       \<and> (includes_js path (js ''packages/rooms/src/policy-composition/'')
          \<or> \<not> rx_test TRUSTED_POSTURE_RE (join_lines (fileLines t))))
     (scanned_files root ROOM_EXTS posture_allowlisted (scan_dirs args))"
  by (auto simp: check_posture_bypass_def posture_file_def list_all_iff hits_Nil
      scan_lines_Nil [where ok = "no_tokens POSTURE_TOKENS"])

definition imports_ok :: "string \<Rightarrow> string list \<Rightarrow> jstr \<Rightarrow> bool" where
  "imports_ok unit allowed line \<longleftrightarrow>
     list_all (\<lambda>p. p = unit_name unit \<or> p \<in> set (map js allowed)) (package_imports line)"

interpretation boundaries: line_guard "\<lambda>root (args :: unit). check_boundaries root"
  "\<lambda>root args. concat (map (\<lambda>(unit, allowed). with_rule (\<lambda>path. imports_ok unit allowed)
       (walk_dir root [''.ts'', ''.tsx''] (js unit @ js ''/src''))) BOUNDARY_RULES)"
proof unfold_locales
  have hits: "scan_files (boundary_hits unit allowed) files = [] \<longleftrightarrow>
      list_all (\<lambda>(path, t). list_all (imports_ok unit allowed) (fileLines t)) files" for unit allowed files
    by (rule scan_files_Nil) (auto simp: boundary_hits_def imports_ok_def filter_empty_conv list_all_iff)
  have "concat (map (\<lambda>(unit, allowed). scan_files (boundary_hits unit allowed) (F unit)) rules) = [] \<longleftrightarrow>
      list_all (\<lambda>(path, t, ok). list_all ok (fileLines t))
        (concat (map (\<lambda>(unit, allowed). with_rule (\<lambda>path. imports_ok unit allowed) (F unit)) rules))"
    for rules :: "(string \<times> string list) list" and F :: "string \<Rightarrow> (jstr \<times> jstr) list"
    by (induction rules) (auto simp: hits)
  from this [of "\<lambda>unit. walk_dir root [''.ts'', ''.tsx''] (js unit @ js ''/src'')" BOUNDARY_RULES for root]
  show "check_boundaries root = [] \<longleftrightarrow> list_all (\<lambda>(path, t, ok). list_all ok (fileLines t))
      (concat (map (\<lambda>(unit, allowed). with_rule (\<lambda>path. imports_ok unit allowed)
         (walk_dir root [''.ts'', ''.tsx''] (js unit @ js ''/src''))) BOUNDARY_RULES))" for root
    unfolding check_boundaries_def .
qed

section \<open>The source scans of the privacy audit\<close>

text \<open>The steps of \<open>audit:privacy\<close> that scan source files, in its order.\<close>

definition source_audit :: "fs_entry \<Rightarrow> violation list" where
  "source_audit root =
     check_external_assets root [] @ check_telemetry root @ check_forbidden_storage root []
     @ check_forbidden_network root [] @ check_metadata_bypass root [] @ check_notification_bypass root []
     @ check_roomos_bypass root [] @ check_object_bypass root [] @ check_query_bypass root []
     @ check_membership_bypass root [] @ check_authorization_bypass root [] @ check_posture_bypass root []
     @ check_boundaries root"

lemma extension_mono: "has_extension exts name \<Longrightarrow> set exts \<subseteq> set exts' \<Longrightarrow> has_extension exts' name"
  by (auto simp: has_extension_def list_ex_iff)

lemma scanned_mem:
  assumes "dir \<in> set dirs" "fs_at root (split_on 0x2f dir) = Some e" "reaches e ns t"
    "has_extension exts (last ns)" "\<not> allowlisted (path_of dir ns)"
  shows "(path_of dir ns, t) \<in> set (scanned_files root exts allowlisted dirs)"
  using assms by (auto simp: scanned_files_def walk_dir_def walk_iff intro!: bexI [of _ dir])

lemma default_dirs: "scan_dirs [] = [js ''apps'', js ''packages'']" "network_dirs [] = [js ''apps'', js ''packages'']"
  by (simp_all add: scan_dirs_def network_dirs_def arg_after_def)

text \<open>C33.  What a passing audit says about a source file: take a TypeScript file under \<open>apps\<close> or
  \<open>packages\<close>, reached through directories that are not skipped, whose name is not a test's.  If
  the source scans of the privacy audit find nothing, no line of it has a token of the storage, the
  network and the asset guards, none of its lower-case lines has a telemetry name, and every remote
  host the scan reads in it is an allowed one.\<close>

theorem source_audit_sound:
  assumes "source_audit root = []"
    and "dir = js ''apps'' \<or> dir = js ''packages''" "fs_at root [dir] = Some e" "reaches e ns t"
    and "has_extension [''.ts'', ''.tsx''] (last ns)" "\<not> is_test_file (path_of dir ns)"
    and "line \<in> set (fileLines t)"
  shows "no_tokens STORAGE_TOKENS line \<and> no_tokens NETWORK_TOKENS line \<and> no_tokens ASSET_PATTERNS line
    \<and> no_tokens TELEMETRY_NAMES (map ascii_lower line) \<and> hosts_ok NAV_ALLOWED_HOSTS line"
proof -
  have dir: "split_on 0x2f dir = [dir]" "dir \<in> set [js ''apps'', js ''packages'']"
    using assms(2) by (auto simp: js_def)
  have mem: "(path_of dir ns, t) \<in> set (scanned_files root exts allowlisted [js ''apps'', js ''packages''])"
    if "set [''.ts'', ''.tsx''] \<subseteq> set exts" "allowlisted (path_of dir ns) \<le> is_test_file (path_of dir ns)" for exts allowlisted
    using scanned_mem [OF dir(2) _ assms(4), of root exts allowlisted] extension_mono [OF assms(5) that(1)]
      assms(3,6) that(2) dir(1) by auto
  have silent: "check_external_assets root [] = []" "check_telemetry root = []" "check_forbidden_storage root [] = []"
    "check_forbidden_network root [] = []"
    using assms(1) by (simp_all add: source_audit_def)
  have "no_tokens ASSET_PATTERNS line"
    by (rule assets.clean_line [OF silent(1) with_rule_mem [OF mem, folded default_dirs] assms(7)])
      (auto simp: never_allowlisted_def)
  moreover have "no_tokens TELEMETRY_NAMES (map ascii_lower line)"
    by (rule telemetry.clean_line [OF silent(2) with_rule_mem [OF mem] assms(7)]) (auto simp: never_allowlisted_def)
  moreover have "no_tokens STORAGE_TOKENS line"
    by (rule storage_tokens.clean_line [OF silent(3) _ assms(7)]) (auto intro!: with_rule_mem mem)
  moreover have "no_tokens NETWORK_TOKENS line \<and> hosts_ok NAV_ALLOWED_HOSTS line"
  proof -
    have "(path_of dir ns, t) \<in> set (scanned_files root [''.ts'', ''.tsx'', ''.html'', ''.mjs'', ''.css'']
        is_test_file (network_dirs []))"
      unfolding default_dirs by (rule mem) auto
    then show ?thesis
      using network_tokens.clean_line [OF silent(4) with_rule_mem assms(7)] by blast
  qed
  ultimately show ?thesis by blast
qed


definition sample_repo :: "string \<Rightarrow> fs_entry" where
  "sample_repo line = FS_dir [(js ''apps'', FS_dir [(js ''web'', FS_dir [(js ''a.ts'', FS_file (js line))])])]"

lemma short_line:
  assumes "list_all (\<lambda>t. length line < length t) tokens"
  shows "no_tokens tokens line"
proof -
  have "\<not> includes_js line (js t)" if "length line < length t" for t
  proof
    assume "includes_js line (js t)"
    then obtain a b where "line = a @ js t @ b" by (auto simp: includes_js_iff)
    then show False using that by (simp add: js_def)
  qed
  then show ?thesis using assms by (auto simp: no_tokens_def list_all_iff)
qed

lemma sample_tokens:
  assumes "length line = 2"
  shows "no_tokens ASSET_PATTERNS line" "no_tokens TELEMETRY_NAMES line" "no_tokens STORAGE_TOKENS line"
    "no_tokens NETWORK_TOKENS line" "no_tokens METADATA_TOKENS line" "no_tokens NOTIFICATION_TOKENS line"
    "no_tokens ROOMOS_TOKENS line" "no_tokens OBJECT_TOKENS line" "no_tokens QUERY_TOKENS line"
    "no_tokens MEMBERSHIP_TOKENS line" "no_tokens AUTHORIZATION_TOKENS line" "no_tokens POSTURE_TOKENS line"
  by (rule short_line, unfold assms, code_simp)+

lemma sample_files:
  "scanned_files (sample_repo l) exts al [js ''apps'', js ''packages''] =
     (if has_extension exts (js ''a.ts'') \<and> \<not> al (js ''apps/web/a.ts'') then [(js ''apps/web/a.ts'', js l)] else [])"
proof -
  have "split_on 0x2f (js ''apps'') = [js ''apps'']" "split_on 0x2f (js ''packages'') = [js ''packages'']"
    "js ''packages'' \<noteq> js ''apps''" "\<not> is_skipped (js ''web'')"
    "path_join (path_join (js ''apps'') (js ''web'')) (js ''a.ts'') = js ''apps/web/a.ts''"
    by code_simp+
  then show ?thesis by (simp add: scanned_files_def walk_dir_def sample_repo_def)
qed

lemma sample_fixed:
  "fixed_files (sample_repo l) ROOMOS_DETERMINISTIC = []" "fixed_files (sample_repo l) OBJECT_DETERMINISTIC = []"
  "fixed_files (sample_repo l) QUERY_DETERMINISTIC = []"
  by code_simp+

theorem source_audit_sound_witness:
  "no_tokens NETWORK_TOKENS (js ''x;'') \<and> source_audit (sample_repo ''x;'') = []"
proof -
  have lines: "fileLines (js ''x;'') = [js ''x;'']" "length (js ''x;'') = 2" "map ascii_lower (js ''x;'') = js ''x;''"
    "join_lines [js ''x;''] = js ''x;''" "hosts_ok NAV_ALLOWED_HOSTS (js ''x;'')"
    "\<not> rx_test PROJECTION_ASSIGN_RE (js ''x;'')" "\<not> rx_test RAW_TRAVERSAL_RE (js ''x;'')"
    "\<not> rx_test OWNER_AUTHZ_RE (js ''x;'')" "\<not> rx_test AUTHORITY_FIELD_RE (js ''x;'')"
    "\<not> rx_test ROLE_AUTHZ_RE (js ''x;'')" "\<not> rx_test TRUSTED_POSTURE_RE (js ''x;'')"
    "check_boundaries (sample_repo ''x;'') = []"
    by code_simp+
  have clean: "list_all (\<lambda>(path, t). list_all (ok path) (fileLines t))
      (scanned_files (sample_repo ''x;'') exts al [js ''apps'', js ''packages''])" if "ok (js ''apps/web/a.ts'') (js ''x;'')" for ok exts al
    unfolding sample_files using that by (simp add: lines(1))
  have posture: "list_all (\<lambda>(path, t). list_all (no_tokens POSTURE_TOKENS) (fileLines t)
      \<and> (includes_js path (js ''packages/rooms/src/policy-composition/'')
         \<or> \<not> rx_test TRUSTED_POSTURE_RE (join_lines (fileLines t))))
      (scanned_files (sample_repo ''x;'') exts al [js ''apps'', js ''packages''])" for exts al
    unfolding sample_files by (simp add: lines(1,2,4,11) sample_tokens)
  have silent: "source_audit (sample_repo ''x;'') = []"
    unfolding source_audit_def append_is_Nil_conv assets.silent telemetry.silent storage_tokens.silent
      network_tokens.silent metadata_tokens.silent notification_tokens.silent roomos.silent objects.silent
      queries.silent memberships.silent authorizations.silent posture_silent default_dirs
      list_all_append with_rule_all sample_fixed simp_thms if_False
    by (intro conjI clean posture lines(12)) (simp_all add: sample_tokens lines)
  have "reaches (FS_dir [(js ''web'', FS_dir [(js ''a.ts'', FS_file (js ''x;''))])]) [js ''web'', js ''a.ts''] (js ''x;'')"
    by (intro reaches_dir reaches_file) (auto simp: is_skipped_def SKIP_DIRS_def js_def)
  moreover have "fs_at (sample_repo ''x;'') [js ''apps''] =
      Some (FS_dir [(js ''web'', FS_dir [(js ''a.ts'', FS_file (js ''x;''))])])"
    by (simp add: sample_repo_def)
  moreover have "has_extension [''.ts'', ''.tsx''] (last [js ''web'', js ''a.ts''])"
    "\<not> is_test_file (path_of (js ''apps'') [js ''web'', js ''a.ts''])"
    by code_simp+
  ultimately show ?thesis
    using source_audit_sound [OF silent, of "js ''apps''" _ _ "js ''x;''" "js ''x;''"] silent lines(1) by auto
qed


text \<open>The files a scan reads are exactly those with one of the extensions that are reached
  without entering a directory of the skip list; so a forbidden call in a directory called
  \<open>dist\<close> or \<open>coverage\<close>, at any depth, is never seen.\<close>

theorem walk_exact:
  "(p, t) \<in> set (walkFiles exts path e) \<longleftrightarrow>
     (\<exists>ns. reaches e ns t \<and> has_extension exts (last ns) \<and> p = path_of path ns)"
  by (rule walk_iff)

end
