(* ===== verification/Repo_Docs.thy ===== *)
theory Repo_Docs
  imports Repo_Scan FL_Errors "HOL-Library.Sublist"
begin

text \<open>
  The checks of documents and manifests: \<open>scripts/check-policy-docs-consistency.mjs\<close>,
  \<open>scripts/check-contributor-workflow.mjs\<close>, \<open>scripts/check-no-network-deps.mjs\<close> and the
  document, claim and dependency parts of \<open>scripts/check-policy-conflicts.mjs\<close>.
  \<open>JSON.parse\<close> is a parameter: \<open>None\<close> is its exception.
\<close>

section \<open>Required files and mentions\<close>

datatype doc_violation =
    D_missing string
  | D_mention string string
  | D_claim jstr nat string
  | D_unparsed jstr
  | D_dependency jstr jstr

text \<open>The text of a file; reading a directory throws, which these checks do not catch.\<close>

definition read_file :: "fs_entry \<Rightarrow> jstr \<Rightarrow> jstr option" where
  "read_file root path = (case fs_at root (split_on 0x2f path) of Some (FS_file c) \<Rightarrow> Some c | _ \<Rightarrow> None)"

definition missing_files :: "fs_entry \<Rightarrow> string list \<Rightarrow> doc_violation list" where
  "missing_files root paths = map D_missing (filter (\<lambda>p. \<not> isPathExisting root (js p)) paths)"

definition mention_hits :: "string \<Rightarrow> jstr \<Rightarrow> string list \<Rightarrow> doc_violation list" where
  "mention_hits file content phrases =
     map (D_mention file) (filter (\<lambda>p. \<not> includes_js (map ascii_lower content) (map ascii_lower (js p))) phrases)"

definition read_mentions :: "fs_entry \<Rightarrow> string \<Rightarrow> string list \<Rightarrow> doc_violation list res" where
  "read_mentions root file phrases =
     ebind (need JsTypeError (read_file root (js file))) (\<lambda>content. Inr (mention_hits file content phrases))"

text \<open>A table of phrases; \<open>strict\<close> says whether a missing file is a violation of its own.\<close>

definition mention_table :: "fs_entry \<Rightarrow> bool \<Rightarrow> (string \<times> string list) list \<Rightarrow> doc_violation list res" where
  "mention_table root strict table =
     efold (\<lambda>vs (file, phrases).
       if \<not> isPathExisting root (js file) then Inr (vs @ (if strict then [D_missing file] else []))
       else ebind (read_mentions root file phrases) (\<lambda>hits. Inr (vs @ hits))) [] table"

definition POLICY_DOCS_MUST_EXIST :: "string list" where
  "POLICY_DOCS_MUST_EXIST = [
    ''docs/POLICY_MATRIX.md'', ''docs/policy-matrix.v1.json'',
    ''packages/privacy/src/policyMatrix.ts'', ''scripts/validate-policy-matrix.mjs'']"

definition POLICY_DOCS_MUST_MENTION :: "(string \<times> string list) list" where
  "POLICY_DOCS_MUST_MENTION = [
     (''docs/PBOM.md'', [''Policy Matrix'', ''telemetry'', ''external assets'', ''push'', ''externalized'']),
     (''docs/TRUST_CENTER.md'', [''Policy Matrix'', ''anonymity'', ''externalized'']),
     (''docs/PRIVACY_MODEL.md'', [''strictest'', ''Policy Matrix'', ''push'']),
     (''docs/ROADMAP.md'', [''TECH-13'', ''TECH-14'', ''externalized'']),
     (''docs/IMPLEMENTATION_GATES.md'', [''Policy Matrix'', ''anti-spyware'']),
     (''docs/POLICY_MATRIX.md'', [''deny'', ''strictest'', ''future_gate'', ''externalized'']),
     (''docs/NETWORK_MODEL.md'', [''telemetry'', ''link preview'', ''push'']),
     (''docs/THREAT_MODEL.md'', [''policy drift'', ''anonymity''])]"

definition check_policy_docs :: "fs_entry \<Rightarrow> doc_violation list res" where
  "check_policy_docs root =
     ebind (mention_table root True POLICY_DOCS_MUST_MENTION) (\<lambda>hits.
     Inr (missing_files root POLICY_DOCS_MUST_EXIST @ hits))"

definition WORKFLOW_MUST_EXIST :: "string list" where
  "WORKFLOW_MUST_EXIST = [
    ''CONTRIBUTING.md'', ''docs/CONTRIBUTING_SECURITY.md'', ''SECURITY.md'', ''GOVERNANCE.md'',
    ''docs/MAINTENANCE.md'', ''docs/CONTRIBUTOR_WORKFLOW.md'', ''docs/POLICY_DEVELOPER_GUIDE.md'',
    ''docs/COMMANDS.md'', ''docs/ADR_WORKFLOW.md'', ''docs/adr/ADR-TEMPLATE.md'',
    ''docs/LABELS.md'', ''docs/DOCS_CANONICAL_WORKFLOW.md'', ''docs/GITHUB_REPOSITORY_SETUP.md'',
    ''docs/audits/OPENSSF_READINESS_CHECKLIST.md'', ''docs/audits/CODEOWNERS_REVIEW_AUDIT.md'',
    ''docs/audits/ANTISPYWARE_EXTERNALIZATION_AUDIT.md'', ''.github/PULL_REQUEST_TEMPLATE.md'',
    ''.github/CODEOWNERS'', ''.github/ISSUE_TEMPLATE/privacy_bug.yml'',
    ''.github/ISSUE_TEMPLATE/policy_change.yml'',
    ''.github/ISSUE_TEMPLATE/feature_gate_proposal.yml'',
    ''.github/ISSUE_TEMPLATE/antispyware_integration_proposal.yml'']"

definition EXTERNALIZATION_MENTIONS :: "(string \<times> string list) list" where
  "EXTERNALIZATION_MENTIONS = [
     (''docs/ROADMAP.md'', [''externalized'']),
     (''docs/IMPLEMENTATION_GATES.md'', [''anti-spyware'']),
     (''docs/PBOM.md'', [''externalized'']),
     (''docs/TRUST_CENTER.md'', [''externalized'']),
     (''docs/CONTRIBUTOR_WORKFLOW.md'', [''externalized'', ''hook'']),
     (''.github/PULL_REQUEST_TEMPLATE.md'', [''anti-spyware''])]"

definition CONTENT_MENTIONS :: "(string \<times> string list) list" where
  "CONTENT_MENTIONS = [
     (''.github/PULL_REQUEST_TEMPLATE.md'', [''Policy Matrix'', ''PBOM'', ''Trust Center'']),
     (''docs/CONTRIBUTOR_WORKFLOW.md'', [''check:policy-conflicts'', ''check:policy-matrix'']),
     (''docs/CONTRIBUTING_SECURITY.md'', [''Policy Matrix'', ''PBOM''])]"

definition check_contributor_workflow :: "fs_entry \<Rightarrow> doc_violation list res" where
  "check_contributor_workflow root =
     ebind (mention_table root False EXTERNALIZATION_MENTIONS) (\<lambda>ext.
     ebind (mention_table root False CONTENT_MENTIONS) (\<lambda>content.
     Inr (missing_files root WORKFLOW_MUST_EXIST @ ext @ content)))"

definition CONFLICT_MUST_MENTION :: "(string \<times> string list) list" where
  "CONFLICT_MUST_MENTION = [
     (''docs/PBOM.md'', [''externalized'', ''policy matrix'']),
     (''docs/TRUST_CENTER.md'', [''externalized'', ''policy conflict'']),
     (''docs/ROADMAP.md'', [''externalized'', ''TECH-14'']),
     (''docs/IMPLEMENTATION_GATES.md'', [''anti-spyware'', ''policy conflict''])]"

definition checkDocsStatements :: "fs_entry \<Rightarrow> doc_violation list res" where
  "checkDocsStatements root = mention_table root True CONFLICT_MUST_MENTION"

section \<open>Claims of the Trust Center\<close>

definition OVERCLAIM_PHRASES :: "string list" where
  "OVERCLAIM_PHRASES = [
    ''impossible to hack'', ''zero risk'', ''guaranteed anonymity'', ''forensic deletion'',
    ''stops spyware'', ''full endpoint protection active'', ''military grade'',
    ''prevents screenshots completely'', ''production ready for real secrets'', ''unhackable'',
    ''100% secure'']"

definition NEGATION_AWARE_TERMS :: "string list" where
  "NEGATION_AWARE_TERMS = [''unbreakable'']"

definition NEGATIONS :: "string list" where
  "NEGATIONS = [
    ''no '', ''not '', ''never '', ''cannot '', ''isn'' @ [CHR 0x27] @ ''t '', ''is not '',
    ''without '']"

text \<open>\<open>s.indexOf(p)\<close>, \<open>None\<close> for \<open>-1\<close>.\<close>

fun index_of :: "jstr \<Rightarrow> jstr \<Rightarrow> nat option" where
  "index_of p [] = (if p = [] then Some 0 else None)"
| "index_of p (c # cs) = (if starts_with (c # cs) p then Some 0 else map_option Suc (index_of p cs))"

text \<open>The twenty-four units before the first occurrence decide.\<close>

definition unqualified :: "jstr \<Rightarrow> string \<Rightarrow> bool" where
  "unqualified lower claim = (case index_of (js claim) lower of
       None \<Rightarrow> False
     | Some i \<Rightarrow> \<not> list_ex (\<lambda>neg. includes_js (drop (i - 24) (take i lower)) (js neg)) NEGATIONS)"

definition claim_hits :: "jstr \<Rightarrow> nat \<Rightarrow> jstr \<Rightarrow> doc_violation list" where
  "claim_hits path n line =
     (let lower = map ascii_lower line
      in map (D_claim path n) (filter (\<lambda>p. includes_js lower (js p)) OVERCLAIM_PHRASES
                               @ filter (unqualified lower) NEGATION_AWARE_TERMS))"

definition checkTrustCenterOverclaims :: "fs_entry \<Rightarrow> jstr \<Rightarrow> doc_violation list res" where
  "checkTrustCenterOverclaims root path =
     (if \<not> isPathExisting root path then Inr [D_missing ''docs/TRUST_CENTER.md'']
      else ebind (need JsTypeError (read_file root path)) (\<lambda>content.
        Inr (concat (map (\<lambda>(n, line). claim_hits path n line) (enumerate 1 (fileLines content))))))"

section \<open>Dependencies\<close>

definition FORBIDDEN_DEPS :: "string list" where
  "FORBIDDEN_DEPS = [
    ''axios'', ''got'', ''ky'', ''superagent'', ''request'', ''node-fetch'', ''undici'',
    ''socket.io-client'', ''ws'', ''graphql-request'', ''@apollo/client'', ''firebase'',
    ''@supabase/supabase-js'', ''@sentry/'', ''posthog-js'', ''posthog-node'', ''mixpanel'',
    ''mixpanel-browser'', ''@segment/'', ''@amplitude/'', ''amplitude-js'', ''@datadog/'',
    ''dd-trace'', ''openai'', ''@anthropic-ai/'', ''@google-cloud/'', ''@tauri-apps/plugin-http'',
    ''metascraper'', ''open-graph-scraper'', ''link-preview-js'', ''url-metadata'', ''unfurl.js'',
    ''html-metadata'', ''@extractus/'', ''cheerio'']"

definition FORBIDDEN_CONFLICT_DEPS :: "string list" where
  "FORBIDDEN_CONFLICT_DEPS = [
    ''iohook'', ''robotjs'', ''screenshot-desktop'', ''active-win'', ''node-global-key-listener'',
    ''uiohook-napi'', ''@nut-tree/'', ''web-push'', ''firebase'', ''firebase-admin'',
    ''onesignal-node'', ''@onesignal/'', ''node-notifier'', ''@tauri-apps/plugin-notification'']"

text \<open>An entry that ends in a slash is the prefix of a scope.\<close>

definition isForbidden :: "string list \<Rightarrow> jstr \<Rightarrow> bool" where
  "isForbidden deps name \<longleftrightarrow>
     list_ex (\<lambda>f. if ends_with (js f) [0x2f] then starts_with name (js f) else name = js f) deps"

definition DEPENDENCY_FIELDS :: "string list" where
  "DEPENDENCY_FIELDS = [''dependencies'', ''devDependencies'', ''peerDependencies'', ''optionalDependencies'']"

text \<open>\<open>Object.keys(deps)\<close>; the keys of arrays and texts are numbers, which no entry forbids.\<close>

definition dependency_names :: "jsval \<Rightarrow> jstr list" where
  "dependency_names v = (case own_fields v of None \<Rightarrow> [] | Some fs \<Rightarrow> map fst fs)"

definition manifest_hits :: "string list \<Rightarrow> jstr \<Rightarrow> jsval \<Rightarrow> doc_violation list res" where
  "manifest_hits deps path json =
     (if json = JNull \<or> json = JUndef then Inl JsTypeError
      else Inr (concat (map (\<lambda>field.
        map (D_dependency path) (filter (isForbidden deps)
          (dependency_names (case own_fields json of None \<Rightarrow> JUndef | Some fs \<Rightarrow> jget fs field)))) DEPENDENCY_FIELDS)))"

text \<open>The root manifest, then those under \<open>apps\<close> and \<open>packages\<close>.\<close>

definition manifests :: "fs_entry \<Rightarrow> jstr list" where
  "manifests root = js ''package.json''
     # concat (map (\<lambda>d. map fst (walk_dir root [''package.json''] (js d))) [''apps'', ''packages''])"

definition check_dependencies :: "(jstr \<Rightarrow> jsval option) \<Rightarrow> string list \<Rightarrow> fs_entry \<Rightarrow> doc_violation list res" where
  "check_dependencies parse deps root =
     efold (\<lambda>vs path.
       if \<not> isPathExisting root path then Inr vs
       else case Option.bind (read_file root path) parse of
           None \<Rightarrow> Inr (vs @ [D_unparsed path])
         | Some json \<Rightarrow> ebind (manifest_hits deps path json) (\<lambda>hits. Inr (vs @ hits))) [] (manifests root)"

definition check_no_network_deps :: "(jstr \<Rightarrow> jsval option) \<Rightarrow> fs_entry \<Rightarrow> doc_violation list res" where
  "check_no_network_deps parse root = check_dependencies parse FORBIDDEN_DEPS root"

definition checkDependencyConflicts :: "(jstr \<Rightarrow> jsval option) \<Rightarrow> fs_entry \<Rightarrow> doc_violation list res" where
  "checkDependencyConflicts parse root = check_dependencies parse FORBIDDEN_CONFLICT_DEPS root"

section \<open>What passes\<close>

lemma efold_append_Nil:
  assumes "\<And>vs x. f vs x = ebind (g x) (\<lambda>h. Inr (vs @ h))"
  shows "efold f vs xs = Inr [] \<longleftrightarrow> vs = [] \<and> list_all (\<lambda>x. g x = Inr []) xs"
proof (induction xs arbitrary: vs)
  case (Cons x xs)
  then show ?case by (cases "g x") (auto simp: assms)
qed simp

definition manifest_ok :: "(jstr \<Rightarrow> jsval option) \<Rightarrow> string list \<Rightarrow> fs_entry \<Rightarrow> jstr \<Rightarrow> bool" where
  "manifest_ok parse deps root path \<longleftrightarrow> \<not> isPathExisting root path
     \<or> (\<exists>json. Option.bind (read_file root path) parse = Some json \<and> json \<noteq> JNull \<and> json \<noteq> JUndef
          \<and> list_all (\<lambda>field. list_all (\<lambda>d. \<not> isForbidden deps d)
               (dependency_names (case own_fields json of None \<Rightarrow> JUndef | Some fs \<Rightarrow> jget fs field))) DEPENDENCY_FIELDS)"

text \<open>On a name written as a literal the test is one on characters.\<close>

lemma js_ends_slash: "ends_with (js f) [0x2f] \<longleftrightarrow> f \<noteq> [] \<and> last f = CHR ''/''"
proof -
  have slash: "[0x2f] = js ''/''" by (simp add: js_def)
  show ?thesis
  proof (cases f rule: rev_cases)
    case (snoc xs c)
    then have "ends_with (js f) [0x2f] \<longleftrightarrow> js [c] = js ''/''"
      by (simp add: ends_with_def js_def)
    then show ?thesis using snoc by (simp only: js_eq_iff) simp
  qed (simp add: ends_with_def)
qed

lemma js_starts_with: "starts_with (js n) (js f) \<longleftrightarrow> take (length f) n = f"
proof -
  have "take (length (js f)) (js n) = js (take (length f) n)" by (simp add: js_def take_map)
  then show ?thesis by (simp add: starts_with_def)
qed

lemma js_includes: "includes_js (js s) (js p) \<longleftrightarrow> sublist p s"
proof
  assume "includes_js (js s) (js p)"
  then obtain a b where s: "js s = a @ js p @ b" by (auto simp: includes_js_iff)
  have "take (length p) (drop (length a) s) = p"
  proof -
    have "js (take (length p) (drop (length a) s)) = take (length (js p)) (drop (length a) (js s))"
      by (simp add: js_def take_map drop_map)
    also have "\<dots> = js p" unfolding s by simp
    finally show ?thesis by simp
  qed
  then show "sublist p s" by (metis append_take_drop_id sublist_appendI)
next
  assume "sublist p s"
  then obtain a b where "s = a @ p @ b" by (auto simp: sublist_def)
  then show "includes_js (js s) (js p)" by (auto simp: includes_js_iff js_append)
qed

fun index_of_char :: "string \<Rightarrow> string \<Rightarrow> nat option" where
  "index_of_char p [] = (if p = [] then Some 0 else None)"
| "index_of_char p (c # cs) = (if prefix p (c # cs) then Some 0 else map_option Suc (index_of_char p cs))"

lemma js_index_of: "index_of (js p) (js s) = index_of_char p s"
proof (induction s)
  case (Cons c s)
  have cons: "js (c # s) = of_char c # js s" by (simp add: js_def)
  have "starts_with (js (c # s)) (js p) \<longleftrightarrow> prefix p (c # s)"
    unfolding js_starts_with by (metis append_eq_conv_conj prefix_def)
  then show ?case using Cons.IH by (simp add: cons)
qed (simp add: js_def)

lemma unqualified_js:
  "unqualified (js s) claim \<longleftrightarrow> (case index_of_char claim s of None \<Rightarrow> False
     | Some i \<Rightarrow> \<not> list_ex (\<lambda>neg. sublist neg (drop (i - 24) (take i s))) NEGATIONS)"
proof -
  have "drop n (take m (js s)) = js (drop n (take m s))" for n m by (simp add: js_def take_map drop_map)
  then show ?thesis by (simp add: unqualified_def js_index_of js_includes cong: option.case_cong)
qed

lemma isForbidden_js:
  "isForbidden deps (js n) \<longleftrightarrow>
     list_ex (\<lambda>f. if f \<noteq> [] \<and> last f = CHR ''/'' then take (length f) n = f else n = f) deps"
  by (simp add: isForbidden_def js_ends_slash js_starts_with)

text \<open>The dependency check passes exactly when every manifest there is parses to a value with
  properties and none of the names in its four dependency fields is forbidden; and a prefix is
  matched only when it is written with a slash, so the sub-packages of a forbidden package whose
  entry has none pass, although its comment calls the entry a prefix.\<close>

theorem dependency_check_exact:
  "(check_dependencies parse deps root = Inr [] \<longleftrightarrow> list_all (manifest_ok parse deps root) (manifests root))
   \<and> isForbidden FORBIDDEN_DEPS (js ''metascraper'') \<and> \<not> isForbidden FORBIDDEN_DEPS (js ''metascraper-image'')
   \<and> isForbidden FORBIDDEN_DEPS (js ''@sentry/browser'')"
proof -
  let ?g = "\<lambda>path. if \<not> isPathExisting root path then Inr []
     else case Option.bind (read_file root path) parse of None \<Rightarrow> Inr [D_unparsed path]
       | Some json \<Rightarrow> manifest_hits deps path json"
  have "?g path = Inr [] \<longleftrightarrow> manifest_ok parse deps root path" for path
    by (auto simp: manifest_ok_def manifest_hits_def filter_empty_conv list_all_iff split: option.splits)
  moreover have "check_dependencies parse deps root = Inr [] \<longleftrightarrow> [] = ([] :: doc_violation list) \<and> list_all (\<lambda>p. ?g p = Inr []) (manifests root)"
    unfolding check_dependencies_def by (rule efold_append_Nil) (auto split: option.splits)
  moreover have "isForbidden FORBIDDEN_DEPS (js ''metascraper'')" "\<not> isForbidden FORBIDDEN_DEPS (js ''metascraper-image'')"
    "isForbidden FORBIDDEN_DEPS (js ''@sentry/browser'')"
    unfolding isForbidden_js by (simp_all add: FORBIDDEN_DEPS_def)
  ultimately show ?thesis by simp
qed

text \<open>The claim check looks at the first occurrence of a term and at the letters of a negation:
  an unqualified claim passes after a negated one on the same line, and after any word that ends in
  \<open>no\<close>; alone it is reported.\<close>

theorem claim_check_misses:
  "claim_hits p 1 (js ''our cipher is unbreakable'') = [D_claim p 1 ''unbreakable'']
   \<and> claim_hits p 1 (js ''it is not unbreakable. our new cipher is unbreakable'') = []
   \<and> claim_hits p 1 (js ''the casino unbreakable vault'') = []"
proof -
  have lower: "map ascii_lower (js ''our cipher is unbreakable'') = js ''our cipher is unbreakable''"
    "map ascii_lower (js ''it is not unbreakable. our new cipher is unbreakable'')
       = js ''it is not unbreakable. our new cipher is unbreakable''"
    "map ascii_lower (js ''the casino unbreakable vault'') = js ''the casino unbreakable vault''"
    by code_simp+
  show ?thesis
    unfolding claim_hits_def Let_def lower unqualified_js js_includes by (intro conjI; code_simp)
qed

end
