(* ===== verification/Repo_Links.thy ===== *)
theory Repo_Links
  imports Repo_Scan
begin

text \<open>
  The check of relative links in the documents (\<open>scripts/check-doc-links.mjs\<close>).  A link that
  leaves the repository is looked up by a parameter: how many directories it goes up, and the path
  from there.  \<open>decodeURI\<close> throws on a malformed escape, which ends the check: \<open>None\<close>.
\<close>

section \<open>decodeURI\<close>

definition hex_value :: "16 word \<Rightarrow> nat option" where
  "hex_value c =
     (if 0x30 \<le> c \<and> c \<le> 0x39 then Some (unat c - 0x30)
      else if 0x41 \<le> c \<and> c \<le> 0x46 then Some (unat c - 0x37)
      else if 0x61 \<le> c \<and> c \<le> 0x66 then Some (unat c - 0x57)
      else None)"

text \<open>The next \<open>n\<close> escaped bytes and what follows them.\<close>

fun take_escapes :: "nat \<Rightarrow> jstr \<Rightarrow> (nat list \<times> jstr) option" where
  "take_escapes 0 s = Some ([], s)"
| "take_escapes (Suc n) (p # a # b # s) =
     (if p \<noteq> 0x25 then None
      else case (hex_value a, hex_value b) of
          (Some x, Some y) \<Rightarrow> map_option (\<lambda>(bs, r). ((16 * x + y) # bs, r)) (take_escapes n s)
        | _ \<Rightarrow> None)"
| "take_escapes (Suc n) _ = None"

lemma take_escapes_length: "take_escapes n s = Some (bs, r) \<Longrightarrow> length s = length r + 3 * n"
  by (induction n s arbitrary: bs rule: take_escapes.induct) (auto split: if_splits option.splits)

text \<open>The number of bytes the first byte of a sequence announces; \<open>None\<close> if it is no first byte.\<close>

definition sequence_length :: "nat \<Rightarrow> nat option" where
  "sequence_length b =
     (if b < 0x80 then Some 1 else if b < 0xC0 then None else if b < 0xE0 then Some 2
      else if b < 0xF0 then Some 3 else if b < 0xF8 then Some 4 else None)"

text \<open>The code point of a sequence; over-long forms, surrogates and what is above the last code
  point are refused.\<close>

definition utf8_scalar :: "nat list \<Rightarrow> nat option" where
  "utf8_scalar bs =
     (let low = (\<lambda>b. b - 0x80); cont = list_all (\<lambda>b. 0x80 \<le> b \<and> b < 0xC0) (tl bs)
      in case bs of
        [b0, b1] \<Rightarrow> (let v = (b0 - 0xC0) * 64 + low b1 in if cont \<and> 0x80 \<le> v then Some v else None)
      | [b0, b1, b2] \<Rightarrow> (let v = (b0 - 0xE0) * 4096 + low b1 * 64 + low b2
          in if cont \<and> 0x800 \<le> v \<and> \<not> (0xD800 \<le> v \<and> v \<le> 0xDFFF) then Some v else None)
      | [b0, b1, b2, b3] \<Rightarrow> (let v = (b0 - 0xF0) * 262144 + low b1 * 4096 + low b2 * 64 + low b3
          in if cont \<and> 0x10000 \<le> v \<and> v \<le> 0x10FFFF then Some v else None)
      | _ \<Rightarrow> None)"

definition utf16_units :: "nat \<Rightarrow> jstr" where
  "utf16_units v =
     (if v < 0x10000 then [word_of_nat v]
      else [word_of_nat (0xD800 + (v - 0x10000) div 1024), word_of_nat (0xDC00 + (v - 0x10000) mod 1024)])"

text \<open>The units an escape of which is left as it is.\<close>

definition URI_RESERVED :: "string" where
  "URI_RESERVED = '';/?:@&=+$,#''"

function decodeURI :: "jstr \<Rightarrow> jstr option" where
  "decodeURI s = (case s of
     [] \<Rightarrow> Some []
   | c # cs \<Rightarrow>
       if c \<noteq> 0x25 then map_option ((#) c) (decodeURI cs)
       else case take_escapes 1 s of
           None \<Rightarrow> None
         | Some (bs, r) \<Rightarrow> (case sequence_length (hd bs) of
               None \<Rightarrow> None
             | Some n \<Rightarrow> if n = 1
                 then map_option ((@) (if word_of_nat (hd bs) \<in> set (js URI_RESERVED) then take 3 s
                                       else [word_of_nat (hd bs)])) (decodeURI r)
                 else case take_escapes n s of
                     None \<Rightarrow> None
                   | Some (bs', r') \<Rightarrow> (case utf8_scalar bs' of
                         None \<Rightarrow> None
                       | Some v \<Rightarrow> if n = 0 then None else map_option ((@) (utf16_units v)) (decodeURI r'))))"
  by pat_completeness auto
termination
  by (relation "measure length") (auto dest!: take_escapes_length)

declare decodeURI.simps [simp del]

lemma decodeURI_simps:
  "decodeURI [] = Some []"
  "c \<noteq> 0x25 \<Longrightarrow> decodeURI (c # cs) = map_option ((#) c) (decodeURI cs)"
  by (subst decodeURI.simps, simp)+

lemma decodeURI_plain: "0x25 \<notin> set s \<Longrightarrow> decodeURI s = Some s"
  by (induction s) (simp_all add: decodeURI_simps)

section \<open>Paths\<close>

text \<open>\<open>join\<close>: empty names and \<open>.\<close> disappear and \<open>..\<close> takes the name before it away.  The
  result is the number of directories above the root and the path from there.\<close>

definition normal_step :: "nat \<times> jstr list \<Rightarrow> jstr \<Rightarrow> nat \<times> jstr list" where
  "normal_step p name = (case p of (up, names) \<Rightarrow>
     if name = [] \<or> name = js ''.'' then (up, names)
     else if name = js ''..'' then (if names = [] then (Suc up, []) else (up, butlast names))
     else (up, names @ [name]))"

definition normal_path :: "jstr list \<Rightarrow> nat \<times> jstr list" where
  "normal_path names = foldl normal_step (0, []) names"

text \<open>\<open>existsSync\<close>; a path that ends in a slash has to be a directory.\<close>

definition entry_exists :: "fs_entry option \<Rightarrow> bool \<Rightarrow> bool" where
  "entry_exists e slash = (case e of
       None \<Rightarrow> False
     | Some (FS_dir _) \<Rightarrow> True
     | Some _ \<Rightarrow> \<not> slash)"

definition link_exists ::
  "(nat \<Rightarrow> jstr list \<Rightarrow> bool \<Rightarrow> bool) \<Rightarrow> fs_entry \<Rightarrow> jstr \<Rightarrow> jstr \<Rightarrow> bool" where
  "link_exists outside root path target =
     (let slash = ends_with target [0x2f]; (up, names) = normal_path (butlast (split_on 0x2f path) @ split_on 0x2f target)
      in if up = 0 then entry_exists (fs_at root names) slash else outside up names slash)"

section \<open>Links of a line\<close>

text \<open>\<open>LINK_RE\<close>; its group is the target.  What follows the target decides: no shorter target could
  be followed by a white unit or by the closing parenthesis.\<close>

definition is_target_unit :: "16 word \<Rightarrow> bool" where
  "is_target_unit c \<longleftrightarrow> c \<noteq> 0x29 \<and> \<not> is_white c"

definition link_tail :: "jstr \<Rightarrow> jstr option" where
  "link_tail w = (case w of
       [] \<Rightarrow> None
     | c # rest \<Rightarrow>
         if c = 0x29 then Some rest
         else if \<not> is_white c then None
         else (case dropWhile is_white rest of
                 [] \<Rightarrow> None
               | q # title \<Rightarrow> if q \<noteq> 0x22 then None
                   else (case dropWhile (\<lambda>c. c \<noteq> 0x22) title of
                           a # b # rest' \<Rightarrow> if b = 0x29 then Some rest' else None
                         | _ \<Rightarrow> None)))"

definition link_at :: "16 word option \<Rightarrow> jstr \<Rightarrow> (jstr \<times> nat) option" where
  "link_at prev s =
     (if s = [] \<or> hd s \<noteq> 0x5b then None
      else case dropWhile (\<lambda>c. c \<noteq> 0x5d) (tl s) of
          a # b # v \<Rightarrow>
            (let target = takeWhile is_target_unit v
             in if b \<noteq> 0x28 \<or> target = [] then None
                else map_option (\<lambda>rest. (target, length s - length rest)) (link_tail (drop (length target) v)))
        | _ \<Rightarrow> None)"

definition line_links :: "jstr \<Rightarrow> jstr list" where
  "line_links line = match_all link_at None line"

definition is_fence :: "jstr \<Rightarrow> bool" where
  "is_fence line = (let t = dropWhile is_white line in starts_with t (js ''```'') \<or> starts_with t (js ''~~~''))"

definition external_link :: "jstr \<Rightarrow> bool" where
  "external_link target \<longleftrightarrow>
     list_ex (\<lambda>p. starts_with target (js p)) [''http://'', ''https://'', ''mailto:'', ''#'']"

section \<open>The check\<close>

text \<open>A file is read once; only the documents at the root itself are taken of the walk over it.\<close>

definition doc_files :: "fs_entry \<Rightarrow> (jstr \<times> jstr) list" where
  "doc_files root =
     (let found = concat (map (\<lambda>dir. walk_dir root [''.md''] (js dir)) [''docs'', ''apps'', ''packages'', ''tests''])
        @ filter (\<lambda>f. 0x2f \<notin> set (fst f)) (walkFiles [''.md''] [] root)
      in foldl (\<lambda>out f. if fst f \<in> fst ` set out then out else out @ [f]) [] found)"

datatype broken_link = Broken_link jstr nat jstr

definition link_hits ::
  "(nat \<Rightarrow> jstr list \<Rightarrow> bool \<Rightarrow> bool) \<Rightarrow> fs_entry \<Rightarrow> jstr \<Rightarrow> nat \<Rightarrow> jstr \<Rightarrow> broken_link list option" where
  "link_hits outside root path n target =
     (let withoutAnchor = takeWhile (\<lambda>c. c \<noteq> 0x23) target
      in if external_link target \<or> withoutAnchor = [] then Some []
         else case decodeURI withoutAnchor of
             None \<Rightarrow> None
           | Some decoded \<Rightarrow>
               Some (if link_exists outside root path decoded then [] else [Broken_link path n target]))"

text \<open>Collecting until the first exception.\<close>

fun collect :: "('a \<Rightarrow> 'b list option) \<Rightarrow> 'a list \<Rightarrow> 'b list option" where
  "collect f [] = Some []"
| "collect f (x # xs) = (case f x of None \<Rightarrow> None | Some ys \<Rightarrow> map_option ((@) ys) (collect f xs))"

fun fenced_scan :: "(nat \<Rightarrow> jstr \<Rightarrow> broken_link list option) \<Rightarrow> bool \<Rightarrow> nat \<Rightarrow> jstr list \<Rightarrow> broken_link list option" where
  "fenced_scan f inFence n [] = Some []"
| "fenced_scan f inFence n (line # ls) =
     (if is_fence line then fenced_scan f (\<not> inFence) (Suc n) ls
      else if inFence then fenced_scan f inFence (Suc n) ls
      else case f n line of None \<Rightarrow> None | Some hits \<Rightarrow> map_option ((@) hits) (fenced_scan f inFence (Suc n) ls))"

definition scan_document ::
  "(nat \<Rightarrow> jstr list \<Rightarrow> bool \<Rightarrow> bool) \<Rightarrow> fs_entry \<Rightarrow> jstr \<times> jstr \<Rightarrow> broken_link list option" where
  "scan_document outside root file =
     fenced_scan (\<lambda>n line. collect (link_hits outside root (fst file) n) (line_links line)) False 1 (fileLines (snd file))"

definition check_doc_links ::
  "(nat \<Rightarrow> jstr list \<Rightarrow> bool \<Rightarrow> bool) \<Rightarrow> fs_entry \<Rightarrow> broken_link list option" where
  "check_doc_links outside root = collect (scan_document outside root) (doc_files root)"

section \<open>What passes\<close>

text \<open>The lines outside fences, by the number of fence lines before them.\<close>

definition visible_lines :: "jstr list \<Rightarrow> jstr list" where
  "visible_lines ls = map (\<lambda>i. ls ! i) (filter (\<lambda>i. \<not> is_fence (ls ! i)
     \<and> even (length (filter is_fence (take i ls)))) [0..<length ls])"

definition link_ok :: "(nat \<Rightarrow> jstr list \<Rightarrow> bool \<Rightarrow> bool) \<Rightarrow> fs_entry \<Rightarrow> jstr \<Rightarrow> jstr \<Rightarrow> bool" where
  "link_ok outside root path target \<longleftrightarrow>
     external_link target \<or> takeWhile (\<lambda>c. c \<noteq> 0x23) target = []
     \<or> (case decodeURI (takeWhile (\<lambda>c. c \<noteq> 0x23) target) of
          None \<Rightarrow> False | Some decoded \<Rightarrow> link_exists outside root path decoded)"

lemma collect_Nil: "collect f xs = Some [] \<longleftrightarrow> list_all (\<lambda>x. f x = Some []) xs"
  by (induction xs) (auto split: option.splits)

lemma link_hits_Nil: "link_hits outside root path n target = Some [] \<longleftrightarrow> link_ok outside root path target"
  by (auto simp: link_hits_def link_ok_def Let_def split: option.splits)

text \<open>The lines seen from a fence state on: the parity of the fences before, and of the state.\<close>

definition lines_from :: "bool \<Rightarrow> jstr list \<Rightarrow> jstr list" where
  "lines_from inFence ls = map (\<lambda>i. ls ! i) (filter (\<lambda>i. \<not> is_fence (ls ! i)
     \<and> even (length (filter is_fence (take i ls)) + of_bool inFence)) [0..<length ls])"

lemma lines_from_simps:
  "lines_from b [] = []"
  "lines_from b (l # ls) = (if is_fence l then lines_from (\<not> b) ls else if b then lines_from b ls
     else l # lines_from b ls)"
proof -
  have shift: "[0..<length (l # ls)] = 0 # map Suc [0..<length ls]"
    by (simp add: map_Suc_upt upt_conv_Cons del: upt_Suc)
  show "lines_from b (l # ls) = (if is_fence l then lines_from (\<not> b) ls else if b then lines_from b ls
     else l # lines_from b ls)"
    unfolding lines_from_def shift by (cases b) (simp_all add: filter_map comp_def)
qed (simp add: lines_from_def)

lemma fenced_scan_Nil:
  assumes "\<And>n line. f n line = Some [] \<longleftrightarrow> ok line"
  shows "fenced_scan f b n ls = Some [] \<longleftrightarrow> list_all ok (lines_from b ls)"
proof (induction ls arbitrary: b n)
  case (Cons l ls)
  then show ?case
    using assms [of n l] by (cases "f n l") (auto simp: lines_from_simps)
qed (simp add: lines_from_simps)

text \<open>The link check passes exactly when, in every document it reads, every link on a line outside
  the fences (no fence itself, with an even number of fence lines before it) is external, is an anchor
  of the page, or decodes to a path that exists from the document's directory.\<close>

theorem doc_links_exact:
  "check_doc_links outside root = Some [] \<longleftrightarrow>
     list_all (\<lambda>(path, text). list_all (\<lambda>line. list_all (link_ok outside root path) (line_links line))
        (visible_lines (fileLines text))) (doc_files root)"
proof -
  have "visible_lines ls = lines_from False ls" for ls
    by (simp add: visible_lines_def lines_from_def)
  moreover have "scan_document outside root f = Some [] \<longleftrightarrow>
      list_all (\<lambda>line. list_all (link_ok outside root (fst f)) (line_links line)) (lines_from False (fileLines (snd f)))" for f
    unfolding scan_document_def by (rule fenced_scan_Nil) (simp add: collect_Nil link_hits_Nil)
  ultimately show ?thesis by (simp add: check_doc_links_def collect_Nil case_prod_unfold)
qed

text \<open>Any fence line ends any fence: a link after a tilde fence inside a backtick fence is checked,
  and the text after the block is not.\<close>

theorem fence_kinds_confused:
  "lines_from False [js ''```'', js ''~~~'', js ''[a](b)'', js ''```'', js ''[c](d)''] = [js ''[a](b)'']"
  by code_simp

end
