(* ===== verification/Repo_Matrix.thy ===== *)
theory Repo_Matrix
  imports Matrix_Rows FL_Errors "HOL-Library.Sublist"
begin

text \<open>
  The two checks of the machine-readable policy matrix, \<open>docs/policy-matrix.v1.json\<close>:
  \<open>scripts/validate-policy-matrix.mjs\<close> and the matrix part of
  \<open>scripts/check-policy-conflicts.mjs\<close>.  They read the file after \<open>JSON.parse\<close>; a row is
  a record of its fields, \<open>None\<close> for one that is absent or not of its type.  What they
  establish is stated about \<open>evaluate_matrix\<close>, the evaluation of
  \<open>packages/privacy/src/policyMatrix.ts\<close>.
\<close>

section \<open>Rows of the file\<close>

record json_spec =
  jp_id :: string
  jp_domain :: "string option"
  jp_operation :: "string option"
  jp_sink :: "string option"
  jp_effect :: string
  jp_effectOverrides :: "(string \<times> string) list"
  jp_reasonCode :: "string option"
  jp_reasonOverrides :: "(string \<times> string) list"
  jp_rationale :: "string option"
  jp_testCoverage :: "string option"
  jp_docsRefs :: "string list option"

definition MATRIX_MODES :: "string list" where
  "MATRIX_MODES = [''standard'', ''private'', ''ghost'', ''bunker'', ''offline_capsule'', ''emergency'',
     ''sovereign_room'']"

definition ALLOWING_NAMES :: "string list" where
  "ALLOWING_NAMES = [''allow'', ''memory_only'', ''redact'', ''coarsen'', ''delay'', ''batch'']"

definition DEFERRED_DOMAINS :: "string list" where
  "DEFERRED_DOMAINS = [''crypto'', ''capsule'', ''identity'']"

definition json_effect :: "json_spec \<Rightarrow> string \<Rightarrow> string" where
  "json_effect spec mode = (case map_of (jp_effectOverrides spec) mode of Some e \<Rightarrow> e | None \<Rightarrow> jp_effect spec)"

definition some_prefix :: "string list \<Rightarrow> string \<Rightarrow> bool" where
  "some_prefix ps s \<longleftrightarrow> list_ex (\<lambda>p. prefix p s) ps"

section \<open>Conflicts\<close>

definition NEVER_ALLOWED_PREFIXES :: "string list" where
  "NEVER_ALLOWED_PREFIXES = [
    ''network.telemetry_send'', ''network.external_asset_fetch'', ''network.link_preview_fetch'',
    ''network.push_subscribe'', ''network.remote_ai_request'', ''external_asset.'',
    ''link_preview.automatic_preview'', ''link_preview.opengraph_fetch'',
    ''link_preview.favicon_fetch'', ''link_preview.preview_cache'',
    ''notification.push_subscribe'', ''notification.push_receive'',
    ''notification.service_worker_show'', ''notification.message_preview'', ''ai.remote_request'',
    ''ai.prompt_cache'', ''ai.output_cache'']"

definition EXTERNALIZED_CAPABILITY_PREFIXES :: "string list" where
  "EXTERNALIZED_CAPABILITY_PREFIXES = [
    ''endpoint.clipboard_copy'', ''endpoint.secure_input'', ''endpoint.task_switcher_preview'',
    ''endpoint.screenshot_blocking'']"

definition PRIVATE_PLUS_DENIED_PREFIXES :: "string list" where
  "PRIVATE_PLUS_DENIED_PREFIXES = [
    ''metadata.read_receipt'', ''metadata.delivery_receipt'', ''metadata.typing_indicator'',
    ''metadata.presence'', ''metadata.last_seen'']"

definition BUNKER_DENIED_PREFIXES :: "string list" where
  "BUNKER_DENIED_PREFIXES = [
    ''notification.badge_'', ''notification.sound'', ''notification.vibration'']"

definition hit_if :: "bool \<Rightarrow> string \<Rightarrow> string \<Rightarrow> (string \<times> string) list" where
  "hit_if c category rule = (if c then [(category, rule)] else [])"

text \<open>One row in one mode; a violation is its category and the rule.\<close>

definition conflict_hits :: "json_spec \<Rightarrow> string \<Rightarrow> (string \<times> string) list" where
  "conflict_hits spec mode =
     (let effect = json_effect spec mode; allowed = (effect \<in> set ALLOWING_NAMES);
          rule = jp_id spec @ '':'' @ mode
      in hit_if (some_prefix NEVER_ALLOWED_PREFIXES (jp_id spec) \<and> allowed) ''allow_vs_deny'' rule
       @ hit_if (some_prefix EXTERNALIZED_CAPABILITY_PREFIXES (jp_id spec) \<and> allowed)
           ''externalized_component_marked_implemented'' rule
       @ hit_if (jp_domain spec \<in> Some ` set DEFERRED_DOMAINS \<and> allowed) ''future_gate_treated_as_allow'' rule
       @ hit_if (mode \<in> {''ghost'', ''bunker''} \<and> jp_sink spec = Some ''local_persistent_storage'' \<and> allowed)
           ''persistent_allowed_conflict'' rule
       @ hit_if (mode = ''offline_capsule'' \<and> jp_domain spec = Some ''network'' \<and> allowed)
           ''network_allowed_conflict'' rule
       @ hit_if (mode \<in> {''private'', ''ghost'', ''bunker'', ''offline_capsule'', ''emergency'', ''sovereign_room''}
           \<and> some_prefix PRIVATE_PLUS_DENIED_PREFIXES (jp_id spec) \<and> allowed) ''metadata_allowed_conflict'' rule
       @ hit_if (mode = ''bunker'' \<and> some_prefix BUNKER_DENIED_PREFIXES (jp_id spec) \<and> allowed)
           ''metadata_allowed_conflict'' rule
       @ hit_if (jp_id spec = ''storage.encrypted_persistent_backend'' \<and> effect \<noteq> ''future_gate'')
           ''not_implemented_treated_as_allow'' rule
       @ hit_if (jp_id spec = ''crypto.operation'' \<and> effect \<noteq> ''future_gate'') ''future_gate_treated_as_allow'' rule
       @ hit_if (jp_id spec = ''room.sync'' \<and> effect \<noteq> ''future_gate'') ''future_gate_treated_as_allow'' rule
       @ hit_if (jp_domain spec = Some ''room'' \<and> jp_sink spec = Some ''local_persistent_storage''
           \<and> effect \<in> set ALLOWING_NAMES) ''persistent_allowed_conflict'' rule)"

definition checkMatrix :: "json_spec list \<Rightarrow> (string \<times> string) list" where
  "checkMatrix specs = concat (map (\<lambda>spec. concat (map (conflict_hits spec) MATRIX_MODES)) specs)"

section \<open>The validator\<close>

definition MAJOR_DOMAINS :: "string list" where
  "MAJOR_DOMAINS = [
    ''storage'', ''network'', ''metadata'', ''link_preview'', ''external_asset'', ''notification'',
    ''ai'', ''endpoint'']"

definition EFFECT_NAMES :: "string list" where
  "EFFECT_NAMES = [
    ''allow'', ''deny'', ''redact'', ''coarsen'', ''delay'', ''batch'', ''memory_only'', ''null'',
    ''require_user_action'', ''future_gate'', ''not_implemented'']"

definition NEVER_ALLOWED_SPEC_PREFIXES :: "string list" where
  "NEVER_ALLOWED_SPEC_PREFIXES = [
    ''network.telemetry_send'', ''network.external_asset_fetch'', ''network.link_preview_fetch'',
    ''network.push_subscribe'', ''external_asset.'', ''link_preview.automatic_preview'',
    ''link_preview.opengraph_fetch'', ''link_preview.favicon_fetch'',
    ''notification.push_subscribe'', ''notification.push_receive'',
    ''notification.message_preview'']"

record json_rule =
  jr_id :: string
  jr_domain :: "string option"
  jr_mode :: string
  jr_operation :: "string option"
  jr_sink :: "string option"
  jr_effect :: string
  jr_allowed :: bool
  jr_persistentAllowed :: bool
  jr_networkAllowed :: bool
  jr_reasonCode :: "string option"
  jr_rationale :: "string option"
  jr_testCoverage :: "string option"
  jr_docsRefs :: "string list option"

definition json_rule_of :: "json_spec \<Rightarrow> string \<Rightarrow> json_rule" where
  "json_rule_of spec mode = \<lparr>jr_id = jp_id spec @ '':'' @ mode, jr_domain = jp_domain spec, jr_mode = mode,
     jr_operation = jp_operation spec, jr_sink = jp_sink spec, jr_effect = json_effect spec mode,
     jr_allowed = (json_effect spec mode \<in> set ALLOWING_NAMES), jr_persistentAllowed = False,
     jr_networkAllowed = False,
     jr_reasonCode = (case map_of (jp_reasonOverrides spec) mode of Some c \<Rightarrow> Some c | None \<Rightarrow> jp_reasonCode spec),
     jr_rationale = jp_rationale spec, jr_testCoverage = jp_testCoverage spec, jr_docsRefs = jp_docsRefs spec\<rparr>"

definition json_rules :: "json_spec list \<Rightarrow> json_rule list" where
  "json_rules specs = concat (map (\<lambda>spec. map (json_rule_of spec) MATRIX_MODES) specs)"

text \<open>A template string renders an absent field as \<open>undefined\<close>.\<close>

definition shown :: "string option \<Rightarrow> string" where
  "shown v = (case v of None \<Rightarrow> ''undefined'' | Some s \<Rightarrow> s)"

definition rule_key :: "json_rule \<Rightarrow> string" where
  "rule_key r = shown (jr_domain r) @ ''|'' @ shown (jr_operation r) @ ''|'' @ jr_mode r"

definition blank :: "string option \<Rightarrow> bool" where
  "blank v \<longleftrightarrow> v = None \<or> v = Some []"

text \<open>The fields of one rule; \<open>exists\<close> says which files are in the repository.\<close>

definition field_hits :: "(string \<Rightarrow> bool) \<Rightarrow> json_rule \<Rightarrow> (string \<times> string) list" where
  "field_hits exists r =
     (let hit = (\<lambda>c what. hit_if c what (jr_id r))
      in hit (jr_mode r \<notin> set MATRIX_MODES) ''unknown mode''
       @ hit (blank (jr_domain r)) ''missing domain''
       @ hit (blank (jr_operation r)) ''missing operation''
       @ hit (jr_effect r \<notin> set EFFECT_NAMES) ''invalid effect''
       @ hit (blank (jr_reasonCode r)) ''missing reasonCode''
       @ hit (case jr_rationale r of None \<Rightarrow> True | Some t \<Rightarrow> length t < 10) ''missing rationale''
       @ hit (jr_testCoverage r \<notin> Some ` {''covered'', ''partial'', ''not_testable_yet'', ''deferred''})
           ''invalid testCoverage''
       @ (case jr_docsRefs r of
            None \<Rightarrow> hit True ''missing docsRefs''
          | Some refs \<Rightarrow> if refs = [] then hit True ''missing docsRefs''
              else concat (map (\<lambda>ref. hit (\<not> exists ref) ''docsRef does not exist'') refs)))"

text \<open>The semantic invariants; reading a rationale that is not a text is a type error.\<close>

definition invariant_hits :: "json_rule \<Rightarrow> (string \<times> string) list res" where
  "invariant_hits r =
     (let hit = (\<lambda>c what. hit_if c what (jr_id r))
      in ebind (need JsTypeError (jr_rationale r)) (\<lambda>rationale. Inr
        (hit (jr_allowed r \<and> jr_effect r = ''deny'') ''allowed with effect deny''
       @ hit (jr_networkAllowed r) ''networkAllowed''
       @ hit (jr_persistentAllowed r) ''persistentAllowed''
       @ hit (sublist ''SENTINEL'' rationale) ''rationale contains a sentinel marker''
       @ hit (jr_domain r \<in> Some ` set DEFERRED_DOMAINS \<and> jr_effect r \<noteq> ''future_gate''
           \<and> jr_effect r \<noteq> ''not_implemented'') ''deferred domain''
       @ hit (prefix ''room.sync:'' (jr_id r) \<and> jr_effect r \<noteq> ''future_gate'') ''must stay future_gate'')))"

record validator_state =
  vs_seenIds :: "string list"
  vs_seenKeys :: "string list"
  vs_violations :: "(string \<times> string) list"

definition validate_rule :: "(string \<Rightarrow> bool) \<Rightarrow> validator_state \<Rightarrow> json_rule \<Rightarrow> validator_state res" where
  "validate_rule exists st r =
     ebind (invariant_hits r) (\<lambda>inv. Inr
       \<lparr>vs_seenIds = jr_id r # vs_seenIds st, vs_seenKeys = rule_key r # vs_seenKeys st,
        vs_violations = vs_violations st
          @ hit_if (jr_id r \<in> set (vs_seenIds st)) ''duplicate rule id'' (jr_id r)
          @ hit_if (rule_key r \<in> set (vs_seenKeys st)) ''duplicate rule'' (rule_key r)
          @ field_hits exists r @ inv\<rparr>)"

definition forbidden_hits :: "json_rule \<Rightarrow> (string \<times> string) list" where
  "forbidden_hits r =
     hit_if (some_prefix NEVER_ALLOWED_SPEC_PREFIXES (jr_id r) \<and> jr_allowed r) ''always forbidden'' (jr_id r)"

definition coverage_hits :: "json_rule list \<Rightarrow> (string \<times> string) list" where
  "coverage_hits rules = concat (map (\<lambda>mode. concat (map (\<lambda>domain.
       hit_if (\<not> list_ex (\<lambda>r. jr_mode r = mode \<and> jr_domain r = Some domain) rules) ''no rule for domain'' (mode @ domain))
     MAJOR_DOMAINS)) MATRIX_MODES)"

definition strict_hits :: "json_rule \<Rightarrow> (string \<times> string) list" where
  "strict_hits r =
     hit_if (jr_mode r = ''offline_capsule'' \<and> jr_domain r = Some ''network'' \<and> jr_allowed r
         \<and> jr_id r \<noteq> ''network.relay_transport_send:offline_capsule'') ''offline network rule'' (jr_id r)
     @ hit_if (jr_mode r \<in> {''ghost'', ''bunker''} \<and> jr_sink r = Some ''local_persistent_storage'' \<and> jr_allowed r)
         ''persistent-sink rule'' (jr_id r)"

text \<open>\<open>ruleCount\<close> is compared when it is a number.\<close>

definition validate_matrix ::
  "(string \<Rightarrow> bool) \<Rightarrow> int option \<Rightarrow> json_spec list \<Rightarrow> (string \<times> string) list res" where
  "validate_matrix exists ruleCount specs =
     (let rules = json_rules specs;
          start = hit_if (specs = []) ''matrix has no specs'' []
            @ hit_if (case ruleCount of None \<Rightarrow> False | Some n \<Rightarrow> n \<noteq> int (length rules)) ''ruleCount'' []
      in ebind (efold (validate_rule exists) \<lparr>vs_seenIds = [], vs_seenKeys = [], vs_violations = start\<rparr> rules) (\<lambda>st.
         Inr (vs_violations st @ concat (map forbidden_hits rules) @ coverage_hits rules
              @ concat (map strict_hits rules))))"

end
