(* ===== verification/Repo_Matrix_Sound.thy ===== *)
theory Repo_Matrix_Sound
  imports Repo_Matrix
begin

text \<open>
  What the matrix checks establish.  The file mirrors the table of
  \<open>packages/privacy/src/policyMatrix.ts\<close> row by row; then a passing check is a property of what
  \<open>evaluate_matrix\<close> allows.
\<close>

section \<open>The file mirrors the table\<close>

fun domain_json :: "policy_domain \<Rightarrow> string" where
  "domain_json PD_storage = ''storage''"
| "domain_json PD_network = ''network''"
| "domain_json PD_metadata = ''metadata''"
| "domain_json PD_link_preview = ''link_preview''"
| "domain_json PD_external_asset = ''external_asset''"
| "domain_json PD_notification = ''notification''"
| "domain_json PD_ai = ''ai''"
| "domain_json PD_endpoint = ''endpoint''"
| "domain_json PD_room = ''room''"
| "domain_json PD_identity = ''identity''"
| "domain_json PD_capsule = ''capsule''"
| "domain_json PD_crypto = ''crypto''"
| "domain_json PD_unknown = ''unknown''"

fun effect_json :: "policy_effect \<Rightarrow> string" where
  "effect_json PE_allow = ''allow''"
| "effect_json PE_deny = ''deny''"
| "effect_json PE_redact = ''redact''"
| "effect_json PE_coarsen = ''coarsen''"
| "effect_json PE_delay = ''delay''"
| "effect_json PE_batch = ''batch''"
| "effect_json PE_memory_only = ''memory_only''"
| "effect_json PE_null = ''null''"
| "effect_json PE_require_user_action = ''require_user_action''"
| "effect_json PE_future_gate = ''future_gate''"
| "effect_json PE_not_implemented = ''not_implemented''"

definition mirrors :: "matrix_spec \<Rightarrow> json_spec \<Rightarrow> bool" where
  "mirrors s j \<longleftrightarrow> jp_id j = ms_id s \<and> jp_domain j = Some (domain_json (ms_domain s))
     \<and> jp_operation j = Some (ms_operation s) \<and> jp_sink j = ms_sink s
     \<and> jp_effect j = effect_json (ms_effect s)
     \<and> jp_effectOverrides j = map (\<lambda>(m, e). (mode_name m, effect_json e)) (ms_effectOverrides s)"

lemma effect_json_facts:
  "effect_json e \<in> set ALLOWING_NAMES \<longleftrightarrow> isAllowingEffect e"
  "effect_json e = ''future_gate'' \<longleftrightarrow> e = PE_future_gate"
  by (cases e; simp add: ALLOWING_NAMES_def isAllowingEffect_def ALLOWING_EFFECTS_def)+

lemma domain_json_eq:
  "domain_json d = ''network'' \<longleftrightarrow> d = PD_network" "domain_json d = ''room'' \<longleftrightarrow> d = PD_room"
  "domain_json d \<in> set DEFERRED_DOMAINS \<longleftrightarrow> d \<in> {PD_crypto, PD_capsule, PD_identity}"
  by (cases d; simp add: DEFERRED_DOMAINS_def)+

lemma mode_names: "MATRIX_MODES = map mode_name KNOWN_MODES"
  by (simp add: MATRIX_MODES_def KNOWN_MODES_def)

lemma mode_name_known: "m \<in> set KNOWN_MODES \<Longrightarrow> mode_name m' = mode_name m \<longleftrightarrow> m' = m"
  by (cases m; cases m') (auto simp: KNOWN_MODES_def)

lemma known_names:
  assumes "m \<in> set KNOWN_MODES"
  shows "mode_name m \<in> {''ghost'', ''bunker''} \<longleftrightarrow> m \<in> {Mode_ghost, Mode_bunker}"
    and "mode_name m = ''offline_capsule'' \<longleftrightarrow> m = Mode_offline_capsule"
    and "mode_name m = ''bunker'' \<longleftrightarrow> m = Mode_bunker"
    and "mode_name m \<in> {''private'', ''ghost'', ''bunker'', ''offline_capsule'', ''emergency'', ''sovereign_room''}
         \<longleftrightarrow> m \<noteq> Mode_standard"
proof -
  consider "m = Mode_standard" | "m = Mode_private" | "m = Mode_ghost" | "m = Mode_bunker"
    | "m = Mode_offline_capsule" | "m = Mode_emergency" | "m = Mode_sovereign_room"
    using assms by (auto simp: KNOWN_MODES_def)
  note modes = this
  show "mode_name m \<in> {''ghost'', ''bunker''} \<longleftrightarrow> m \<in> {Mode_ghost, Mode_bunker}"
    by (rule modes) simp_all
  show "mode_name m = ''offline_capsule'' \<longleftrightarrow> m = Mode_offline_capsule" by (rule modes) simp_all
  show "mode_name m = ''bunker'' \<longleftrightarrow> m = Mode_bunker" by (rule modes) simp_all
  show "mode_name m \<in> {''private'', ''ghost'', ''bunker'', ''offline_capsule'', ''emergency'', ''sovereign_room''}
      \<longleftrightarrow> m \<noteq> Mode_standard" by (rule modes) simp_all
qed

lemma mirror_effect:
  assumes "mirrors s j" "m \<in> set KNOWN_MODES"
  shows "json_effect j (mode_name m) = effect_json (row_effect s m)"
proof -
  have "map_of (map (\<lambda>(m, e). (mode_name m, effect_json e)) ovs) (mode_name m) = map_option effect_json (map_of ovs m)" for ovs
    using mode_name_known [OF assms(2)] by (induction ovs) fastforce+
  then show ?thesis
    using assms(1) by (auto simp: json_effect_def mirrors_def row_effect_def expand_spec_def Let_def split: option.splits)
qed

section \<open>Conflicts\<close>

lemma hit_if_Nil [simp]: "hit_if c a b = [] \<longleftrightarrow> \<not> c"
  by (simp add: hit_if_def)

text \<open>What the check asks of a row, with each prefix looked up once.\<close>

definition conflict_free :: "matrix_spec \<Rightarrow> bool" where
  "conflict_free s \<longleftrightarrow>
     (let ms = filter (\<lambda>m. isAllowingEffect (row_effect s m)) KNOWN_MODES
      in (if ms = [] then True
          else \<not> some_prefix NEVER_ALLOWED_PREFIXES (ms_id s)
            \<and> \<not> some_prefix EXTERNALIZED_CAPABILITY_PREFIXES (ms_id s)
            \<and> ms_domain s \<noteq> PD_crypto \<and> ms_domain s \<noteq> PD_capsule \<and> ms_domain s \<noteq> PD_identity
            \<and> (if ms_sink s = Some ''local_persistent_storage''
               then Mode_ghost \<notin> set ms \<and> Mode_bunker \<notin> set ms \<and> ms_domain s \<noteq> PD_room else True)
            \<and> (if ms_domain s = PD_network then Mode_offline_capsule \<notin> set ms else True)
            \<and> (if some_prefix PRIVATE_PLUS_DENIED_PREFIXES (ms_id s) then set ms \<subseteq> {Mode_standard} else True)
            \<and> (if some_prefix BUNKER_DENIED_PREFIXES (ms_id s) then Mode_bunker \<notin> set ms else True)))
     \<and> (if ms_id s \<in> {''storage.encrypted_persistent_backend'', ''crypto.operation'', ''room.sync''}
        then list_all (\<lambda>m. row_effect s m = PE_future_gate) KNOWN_MODES else True)"

lemma conflict_cases:
  "(\<not> (A \<and> p) \<and> \<not> (B \<and> p) \<and> \<not> (C \<and> p) \<and> \<not> (D \<and> E \<and> p) \<and> \<not> (F \<and> G \<and> p) \<and> \<not> (H \<and> I \<and> p) \<and> \<not> (J \<and> K \<and> p)
     \<and> \<not> (L \<and> \<not> q) \<and> \<not> (M \<and> \<not> q) \<and> \<not> (N \<and> \<not> q) \<and> \<not> (P \<and> E \<and> p)) \<longleftrightarrow>
   ((p \<longrightarrow> \<not> A \<and> \<not> B \<and> \<not> C \<and> \<not> (D \<and> E) \<and> \<not> (F \<and> G) \<and> \<not> (H \<and> I) \<and> \<not> (J \<and> K) \<and> \<not> (P \<and> E))
     \<and> (L \<or> M \<or> N \<longrightarrow> q))"
  by (cases p; cases q) (simp_all, blast)

lemma conflict_modes:
  "(\<forall>m\<in>set ms. \<not> A \<and> \<not> B \<and> d \<notin> {c1, c2, c3} \<and> \<not> (m \<in> {g, b} \<and> S) \<and> \<not> (m = oc \<and> N) \<and> \<not> (m \<noteq> st \<and> PP)
     \<and> \<not> (m = b \<and> BU) \<and> \<not> (R \<and> S)) \<longleftrightarrow>
   (if ms = [] then True
    else \<not> A \<and> \<not> B \<and> d \<noteq> c1 \<and> d \<noteq> c2 \<and> d \<noteq> c3
      \<and> (if S then g \<notin> set ms \<and> b \<notin> set ms \<and> \<not> R else True)
      \<and> (if N then oc \<notin> set ms else True) \<and> (if PP then set ms \<subseteq> {st} else True)
      \<and> (if BU then b \<notin> set ms else True))"
  by (cases "ms = []"; cases S; cases N; cases PP; cases BU) auto

text \<open>What the check asks of a row in one mode.\<close>

lemma mode_conflicts:
  assumes "mirrors s j" "m \<in> set KNOWN_MODES"
  shows "conflict_hits j (mode_name m) = [] \<longleftrightarrow>
      (isAllowingEffect (row_effect s m) \<longrightarrow>
          \<not> some_prefix NEVER_ALLOWED_PREFIXES (ms_id s)
        \<and> \<not> some_prefix EXTERNALIZED_CAPABILITY_PREFIXES (ms_id s)
        \<and> ms_domain s \<notin> {PD_crypto, PD_capsule, PD_identity}
        \<and> \<not> (m \<in> {Mode_ghost, Mode_bunker} \<and> ms_sink s = Some ''local_persistent_storage'')
        \<and> \<not> (m = Mode_offline_capsule \<and> ms_domain s = PD_network)
        \<and> \<not> (m \<noteq> Mode_standard \<and> some_prefix PRIVATE_PLUS_DENIED_PREFIXES (ms_id s))
        \<and> \<not> (m = Mode_bunker \<and> some_prefix BUNKER_DENIED_PREFIXES (ms_id s))
        \<and> \<not> (ms_domain s = PD_room \<and> ms_sink s = Some ''local_persistent_storage''))
      \<and> (ms_id s = ''storage.encrypted_persistent_backend'' \<or> ms_id s = ''crypto.operation''
          \<or> ms_id s = ''room.sync'' \<longrightarrow> row_effect s m = PE_future_gate)"
proof -
  have j: "jp_id j = ms_id s" "jp_domain j = Some (domain_json (ms_domain s))" "jp_sink j = ms_sink s"
    using assms by (simp_all add: mirrors_def)
  have dom: "Some (domain_json (ms_domain s)) \<in> Some ` set DEFERRED_DOMAINS \<longleftrightarrow>
        ms_domain s \<in> {PD_crypto, PD_capsule, PD_identity}"
    "Some (domain_json (ms_domain s)) = Some ''network'' \<longleftrightarrow> ms_domain s = PD_network"
    "Some (domain_json (ms_domain s)) = Some ''room'' \<longleftrightarrow> ms_domain s = PD_room"
    using domain_json_eq [of "ms_domain s"] by auto
  show ?thesis
    unfolding conflict_hits_def Let_def append_is_Nil_conv hit_if_Nil mirror_effect [OF assms]
      known_names [OF assms(2)] effect_json_facts j dom by (rule conflict_cases)
qed

lemma row_conflicts:
  assumes "mirrors s j"
  shows "list_all (\<lambda>m. conflict_hits j (mode_name m) = []) KNOWN_MODES \<longleftrightarrow> conflict_free s"
proof -
  have ids: "ms_id s \<in> {''storage.encrypted_persistent_backend'', ''crypto.operation'', ''room.sync''} \<longleftrightarrow>
      ms_id s = ''storage.encrypted_persistent_backend'' \<or> ms_id s = ''crypto.operation'' \<or> ms_id s = ''room.sync''"
    by simp
  have split: "(\<forall>m\<in>set KNOWN_MODES. (isAllowingEffect (row_effect s m) \<longrightarrow> X m) \<and> (i \<longrightarrow> Y m)) \<longleftrightarrow>
      (\<forall>m\<in>set (filter (\<lambda>m. isAllowingEffect (row_effect s m)) KNOWN_MODES). X m)
      \<and> (if i then list_all Y KNOWN_MODES else True)" for X Y i
    by (auto simp: list_all_iff)
  have "list_all (\<lambda>m. conflict_hits j (mode_name m) = []) KNOWN_MODES \<longleftrightarrow>
      (\<forall>m\<in>set KNOWN_MODES. conflict_hits j (mode_name m) = [])"
    by (simp add: list_all_iff)
  also have "\<dots> \<longleftrightarrow> conflict_free s"
    by (rule trans [OF ball_cong [OF refl mode_conflicts [OF assms]]], assumption)
      (unfold split conflict_modes conflict_free_def Let_def ids, blast)
  finally show ?thesis .
qed

lemma checkMatrix_free:
  assumes "list_all2 mirrors specs rows"
  shows "checkMatrix rows = [] \<longleftrightarrow> list_all conflict_free specs"
  using assms unfolding checkMatrix_def mode_names
proof (induction rule: list_all2_induct)
  case (Cons s specs j rows)
  have "concat (map (conflict_hits j) (map mode_name KNOWN_MODES)) = [] \<longleftrightarrow>
      list_all (\<lambda>m. conflict_hits j (mode_name m) = []) KNOWN_MODES"
    by (auto simp: list_all_iff)
  then show ?case using Cons.IH row_conflicts [OF Cons.hyps(1)] by simp
qed simp

lemma table_conflict_free: "list_all conflict_free POLICY_MATRIX_SPECS"
  unfolding POLICY_MATRIX_SPECS_def list_all_append by (intro conjI; code_simp)


lemma prefix_until:
  assumes "c \<notin> set p"
  shows "prefix p (i @ c # m) \<longleftrightarrow> prefix p i"
proof
  assume "prefix p (i @ c # m)"
  then consider "prefix p i" | q where "p = i @ q" "prefix q (c # m)" by (auto simp: prefix_append)
  then show "prefix p i"
  proof cases
    case 2
    then have "q = []" using assms by (cases q) auto
    with 2 show ?thesis by simp
  qed
qed (simp add: prefix_append)

lemma prefix_rule:
  "list_all (\<lambda>p. CHR '':'' \<notin> set p) ps \<Longrightarrow> some_prefix ps (i @ '':'' @ m) \<longleftrightarrow> some_prefix ps i"
  by (auto simp: some_prefix_def list_ex_iff list_all_iff prefix_until)

lemma prefixes_plain:
  "list_all (\<lambda>p. CHR '':'' \<notin> set p) NEVER_ALLOWED_PREFIXES"
  "list_all (\<lambda>p. CHR '':'' \<notin> set p) PRIVATE_PLUS_DENIED_PREFIXES"
  "list_all (\<lambda>p. CHR '':'' \<notin> set p) BUNKER_DENIED_PREFIXES"
  by (simp_all add: NEVER_ALLOWED_PREFIXES_def PRIVATE_PLUS_DENIED_PREFIXES_def BUNKER_DENIED_PREFIXES_def)

text \<open>What is allowed comes from a row whose own effect is an allowing one.\<close>

lemma allowed_from_row:
  assumes "md_allowed (evaluate_matrix specs inp)"
  obtains s where "s \<in> set specs" "mi_mode inp \<in> set KNOWN_MODES" "isAllowingEffect (row_effect s (mi_mode inp))"
    "md_ruleId (evaluate_matrix specs inp) = ms_id s @ '':'' @ mode_name (mi_mode inp)"
    "md_domain (evaluate_matrix specs inp) = ms_domain s" "ms_domain s = mi_domain inp"
proof -
  obtain r where r: "rule_lookup (expandPolicyMatrixSpecs specs) (mi_domain inp) (mi_operation inp) (mi_mode inp) = Some r"
    using assms by (cases "rule_lookup (expandPolicyMatrixSpecs specs) (mi_domain inp) (mi_operation inp) (mi_mode inp)")
      (auto simp: evaluate_matrix_def denyDecision_def)
  obtain e a c where t: "shield_tighten specs inp r = (e, a, c)" by (metis prod_cases3)
  obtain e' a' c' where u: "room_tighten (mi_roomPolicy inp) (e, a, c) = (e', a', c')" by (metis prod_cases3)
  have d: "evaluate_matrix specs inp = \<lparr>md_ruleId = mr_id r, md_domain = mr_domain r, md_mode = mr_mode r,
      md_effect = e', md_allowed = a', md_persistentAllowed = False, md_networkAllowed = False,
      md_requiresUserAction = mr_requiresUserAction r, md_reasonCode = c'\<rparr>"
    by (simp add: evaluate_matrix_def r t u)
  then have "mr_allowed r"
    using assms room_tighten_no_looser [OF u] shield_tighten_no_looser [OF t] by simp
  moreover from rule_lookup_SomeD [OF r] obtain s where s: "s \<in> set specs" "mi_mode inp \<in> set KNOWN_MODES"
    "r = expand_spec s (mi_mode inp)" "ms_domain s = mi_domain inp"
    by (auto simp: expandPolicyMatrixSpecs_def)
  moreover have "mr_allowed (expand_spec s m) = isAllowingEffect (row_effect s m)" for m
    by (simp add: row_effect_def expand_spec_def Let_def)
  ultimately show ?thesis by (intro that [of s]) (simp_all add: d)
qed

text \<open>C35.  The conflict check is sound for the evaluation: when it finds nothing in a file that mirrors
  a table, then whatever the table allows in any context is none of the always forbidden behaviours,
  is in no deferred domain, is no network operation of an offline capsule, no application signal in
  a mode stricter than standard, and no badge, sound or vibration in bunker mode.\<close>

theorem conflict_check_sound:
  assumes "list_all2 mirrors specs rows" "checkMatrix rows = []" "md_allowed (evaluate_matrix specs inp)"
  shows "\<not> some_prefix NEVER_ALLOWED_PREFIXES (md_ruleId (evaluate_matrix specs inp))
    \<and> md_domain (evaluate_matrix specs inp) \<notin> {PD_crypto, PD_capsule, PD_identity}
    \<and> \<not> (mi_mode inp = Mode_offline_capsule \<and> mi_domain inp = PD_network)
    \<and> \<not> (mi_mode inp \<noteq> Mode_standard \<and> some_prefix PRIVATE_PLUS_DENIED_PREFIXES (md_ruleId (evaluate_matrix specs inp)))
    \<and> \<not> (mi_mode inp = Mode_bunker \<and> some_prefix BUNKER_DENIED_PREFIXES (md_ruleId (evaluate_matrix specs inp)))"
proof -
  obtain s where s: "s \<in> set specs" "mi_mode inp \<in> set KNOWN_MODES" "isAllowingEffect (row_effect s (mi_mode inp))"
    "md_ruleId (evaluate_matrix specs inp) = ms_id s @ '':'' @ mode_name (mi_mode inp)"
    "md_domain (evaluate_matrix specs inp) = ms_domain s" "ms_domain s = mi_domain inp"
    using allowed_from_row [OF assms(3)] .
  obtain j where j: "j \<in> set rows" "mirrors s j"
    using assms(1) s(1) by (metis in_set_conv_nth list_all2_lengthD list_all2_nthD)
  have "mode_name (mi_mode inp) \<in> set MATRIX_MODES" using s(2) by (auto simp: mode_names)
  then have "conflict_hits j (mode_name (mi_mode inp)) = []"
    using assms(2) j(1) by (auto simp: checkMatrix_def)
  from this [unfolded mode_conflicts [OF j(2) s(2)], THEN conjunct1, THEN mp, OF s(3)]
  show ?thesis
    unfolding s(4,5) s(6) [symmetric] prefix_rule [OF prefixes_plain(1)]
      prefix_rule [OF prefixes_plain(2)] prefix_rule [OF prefixes_plain(3)]
    by (elim conjE) (intro conjI; assumption)
qed

definition mirror_of :: "matrix_spec \<Rightarrow> json_spec" where
  "mirror_of s = \<lparr>jp_id = ms_id s, jp_domain = Some (domain_json (ms_domain s)), jp_operation = Some (ms_operation s),
     jp_sink = ms_sink s, jp_effect = effect_json (ms_effect s),
     jp_effectOverrides = map (\<lambda>(m, e). (mode_name m, effect_json e)) (ms_effectOverrides s),
     jp_reasonCode = None, jp_reasonOverrides = [], jp_rationale = None, jp_testCoverage = None, jp_docsRefs = None\<rparr>"

lemma mirrored: "list_all2 mirrors specs (map mirror_of specs)"
  by (induction specs) (simp_all add: mirrors_def mirror_of_def)

theorem conflict_check_sound_witness:
  "checkMatrix (map mirror_of POLICY_MATRIX_SPECS) = []
   \<and> \<not> some_prefix NEVER_ALLOWED_PREFIXES (md_ruleId (evaluate_matrix POLICY_MATRIX_SPECS
        (plain_input PD_storage ''storage.write.memory'' Mode_private)))"
proof -
  have silent: "checkMatrix (map mirror_of POLICY_MATRIX_SPECS) = []"
    using checkMatrix_free [OF mirrored] table_conflict_free by blast
  have "md_allowed (evaluatePolicyMatrix (plain_input PD_storage ''storage.write.memory'' Mode_private))"
    unfolding plain_effect by code_simp
  then show ?thesis
    using conflict_check_sound [OF mirrored silent] silent by (simp add: evaluatePolicyMatrix_def)
qed


section \<open>What the validator accepts\<close>

definition rule_ok :: "(string \<Rightarrow> bool) \<Rightarrow> json_rule \<Rightarrow> bool" where
  "rule_ok exists r \<longleftrightarrow> field_hits exists r = [] \<and> invariant_hits r = Inr []"

lemma validate_fold:
  "(\<exists>st'. efold (validate_rule exists) st rules = Inr st' \<and> vs_violations st' = []) \<longleftrightarrow>
     vs_violations st = [] \<and> distinct (map jr_id rules) \<and> distinct (map rule_key rules)
   \<and> set (map jr_id rules) \<inter> set (vs_seenIds st) = {} \<and> set (map rule_key rules) \<inter> set (vs_seenKeys st) = {}
   \<and> list_all (rule_ok exists) rules"
proof (induction rules arbitrary: st)
  case (Cons r rules)
  show ?case
  proof (cases "invariant_hits r")
    case (Inl e)
    then show ?thesis by (simp add: validate_rule_def rule_ok_def)
  next
    case (Inr inv)
    then obtain st1 where st1: "validate_rule exists st r = Inr st1"
      and seen: "vs_seenIds st1 = jr_id r # vs_seenIds st" "vs_seenKeys st1 = rule_key r # vs_seenKeys st"
      and none: "vs_violations st1 = [] \<longleftrightarrow> vs_violations st = [] \<and> jr_id r \<notin> set (vs_seenIds st)
        \<and> rule_key r \<notin> set (vs_seenKeys st) \<and> rule_ok exists r"
      by (auto simp: validate_rule_def rule_ok_def)
    then have "(\<exists>st'. efold (validate_rule exists) st (r # rules) = Inr st' \<and> vs_violations st' = []) \<longleftrightarrow>
        (\<exists>st'. efold (validate_rule exists) st1 rules = Inr st' \<and> vs_violations st' = [])"
      by simp
    then show ?thesis unfolding Cons.IH [of st1] seen none by auto
  qed
qed simp

lemma concat_Nil: "concat (map f xs) = [] \<longleftrightarrow> list_all (\<lambda>x. f x = []) xs"
  by (auto simp: list_all_iff)

lemma validator_accepts:
  "validate_matrix exists n specs = Inr [] \<longleftrightarrow>
     specs \<noteq> [] \<and> n \<in> {None, Some (int (7 * length specs))}
   \<and> distinct (map jr_id (json_rules specs)) \<and> distinct (map rule_key (json_rules specs))
   \<and> list_all (rule_ok exists) (json_rules specs)
   \<and> list_all (\<lambda>r. \<not> (some_prefix NEVER_ALLOWED_SPEC_PREFIXES (jr_id r) \<and> jr_allowed r)) (json_rules specs)
   \<and> list_all (\<lambda>mode. list_all (\<lambda>domain. list_ex (\<lambda>r. jr_mode r = mode \<and> jr_domain r = Some domain) (json_rules specs))
       MAJOR_DOMAINS) MATRIX_MODES
   \<and> list_all (\<lambda>r. strict_hits r = []) (json_rules specs)"
proof -
  have len: "length (json_rules specs) = 7 * length specs"
    by (induction specs) (simp_all add: json_rules_def MATRIX_MODES_def)
  let ?start = "hit_if (specs = []) ''matrix has no specs'' []
      @ hit_if (case n of None \<Rightarrow> False | Some k \<Rightarrow> k \<noteq> int (length (json_rules specs))) ''ruleCount'' []"
  let ?st = "\<lparr>vs_seenIds = [], vs_seenKeys = [], vs_violations = ?start\<rparr>"
  have start: "?start = [] \<longleftrightarrow> specs \<noteq> [] \<and> n \<in> {None, Some (int (7 * length specs))}"
    unfolding len by (cases n) auto
  have "validate_matrix exists n specs = Inr [] \<longleftrightarrow>
      (\<exists>st'. efold (validate_rule exists) ?st (json_rules specs) = Inr st' \<and> vs_violations st' = [])
    \<and> concat (map forbidden_hits (json_rules specs)) = [] \<and> coverage_hits (json_rules specs) = []
    \<and> concat (map strict_hits (json_rules specs)) = []"
    by (auto simp: validate_matrix_def Let_def ebind_eq_Inr)
  then show ?thesis
    unfolding validate_fold coverage_hits_def concat_Nil forbidden_hits_def hit_if_Nil not_not
    using start by auto
qed

text \<open>The validator accepts a matrix exactly when it has rows, its rule count, if given, is
  right, no rule id and no domain-operation-mode key occurs twice, every rule has its fields and
  meets the invariants, no always forbidden behaviour is allowed, every major domain has a rule in
  every mode, and no offline capsule network rule and no persistent sink of ghost or bunker mode is
  allowed.  It throws when a row has no rationale.\<close>

theorem validator_exact:
  "validate_matrix exists n specs = Inr [] \<longleftrightarrow>
     specs \<noteq> [] \<and> n \<in> {None, Some (int (7 * length specs))}
   \<and> distinct (map jr_id (json_rules specs)) \<and> distinct (map rule_key (json_rules specs))
   \<and> list_all (rule_ok exists) (json_rules specs)
   \<and> list_all (\<lambda>r. \<not> (some_prefix NEVER_ALLOWED_SPEC_PREFIXES (jr_id r) \<and> jr_allowed r)) (json_rules specs)
   \<and> list_all (\<lambda>mode. list_all (\<lambda>domain. list_ex (\<lambda>r. jr_mode r = mode \<and> jr_domain r = Some domain) (json_rules specs))
       MAJOR_DOMAINS) MATRIX_MODES
   \<and> list_all (\<lambda>r. strict_hits r = []) (json_rules specs)"
  by (rule validator_accepts)

lemma distinct_rows:
  assumes "distinct (map rule_key (json_rules rows))"
  shows "distinct (map (\<lambda>j. (jp_domain j, jp_operation j)) rows)"
  using assms
proof (induction rows)
  case (Cons j rows)
  have keys: "json_rules (j # rows) = map (json_rule_of j) MATRIX_MODES @ json_rules rows"
    by (simp add: json_rules_def)
  have "(jp_domain j, jp_operation j) \<noteq> (jp_domain i, jp_operation i)" if "i \<in> set rows" for i
  proof
    assume "(jp_domain j, jp_operation j) = (jp_domain i, jp_operation i)"
    then have "rule_key (json_rule_of j ''standard'') = rule_key (json_rule_of i ''standard'')"
      by (simp add: rule_key_def json_rule_of_def)
    moreover have "rule_key (json_rule_of j ''standard'') \<in> set (map rule_key (map (json_rule_of j) MATRIX_MODES))"
      "rule_key (json_rule_of i ''standard'') \<in> set (map rule_key (json_rules rows))"
      using that by (auto simp: json_rules_def MATRIX_MODES_def)
    ultimately show False
      using Cons.prems unfolding keys map_append distinct_append by auto
  qed
  then show ?case using Cons unfolding keys by auto
qed simp

lemma find_only:
  "distinct (map h xs) \<Longrightarrow> x \<in> set xs \<Longrightarrow> find (\<lambda>y. h y = h x) xs = Some x"
  by (induction xs) (auto simp: image_iff)

text \<open>C36.  No row of a validated matrix is shadowed: the lookup keeps the last rule of a key, and
  evaluating the domain and the operation of any row in any mode, without a tightening context,
  gives that row's own rule and effect.\<close>

theorem validated_rows_reachable:
  assumes "list_all2 mirrors specs rows" "validate_matrix exists n rows = Inr []"
    and "s \<in> set specs" "m \<in> set KNOWN_MODES"
  shows "md_ruleId (evaluate_matrix specs (plain_input (ms_domain s) (ms_operation s) m)) = ms_id s @ '':'' @ mode_name m
    \<and> md_effect (evaluate_matrix specs (plain_input (ms_domain s) (ms_operation s) m)) = row_effect s m"
proof -
  let ?h = "\<lambda>s. (ms_domain s, ms_operation s)"
  have "map (\<lambda>j. (jp_domain j, jp_operation j)) rows = map (\<lambda>s. (Some (domain_json (ms_domain s)), Some (ms_operation s))) specs"
    using assms(1) by (induction rule: list_all2_induct) (auto simp: mirrors_def)
  moreover have "distinct (map (\<lambda>j. (jp_domain j, jp_operation j)) rows)"
    using distinct_rows assms(2) by (simp add: validator_accepts)
  ultimately have "distinct (map (\<lambda>s. (Some (domain_json (ms_domain s)), Some (ms_operation s))) specs)" by simp
  then have "distinct (map ?h specs)"
    by (auto simp: distinct_map inj_on_def)
  then have "find (\<lambda>s'. ?h s' = ?h s) (rev specs) = Some s"
    using find_only [of ?h "rev specs" s] assms(3) by (simp add: rev_map [symmetric])
  then have "spec_lookup specs (ms_domain s) (ms_operation s) = Some s"
    by (simp add: spec_lookup_def)
  then show ?thesis
    using assms(4) by (simp add: evaluate_matrix_def plain_input_def rule_lookup_spec shield_tighten_def
        room_tighten_def row_effect_def Let_def)
qed


lemma covered_domain:
  "list_ex (\<lambda>r. jr_mode r = mode \<and> jr_domain r = Some domain) (json_rules rows)
     \<longleftrightarrow> mode \<in> set MATRIX_MODES \<and> Some domain \<in> set (map jp_domain rows)"
  by (auto simp: json_rules_def list_ex_iff json_rule_of_def image_iff intro: sym)

lemma covered_domains:
  "list_all (\<lambda>mode. list_all (\<lambda>domain. list_ex (\<lambda>r. jr_mode r = mode \<and> jr_domain r = Some domain) (json_rules rows))
       MAJOR_DOMAINS) MATRIX_MODES
   \<longleftrightarrow> list_all (\<lambda>domain. Some domain \<in> set (map jp_domain rows)) MAJOR_DOMAINS"
  by (auto simp: covered_domain list_all_iff MATRIX_MODES_def)

text \<open>A matrix with one denied operation for each major domain.\<close>

definition sample_spec :: "policy_domain \<Rightarrow> matrix_spec" where
  "sample_spec d = matrix_spec.make (domain_json d) d ''x'' None None None PE_deny [] PR_default_deny [] False"

definition sample_specs :: "matrix_spec list" where
  "sample_specs = map sample_spec [PD_storage, PD_network, PD_metadata, PD_link_preview, PD_external_asset,
     PD_notification, PD_ai, PD_endpoint]"

definition sample_row :: "matrix_spec \<Rightarrow> json_spec" where
  "sample_row s = (mirror_of s)\<lparr>jp_reasonCode := Some ''default_deny'', jp_rationale := Some ''denied in v1'',
     jp_testCoverage := Some ''covered'', jp_docsRefs := Some [''docs/POLICY_MATRIX.md'']\<rparr>"

theorem validated_rows_reachable_witness:
  "validate_matrix (\<lambda>ref. ref = ''docs/POLICY_MATRIX.md'') (Some 56) (map sample_row sample_specs) = Inr []
   \<and> md_effect (evaluate_matrix sample_specs (plain_input PD_ai ''x'' Mode_bunker)) = PE_deny"
proof -
  have valid: "validate_matrix (\<lambda>ref. ref = ''docs/POLICY_MATRIX.md'') (Some 56) (map sample_row sample_specs) = Inr []"
    unfolding validator_accepts covered_domains by (intro conjI; code_simp)
  have "list_all2 mirrors sample_specs (map sample_row sample_specs)"
    by (simp add: list_all2_conv_all_nth mirrors_def sample_row_def mirror_of_def)
  from validated_rows_reachable [OF this valid, of "sample_spec PD_ai" Mode_bunker]
  have "md_effect (evaluate_matrix sample_specs (plain_input PD_ai ''x'' Mode_bunker)) = row_effect (sample_spec PD_ai) Mode_bunker"
    by (simp add: sample_specs_def sample_spec_def matrix_spec.make_def KNOWN_MODES_def)
  also have "\<dots> = PE_deny" by code_simp
  finally show ?thesis using valid by simp
qed

end
