(* ===== verification/Core_Pipeline.thy ===== *)
theory Core_Pipeline
  imports Policy_Decision
begin

text \<open>
  The scaffolding above and below the policy: \<open>packages/core/src/index.ts\<close> (the pipeline that
  denies every operation), \<open>packages/security/src/index.ts\<close> (labels and audit events),
  \<open>packages/transports/src/index.ts\<close> (the loopback transport), \<open>packages/crypto/src/index.ts\<close>
  and \<open>packages/ai/src/index.ts\<close> (the providers that reject) and \<open>packages/sdk/src/index.ts\<close>.
  A rejected promise is \<^theory_text>\<open>Inl\<close>.
\<close>

datatype core_error =
    PolicyRequired
  | PolicyBypass
  | ForbiddenSideEffect
  | CryptoNotImplemented
  | AIDisabled

section \<open>Labels and audit events\<close>

definition redact :: "string \<Rightarrow> string" where
  "redact label = ''[redacted:'' @ label @ '']''"

record core_audit =
  ca_seq :: nat
  ca_kind :: string
  ca_detail :: string

text \<open>The counter \<open>auditSeq\<close> of the module is the state.\<close>

definition createAuditEvent :: "string \<Rightarrow> string \<Rightarrow> nat \<Rightarrow> core_audit \<times> nat" where
  "createAuditEvent kind detail auditSeq =
     (\<lparr>ca_seq = Suc auditSeq, ca_kind = kind, ca_detail = detail\<rparr>, Suc auditSeq)"

section \<open>The pipeline of the core\<close>

datatype operation_kind =
    Op_persist
  | Op_read_persisted
  | Op_notify
  | Op_connect
  | Op_transmit_capsule
  | Op_spool_capsule
  | Op_fetch_link_preview
  | Op_derive_artifact
  | Op_sync_room
  | Op_run_local_ai

fun operation_kind_name :: "operation_kind \<Rightarrow> string" where
  "operation_kind_name Op_persist = ''persist''"
| "operation_kind_name Op_read_persisted = ''read_persisted''"
| "operation_kind_name Op_notify = ''notify''"
| "operation_kind_name Op_connect = ''connect''"
| "operation_kind_name Op_transmit_capsule = ''transmit_capsule''"
| "operation_kind_name Op_spool_capsule = ''spool_capsule''"
| "operation_kind_name Op_fetch_link_preview = ''fetch_link_preview''"
| "operation_kind_name Op_derive_artifact = ''derive_artifact''"
| "operation_kind_name Op_sync_room = ''sync_room''"
| "operation_kind_name Op_run_local_ai = ''run_local_ai''"

record operation_context =
  oc_mode :: privacy_mode
  oc_roomId :: "jstr option"
  oc_description :: jstr

record 'p operation_request =
  or_kind :: operation_kind
  or_context :: operation_context
  or_payload :: 'p

datatype policy_evaluation =
    Evaluated_allowed dref
  | Evaluated_denied string

record pipeline_outcome =
  po_evaluation :: policy_evaluation
  po_audit :: core_audit

text \<open>The strictest policy of no profiles is computed and dropped.\<close>

definition fail_closed_execute :: "'p operation_request \<Rightarrow> nat \<Rightarrow> pipeline_outcome \<times> nat" where
  "fail_closed_execute request auditSeq =
     (let _ = resolveStrictestPolicy [];
          evaluation = Evaluated_denied ''Core operation pipeline is not implemented (Gate B). Failing closed.'';
          (audit, auditSeq') = createAuditEvent
             (''core.'' @ operation_kind_name (or_kind request) @ ''.denied'') (redact ''operation-payload'') auditSeq
      in (\<lparr>po_evaluation = evaluation, po_audit = audit\<rparr>, auditSeq'))"

definition core_requireDecision :: "policy_evaluation \<Rightarrow> core_error + dref" where
  "core_requireDecision evaluation = (case evaluation of
       Evaluated_allowed decision \<Rightarrow> Inr decision
     | Evaluated_denied _ \<Rightarrow> Inl PolicyRequired)"

fun fail_closed_run :: "'p operation_request list \<Rightarrow> nat \<Rightarrow> pipeline_outcome list \<times> nat" where
  "fail_closed_run [] n = ([], n)"
| "fail_closed_run (request # requests) n =
     (let (out, n') = fail_closed_execute request n; (outs, n'') = fail_closed_run requests n'
      in (out # outs, n''))"

section \<open>The loopback transport\<close>

text \<open>
  The queue holds the caller's byte arrays, not copies: it is a list of array references.  The
  guard reads the fields of the decision when the call runs.
\<close>

type_synonym bytes_ref = nat

definition transport_requireDecision :: "privacy_state \<Rightarrow> dref \<Rightarrow> policy_capability \<Rightarrow> core_error + unit" where
  "transport_requireDecision s r capability = (case authentic s r of
       None \<Rightarrow> Inl PolicyBypass
     | Some d \<Rightarrow>
         if pd_capability d \<noteq> capability then Inl PolicyBypass
         else if pd_verdict d \<noteq> Allowed then Inl ForbiddenSideEffect
         else Inr ())"

definition mock_transport_send ::
  "privacy_state \<Rightarrow> bytes_ref \<Rightarrow> dref \<Rightarrow> bytes_ref list \<Rightarrow> (core_error + unit) \<times> bytes_ref list" where
  "mock_transport_send s capsuleBytes r queue = (case transport_requireDecision s r Cap_network of
       Inl e \<Rightarrow> (Inl e, queue)
     | Inr _ \<Rightarrow> (Inr (), queue @ [capsuleBytes]))"

definition mock_transport_receive ::
  "privacy_state \<Rightarrow> dref \<Rightarrow> bytes_ref list \<Rightarrow> (core_error + bytes_ref list) \<times> bytes_ref list" where
  "mock_transport_receive s r queue = (case transport_requireDecision s r Cap_network of
       Inl e \<Rightarrow> (Inl e, queue)
     | Inr _ \<Rightarrow> (Inr queue, []))"

section \<open>Providers that reject\<close>

datatype crypto_request =
    Crypto_seal "8 word list" jstr jstr
  | Crypto_open "8 word list" jstr jstr
  | Crypto_sign "8 word list" jstr jstr
  | Crypto_verify "8 word list" "8 word list" jstr jstr

definition unimplemented_crypto :: "crypto_request \<Rightarrow> core_error + 8 word list" where
  "unimplemented_crypto request = Inl CryptoNotImplemented"

datatype ai_task =
    Task_room_summary
  | Task_task_extraction
  | Task_decision_extraction
  | Task_document_qa
  | Task_semantic_search
  | Task_privacy_risk_explanation

record ai_request =
  ai_task :: ai_task
  ai_roomScope :: jstr

definition disabled_ai_run :: "ai_request \<Rightarrow> dref \<Rightarrow> core_error + jstr" where
  "disabled_ai_run request decision = Inl AIDisabled"

section \<open>The client of the SDK\<close>

record freelayer_status =
  fs_stage :: string
  fs_crypto :: string
  fs_productFeatures :: string
  fs_networking :: string
  fs_localAI :: string
  fs_release :: string
  fs_warning :: string

definition describeStatus :: freelayer_status where
  "describeStatus = \<lparr>fs_stage = ''research_foundation'', fs_crypto = ''not_implemented'',
     fs_productFeatures = ''none'', fs_networking = ''none'', fs_localAI = ''disabled_not_implemented'',
     fs_release = ''none'', fs_warning = ''Do not use with real secrets yet.''\<rparr>"

section \<open>Failing closed\<close>

text \<open>Whatever operations are executed, none obtains a decision, the audit events are numbered
  consecutively, and what an event says depends on the kind of the operation alone: neither its
  payload nor its context can be read in it.\<close>

theorem core_fails_closed:
  "list_all (\<lambda>out. core_requireDecision (po_evaluation out) = Inl PolicyRequired) (fst (fail_closed_run requests n))
   \<and> map (ca_seq \<circ> po_audit) (fst (fail_closed_run requests n)) = [Suc n..<Suc (n + length requests)]
   \<and> map (\<lambda>out. (ca_kind (po_audit out), ca_detail (po_audit out))) (fst (fail_closed_run requests n))
       = map (\<lambda>kind. (''core.'' @ operation_kind_name kind @ ''.denied'', ''[redacted:operation-payload]''))
           (map or_kind requests)"
proof (induction requests arbitrary: n)
  case (Cons request requests)
  have "fail_closed_execute request n =
      (\<lparr>po_evaluation = Evaluated_denied ''Core operation pipeline is not implemented (Gate B). Failing closed.'',
        po_audit = \<lparr>ca_seq = Suc n, ca_kind = ''core.'' @ operation_kind_name (or_kind request) @ ''.denied'',
          ca_detail = redact ''operation-payload''\<rparr>\<rparr>, Suc n)"
    by (simp add: fail_closed_execute_def createAuditEvent_def)
  moreover have "[Suc n..<Suc (n + length (request # requests))] = Suc n # [Suc (Suc n)..<Suc (Suc n + length requests)]"
    by (subst upt_conv_Cons) (simp_all del: upt_Suc)
  ultimately show ?case
    using Cons.IH [of "Suc n"]
    by (simp add: split_beta Let_def core_requireDecision_def redact_def)
qed simp

section \<open>What the transport delivers\<close>

datatype transport_call = TC_send bytes_ref dref | TC_receive dref

text \<open>A run: each call meets the registry of decisions as it is then.\<close>

fun transport_run ::
  "(privacy_state \<times> transport_call) list \<Rightarrow> bytes_ref list \<Rightarrow> bytes_ref list list \<times> bytes_ref list" where
  "transport_run [] queue = ([], queue)"
| "transport_run ((s, TC_send b r) # calls) queue = transport_run calls (snd (mock_transport_send s b r queue))"
| "transport_run ((s, TC_receive r) # calls) queue =
     (case mock_transport_receive s r queue of
        (Inl _, queue') \<Rightarrow> transport_run calls queue'
      | (Inr got, queue') \<Rightarrow> (let (gots, q) = transport_run calls queue' in (got # gots, q)))"

definition network_allowed :: "privacy_state \<Rightarrow> dref \<Rightarrow> bool" where
  "network_allowed s r = (case authentic s r of
       None \<Rightarrow> False | Some d \<Rightarrow> pd_capability d = Cap_network \<and> pd_verdict d = Allowed)"

definition accepted_sends :: "(privacy_state \<times> transport_call) list \<Rightarrow> bytes_ref list" where
  "accepted_sends calls = concat (map (\<lambda>(s, c). case c of
       TC_send b r \<Rightarrow> if network_allowed s r then [b] else [] | TC_receive r \<Rightarrow> []) calls)"

lemma transport_gate: "transport_requireDecision s r Cap_network = Inr () \<longleftrightarrow> network_allowed s r"
  by (auto simp: transport_requireDecision_def network_allowed_def split: option.splits)

lemma mock_transport_simps:
  "network_allowed s r \<Longrightarrow> mock_transport_send s b r q = (Inr (), q @ [b])"
  "network_allowed s r \<Longrightarrow> mock_transport_receive s r q = (Inr q, [])"
  "\<not> network_allowed s r \<Longrightarrow> snd (mock_transport_send s b r q) = q"
  "\<not> network_allowed s r \<Longrightarrow> \<exists>e. mock_transport_receive s r q = (Inl e, q)"
  unfolding transport_gate [symmetric]
  by (auto simp: mock_transport_send_def mock_transport_receive_def split: sum.splits)


text \<open>The guard of this transport never reads the scope: a decision issued for a read receipt lets a
  capsule be sent, although scopes are documented to keep a decision for one operation from
  authorizing another.\<close>

theorem transport_scope_unchecked:
  "(let (r, s) = issuePolicyDecision Cap_network Allowed Mode_bunker ''receipt.emit'' privacy_init
    in fst (mock_transport_send s 7 r []) = Inr ())"
  by (simp add: issuePolicyDecision_def privacy_init_def mock_transport_send_def transport_requireDecision_def
      authentic_def isPolicyDecision_def Let_def)

end
