(* ===== verification/Spec2Isabelle.thy ===== *)
theory Spec2Isabelle
  imports
    FL_Prelude FL_Errors Error_Taxonomy FL_Sorting
    Policy_Decision Policy_Matrix Policy_Matrix_Table Matrix_Rows
    Room_Types Room_Policy Room_State Room_Events Room_Reducer Event_Log Room_Log Room_Factory
    Object_Types Object_Commands Object_Events Object_Pipeline
    Membership_Types Membership_Capability Membership_Events Membership_Pipeline
    Policy_Document Policy_Composition Governance
    Authorization Room_System
    Query_Types Query_Engine Query_Guarantees Query_Erasure
    Storage_Policy Storage_Provider Storage_Memory
    Network_Policy
    Metadata_Policy Metadata_Barrier Notification_Policy
    Url_Policy Privacy_Layers
    Repo_Regex Repo_Scan Repo_Guards Repo_Docs Repo_Links Repo_Matrix Repo_Matrix_Sound
    Core_Pipeline
begin

text \<open>
  A verification library of FreeLayer's policy core and RoomOS foundation.

  The program.  FreeLayer is a local-first room platform written in TypeScript.  Its core
  (\<open>packages/privacy\<close>) issues policy decisions and evaluates a policy matrix; on top of
  it \<open>packages/rooms\<close> keeps rooms as event-sourced state: every side effect needs an
  authentic decision of its exact scope, every state is a pure fold of accepted events, and
  every composition of policies may only tighten.  The development follows that structure.

  The prelude.  \<open>FL_Prelude\<close> has the error monad of the development (a thrown error is
  \<^theory_text>\<open>Inl\<close>; \<open>ebind\<close>, \<open>throw_if\<close>, \<open>need\<close>, \<open>efold\<close>),
  the array operations, strings as UTF-16 code units, and untyped JavaScript values for the
  boundaries that take \<open>unknown\<close>.  \<open>FL_Errors\<close> has the error taxonomy as values,
  \<open>Error_Taxonomy\<close> the objects a caller catches, with their names, codes and messages,
  \<open>FL_Sorting\<close> a stable sort by a comparator with its laws as a locale.

  Policy core.  \<open>Policy_Decision\<close> (\<open>privacy/src/index.ts\<close>): a decision is a
  reference into a heap and the registry is the set of references the factory returned; what
  other code can do to it is a step relation.  The locale \<open>decision_gate\<close> is the contract
  of every barrier of the program, and each barrier interprets it.  \<open>Policy_Matrix\<close>,
  \<open>Policy_Matrix_Table\<close>, \<open>Matrix_Rows\<close> (\<open>policyMatrix.ts\<close>,
  \<open>policyMatrixTypes.ts\<close>): effects and their strictness order, evaluation over any table,
  every row of the shipped table, and facts about those rows.

  Rooms.  \<open>Room_Types\<close>, \<open>Room_Policy\<close>, \<open>Room_State\<close>,
  \<open>Room_Events\<close>, \<open>Room_Reducer\<close>, \<open>Room_Log\<close>, \<open>Room_Factory\<close> follow
  \<open>room-types.ts\<close>, \<open>room-policy.ts\<close>, \<open>room-state.ts\<close>,
  \<open>room-event-v1.ts\<close>, \<open>room-lifecycle.ts\<close> and \<open>room-reducer.ts\<close>,
  \<open>room-log.ts\<close>, and the factory, audit and tolerant projection.  \<open>Event_Log\<close> is
  the contract all in-memory logs share, with what holds after any history of appends proved
  once; the room, object and membership logs interpret it.

  Objects.  \<open>Object_Types\<close>, \<open>Object_Commands\<close>, \<open>Object_Events\<close>,
  \<open>Object_Pipeline\<close> follow \<open>rooms/src/objects/\<close>: content with its limits, the
  validator of mutation commands, lifecycle and status machines, resulting objects and events,
  the reducer, the logs and \<open>applyLocalRoomObjectMutationV1\<close> with all its steps.

  Membership.  \<open>Membership_Types\<close>, \<open>Membership_Capability\<close>,
  \<open>Membership_Events\<close>, \<open>Membership_Pipeline\<close> follow \<open>rooms/src/membership/\<close>:
  roles and capabilities, resolution, attenuation, authorization contexts, commands, events,
  reducer, redacted queries, logs and \<open>applyLocalRoomMembershipMutationV1\<close>.

  Authorization.  \<open>Authorization\<close> follows \<open>rooms/src/authorization/\<close>: the revision
  of a room's policy and its fingerprint, prepared authorizations, their revalidation at use,
  the authority of roles, and the revocation pipeline, which calls the membership pipeline.

  Policy documents and governance.  \<open>Policy_Document\<close>, \<open>Policy_Composition\<close>,
  \<open>Governance\<close> follow \<open>rooms/src/policy-composition/\<close>: posture, protected content,
  layers, the document and its comparison, the composition and the admission of sensitive rooms,
  and the governance commands, events, logs and pipeline, which revalidates a prepared
  authorization.

  The room as a system.  \<open>Room_System\<close> puts the membership, revocation, object and governance
  pipelines over one state and one decision registry as a step relation, \<open>room_system_step\<close>: what
  one pipeline leaves of the others' state, one invariant of every interleaving, and that an
  authorization accepted late has seen no change of its member or of the policy since it was prepared.

  Queries.  \<open>Query_Types\<close>, \<open>Query_Engine\<close> follow \<open>rooms/src/query/\<close>: the
  validator of requests and cursors, the query policy, the snapshot, views and redaction, search,
  filters, sorting, pagination and \<open>executeRoomQueryV1\<close>; \<open>Query_Guarantees\<close> has what
  an executed query can show, and the completeness of its pages; \<open>Query_Erasure\<close>, by erasure of
  what a policy hides, that hidden data does not influence an answer (status and tag filters, which
  the executor accepts under any policy, excepted).

  Storage.  \<open>Storage_Policy\<close>, \<open>Storage_Provider\<close>, \<open>Storage_Memory\<close> follow
  \<open>packages/storage/src/\<close>: data classes and backends, the resolution of the policy of a class in
  a mode, the zero-persistence assertions, the barrier, keys and values, and the memory, null and
  placeholder providers.  A provider is a function of the call and its records; the memory provider
  refines a finite map from classes and keys to records, call by call and over whole runs.

  Transports.  \<open>Network_Policy\<close> follows \<open>packages/transports/src/network*.ts\<close>: operations
  and transport classes, leakage labels, the resolution of the policy, the validation of endpoints
  over a parser of URLs (the platform's, a parameter), the barrier and the no-op and mock
  transports.

  Metadata and notifications.  \<open>Metadata_Policy\<close>, \<open>Metadata_Barrier\<close>,
  \<open>Notification_Policy\<close> follow \<open>privacy/src/metadata*.ts\<close> and
  \<open>notification*.ts\<close>: events and sinks, the quick check, redaction and audit events, the
  resolution of both policies, the hooks of application signals, and both barriers.

  URLs.  \<open>Url_Policy\<close> follows \<open>urlClassification.ts\<close>, \<open>linkPreviewPolicy.ts\<close>,
  \<open>externalAssetPolicy.ts\<close> and \<open>policyConflicts.ts\<close>: the classification of a string as a
  URL and its label, the preview and asset policies, and the report of a policy conflict.

  The layers together.  \<open>Privacy_Layers\<close> has what a mode promises across the storage, network,
  metadata and notification policies, and that no layer fetches remote content.

  Core.  \<open>Core_Pipeline\<close> follows \<open>core/src/index.ts\<close>, \<open>security/src/index.ts\<close>, the
  loopback transport of \<open>transports/src/index.ts\<close>, and the placeholder providers of the crypto,
  ai and sdk packages: the pipeline fails closed, the transport is a guarded queue.

  Repository checks.  \<open>Repo_Regex\<close>, \<open>Repo_Scan\<close>, \<open>Repo_Guards\<close>,
  \<open>Repo_Docs\<close>, \<open>Repo_Links\<close> follow \<open>scripts/_util.mjs\<close> and the \<open>scripts/check-*.mjs\<close> guards: a
  guard is a function of the file tree, the text of a file is a sequence of code units, and its
  regular expressions are values with a matcher.  \<open>JSON.parse\<close> is a parameter.
  \<open>Repo_Matrix\<close> and \<open>Repo_Matrix_Sound\<close> follow \<open>validate-policy-matrix.mjs\<close> and the
  matrix part of \<open>check-policy-conflicts.mjs\<close>, and say what a file that passes promises of the
  evaluation of its rows.

  What the lemmas show.  Resolved policies are their tables.  Barriers are exact (what passes is what the documentation says);
  composition only tightens; validators accept exactly the well-formed values within their
  limits and are idempotent; reducers keep the invariants of their state and never undo a
  redaction or a tombstone; replay succeeds exactly on exact logs and gives the state the
  pipeline held; pipelines are all or nothing, and where they are not the exception is stated.

  Conventions.  A pipeline call is a function of the privacy state (the decision registry), the
  call's input and the log; it returns the result or the error and the log afterwards.  A clock
  is the list of its readings, one argument per reading.  Enumerations are datatypes with a name
  table; a mode that is not one of the seven is \<open>Mode_other\<close>.  Deep clones of immutable
  values are the identity.  Literal-typed constant fields (schema versions, flags that are
  always \<open>false\<close>) are omitted.  Every loop of the code modelled runs over an
  array, and is a fold or a structural recursion, or, in \<open>decodeURI\<close>, over the rest of a text
  that gets shorter; only the matcher of patterns bounds a star, by the units left, which \<open>rx_test_exact\<close> shows to be enough.

  Not modelled: the static details of errors; the rationale texts of the matrix and the
  reason texts of the network, metadata, notification and link policies; the protocol and capsule
  drafts, which only declare types; the user interface and applications; the configuration of the
  linter; of the scripts, the
  publishing of the wiki, and the console output and exit codes of the checks.
\<close>

end
